(* ===== verification/Prelude.thy ===== *)
theory Prelude
  imports Main "HOL-Library.Multiset" "HOL-Library.List_Lexorder" "HOL-Library.Char_ord"
begin

text \<open>
  What every component of the development shares: the outcome of a Go function that may
  panic or block, \<open>strconv.Itoa\<close>, the length in characters of a UTF-8 string, and the
  operations on table rows that the SQL statements of the repositories come down to, with
  the lemmas the component theories use.
\<close>

named_theorems row_simps "selection, update and deletion of table rows"

section \<open>Outcomes of Go functions\<close>

text \<open>
  A function of the program returns, panics (a nil dereference, a method call on a nil
  interface), or never comes back because it waits for a mutex that is never released or
  for a channel nobody reads. Error values are ordinary results: a sum with the error on
  the left.
\<close>

datatype 'a go = Return 'a | Panic | Block

fun go_bind :: "'a go \<Rightarrow> ('a \<Rightarrow> 'b go) \<Rightarrow> 'b go" where
  "go_bind (Return x) k = k x"
| "go_bind Panic k = Panic"
| "go_bind Block k = Block"

lemma go_bind_Return_iff: "go_bind m k = Return y \<longleftrightarrow> (\<exists>x. m = Return x \<and> k x = Return y)"
  by (cases m) auto

lemma go_bind_assoc: "go_bind (go_bind m k) h = go_bind m (\<lambda>x. go_bind (k x) h)"
  by (cases m) auto

section \<open>strconv.Itoa\<close>

definition digit :: "nat \<Rightarrow> char" where
  "digit n = ''0123456789'' ! n"

fun ndigits :: "nat \<Rightarrow> string" where
  "ndigits n = (if n < 10 then [digit n] else ndigits (n div 10) @ [digit (n mod 10)])"

declare ndigits.simps [simp del]

definition itoa :: "int \<Rightarrow> string" where
  "itoa i = (if i < 0 then CHR ''-'' # ndigits (nat (- i)) else ndigits (nat i))"

lemma digit_inject: "m < 10 \<Longrightarrow> n < 10 \<Longrightarrow> digit m = digit n \<longleftrightarrow> m = n"
  unfolding digit_def by (subst nth_eq_iff_index_eq) auto

lemma digit_in: "n < 10 \<Longrightarrow> digit n \<in> set ''0123456789''"
  unfolding digit_def by (rule nth_mem) simp

lemma set_ndigits: "c \<in> set (ndigits n) \<Longrightarrow> \<exists>k<10. c = digit k"
proof (induction n rule: ndigits.induct)
  case (1 n)
  show ?case
  proof (cases "n < 10")
    case True
    with 1 show ?thesis by (subst (asm) ndigits.simps) auto
  next
    case False
    with "1.prems" have "c \<in> set (ndigits (n div 10)) \<or> c = digit (n mod 10)"
      by (subst (asm) ndigits.simps) auto
    then show ?thesis using False "1.IH" by (auto intro: exI [of _ "n mod 10"])
  qed
qed

lemma ndigits_neq_Nil [simp]: "ndigits n \<noteq> []"
  by (subst ndigits.simps) simp

lemma length_ndigits_small: "n < 10 \<Longrightarrow> ndigits n = [digit n]"
  by (subst ndigits.simps) simp

lemma ndigits_snoc: "10 \<le> n \<Longrightarrow> ndigits n = ndigits (n div 10) @ [digit (n mod 10)]"
  by (subst ndigits.simps) simp

lemma ndigits_inject: "ndigits m = ndigits n \<longleftrightarrow> m = n"
proof (induction m arbitrary: n rule: ndigits.induct)
  case (1 m)
  consider "m < 10" "n < 10" | "m < 10" "10 \<le> n" | "10 \<le> m" "n < 10" | "10 \<le> m" "10 \<le> n"
    by linarith
  then show ?case
  proof cases
    case 1 then show ?thesis by (simp add: length_ndigits_small digit_inject)
  next
    case 2 then show ?thesis by (auto simp: length_ndigits_small ndigits_snoc dest: sym)
  next
    case 3 then show ?thesis by (simp add: length_ndigits_small ndigits_snoc)
  next
    case 4
    have "ndigits m = ndigits n \<longleftrightarrow>
        ndigits (m div 10) = ndigits (n div 10) \<and> digit (m mod 10) = digit (n mod 10)"
      using 4 by (simp add: ndigits_snoc)
    also have "\<dots> \<longleftrightarrow> m div 10 = n div 10 \<and> m mod 10 = n mod 10"
      using 1 4 by (simp add: digit_inject)
    also have "\<dots> \<longleftrightarrow> m = n" by (metis div_mult_mod_eq)
    finally show ?thesis .
  qed
qed

lemma hd_ndigits: "hd (ndigits n) \<noteq> CHR ''-''" "hd (ndigits n) \<noteq> CHR ''*''"
proof -
  obtain k where "k < 10" "hd (ndigits n) = digit k"
    using set_ndigits hd_in_set [OF ndigits_neq_Nil [of n]] by blast
  then have "hd (ndigits n) \<in> set ''0123456789''" using digit_in by metis
  then show "hd (ndigits n) \<noteq> CHR ''-''" "hd (ndigits n) \<noteq> CHR ''*''" by auto
qed

lemma itoa_inject [simp]: "itoa i = itoa j \<longleftrightarrow> i = j"
proof -
  have "CHR ''-'' # xs \<noteq> ndigits n" for xs n
    using hd_ndigits(1) [of n] by (metis list.sel(1))
  then show ?thesis
    unfolding itoa_def by (auto simp: ndigits_inject nat_eq_iff dest: sym)
qed

lemma itoa_neq_star [simp]: "itoa i \<noteq> ''*''" "''*'' \<noteq> itoa i"
proof -
  show "itoa i \<noteq> ''*''" using hd_ndigits(2) [of "nat i"] by (auto simp: itoa_def)
  then show "''*'' \<noteq> itoa i" by simp
qed

lemma itoa_neq_Nil [simp]: "itoa i \<noteq> []"
  by (simp add: itoa_def)

section \<open>Strings as bytes\<close>

text \<open>
  Go strings are UTF-8 bytes: \<open>len\<close> counts bytes, Postgres's \<open>LENGTH\<close> counts characters.
  A byte 10xxxxxx continues a character, every other byte starts one.
\<close>

definition utf8_cont :: "char \<Rightarrow> bool" where
  "utf8_cont c = (let b = of_char c :: nat in 128 \<le> b \<and> b < 192)"

definition char_length :: "string \<Rightarrow> nat" where
  "char_length s = length (filter (\<lambda>c. \<not> utf8_cont c) s)"

lemma char_length_le: "char_length s \<le> length s"
  by (simp add: char_length_def)

section \<open>Rows\<close>

text \<open>\<open>UPDATE t SET \<dots> WHERE p\<close>, \<open>DELETE FROM t WHERE p\<close>, \<open>LIMIT size OFFSET start\<close>.\<close>

definition update_where :: "('r \<Rightarrow> bool) \<Rightarrow> ('r \<Rightarrow> 'r) \<Rightarrow> 'r list \<Rightarrow> 'r list" where
  "update_where p f rows = map (\<lambda>r. if p r then f r else r) rows"

definition delete_where :: "('r \<Rightarrow> bool) \<Rightarrow> 'r list \<Rightarrow> 'r list" where
  "delete_where p rows = filter (\<lambda>r. \<not> p r) rows"

definition limit_offset :: "int \<Rightarrow> int \<Rightarrow> 'r list \<Rightarrow> 'r list" where
  "limit_offset lim start rows = take (nat lim) (drop (nat start) rows)"

lemma set_delete_where [row_simps, simp]: "set (delete_where p rows) = {r \<in> set rows. \<not> p r}"
  by (auto simp: delete_where_def)

lemma set_update_where [row_simps, simp]:
  "set (update_where p f rows) = (\<lambda>r. if p r then f r else r) ` set rows"
  by (simp add: update_where_def)

lemma map_update_where [row_simps, simp]:
  "(\<And>r. g (f r) = g r) \<Longrightarrow> map g (update_where p f rows) = map g rows"
  by (auto simp: update_where_def)

lemma length_update_where [simp]: "length (update_where p f rows) = length rows"
  by (simp add: update_where_def)

lemma length_limit_offset: "0 \<le> lim \<Longrightarrow> int (length (limit_offset lim start rows)) \<le> lim"
  by (auto simp: limit_offset_def)

lemma set_limit_offset: "set (limit_offset lim start rows) \<subseteq> set rows"
  unfolding limit_offset_def by (meson set_drop_subset set_take_subset subset_trans)

lemma find_unique:
  assumes "distinct (map k rows)" and "r \<in> set rows" and "k r = i"
  shows "find (\<lambda>r. k r = i) rows = Some r"
  using assms by (induction rows) (auto simp: image_iff)

lemma find_cong_pred: "(\<And>r. r \<in> set rows \<Longrightarrow> p r = q r) \<Longrightarrow> find p rows = find q rows"
  by (induction rows) auto

lemma find_SomeD: "find p rows = Some r \<Longrightarrow> r \<in> set rows \<and> p r"
  by (induction rows) (auto split: if_splits)

lemma find_append: "find p (xs @ ys) = (case find p xs of None \<Rightarrow> find p ys | Some r \<Rightarrow> Some r)"
  by (induction xs) auto

lemma find_update_where [row_simps]:
  assumes "\<And>r. q r \<Longrightarrow> p (f r) = p r"
  shows "find p (update_where q f rows) = map_option (\<lambda>r. if q r then f r else r) (find p rows)"
  using assms by (induction rows) (auto simp: update_where_def)

lemma find_delete_where [row_simps]:
  "find p (delete_where q rows) = find (\<lambda>r. p r \<and> \<not> q r) rows"
  by (induction rows) (auto simp: delete_where_def)

lemma find_None_iff': "find p rows = None \<longleftrightarrow> (\<forall>r \<in> set rows. \<not> p r)"
  by (auto simp: find_None_iff)

text \<open>
  An order in which a query without \<open>ORDER BY\<close> delivers its rows: row by row, the position it is put
  at among those that follow. Every order is one of these.
\<close>

fun scanned :: "nat list \<Rightarrow> 'r list \<Rightarrow> 'r list" where
  "scanned ks [] = []"
| "scanned [] (r # rs) = r # rs"
| "scanned (k # ks) (r # rs) = take k (scanned ks rs) @ r # drop k (scanned ks rs)"

lemma mset_take_drop: "mset (take k rs) + mset (drop k rs) = mset rs"
  by (metis append_take_drop_id mset_append)

lemma mset_scanned [simp]: "mset (scanned ks rs) = mset rs"
  by (induction ks rs rule: scanned.induct) (simp_all add: mset_take_drop)

lemma scanned_perm [simp]:
  "set (scanned ks rs) = set rs" "length (scanned ks rs) = length rs" "distinct (scanned ks rs) = distinct rs"
  using mset_scanned [of ks rs] mset_eq_setD mset_eq_length mset_eq_imp_distinct_iff by blast+

lemma scanned_map: "map f (scanned ks rs) = scanned ks (map f rs)"
  by (induction ks rs rule: scanned.induct) (simp_all flip: take_map drop_map)

lemma every_order_scanned: "mset qs = mset rs \<Longrightarrow> \<exists>ks. scanned ks rs = qs"
proof (induction rs arbitrary: qs)
  case (Cons r rs)
  then have "r \<in> set qs" by (metis list.set_intros(1) mset_eq_setD)
  then obtain as bs where qs: "qs = as @ r # bs" by (auto simp: in_set_conv_decomp)
  with Cons.prems have "mset (as @ bs) = mset rs" by simp
  from Cons.IH [OF this] obtain ks where "scanned ks rs = as @ bs" by blast
  then have "scanned (length as # ks) (r # rs) = qs" by (simp add: qs)
  then show ?case by blast
qed simp

lemma limit_offset_pages:
  assumes "0 \<le> a" "0 \<le> n" "0 \<le> m"
  shows "limit_offset n a rows @ limit_offset m (a + n) rows = limit_offset (n + m) a rows"
  using assms by (simp add: limit_offset_def nat_add_distrib take_add add.commute [of "nat n" "nat a"])

end
