(* ===== verification/Merger.thy ===== *)
theory Merger
  imports Json
begin

text \<open>
  \<open>internal/pkg/utils/merger/merger.go\<close>: the merge of a JSON patch into a JSON document,
  with which a battle session applies the messages of its participants.

  A decoded JSON value (\<open>interface{}\<close> after \<open>UseNumber\<close>) is a \<open>json\<close>; a Go map is an
  association list with distinct keys (\<open>wf_json\<close>) whose order is the order in which a
  \<open>range\<close> loop happens to visit it. The results do not depend on that order
  (\<open>merge_order_irrelevant\<close>), up to the key order that \<open>json.Marshal\<close> fixes (\<open>canon\<close>).
\<close>

section \<open>The merge\<close>

text \<open>
  \<open>mergeObjects\<close> and \<open>mergeValue\<close> with the two loops of \<open>mergeObjects\<close> as functions of
  their own. The error carries the path of the offending key, the source's \<open>pathStr\<close>.
\<close>

function mergeObjects :: "json \<Rightarrow> json \<Rightarrow> string list \<Rightarrow> string list + json"
  and mergeArray :: "string list \<Rightarrow> (string \<times> json) list \<Rightarrow> nat \<Rightarrow> json list \<Rightarrow> string list + json list"
  and mergeFields :: "string list \<Rightarrow> (string \<times> json) list \<Rightarrow> (string \<times> json) list
        \<Rightarrow> string list + (string \<times> json) list"
  and mergeValue :: "string list \<Rightarrow> (string \<times> json) list \<Rightarrow> string \<Rightarrow> json \<Rightarrow> string list + json"
where
  "mergeObjects data patch path =
     (case patch of
        JObj patchObject \<Rightarrow>
          (case data of
             JArr dataArray \<Rightarrow>
               (case mergeArray path patchObject 0 dataArray of
                  Inl e \<Rightarrow> Inl e
                | Inr ret \<Rightarrow> Inr (JArr ret))
           | JObj dataObject \<Rightarrow>
               (case mergeFields path patchObject dataObject of
                  Inl e \<Rightarrow> Inl e
                | Inr ret \<Rightarrow>
                    Inr (JObj (ret @ filter (\<lambda>(k, v). k \<notin> fst ` set dataObject) patchObject)))
           | _ \<Rightarrow> Inr data)
      | _ \<Rightarrow> Inr data)"
| "mergeArray path patch i [] = Inr []"
| "mergeArray path patch i (val # vals) =
     (case mergeValue path patch (itoa (int i)) val of
        Inl e \<Rightarrow> Inl e
      | Inr v \<Rightarrow>
          (case mergeArray path patch (Suc i) vals of Inl e \<Rightarrow> Inl e | Inr vs \<Rightarrow> Inr (v # vs)))"
| "mergeFields path patch [] = Inr []"
| "mergeFields path patch ((k, val) # kvs) =
     (case mergeValue path patch k val of
        Inl e \<Rightarrow> Inl e
      | Inr v \<Rightarrow>
          (case mergeFields path patch kvs of Inl e \<Rightarrow> Inl e | Inr vs \<Rightarrow> Inr ((k, v) # vs)))"
| "mergeValue path patch key val =
     (case map_of patch key of
        None \<Rightarrow> Inr val
      | Some patchValue \<Rightarrow>
          (case val of
             JObj _ \<Rightarrow>
               if \<not> is_obj patchValue then Inl (path @ [key])
               else mergeObjects val patchValue (path @ [key])
           | JArr _ \<Rightarrow>
               if is_obj patchValue then mergeObjects val patchValue (path @ [key])
               else Inr patchValue
           | _ \<Rightarrow> Inr patchValue))"
  by pat_completeness auto
termination
  by (relation "measure (\<lambda>x. case x of
        Inl (Inl (data, _, _)) \<Rightarrow> 2 * size data
      | Inl (Inr (_, _, _, vals)) \<Rightarrow> 2 * size_list size vals
      | Inr (Inl (_, _, kvs)) \<Rightarrow> 2 * size_list (size_prod (\<lambda>_. 0) size) kvs
      | Inr (Inr (_, _, _, val)) \<Rightarrow> 2 * size val + 1)") auto

declare mergeObjects.simps [simp del] mergeValue.simps [simp del]

text \<open>
  \<open>Merge\<close>: the two buffers are decoded, merged and marshalled. Decoding
  (\<open>json.Decoder\<close> with \<open>UseNumber\<close>) and marshalling are parameters: \<open>dec\<close> is \<open>None\<close> on
  a buffer that does not start with a JSON value.
\<close>

datatype merge_error = BadData | BadPatch | Conflict "string list"

definition Merge :: "('b \<Rightarrow> json option) \<Rightarrow> (json \<Rightarrow> 'b) \<Rightarrow> 'b \<Rightarrow> 'b \<Rightarrow> merge_error + 'b" where
  "Merge dec enc dataBuf patchBuf =
     (case dec dataBuf of
        None \<Rightarrow> Inl BadData
      | Some data \<Rightarrow>
          (case dec patchBuf of
             None \<Rightarrow> Inl BadPatch
           | Some patch \<Rightarrow>
               (case mergeObjects data patch [] of
                  Inl path \<Rightarrow> Inl (Conflict path)
                | Inr merged \<Rightarrow> Inr (enc merged))))"

section \<open>The loops\<close>

lemma mergeArray_Cons:
  "mergeArray path po i (v # vs) = Inr ws \<longleftrightarrow>
     (\<exists>w ws'. ws = w # ws' \<and> mergeValue path po (itoa (int i)) v = Inr w \<and>
        mergeArray path po (Suc i) vs = Inr ws')"
  by (auto split: sum.splits)

lemma mergeArray_Inr_iff:
  "mergeArray path po i vs = Inr ws \<longleftrightarrow>
     length ws = length vs \<and>
     (\<forall>j < length vs. mergeValue path po (itoa (int i + int j)) (vs ! j) = Inr (ws ! j))"
proof (induction vs arbitrary: i ws)
  case (Cons v vs)
  show ?case
    unfolding mergeArray_Cons Cons.IH
    by (cases ws) (auto simp: All_less_Suc2 ac_simps)
qed auto

lemma mergeArray_Inl:
  "mergeArray path po i vs = Inl e \<Longrightarrow>
     \<exists>j < length vs. mergeValue path po (itoa (int i + int j)) (vs ! j) = Inl e"
proof (induction vs arbitrary: i)
  case (Cons v vs)
  show ?case
  proof (cases "mergeValue path po (itoa (int i)) v")
    case (Inl e')
    with Cons.prems show ?thesis by (intro exI [of _ 0]) simp
  next
    case (Inr w)
    with Cons.prems have "mergeArray path po (Suc i) vs = Inl e" by (simp split: sum.splits)
    from Cons.IH [OF this] obtain j where
      "j < length vs" "mergeValue path po (itoa (int (Suc i) + int j)) (vs ! j) = Inl e" by blast
    then show ?thesis by (intro exI [of _ "Suc j"]) (simp add: ac_simps)
  qed
qed simp

lemma mergeFields_keys: "mergeFields path po kvs = Inr ms \<Longrightarrow> map fst ms = map fst kvs"
  by (induction kvs arbitrary: ms) (auto split: sum.splits)

lemma mergeFields_lookup:
  "mergeFields path po kvs = Inr ms \<Longrightarrow>
     (case map_of kvs k of
        None \<Rightarrow> map_of ms k = None
      | Some v \<Rightarrow> \<exists>w. mergeValue path po k v = Inr w \<and> map_of ms k = Some w)"
  by (induction kvs arbitrary: ms) (auto split: sum.splits option.splits if_splits)

lemma mergeFields_Inl:
  "mergeFields path po kvs = Inl e \<Longrightarrow>
     \<exists>(k, v) \<in> set kvs. mergeValue path po k v = Inl e"
  by (induction kvs) (auto split: sum.splits)

lemma mergeFields_Inr_iff:
  "(\<exists>ms. mergeFields path po kvs = Inr ms) \<longleftrightarrow>
     (\<forall>(k, v) \<in> set kvs. \<exists>w. mergeValue path po k v = Inr w)"
  by (induction kvs) (auto split: sum.splits)

lemma map_of_filter_keys:
  "map_of (filter (\<lambda>(k, v). k \<notin> A) kvs) k = (if k \<in> A then None else map_of kvs k)"
  by (induction kvs) auto

text \<open>The lookup equation of a merged object: what the theorems below are derived from.\<close>

lemma merge_object_lookup:
  assumes "mergeObjects (JObj kvs) (JObj po) path = Inr m"
  shows "\<exists>ms. m = JObj ms \<and>
     (\<forall>k. map_of kvs k = None \<longrightarrow> map_of ms k = map_of po k) \<and>
     (\<forall>k v. map_of kvs k = Some v \<longrightarrow>
        (\<exists>w. mergeValue path po k v = Inr w \<and> map_of ms k = Some w))"
proof -
  from assms obtain ret where ret: "mergeFields path po kvs = Inr ret"
    and m: "m = JObj (ret @ filter (\<lambda>(k, v). k \<notin> fst ` set kvs) po)"
    by (auto simp: mergeObjects.simps split: sum.splits)
  note look = mergeFields_lookup [OF ret]
  show ?thesis
  proof (intro exI [of _ "ret @ filter (\<lambda>(k, v). k \<notin> fst ` set kvs) po"] conjI allI impI m)
    fix k assume none: "map_of kvs k = None"
    then have "map_of ret k = None" using look [of k] by simp
    with none show "map_of (ret @ filter (\<lambda>(k, v). k \<notin> fst ` set kvs) po) k = map_of po k"
      using map_of_eq_None_iff [of kvs k] by (simp add: map_of_filter_keys map_add_def)
  next
    fix k v assume "map_of kvs k = Some v"
    then obtain w where w: "mergeValue path po k v = Inr w" "map_of ret k = Some w"
      using look [of k] by auto
    have "k \<in> fst ` set kvs"
      using \<open>map_of kvs k = Some v\<close> by (metis map_of_eq_None_iff option.distinct(1))
    with w show "\<exists>w. mergeValue path po k v = Inr w \<and>
        map_of (ret @ filter (\<lambda>(k, v). k \<notin> fst ` set kvs) po) k = Some w"
      by (simp add: map_of_filter_keys map_add_def)
  qed
qed

lemma mergeObjects_not_obj:
  "\<not> is_obj patch \<Longrightarrow> mergeObjects data patch path = Inr data"
  by (cases patch) (auto simp: mergeObjects.simps)

lemma mergeObjects_scalar:
  "\<not> is_obj data \<Longrightarrow> \<not> is_arr data \<Longrightarrow> mergeObjects data patch path = Inr data"
  by (cases data; cases patch) (auto simp: mergeObjects.simps)

lemma merge_is_obj: "mergeObjects d p path = Inr m \<Longrightarrow> is_obj m = is_obj d"
  by (cases d; cases p) (auto simp: mergeObjects.simps split: sum.splits)

lemma merge_is_arr: "mergeObjects d p path = Inr m \<Longrightarrow> is_arr m = is_arr d"
  by (cases d; cases p) (auto simp: mergeObjects.simps split: sum.splits)

text \<open>\<open>mergeValue\<close> by the shape of the value.\<close>

lemma mergeValue_None: "map_of po k = None \<Longrightarrow> mergeValue path po k v = Inr v"
  by (simp add: mergeValue.simps)

lemma mergeValue_Some:
  assumes "map_of po k = Some pv"
  shows "mergeValue path po k v =
     (if is_obj v then (if is_obj pv then mergeObjects v pv (path @ [k]) else Inl (path @ [k]))
      else if is_arr v \<and> is_obj pv then mergeObjects v pv (path @ [k])
      else Inr pv)"
  using assms by (cases v) (auto simp: mergeValue.simps)

section \<open>The merged document at a path\<close>

text \<open>\<open>at j ks\<close> follows object keys only; \<open>locate\<close> also follows array indices.\<close>

fun at :: "json \<Rightarrow> string list \<Rightarrow> json option" where
  "at j [] = Some j"
| "at (JObj kvs) (k # ks) = (case map_of kvs k of None \<Rightarrow> None | Some v \<Rightarrow> at v ks)"
| "at _ (k # ks) = None"

lemma at_Cons: "at j (k # ks) =
    (case j of JObj kvs \<Rightarrow> (case map_of kvs k of None \<Rightarrow> None | Some v \<Rightarrow> at v ks) | _ \<Rightarrow> None)"
  by (cases j) auto

lemma at_not_obj: "\<not> is_obj j \<Longrightarrow> at j ks \<noteq> None \<Longrightarrow> ks = []"
  by (cases ks; cases j) auto

lemma is_objE: "is_obj j \<Longrightarrow> (\<And>kvs. j = JObj kvs \<Longrightarrow> thesis) \<Longrightarrow> thesis"
  by (cases j) auto

lemma merge_at_kept:
  "mergeObjects data patch path = Inr m \<Longrightarrow> at data ks \<noteq> None \<Longrightarrow> at m ks \<noteq> None"
proof (induction ks arbitrary: data patch path m)
  case (Cons k ks)
  from Cons.prems(2) obtain kvs v where d: "data = JObj kvs" "map_of kvs k = Some v" "at v ks \<noteq> None"
    by (cases data) (auto split: option.splits)
  show ?case
  proof (cases "is_obj patch")
    case True
    then obtain po where p: "patch = JObj po" by (rule is_objE)
    from Cons.prems(1) obtain ms w where m: "m = JObj ms" "map_of ms k = Some w"
      and w: "mergeValue path po k v = Inr w"
      using merge_object_lookup d(2) unfolding d(1) p by meson
    have "at w ks \<noteq> None"
    proof (cases "\<exists>pv. map_of po k = Some pv \<and> is_obj v")
      case True
      then obtain pv where pv: "map_of po k = Some pv" "is_obj v" by blast
      with w have "mergeObjects v pv (path @ [k]) = Inr w"
        by (auto simp: mergeValue_Some split: if_splits)
      then show ?thesis using Cons.IH d(3) by blast
    next
      case False
      then show ?thesis
        using w d(3) at_not_obj [of v ks] by (cases "map_of po k") (auto simp: mergeValue_None)
    qed
    with m show ?thesis by simp
  next
    case False
    with Cons.prems show ?thesis by (simp add: mergeObjects_not_obj)
  qed
qed simp

section \<open>Induction over values\<close>

lemma json_induct [case_names scalar arr obj]:
  assumes "\<And>j. \<not> is_obj j \<Longrightarrow> \<not> is_arr j \<Longrightarrow> P j"
    and "\<And>xs. (\<And>x. x \<in> set xs \<Longrightarrow> P x) \<Longrightarrow> P (JArr xs)"
    and "\<And>kvs. (\<And>k v. (k, v) \<in> set kvs \<Longrightarrow> P v) \<Longrightarrow> P (JObj kvs)"
  shows "P j"
proof (induction j)
  case (JArr xs) then show ?case by (rule assms(2))
next
  case (JObj kvs)
  have "P v" if "(k, v) \<in> set kvs" for k v
    using JObj [OF that] by simp
  then show ?case by (rule assms(3))
qed (auto intro: assms(1))

lemma mergeArray_ex:
  "(\<And>j. j < length vs \<Longrightarrow> \<exists>w. mergeValue path po (itoa (int i + int j)) (vs ! j) = Inr w) \<Longrightarrow>
     \<exists>ws. mergeArray path po i vs = Inr ws"
proof (cases "mergeArray path po i vs")
  case (Inl e)
  assume "\<And>j. j < length vs \<Longrightarrow> \<exists>w. mergeValue path po (itoa (int i + int j)) (vs ! j) = Inr w"
  with mergeArray_Inl [OF Inl] show ?thesis by fastforce
qed simp

lemma mergeFields_mem:
  "mergeFields path po kvs = Inr ms \<Longrightarrow> (k, w) \<in> set ms \<Longrightarrow>
     \<exists>v. (k, v) \<in> set kvs \<and> mergeValue path po k v = Inr w"
  by (induction kvs arbitrary: ms) (fastforce split: sum.splits)+

lemma mergeFields_id:
  "(\<And>k v. (k, v) \<in> set kvs \<Longrightarrow> mergeValue path po k v = Inr v) \<Longrightarrow>
     mergeFields path po kvs = Inr kvs"
  by (induction kvs) (auto split: sum.splits)

lemma mergeArray_id:
  "(\<And>j. j < length vs \<Longrightarrow> mergeValue path po (itoa (int i + int j)) (vs ! j) = Inr (vs ! j)) \<Longrightarrow>
     mergeArray path po i vs = Inr vs"
  by (simp add: mergeArray_Inr_iff)

lemma mergeObjects_obj:
  "mergeObjects (JObj kvs) (JObj po) path = Inr m \<longleftrightarrow>
     (\<exists>ret. mergeFields path po kvs = Inr ret \<and>
        m = JObj (ret @ filter (\<lambda>(k, v). k \<notin> fst ` set kvs) po))"
  by (auto simp: mergeObjects.simps split: sum.splits)

lemma mergeObjects_arr:
  "mergeObjects (JArr vs) (JObj po) path = Inr m \<longleftrightarrow>
     (\<exists>ws. mergeArray path po 0 vs = Inr ws \<and> m = JArr ws)"
  by (auto simp: mergeObjects.simps split: sum.splits)

section \<open>Merging twice\<close>

lemma wf_lookup: "wf_json (JObj po) \<Longrightarrow> map_of po k = Some v \<Longrightarrow> wf_json v"
  by (auto dest: map_of_SomeD)

lemma merge_self: "wf_json p \<Longrightarrow> mergeObjects p p path = Inr p"
proof (induction p arbitrary: path rule: json_induct)
  case (scalar j) then show ?case by (simp add: mergeObjects_scalar)
next
  case (arr xs) then show ?case by (simp add: mergeObjects_not_obj)
next
  case (obj kvs)
  have "mergeValue path kvs k v = Inr v" if kv: "(k, v) \<in> set kvs" for k v
  proof -
    from kv obj.prems have "map_of kvs k = Some v" by simp
    moreover have "mergeObjects v v (path @ [k]) = Inr v"
      using obj kv by auto
    ultimately show ?thesis by (cases v) (auto simp: mergeValue_Some)
  qed
  then show ?case by (auto simp: mergeObjects_obj mergeFields_id filter_empty_conv image_iff)
qed

lemma mergeValue_idem:
  assumes "mergeValue path po k v = Inr w" and "wf_json (JObj po)"
    and IH: "\<And>p path m path'. mergeObjects v p path = Inr m \<Longrightarrow> wf_json p \<Longrightarrow>
        mergeObjects m p path' = Inr m"
  shows "mergeValue path' po k w = Inr w"
proof (cases "map_of po k")
  case None then show ?thesis by (simp add: mergeValue_None)
next
  case (Some pv)
  with assms(2) have wf: "wf_json pv" by (rule wf_lookup)
  show ?thesis
  proof (cases "is_obj pv \<and> (is_obj v \<or> is_arr v)")
    case True
    with assms(1) Some have m: "mergeObjects v pv (path @ [k]) = Inr w"
      by (auto simp: mergeValue_Some split: if_splits)
    from IH [OF m wf] merge_is_obj [OF m] merge_is_arr [OF m] True Some show ?thesis
      by (auto simp: mergeValue_Some)
  next
    case False
    with assms(1) Some have "w = pv"
      by (auto simp: mergeValue_Some split: if_splits)
    then show ?thesis using Some merge_self [OF wf] by (cases pv) (auto simp: mergeValue_Some)
  qed
qed

lemma merge_twice:
  "mergeObjects d p path = Inr m \<Longrightarrow> wf_json p \<Longrightarrow> mergeObjects m p path' = Inr m"
proof (induction d arbitrary: p path m path' rule: json_induct)
  case (scalar j) then show ?case by (auto simp: mergeObjects_scalar)
next
  case (arr xs)
  show ?case
  proof (cases p)
    case (JObj po)
    with arr.prems obtain ws where ws: "mergeArray path po 0 xs = Inr ws" "m = JArr ws"
      by (auto simp: mergeObjects_arr)
    then have "mergeArray path' po 0 ws = Inr ws"
      using arr.prems(2) JObj
      by (intro mergeArray_id) (auto simp: mergeArray_Inr_iff intro!: mergeValue_idem [OF _ _ arr.IH])
    with ws JObj show ?thesis by (simp add: mergeObjects_arr)
  qed (use arr.prems in \<open>auto simp: mergeObjects_not_obj\<close>)
next
  case (obj kvs)
  show ?case
  proof (cases p)
    case (JObj po)
    with obj.prems obtain ret where ret: "mergeFields path po kvs = Inr ret"
      and m: "m = JObj (ret @ filter (\<lambda>(k, v). k \<notin> fst ` set kvs) po)"
      by (auto simp: mergeObjects_obj)
    have keep: "mergeValue path' po k w = Inr w"
      if "(k, w) \<in> set (ret @ filter (\<lambda>(k, v). k \<notin> fst ` set kvs) po)" for k w
    proof (cases "(k, w) \<in> set ret")
      case True
      with mergeFields_mem [OF ret] obtain v
        where v: "(k, v) \<in> set kvs" "mergeValue path po k v = Inr w" by blast
      from mergeValue_idem [OF v(2) _ obj.IH [OF v(1)]] show ?thesis using obj.prems(2) JObj by simp
    next
      case False
      with that have kw: "(k, w) \<in> set po" by auto
      with obj.prems(2) JObj have "map_of po k = Some w" "wf_json w" by auto
      then show ?thesis using merge_self [of w] by (cases w) (auto simp: mergeValue_Some)
    qed
    have "filter (\<lambda>(k, v). k \<notin> fst ` set (ret @ filter (\<lambda>(k, v). k \<notin> fst ` set kvs) po)) po = []"
    proof -
      have "fst ` set ret = fst ` set kvs" using mergeFields_keys [OF ret] by (metis list.set_map)
      then show ?thesis by (force simp: filter_empty_conv image_Un)
    qed
    moreover have "mergeFields path' po (ret @ filter (\<lambda>(k, v). k \<notin> fst ` set kvs) po) =
        Inr (ret @ filter (\<lambda>(k, v). k \<notin> fst ` set kvs) po)"
      by (rule mergeFields_id) (rule keep)
    ultimately show ?thesis unfolding m JObj by (simp add: mergeObjects_obj)
  qed (use obj.prems in \<open>auto simp: mergeObjects_not_obj\<close>)
qed

section \<open>Well-formedness\<close>

lemma mergeValue_InrD:
  "mergeValue path po k v = Inr w \<Longrightarrow> map_of po k = Some pv \<Longrightarrow>
     w = pv \<and> \<not> is_obj v \<or> mergeObjects v pv (path @ [k]) = Inr w"
  by (drule mergeValue_Some [where path = path and v = v]) (simp split: if_splits)

lemma mergeValue_wf:
  assumes "mergeValue path po k v = Inr w" and "wf_json (JObj po)" and "wf_json v"
    and IH: "\<And>p path m. mergeObjects v p path = Inr m \<Longrightarrow> wf_json v \<Longrightarrow> wf_json p \<Longrightarrow> wf_json m"
  shows "wf_json w"
proof (cases "map_of po k")
  case None with assms show ?thesis by (simp add: mergeValue_None)
next
  case (Some pv)
  from wf_lookup [OF assms(2) Some] mergeValue_InrD [OF assms(1) Some] IH assms(3)
  show ?thesis by blast
qed

lemma merge_wf:
  "mergeObjects d p path = Inr m \<Longrightarrow> wf_json d \<Longrightarrow> wf_json p \<Longrightarrow> wf_json m"
proof (induction d arbitrary: p path m rule: json_induct)
  case (scalar j) then show ?case by (auto simp: mergeObjects_scalar)
next
  case (arr xs)
  show ?case
  proof (cases p)
    case (JObj po)
    with arr.prems obtain ws where ws: "mergeArray path po 0 xs = Inr ws" "m = JArr ws"
      by (auto simp: mergeObjects_arr)
    have "wf_json (ws ! j)" if "j < length ws" for j
    proof (rule mergeValue_wf)
      show "mergeValue path po (itoa (int 0 + int j)) (xs ! j) = Inr (ws ! j)"
        using ws(1) that by (simp add: mergeArray_Inr_iff)
      show "wf_json m" if "mergeObjects (xs ! j) p path = Inr m" "wf_json (xs ! j)" "wf_json p" for p path m
        using arr.IH [OF _ that] ws(1) \<open>j < length ws\<close> by (simp add: mergeArray_Inr_iff)
    qed (use arr.prems ws(1) that JObj in \<open>auto simp: mergeArray_Inr_iff\<close>)
    then show ?thesis by (auto simp: ws(2) in_set_conv_nth)
  qed (use arr.prems in \<open>auto simp: mergeObjects_not_obj\<close>)
next
  case (obj kvs)
  show ?case
  proof (cases p)
    case (JObj po)
    with obj.prems obtain ret where ret: "mergeFields path po kvs = Inr ret"
      and m: "m = JObj (ret @ filter (\<lambda>(k, v). k \<notin> fst ` set kvs) po)"
      by (auto simp: mergeObjects_obj)
    have "wf_json w" if "(k, w) \<in> set ret" for k w
    proof -
      from mergeFields_mem [OF ret that] obtain v
        where v: "(k, v) \<in> set kvs" "mergeValue path po k v = Inr w" by blast
      have "wf_json (JObj po)" "wf_json v" using obj.prems JObj v(1) by auto
      then show ?thesis using obj.IH [OF v(1)] by (blast intro: mergeValue_wf [OF v(2)])
    qed
    moreover have "distinct (map fst ret)" "fst ` set ret = fst ` set kvs"
      using mergeFields_keys [OF ret] obj.prems(2) by (simp, metis list.set_map)
    moreover have "distinct (map fst (filter (\<lambda>(k, v). k \<notin> fst ` set kvs) po))"
      using obj.prems(3) JObj by (simp add: distinct_map_filter)
    ultimately show ?thesis using obj.prems(3) JObj by (auto simp: m image_iff)
  qed (use obj.prems in \<open>auto simp: mergeObjects_not_obj\<close>)
qed

section \<open>When a merge fails\<close>

fun locate :: "json \<Rightarrow> string list \<Rightarrow> json option" where
  "locate j [] = Some j"
| "locate (JObj kvs) (k # ks) = (case map_of kvs k of None \<Rightarrow> None | Some v \<Rightarrow> locate v ks)"
| "locate (JArr xs) (k # ks) =
     (case find (\<lambda>(i, x). itoa (int i) = k) (enumerate 0 xs) of
        None \<Rightarrow> None
      | Some (_, x) \<Rightarrow> locate x ks)"
| "locate _ (k # ks) = None"

text \<open>
  A conflict: below the root, the document holds an object where the patch holds something
  that is not an object.
\<close>

definition conflict :: "json \<Rightarrow> json \<Rightarrow> string list \<Rightarrow> bool" where
  "conflict data patch ks \<longleftrightarrow> ks \<noteq> [] \<and>
     (case locate data ks of Some v \<Rightarrow> is_obj v | None \<Rightarrow> False) \<and>
     (case at patch ks of Some pv \<Rightarrow> \<not> is_obj pv | None \<Rightarrow> False)"

lemma find_enumerate_itoa:
  "find (\<lambda>(i, x). itoa (int i) = k) (enumerate n xs) = Some (j, x) \<longleftrightarrow>
     n \<le> j \<and> j < n + length xs \<and> x = xs ! (j - n) \<and> itoa (int j) = k"
proof (induction xs arbitrary: n)
  case (Cons y ys)
  show ?case
    by (cases "n = j") (auto simp: Cons.IH nth_Cons' Suc_le_eq)
qed auto

lemma locate_elem:
  "j < length xs \<Longrightarrow> locate (JArr xs) (itoa (int j) # ks) = locate (xs ! j) ks"
proof -
  assume "j < length xs"
  then have "find (\<lambda>(i, x). itoa (int i) = itoa (int j)) (enumerate 0 xs) = Some (j, xs ! j)"
    by (subst find_enumerate_itoa) simp
  then show ?thesis by simp
qed

lemma conflict_Cons:
  "conflict v pv ks \<Longrightarrow> is_obj pv \<Longrightarrow> locate d (k # ks) = locate v ks \<Longrightarrow>
     map_of po k = Some pv \<Longrightarrow> conflict d (JObj po) (k # ks)"
  by (auto simp: conflict_def)

lemma mergeValue_Inl:
  assumes "mergeValue path po k v = Inl e" and "\<And>ks. locate d (k # ks) = locate v ks"
    and IH: "\<And>p path e. mergeObjects v p path = Inl e \<Longrightarrow> \<exists>ks. e = path @ ks \<and> conflict v p ks"
  shows "\<exists>ks. e = path @ ks \<and> conflict d (JObj po) ks"
proof (cases "map_of po k")
  case None with assms(1) show ?thesis by (simp add: mergeValue_None)
next
  case (Some pv)
  show ?thesis
  proof (cases "is_obj pv")
    case True
    with assms(1) Some have "mergeObjects v pv (path @ [k]) = Inl e"
      by (auto simp: mergeValue_Some split: if_splits)
    from IH [OF this] obtain ks where "e = path @ k # ks" "conflict v pv ks" by auto
    with True Some assms(2) show ?thesis by (blast intro: conflict_Cons)
  next
    case False
    with assms(1) Some have "is_obj v" "e = path @ [k]"
      by (auto simp: mergeValue_Some split: if_splits)
    with False Some assms(2) show ?thesis by (intro exI [of _ "[k]"]) (simp add: conflict_def)
  qed
qed

lemma merge_error_conflict:
  "mergeObjects d p path = Inl e \<Longrightarrow> wf_json d \<Longrightarrow> \<exists>ks. e = path @ ks \<and> conflict d p ks"
proof (induction d arbitrary: p path e rule: json_induct)
  case (scalar j) then show ?case by (auto simp: mergeObjects_scalar)
next
  case (arr xs)
  from arr.prems obtain po where p: "p = JObj po" and "mergeArray path po 0 xs = Inl e"
    by (cases p) (auto simp: mergeObjects.simps split: sum.splits)
  from mergeArray_Inl [OF this(2)] obtain j
    where j: "j < length xs" "mergeValue path po (itoa (int j)) (xs ! j) = Inl e" by auto
  show ?case
    unfolding p using arr j by (intro mergeValue_Inl [OF j(2)]) (auto simp: locate_elem simp del: locate.simps)
next
  case (obj kvs)
  from obj.prems(1) obtain po where p: "p = JObj po" and "mergeFields path po kvs = Inl e"
    by (cases p) (auto simp: mergeObjects.simps split: sum.splits)
  from mergeFields_Inl [OF this(2)] obtain k v
    where kv: "(k, v) \<in> set kvs" "mergeValue path po k v = Inl e" by auto
  then have "map_of kvs k = Some v" "wf_json v" using obj.prems(2) by auto
  with kv obj.IH show ?case unfolding p by (intro mergeValue_Inl [OF kv(2)]) auto
qed

lemma conflict_merge_error:
  "conflict d p ks \<Longrightarrow> \<exists>e. mergeObjects d p path = Inl e"
proof (induction ks arbitrary: d p path)
  case (Cons k ks)
  from Cons.prems obtain v pv where l: "locate d (k # ks) = Some v" "is_obj v"
    and a: "at p (k # ks) = Some pv" "\<not> is_obj pv"
    by (auto simp: conflict_def split: option.splits)
  from a obtain po q where p: "p = JObj po" "map_of po k = Some q" "at q ks = Some pv"
    by (cases p) (auto split: option.splits)
  have step: "\<exists>e. mergeValue path po k c = Inl e" if "locate c ks = Some v" for c
  proof (cases "ks = []")
    case True
    with that l a p show ?thesis by (auto simp: mergeValue_Some)
  next
    case False
    with that l(2) a(2) p(3) have "conflict c q ks" by (simp add: conflict_def)
    from Cons.IH [OF this] have "\<exists>e. mergeObjects c q (path @ [k]) = Inl e" .
    moreover from False that have "is_obj c \<or> is_arr c" by (cases c; cases ks) auto
    moreover from False p(3) have "is_obj q" by (cases q; cases ks) auto
    ultimately show ?thesis using p(2) by (auto simp: mergeValue_Some)
  qed
  show ?case
  proof (cases "mergeObjects d p path")
    case (Inr m)
    show ?thesis
    proof (cases d)
      case (JArr xs)
      with l obtain j where "j < length xs" "k = itoa (int j)" "locate (xs ! j) ks = Some v"
        by (auto split: option.splits simp: find_enumerate_itoa)
      moreover have "\<exists>w. mergeValue path po (itoa (int j)) (xs ! j) = Inr w" if "j < length xs" for j
        using Inr that by (auto simp: JArr p(1) mergeObjects_arr mergeArray_Inr_iff)
      ultimately show ?thesis using step by fastforce
    next
      case (JObj kvs)
      with l obtain c where "map_of kvs k = Some c" "locate c ks = Some v"
        by (auto split: option.splits)
      moreover have "\<exists>w. mergeValue path po k c = Inr w" if "map_of kvs k = Some c" for c
        using merge_object_lookup [OF Inr [unfolded JObj p(1)]] that by blast
      ultimately show ?thesis using step by fastforce
    qed (use l in auto)
  qed simp
qed (simp add: conflict_def)

section \<open>What a merge puts where\<close>

lemma locate_Cons: "locate j (k # ks) = (case locate j [k] of None \<Rightarrow> None | Some v \<Rightarrow> locate v ks)"
  by (cases j) (auto split: option.splits)

lemma at_locate: "at j ks = Some v \<Longrightarrow> locate j ks = Some v"
  by (induction j ks rule: at.induct) (auto split: option.splits)

lemma locate_scalar: "\<not> is_obj j \<Longrightarrow> \<not> is_arr j \<Longrightarrow> locate j (k # ks) = None"
  by (cases j) auto

lemma locate_elem_iff: "locate (JArr xs) [k] = Some x \<longleftrightarrow> (\<exists>j < length xs. k = itoa (int j) \<and> x = xs ! j)"
proof
  assume "locate (JArr xs) [k] = Some x"
  then show "\<exists>j < length xs. k = itoa (int j) \<and> x = xs ! j"
    by (auto simp: find_enumerate_itoa split: option.splits prod.splits)
qed (use locate_elem [of _ xs "[]"] in auto)

text \<open>An entry of the merged document, by the entry of the document.\<close>

lemma merge_new_entry:
  assumes "mergeObjects d (JObj po) path = Inr m" "locate d [k] = None" "is_obj d \<or> is_arr d"
  shows "locate m (k # ks) = (if is_obj d then (case map_of po k of None \<Rightarrow> None | Some q \<Rightarrow> locate q ks) else None)"
proof (cases d)
  case (JObj kvs)
  with assms(1) obtain ms where "m = JObj ms" "map_of kvs k = None \<longrightarrow> map_of ms k = map_of po k"
    using merge_object_lookup by blast
  with JObj assms(2) show ?thesis by (simp split: option.splits)
next
  case (JArr xs)
  with assms(1) obtain ws where m: "m = JArr ws" "length ws = length xs"
    by (auto simp: mergeObjects_arr mergeArray_Inr_iff)
  have "locate m [k] = None"
    using assms(2) locate_elem_iff [of ws k] locate_elem_iff [of xs k] m unfolding JArr by (metis not_Some_eq)
  then show ?thesis using JArr by (simp add: locate_Cons [of m k ks])
qed (use assms in auto)

lemma merge_old_entry:
  assumes "mergeObjects d (JObj po) path = Inr m" "locate d [k] = Some v"
  obtains w where "mergeValue path po k v = Inr w" "locate m (k # ks) = locate w ks"
proof (cases d)
  case (JObj kvs)
  with assms(2) have v: "map_of kvs k = Some v" by (simp split: option.splits)
  obtain ms w where "m = JObj ms" "mergeValue path po k v = Inr w" "map_of ms k = Some w"
    using merge_object_lookup [OF assms(1) [unfolded JObj]] v by blast
  then show ?thesis using that by simp
next
  case (JArr xs)
  then obtain j where j: "j < length xs" "k = itoa (int j)" "v = xs ! j" using assms(2) locate_elem_iff by blast
  obtain ws where m: "m = JArr ws" "length ws = length xs" "mergeValue path po k v = Inr (ws ! j)"
    using assms(1) j by (auto simp: JArr mergeObjects_arr mergeArray_Inr_iff)
  then show ?thesis using that [OF m(3)] locate_elem [of j ws ks] j by simp
qed (use assms in auto)

text \<open>The document has every array element the path asks for.\<close>

fun open_path :: "json \<Rightarrow> string list \<Rightarrow> bool" where
  "open_path j [] = True"
| "open_path j (k # ks) = (case locate j [k] of None \<Rightarrow> \<not> is_arr j | Some v \<Rightarrow> open_path v ks)"

text \<open>The patch has no value at the path, nor anything but objects on the way to it.\<close>

fun misses :: "json \<Rightarrow> string list \<Rightarrow> bool" where
  "misses (JObj po) (k # ks) = (case map_of po k of None \<Rightarrow> True | Some q \<Rightarrow> misses q ks)"
| "misses j ks = False"

definition is_scalar :: "json \<Rightarrow> bool" where
  "is_scalar j \<longleftrightarrow> \<not> is_obj j \<and> \<not> is_arr j"

lemma mergeValue_into:
  assumes "mergeValue path po k v = Inr w" "map_of po k = Some q"
  shows "is_obj q \<Longrightarrow> \<not> is_scalar v \<Longrightarrow> mergeObjects v q (path @ [k]) = Inr w"
    and "is_scalar v \<Longrightarrow> w = q" and "\<not> is_obj q \<Longrightarrow> w = q"
  using assms by (auto simp: mergeValue_Some is_scalar_def split: if_splits)

lemma at_container: "at j (k # ks) = Some v \<Longrightarrow> is_obj j"
  by (cases j) auto

lemma merge_puts:
  "mergeObjects d p path = Inr m \<Longrightarrow> \<not> is_scalar d \<Longrightarrow> ks \<noteq> [] \<Longrightarrow> at p ks = Some pv \<Longrightarrow> open_path d ks \<Longrightarrow>
     (is_obj pv \<longrightarrow> (\<forall>v. locate d ks = Some v \<longrightarrow> is_scalar v)) \<Longrightarrow> locate m ks = Some pv"
proof (induction ks arbitrary: d p path m)
  case (Cons k ks)
  from Cons.prems(4) obtain po q where p: "p = JObj po" "map_of po k = Some q" "at q ks = Some pv"
    by (cases p) (auto split: option.splits)
  show ?case
  proof (cases "locate d [k]")
    case None
    with Cons.prems(2, 5) have "is_obj d" by (simp add: is_scalar_def)
    with merge_new_entry [OF Cons.prems(1) [unfolded p(1)] None, of ks] p at_locate [OF p(3)] show ?thesis by simp
  next
    case (Some v)
    obtain w where w: "mergeValue path po k v = Inr w" "locate m (k # ks) = locate w ks"
      using merge_old_entry [OF Cons.prems(1) [unfolded p(1)] Some] .
    note into = mergeValue_into [OF w(1) p(2)]
    have d: "locate d (k # ks) = locate v ks" using Some by (simp add: locate_Cons [of d k ks])
    show ?thesis
    proof (cases ks)
      case Nil
      then have "w = q" using into p(3) Cons.prems(6) d by auto
      with w(2) p(3) Nil show ?thesis by simp
    next
      case (Cons k' ks')
      then have q: "is_obj q" using at_container p(3) by simp
      show ?thesis
      proof (cases "is_scalar v")
        case True
        then show ?thesis using into(2) w(2) at_locate [OF p(3)] by simp
      next
        case False
        then show ?thesis
          using Cons.IH [OF into(1) [OF q False] False _ p(3)] Cons Some Cons.prems(5, 6) d w(2) by simp
      qed
    qed
  qed
qed simp

lemma merge_drops:
  "mergeObjects d p path = Inr m \<Longrightarrow> at p ks = Some pv \<Longrightarrow> \<not> open_path d ks \<Longrightarrow> locate m ks = None"
proof (induction ks arbitrary: d p path m)
  case (Cons k ks)
  from Cons.prems(2) obtain po q where p: "p = JObj po" "map_of po k = Some q" "at q ks = Some pv"
    by (cases p) (auto split: option.splits)
  show ?case
  proof (cases "locate d [k]")
    case None
    with Cons.prems(3) have "is_arr d" by simp
    then show ?thesis using merge_new_entry [OF Cons.prems(1) [unfolded p(1)] None, of ks] by (cases d) auto
  next
    case (Some v)
    then have v: "\<not> open_path v ks" using Cons.prems(3) by simp
    then obtain k' ks' where ks: "ks = k' # ks'" by (cases ks) auto
    have "open_path v ks" if "is_scalar v"
      using that locate_scalar [of v k' "[]"] ks by (simp add: is_scalar_def)
    then have "\<not> is_scalar v" using v by blast
    moreover have "is_obj q" using at_container p(3) ks by simp
    moreover obtain w where w: "mergeValue path po k v = Inr w" "locate m (k # ks) = locate w ks"
      using merge_old_entry [OF Cons.prems(1) [unfolded p(1)] Some] .
    ultimately show ?thesis using Cons.IH [OF mergeValue_into(1) [OF w(1) p(2)] p(3) v] by simp
  qed
qed simp

lemma merge_leaves:
  "mergeObjects d p path = Inr m \<Longrightarrow> misses p ks \<Longrightarrow> locate d ks = Some dv \<Longrightarrow> locate m ks = Some dv"
proof (induction ks arbitrary: d p path m)
  case (Cons k ks)
  from Cons.prems(2) obtain po where p: "p = JObj po" by (cases p) auto
  from Cons.prems(3) obtain v where v: "locate d [k] = Some v" "locate v ks = Some dv"
    by (auto simp: locate_Cons [of d k ks] split: option.splits)
  obtain w where w: "mergeValue path po k v = Inr w" "locate m (k # ks) = locate w ks"
    using merge_old_entry [OF Cons.prems(1) [unfolded p] v(1)] .
  show ?case
  proof (cases "map_of po k")
    case None
    then show ?thesis using w v(2) by (simp add: mergeValue_None)
  next
    case (Some q)
    then have q: "misses q ks" using Cons.prems(2) p by simp
    then obtain k' ks' where ks: "ks = k' # ks'" "is_obj q" by (cases q; cases ks) auto
    then have "\<not> is_scalar v" using v(2) locate_scalar [of v k' ks'] by (auto simp: is_scalar_def)
    then show ?thesis using Cons.IH [OF mergeValue_into(1) [OF w(1) Some ks(2)] q v(2)] w(2) by simp
  qed
qed simp

section \<open>The iteration order does not matter\<close>

lemma map_of_map_snd: "map_of (map (\<lambda>(k, v). (k, f v)) kvs) k = map_option f (map_of kvs k)"
  by (induction kvs) auto

lemma canon_fields_eq:
  fixes a b :: "(string \<times> json) list"
  assumes "distinct (map fst a)" and "distinct (map fst b)"
  shows "sort_key fst (map (\<lambda>(k, v). (k, canon v)) a) = sort_key fst (map (\<lambda>(k, v). (k, canon v)) b) \<longleftrightarrow>
     (\<forall>k. map_option canon (map_of a k) = map_option canon (map_of b k))"
    (is "sort_key fst ?a = sort_key fst ?b \<longleftrightarrow> ?R")
proof -
  have keys: "map fst (map (\<lambda>(k, v). (k, canon v)) c) = map fst c" for c
    by (induction c) auto
  have d: "distinct (map fst ?a)" "distinct (map fst ?b)" using assms by (simp_all only: keys)
  have "?R \<longleftrightarrow> (\<forall>k. map_of ?a k = map_of ?b k)" by (simp add: map_of_map_snd)
  also have "\<dots> \<longleftrightarrow> set ?a = set ?b"
    using map_of_inject_set [OF d] by (simp add: fun_eq_iff)
  also have "\<dots> \<longleftrightarrow> sort_key fst ?a = sort_key fst ?b"
  proof
    assume eq: "set ?a = set ?b"
    have s: "sorted (map fst (sort_key fst c))" "distinct (map fst (sort_key fst c)) = distinct (map fst c)"
      for c :: "(string \<times> json) list"
      by (simp, metis distinct_map distinct_sort set_sort sort_key_def)
    have "inj_on fst (set (sort_key fst ?a) \<union> set (sort_key fst ?b))"
      using eq d(1) by (simp only: set_sort distinct_map) simp
    then show "sort_key fst ?a = sort_key fst ?b"
    proof (rule map_sorted_distinct_set_unique)
      show "distinct (map fst (sort_key fst ?a))" using s(2) d(1) by blast
      show "distinct (map fst (sort_key fst ?b))" using s(2) d(2) by blast
      show "set (sort_key fst ?a) = set (sort_key fst ?b)" using eq by (simp only: set_sort)
    qed (rule s(1))+
  next
    assume "sort_key fst ?a = sort_key fst ?b"
    then show "set ?a = set ?b" by (metis set_sort)
  qed
  finally show ?thesis by blast
qed

lemma canon_shape: "is_obj (canon j) = is_obj j" "is_arr (canon j) = is_arr j"
  by (cases j; simp)+

lemma canon_eq_shape: "canon a = canon b \<Longrightarrow> is_obj a = is_obj b" "canon a = canon b \<Longrightarrow> is_arr a = is_arr b"
  using canon_shape by metis+

lemma canon_JObj_eq:
  assumes "wf_json (JObj a)" and "wf_json (JObj b)"
  shows "canon (JObj a) = canon (JObj b) \<longleftrightarrow>
     (\<forall>k. map_option canon (map_of a k) = map_option canon (map_of b k))"
  using canon_fields_eq [of a b] assms by simp

lemma mergeValue_canon:
  assumes "mergeValue path1 po1 k v1 = Inr w1" and "canon v1 = canon v2"
    and "map_option canon (map_of po1 k) = map_option canon (map_of po2 k)"
    and "wf_json (JObj po1)" and "wf_json (JObj po2)"
    and IH: "\<And>p1 path1 m1 p2 path2. mergeObjects v1 p1 path1 = Inr m1 \<Longrightarrow> canon p1 = canon p2 \<Longrightarrow>
        wf_json p1 \<Longrightarrow> wf_json p2 \<Longrightarrow> \<exists>m2. mergeObjects v2 p2 path2 = Inr m2 \<and> canon m1 = canon m2"
  shows "\<exists>w2. mergeValue path2 po2 k v2 = Inr w2 \<and> canon w1 = canon w2"
proof (cases "map_of po1 k")
  case None
  with assms show ?thesis by (simp add: mergeValue_None)
next
  case (Some p1)
  with assms(3) obtain p2 where p2: "map_of po2 k = Some p2" "canon p1 = canon p2"
    by (cases "map_of po2 k") auto
  note sh = canon_eq_shape [OF assms(2)] canon_eq_shape [OF p2(2)]
  show ?thesis
  proof (cases "is_obj p1 \<and> (is_obj v1 \<or> is_arr v1)")
    case True
    with assms(1) Some have "mergeObjects v1 p1 (path1 @ [k]) = Inr w1"
      by (auto simp: mergeValue_Some split: if_splits)
    from IH [OF this p2(2) wf_lookup [OF assms(4) Some] wf_lookup [OF assms(5) p2(1)]] True sh p2(1)
    show ?thesis by (auto simp: mergeValue_Some)
  next
    case False
    with assms(1) Some have "w1 = p1" "\<not> is_obj v1" by (auto simp: mergeValue_Some split: if_splits)
    with False sh p2 show ?thesis by (auto simp: mergeValue_Some)
  qed
qed

lemma merge_canon:
  "mergeObjects d1 p1 path1 = Inr m1 \<Longrightarrow> canon d1 = canon d2 \<Longrightarrow> canon p1 = canon p2 \<Longrightarrow>
     wf_json d1 \<Longrightarrow> wf_json d2 \<Longrightarrow> wf_json p1 \<Longrightarrow> wf_json p2 \<Longrightarrow>
     \<exists>m2. mergeObjects d2 p2 path2 = Inr m2 \<and> canon m1 = canon m2"
proof (induction d1 arbitrary: d2 p1 p2 path1 path2 m1 rule: json_induct)
  case (scalar j)
  then show ?case using canon_eq_shape [OF scalar.prems(2)] by (auto simp: mergeObjects_scalar)
next
  case (arr xs)
  from arr.prems(2) obtain ys where d2: "d2 = JArr ys" and eq: "map canon xs = map canon ys"
    by (cases d2) auto
  show ?case
  proof (cases "is_obj p1")
    case True
    then obtain po1 where p1: "p1 = JObj po1" by (rule is_objE)
    from True canon_eq_shape(1) [OF arr.prems(3)] obtain po2 where p2: "p2 = JObj po2"
      by (auto elim: is_objE)
    have keys: "map_option canon (map_of po1 k) = map_option canon (map_of po2 k)" for k
      using canon_JObj_eq arr.prems(3,6,7) unfolding p1 p2 by blast
    from arr.prems(1) obtain ws where ws: "mergeArray path1 po1 0 xs = Inr ws" "m1 = JArr ws"
      by (auto simp: p1 mergeObjects_arr)
    from eq have len: "length xs = length ys" by (rule map_eq_imp_length_eq)
    have elem: "\<exists>w. mergeValue path2 po2 (itoa (int j)) (ys ! j) = Inr w \<and> canon (ws ! j) = canon w"
      if "j < length ys" for j
    proof (rule mergeValue_canon)
      show "mergeValue path1 po1 (itoa (int j)) (xs ! j) = Inr (ws ! j)"
        using ws(1) that len by (simp add: mergeArray_Inr_iff)
      show "canon (xs ! j) = canon (ys ! j)" using eq that len by (metis nth_map)
      then show "\<exists>m2. mergeObjects (ys ! j) q2 path2 = Inr m2 \<and> canon m1 = canon m2"
        if "mergeObjects (xs ! j) q1 path1 = Inr m1" "canon q1 = canon q2" "wf_json q1" "wf_json q2"
        for q1 q2 path1 path2 m1
        using arr.IH [of "xs ! j" q1 path1 m1 "ys ! j" q2 path2] that arr.prems(4,5) \<open>j < length ys\<close> len
        by (simp add: d2)
    qed (use keys arr.prems p1 p2 in auto)
    then have "\<exists>us. mergeArray path2 po2 0 ys = Inr us" by (intro mergeArray_ex) fastforce
    then obtain us where us: "mergeArray path2 po2 0 ys = Inr us" ..
    have "map canon ws = map canon us"
      using us ws(1) len elem by (intro nth_equalityI) (force simp: mergeArray_Inr_iff)+
    with us ws(2) show ?thesis by (auto simp: d2 p2 mergeObjects_arr)
  next
    case False
    with canon_eq_shape(1) [OF arr.prems(3)] arr.prems(1,2) show ?thesis
      by (auto simp: mergeObjects_not_obj)
  qed
next
  case (obj kvs)
  from obj.prems(2) obtain lvs where d2: "d2 = JObj lvs" by (cases d2) auto
  show ?case
  proof (cases "is_obj p1")
    case True
    then obtain po1 where p1: "p1 = JObj po1" by (rule is_objE)
    from True canon_eq_shape(1) [OF obj.prems(3)] obtain po2 where p2: "p2 = JObj po2"
      by (auto elim: is_objE)
    have pk: "map_option canon (map_of po1 k) = map_option canon (map_of po2 k)" for k
      using canon_JObj_eq obj.prems(3,6,7) unfolding p1 p2 by blast
    have dk: "map_option canon (map_of kvs k) = map_option canon (map_of lvs k)" for k
      using canon_JObj_eq obj.prems(2,4,5) unfolding d2 by blast
    obtain ms1 where m1: "m1 = JObj ms1"
      and new1: "\<forall>k. map_of kvs k = None \<longrightarrow> map_of ms1 k = map_of po1 k"
      and old1: "\<forall>k v. map_of kvs k = Some v \<longrightarrow>
          (\<exists>w. mergeValue path1 po1 k v = Inr w \<and> map_of ms1 k = Some w)"
      using merge_object_lookup [OF obj.prems(1) [unfolded p1]] by blast
    have field: "\<exists>w2. mergeValue path2 po2 k v2 = Inr w2 \<and> canon w1 = canon w2"
      if "map_of kvs k = Some v1" "map_of lvs k = Some v2" "mergeValue path1 po1 k v1 = Inr w1"
      for k v1 v2 w1
    proof (rule mergeValue_canon [OF that(3)])
      show eq: "canon v1 = canon v2" using dk [of k] that by simp
      show "\<exists>m2. mergeObjects v2 q2 path2 = Inr m2 \<and> canon m1 = canon m2"
        if "mergeObjects v1 q1 path1 = Inr m1" "canon q1 = canon q2" "wf_json q1" "wf_json q2"
        for q1 q2 path1 path2 m1
        using obj.IH [OF map_of_SomeD [OF \<open>map_of kvs k = Some v1\<close>] that(1) eq that(2)] that
          wf_lookup obj.prems(4,5) \<open>map_of kvs k = Some v1\<close> \<open>map_of lvs k = Some v2\<close> d2 by blast
    qed (use pk obj.prems p1 p2 in auto)
    have "\<exists>ret. mergeFields path2 po2 lvs = Inr ret"
    proof (subst mergeFields_Inr_iff, clarify)
      fix k v2 assume "(k, v2) \<in> set lvs"
      then have l: "map_of lvs k = Some v2" using obj.prems(5) d2 by simp
      with dk [of k] obtain v1 where v1: "map_of kvs k = Some v1" by auto
      then show "\<exists>w. mergeValue path2 po2 k v2 = Inr w" using field l old1 by blast
    qed
    then obtain m2 where m2: "mergeObjects (JObj lvs) (JObj po2) path2 = Inr m2"
      using mergeObjects_obj by blast
    obtain ms2 where ms2: "m2 = JObj ms2"
      and new2: "\<forall>k. map_of lvs k = None \<longrightarrow> map_of ms2 k = map_of po2 k"
      and old2: "\<forall>k v. map_of lvs k = Some v \<longrightarrow>
          (\<exists>w. mergeValue path2 po2 k v = Inr w \<and> map_of ms2 k = Some w)"
      using merge_object_lookup [OF m2] by blast
    have "map_option canon (map_of ms1 k) = map_option canon (map_of ms2 k)" for k
    proof (cases "map_of kvs k")
      case None
      then show ?thesis using dk [of k] pk [of k] new1 new2 by simp
    next
      case (Some v1)
      with dk [of k] obtain v2 where v2: "map_of lvs k = Some v2"
        by (cases "map_of lvs k") auto
      from old1 Some obtain w1 where "mergeValue path1 po1 k v1 = Inr w1" "map_of ms1 k = Some w1" by blast
      moreover from old2 v2 obtain w2 where "mergeValue path2 po2 k v2 = Inr w2" "map_of ms2 k = Some w2"
        by blast
      ultimately show ?thesis using field [OF Some v2] by fastforce
    qed
    moreover have "wf_json m1" "wf_json m2"
      using merge_wf [OF obj.prems(1,4,6)] merge_wf [OF m2] obj.prems(5,7) d2 p2 by auto
    ultimately have "canon m1 = canon m2" using canon_JObj_eq m1 ms2 by blast
    with m2 show ?thesis by (auto simp: d2 p2)
  next
    case False
    with canon_eq_shape(1) [OF obj.prems(3)] obj.prems(1,2) show ?thesis
      by (auto simp: mergeObjects_not_obj)
  qed
qed

section \<open>Decoding and marshalling\<close>

text \<open>
  What the merge relies on of \<open>encoding/json\<close>: a decoded value has distinct keys, marshalling
  writes the keys of every object in order and nothing else of the value is lost.
\<close>

definition json_codec :: "('b \<Rightarrow> json option) \<Rightarrow> (json \<Rightarrow> 'b) \<Rightarrow> bool" where
  "json_codec dec enc \<longleftrightarrow>
     (\<forall>b j. dec b = Some j \<longrightarrow> wf_json j) \<and>
     (\<forall>j. wf_json j \<longrightarrow> dec (enc j) = Some (canon j)) \<and>
     (\<forall>i j. canon i = canon j \<longrightarrow> enc i = enc j)"

lemma distinct_keys_canon:
  fixes kvs :: "(string \<times> json) list"
  assumes "distinct (map fst kvs)"
  shows "distinct (map fst (sort_key fst (map (\<lambda>(k, v). (k, canon v)) kvs)))"
    and "distinct (map fst (map (\<lambda>(k, v). (k, canon v)) kvs))"
proof -
  let ?l = "map (\<lambda>(k, v). (k, canon v)) kvs"
  have eq: "map fst ?l = map fst kvs" by (induction kvs) auto
  show d: "distinct (map fst ?l)" using assms by (simp only: eq)
  then show "distinct (map fst (sort_key fst ?l))"
    by (simp only: distinct_map distinct_sort set_sort simp_thms)
qed

lemma json_codecD:
  assumes "json_codec dec enc"
  shows "dec b = Some j \<Longrightarrow> wf_json j" and "wf_json j \<Longrightarrow> dec (enc j) = Some (canon j)"
    and "canon i = canon j \<Longrightarrow> enc i = enc j"
  using assms unfolding json_codec_def by iprover+

lemma canon_lookup:
  fixes kvs :: "(string \<times> json) list"
  assumes "distinct (map fst kvs)"
  shows "map_of (sort_key fst (map (\<lambda>(k, v). (k, canon v)) kvs)) k = map_option canon (map_of kvs k)"
proof -
  let ?l = "map (\<lambda>(k, v). (k, canon v)) kvs"
  have "map_of (sort_key fst ?l) = map_of ?l"
    using map_of_inject_set [OF distinct_keys_canon [OF assms]] by simp
  then show ?thesis by (simp add: map_of_map)
qed

lemma wf_canon: "wf_json j \<Longrightarrow> wf_json (canon j)"
proof (induction j rule: json_induct)
  case (scalar j) then show ?case by (cases j) auto
next
  case (obj kvs)
  then have "distinct (map fst kvs)" by simp
  from distinct_keys_canon(1) [OF this] obj show ?case
    by (auto simp del: map_map simp: map_of_map)
qed auto

lemma canon_canon: "wf_json j \<Longrightarrow> canon (canon j) = canon j"
proof (induction j rule: json_induct)
  case (scalar j) then show ?case by (cases j) auto
next
  case (obj kvs)
  have wf: "wf_json (JObj (sort_key fst (map (\<lambda>(k, v). (k, canon v)) kvs)))"
    using wf_canon [OF obj.prems] by simp
  have "map_option canon (map_option canon (map_of kvs k)) = map_option canon (map_of kvs k)" for k
    using obj by (cases "map_of kvs k") (auto dest!: map_of_SomeD)
  then have "canon (JObj (sort_key fst (map (\<lambda>(k, v). (k, canon v)) kvs))) = canon (JObj kvs)"
    using canon_JObj_eq [OF wf obj.prems] obj.prems canon_lookup [of kvs] by simp
  then show ?case by simp
qed auto

lemma json_codec_values:
  "json_codec (\<lambda>j. if wf_json j then Some (canon j) else None) canon"
  by (simp add: json_codec_def wf_canon canon_canon)

section \<open>Properties\<close>

text \<open>
  C1. Existing fields are always kept: whatever the patch is, a path of object keys that
  leads somewhere in the document leads somewhere in the merged document.
\<close>

theorem merge_keeps_fields:
  assumes "mergeObjects data patch path = Inr m" and "at data ks \<noteq> None"
  shows "at m ks \<noteq> None"
  using assms by (rule merge_at_kept)

theorem merge_keeps_fields_witness:
  "at (JObj [(''hp'', JNum ''3''), (''pos'', JObj [(''x'', JNum ''1'')])]) [''pos'', ''x''] \<noteq> None"
  by (rule merge_keeps_fields [where path = "[]" and patch = "JObj [(''hp'', JNum ''3'')]" and
        data = "JObj [(''hp'', JNum ''7''), (''pos'', JObj [(''x'', JNum ''1'')])]"])
    (simp_all add: mergeObjects.simps mergeValue.simps)

text \<open>
  C2. What is where after a successful merge, at every path of object keys and array indices,
  when the document is an object or an array. A value of the patch is there, unless it and the
  document's value at the place are both to be merged entry by entry, and unless the path asks for
  an array element the document does not have: such an entry of the patch is dropped without an
  error. What the patch does not name stays, and a patch that is no object changes nothing.
\<close>

theorem merge_overrides:
  assumes "mergeObjects data patch path = Inr m" and "is_obj data \<or> is_arr data" and "ks \<noteq> []"
  shows "(at patch ks = Some pv \<and> open_path data ks \<and>
        (is_obj pv \<longrightarrow> (\<forall>v. locate data ks = Some v \<longrightarrow> is_scalar v)) \<longrightarrow> locate m ks = Some pv) \<and>
     (at patch ks = Some pv \<and> \<not> open_path data ks \<longrightarrow> locate m ks = None) \<and>
     (misses patch ks \<and> locate data ks = Some dv \<longrightarrow> locate m ks = Some dv) \<and>
     (\<not> is_obj patch \<longrightarrow> m = data)"
proof -
  have "\<not> is_scalar data" using assms(2) by (simp add: is_scalar_def)
  then have "at patch ks = Some pv \<and> open_path data ks \<and>
      (is_obj pv \<longrightarrow> (\<forall>v. locate data ks = Some v \<longrightarrow> is_scalar v)) \<longrightarrow> locate m ks = Some pv"
    using merge_puts [OF assms(1) _ assms(3)] by blast
  moreover have "\<not> is_obj patch \<longrightarrow> m = data" using mergeObjects_not_obj [of patch data path] assms(1) by simp
  ultimately show ?thesis
    using merge_drops [OF assms(1), where ks = ks and pv = pv] merge_leaves [OF assms(1), where ks = ks and dv = dv]
    by simp
qed

theorem merge_overrides_witness:
  "let m = JObj [(''hp'', JArr [JNum ''1'', JObj [(''cur'', JNum ''5''), (''max'', JNum ''9'')]]), (''name'', JStr ''orc'')]
   in locate m [''hp'', ''1'', ''cur''] = Some (JNum ''5'') \<and> locate m [''hp'', ''7''] = None \<and>
     locate m [''hp'', ''1'', ''max''] = Some (JNum ''9'')"
proof -
  let ?d = "JObj [(''hp'', JArr [JNum ''1'', JObj [(''cur'', JNum ''2''), (''max'', JNum ''9'')]]), (''name'', JStr ''orc'')]"
    and ?p = "JObj [(''hp'', JObj [(''1'', JObj [(''cur'', JNum ''5'')]), (''7'', JNum ''0'')])]"
    and ?m = "JObj [(''hp'', JArr [JNum ''1'', JObj [(''cur'', JNum ''5''), (''max'', JNum ''9'')]]), (''name'', JStr ''orc'')]"
  have one: "itoa 0 = ''0''" "itoa 1 = ''1''" by code_simp+
  have m: "mergeObjects ?d ?p [] = Inr ?m"
    by (simp add: mergeObjects.simps mergeValue.simps one)
  have "is_obj ?d \<or> is_arr ?d" "[''hp'', ''1'', ''cur''] \<noteq> []" "[''hp'', ''7''] \<noteq> []" "[''hp'', ''1'', ''max''] \<noteq> []"
    by simp_all
  with merge_overrides [OF m, of "[''hp'', ''1'', ''cur'']" "JNum ''5''" JNull]
    merge_overrides [OF m, of "[''hp'', ''7'']" "JNum ''0''" JNull]
    merge_overrides [OF m, of "[''hp'', ''1'', ''max'']" JNull "JNum ''9''"]
  show ?thesis by (simp add: one)
qed

text \<open>
  Applying the same message twice is applying it once: when merging a patch into a
  document gives a buffer, merging the patch into that buffer gives the same buffer.
\<close>

theorem Merge_idempotent:
  assumes "json_codec dec enc" and "Merge dec enc dataBuf patchBuf = Inr m"
  shows "Merge dec enc m patchBuf = Inr m"
proof -
  from assms(2) obtain data patch merged where b: "dec dataBuf = Some data" "dec patchBuf = Some patch"
    "mergeObjects data patch [] = Inr merged" "m = enc merged"
    by (auto simp: Merge_def split: option.splits sum.splits)
  then have wf: "wf_json data" "wf_json patch" using json_codecD(1) [OF assms(1)] by auto
  then have wm: "wf_json merged" using merge_wf b(3) by blast
  have "canon merged = canon (canon merged)" using canon_canon [OF wm] by simp
  from merge_canon [OF merge_twice [OF b(3) wf(2)] this refl wm wf_canon [OF wm] wf(2) wf(2)]
  obtain again where again: "mergeObjects (canon merged) patch [] = Inr again" "canon merged = canon again"
    by blast
  have d: "dec m = Some (canon merged)"
    using json_codecD(2) [OF assms(1) wm] b(4) by simp
  have "canon again = canon merged" using again(2) by simp
  then have "enc again = m" unfolding b(4) by (rule json_codecD(3) [OF assms(1)])
  then show ?thesis using b(2) again(1) d by (simp add: Merge_def)
qed

theorem Merge_idempotent_witness:
  "Merge (\<lambda>j. if wf_json j then Some (canon j) else None) canon
     (JObj [(''a'', JNum ''1''), (''b'', JNum ''3'')]) (JObj [(''b'', JNum ''3'')])
   = Inr (JObj [(''a'', JNum ''1''), (''b'', JNum ''3'')])"
  by (rule Merge_idempotent [OF json_codec_values, where dataBuf = "JObj [(''b'', JNum ''2''), (''a'', JNum ''1'')]"])
    (simp add: Merge_def mergeObjects.simps mergeValue.simps)

text \<open>
  C3. A merge fails exactly on a conflict: it fails if and only if somewhere below the root,
  along object keys and array indices, the document holds an object and the patch a value
  that is not one; and the error names the path of such a conflict.
\<close>

theorem merge_fails_iff_conflict:
  assumes "wf_json data"
  shows "((\<exists>e. mergeObjects data patch [] = Inl e) \<longleftrightarrow> (\<exists>ks. conflict data patch ks)) \<and>
     (\<forall>e. mergeObjects data patch [] = Inl e \<longrightarrow> conflict data patch e)"
  using merge_error_conflict [OF _ assms] conflict_merge_error by fastforce

theorem merge_fails_iff_conflict_witness:
  "(\<exists>e. mergeObjects (JObj [(''pos'', JArr [JObj [(''at'', JObj [])]])])
      (JObj [(''pos'', JObj [(''0'', JObj [(''at'', JNull)])])]) [] = Inl e) \<and>
   conflict (JObj [(''pos'', JArr [JObj [(''at'', JObj [])]])])
      (JObj [(''pos'', JObj [(''0'', JObj [(''at'', JNull)])])]) [''pos'', ''0'', ''at'']"
proof -
  let ?d = "JObj [(''pos'', JArr [JObj [(''at'', JObj [])]])]"
    and ?p = "JObj [(''pos'', JObj [(''0'', JObj [(''at'', JNull)])])]"
  have c: "conflict ?d ?p [''pos'', ''0'', ''at'']"
    by (simp add: conflict_def itoa_def length_ndigits_small digit_def)
  have "wf_json ?d" by simp
  from merge_fails_iff_conflict [OF this, of ?p] c show ?thesis by blast
qed

text \<open>
  C4. The order in which Go's \<open>range\<close> visits the maps is irrelevant: on two documents and two
  patches that differ in nothing but the order of their keys, the merge fails on both or
  succeeds on both, and then marshals to the same keys and values.
\<close>

theorem merge_order_irrelevant:
  assumes "canon d1 = canon d2" and "canon p1 = canon p2"
    and "wf_json d1" "wf_json d2" "wf_json p1" "wf_json p2"
  shows "(case mergeObjects d1 p1 [] of Inl _ \<Rightarrow> None | Inr m \<Rightarrow> Some (canon m)) =
         (case mergeObjects d2 p2 [] of Inl _ \<Rightarrow> None | Inr m \<Rightarrow> Some (canon m))"
proof (cases "mergeObjects d1 p1 []")
  case (Inr m1)
  from merge_canon [OF this assms, of "[]"] Inr show ?thesis by auto
next
  case (Inl e)
  have "\<exists>e. mergeObjects d2 p2 [] = Inl e"
  proof (cases "mergeObjects d2 p2 []")
    case (Inr m2)
    from merge_canon [OF this assms(1,2) [symmetric] assms(4,3,6,5), of "[]"] Inl
    show ?thesis by auto
  qed simp
  with Inl show ?thesis by auto
qed

theorem merge_order_irrelevant_witness:
  "(case mergeObjects (JObj [(''a'', JNum ''1''), (''b'', JNull)]) (JObj [(''c'', JNull)]) []
    of Inl _ \<Rightarrow> None | Inr m \<Rightarrow> Some (canon m)) =
   (case mergeObjects (JObj [(''b'', JNull), (''a'', JNum ''1'')]) (JObj [(''c'', JNull)]) []
    of Inl _ \<Rightarrow> None | Inr m \<Rightarrow> Some (canon m))"
  by (rule merge_order_irrelevant) simp_all

end
