(* ===== verification/Apperrors.thy ===== *)
theory Apperrors
  imports Prelude
begin

text \<open>
  The sentinel errors of \<open>internal/pkg/apperrors\<close>, one constructor per \<open>errors.New\<close>, and
  what a fallible function returns: \<open>(value, nil)\<close> is \<open>Inr value\<close>, \<open>(nil, err)\<close> is
  \<open>Inl err\<close>. Sentinels are compared by identity (\<open>errors.Is\<close>), so equality of
  constructors is the comparison of the code. \<open>OtherError\<close> stands for an error value that
  is none of the sentinels (a driver's error passed on unchanged).
\<close>

datatype app_error =
  \<comment> \<open>auth.go\<close>
    SessionNotExistsError | DeleteFromRedisError | AddToRedisError | MarshallingSessionError
  | UserDoesNotExistError | IdentityNotFoundError | UnsupportedProviderError
  | OAuthProviderError | VKApiError | ClientError
  | IdentityAlreadyLinkedError | LastIdentityError
  \<comment> \<open>bestiary.go\<close>
  | StartPosSizeError | UnknownDirectionError | NotFoundError | ReceivedActionProcessingError
  | ParsedActionsErr | NilCreatureErr | InvalidBase64Err | ApiErr
  \<comment> \<open>characters.go\<close>
  | InvalidInputError | InsertMongoDataErr | ReadFileError | InvalidJSONError
  | UnmarashallingJSONError
  \<comment> \<open>description.go, encounter.go\<close>
  | ReceivedDescriptionError | PermissionDeniedError
  \<comment> \<open>maps.go\<close>
  | MapNotFoundError | MapPermissionDenied | InvalidMapNameError | InvalidSchemaVersion
  | InvalidDimensionsError | InvalidPlacementError | MapValidationError | InvalidUserIDError
  \<comment> \<open>mongo.go\<close>
  | FindMongoDataErr | DecodeMongoDataErr | NoDocsErr | InvalidIDErr
  \<comment> \<open>postgres.go\<close>
  | TxError | QueryError | ScanError
  \<comment> \<open>table.go\<close>
  | TableNotFoundErr | PlayersNumErr | UserAlreadyExistsErr
  | OtherError string

type_synonym 'a result = "app_error + 'a"

text \<open>The pagination guard every list usecase starts with.\<close>

definition bad_page :: "int \<Rightarrow> int \<Rightarrow> bool" where
  "bad_page start siz \<longleftrightarrow> start < 0 \<or> siz \<le> 0"

end
