(* ===== verification/Postgres.thy ===== *)
theory Postgres
  imports Apperrors Json
begin

text \<open>
  The Postgres database behind the repositories: its tables (\<open>db/migrations\<close>) as lists of
  rows, what a round trip of \<open>dbinit.PostgresPool\<close> (\<open>Query\<close>, \<open>QueryRow\<close>, \<open>Exec\<close>, \<open>Begin\<close>,
  \<open>Commit\<close>) can do, and the metrics wrapper \<open>dbcall\<close> around the calls.

  Failures are part of the state: \<open>outcomes\<close> is the schedule of what happens to the coming
  round trips. A round trip is served, refused (no connection, a malformed uuid parameter,
  a cancelled context), or breaks while its rows are read. The theorems hold for every
  schedule. An empty schedule is a healthy database.

  \<open>scan_order\<close> is the order in which a query that does not sort delivers its rows, by the time at
  which it runs: Postgres promises none.
\<close>

section \<open>Rows and tables\<close>

record user =
  userID :: int
  DisplayName :: string
  AvatarURL :: string
  Status :: string

record user_row =
  row_user :: user
  last_login_at :: "int option"

record identity_row =
  ident_id :: int
  ident_user_id :: int
  ident_provider :: string
  ident_provider_user_id :: string
  ident_email :: "string option"
  ident_created_at :: int
  ident_last_used_at :: "int option"

record encounter_row =
  enc_user_id :: int
  enc_name :: string
  enc_data :: string
  enc_is_deleted :: bool
  enc_uuid :: string

record map_row =
  map_id :: string
  map_user_id :: int
  map_name :: string
  map_jsonb :: json
  map_created_at :: int
  map_updated_at :: int

datatype outcome = Served | Refused | Broken nat

record postgres =
  users :: "user_row list"
  user_seq :: int
  identities :: "identity_row list"
  identity_seq :: int
  encounters :: "encounter_row list"
  maps :: "map_row list"
  uuids :: "string list"
  clock :: int
  scan_order :: "int \<Rightarrow> nat list"
  outcomes :: "outcome list"

text \<open>
  Error values: pgx's \<open>ErrNoRows\<close>, a \<open>PgError\<close> with its SQLSTATE and constraint, any other
  driver error, or a sentinel of the program.
\<close>

datatype go_error = ErrNoRows | PgError string string | ConnError | Sentinel app_error

abbreviation unique_violation :: "string \<Rightarrow> go_error" where
  "unique_violation c \<equiv> PgError ''23505'' c"

abbreviation check_violation :: "string \<Rightarrow> go_error" where
  "check_violation c \<equiv> PgError ''23514'' c"

abbreviation not_null_violation :: "string \<Rightarrow> go_error" where
  "not_null_violation c \<equiv> PgError ''23502'' c"

abbreviation foreign_key_violation :: "string \<Rightarrow> go_error" where
  "foreign_key_violation c \<equiv> PgError ''23503'' c"

type_synonym 'a dbcall = "postgres \<Rightarrow> (go_error + 'a) \<times> postgres"

section \<open>Round trips\<close>

definition round_trip :: "postgres \<Rightarrow> outcome \<times> postgres" where
  "round_trip db =
     (case outcomes db of
        [] \<Rightarrow> (Served, db\<lparr>clock := clock db + 1\<rparr>)
      | x # xs \<Rightarrow> (x, db\<lparr>clock := clock db + 1, outcomes := xs\<rparr>))"

text \<open>\<open>QueryRow\<close> and \<open>Scan\<close>.\<close>

definition query_row :: "(postgres \<Rightarrow> 'a option) \<Rightarrow> 'a dbcall" where
  "query_row sel db =
     (case round_trip db of
        (Served, db1) \<Rightarrow> ((case sel db1 of None \<Rightarrow> Inl ErrNoRows | Some r \<Rightarrow> Inr r), db1)
      | (_, db1) \<Rightarrow> (Inl ConnError, db1))"

text \<open>
  \<open>Query\<close>: the rows that \<open>rows.Next\<close> delivers and what \<open>rows.Err\<close> reports afterwards. An
  error raised while the statement runs shows only in \<open>rows.Err\<close>.
\<close>

definition query_rows :: "(postgres \<Rightarrow> go_error + 'a list) \<Rightarrow> ('a list \<times> go_error option) dbcall" where
  "query_rows sel db =
     (case round_trip db of
        (Refused, db1) \<Rightarrow> (Inl ConnError, db1)
      | (Served, db1) \<Rightarrow>
          (case sel db1 of Inl e \<Rightarrow> (Inr ([], Some e), db1) | Inr rows \<Rightarrow> (Inr (rows, None), db1))
      | (Broken n, db1) \<Rightarrow>
          (case sel db1 of
             Inl e \<Rightarrow> (Inr ([], Some e), db1)
           | Inr rows \<Rightarrow> (Inr (take n rows, Some ConnError), db1)))"

text \<open>\<open>Exec\<close>, and \<open>QueryRow\<close> of a statement with \<open>RETURNING\<close>.\<close>

definition exec :: "'a dbcall \<Rightarrow> 'a dbcall" where
  "exec stmt db =
     (case round_trip db of
        (Served, db1) \<Rightarrow> stmt db1
      | (_, db1) \<Rightarrow> (Inl ConnError, db1))"

text \<open>
  \<open>Begin\<close>, statements, \<open>Commit\<close>, with the deferred \<open>Rollback\<close>: a rollback restores the
  tables; sequences, generated uuids and time are not restored.
\<close>

definition rollback :: "postgres \<Rightarrow> postgres \<Rightarrow> postgres" where
  "rollback db0 db =
     db\<lparr>users := users db0, identities := identities db0, encounters := encounters db0,
        maps := maps db0\<rparr>"

definition transaction :: "'a dbcall \<Rightarrow> 'a dbcall" where
  "transaction body db =
     (case exec (\<lambda>db. (Inr (), db)) db of
        (Inl e, db1) \<Rightarrow> (Inl e, db1)
      | (Inr _, db1) \<Rightarrow>
          (case body db1 of
             (Inl e, db2) \<Rightarrow> (Inl e, rollback db1 db2)
           | (Inr x, db2) \<Rightarrow>
               (case exec (\<lambda>db. (Inr (), db)) db2 of
                  (Inl e, db3) \<Rightarrow> (Inl e, rollback db1 db3)
                | (Inr _, db3) \<Rightarrow> (Inr x, db3))))"

definition db_bind :: "'a dbcall \<Rightarrow> ('a \<Rightarrow> 'b dbcall) \<Rightarrow> 'b dbcall" where
  "db_bind f k db = (case f db of (Inl e, db1) \<Rightarrow> (Inl e, db1) | (Inr x, db1) \<Rightarrow> k x db1)"

section \<open>What a round trip leaves alone\<close>

text \<open>Same rows in every table.\<close>

definition same_tables :: "postgres \<Rightarrow> postgres \<Rightarrow> bool" where
  "same_tables db db' \<longleftrightarrow>
     users db' = users db \<and> identities db' = identities db \<and>
     encounters db' = encounters db \<and> maps db' = maps db"

text \<open>A database that answers every coming call.\<close>

definition healthy :: "postgres \<Rightarrow> bool" where
  "healthy db \<longleftrightarrow> outcomes db = []"

named_theorems pg_simps "round trips and transactions by their outcome"

lemma same_tables_refl [simp]: "same_tables db db"
  by (simp add: same_tables_def)

lemma same_tables_trans: "same_tables a b \<Longrightarrow> same_tables b c \<Longrightarrow> same_tables a c"
  by (simp add: same_tables_def)

lemma same_tablesD:
  assumes "same_tables db db'"
  shows "users db' = users db" "identities db' = identities db"
    "encounters db' = encounters db" "maps db' = maps db"
  using assms by (simp_all add: same_tables_def)

lemma round_trip_frame: "round_trip db = (b, db') \<Longrightarrow> same_tables db db' \<and>
    user_seq db' = user_seq db \<and> identity_seq db' = identity_seq db \<and> uuids db' = uuids db \<and>
    (healthy db \<longrightarrow> b = Served \<and> healthy db')"
  by (auto simp: round_trip_def same_tables_def healthy_def split: list.splits)

lemma query_row_cases:
  assumes "query_row sel db = (r, db')"
  shows "same_tables db db' \<and> (healthy db \<longrightarrow> healthy db') \<and>
     (r = Inl ConnError \<and> \<not> healthy db \<or>
      r = (case sel db' of None \<Rightarrow> Inl ErrNoRows | Some x \<Rightarrow> Inr x))"
  using assms round_trip_frame [of db]
  by (auto simp: query_row_def split: prod.splits outcome.splits)

lemma query_rows_cases:
  assumes "query_rows sel db = (r, db')"
  shows "same_tables db db' \<and> (healthy db \<longrightarrow> healthy db') \<and>
     (r = Inl ConnError \<and> \<not> healthy db \<or>
      (case sel db' of
         Inl e \<Rightarrow> r = Inr ([], Some e)
       | Inr all \<Rightarrow> r = Inr (all, None) \<or> (\<not> healthy db \<and> (\<exists>n. r = Inr (take n all, Some ConnError)))))"
  using assms round_trip_frame [of db]
  by (auto simp: query_rows_def split: prod.splits outcome.splits sum.splits)

lemma exec_cases:
  assumes "exec stmt db = (r, db')"
  shows "(r = Inl ConnError \<and> same_tables db db' \<and> \<not> healthy db) \<or>
     (\<exists>db1. same_tables db db1 \<and> user_seq db1 = user_seq db \<and> identity_seq db1 = identity_seq db \<and>
        uuids db1 = uuids db \<and> (healthy db \<longrightarrow> healthy db1) \<and> stmt db1 = (r, db'))"
  using assms round_trip_frame [of db]
  by (auto simp: exec_def split: prod.splits outcome.splits)

lemma exec_unit:
  assumes "exec (\<lambda>db. (Inr (), db)) db = (r, db')"
  shows "same_tables db db' \<and> user_seq db' = user_seq db \<and> identity_seq db' = identity_seq db \<and>
     uuids db' = uuids db \<and> (healthy db \<longrightarrow> healthy db' \<and> r = Inr ())"
  using assms round_trip_frame [of db]
  by (auto simp: exec_def split: prod.splits outcome.splits)

lemma rollback_same: "same_tables db0 (rollback db0 db)"
  by (simp add: rollback_def same_tables_def)

text \<open>
  All or nothing: a transaction that returns an error leaves the tables as they were, one
  that succeeds has run its body.
\<close>

lemma transaction_cases:
  assumes "transaction body db = (r, db')"
  shows "(\<exists>e. r = Inl e \<and> same_tables db db') \<or>
     (\<exists>x db1 db2. r = Inr x \<and> same_tables db db1 \<and> user_seq db1 = user_seq db \<and>
        identity_seq db1 = identity_seq db \<and> uuids db1 = uuids db \<and>
        body db1 = (Inr x, db2) \<and> same_tables db2 db' \<and> user_seq db' = user_seq db2 \<and>
        identity_seq db' = identity_seq db2)"
proof -
  obtain b db1 where b: "exec (\<lambda>db. (Inr (), db)) db = (b, db1)" by fastforce
  obtain r2 db2 where body: "body db1 = (r2, db2)" by fastforce
  obtain c db3 where c: "exec (\<lambda>db. (Inr (), db)) db2 = (c, db3)" by fastforce
  have roll: "same_tables db (rollback db1 x)" for x
    using exec_unit [OF b] rollback_same same_tables_trans by blast
  note fb = exec_unit [OF b] and fc = exec_unit [OF c]
  show ?thesis
  proof (cases b)
    case (Inl e)
    with assms fb have "r = Inl e" "same_tables db db'" by (simp_all add: transaction_def b)
    then show ?thesis by blast
  next
    case (Inr u)
    show ?thesis
    proof (cases r2)
      case (Inl e)
      with assms \<open>b = Inr u\<close> have "r = Inl e" "db' = rollback db1 db2"
        by (simp_all add: transaction_def b body)
      with roll show ?thesis by blast
    next
      case (Inr x)
      show ?thesis
      proof (cases c)
        case (Inl e)
        with assms \<open>b = Inr u\<close> \<open>r2 = Inr x\<close> have "r = Inl e" "db' = rollback db1 db3"
          by (simp_all add: transaction_def b body c)
        with roll show ?thesis by blast
      next
        case (Inr v)
        with assms \<open>b = Inr u\<close> \<open>r2 = Inr x\<close> have "r = Inr x" "db' = db3"
          by (simp_all add: transaction_def b body c)
        with fb fc body \<open>r2 = Inr x\<close> show ?thesis
          by (intro disjI2 exI [of _ x] exI [of _ db1] exI [of _ db2]) simp
      qed
    qed
  qed
qed

lemma transaction_healthy:
  assumes "transaction body db = (r, db')" and "healthy db"
    and "\<And>db1. healthy db1 \<Longrightarrow> healthy (snd (body db1))"
  shows "healthy db' \<and> (\<exists>db1. same_tables db db1 \<and> user_seq db1 = user_seq db \<and>
     identity_seq db1 = identity_seq db \<and> uuids db1 = uuids db \<and> healthy db1 \<and> fst (body db1) = r)"
proof -
  obtain b db1 where b: "exec (\<lambda>db. (Inr (), db)) db = (b, db1)" by fastforce
  obtain r2 db2 where body: "body db1 = (r2, db2)" by fastforce
  obtain c db3 where c: "exec (\<lambda>db. (Inr (), db)) db2 = (c, db3)" by fastforce
  have h: "b = Inr ()" "healthy db1" using exec_unit [OF b] assms(2) by auto
  with assms(3) [of db1] body have h2: "healthy db2" by simp
  then have h3: "c = Inr ()" "healthy db3" using exec_unit [OF c] by auto
  have roll: "healthy (rollback x y) = healthy y" for x y by (simp add: rollback_def healthy_def)
  have t: "transaction body db = (case r2 of Inl e \<Rightarrow> (Inl e, rollback db1 db2) | Inr x \<Rightarrow> (Inr x, db3))"
    by (simp add: transaction_def b [unfolded h(1)] body c [unfolded h3(1)] split: sum.split)
  have "r = r2" "healthy db'"
    using assms(1) [unfolded t] h2 h3(2) roll by (auto split: sum.splits)
  with exec_unit [OF b] h body assms(2) show ?thesis
    by (intro conjI exI [of _ db1]) simp_all
qed

lemma db_bind_Inr:
  "db_bind f k db = (Inr y, db') \<longleftrightarrow> (\<exists>x db1. f db = (Inr x, db1) \<and> k x db1 = (Inr y, db'))"
  by (auto simp: db_bind_def split: prod.splits sum.splits)

section \<open>dbcall\<close>

text \<open>
  \<open>DBCall\<close> and \<open>ErrOnlyDBCall\<close> (\<open>server/repository/dbcall/call.go\<close>) count the call, time it
  and count its error; \<open>hits\<close> and \<open>errs\<close> are the counters of \<open>metrics.DBMetrics\<close>. The
  repositories below are modelled without the counters, which this shows to be harmless.
\<close>

record db_metrics =
  hits :: "string list"
  durations :: "string list"
  errs :: "string list"

definition DBCall ::
    "string \<Rightarrow> ('s \<Rightarrow> (go_error + 'a) \<times> 's) \<Rightarrow> db_metrics \<times> 's \<Rightarrow> (go_error + 'a) \<times> (db_metrics \<times> 's)"
  where
  "DBCall fnName dbFn = (\<lambda>(m, s).
     let m1 = m\<lparr>hits := fnName # hits m\<rparr>;
         (res, s') = dbFn s;
         m2 = (case res of Inl _ \<Rightarrow> m1\<lparr>errs := fnName # errs m1\<rparr> | Inr _ \<Rightarrow> m1)
     in (res, (m2\<lparr>durations := fnName # durations m2\<rparr>, s')))"

definition ErrOnlyDBCall ::
    "string \<Rightarrow> ('s \<Rightarrow> (go_error + unit) \<times> 's) \<Rightarrow> db_metrics \<times> 's \<Rightarrow> (go_error + unit) \<times> (db_metrics \<times> 's)"
  where
  "ErrOnlyDBCall fnName dbFn = DBCall fnName dbFn"

lemma DBCall_result: "fst (DBCall fnName dbFn (m, s)) = fst (dbFn s)"
  and DBCall_state: "snd (snd (DBCall fnName dbFn (m, s))) = snd (dbFn s)"
  by (simp_all add: DBCall_def Let_def split: prod.splits)

end
