(* ===== verification/Responses.thy ===== *)
theory Responses
  imports Postgres
begin

text \<open>
  HTTP responses (\<open>internal/pkg/server/delivery/responses\<close>) and what the handlers of every
  component share: the status codes and messages, \<open>SendOkResponse\<close> and \<open>SendErrResponse\<close>,
  and the user a handler takes from the request context.

  A body is the Go value that is marshalled; \<open>marshals\<close> says whether \<open>json.Marshal\<close>
  succeeds on it.
\<close>

datatype 'b payload = OkBody 'b | NullBody | ErrBody string | TextBody string

type_synonym 'b response = "int \<times> 'b payload"

definition StatusOk :: int where "StatusOk = 200"
definition StatusBadRequest :: int where "StatusBadRequest = 400"
definition StatusUnauthorized :: int where "StatusUnauthorized = 401"
definition StatusForbidden :: int where "StatusForbidden = 403"
definition StatusInternalServerError :: int where "StatusInternalServerError = 500"

lemmas status_defs = StatusOk_def StatusBadRequest_def StatusUnauthorized_def
  StatusForbidden_def StatusInternalServerError_def

definition ErrInternalServer :: string where "ErrInternalServer = ''Server error''"
definition ErrVKServer :: string where "ErrVKServer = ''VK server error''"
definition ErrOAuthProvider :: string where "ErrOAuthProvider = ''OAuth provider error''"
definition ErrBadJSON :: string where "ErrBadJSON = ''Wrong JSON format''"
definition ErrBadRequest :: string where "ErrBadRequest = ''Bad request''"
definition ErrIdentityAlreadyLinked :: string where
  "ErrIdentityAlreadyLinked = ''Identity already linked to another user''"
definition ErrLastIdentity :: string where "ErrLastIdentity = ''Cannot unlink last identity''"
definition ErrNotAuthorized :: string where "ErrNotAuthorized = ''User not authorized''"
definition ErrForbidden :: string where "ErrForbidden = ''User have no access to this content''"
definition ErrUserInactive :: string where "ErrUserInactive = ''USER_INACTIVE''"
definition ErrCreatureNotFound :: string where
  "ErrCreatureNotFound = ''Creature with same URL not found''"
definition ErrCharacterNotFound :: string where
  "ErrCharacterNotFound = ''Character with same URL not found''"
definition ErrSizeOrPosition :: string where
  "ErrSizeOrPosition = ''Size and position cannot be less than zero''"
definition ErrWrongDirection :: string where
  "ErrWrongDirection = ''Wrong direction type in order''"
definition ErrEmptyCharacterData :: string where
  "ErrEmptyCharacterData = ''Empty character data''"
definition ErrWrongFileSize :: string where "ErrWrongFileSize = ''File is too large''"
definition ErrWrongFileType :: string where
  "ErrWrongFileType = ''Invalid file type. Only JSON files are allowed''"
definition ErrWrongEncounterName :: string where
  "ErrWrongEncounterName = ''Encounter name must not be empty and more than 60 characters''"
definition ErrInvalidID :: string where "ErrInvalidID = ''Invalid ID''"
definition ErrWrongTableID :: string where "ErrWrongTableID = ''Wrong table ID''"
definition ErrWSUpgrade :: string where "ErrWSUpgrade = ''Websocket upgrade error''"
definition ErrWrongImage :: string where "ErrWrongImage = ''Bad image''"
definition ErrEmptyImage :: string where "ErrEmptyImage = ''Image not provided''"
definition ErrWrongJobID :: string where "ErrWrongJobID = ''Wrong job ID''"
definition ErrWrongBase64 :: string where "ErrWrongBase64 = ''Invalid base64 format''"

text \<open>
  The header is written before the body is marshalled, so a body that does not marshal
  keeps its status code and \<open>http.Error\<close> only adds its text.
\<close>

definition sendResponse :: "('b payload \<Rightarrow> bool) \<Rightarrow> int \<Rightarrow> 'b payload \<Rightarrow> 'b response" where
  "sendResponse marshals code response =
     (code, if marshals response then response else TextBody ErrInternalServer)"

definition SendOkResponse :: "('b payload \<Rightarrow> bool) \<Rightarrow> 'b payload \<Rightarrow> 'b response" where
  "SendOkResponse marshals body = sendResponse marshals StatusOk body"

text \<open>Answers all of whose values marshal.\<close>

abbreviation SendOk :: "'b payload \<Rightarrow> 'b response" where
  "SendOk \<equiv> SendOkResponse (\<lambda>_. True)"

definition SendErrResponse :: "int \<Rightarrow> string \<Rightarrow> 'b response" where
  "SendErrResponse code status = sendResponse (\<lambda>_. True) code (ErrBody status)"

lemma SendErrResponse_simp [simp]: "SendErrResponse code status = (code, ErrBody status)"
  by (simp add: SendErrResponse_def sendResponse_def)

lemma SendOkResponse_code [simp]: "fst (SendOkResponse marshals body) = StatusOk"
  by (simp add: SendOkResponse_def sendResponse_def)

lemma SendOkResponse_marshals [simp]:
  "marshals body \<Longrightarrow> SendOkResponse marshals body = (StatusOk, body)"
  by (simp add: SendOkResponse_def sendResponse_def)

text \<open>
  \<open>ctx.Value(h.ctxUserKey).(*models.User)\<close>: the type assertion panics when the middleware
  has not put a user into the context.
\<close>

definition with_user :: "user option \<Rightarrow> (user \<Rightarrow> 'd \<Rightarrow> 'r go \<times> 'd) \<Rightarrow> 'd \<Rightarrow> 'r go \<times> 'd" where
  "with_user ctx_user k d = (case ctx_user of None \<Rightarrow> (Panic, d) | Some user \<Rightarrow> k user d)"

lemma with_user_Some [simp]: "with_user (Some user) k d = k user d"
  by (simp add: with_user_def)

text \<open>
  \<open>RecoveryMiddleware\<close>: a panic of the handler becomes a plain 500. A handler that never
  returns is not helped by it.
\<close>

definition RecoveryMiddleware :: "('d \<Rightarrow> 'b response go \<times> 'd) \<Rightarrow> 'd \<Rightarrow> 'b response go \<times> 'd" where
  "RecoveryMiddleware next d =
     (case next d of
        (Panic, d1) \<Rightarrow> (Return (StatusInternalServerError, TextBody ErrInternalServer), d1)
      | r \<Rightarrow> r)"

lemma RecoveryMiddleware_no_panic: "fst (RecoveryMiddleware next d) \<noteq> Panic"
  and RecoveryMiddleware_state: "snd (RecoveryMiddleware next d) = snd (next d)"
  by (auto simp: RecoveryMiddleware_def split: prod.splits go.splits)

end
