(* ===== verification/Encounter.thy ===== *)
theory Encounter
  imports Responses
begin

text \<open>
  \<open>internal/pkg/encounter\<close>: the encounters a user keeps. The Go interface
  \<open>EncounterRepository\<close> is a record of functions over a store \<open>'d\<close>; the usecases and the
  handlers are written over any such record, \<open>encounterStorage\<close> is the one over Postgres.

  The locales state what the usecases rely on, with the visible encounters as an abstract
  map: \<open>encounter_repo\<close> for every fault schedule, \<open>encounter_repo_up\<close> for a store that is
  up. Both are interpreted on \<open>encounterStorage\<close>.
\<close>

section \<open>Models\<close>

record encounter =
  UserID :: int
  Name :: string
  Data :: string
  UUID :: string

record encounter_in_list =
  il_UserID :: int
  il_Name :: string
  il_UUID :: string

text \<open>\<open>Data\<close> of a request is nil when the JSON body does not have it.\<close>

record save_encounter_req =
  req_Name :: string
  req_Data :: "string option"

record search_params =
  Value :: string
  Exact :: bool

record get_encounters_list_req =
  req_Start :: int
  req_Size :: int
  req_Search :: search_params

section \<open>The repository interface\<close>

record 'd encounter_repository =
  repo_ListWithSearch ::
    "int \<Rightarrow> int \<Rightarrow> int \<Rightarrow> search_params \<Rightarrow> 'd \<Rightarrow> encounter_in_list list option result \<times> 'd"
  repo_List :: "int \<Rightarrow> int \<Rightarrow> int \<Rightarrow> 'd \<Rightarrow> encounter_in_list list option result \<times> 'd"
  repo_GetByID :: "string \<Rightarrow> 'd \<Rightarrow> encounter result \<times> 'd"
  repo_Save :: "save_encounter_req \<Rightarrow> string \<Rightarrow> int \<Rightarrow> 'd \<Rightarrow> unit result \<times> 'd"
  repo_Update :: "string \<Rightarrow> string \<Rightarrow> 'd \<Rightarrow> unit result \<times> 'd"
  repo_Remove :: "string \<Rightarrow> 'd \<Rightarrow> unit result \<times> 'd"
  repo_CheckPermission :: "string \<Rightarrow> int \<Rightarrow> 'd \<Rightarrow> bool \<times> 'd"

section \<open>Usecases\<close>

text \<open>\<open>usecases/encounter.go\<close>; \<open>new_id\<close> is what \<open>uuid.NewString\<close> returns.\<close>

definition uc_GetEncountersList ::
    "'d encounter_repository \<Rightarrow> int \<Rightarrow> int \<Rightarrow> int \<Rightarrow> search_params \<Rightarrow> 'd
     \<Rightarrow> encounter_in_list list option result \<times> 'd" where
  "uc_GetEncountersList repo siz start uid search d =
     (if bad_page start siz then (Inl StartPosSizeError, d)
      else if Value search = [] then repo_List repo siz start uid d
      else repo_ListWithSearch repo siz start uid search d)"

definition uc_GetEncounterByID ::
    "'d encounter_repository \<Rightarrow> string \<Rightarrow> int \<Rightarrow> 'd \<Rightarrow> encounter result \<times> 'd" where
  "uc_GetEncounterByID repo eid uid d =
     (case repo_CheckPermission repo eid uid d of
        (False, d1) \<Rightarrow> (Inl PermissionDeniedError, d1)
      | (True, d1) \<Rightarrow> repo_GetByID repo eid d1)"

definition uc_SaveEncounter ::
    "'d encounter_repository \<Rightarrow> save_encounter_req \<Rightarrow> int \<Rightarrow> string \<Rightarrow> 'd \<Rightarrow> unit result \<times> 'd" where
  "uc_SaveEncounter repo enc uid new_id d =
     (if req_Name enc = [] \<or> 60 < length (req_Name enc) then (Inl InvalidInputError, d)
      else repo_Save repo enc new_id uid d)"

definition uc_UpdateEncounter ::
    "'d encounter_repository \<Rightarrow> string \<Rightarrow> string \<Rightarrow> int \<Rightarrow> 'd \<Rightarrow> unit result \<times> 'd" where
  "uc_UpdateEncounter repo dat eid uid d =
     (case repo_CheckPermission repo eid uid d of
        (False, d1) \<Rightarrow> (Inl PermissionDeniedError, d1)
      | (True, d1) \<Rightarrow> repo_Update repo dat eid d1)"

definition uc_RemoveEncounter ::
    "'d encounter_repository \<Rightarrow> string \<Rightarrow> int \<Rightarrow> 'd \<Rightarrow> unit result \<times> 'd" where
  "uc_RemoveEncounter repo eid uid d =
     (case repo_CheckPermission repo eid uid d of
        (False, d1) \<Rightarrow> (Inl PermissionDeniedError, d1)
      | (True, d1) \<Rightarrow> repo_Remove repo eid d1)"

section \<open>Handlers\<close>

text \<open>
  \<open>delivery/encounter_handlers.go\<close>. The decoded body is \<open>None\<close> when decoding fails (or, for
  an update, when reading it fails); \<open>valid\<close> says whether a byte string is valid JSON, which
  \<open>json.Marshal\<close> checks of the raw \<open>Data\<close> of an encounter.
\<close>

datatype encounter_body = BodyList "encounter_in_list list option" | BodyEncounter encounter

fun encounter_marshals :: "(string \<Rightarrow> bool) \<Rightarrow> encounter_body payload \<Rightarrow> bool" where
  "encounter_marshals valid (OkBody (BodyEncounter e)) = valid (Data e)"
| "encounter_marshals valid _ = True"

definition h_GetEncountersList ::
    "'d encounter_repository \<Rightarrow> (string \<Rightarrow> bool) \<Rightarrow> get_encounters_list_req option \<Rightarrow> user option
     \<Rightarrow> 'd \<Rightarrow> encounter_body response go \<times> 'd" where
  "h_GetEncountersList repo valid body ctx_user d =
     (case body of
        None \<Rightarrow> (Return (SendErrResponse StatusBadRequest ErrBadJSON), d)
      | Some reqData \<Rightarrow>
          with_user ctx_user (\<lambda>user d.
            case uc_GetEncountersList repo (req_Size reqData) (req_Start reqData) (userID user)
                   (req_Search reqData) d of
              (Inl err, d1) \<Rightarrow>
                (Return (if err = StartPosSizeError
                         then SendErrResponse StatusBadRequest ErrSizeOrPosition
                         else SendErrResponse StatusInternalServerError ErrInternalServer), d1)
            | (Inr list, d1) \<Rightarrow>
                (Return (SendOkResponse (encounter_marshals valid) (OkBody (BodyList list))), d1)) d)"

definition no_id :: "string option \<Rightarrow> bool" where
  "no_id var = (case var of None \<Rightarrow> True | Some eid \<Rightarrow> eid = [])"

definition h_GetEncounterByID ::
    "'d encounter_repository \<Rightarrow> (string \<Rightarrow> bool) \<Rightarrow> string option \<Rightarrow> user option
     \<Rightarrow> 'd \<Rightarrow> encounter_body response go \<times> 'd" where
  "h_GetEncounterByID repo valid var ctx_user d =
     (if no_id var then (Return (SendErrResponse StatusBadRequest ErrInvalidID), d)
      else with_user ctx_user (\<lambda>user d.
        case uc_GetEncounterByID repo (the var) (userID user) d of
          (Inl err, d1) \<Rightarrow>
            (Return (if err = PermissionDeniedError
                     then SendErrResponse StatusForbidden ErrForbidden
                     else SendErrResponse StatusInternalServerError ErrInternalServer), d1)
        | (Inr encounter, d1) \<Rightarrow>
            (Return (SendOkResponse (encounter_marshals valid) (OkBody (BodyEncounter encounter))), d1)) d)"

definition h_SaveEncounter ::
    "'d encounter_repository \<Rightarrow> (string \<Rightarrow> bool) \<Rightarrow> save_encounter_req option \<Rightarrow> string \<Rightarrow> user option
     \<Rightarrow> 'd \<Rightarrow> encounter_body response go \<times> 'd" where
  "h_SaveEncounter repo valid body new_id ctx_user d =
     (case body of
        None \<Rightarrow> (Return (SendErrResponse StatusBadRequest ErrBadJSON), d)
      | Some enc \<Rightarrow>
          with_user ctx_user (\<lambda>user d.
            case uc_SaveEncounter repo enc (userID user) new_id d of
              (Inl err, d1) \<Rightarrow>
                (Return (if err = InvalidInputError
                         then SendErrResponse StatusBadRequest ErrWrongEncounterName
                         else SendErrResponse StatusInternalServerError ErrInternalServer), d1)
            | (Inr _, d1) \<Rightarrow> (Return (SendOkResponse (encounter_marshals valid) NullBody), d1)) d)"

definition h_UpdateEncounter ::
    "'d encounter_repository \<Rightarrow> (string \<Rightarrow> bool) \<Rightarrow> string option \<Rightarrow> string option \<Rightarrow> user option
     \<Rightarrow> 'd \<Rightarrow> encounter_body response go \<times> 'd" where
  "h_UpdateEncounter repo valid var body ctx_user d =
     (if no_id var then (Return (SendErrResponse StatusBadRequest ErrInvalidID), d)
      else (case body of
        None \<Rightarrow> (Return (SendErrResponse StatusInternalServerError ErrInternalServer), d)
      | Some dat \<Rightarrow>
          with_user ctx_user (\<lambda>user d.
            case uc_UpdateEncounter repo dat (the var) (userID user) d of
              (Inl err, d1) \<Rightarrow>
                (Return (if err = PermissionDeniedError
                         then SendErrResponse StatusForbidden ErrForbidden
                         else SendErrResponse StatusInternalServerError ErrInternalServer), d1)
            | (Inr _, d1) \<Rightarrow> (Return (SendOkResponse (encounter_marshals valid) NullBody), d1)) d))"

definition h_RemoveEncounter ::
    "'d encounter_repository \<Rightarrow> (string \<Rightarrow> bool) \<Rightarrow> string option \<Rightarrow> user option
     \<Rightarrow> 'd \<Rightarrow> encounter_body response go \<times> 'd" where
  "h_RemoveEncounter repo valid var ctx_user d =
     (if no_id var then (Return (SendErrResponse StatusBadRequest ErrInvalidID), d)
      else with_user ctx_user (\<lambda>user d.
        case uc_RemoveEncounter repo (the var) (userID user) d of
          (Inl err, d1) \<Rightarrow>
            (Return (if err = PermissionDeniedError
                     then SendErrResponse StatusForbidden ErrForbidden
                     else SendErrResponse StatusInternalServerError ErrInternalServer), d1)
        | (Inr _, d1) \<Rightarrow> (Return (SendOkResponse (encounter_marshals valid) NullBody), d1)) d)"

text \<open>A request to the five routes of \<open>routers/encounter.go\<close>, and the handler it reaches.\<close>

datatype encounter_request =
    ReqList "get_encounters_list_req option"
  | ReqGet "string option"
  | ReqSave "save_encounter_req option" string
  | ReqUpdate "string option" "string option"
  | ReqRemove "string option"

fun serve_encounter ::
    "'d encounter_repository \<Rightarrow> (string \<Rightarrow> bool) \<Rightarrow> user option \<times> encounter_request
     \<Rightarrow> 'd \<Rightarrow> encounter_body response go \<times> 'd" where
  "serve_encounter repo valid (u, ReqList body) d = h_GetEncountersList repo valid body u d"
| "serve_encounter repo valid (u, ReqGet var) d = h_GetEncounterByID repo valid var u d"
| "serve_encounter repo valid (u, ReqSave body new_id) d = h_SaveEncounter repo valid body new_id u d"
| "serve_encounter repo valid (u, ReqUpdate var body) d = h_UpdateEncounter repo valid var body u d"
| "serve_encounter repo valid (u, ReqRemove var) d = h_RemoveEncounter repo valid var u d"

fun serve_encounters ::
    "'d encounter_repository \<Rightarrow> (string \<Rightarrow> bool) \<Rightarrow> (user option \<times> encounter_request) list \<Rightarrow> 'd \<Rightarrow> 'd"
  where
  "serve_encounters repo valid [] d = d"
| "serve_encounters repo valid (r # rs) d =
     serve_encounters repo valid rs (snd (serve_encounter repo valid r d))"

section \<open>The contract of the repository\<close>

definition in_list :: "encounter \<Rightarrow> encounter_in_list" where
  "in_list e = \<lparr>il_UserID = UserID e, il_Name = Name e, il_UUID = UUID e\<rparr>"

locale encounter_repo =
  fixes repo :: "'d encounter_repository"
    and inv :: "'d \<Rightarrow> bool"
    and visible :: "'d \<Rightarrow> encounter list"
  assumes distinct_visible: "inv d \<Longrightarrow> distinct (map UUID (visible d))"
    and check: "inv d \<Longrightarrow> repo_CheckPermission repo eid uid d = (b, d') \<Longrightarrow>
        inv d' \<and> visible d' = visible d \<and>
        (b \<longrightarrow> (\<exists>e \<in> set (visible d). UUID e = eid \<and> UserID e = uid))"
    and get: "inv d \<Longrightarrow> repo_GetByID repo eid d = (g, d') \<Longrightarrow>
        inv d' \<and> visible d' = visible d \<and> (\<forall>e. g = Inr e \<longrightarrow> e \<in> set (visible d) \<and> UUID e = eid)"
    and save: "inv d \<Longrightarrow> repo_Save repo enc eid uid d = (r, d') \<Longrightarrow>
        inv d' \<and>
        (if r = Inr ()
         then \<exists>dat. req_Data enc = Some dat \<and> eid \<notin> UUID ` set (visible d) \<and>
           visible d' = visible d @ [\<lparr>UserID = uid, Name = req_Name enc, Data = dat, UUID = eid\<rparr>]
         else visible d' = visible d)"
    and update: "inv d \<Longrightarrow> repo_Update repo dat eid d = (r, d') \<Longrightarrow>
        inv d' \<and> visible d' =
          (if r = Inr () then update_where (\<lambda>e. UUID e = eid) (\<lambda>e. e\<lparr>Data := dat\<rparr>) (visible d)
           else visible d)"
    and remove: "inv d \<Longrightarrow> repo_Remove repo eid d = (r, d') \<Longrightarrow>
        inv d' \<and> visible d' =
          (if r = Inr () then delete_where (\<lambda>e. UUID e = eid) (visible d) else visible d)"
    and list: "inv d \<Longrightarrow> repo_List repo siz start uid d = (l, d') \<Longrightarrow>
        inv d' \<and> visible d' = visible d \<and>
        (\<forall>xs. l = Inr (Some xs) \<longrightarrow>
           (\<exists>k ks. xs = take k (map in_list (limit_offset siz start
                  (scanned ks (filter (\<lambda>e. UserID e = uid) (visible d)))))))"
    and search: "inv d \<Longrightarrow> repo_ListWithSearch repo siz start uid what d = (l, d') \<Longrightarrow>
        inv d' \<and> visible d' = visible d \<and>
        (\<forall>xs. l = Inr (Some xs) \<longrightarrow>
           (\<exists>k ks p. xs = take k (map in_list (limit_offset siz start
                  (scanned ks (filter (\<lambda>e. UserID e = uid \<and> p (Name e)) (visible d)))))))"
begin

lemma uc_get:
  assumes "inv d" and "uc_GetEncounterByID repo eid uid d = (r, d')"
  shows "inv d' \<and> visible d' = visible d \<and>
    (\<forall>e. r = Inr e \<longrightarrow> e \<in> set (visible d) \<and> UUID e = eid \<and> UserID e = uid)"
proof (cases "repo_CheckPermission repo eid uid d")
  case (Pair b d1)
  note c = check [OF assms(1) Pair]
  show ?thesis
  proof (cases b)
    case True
    with Pair assms(2) have "repo_GetByID repo eid d1 = (r, d')" by (simp add: uc_GetEncounterByID_def)
    from get [OF _ this] c True distinct_visible [OF assms(1)] show ?thesis
      by (metis (mono_tags, lifting) distinct_map inj_onD)
  qed (use Pair assms(2) c in \<open>auto simp: uc_GetEncounterByID_def\<close>)
qed

text \<open>Every encounter of another user is as it was, and no new one appears for them.\<close>

definition others_kept :: "int \<Rightarrow> 'd \<Rightarrow> 'd \<Rightarrow> bool" where
  "others_kept uid d d' \<longleftrightarrow>
     filter (\<lambda>e. UserID e \<noteq> uid) (visible d') = filter (\<lambda>e. UserID e \<noteq> uid) (visible d)"

lemma others_kept_refl: "visible d' = visible d \<Longrightarrow> others_kept uid d d'"
  by (simp add: others_kept_def)

lemma owned_unique:
  assumes "inv d" and "e \<in> set (visible d)" "UUID e = eid" "UserID e = uid"
    and "e' \<in> set (visible d)" "UUID e' = eid"
  shows "UserID e' = uid"
  using assms distinct_visible [OF assms(1)] by (metis (mono_tags, lifting) distinct_map inj_onD)

lemma uc_list:
  assumes "inv d" and "uc_GetEncountersList repo siz start uid what d = (r, d')"
  shows "inv d' \<and> visible d' = visible d \<and>
    (\<forall>xs. r = Inr (Some xs) \<longrightarrow> 0 \<le> start \<and> 0 < siz \<and>
       (\<exists>k ks p. xs = take k (map in_list (limit_offset siz start
                (scanned ks (filter (\<lambda>e. UserID e = uid \<and> p (Name e)) (visible d)))))))"
proof (cases "bad_page start siz")
  case False
  show ?thesis
  proof (cases "Value what = []")
    case True
    with False assms(2) have "repo_List repo siz start uid d = (r, d')"
      by (simp add: uc_GetEncountersList_def)
    from list [OF assms(1) this] have l: "inv d'" "visible d' = visible d" and
      k: "\<forall>xs. r = Inr (Some xs) \<longrightarrow> (\<exists>k ks. xs = take k (map in_list (limit_offset siz start
          (scanned ks (filter (\<lambda>e. UserID e = uid) (visible d))))))" by auto
    have "\<exists>k ks p. xs = take k (map in_list (limit_offset siz start
          (scanned ks (filter (\<lambda>e. UserID e = uid \<and> p (Name e)) (visible d)))))" if "r = Inr (Some xs)" for xs
    proof -
      from k that obtain k ks where "xs = take k (map in_list (limit_offset siz start
          (scanned ks (filter (\<lambda>e. UserID e = uid) (visible d)))))" by blast
      then show ?thesis by (intro exI [of _ k] exI [of _ ks] exI [of _ "\<lambda>_. True"]) simp
    qed
    with l False show ?thesis by (simp add: bad_page_def)
  next
    case no: False
    with False assms(2) have "repo_ListWithSearch repo siz start uid what d = (r, d')"
      by (simp add: uc_GetEncountersList_def)
    from search [OF assms(1) this] False show ?thesis by (auto simp: bad_page_def)
  qed
qed (use assms in \<open>auto simp: uc_GetEncountersList_def\<close>)

lemma uc_save:
  assumes "inv d" and "uc_SaveEncounter repo enc uid eid d = (r, d')"
  shows "inv d' \<and> others_kept uid d d' \<and>
    (if r = Inr ()
     then \<exists>dat. req_Data enc = Some dat \<and> eid \<notin> UUID ` set (visible d) \<and>
       visible d' = visible d @ [\<lparr>UserID = uid, Name = req_Name enc, Data = dat, UUID = eid\<rparr>]
     else visible d' = visible d)"
  using assms(2) save [OF assms(1)] assms(1)
  by (fastforce simp: uc_SaveEncounter_def others_kept_def split: if_splits)

lemma others_kept_update:
  assumes "inv d" and "e \<in> set (visible d)" "UUID e = eid" "UserID e = uid"
    and "visible d' = update_where (\<lambda>e. UUID e = eid) (\<lambda>e. e\<lparr>Data := dat\<rparr>) (visible d)"
  shows "others_kept uid d d'"
proof -
  have "\<forall>e' \<in> set xs. UUID e' = eid \<longrightarrow> UserID e' = uid \<Longrightarrow>
      filter (\<lambda>e. UserID e \<noteq> uid) (update_where (\<lambda>e. UUID e = eid) (\<lambda>e. e\<lparr>Data := dat\<rparr>) xs) =
      filter (\<lambda>e. UserID e \<noteq> uid) xs" for xs
    by (induction xs) (auto simp: update_where_def)
  from this [of "visible d"] owned_unique [OF assms(1-4)] assms(5) show ?thesis
    by (simp add: others_kept_def)
qed

lemma others_kept_delete:
  assumes "inv d" and "e \<in> set (visible d)" "UUID e = eid" "UserID e = uid"
    and "visible d' = delete_where (\<lambda>e. UUID e = eid) (visible d)"
  shows "others_kept uid d d'"
proof -
  have "\<forall>e' \<in> set xs. UUID e' = eid \<longrightarrow> UserID e' = uid \<Longrightarrow>
      filter (\<lambda>e. UserID e \<noteq> uid) (delete_where (\<lambda>e. UUID e = eid) xs) =
      filter (\<lambda>e. UserID e \<noteq> uid) xs" for xs
    by (induction xs) (auto simp: delete_where_def)
  from this [of "visible d"] owned_unique [OF assms(1-4)] assms(5) show ?thesis
    by (simp add: others_kept_def)
qed

lemma uc_update:
  assumes "inv d" and "uc_UpdateEncounter repo dat eid uid d = (r, d')"
  shows "inv d' \<and> others_kept uid d d' \<and>
    (if r = Inr ()
     then (\<exists>e \<in> set (visible d). UUID e = eid \<and> UserID e = uid) \<and>
       visible d' = update_where (\<lambda>e. UUID e = eid) (\<lambda>e. e\<lparr>Data := dat\<rparr>) (visible d)
     else visible d' = visible d)"
proof (cases "repo_CheckPermission repo eid uid d")
  case (Pair b d1)
  note c = check [OF assms(1) Pair]
  show ?thesis
  proof (cases b)
    case True
    with Pair assms(2) have "repo_Update repo dat eid d1 = (r, d')" by (simp add: uc_UpdateEncounter_def)
    from update [OF _ this] c have u: "inv d'" "visible d' = (if r = Inr () then
        update_where (\<lambda>e. UUID e = eid) (\<lambda>e. e\<lparr>Data := dat\<rparr>) (visible d) else visible d)" by auto
    from c True obtain e where "e \<in> set (visible d)" "UUID e = eid" "UserID e = uid" by blast
    with u others_kept_update [OF assms(1) this] others_kept_refl show ?thesis by auto
  qed (use Pair assms(2) c others_kept_refl in \<open>auto simp: uc_UpdateEncounter_def\<close>)
qed

lemma uc_remove:
  assumes "inv d" and "uc_RemoveEncounter repo eid uid d = (r, d')"
  shows "inv d' \<and> others_kept uid d d' \<and>
    (if r = Inr ()
     then (\<exists>e \<in> set (visible d). UUID e = eid \<and> UserID e = uid) \<and>
       visible d' = delete_where (\<lambda>e. UUID e = eid) (visible d)
     else visible d' = visible d)"
proof (cases "repo_CheckPermission repo eid uid d")
  case (Pair b d1)
  note c = check [OF assms(1) Pair]
  show ?thesis
  proof (cases b)
    case True
    with Pair assms(2) have "repo_Remove repo eid d1 = (r, d')" by (simp add: uc_RemoveEncounter_def)
    from remove [OF _ this] c have u: "inv d'" "visible d' = (if r = Inr () then
        delete_where (\<lambda>e. UUID e = eid) (visible d) else visible d)" by auto
    from c True obtain e where "e \<in> set (visible d)" "UUID e = eid" "UserID e = uid" by blast
    with u others_kept_delete [OF assms(1) this] others_kept_refl show ?thesis by auto
  qed (use Pair assms(2) c others_kept_refl in \<open>auto simp: uc_RemoveEncounter_def\<close>)
qed

lemmas handler_defs = h_GetEncountersList_def h_GetEncounterByID_def h_SaveEncounter_def
  h_UpdateEncounter_def h_RemoveEncounter_def with_user_def

lemma serve_one:
  assumes "inv d"
  shows "inv (snd (serve_encounter repo valid (u, req) d)) \<and>
    (case u of
       None \<Rightarrow> snd (serve_encounter repo valid (u, req) d) = d
     | Some user \<Rightarrow> others_kept (userID user) d (snd (serve_encounter repo valid (u, req) d)))"
  using assms others_kept_refl [of d d]
  by (cases req)
    (auto simp: handler_defs split: option.splits prod.splits sum.splits
      dest!: uc_get [OF assms] uc_list [OF assms] uc_save [OF assms] uc_update [OF assms]
        uc_remove [OF assms] intro!: others_kept_refl)

lemma serve_many:
  assumes "inv d" and "\<forall>(u, req) \<in> set reqs. \<exists>user. u = Some user \<and> userID user \<noteq> owner"
  shows "inv (serve_encounters repo valid reqs d) \<and>
    filter (\<lambda>e. UserID e = owner) (visible (serve_encounters repo valid reqs d)) =
    filter (\<lambda>e. UserID e = owner) (visible d)"
  using assms
proof (induction reqs arbitrary: d)
  case (Cons r reqs)
  then obtain user req where r: "r = (Some user, req)" "userID user \<noteq> owner" by fastforce
  let ?d1 = "snd (serve_encounter repo valid r d)"
  have "inv ?d1" and k: "others_kept (userID user) d ?d1"
    using serve_one [OF Cons.prems(1), of valid "Some user" req] r by auto
  have "filter (\<lambda>e. UserID e = owner) xs =
      filter (\<lambda>e. UserID e = owner) (filter (\<lambda>e. UserID e \<noteq> userID user) xs)" for xs
    using r(2) by (induction xs) auto
  then have "filter (\<lambda>e. UserID e = owner) (visible ?d1) = filter (\<lambda>e. UserID e = owner) (visible d)"
    using k unfolding others_kept_def by metis
  with Cons.IH [OF \<open>inv ?d1\<close>] Cons.prems(2) show ?case by simp
qed simp

end

section \<open>The contract of a store that is up\<close>

text \<open>
  The abstract store: a notebook of encounters that never fails. \<open>accepts\<close> says which new
  encounters it takes, \<open>found\<close> which names a search finds, \<open>ks\<close> the order in which it lists.
\<close>

definition notebook ::
    "(save_encounter_req \<Rightarrow> string \<Rightarrow> int \<Rightarrow> bool) \<Rightarrow> (string \<Rightarrow> string \<Rightarrow> bool)
     \<Rightarrow> nat list \<Rightarrow> encounter list encounter_repository" where
  "notebook accepts found ks =
     \<lparr>repo_ListWithSearch = (\<lambda>siz start uid what es.
        (Inr (Some (map in_list (limit_offset siz start
           (scanned ks (filter (\<lambda>e. UserID e = uid \<and> found (Value what) (Name e)) es))))), es)),
      repo_List = (\<lambda>siz start uid es.
        (Inr (Some (map in_list (limit_offset siz start
           (scanned ks (filter (\<lambda>e. UserID e = uid) es))))), es)),
      repo_GetByID = (\<lambda>eid es.
        ((case find (\<lambda>e. UUID e = eid) es of None \<Rightarrow> Inl ScanError | Some e \<Rightarrow> Inr e), es)),
      repo_Save = (\<lambda>enc eid uid es.
        if accepts enc eid uid
        then (Inr (), es @ [\<lparr>UserID = uid, Name = req_Name enc, Data = the (req_Data enc), UUID = eid\<rparr>])
        else (Inl TxError, es)),
      repo_Update = (\<lambda>dat eid es.
        (Inr (), update_where (\<lambda>e. UUID e = eid) (\<lambda>e. e\<lparr>Data := dat\<rparr>) es)),
      repo_Remove = (\<lambda>eid es. (Inr (), delete_where (\<lambda>e. UUID e = eid) es)),
      repo_CheckPermission = (\<lambda>eid uid es. (\<exists>e \<in> set es. UUID e = eid \<and> UserID e = uid, es))\<rparr>"

locale encounter_repo_up = encounter_repo repo inv visible
  for repo :: "'d encounter_repository" and inv :: "'d \<Rightarrow> bool" and visible :: "'d \<Rightarrow> encounter list" +
  fixes up :: "'d \<Rightarrow> bool"
    and accepts :: "'d \<Rightarrow> save_encounter_req \<Rightarrow> string \<Rightarrow> int \<Rightarrow> bool"
    and found :: "string \<Rightarrow> string \<Rightarrow> bool"
  assumes check_up: "inv d \<Longrightarrow> up d \<Longrightarrow> repo_CheckPermission repo eid uid d = (b, d') \<Longrightarrow>
        up d' \<and> b = (\<exists>e \<in> set (visible d). UUID e = eid \<and> UserID e = uid)"
    and get_up: "inv d \<Longrightarrow> up d \<Longrightarrow> repo_GetByID repo eid d = (g, d') \<Longrightarrow>
        up d' \<and> g = (case find (\<lambda>e. UUID e = eid) (visible d) of None \<Rightarrow> Inl ScanError | Some e \<Rightarrow> Inr e)"
    and save_up: "inv d \<Longrightarrow> up d \<Longrightarrow> repo_Save repo enc eid uid d = (r, d') \<Longrightarrow>
        up d' \<and> r = (if accepts d enc eid uid then Inr () else Inl TxError)"
    and update_up: "inv d \<Longrightarrow> up d \<Longrightarrow> repo_Update repo dat eid d = (r, d') \<Longrightarrow> up d' \<and> r = Inr ()"
    and remove_up: "inv d \<Longrightarrow> up d \<Longrightarrow> repo_Remove repo eid d = (r, d') \<Longrightarrow> up d' \<and> r = Inr ()"
    and list_up: "inv d \<Longrightarrow> up d \<Longrightarrow> repo_List repo siz start uid d = (l, d') \<Longrightarrow>
        up d' \<and> (\<exists>ks. l = Inr (Some (map in_list (limit_offset siz start
          (scanned ks (filter (\<lambda>e. UserID e = uid) (visible d)))))))"
    and search_up: "inv d \<Longrightarrow> up d \<Longrightarrow> repo_ListWithSearch repo siz start uid what d = (l, d') \<Longrightarrow>
        up d' \<and> (\<exists>ks. l = Inr (Some (map in_list (limit_offset siz start
          (scanned ks (filter (\<lambda>e. UserID e = uid \<and> found (Value what) (Name e)) (visible d)))))))"
begin

text \<open>Every operation is the notebook's.\<close>

lemma check_refines:
  assumes "inv d" and "up d" and "repo_CheckPermission repo eid uid d = (b, d')"
  shows "inv d' \<and> up d' \<and>
    repo_CheckPermission (notebook (accepts d) found ks) eid uid (visible d) = (b, visible d')"
  using check [OF assms(1,3)] check_up [OF assms]
  by (auto simp: notebook_def)

lemma get_refines:
  assumes "inv d" and "up d" and "repo_GetByID repo eid d = (g, d')"
  shows "inv d' \<and> up d' \<and>
    repo_GetByID (notebook (accepts d) found ks) eid (visible d) = (g, visible d')"
  using get [OF assms(1,3)] get_up [OF assms]
  by (auto simp: notebook_def)

lemma save_refines:
  assumes "inv d" and "up d" and "repo_Save repo enc eid uid d = (r, d')"
  shows "inv d' \<and> up d' \<and>
    repo_Save (notebook (accepts d) found ks) enc eid uid (visible d) = (r, visible d')"
  using save [OF assms(1,3)] save_up [OF assms]
  by (auto simp: notebook_def split: if_splits)

lemma update_refines:
  assumes "inv d" and "up d" and "repo_Update repo dat eid d = (r, d')"
  shows "inv d' \<and> up d' \<and>
    repo_Update (notebook (accepts d) found ks) dat eid (visible d) = (r, visible d')"
  using update [OF assms(1,3)] update_up [OF assms]
  by (auto simp: notebook_def)

lemma remove_refines:
  assumes "inv d" and "up d" and "repo_Remove repo eid d = (r, d')"
  shows "inv d' \<and> up d' \<and>
    repo_Remove (notebook (accepts d) found ks) eid (visible d) = (r, visible d')"
  using remove [OF assms(1,3)] remove_up [OF assms]
  by (auto simp: notebook_def)

lemma list_refines:
  assumes "inv d" and "up d" and "repo_List repo siz start uid d = (l, d')"
  shows "\<exists>ks. inv d' \<and> up d' \<and>
    repo_List (notebook (accepts d) found ks) siz start uid (visible d) = (l, visible d')"
  using list [OF assms(1,3)] list_up [OF assms]
  by (auto simp: notebook_def)

lemma search_refines:
  assumes "inv d" and "up d" and "repo_ListWithSearch repo siz start uid what d = (l, d')"
  shows "\<exists>ks. inv d' \<and> up d' \<and>
    repo_ListWithSearch (notebook (accepts d) found ks) siz start uid what (visible d) = (l, visible d')"
  using search [OF assms(1,3)] search_up [OF assms]
  by (auto simp: notebook_def)

text \<open>
  The usecases and handlers only ever touch the store through the repository, and consult
  \<open>accepts\<close> at most once per request, before anything has changed.
\<close>

lemma notebook_check_state:
  "snd (repo_CheckPermission (notebook acc found ks) eid uid es) = es"
  by (simp add: notebook_def)

lemma accepts_irrelevant:
  "repo_GetByID (notebook acc found ks) = repo_GetByID (notebook acc' found ks)"
  "repo_Update (notebook acc found ks) = repo_Update (notebook acc' found ks)"
  "repo_Remove (notebook acc found ks) = repo_Remove (notebook acc' found ks)"
  by (simp_all add: notebook_def)

lemma uc_refines:
  fixes ks :: "nat list"
  assumes "inv d" and "up d"
  defines "nb \<equiv> notebook (accepts d) found ks"
  shows "uc_GetEncounterByID repo eid uid d = (g, d') \<Longrightarrow>
      inv d' \<and> up d' \<and> uc_GetEncounterByID nb eid uid (visible d) = (g, visible d')"
    and "uc_UpdateEncounter repo dat eid uid d = (r, d') \<Longrightarrow>
      inv d' \<and> up d' \<and> uc_UpdateEncounter nb dat eid uid (visible d) = (r, visible d')"
    and "uc_RemoveEncounter repo eid uid d = (r, d') \<Longrightarrow>
      inv d' \<and> up d' \<and> uc_RemoveEncounter nb eid uid (visible d) = (r, visible d')"
proof -
  obtain b d1 where c: "repo_CheckPermission repo eid uid d = (b, d1)" by fastforce
  note c1 = check_refines [OF assms(1,2) c] and c2 = check [OF assms(1) c]
  show "uc_GetEncounterByID repo eid uid d = (g, d') \<Longrightarrow>
      inv d' \<and> up d' \<and> uc_GetEncounterByID nb eid uid (visible d) = (g, visible d')"
    using c c1 c2 get_refines [of d1 eid g d'] accepts_irrelevant(1) [where acc = "accepts d" and acc' = "accepts d1"]
    by (cases b) (simp_all add: uc_GetEncounterByID_def nb_def)
  show "uc_UpdateEncounter repo dat eid uid d = (r, d') \<Longrightarrow>
      inv d' \<and> up d' \<and> uc_UpdateEncounter nb dat eid uid (visible d) = (r, visible d')"
    using c c1 c2 update_refines [of d1 dat eid r d'] accepts_irrelevant(2) [where acc = "accepts d" and acc' = "accepts d1"]
    by (cases b) (simp_all add: uc_UpdateEncounter_def nb_def)
  show "uc_RemoveEncounter repo eid uid d = (r, d') \<Longrightarrow>
      inv d' \<and> up d' \<and> uc_RemoveEncounter nb eid uid (visible d) = (r, visible d')"
    using c c1 c2 remove_refines [of d1 eid r d'] accepts_irrelevant(3) [where acc = "accepts d" and acc' = "accepts d1"]
    by (cases b) (simp_all add: uc_RemoveEncounter_def nb_def)
qed

lemma uc_refines_save:
  assumes "inv d" and "up d" and "uc_SaveEncounter repo enc uid new_id d = (r, d')"
  shows "inv d' \<and> up d' \<and>
    uc_SaveEncounter (notebook (accepts d) found ks) enc uid new_id (visible d) = (r, visible d')"
  using assms save_refines [OF assms(1,2)] by (auto simp: uc_SaveEncounter_def split: if_splits)

lemma uc_refines_list:
  assumes "inv d" and "up d" and "uc_GetEncountersList repo siz start uid what d = (l, d')"
  shows "\<exists>ks. inv d' \<and> up d' \<and>
    uc_GetEncountersList (notebook (accepts d) found ks) siz start uid what (visible d) = (l, visible d')"
proof (cases "bad_page start siz")
  case True
  with assms show ?thesis by (simp add: uc_GetEncountersList_def)
next
  case False
  with assms(3) show ?thesis
    using list_refines [OF assms(1,2)] search_refines [OF assms(1,2)]
    by (cases "Value what = []") (simp_all add: uc_GetEncountersList_def)
qed

lemma serve_refines_other:
  assumes "inv d" and "up d" and "serve_encounter repo valid (u, req) d = (resp, d')" and "\<forall>body. req \<noteq> ReqList body"
  shows "inv d' \<and> up d' \<and>
    serve_encounter (notebook (accepts d) found ks) valid (u, req) (visible d) = (resp, visible d')"
  using assms(3)
  by (cases req)
    (use assms(1,2,4) in \<open>auto simp: handler_defs split: option.splits prod.splits sum.splits
      dest!: uc_refines [OF assms(1,2), where ks = ks] uc_refines_save [OF assms(1,2), where ks = ks]\<close>)

lemma serve_refines:
  assumes "inv d" and "up d" and "serve_encounter repo valid (u, req) d = (resp, d')"
  shows "\<exists>ks. inv d' \<and> up d' \<and>
    serve_encounter (notebook (accepts d) found ks) valid (u, req) (visible d) = (resp, visible d')"
proof (cases req)
  case (ReqList body)
  show ?thesis
  proof (cases "u = None \<or> body = None")
    case True
    with ReqList assms show ?thesis by (auto simp: handler_defs split: option.splits)
  next
    case False
    then obtain user q where u: "u = Some user" "body = Some q" by auto
    obtain r d1 where l: "uc_GetEncountersList repo (req_Size q) (req_Start q) (userID user) (req_Search q) d = (r, d1)"
      by fastforce
    from uc_refines_list [OF assms(1,2) l] obtain ks where "inv d1" "up d1"
      "uc_GetEncountersList (notebook (accepts d) found ks) (req_Size q) (req_Start q) (userID user) (req_Search q)
         (visible d) = (r, visible d1)" by blast
    with assms(3) l show ?thesis
      by (intro exI [of _ ks]) (auto simp: ReqList u handler_defs split: sum.splits)
  qed
qed (use serve_refines_other [OF assms, where ks = "[]"] in blast)+

end

end
