(* ===== verification/Session.thy ===== *)
theory Session
  imports Encounter Merger "HOL-Library.AList"
begin

text \<open>
  \<open>internal/pkg/table/repository/session.go\<close> and \<open>participants.go\<close>: one game session, with
  its participants, the encounter they edit and the goroutine that merges their messages.

  A mutex is a flag \<open>mu\<close> that is true while the lock is held by nobody who will release it;
  a critical section that ends normally leaves it false, so a section is one step. The Go map
  of participants is an association list with distinct keys in the order in which \<open>range\<close>
  visits it. A websocket connection is a number; writes to a connection in \<open>dead\<close> fail.
\<close>

section \<open>Connections and frames\<close>

datatype role = Admin | Player

datatype participant_status = Connected | Disconnected

record participant =
  ID :: int
  PName :: string
  Role :: role

datatype ws_frame =
    BattleInfo "string option"
  | ParticipantsInfo participant_status int "participant list"
  | WSError string
  | WSClose int string

record net =
  dead :: "nat list"
  frames :: "(nat \<times> ws_frame) list"

text \<open>
  What the code uses of \<open>encoding/json\<close> on bytes: decoding and marshalling for the merge, and
  whether a raw message is valid JSON, which marshalling an envelope around it checks.
\<close>

record wire =
  wire_dec :: "string \<Rightarrow> json option"
  wire_enc :: "json \<Rightarrow> string"
  valid_json :: "string \<Rightarrow> bool"

fun frame_marshals :: "wire \<Rightarrow> ws_frame \<Rightarrow> bool" where
  "frame_marshals w (BattleInfo (Some dat)) = valid_json w dat"
| "frame_marshals w _ = True"

definition write_frame :: "nat \<Rightarrow> ws_frame \<Rightarrow> net \<Rightarrow> bool \<times> net" where
  "write_frame c f n =
     (if c \<in> set (dead n) then (False, n) else (True, n\<lparr>frames := frames n @ [(c, f)]\<rparr>))"

definition SendWSOkResponse :: "wire \<Rightarrow> nat \<Rightarrow> ws_frame \<Rightarrow> net \<Rightarrow> bool \<times> net" where
  "SendWSOkResponse w c f n = (if frame_marshals w f then write_frame c f n else (True, n))"

definition SendWSErrResponse :: "nat \<Rightarrow> int \<Rightarrow> string \<Rightarrow> net \<Rightarrow> net" where
  "SendWSErrResponse c code message n =
     snd (write_frame c (WSClose code message) (snd (write_frame c (WSError message) n)))"

definition close_conn :: "nat \<Rightarrow> net \<Rightarrow> net" where
  "close_conn c n = n\<lparr>dead := c # dead n\<rparr>"

definition WSStatusBadRequest :: int where "WSStatusBadRequest = 1008"
definition ErrInvalidWSSessionID :: string where "ErrInvalidWSSessionID = ''Invalid session ID''"
definition ErrMaxPlayersWS :: string where "ErrMaxPlayersWS = ''Max players number had reached''"
definition ErrUserAlreadyExistsWS :: string where
  "ErrUserAlreadyExistsWS = ''User with this name already exists in session''"

section \<open>Sessions\<close>

record seat =
  seated :: participant
  Conn :: nat

text \<open>The goroutine \<open>run\<close>: waiting for a message, holding one, or gone.\<close>

datatype runner = Idle | Got string | Gone

record session =
  encounterID :: string
  encounterName :: string
  encounterData :: "string option"
  adminID :: int
  adminName :: string
  participants :: "(int \<times> seat) list"
  playersNum :: int
  mu :: bool
  runner :: runner

definition maxPlayersNum :: int where
  "maxPlayersNum = 4"

definition seat_of :: "int \<Rightarrow> string \<Rightarrow> role \<Rightarrow> nat \<Rightarrow> seat" where
  "seat_of uid name r c = \<lparr>seated = \<lparr>ID = uid, PName = name, Role = r\<rparr>, Conn = c\<rparr>"

text \<open>The loop that writes one frame to everybody and drops those it cannot reach.\<close>

fun send_all :: "wire \<Rightarrow> ws_frame \<Rightarrow> (int \<times> seat) list \<Rightarrow> net \<Rightarrow> (int \<times> seat) list \<times> net" where
  "send_all w f [] n = ([], n)"
| "send_all w f ((k, p) # ps) n =
     (case SendWSOkResponse w (Conn p) f n of
        (True, n1) \<Rightarrow> (case send_all w f ps n1 of (qs, n2) \<Rightarrow> ((k, p) # qs, n2))
      | (False, n1) \<Rightarrow> send_all w f ps (close_conn (Conn p) n1))"

text \<open>
  The critical sections. Each gets the session unlocked; \<open>AddParticipant\<close> and
  \<open>RemoveParticipant\<close> consist of a section of their own and then \<open>sendParticipantsInfo\<close>.
\<close>

definition sendParticipantsInfo ::
    "wire \<Rightarrow> int \<Rightarrow> participant_status \<Rightarrow> session \<Rightarrow> net \<Rightarrow> session \<times> net" where
  "sendParticipantsInfo w uid status s n =
     (let lst = map (seated \<circ> snd) (participants s);
          (ps, n1) = send_all w (ParticipantsInfo status uid lst) (participants s) n
      in (s\<lparr>participants := ps\<rparr>, n1))"

definition AddParticipant :: "int \<Rightarrow> string \<Rightarrow> nat \<Rightarrow> session \<Rightarrow> unit result \<times> session" where
  "AddParticipant uid name c s =
     (if playersNum s = maxPlayersNum then (Inl PlayersNumErr, s\<lparr>mu := True\<rparr>)
      else (Inr (), s\<lparr>playersNum := playersNum s + 1,
        participants := AList.update uid (seat_of uid name Player c) (participants s)\<rparr>))"

definition AddAdmin :: "int \<Rightarrow> string \<Rightarrow> nat \<Rightarrow> session \<Rightarrow> session" where
  "AddAdmin uid name c s =
     s\<lparr>participants := AList.update uid (seat_of uid name Admin c) (participants s)\<rparr>"

text \<open>
  The first section of \<open>RemoveParticipant\<close>. For a user who is not there the nil dereference
  panics with the lock held; the deferred \<open>recover\<close> swallows the panic and the lock stays
  held. The result says whether the section was left normally.
\<close>

definition RemoveParticipant :: "int \<Rightarrow> session \<Rightarrow> net \<Rightarrow> bool \<times> session \<times> net" where
  "RemoveParticipant uid s n =
     (case map_of (participants s) uid of
        None \<Rightarrow> (False, s\<lparr>mu := True\<rparr>, n)
      | Some p \<Rightarrow>
          (True,
           s\<lparr>playersNum := (if Role (seated p) \<noteq> Admin then playersNum s - 1 else playersNum s),
             participants := AList.delete uid (participants s)\<rparr>,
           close_conn (Conn p) n))"

definition hasActiveUsers :: "session \<Rightarrow> bool" where
  "hasActiveUsers s \<longleftrightarrow> 0 < length (participants s)"

definition CheckUser :: "int \<Rightarrow> session \<Rightarrow> bool" where
  "CheckUser uid s \<longleftrightarrow> map_of (participants s) uid \<noteq> None"

text \<open>
  One turn of the loop of \<open>run\<close>, on a message it has received. A merge that fails leaves nil
  data, the lock held and the goroutine gone.
\<close>

definition run_turn :: "wire \<Rightarrow> string \<Rightarrow> session \<Rightarrow> net \<Rightarrow> session \<times> net" where
  "run_turn w msg s n =
     (case (case encounterData s of None \<Rightarrow> Inl BadData | Some dat \<Rightarrow> Merge (wire_dec w) (wire_enc w) dat msg) of
        Inl _ \<Rightarrow> (s\<lparr>encounterData := None, mu := True, runner := Gone\<rparr>, n)
      | Inr dat \<Rightarrow>
          (let (ps, n1) = send_all w (BattleInfo (Some dat)) (participants s) n
           in (s\<lparr>encounterData := Some dat, participants := ps, runner := Idle\<rparr>, n1)))"

text \<open>\<open>WriteFirstMsg\<close>; \<open>None\<close> is the nil dereference for a user who is no longer there.\<close>

definition WriteFirstMsg :: "wire \<Rightarrow> int \<Rightarrow> session \<Rightarrow> net \<Rightarrow> (session \<times> net) option" where
  "WriteFirstMsg w uid s n =
     (case map_of (participants s) uid of
        None \<Rightarrow> None
      | Some p \<Rightarrow>
          (case SendWSOkResponse w (Conn p) (BattleInfo (encounterData s)) n of
             (True, n1) \<Rightarrow> Some (s, n1)
           | (False, n1) \<Rightarrow>
               Some (s\<lparr>participants := AList.delete uid (participants s)\<rparr>, close_conn (Conn p) n1)))"

record table_data =
  td_AdminName :: string
  td_EncounterName :: string
  td_EncounterData :: "string option"

definition session_GetTableData :: "session \<Rightarrow> table_data" where
  "session_GetTableData s =
     \<lparr>td_AdminName = adminName s, td_EncounterName = encounterName s, td_EncounterData = encounterData s\<rparr>"

section \<open>The invariant of a session\<close>

text \<open>
  Keys are distinct and are the ids of their participants, only the admin's seat has the admin
  role, and the seats of players never outnumber \<open>playersNum\<close>, which never exceeds the limit.
\<close>

definition players :: "(int \<times> seat) list \<Rightarrow> (int \<times> seat) list" where
  "players ps = filter (\<lambda>(k, p). Role (seated p) = Player) ps"

definition session_ok :: "session \<Rightarrow> bool" where
  "session_ok s \<longleftrightarrow>
     distinct (map fst (participants s)) \<and>
     (\<forall>(k, p) \<in> set (participants s). ID (seated p) = k \<and> (Role (seated p) = Admin \<longrightarrow> k = adminID s)) \<and>
     int (length (players (participants s))) \<le> playersNum s \<and> playersNum s \<le> maxPlayersNum"

lemma update_shape:
  assumes "distinct (map fst xs)"
  shows "set (AList.update k v xs) = insert (k, v) {x \<in> set xs. fst x \<noteq> k}"
  using assms by (induction xs) (auto simp: image_iff)

lemma length_players_update:
  assumes "distinct (map fst ps)"
  shows "length (players (AList.update k v ps)) \<le> length (players ps) + length (players [(k, v)])"
  using assms by (induction ps) (auto simp: players_def)

lemma length_players_delete:
  "length (players (AList.delete k ps)) \<le> length (players ps)"
  unfolding players_def AList.delete_eq filter_filter
  by (induction ps) auto

lemma length_players_delete_player:
  assumes "map_of ps k = Some v" and "Role (seated v) = Player" and "distinct (map fst ps)"
  shows "length (players (AList.delete k ps)) + 1 \<le> length (players ps)"
  using assms
proof (induction ps)
  case (Cons x ps)
  show ?case
  proof (cases "fst x = k")
    case True
    then have "AList.delete k ps = ps"
      using Cons.prems(3) by (auto intro: AList.delete_idem)
    with True Cons.prems show ?thesis by (cases x) (auto simp: players_def)
  qed (use Cons in \<open>cases x, auto simp: players_def\<close>)
qed simp

lemma send_all_subseq:
  assumes "send_all w f ps n = (qs, n')"
  shows "set qs \<subseteq> set ps \<and> (distinct (map fst ps) \<longrightarrow> distinct (map fst qs)) \<and>
     length (players qs) \<le> length (players ps)"
  using assms
proof (induction w f ps n arbitrary: qs n' rule: send_all.induct)
  case (2 w f k p ps n)
  show ?case
  proof (cases "SendWSOkResponse w (Conn p) f n")
    case (Pair b n1)
    show ?thesis
    proof (cases b)
      case True
      with Pair 2(3) obtain rs where rs: "send_all w f ps n1 = (rs, n')" "qs = (k, p) # rs"
        by (auto split: prod.splits)
      from 2(1) [OF Pair [symmetric] _ rs(1)] True rs(2) show ?thesis
        by (auto simp: players_def)
    next
      case False
      with Pair 2(3) have "send_all w f ps (close_conn (Conn p) n1) = (qs, n')" by simp
      from 2(2) [OF Pair [symmetric] _ this] False show ?thesis
        by (auto simp: players_def)
    qed
  qed
qed (simp add: players_def)

lemma session_ok_subset:
  assumes "session_ok s" and "set ps \<subseteq> set (participants s)" and "distinct (map fst ps)"
    and "length (players ps) \<le> length (players (participants s))"
  shows "session_ok (s\<lparr>participants := ps\<rparr>)"
  using assms by (auto simp: session_ok_def)

lemma session_ok_cong:
  assumes "participants s' = participants s" "adminID s' = adminID s" "playersNum s' = playersNum s"
  shows "session_ok s' = session_ok s"
  using assms by (simp add: session_ok_def)

lemma sendParticipantsInfo_ok:
  assumes "session_ok s" and "sendParticipantsInfo w uid status s n = (s', n')"
  shows "session_ok s' \<and> s' = s\<lparr>participants := participants s'\<rparr>"
proof -
  let ?f = "ParticipantsInfo status uid (map (seated \<circ> snd) (participants s))"
  obtain ps n1 where ps: "send_all w ?f (participants s) n = (ps, n1)" by fastforce
  with assms(2) have s': "s' = s\<lparr>participants := ps\<rparr>" by (auto simp: sendParticipantsInfo_def)
  have "distinct (map fst (participants s))" using assms(1) by (simp add: session_ok_def)
  with send_all_subseq [OF ps] session_ok_subset [OF assms(1)] show ?thesis unfolding s' by simp
qed

lemma AddParticipant_ok:
  assumes "session_ok s" and "AddParticipant uid name c s = (r, s')"
  shows "session_ok s'"
proof (cases "playersNum s = maxPlayersNum")
  case True
  with assms show ?thesis by (auto simp: AddParticipant_def session_ok_def)
next
  case False
  let ?p = "seat_of uid name Player c"
  have d: "distinct (map fst (participants s))" using assms(1) by (simp add: session_ok_def)
  have "length (players (AList.update uid ?p (participants s))) \<le> length (players (participants s)) + 1"
    using length_players_update [OF d, of uid ?p] by (simp add: players_def seat_of_def)
  moreover have "s' = s\<lparr>playersNum := playersNum s + 1, participants := AList.update uid ?p (participants s)\<rparr>"
    using False assms(2) by (simp add: AddParticipant_def)
  ultimately show ?thesis
    using assms(1) False d
    by (auto simp: session_ok_def update_shape [OF d] distinct_update seat_of_def)
qed

lemma AddAdmin_ok:
  assumes "session_ok s" and "uid = adminID s"
  shows "session_ok (AddAdmin uid name c s)"
proof -
  let ?p = "seat_of uid name Admin c"
  have d: "distinct (map fst (participants s))" using assms(1) by (simp add: session_ok_def)
  have "length (players (AList.update uid ?p (participants s))) \<le> length (players (participants s))"
    using length_players_update [OF d, of uid ?p] by (simp add: players_def seat_of_def)
  with assms d show ?thesis
    by (auto simp: AddAdmin_def session_ok_def update_shape [OF d] distinct_update seat_of_def)
qed

lemma RemoveParticipant_ok:
  assumes "session_ok s" and "RemoveParticipant uid s n = (r, s', n')"
  shows "session_ok s'"
proof (cases "map_of (participants s) uid")
  case None
  with assms show ?thesis by (auto simp: RemoveParticipant_def session_ok_def)
next
  case (Some p)
  have d: "distinct (map fst (participants s))" using assms(1) by (simp add: session_ok_def)
  have "\<forall>(k, p) \<in> set (AList.delete uid (participants s)).
      ID (seated p) = k \<and> (Role (seated p) = Admin \<longrightarrow> k = adminID s)"
    using assms(1) by (auto simp: session_ok_def AList.delete_eq)
  moreover have "distinct (map fst (AList.delete uid (participants s)))" using d by (rule distinct_delete)
  moreover have "Role (seated p) \<noteq> Admin \<Longrightarrow> Role (seated p) = Player" by (cases "Role (seated p)") auto
  ultimately show ?thesis
    using assms Some length_players_delete [of uid "participants s"]
      length_players_delete_player [OF Some _ d]
    by (simp add: RemoveParticipant_def session_ok_def split: if_splits) auto
qed

lemma delete_participant_ok:
  assumes "session_ok s"
  shows "session_ok (s\<lparr>participants := AList.delete uid (participants s)\<rparr>)"
proof (rule session_ok_subset [OF assms])
  show "set (AList.delete uid (participants s)) \<subseteq> set (participants s)"
    by (auto simp: AList.delete_eq)
  show "distinct (map fst (AList.delete uid (participants s)))"
    using assms by (simp add: session_ok_def distinct_delete)
qed (rule length_players_delete)

lemma WriteFirstMsg_ok:
  assumes "session_ok s" and "WriteFirstMsg w uid s n = Some (s', n')"
  shows "session_ok s'"
  using assms delete_participant_ok [OF assms(1)]
  by (auto simp: WriteFirstMsg_def split: option.splits prod.splits bool.splits)

lemma run_turn_ok:
  assumes "session_ok s" and "run_turn w msg s n = (s', n')"
  shows "session_ok s'"
proof -
  let ?m = "case encounterData s of None \<Rightarrow> Inl BadData | Some dat \<Rightarrow> Merge (wire_dec w) (wire_enc w) dat msg"
  show ?thesis
  proof (cases ?m)
    case (Inl e)
    with assms show ?thesis by (auto simp: run_turn_def session_ok_def)
  next
    case (Inr dat)
    obtain ps n1 where ps: "send_all w (BattleInfo (Some dat)) (participants s) n = (ps, n1)" by fastforce
    with assms(2) Inr have s': "s' = s\<lparr>encounterData := Some dat, participants := ps, runner := Idle\<rparr>"
      by (simp add: run_turn_def)
    have "distinct (map fst (participants s))" using assms(1) by (simp add: session_ok_def)
    with send_all_subseq [OF ps] assms(1) show ?thesis unfolding s' session_ok_def by auto
  qed
qed

text \<open>A session never has more than the limit of players, and one admin.\<close>

lemma session_ok_capacity:
  assumes "session_ok s"
  shows "int (length (players (participants s))) \<le> 4" and "length (participants s) \<le> 5"
proof -
  show p: "int (length (players (participants s))) \<le> 4"
    using assms by (simp add: session_ok_def maxPlayersNum_def)
  let ?adm = "filter (\<lambda>(k, p). Role (seated p) \<noteq> Player) (participants s)"
  have "fst ` set ?adm \<subseteq> {adminID s}"
  proof (clarsimp)
    fix k q assume "(k, q) \<in> set (participants s)" and r: "Role (seated q) \<noteq> Player"
    from r have "Role (seated q) = Admin" by (cases "Role (seated q)") auto
    with \<open>(k, q) \<in> set (participants s)\<close> assms show "k = adminID s" by (auto simp: session_ok_def)
  qed
  then have "card (set (map fst ?adm)) \<le> 1"
    using card_mono [of "{adminID s}" "fst ` set ?adm"] by simp
  moreover have "distinct (map fst ?adm)" using assms by (simp add: session_ok_def distinct_map_filter)
  ultimately have "length ?adm \<le> 1" by (metis distinct_card length_map)
  moreover have "length (participants s) = length (players (participants s)) + length ?adm"
    unfolding players_def using sum_length_filter_compl [of "\<lambda>(k, p). Role (seated p) = Player" "participants s"]
    by (simp add: case_prod_unfold)
  ultimately show "length (participants s) \<le> 5" using p by linarith
qed

text \<open>Who gets a frame: everybody whose connection works; the others lose their seats.\<close>

definition reachable_seat :: "net \<Rightarrow> int \<times> seat \<Rightarrow> bool" where
  "reachable_seat n kp \<longleftrightarrow> Conn (snd kp) \<notin> set (dead n)"

lemma send_all_eq:
  assumes "send_all w f ps n = (qs, n')"
  shows "set (dead n') = set (dead n) \<and>
    (if frame_marshals w f
     then qs = filter (reachable_seat n) ps \<and> frames n' = frames n @ map (\<lambda>(k, p). (Conn p, f)) qs
     else qs = ps \<and> frames n' = frames n)"
  using assms
proof (induction w f ps n arbitrary: qs n' rule: send_all.induct)
  case (2 w f k p ps n)
  show ?case
  proof (cases "frame_marshals w f \<and> Conn p \<in> set (dead n)")
    case True
    then have s: "SendWSOkResponse w (Conn p) f n = (False, n)"
      by (simp add: SendWSOkResponse_def write_frame_def)
    with 2(3) have "send_all w f ps (close_conn (Conn p) n) = (qs, n')" by simp
    from 2(2) [OF s [symmetric] refl this] True show ?thesis
      by (auto simp: close_conn_def reachable_seat_def insert_absorb cong: filter_cong)
  next
    case False
    then obtain n1 where s: "SendWSOkResponse w (Conn p) f n = (True, n1)" and
      n1: "n1 = (if frame_marshals w f then n\<lparr>frames := frames n @ [(Conn p, f)]\<rparr> else n)"
      by (auto simp: SendWSOkResponse_def write_frame_def)
    with 2(3) obtain rs where rs: "send_all w f ps n1 = (rs, n')" "qs = (k, p) # rs"
      by (auto split: prod.splits)
    from 2(1) [OF s [symmetric] refl rs(1)] False show ?thesis
      unfolding rs(2) n1 by (auto simp: reachable_seat_def split: if_splits cong: filter_cong)
  qed
qed simp

end
