(* ===== verification/Table.thy ===== *)
theory Table
  imports Session
begin

text \<open>
  \<open>internal/pkg/table\<close>: the table manager, the usecases with their session timers, the
  handlers, and the goroutines that run at the same time: one per connection
  (\<open>AddNewConnection\<close> and its reader), one per session (\<open>run\<close>) and one per fired timer
  (\<open>stopTimer\<close>). A goroutine is a program counter; one step of it is one critical section
  or one action on a channel or connection, and a step waits while the lock it needs is held.
  \<open>table_event\<close> lists the steps that can happen next in any order.
\<close>

section \<open>Goroutines and shared state\<close>

text \<open>The connection goroutine; sessions are pointers into \<open>heap\<close>. The flag of the leaving
  phases tells whether the goroutine is unwinding a panic.\<close>

datatype conn_pc =
    Lookup
  | Check nat
  | WhoIsAdmin nat
  | AddingAdmin nat
  | AddingPlayer nat
  | SendingInfo nat
  | Refreshing nat
  | FirstMsg nat
  | Reading nat
  | GotMsg nat string
  | Sending nat string
  | Leaving nat bool
  | Removing nat bool
  | RemovedInfo nat bool
  | Finished

record conn_thread =
  th_user :: user
  th_session :: string
  th_conn :: nat
  th_pc :: conn_pc

text \<open>The goroutine of a fired timer: \<open>stopTimer\<close> and in it \<open>RemoveSession\<close>.\<close>

datatype timer_pc =
    TGetData
  | TStop "string option"
  | TSave "string option"
  | TFind
  | TRange nat "int list"
  | TRemove nat int "int list"
  | TInfo nat int "int list"
  | TDelete
  | TFinished

record timer_thread =
  ti_session :: string
  ti_encounter :: string
  ti_pc :: timer_pc

text \<open>
  \<open>tm_sessions\<close> is \<open>tableManager.sessions\<close>, \<open>watchers\<close> is \<open>sessionWatcher\<close>: the timer of a
  session, its encounter, and whether it is armed.
\<close>

record 'd table_state =
  tm_sessions :: "(string \<times> nat) list"
  heap :: "session list"
  network :: net
  watchers :: "(string \<times> string \<times> bool) list"
  conn_threads :: "conn_thread list"
  timer_threads :: "timer_thread list"
  store :: 'd
  crashed :: bool

definition upd_session :: "nat \<Rightarrow> (session \<Rightarrow> session) \<Rightarrow> 'd table_state \<Rightarrow> 'd table_state" where
  "upd_session p f st = st\<lparr>heap := (heap st)[p := f (heap st ! p)]\<rparr>"

definition put_session :: "nat \<Rightarrow> session \<times> net \<Rightarrow> 'd table_state \<Rightarrow> 'd table_state" where
  "put_session p sn st = st\<lparr>heap := (heap st)[p := fst sn], network := snd sn\<rparr>"

section \<open>Table manager\<close>

definition tm_CreateSession ::
    "user \<Rightarrow> encounter \<Rightarrow> string \<Rightarrow> 'd table_state \<Rightarrow> 'd table_state" where
  "tm_CreateSession admin enc sid st =
     st\<lparr>heap := heap st @
          [\<lparr>encounterID = UUID enc, encounterName = Name enc, encounterData = Some (Data enc),
            adminID = userID admin, adminName = DisplayName admin, participants = [],
            playersNum = 0, mu = False, runner = Idle\<rparr>],
        tm_sessions := AList.update sid (length (heap st)) (tm_sessions st)\<rparr>"

text \<open>
  \<open>GetTableData\<close>, \<open>GetEncounterData\<close> and \<open>HasActiveUsers\<close> look the session up and read it
  under its lock, so they block while that is held.
\<close>

definition tm_read :: "(session \<Rightarrow> 'r) \<Rightarrow> string \<Rightarrow> 'd table_state \<Rightarrow> 'r result go" where
  "tm_read get sid st =
     (case map_of (tm_sessions st) sid of
        None \<Rightarrow> Return (Inl TableNotFoundErr)
      | Some p \<Rightarrow> if mu (heap st ! p) then Block else Return (Inr (get (heap st ! p))))"

definition tm_GetTableData :: "string \<Rightarrow> 'd table_state \<Rightarrow> table_data result go" where
  "tm_GetTableData sid st = tm_read session_GetTableData sid st"

definition tm_GetEncounterData :: "string \<Rightarrow> 'd table_state \<Rightarrow> string option result go" where
  "tm_GetEncounterData sid st = tm_read encounterData sid st"

definition tm_HasActiveUsers :: "string \<Rightarrow> 'd table_state \<Rightarrow> bool go" where
  "tm_HasActiveUsers sid st =
     go_bind (tm_read hasActiveUsers sid st)
       (\<lambda>r. Return (case r of Inl _ \<Rightarrow> False | Inr b \<Rightarrow> b))"

section \<open>Usecases\<close>

definition uc_CreateSession ::
    "'d encounter_repository \<Rightarrow> user \<Rightarrow> string \<Rightarrow> string \<Rightarrow> 'd table_state \<Rightarrow> string result \<times> 'd table_state"
  where
  "uc_CreateSession repo admin eid new_sid st =
     (case repo_GetByID repo eid (store st) of
        (Inl err, d1) \<Rightarrow> (Inl err, st\<lparr>store := d1\<rparr>)
      | (Inr enc, d1) \<Rightarrow>
          (let st1 = st\<lparr>store := d1\<rparr> in
           if UserID enc \<noteq> userID admin then (Inl PermissionDeniedError, st1)
           else
             (let st2 = tm_CreateSession admin enc new_sid st1
              in (Inr new_sid, st2\<lparr>watchers := AList.update new_sid (eid, True) (watchers st2)\<rparr>))))"

text \<open>\<open>None\<close> is the method call on a nil timer.\<close>

definition refreshSession :: "string \<Rightarrow> 'd table_state \<Rightarrow> 'd table_state option" where
  "refreshSession sid st =
     (case map_of (watchers st) sid of
        None \<Rightarrow> None
      | Some (eid, _) \<Rightarrow> Some (st\<lparr>watchers := AList.update sid (eid, True) (watchers st)\<rparr>))"

section \<open>The connection goroutine\<close>

text \<open>
  \<open>AddNewConnection\<close>. \<open>None\<close> is a step that has to wait. A panic in the handler's goroutine is
  recovered by the middleware; one in the reader's goroutine runs the deferred removal and
  then ends the process.
\<close>

definition finish :: "bool \<Rightarrow> 'd table_state \<Rightarrow> conn_pc \<times> 'd table_state" where
  "finish panicking st = (Finished, if panicking then st\<lparr>crashed := True\<rparr> else st)"

definition refuse :: "nat \<Rightarrow> string \<Rightarrow> 'd table_state \<Rightarrow> 'd table_state" where
  "refuse c message st =
     st\<lparr>network := close_conn c (SendWSErrResponse c WSStatusBadRequest message (network st))\<rparr>"

fun conn_step :: "wire \<Rightarrow> conn_thread \<Rightarrow> conn_pc \<Rightarrow> 'd table_state \<Rightarrow> (conn_pc \<times> 'd table_state) option" where
  "conn_step w th Lookup st =
     (case map_of (tm_sessions st) (th_session th) of
        None \<Rightarrow> Some (Finished, refuse (th_conn th) ErrInvalidWSSessionID st)
      | Some p \<Rightarrow> Some (Check p, st))"
| "conn_step w th (Check p) st =
     (if mu (heap st ! p) then None
      else if CheckUser (userID (th_user th)) (heap st ! p)
      then Some (Finished, refuse (th_conn th) ErrUserAlreadyExistsWS st)
      else Some (WhoIsAdmin p, st))"
| "conn_step w th (WhoIsAdmin p) st =
     (if mu (heap st ! p) then None
      else Some (if userID (th_user th) = adminID (heap st ! p) then AddingAdmin p else AddingPlayer p, st))"
| "conn_step w th (AddingAdmin p) st =
     (if mu (heap st ! p) then None
      else Some (SendingInfo p,
        upd_session p (AddAdmin (userID (th_user th)) (DisplayName (th_user th)) (th_conn th)) st))"
| "conn_step w th (AddingPlayer p) st =
     (if mu (heap st ! p) then None
      else (case AddParticipant (userID (th_user th)) (DisplayName (th_user th)) (th_conn th) (heap st ! p) of
          (Inl _, s) \<Rightarrow> Some (Finished, refuse (th_conn th) ErrMaxPlayersWS (upd_session p (\<lambda>_. s) st))
        | (Inr _, s) \<Rightarrow> Some (SendingInfo p, upd_session p (\<lambda>_. s) st)))"
| "conn_step w th (SendingInfo p) st =
     (if mu (heap st ! p) then None
      else Some (Refreshing p, put_session p
        (sendParticipantsInfo w (userID (th_user th)) Connected (heap st ! p) (network st)) st))"
| "conn_step w th (Refreshing p) st =
     (case refreshSession (th_session th) st of
        None \<Rightarrow> Some (Finished, st)
      | Some st1 \<Rightarrow> Some (FirstMsg p, st1))"
| "conn_step w th (FirstMsg p) st =
     (if mu (heap st ! p) then None
      else (case WriteFirstMsg w (userID (th_user th)) (heap st ! p) (network st) of
          None \<Rightarrow> Some (Finished, st)
        | Some sn \<Rightarrow> Some (Reading p, put_session p sn st)))"
| "conn_step w th (Reading p) st = None"
| "conn_step w th (GotMsg p msg) st =
     (case refreshSession (th_session th) st of
        None \<Rightarrow> Some (Leaving p True, st)
      | Some st1 \<Rightarrow> Some (Sending p msg, st1))"
| "conn_step w th (Sending p msg) st =
     (if runner (heap st ! p) = Idle
      then Some (Reading p, upd_session p (\<lambda>s. s\<lparr>runner := Got msg\<rparr>) st)
      else None)"
| "conn_step w th (Leaving p panicking) st =
     (if mu (heap st ! p) then None
      else if CheckUser (userID (th_user th)) (heap st ! p) then Some (Removing p panicking, st)
      else Some (finish panicking st))"
| "conn_step w th (Removing p panicking) st =
     (if mu (heap st ! p) then None
      else (case RemoveParticipant (userID (th_user th)) (heap st ! p) (network st) of
          (False, sn) \<Rightarrow> Some (finish panicking (put_session p sn st))
        | (True, sn) \<Rightarrow> Some (RemovedInfo p panicking, put_session p sn st)))"
| "conn_step w th (RemovedInfo p panicking) st =
     (if mu (heap st ! p) then None
      else Some (finish panicking (put_session p
        (sendParticipantsInfo w (userID (th_user th)) Disconnected (heap st ! p) (network st)) st)))"
| "conn_step w th Finished st = None"

section \<open>The session and timer goroutines\<close>

definition run_step :: "wire \<Rightarrow> nat \<Rightarrow> 'd table_state \<Rightarrow> 'd table_state option" where
  "run_step w p st =
     (case runner (heap st ! p) of
        Got msg \<Rightarrow>
          if mu (heap st ! p) then None
          else Some (put_session p (run_turn w msg (heap st ! p) (network st)) st)
      | _ \<Rightarrow> None)"

text \<open>
  \<open>stopTimer\<close>. A nil slice is a NULL, which the \<open>data\<close> column refuses, so nothing is saved
  then. \<open>RemoveSession\<close> ranges over the participants without the session's lock: over the
  keys it finds at the start, skipping those gone by the time it reaches them.
\<close>

fun timer_step ::
    "wire \<Rightarrow> 'd encounter_repository \<Rightarrow> timer_thread \<Rightarrow> timer_pc \<Rightarrow> 'd table_state
     \<Rightarrow> (timer_pc \<times> 'd table_state) option" where
  "timer_step w repo ti TGetData st =
     (case tm_GetEncounterData (ti_session ti) st of
        Return (Inl _) \<Rightarrow> Some (TStop None, st)
      | Return (Inr dat) \<Rightarrow> Some (TStop dat, st)
      | _ \<Rightarrow> None)"
| "timer_step w repo ti (TStop dat) st =
     (case map_of (watchers st) (ti_session ti) of
        None \<Rightarrow> Some (TFinished, st\<lparr>crashed := True\<rparr>)
      | Some _ \<Rightarrow> Some (TSave dat, st\<lparr>watchers := AList.delete (ti_session ti) (watchers st)\<rparr>))"
| "timer_step w repo ti (TSave dat) st =
     (case dat of
        None \<Rightarrow> Some (TFind, st)
      | Some bytes \<Rightarrow>
          Some (TFind, st\<lparr>store := snd (repo_Update repo bytes (ti_encounter ti) (store st))\<rparr>))"
| "timer_step w repo ti TFind st =
     (case map_of (tm_sessions st) (ti_session ti) of
        None \<Rightarrow> Some (TFinished, st)
      | Some p \<Rightarrow> Some (TRange p (map fst (participants (heap st ! p))), st))"
| "timer_step w repo ti (TRange p keys) st =
     (case keys of
        [] \<Rightarrow> Some (TDelete, st)
      | k # ks \<Rightarrow>
          Some (if CheckUser k (heap st ! p) then TRemove p k ks else TRange p ks, st))"
| "timer_step w repo ti (TRemove p k ks) st =
     (if mu (heap st ! p) then None
      else (case RemoveParticipant k (heap st ! p) (network st) of
          (False, sn) \<Rightarrow> Some (TRange p ks, put_session p sn st)
        | (True, sn) \<Rightarrow> Some (TInfo p k ks, put_session p sn st)))"
| "timer_step w repo ti (TInfo p k ks) st =
     (if mu (heap st ! p) then None
      else Some (TRange p ks, put_session p
        (sendParticipantsInfo w k Disconnected (heap st ! p) (network st)) st))"
| "timer_step w repo ti TDelete st =
     Some (TFinished, st\<lparr>tm_sessions := AList.delete (ti_session ti) (tm_sessions st)\<rparr>)"
| "timer_step w repo ti TFinished st = None"

section \<open>What can happen next\<close>

text \<open>
  The goroutines step, and the world around them acts: a user creates a session or connects
  to one, a message arrives or reading fails, a connection breaks, a timer runs out.
\<close>

datatype table_event =
    Create user string string
  | Connect user string
  | ConnStep nat
  | Arrives nat string
  | ReadFails nat
  | Breaks nat
  | RunStep nat
  | Fires string
  | TimerStep nat

fun table_next ::
    "wire \<Rightarrow> 'd encounter_repository \<Rightarrow> table_event \<Rightarrow> 'd table_state \<Rightarrow> 'd table_state option" where
  "table_next w repo (Create admin eid sid) st = Some (snd (uc_CreateSession repo admin eid sid st))"
| "table_next w repo (Connect u sid) st =
     Some (st\<lparr>conn_threads := conn_threads st @
       [\<lparr>th_user = u, th_session = sid, th_conn = length (conn_threads st), th_pc = Lookup\<rparr>]\<rparr>)"
| "table_next w repo (ConnStep i) st =
     (if i < length (conn_threads st)
      then (case conn_step w (conn_threads st ! i) (th_pc (conn_threads st ! i)) st of
          None \<Rightarrow> None
        | Some (pc, st1) \<Rightarrow>
            Some (st1\<lparr>conn_threads := (conn_threads st1)[i := (conn_threads st1 ! i)\<lparr>th_pc := pc\<rparr>]\<rparr>))
      else None)"
| "table_next w repo (Arrives i msg) st =
     (if i < length (conn_threads st)
      then (case th_pc (conn_threads st ! i) of
          Reading p \<Rightarrow>
            Some (st\<lparr>conn_threads := (conn_threads st)[i := (conn_threads st ! i)\<lparr>th_pc := GotMsg p msg\<rparr>]\<rparr>)
        | _ \<Rightarrow> None)
      else None)"
| "table_next w repo (ReadFails i) st =
     (if i < length (conn_threads st)
      then (case th_pc (conn_threads st ! i) of
          Reading p \<Rightarrow>
            Some (st\<lparr>conn_threads := (conn_threads st)[i := (conn_threads st ! i)\<lparr>th_pc := Leaving p False\<rparr>]\<rparr>)
        | _ \<Rightarrow> None)
      else None)"
| "table_next w repo (Breaks c) st = Some (st\<lparr>network := close_conn c (network st)\<rparr>)"
| "table_next w repo (RunStep p) st = (if p < length (heap st) then run_step w p st else None)"
| "table_next w repo (Fires sid) st =
     (case map_of (watchers st) sid of
        Some (eid, True) \<Rightarrow>
          Some (st\<lparr>watchers := AList.update sid (eid, False) (watchers st),
            timer_threads := timer_threads st @
              [\<lparr>ti_session = sid, ti_encounter = eid, ti_pc = TGetData\<rparr>]\<rparr>)
      | _ \<Rightarrow> None)"
| "table_next w repo (TimerStep i) st =
     (if i < length (timer_threads st)
      then (case timer_step w repo (timer_threads st ! i) (ti_pc (timer_threads st ! i)) st of
          None \<Rightarrow> None
        | Some (pc, st1) \<Rightarrow>
            Some (st1\<lparr>timer_threads := (timer_threads st1)[i := (timer_threads st1 ! i)\<lparr>ti_pc := pc\<rparr>]\<rparr>))
      else None)"

inductive table_step :: "wire \<Rightarrow> 'd encounter_repository \<Rightarrow> 'd table_state \<Rightarrow> 'd table_state \<Rightarrow> bool"
  for w repo where
  step: "\<not> crashed st \<Longrightarrow> table_next w repo ev st = Some st' \<Longrightarrow> table_step w repo st st'"

inductive table_reaches :: "wire \<Rightarrow> 'd encounter_repository \<Rightarrow> 'd table_state \<Rightarrow> 'd table_state \<Rightarrow> bool"
  for w repo st where
  refl: "table_reaches w repo st st"
| more: "table_reaches w repo st st1 \<Longrightarrow> table_step w repo st1 st2 \<Longrightarrow> table_reaches w repo st st2"

definition table_init :: "'d \<Rightarrow> 'd table_state" where
  "table_init d =
     \<lparr>tm_sessions = [], heap = [], network = \<lparr>dead = [], frames = []\<rparr>, watchers = [],
      conn_threads = [], timer_threads = [], store = d, crashed = False\<rparr>"

text \<open>Running a given sequence of events.\<close>

fun table_run ::
    "wire \<Rightarrow> 'd encounter_repository \<Rightarrow> table_event list \<Rightarrow> 'd table_state \<Rightarrow> 'd table_state option" where
  "table_run w repo [] st = Some st"
| "table_run w repo (ev # evs) st =
     (if crashed st then None
      else case table_next w repo ev st of None \<Rightarrow> None | Some st1 \<Rightarrow> table_run w repo evs st1)"

section \<open>Handlers\<close>

text \<open>
  \<open>delivery/table_handlers.go\<close>. \<open>ServeWS\<close> either answers over HTTP or, once the connection
  is upgraded, runs \<open>AddNewConnection\<close> as a goroutine of the state.
\<close>

datatype table_body = BodySession string | BodyTable table_data

fun table_marshals :: "wire \<Rightarrow> table_body payload \<Rightarrow> bool" where
  "table_marshals w (OkBody (BodyTable td)) =
     (case td_EncounterData td of None \<Rightarrow> True | Some dat \<Rightarrow> valid_json w dat)"
| "table_marshals w _ = True"

definition h_CreateSession ::
    "'d encounter_repository \<Rightarrow> wire \<Rightarrow> string option \<Rightarrow> string \<Rightarrow> user option
     \<Rightarrow> 'd table_state \<Rightarrow> table_body response go \<times> 'd table_state" where
  "h_CreateSession repo w body new_sid ctx_user st =
     (case body of
        None \<Rightarrow> (Return (SendErrResponse StatusBadRequest ErrBadJSON), st)
      | Some eid \<Rightarrow>
          with_user ctx_user (\<lambda>user st.
            case uc_CreateSession repo user eid new_sid st of
              (Inl err, st1) \<Rightarrow>
                (Return (if err = PermissionDeniedError \<or> err = ScanError
                         then SendErrResponse StatusBadRequest ErrInvalidID
                         else SendErrResponse StatusInternalServerError ErrInternalServer), st1)
            | (Inr sid, st1) \<Rightarrow>
                (Return (SendOkResponse (table_marshals w) (OkBody (BodySession sid))), st1)) st)"

definition h_GetTableData ::
    "wire \<Rightarrow> string option \<Rightarrow> 'd table_state \<Rightarrow> table_body response go" where
  "h_GetTableData w var st =
     (if no_id var then Return (SendErrResponse StatusBadRequest ErrInvalidID)
      else go_bind (tm_GetTableData (the var) st) (\<lambda>r. Return (case r of
          Inl _ \<Rightarrow> SendErrResponse StatusBadRequest ErrWrongTableID
        | Inr td \<Rightarrow> SendOkResponse (table_marshals w) (OkBody (BodyTable td)))))"

definition h_ServeWS ::
    "string option \<Rightarrow> user option \<Rightarrow> bool \<Rightarrow> 'd table_state
     \<Rightarrow> table_body response option go \<times> 'd table_state" where
  "h_ServeWS var ctx_user upgrades st =
     (if no_id var then (Return (Some (SendErrResponse StatusBadRequest ErrInvalidID)), st)
      else with_user ctx_user (\<lambda>user st.
        if \<not> upgrades then (Return (Some (SendErrResponse StatusBadRequest ErrWSUpgrade)), st)
        else (Return None, st\<lparr>conn_threads := conn_threads st @
          [\<lparr>th_user = user, th_session = the var, th_conn = length (conn_threads st),
            th_pc = Lookup\<rparr>]\<rparr>)) st)"

end
