(* ===== verification/EncounterStorage.thy ===== *)
theory EncounterStorage
  imports Encounter
begin

text \<open>
  \<open>internal/pkg/encounter/repository\<close>: the queries on \<open>encounter_store\<close>, the storage built
  from them, the interpretation of the repository contracts on it, and the properties of
  the encounter component over Postgres.

  \<open>tsquery\<close> is Postgres's full-text search: the names a query text matches, \<open>None\<close> when
  \<open>to_tsquery\<close> rejects the text. Ids are uuids in their canonical text.
\<close>

section \<open>Queries\<close>

definition row_encounter :: "encounter_row \<Rightarrow> encounter" where
  "row_encounter row =
     \<lparr>UserID = enc_user_id row, Name = enc_name row, Data = enc_data row, UUID = enc_uuid row\<rparr>"

definition CheckPermissionQuery :: "string \<Rightarrow> int \<Rightarrow> postgres \<Rightarrow> bool option" where
  "CheckPermissionQuery eid uid db =
     Some (\<exists>row \<in> set (encounters db).
       enc_uuid row = eid \<and> enc_user_id row = uid \<and> \<not> enc_is_deleted row)"

definition GetEncounterByIDQuery :: "string \<Rightarrow> postgres \<Rightarrow> encounter option" where
  "GetEncounterByIDQuery eid db =
     map_option row_encounter
       (find (\<lambda>row. enc_uuid row = eid \<and> \<not> enc_is_deleted row) (encounters db))"

definition GetEncountersListQuery ::
    "int \<Rightarrow> int \<Rightarrow> int \<Rightarrow> postgres \<Rightarrow> go_error + encounter_in_list list" where
  "GetEncountersListQuery uid siz start db =
     Inr (map (in_list \<circ> row_encounter) (limit_offset siz start
       (scanned (scan_order db (clock db))
          (filter (\<lambda>row. enc_user_id row = uid \<and> \<not> enc_is_deleted row) (encounters db)))))"

definition GetEncountersListWithSearchQuery ::
    "(string \<Rightarrow> (string \<Rightarrow> bool) option) \<Rightarrow> int \<Rightarrow> string \<Rightarrow> int \<Rightarrow> int \<Rightarrow> postgres
     \<Rightarrow> go_error + encounter_in_list list" where
  "GetEncountersListWithSearchQuery tsquery uid searchValue siz start db =
     (case tsquery searchValue of
        None \<Rightarrow> Inl (PgError ''42601'' '''')
      | Some p \<Rightarrow>
          Inr (map (in_list \<circ> row_encounter) (limit_offset siz start
            (scanned (scan_order db (clock db))
              (filter (\<lambda>row. enc_user_id row = uid \<and> \<not> enc_is_deleted row \<and> p (enc_name row))
                (encounters db))))))"

text \<open>
  The insert with the constraints of the table: \<open>data\<close> not null, \<open>name\<close> not empty and at
  most 60 characters, \<open>uuid\<close> the primary key, \<open>user_id\<close> a user. A text value with a NUL
  byte is refused.
\<close>

definition pg_text :: "string \<Rightarrow> bool" where
  "pg_text s \<longleftrightarrow> CHR 0x00 \<notin> set s"

definition SaveEncounterQuery :: "int \<Rightarrow> string \<Rightarrow> string option \<Rightarrow> string \<Rightarrow> unit dbcall" where
  "SaveEncounterQuery uid name dat eid db =
     (if \<not> pg_text name then (Inl (PgError ''22021'' ''''), db)
      else case dat of
        None \<Rightarrow> (Inl (not_null_violation ''data''), db)
      | Some bytes \<Rightarrow>
          if name = [] then (Inl (check_violation ''encounter_store_name_check''), db)
          else if 60 < char_length name then (Inl (check_violation ''max_len_name''), db)
          else if eid \<in> enc_uuid ` set (encounters db)
          then (Inl (unique_violation ''encounter_store_pkey''), db)
          else if uid \<notin> (userID \<circ> row_user) ` set (users db)
          then (Inl (foreign_key_violation ''encounter_store_user_id_fkey''), db)
          else (Inr (), db\<lparr>encounters := encounters db @
            [\<lparr>enc_user_id = uid, enc_name = name, enc_data = bytes, enc_is_deleted = False,
              enc_uuid = eid\<rparr>]\<rparr>))"

definition UpdateEncounterQuery :: "string \<Rightarrow> string \<Rightarrow> unit dbcall" where
  "UpdateEncounterQuery eid dat db =
     (Inr (), db\<lparr>encounters :=
        update_where (\<lambda>row. enc_uuid row = eid) (\<lambda>row. row\<lparr>enc_data := dat\<rparr>) (encounters db)\<rparr>)"

definition DeleteEncounterQuery :: "string \<Rightarrow> unit dbcall" where
  "DeleteEncounterQuery eid db =
     (Inr (), db\<lparr>encounters :=
        update_where (\<lambda>row. enc_uuid row = eid) (\<lambda>row. row\<lparr>enc_is_deleted := True\<rparr>) (encounters db)\<rparr>)"

section \<open>The storage\<close>

definition sto_GetEncountersList ::
    "int \<Rightarrow> int \<Rightarrow> int \<Rightarrow> postgres \<Rightarrow> encounter_in_list list option result \<times> postgres" where
  "sto_GetEncountersList siz start uid db =
     (case query_rows (GetEncountersListQuery uid siz start) db of
        (Inl err, db1) \<Rightarrow> ((if err = ErrNoRows then Inr None else Inl QueryError), db1)
      | (Inr (rows, _), db1) \<Rightarrow> (Inr (Some rows), db1))"

definition sto_GetEncountersListWithSearch ::
    "(string \<Rightarrow> (string \<Rightarrow> bool) option) \<Rightarrow> int \<Rightarrow> int \<Rightarrow> int \<Rightarrow> search_params \<Rightarrow> postgres
     \<Rightarrow> encounter_in_list list option result \<times> postgres" where
  "sto_GetEncountersListWithSearch tsquery siz start uid search db =
     (case query_rows (GetEncountersListWithSearchQuery tsquery uid (Value search @ '':*'') siz start) db of
        (Inl err, db1) \<Rightarrow> ((if err = ErrNoRows then Inr None else Inl QueryError), db1)
      | (Inr (rows, _), db1) \<Rightarrow> (Inr (Some rows), db1))"

definition sto_GetEncounterByID :: "string \<Rightarrow> postgres \<Rightarrow> encounter result \<times> postgres" where
  "sto_GetEncounterByID eid db =
     (case query_row (GetEncounterByIDQuery eid) db of
        (Inl err, db1) \<Rightarrow> (Inl ScanError, db1)
      | (Inr e, db1) \<Rightarrow> (Inr e, db1))"

definition tx_unit :: "unit dbcall \<Rightarrow> postgres \<Rightarrow> unit result \<times> postgres" where
  "tx_unit stmt db =
     (case transaction (exec stmt) db of
        (Inl err, db1) \<Rightarrow> (Inl TxError, db1)
      | (Inr _, db1) \<Rightarrow> (Inr (), db1))"

definition sto_SaveEncounter ::
    "save_encounter_req \<Rightarrow> string \<Rightarrow> int \<Rightarrow> postgres \<Rightarrow> unit result \<times> postgres" where
  "sto_SaveEncounter enc eid uid db =
     tx_unit (SaveEncounterQuery uid (req_Name enc) (req_Data enc) eid) db"

definition sto_UpdateEncounter :: "string \<Rightarrow> string \<Rightarrow> postgres \<Rightarrow> unit result \<times> postgres" where
  "sto_UpdateEncounter dat eid db = tx_unit (UpdateEncounterQuery eid dat) db"

definition sto_RemoveEncounter :: "string \<Rightarrow> postgres \<Rightarrow> unit result \<times> postgres" where
  "sto_RemoveEncounter eid db = tx_unit (DeleteEncounterQuery eid) db"

definition sto_CheckPermission :: "string \<Rightarrow> int \<Rightarrow> postgres \<Rightarrow> bool \<times> postgres" where
  "sto_CheckPermission eid uid db =
     (case query_row (CheckPermissionQuery eid uid) db of
        (Inl err, db1) \<Rightarrow> (False, db1)
      | (Inr hasPermission, db1) \<Rightarrow> (hasPermission, db1))"

definition encounterStorage ::
    "(string \<Rightarrow> (string \<Rightarrow> bool) option) \<Rightarrow> postgres encounter_repository" where
  "encounterStorage tsquery =
     \<lparr>repo_ListWithSearch = sto_GetEncountersListWithSearch tsquery,
      repo_List = sto_GetEncountersList,
      repo_GetByID = sto_GetEncounterByID,
      repo_Save = sto_SaveEncounter,
      repo_Update = sto_UpdateEncounter,
      repo_Remove = sto_RemoveEncounter,
      repo_CheckPermission = sto_CheckPermission\<rparr>"

section \<open>The storage meets the contracts\<close>

definition encounters_ok :: "postgres \<Rightarrow> bool" where
  "encounters_ok db \<longleftrightarrow> distinct (map enc_uuid (encounters db))"

definition visible_encounters :: "postgres \<Rightarrow> encounter list" where
  "visible_encounters db = map row_encounter (filter (\<lambda>row. \<not> enc_is_deleted row) (encounters db))"

definition accepts_encounter :: "postgres \<Rightarrow> save_encounter_req \<Rightarrow> string \<Rightarrow> int \<Rightarrow> bool" where
  "accepts_encounter db enc eid uid \<longleftrightarrow>
     pg_text (req_Name enc) \<and> req_Name enc \<noteq> [] \<and> char_length (req_Name enc) \<le> 60 \<and>
     req_Data enc \<noteq> None \<and> eid \<notin> enc_uuid ` set (encounters db) \<and>
     uid \<in> (userID \<circ> row_user) ` set (users db)"

definition found_by :: "(string \<Rightarrow> (string \<Rightarrow> bool) option) \<Rightarrow> string \<Rightarrow> string \<Rightarrow> bool" where
  "found_by tsquery what name = (case tsquery (what @ '':*'') of None \<Rightarrow> False | Some p \<Rightarrow> p name)"

lemma row_encounter_simps [simp]:
  "UserID (row_encounter row) = enc_user_id row" "Name (row_encounter row) = enc_name row"
  "Data (row_encounter row) = enc_data row" "UUID (row_encounter row) = enc_uuid row"
  by (simp_all add: row_encounter_def)

lemma frame_encounters:
  assumes "same_tables db db'"
  shows "encounters_ok db' = encounters_ok db" "visible_encounters db' = visible_encounters db"
    "accepts_encounter db' = accepts_encounter db"
  using same_tablesD [OF assms]
  by (simp_all add: encounters_ok_def visible_encounters_def accepts_encounter_def fun_eq_iff)

lemma limit_offset_map: "map f (limit_offset siz start xs) = limit_offset siz start (map f xs)"
  by (simp add: limit_offset_def take_map drop_map)

lemma list_visible:
  "map (in_list \<circ> row_encounter) (limit_offset siz start (scanned ks
      (filter (\<lambda>row. enc_user_id row = uid \<and> \<not> enc_is_deleted row \<and> p (enc_name row)) (encounters db)))) =
   map in_list (limit_offset siz start (scanned ks
      (filter (\<lambda>e. UserID e = uid \<and> p (Name e)) (visible_encounters db))))"
  unfolding visible_encounters_def filter_map limit_offset_map scanned_map filter_filter
  by (simp add: comp_def conj_commute conj_left_commute scanned_map)

lemma find_visible:
  "map_option row_encounter (find (\<lambda>row. enc_uuid row = eid \<and> \<not> enc_is_deleted row) (encounters db)) =
   find (\<lambda>e. UUID e = eid) (visible_encounters db)"
proof -
  have "map_option row_encounter (find (\<lambda>row. enc_uuid row = eid \<and> \<not> enc_is_deleted row) rows) =
      find (\<lambda>e. UUID e = eid) (map row_encounter (filter (\<lambda>row. \<not> enc_is_deleted row) rows))" for rows
    by (induction rows) auto
  then show ?thesis by (simp add: visible_encounters_def)
qed

lemma tx_unit_cases:
  assumes "tx_unit stmt db = (r, db')"
  shows "(r = Inl TxError \<and> same_tables db db') \<or>
     (\<exists>db1 db2. r = Inr () \<and> same_tables db db1 \<and> stmt db1 = (Inr (), db2) \<and> same_tables db2 db')"
proof -
  obtain t db'' where t: "transaction (exec stmt) db = (t, db'')" by fastforce
  have e: "\<exists>db2. same_tables x db2 \<and> stmt db2 = (Inr y, z)" if "exec stmt x = (Inr y, z)" for x y z
    using exec_cases [OF that] by auto
  from transaction_cases [OF t] assms t e show ?thesis
    by (auto simp: tx_unit_def split: sum.splits dest!: e intro: same_tables_trans)
qed

lemma tx_unit_healthy:
  assumes "tx_unit stmt db = (r, db')" and "healthy db"
    and keeps: "\<And>db1. healthy db1 \<Longrightarrow> healthy (snd (stmt db1))"
  shows "healthy db' \<and>
     (\<exists>db1. same_tables db db1 \<and> r = (case fst (stmt db1) of Inl _ \<Rightarrow> Inl TxError | Inr _ \<Rightarrow> Inr ()))"
proof -
  obtain t db'' where t: "transaction (exec stmt) db = (t, db'')" by fastforce
  have e: "\<exists>db2. same_tables x db2 \<and> healthy db2 \<and> exec stmt x = stmt db2" if "healthy x" for x
    using that round_trip_frame [of x]
    by (cases "round_trip x") (auto simp: exec_def)
  have "healthy (snd (exec stmt x))" if "healthy x" for x
    using e [OF that] keeps by auto
  from transaction_healthy [OF t assms(2) this]
  obtain db1 where h: "healthy db''" "same_tables db db1" "healthy db1" "fst (exec stmt db1) = t" by blast
  from e [OF h(3)] obtain db2 where "same_tables db1 db2" "exec stmt db1 = stmt db2" by blast
  then have "same_tables db db2" "t = fst (stmt db2)" using h same_tables_trans by auto
  then show ?thesis using assms(1) t h(1) by (auto simp: tx_unit_def split: sum.splits)
qed

lemmas encounter_queries = CheckPermissionQuery_def GetEncounterByIDQuery_def
  GetEncountersListQuery_def GetEncountersListWithSearchQuery_def SaveEncounterQuery_def
  UpdateEncounterQuery_def DeleteEncounterQuery_def

lemma map_update_rows:
  "map row_encounter (filter (\<lambda>row. \<not> enc_is_deleted row)
      (update_where (\<lambda>row. enc_uuid row = eid) (\<lambda>row. row\<lparr>enc_data := dat\<rparr>) rows)) =
   update_where (\<lambda>e. UUID e = eid) (\<lambda>e. e\<lparr>Data := dat\<rparr>)
     (map row_encounter (filter (\<lambda>row. \<not> enc_is_deleted row) rows))"
  by (induction rows) (auto simp: update_where_def row_encounter_def)

lemma map_delete_rows:
  "map row_encounter (filter (\<lambda>row. \<not> enc_is_deleted row)
      (update_where (\<lambda>row. enc_uuid row = eid) (\<lambda>row. row\<lparr>enc_is_deleted := True\<rparr>) rows)) =
   delete_where (\<lambda>e. UUID e = eid) (map row_encounter (filter (\<lambda>row. \<not> enc_is_deleted row) rows))"
  by (induction rows) (auto simp: update_where_def delete_where_def row_encounter_def)

lemma some_page: "\<exists>k ks. f a = take k (f ks)" "\<exists>k ks. take n (f a) = take k (f ks)" for f :: "'k \<Rightarrow> 'x list"
  by (rule exI [of _ "length (f a)"], rule exI [of _ a], simp) blast

lemma sto_check:
  assumes "sto_CheckPermission eid uid db = (b, db')"
  shows "same_tables db db' \<and>
    (b \<longrightarrow> (\<exists>e \<in> set (visible_encounters db). UUID e = eid \<and> UserID e = uid)) \<and>
    (healthy db \<longrightarrow> healthy db' \<and>
      b = (\<exists>e \<in> set (visible_encounters db). UUID e = eid \<and> UserID e = uid))"
proof -
  obtain q db1 where q: "query_row (CheckPermissionQuery eid uid) db = (q, db1)" by fastforce
  have "CheckPermissionQuery eid uid db1 =
      Some (\<exists>e \<in> set (visible_encounters db1). UUID e = eid \<and> UserID e = uid)"
    by (auto simp: CheckPermissionQuery_def visible_encounters_def)
  note sel = this
  note c = query_row_cases [OF q]
  then have st: "same_tables db db1" by simp
  have r: "db' = db1" "b = (case q of Inl _ \<Rightarrow> False | Inr x \<Rightarrow> x)"
    using assms by (auto simp: sto_CheckPermission_def q split: sum.splits)
  show ?thesis
    using c unfolding r sel frame_encounters(2) [OF st] by (elim conjE disjE) auto
qed

lemma sto_get:
  assumes "sto_GetEncounterByID eid db = (g, db')"
  shows "same_tables db db' \<and>
    (\<forall>e. g = Inr e \<longrightarrow> find (\<lambda>e. UUID e = eid) (visible_encounters db) = Some e) \<and>
    (healthy db \<longrightarrow> healthy db' \<and>
      g = (case find (\<lambda>e. UUID e = eid) (visible_encounters db) of None \<Rightarrow> Inl ScanError | Some e \<Rightarrow> Inr e))"
proof -
  obtain q db1 where q: "query_row (GetEncounterByIDQuery eid) db = (q, db1)" by fastforce
  have "GetEncounterByIDQuery eid db1 = find (\<lambda>e. UUID e = eid) (visible_encounters db1)"
    by (simp add: GetEncounterByIDQuery_def find_visible)
  note sel = this
  note c = query_row_cases [OF q]
  then have st: "same_tables db db1" by simp
  have r: "db' = db1" "g = (case q of Inl _ \<Rightarrow> Inl ScanError | Inr x \<Rightarrow> Inr x)"
    using assms by (auto simp: sto_GetEncounterByID_def q split: sum.splits)
  show ?thesis
    using c unfolding r sel frame_encounters(2) [OF st] by (elim conjE disjE) (auto split: option.splits)
qed

lemma sto_list:
  assumes "sto_GetEncountersList siz start uid db = (l, db')"
  defines "page ks \<equiv> map in_list (limit_offset siz start (scanned ks (filter (\<lambda>e. UserID e = uid) (visible_encounters db))))"
  shows "same_tables db db' \<and> (\<forall>xs. l = Inr (Some xs) \<longrightarrow> (\<exists>k ks. xs = take k (page ks))) \<and>
    (healthy db \<longrightarrow> healthy db' \<and> (\<exists>ks. l = Inr (Some (page ks))))"
proof -
  obtain q db1 where q: "query_rows (GetEncountersListQuery uid siz start) db = (q, db1)" by fastforce
  have "GetEncountersListQuery uid siz start db1 = Inr (map in_list (limit_offset siz start
      (scanned (scan_order db1 (clock db1)) (filter (\<lambda>e. UserID e = uid) (visible_encounters db1)))))"
    using list_visible [where p = "\<lambda>_. True"] by (simp add: GetEncountersListQuery_def)
  note sel = this
  note c = query_rows_cases [OF q]
  then have st: "same_tables db db1" by simp
  have r: "db' = db1" "l = (case q of Inl err \<Rightarrow> if err = ErrNoRows then Inr None else Inl QueryError
      | Inr (rows, _) \<Rightarrow> Inr (Some rows))"
    using assms(1) by (auto simp: sto_GetEncountersList_def q split: sum.splits)
  show ?thesis
    using c unfolding r sel frame_encounters(2) [OF st] page_def [symmetric]
    by (elim conjE disjE) (auto intro: some_page [where f = page])
qed

lemma sto_search:
  assumes "sto_GetEncountersListWithSearch tsquery siz start uid what db = (l, db')"
  defines "page ks \<equiv> map in_list (limit_offset siz start (scanned ks (filter (\<lambda>e. UserID e = uid \<and>
      found_by tsquery (Value what) (Name e)) (visible_encounters db))))"
  shows "same_tables db db' \<and> (\<forall>xs. l = Inr (Some xs) \<longrightarrow> (\<exists>k ks. xs = take k (page ks))) \<and>
    (healthy db \<longrightarrow> healthy db' \<and> (\<exists>ks. l = Inr (Some (page ks))))"
proof -
  let ?sel = "GetEncountersListWithSearchQuery tsquery uid (Value what @ '':*'') siz start"
  obtain q db1 where q: "query_rows ?sel db = (q, db1)" by fastforce
  have s: "?sel db1 = (case tsquery (Value what @ '':*'') of None \<Rightarrow> Inl (PgError ''42601'' '''')
      | Some p \<Rightarrow> Inr (map in_list (limit_offset siz start (scanned (scan_order db1 (clock db1))
          (filter (\<lambda>e. UserID e = uid \<and> p (Name e)) (visible_encounters db1))))))"
    using list_visible
    by (auto simp: GetEncountersListWithSearchQuery_def split: option.split)
  note c = query_rows_cases [OF q]
  then have st: "same_tables db db1" by simp
  have r: "db' = db1" "l = (case q of Inl err \<Rightarrow> if err = ErrNoRows then Inr None else Inl QueryError
      | Inr (rows, _) \<Rightarrow> Inr (Some rows))"
    using assms(1) by (auto simp: sto_GetEncountersListWithSearch_def q split: sum.splits)
  show ?thesis
  proof (cases "tsquery (Value what @ '':*'')")
    case None
    then have "page ks = []" for ks by (simp add: page_def found_by_def limit_offset_def)
    then show ?thesis
      using c unfolding r s None by (elim conjE disjE) auto
  next
    case (Some p)
    then have page: "page ks = map in_list (limit_offset siz start (scanned ks
        (filter (\<lambda>e. UserID e = uid \<and> p (Name e)) (visible_encounters db))))" for ks
      by (simp add: page_def found_by_def)
    then show ?thesis
      using c unfolding r s frame_encounters(2) [OF st] Some option.case page [symmetric]
      by (elim conjE disjE) (auto intro: some_page [where f = page])
  qed
qed

lemma SaveEncounterQuery_result:
  "fst (SaveEncounterQuery uid (req_Name enc) (req_Data enc) eid db) = Inr () \<longleftrightarrow>
     accepts_encounter db enc eid uid"
  by (auto simp: SaveEncounterQuery_def accepts_encounter_def split: option.splits)

lemma SaveEncounterQuery_Inr:
  assumes "SaveEncounterQuery uid name dat eid db = (Inr (), db')" and "encounters_ok db"
  shows "encounters_ok db' \<and> (\<exists>bytes. dat = Some bytes \<and> eid \<notin> enc_uuid ` set (encounters db) \<and>
     visible_encounters db' = visible_encounters db @
       [\<lparr>UserID = uid, Name = name, Data = bytes, UUID = eid\<rparr>])"
  using assms
  by (auto simp: SaveEncounterQuery_def encounters_ok_def visible_encounters_def row_encounter_def
      split: if_splits option.splits)

lemma sto_save:
  assumes "sto_SaveEncounter enc eid uid db = (r, db')" and "encounters_ok db"
  shows "encounters_ok db' \<and>
    (if r = Inr ()
     then \<exists>bytes. req_Data enc = Some bytes \<and> eid \<notin> UUID ` set (visible_encounters db) \<and>
       visible_encounters db' = visible_encounters db @
         [\<lparr>UserID = uid, Name = req_Name enc, Data = bytes, UUID = eid\<rparr>]
     else visible_encounters db' = visible_encounters db)"
proof -
  have vis: "UUID ` set (visible_encounters db) \<subseteq> enc_uuid ` set (encounters db)"
    by (auto simp: visible_encounters_def)
  from tx_unit_cases [OF assms(1) [unfolded sto_SaveEncounter_def]] show ?thesis
  proof (elim disjE exE conjE)
    assume "r = Inl TxError" "same_tables db db'"
    then show ?thesis using assms(2) by (simp add: frame_encounters)
  next
    fix db1 db2
    assume r: "r = Inr ()" and s: "same_tables db db1" "same_tables db2 db'"
      and q: "SaveEncounterQuery uid (req_Name enc) (req_Data enc) eid db1 = (Inr (), db2)"
    note f = frame_encounters [OF s(1)] frame_encounters [OF s(2)] same_tablesD(3) [OF s(1)]
    from SaveEncounterQuery_Inr [OF q] assms(2) r vis show ?thesis unfolding f by auto
  qed
qed

lemma SaveEncounterQuery_healthy: "healthy db \<Longrightarrow> healthy (snd (SaveEncounterQuery uid name dat eid db))"
  by (auto simp: SaveEncounterQuery_def healthy_def split: option.splits)

lemma sto_save_healthy:
  assumes "sto_SaveEncounter enc eid uid db = (r, db')" and "healthy db"
  shows "healthy db' \<and> r = (if accepts_encounter db enc eid uid then Inr () else Inl TxError)"
proof -
  from tx_unit_healthy [OF assms(1) [unfolded sto_SaveEncounter_def] assms(2) SaveEncounterQuery_healthy]
  obtain db1 where h: "healthy db'" "same_tables db db1"
    and r: "r = (case fst (SaveEncounterQuery uid (req_Name enc) (req_Data enc) eid db1) of
        Inl _ \<Rightarrow> Inl TxError | Inr _ \<Rightarrow> Inr ())" by blast
  have "accepts_encounter db1 = accepts_encounter db" using frame_encounters(3) [OF h(2)] .
  with SaveEncounterQuery_result [of uid enc eid db1] h(1) r show ?thesis
    by (cases "fst (SaveEncounterQuery uid (req_Name enc) (req_Data enc) eid db1)") auto
qed

lemma write_encounters:
  assumes "tx_unit stmt db = (r, db')" and "encounters_ok db"
    and stmt: "\<And>db1. stmt db1 = (Inr (), db1\<lparr>encounters := f (encounters db1)\<rparr>)"
    and keys: "\<And>rows. map enc_uuid (f rows) = map enc_uuid rows"
    and vis: "\<And>rows. map row_encounter (filter (\<lambda>row. \<not> enc_is_deleted row) (f rows)) =
        g (map row_encounter (filter (\<lambda>row. \<not> enc_is_deleted row) rows))"
  shows "encounters_ok db' \<and>
      visible_encounters db' = (if r = Inr () then g (visible_encounters db) else visible_encounters db) \<and>
      (healthy db \<longrightarrow> healthy db' \<and> r = Inr ())"
proof -
  have "healthy (snd (stmt db1)) = healthy db1" for db1 by (simp add: stmt healthy_def)
  then have h: "healthy db \<longrightarrow> healthy db' \<and> r = Inr ()"
    using tx_unit_healthy [OF assms(1)] by (auto simp: stmt)
  from tx_unit_cases [OF assms(1)] show ?thesis
  proof (elim disjE exE conjE)
    assume "r = Inl TxError" "same_tables db db'"
    then show ?thesis using assms(2) h by (simp add: frame_encounters)
  next
    fix db1 db2
    assume r: "r = Inr ()" and s: "same_tables db db1" "same_tables db2 db'"
      and q: "stmt db1 = (Inr (), db2)"
    from q have d: "encounters db2 = f (encounters db)"
      using same_tablesD(3) [OF s(1)] by (auto simp: stmt)
    then have "encounters_ok db2" "visible_encounters db2 = g (visible_encounters db)"
      using assms(2) by (simp_all add: encounters_ok_def visible_encounters_def keys vis)
    with frame_encounters [OF s(2)] r h show ?thesis by simp
  qed
qed

lemma sto_update:
  assumes "sto_UpdateEncounter dat eid db = (r, db')" and "encounters_ok db"
  shows "encounters_ok db' \<and>
      visible_encounters db' =
        (if r = Inr () then update_where (\<lambda>e. UUID e = eid) (\<lambda>e. e\<lparr>Data := dat\<rparr>) (visible_encounters db)
         else visible_encounters db) \<and>
      (healthy db \<longrightarrow> healthy db' \<and> r = Inr ())"
  using write_encounters [OF assms(1) [unfolded sto_UpdateEncounter_def] assms(2)
      UpdateEncounterQuery_def _ map_update_rows] by simp

lemma sto_remove:
  assumes "sto_RemoveEncounter eid db = (r, db')" and "encounters_ok db"
  shows "encounters_ok db' \<and>
      visible_encounters db' =
        (if r = Inr () then delete_where (\<lambda>e. UUID e = eid) (visible_encounters db)
         else visible_encounters db) \<and>
      (healthy db \<longrightarrow> healthy db' \<and> r = Inr ())"
  using write_encounters [OF assms(1) [unfolded sto_RemoveEncounter_def] assms(2)
      DeleteEncounterQuery_def _ map_delete_rows] by simp

lemma distinct_visible_encounters: "encounters_ok db \<Longrightarrow> distinct (map UUID (visible_encounters db))"
  by (simp add: encounters_ok_def visible_encounters_def comp_def distinct_map_filter)

lemma encounterStorage_simps [simp]:
  "repo_ListWithSearch (encounterStorage tsquery) = sto_GetEncountersListWithSearch tsquery"
  "repo_List (encounterStorage tsquery) = sto_GetEncountersList"
  "repo_GetByID (encounterStorage tsquery) = sto_GetEncounterByID"
  "repo_Save (encounterStorage tsquery) = sto_SaveEncounter"
  "repo_Update (encounterStorage tsquery) = sto_UpdateEncounter"
  "repo_Remove (encounterStorage tsquery) = sto_RemoveEncounter"
  "repo_CheckPermission (encounterStorage tsquery) = sto_CheckPermission"
  by (simp_all add: encounterStorage_def)

interpretation es: encounter_repo "encounterStorage tsquery" encounters_ok visible_encounters
  for tsquery
proof (unfold_locales, goal_cases)
  case (1 d) then show ?case by (rule distinct_visible_encounters)
next
  case (2 d eid uid b d')
  with sto_check [of eid uid d b d'] show ?case by (auto simp: frame_encounters)
next
  case (3 d eid g d')
  with sto_get [of eid d g d'] show ?case by (auto simp: frame_encounters dest: find_SomeD)
next
  case (4 d enc eid uid r d')
  with sto_save [of enc eid uid d r d'] show ?case by simp
next
  case (5 d dat eid r d')
  with sto_update [of dat eid d r d'] show ?case by simp
next
  case (6 d eid r d')
  with sto_remove [of eid d r d'] show ?case by simp
next
  case (7 d siz start uid l d')
  with sto_list [of siz start uid d l d'] show ?case by (auto simp: frame_encounters)
next
  case (8 d siz start uid what l d')
  from sto_search [OF 8(2) [unfolded encounterStorage_simps]] 8(1)
  have st: "same_tables d d'"
    and l: "\<forall>xs. l = Inr (Some xs) \<longrightarrow> (\<exists>k ks. xs = take k (map in_list (limit_offset siz start (scanned ks
      (filter (\<lambda>e. UserID e = uid \<and> found_by tsquery (Value what) (Name e)) (visible_encounters d))))))"
    by simp_all
  from l have "\<forall>xs. l = Inr (Some xs) \<longrightarrow> (\<exists>k ks p. xs = take k (map in_list (limit_offset siz start (scanned ks
      (filter (\<lambda>e. UserID e = uid \<and> p (Name e)) (visible_encounters d))))))"
  proof (intro allI impI)
    fix xs assume "l = Inr (Some xs)"
    with l obtain k ks where "xs = take k (map in_list (limit_offset siz start (scanned ks
        (filter (\<lambda>e. UserID e = uid \<and> found_by tsquery (Value what) (Name e)) (visible_encounters d)))))" by blast
    then show "\<exists>k ks p. xs = take k (map in_list (limit_offset siz start (scanned ks
        (filter (\<lambda>e. UserID e = uid \<and> p (Name e)) (visible_encounters d)))))"
      by (intro exI [of _ k] exI [of _ ks] exI [of _ "found_by tsquery (Value what)"])
  qed
  with frame_encounters [OF st] 8(1) show ?case by simp
qed

interpretation esu: encounter_repo_up "encounterStorage tsquery" encounters_ok visible_encounters
  healthy accepts_encounter "found_by tsquery"
  for tsquery
proof (unfold_locales, goal_cases)
  case (1 d eid uid b d')
  with sto_check [of eid uid d b d'] show ?case by simp
next
  case (2 d eid g d')
  with sto_get [of eid d g d'] show ?case by simp
next
  case (3 d enc eid uid r d')
  with sto_save_healthy [of enc eid uid d r d'] show ?case by simp
next
  case (4 d dat eid r d')
  with sto_update [of dat eid d r d'] show ?case by simp
next
  case (5 d eid r d')
  with sto_remove [of eid d r d'] show ?case by simp
next
  case (6 d siz start uid l d')
  with sto_list [of siz start uid d l d'] show ?case by simp
next
  case (7 d siz start uid what l d')
  with sto_search [of tsquery siz start uid what d l d'] show ?case by simp
qed

lemmas encounter_refines_notebook_step = esu.serve_refines_other [where ks = "[]"]

lemma not_listing: "\<forall>body. ReqGet var \<noteq> ReqList body" "\<forall>body. ReqUpdate var dat \<noteq> ReqList body"
  by simp_all

section \<open>Properties\<close>

text \<open>
  C5. A user's encounters are theirs alone. Whatever sequence of requests other users send,
  and whatever the database does to the calls on the way, the encounters a user can see stay
  the same.
\<close>

theorem encounter_isolation:
  assumes "encounters_ok db"
    and "\<forall>(u, req) \<in> set reqs. \<exists>user. u = Some user \<and> userID user \<noteq> owner"
  shows "filter (\<lambda>e. UserID e = owner)
      (visible_encounters (serve_encounters (encounterStorage tsquery) valid reqs db)) =
    filter (\<lambda>e. UserID e = owner) (visible_encounters db)"
  using es.serve_many [OF assms] by simp

definition demo_user :: "int \<Rightarrow> user" where
  "demo_user i = \<lparr>userID = i, DisplayName = ''u'', AvatarURL = ''a'', Status = ''active''\<rparr>"

definition demo_db :: "outcome list \<Rightarrow> postgres" where
  "demo_db os =
     \<lparr>users = [\<lparr>row_user = demo_user 1, last_login_at = None\<rparr>, \<lparr>row_user = demo_user 2, last_login_at = None\<rparr>],
      user_seq = 3, identities = [], identity_seq = 1,
      encounters = [\<lparr>enc_user_id = 1, enc_name = ''cave'', enc_data = ''{}'', enc_is_deleted = False,
        enc_uuid = ''id1''\<rparr>],
      maps = [], uuids = [], clock = 0, scan_order = (\<lambda>_. []), outcomes = os\<rparr>"

theorem encounter_isolation_witness:
  "filter (\<lambda>e. UserID e = 1)
     (visible_encounters (serve_encounters (encounterStorage (\<lambda>_. None)) (\<lambda>_. True)
        [(Some (demo_user 2), ReqRemove (Some ''id1'')),
         (Some (demo_user 2), ReqUpdate (Some ''id1'') (Some ''x''))] (demo_db [Served, Refused]))) =
   [\<lparr>UserID = 1, Name = ''cave'', Data = ''{}'', UUID = ''id1''\<rparr>]"
  by (subst encounter_isolation)
    (simp_all add: encounters_ok_def demo_db_def demo_user_def visible_encounters_def row_encounter_def)

lemma listing_own:
  assumes "encounters_ok db"
    and "serve_encounter (encounterStorage tsquery) valid (Some user, ReqList r) db =
      (Return (StatusOk, OkBody (BodyList (Some xs))), db')"
  shows "int (length xs) \<le> req_Size (the r) \<and> distinct (map il_UUID xs) \<and>
    (\<forall>x \<in> set xs. \<exists>e \<in> set (visible_encounters db). x = in_list e \<and> UserID e = userID user)"
proof -
  from assms(2) obtain q where q: "r = Some q"
    "uc_GetEncountersList (encounterStorage tsquery) (req_Size q) (req_Start q) (userID user)
       (req_Search q) db = (Inr (Some xs), db')"
    by (auto simp: es.handler_defs no_id_def SendOkResponse_def sendResponse_def status_defs split: option.splits prod.splits sum.splits if_splits)
  from es.uc_list [OF assms(1) q(2)] obtain k ks p where "0 < req_Size q" and
    xs: "xs = take k (map in_list (limit_offset (req_Size q) (req_Start q) (scanned ks
      (filter (\<lambda>e. UserID e = userID user \<and> p (Name e)) (visible_encounters db)))))" (is "_ = take k (map _ ?l)")
    by blast
  then have "int (length xs) \<le> req_Size q"
    using length_limit_offset [of "req_Size q" "req_Start q" "scanned ks (filter
      (\<lambda>e. UserID e = userID user \<and> p (Name e)) (visible_encounters db))"] by simp
  moreover have "set xs \<subseteq> in_list ` set ?l" using xs by (auto dest: in_set_takeD)
  then have "\<forall>x \<in> set xs. \<exists>e \<in> set (visible_encounters db). x = in_list e \<and> UserID e = userID user"
    using set_limit_offset [of "req_Size q" "req_Start q"] by fastforce
  moreover have "distinct (map UUID ?l)"
    using distinct_visible_encounters [OF assms(1)]
    by (auto simp: limit_offset_map scanned_map) (simp add: limit_offset_def distinct_map_filter)
  then have "distinct (map il_UUID xs)"
    unfolding xs by (simp add: in_list_def comp_def take_map [symmetric])
  ultimately show ?thesis using q by simp
qed

text \<open>
  C6. Access control: for every state of the database and every fault, a 200 answer to a get,
  an update or a removal is given only for an encounter the user owns, an encounter in the
  answer is the stored one, and a listing holds at most the requested number of encounters,
  each of them visible and the user's own, none of them twice.
\<close>

theorem encounter_access_control:
  assumes "encounters_ok db"
    and "serve_encounter (encounterStorage tsquery) valid (Some user, req) db =
      (Return (StatusOk, body), db')"
  shows "(case req of
      ReqGet var \<Rightarrow> (\<exists>e \<in> set (visible_encounters db). var = Some (UUID e) \<and> UserID e = userID user \<and>
        body = (if valid (Data e) then OkBody (BodyEncounter e) else TextBody ErrInternalServer))
    | ReqUpdate var _ \<Rightarrow>
        (\<exists>e \<in> set (visible_encounters db). var = Some (UUID e) \<and> UserID e = userID user)
    | ReqRemove var \<Rightarrow>
        (\<exists>e \<in> set (visible_encounters db). var = Some (UUID e) \<and> UserID e = userID user)
    | ReqSave enc new_id \<Rightarrow> new_id \<notin> UUID ` set (visible_encounters db)
    | ReqList r \<Rightarrow> (\<forall>xs. body = OkBody (BodyList (Some xs)) \<longrightarrow>
        int (length xs) \<le> req_Size (the r) \<and> distinct (map il_UUID xs) \<and>
        (\<forall>x \<in> set xs. \<exists>e \<in> set (visible_encounters db). x = in_list e \<and> UserID e = userID user)))"
proof -
  have code [simp]: "StatusBadRequest \<noteq> StatusOk" "StatusForbidden \<noteq> StatusOk"
    "StatusInternalServerError \<noteq> StatusOk" by (simp_all add: status_defs)
  note d = es.handler_defs no_id_def SendOkResponse_def sendResponse_def
  show ?thesis
  proof (cases req)
    case (ReqList r)
    with assms listing_own show ?thesis by fastforce
  next
    case (ReqGet var)
    with assms(2) show ?thesis
      by (auto simp: d split: option.splits prod.splits sum.splits if_splits
          dest!: es.uc_get [OF assms(1)])
  next
    case (ReqSave enc new_id)
    with assms(2) show ?thesis
      by (auto simp: d split: option.splits prod.splits sum.splits if_splits
          dest!: es.uc_save [OF assms(1)])
  next
    case (ReqUpdate var dat)
    with assms(2) show ?thesis
      by (auto simp: d split: option.splits prod.splits sum.splits if_splits
          dest!: es.uc_update [OF assms(1)])
  next
    case (ReqRemove var)
    with assms(2) show ?thesis
      by (auto simp: d split: option.splits prod.splits sum.splits if_splits
          dest!: es.uc_remove [OF assms(1)])
  qed
qed

theorem encounter_access_control_witness:
  "\<exists>e \<in> set (visible_encounters (demo_db [])). ''id1'' = UUID e \<and> UserID e = 1"
proof -
  have ok: "encounters_ok (demo_db [])" by (simp add: encounters_ok_def demo_db_def)
  have "serve_encounter (encounterStorage (\<lambda>_. None)) (\<lambda>_. True)
      (Some (demo_user 1), ReqRemove (Some ''id1'')) (demo_db []) =
    (Return (StatusOk, NullBody), snd (serve_encounter (encounterStorage (\<lambda>_. None)) (\<lambda>_. True)
      (Some (demo_user 1), ReqRemove (Some ''id1'')) (demo_db [])))"
    by (simp add: h_RemoveEncounter_def no_id_def uc_RemoveEncounter_def sto_CheckPermission_def
        query_row_def round_trip_def CheckPermissionQuery_def sto_RemoveEncounter_def tx_unit_def
        transaction_def exec_def DeleteEncounterQuery_def demo_db_def demo_user_def)
  from encounter_access_control [OF ok this] show ?thesis by (simp add: demo_user_def)
qed

text \<open>
  C7. Refinement: as long as the database answers, every request gets exactly the answer of
  a plain notebook of encounters that never fails, in which deleted encounters are gone, and
  leaves the visible encounters as the notebook would. The queries of the listings do not sort, so
  a listing is a page of the encounters in some order, another one for every request.
\<close>

theorem encounter_refines_notebook:
  assumes "encounters_ok db" and "healthy db"
    and "serve_encounter (encounterStorage tsquery) valid (u, req) db = (resp, db')"
  shows "(\<exists>ks. serve_encounter (notebook (accepts_encounter db) (found_by tsquery) ks) valid (u, req)
      (visible_encounters db) = (resp, visible_encounters db')) \<and> encounters_ok db' \<and> healthy db'"
  using esu.serve_refines [OF assms] by blast

theorem encounter_refines_notebook_witness:
  "\<exists>ks. serve_encounter (notebook (accepts_encounter (demo_db [])) (found_by (\<lambda>_. None)) ks) (\<lambda>_. True)
      (Some (demo_user 1), ReqRemove (Some ''id1'')) (visible_encounters (demo_db [])) =
    (fst (serve_encounter (encounterStorage (\<lambda>_. None)) (\<lambda>_. True)
       (Some (demo_user 1), ReqRemove (Some ''id1'')) (demo_db [])), [])"
proof -
  let ?s = "serve_encounter (encounterStorage (\<lambda>_. None)) (\<lambda>_. True)
       (Some (demo_user 1), ReqRemove (Some ''id1'')) (demo_db [])"
  have ok: "encounters_ok (demo_db [])" "healthy (demo_db [])"
    by (simp_all add: encounters_ok_def demo_db_def healthy_def)
  have "visible_encounters (snd ?s) = []"
    by (simp add: h_RemoveEncounter_def no_id_def uc_RemoveEncounter_def sto_CheckPermission_def
        query_row_def round_trip_def CheckPermissionQuery_def sto_RemoveEncounter_def tx_unit_def
        transaction_def exec_def DeleteEncounterQuery_def demo_db_def demo_user_def
        visible_encounters_def update_where_def)
  with encounter_refines_notebook [OF ok, of "\<lambda>_. None" "\<lambda>_. True" "Some (demo_user 1)"
      "ReqRemove (Some ''id1'')" "fst ?s" "snd ?s"] show ?thesis by simp
qed

text \<open>
  The check on a new encounter's name is safe for the database: for a registered user, a
  fresh id and present data, a healthy database takes every encounter whose name passes the
  check and has no NUL byte. The check counts bytes where the table counts characters, so it
  also refuses names the table would take.
\<close>

theorem encounter_name_check:
  assumes "healthy db" and "userID user \<in> (userID \<circ> row_user) ` set (users db)"
    and "new_id \<notin> enc_uuid ` set (encounters db)" and "req_Data enc \<noteq> None" and "pg_text (req_Name enc)"
  shows "fst (serve_encounter (encounterStorage tsquery) valid (Some user, ReqSave (Some enc) new_id) db) =
    (if 1 \<le> length (req_Name enc) \<and> length (req_Name enc) \<le> 60 then Return (StatusOk, NullBody)
     else Return (StatusBadRequest, ErrBody ErrWrongEncounterName))"
proof (cases "req_Name enc = [] \<or> 60 < length (req_Name enc)")
  case True
  then show ?thesis by (auto simp: h_SaveEncounter_def uc_SaveEncounter_def)
next
  case False
  then have "accepts_encounter db enc new_id (userID user)"
    using assms char_length_le [of "req_Name enc"] by (auto simp: accepts_encounter_def)
  moreover obtain r db' where r: "sto_SaveEncounter enc new_id (userID user) db = (r, db')" by fastforce
  ultimately have "r = Inr ()" using sto_save_healthy [OF r assms(1)] by simp
  with False r show ?thesis
    by (cases "req_Name enc") (auto simp: h_SaveEncounter_def uc_SaveEncounter_def)
qed

theorem encounter_name_check_witness:
  "fst (serve_encounter (encounterStorage (\<lambda>_. None)) (\<lambda>_. True)
      (Some (demo_user 1), ReqSave (Some \<lparr>req_Name = ''keep'', req_Data = Some ''{}''\<rparr>) ''id2'') (demo_db [])) =
    Return (StatusOk, NullBody)"
  by (subst encounter_name_check)
    (simp_all add: demo_db_def demo_user_def healthy_def pg_text_def)

text \<open>
  C12. An update is stored unchecked, whatever its bytes are. When they are not JSON, the
  owner's next get of the encounter still answers 200, with the text of the error instead
  of an encounter.
\<close>

theorem encounter_unchecked_update:
  assumes "encounters_ok db" and "healthy db" and "eid \<noteq> []"
    and "\<exists>e \<in> set (visible_encounters db). UUID e = eid \<and> UserID e = userID user"
    and "\<not> valid dat"
    and "serve_encounter (encounterStorage tsquery) valid (Some user, ReqUpdate (Some eid) (Some dat)) db =
      (resp, db')"
  shows "resp = Return (StatusOk, NullBody) \<and>
    fst (serve_encounter (encounterStorage tsquery) valid (Some user, ReqGet (Some eid)) db') =
      Return (StatusOk, TextBody ErrInternalServer)"
proof -
  let ?nb = "\<lambda>db. notebook (accepts_encounter db) (found_by tsquery) []"
  let ?up = "update_where (\<lambda>e. UUID e = eid) (\<lambda>e. e\<lparr>Data := dat\<rparr>)"
  from encounter_refines_notebook_step [OF assms(1,2,6) not_listing(2)]
  have u: "serve_encounter (?nb db) valid (Some user, ReqUpdate (Some eid) (Some dat))
      (visible_encounters db) = (resp, visible_encounters db')" and ok: "encounters_ok db'" "healthy db'"
    by blast+
  have v: "resp = Return (StatusOk, NullBody)" "visible_encounters db' = ?up (visible_encounters db)"
    using u assms(3,4)
    by (auto simp: h_UpdateEncounter_def no_id_def uc_UpdateEncounter_def notebook_def split: if_splits)
  obtain e where e: "find (\<lambda>e. UUID e = eid) (visible_encounters db) = Some e"
    using assms(4) by (cases "find (\<lambda>e. UUID e = eid) (visible_encounters db)") (auto simp: find_None_iff)
  obtain g db'' where g: "serve_encounter (encounterStorage tsquery) valid
      (Some user, ReqGet (Some eid)) db' = (g, db'')" by fastforce
  have "find (\<lambda>e. UUID e = eid) (?up (visible_encounters db)) = Some (e\<lparr>Data := dat\<rparr>)"
    using e find_SomeD [OF e] by (simp add: find_update_where)
  moreover have "\<exists>e \<in> set (?up (visible_encounters db)). UUID e = eid \<and> UserID e = userID user"
  proof -
    from assms(4) obtain e0 where "e0 \<in> set (visible_encounters db)" "UUID e0 = eid"
      "UserID e0 = userID user" by blast
    then show ?thesis by (intro bexI [of _ "e0\<lparr>Data := dat\<rparr>"]) (auto simp: image_iff intro!: bexI [of _ e0])
  qed
  ultimately have "g = Return (StatusOk, TextBody ErrInternalServer)"
    using encounter_refines_notebook_step [OF ok g not_listing(1)] assms(3,5) unfolding v(2)
    by (auto simp: h_GetEncounterByID_def no_id_def uc_GetEncounterByID_def notebook_def
        SendOkResponse_def sendResponse_def split: if_splits)
  with v(1) g show ?thesis by simp
qed

theorem encounter_unchecked_update_witness:
  "fst (serve_encounter (encounterStorage (\<lambda>_. None)) (\<lambda>s. s = ''{}'') (Some (demo_user 1), ReqGet (Some ''id1''))
     (snd (serve_encounter (encounterStorage (\<lambda>_. None)) (\<lambda>s. s = ''{}'')
       (Some (demo_user 1), ReqUpdate (Some ''id1'') (Some ''{'')) (demo_db [])))) =
   Return (StatusOk, TextBody ErrInternalServer)"
proof -
  obtain resp db' where s: "serve_encounter (encounterStorage (\<lambda>_. None)) (\<lambda>s. s = ''{}'')
       (Some (demo_user 1), ReqUpdate (Some ''id1'') (Some ''{'')) (demo_db []) = (resp, db')" by fastforce
  have "encounters_ok (demo_db [])" "healthy (demo_db [])" "''id1'' \<noteq> []"
    "\<exists>e \<in> set (visible_encounters (demo_db [])). UUID e = ''id1'' \<and> UserID e = userID (demo_user 1)"
    "\<not> ''{'' = ''{}''"
    by (simp_all add: encounters_ok_def healthy_def demo_db_def demo_user_def visible_encounters_def
        row_encounter_def)
  from encounter_unchecked_update [OF this s] show ?thesis by (simp only: s snd_conv)
qed

text \<open>
  A search text that \<open>to_tsquery\<close> rejects is answered like a search without a match:
  200 and an empty list, because the error shows only in \<open>rows.Err\<close>, which is not looked at.
\<close>

theorem encounter_search_error_hidden:
  assumes "healthy db" and "tsquery (Value (req_Search q) @ '':*'') = None"
    and "Value (req_Search q) \<noteq> []" and "0 \<le> req_Start q" and "0 < req_Size q"
  shows "fst (serve_encounter (encounterStorage tsquery) valid (Some user, ReqList (Some q)) db) =
    Return (StatusOk, OkBody (BodyList (Some [])))"
proof -
  obtain l db' where l: "sto_GetEncountersListWithSearch tsquery (req_Size q) (req_Start q)
      (userID user) (req_Search q) db = (l, db')" by fastforce
  from sto_search [OF l] assms(1,2) have "l = Inr (Some [])"
    by (simp add: found_by_def limit_offset_def)
  with l assms(3-5) show ?thesis
    by (simp add: h_GetEncountersList_def uc_GetEncountersList_def bad_page_def)
qed

theorem encounter_search_error_hidden_witness:
  "fst (serve_encounter (encounterStorage (\<lambda>s. if CHR '' '' \<in> set s then None else Some (\<lambda>_. True)))
      (\<lambda>_. True) (Some (demo_user 1), ReqList (Some \<lparr>req_Start = 0, req_Size = 10,
        req_Search = \<lparr>Value = ''dark cave'', Exact = False\<rparr>\<rparr>)) (demo_db [])) =
    Return (StatusOk, OkBody (BodyList (Some [])))"
  by (rule encounter_search_error_hidden) (simp_all add: healthy_def demo_db_def)

end
