(* ===== verification/TableRun.thy ===== *)
theory TableRun
  imports Table EncounterStorage
begin

text \<open>
  The table under every interleaving of its goroutines: the invariant of the sessions, what a
  held lock does, and complete runs of a message and of a fired timer.
\<close>

section \<open>The invariant\<close>

fun pc_ptr :: "conn_pc \<Rightarrow> nat option" where
  "pc_ptr Lookup = None"
| "pc_ptr (Check p) = Some p"
| "pc_ptr (WhoIsAdmin p) = Some p"
| "pc_ptr (AddingAdmin p) = Some p"
| "pc_ptr (AddingPlayer p) = Some p"
| "pc_ptr (SendingInfo p) = Some p"
| "pc_ptr (Refreshing p) = Some p"
| "pc_ptr (FirstMsg p) = Some p"
| "pc_ptr (Reading p) = Some p"
| "pc_ptr (GotMsg p _) = Some p"
| "pc_ptr (Sending p _) = Some p"
| "pc_ptr (Leaving p _) = Some p"
| "pc_ptr (Removing p _) = Some p"
| "pc_ptr (RemovedInfo p _) = Some p"
| "pc_ptr Finished = None"

definition heap_ok :: "session list \<Rightarrow> bool" where
  "heap_ok h \<longleftrightarrow> (\<forall>s \<in> set h. session_ok s)"

definition pc_ok :: "session list \<Rightarrow> user \<Rightarrow> conn_pc \<Rightarrow> bool" where
  "pc_ok h u pc \<longleftrightarrow> (\<forall>p. pc_ptr pc = Some p \<longrightarrow>
     p < length h \<and> (pc = AddingAdmin p \<longrightarrow> userID u = adminID (h ! p)))"

definition table_ok :: "'d table_state \<Rightarrow> bool" where
  "table_ok st \<longleftrightarrow> heap_ok (heap st) \<and>
     (\<forall>(sid, p) \<in> set (tm_sessions st). p < length (heap st)) \<and>
     (\<forall>th \<in> set (conn_threads st). pc_ok (heap st) (th_user th) (th_pc th))"

text \<open>Sessions are never removed from the heap and keep their admin.\<close>

definition grows :: "session list \<Rightarrow> session list \<Rightarrow> bool" where
  "grows h h' \<longleftrightarrow> length h \<le> length h' \<and> (\<forall>p < length h. adminID (h' ! p) = adminID (h ! p))"

lemma grows_refl [simp]: "grows h h"
  by (simp add: grows_def)

lemma pc_ok_grows: "pc_ok h u pc \<Longrightarrow> grows h h' \<Longrightarrow> pc_ok h' u pc"
  by (auto simp: pc_ok_def grows_def)

lemma heap_set:
  assumes "heap_ok h" and "\<And>s. s \<in> set h \<Longrightarrow> s = h ! p \<Longrightarrow> session_ok s' \<and> adminID s' = adminID s"
  shows "heap_ok (h[p := s']) \<and> grows h (h[p := s'])"
proof (cases "p < length h")
  case True
  then have "session_ok s' \<and> adminID s' = adminID (h ! p)" using assms(2) nth_mem by blast
  with assms(1) set_update_subset_insert [of h p s'] True show ?thesis
    by (auto simp: heap_ok_def grows_def nth_list_update)
next
  case False
  with assms(1) show ?thesis by (simp add: list_update_beyond)
qed

lemma section_adminID:
  "adminID (fst (sendParticipantsInfo w uid status s n)) = adminID s"
  "adminID (snd (AddParticipant uid name c s)) = adminID s"
  "adminID (AddAdmin uid name c s) = adminID s"
  "adminID (fst (snd (RemoveParticipant uid s n))) = adminID s"
  "adminID (fst (run_turn w msg s n)) = adminID s"
  by (auto simp: sendParticipantsInfo_def AddParticipant_def AddAdmin_def RemoveParticipant_def
      run_turn_def Let_def split: prod.splits option.splits sum.splits)

lemma WriteFirstMsg_adminID: "WriteFirstMsg w uid s n = Some sn \<Longrightarrow> adminID (fst sn) = adminID s"
  by (auto simp: WriteFirstMsg_def split: option.splits prod.splits bool.splits)

lemma section_ok:
  assumes "session_ok s"
  shows "session_ok (fst (sendParticipantsInfo w uid status s n))"
    "session_ok (snd (AddParticipant uid name c s))"
    "session_ok (fst (snd (RemoveParticipant uid s n)))"
    "session_ok (fst (run_turn w msg s n))"
  using sendParticipantsInfo_ok [OF assms, of w uid status n] AddParticipant_ok [OF assms, of uid name c]
    RemoveParticipant_ok [OF assms, of uid n] run_turn_ok [OF assms, of w msg n]
  by (metis prod.collapse)+

lemma session_ok_runner [simp]: "session_ok (s\<lparr>runner := r\<rparr>) = session_ok s"
  by (simp add: session_ok_def)

text \<open>What a step leaves alone apart from the session it works on.\<close>

definition rest_kept :: "'d table_state \<Rightarrow> 'd table_state \<Rightarrow> bool" where
  "rest_kept st st' \<longleftrightarrow> conn_threads st' = conn_threads st \<and> timer_threads st' = timer_threads st \<and>
     tm_sessions st' = tm_sessions st"

lemma refreshSession_Some:
  "refreshSession sid st = Some st' \<Longrightarrow> heap st' = heap st \<and> rest_kept st st' \<and> network st' = network st"
  by (auto simp: refreshSession_def rest_kept_def split: option.splits)

lemma conn_step_ok:
  assumes "conn_step w th pc st = Some (pc', st')" and "heap_ok (heap st)"
    and "pc_ok (heap st) (th_user th) pc" and "\<forall>(sid, p) \<in> set (tm_sessions st). p < length (heap st)"
  shows "heap_ok (heap st') \<and> grows (heap st) (heap st') \<and> pc_ok (heap st') (th_user th) pc' \<and>
     rest_kept st st'"
proof -
  have set: "heap_ok ((heap st)[p := s']) \<and> grows (heap st) ((heap st)[p := s'])"
    if "\<And>s. session_ok s \<Longrightarrow> s = heap st ! p \<Longrightarrow> session_ok s' \<and> adminID s' = adminID s" for p s'
    using heap_set [OF assms(2)] that assms(2) unfolding heap_ok_def by blast
  have pc: "pc_ok h' (th_user th) pc'"
    if "pc_ptr pc' = pc_ptr pc \<or> pc_ptr pc' = None" "grows (heap st) h'" "\<And>p. pc' \<noteq> AddingAdmin p" for h'
    using that assms(3) by (auto simp: pc_ok_def grows_def)
  show ?thesis
  proof (cases pc)
    case Lookup
    with assms(1,2,4) show ?thesis
      by (auto simp: refuse_def rest_kept_def pc_ok_def split: option.splits dest!: map_of_SomeD)
  next
    case (Check p)
    with assms show ?thesis
      by (auto simp: refuse_def rest_kept_def pc_ok_def split: if_splits)
  next
    case (WhoIsAdmin p)
    with assms show ?thesis by (auto simp: rest_kept_def pc_ok_def split: if_splits)
  next
    case (AddingAdmin p)
    with assms(1) have s: "pc' = SendingInfo p"
      "st' = upd_session p (AddAdmin (userID (th_user th)) (DisplayName (th_user th)) (th_conn th)) st"
      by (auto split: if_splits)
    have "userID (th_user th) = adminID (heap st ! p)" using assms(3) AddingAdmin by (simp add: pc_ok_def)
    with set [of p "AddAdmin (userID (th_user th)) (DisplayName (th_user th)) (th_conn th) (heap st ! p)"]
      AddAdmin_ok section_adminID(3) pc [of "heap st'"] s AddingAdmin
    show ?thesis by (simp add: upd_session_def rest_kept_def)
  next
    case (AddingPlayer p)
    let ?a = "AddParticipant (userID (th_user th)) (DisplayName (th_user th)) (th_conn th) (heap st ! p)"
    from assms(1) AddingPlayer have s: "pc' = SendingInfo p \<or> pc' = Finished"
      "heap st' = (heap st)[p := snd ?a]" "rest_kept st st'"
      by (auto simp: upd_session_def refuse_def rest_kept_def split: if_splits prod.splits sum.splits)
    with set [of p "snd ?a"] section_ok(2) section_adminID(2) pc [of "heap st'"] AddingPlayer
    show ?thesis by auto
  next
    case (SendingInfo p)
    let ?a = "sendParticipantsInfo w (userID (th_user th)) Connected (heap st ! p) (network st)"
    from assms(1) SendingInfo have s: "pc' = Refreshing p" "heap st' = (heap st)[p := fst ?a]" "rest_kept st st'"
      by (auto simp: put_session_def rest_kept_def split: if_splits)
    with set [of p "fst ?a"] section_ok(1) section_adminID(1) pc [of "heap st'"] SendingInfo
    show ?thesis by auto
  next
    case (Refreshing p)
    with assms(1) have "heap st' = heap st \<and> rest_kept st st' \<and> (pc' = Finished \<or> pc' = FirstMsg p)"
      by (auto simp: rest_kept_def split: option.splits dest: refreshSession_Some)
    with assms(2) pc [of "heap st"] Refreshing show ?thesis by auto
  next
    case (FirstMsg p)
    show ?thesis
    proof (cases "WriteFirstMsg w (userID (th_user th)) (heap st ! p) (network st)")
      case None
      with assms(1) FirstMsg have "pc' = Finished" "st' = st" by (auto split: if_splits)
      with assms(2) show ?thesis by (simp add: rest_kept_def pc_ok_def)
    next
      case (Some sn)
      with assms(1) FirstMsg have s: "pc' = Reading p" "heap st' = (heap st)[p := fst sn]" "rest_kept st st'"
        by (auto simp: put_session_def rest_kept_def split: if_splits)
      with set [of p "fst sn"] WriteFirstMsg_ok [of "heap st ! p"] WriteFirstMsg_adminID [OF Some] Some
        pc [of "heap st'"] FirstMsg
      show ?thesis by (metis conn_pc.distinct(151) pc_ptr.simps(8,9) prod.collapse conn_pc.simps)
    qed
  next
    case (Reading p)
    with assms(1) show ?thesis by simp
  next
    case (GotMsg p msg)
    with assms(1) have "heap st' = heap st \<and> rest_kept st st' \<and> (pc' = Leaving p True \<or> pc' = Sending p msg)"
      by (auto simp: rest_kept_def split: option.splits dest: refreshSession_Some)
    with assms(2) pc [of "heap st"] GotMsg show ?thesis by auto
  next
    case (Sending p msg)
    with assms(1) have s: "pc' = Reading p" "heap st' = (heap st)[p := (heap st ! p)\<lparr>runner := Got msg\<rparr>]"
      "rest_kept st st'"
      by (auto simp: upd_session_def rest_kept_def split: if_splits)
    with set [of p "(heap st ! p)\<lparr>runner := Got msg\<rparr>"] pc [of "heap st'"] Sending show ?thesis by simp
  next
    case (Leaving p b)
    with assms(1) have "heap st' = heap st \<and> rest_kept st st' \<and> (pc' = Finished \<or> pc' = Removing p b)"
      by (auto simp: rest_kept_def finish_def split: if_splits)
    with assms(2) pc [of "heap st"] Leaving show ?thesis by auto
  next
    case (Removing p b)
    let ?a = "RemoveParticipant (userID (th_user th)) (heap st ! p) (network st)"
    from assms(1) Removing have s: "pc' = RemovedInfo p b \<or> pc' = Finished"
      "heap st' = (heap st)[p := fst (snd ?a)]" "rest_kept st st'"
      by (auto simp: put_session_def finish_def rest_kept_def split: if_splits prod.splits bool.splits)
    with set [of p "fst (snd ?a)"] section_ok(3) section_adminID(4) pc [of "heap st'"] Removing
    show ?thesis by auto
  next
    case (RemovedInfo p b)
    let ?a = "sendParticipantsInfo w (userID (th_user th)) Disconnected (heap st ! p) (network st)"
    from assms(1) RemovedInfo have s: "pc' = Finished" "heap st' = (heap st)[p := fst ?a]" "rest_kept st st'"
      by (auto simp: put_session_def finish_def rest_kept_def split: if_splits)
    with set [of p "fst ?a"] section_ok(1) section_adminID(1) pc [of "heap st'"] RemovedInfo
    show ?thesis by auto
  next
    case Finished
    with assms(1) show ?thesis by simp
  qed
qed

lemma timer_step_ok:
  assumes "timer_step w repo ti pc st = Some (pc', st')" and "heap_ok (heap st)"
  shows "heap_ok (heap st') \<and> grows (heap st) (heap st') \<and> conn_threads st' = conn_threads st \<and>
     set (tm_sessions st') \<subseteq> set (tm_sessions st)"
proof -
  have set: "heap_ok ((heap st)[p := s']) \<and> grows (heap st) ((heap st)[p := s'])"
    if "\<And>s. session_ok s \<Longrightarrow> s = heap st ! p \<Longrightarrow> session_ok s' \<and> adminID s' = adminID s" for p s'
    using heap_set [OF assms(2)] that assms(2) unfolding heap_ok_def by blast
  show ?thesis
  proof (cases pc)
    case (TRemove p k ks)
    let ?a = "RemoveParticipant k (heap st ! p) (network st)"
    from assms(1) TRemove have "heap st' = (heap st)[p := fst (snd ?a)]" "tm_sessions st' = tm_sessions st"
      "conn_threads st' = conn_threads st"
      by (auto simp: put_session_def split: if_splits prod.splits bool.splits)
    with set [of p "fst (snd ?a)"] section_ok(3) section_adminID(4) show ?thesis by auto
  next
    case (TInfo p k ks)
    let ?a = "sendParticipantsInfo w k Disconnected (heap st ! p) (network st)"
    from assms(1) TInfo have "heap st' = (heap st)[p := fst ?a]" "tm_sessions st' = tm_sessions st"
      "conn_threads st' = conn_threads st"
      by (auto simp: put_session_def split: if_splits)
    with set [of p "fst ?a"] section_ok(1) section_adminID(1) show ?thesis by auto
  next
    case TDelete
    with assms show ?thesis by (auto simp: AList.delete_eq)
  qed (use assms in \<open>auto split: go.splits sum.splits option.splits list.splits if_splits\<close>)
qed

lemma run_step_ok:
  assumes "run_step w p st = Some st'" and "heap_ok (heap st)"
  shows "heap_ok (heap st') \<and> grows (heap st) (heap st') \<and> rest_kept st st'"
proof -
  from assms(1) obtain msg where
    s: "heap st' = (heap st)[p := fst (run_turn w msg (heap st ! p) (network st))]" "rest_kept st st'"
    by (auto simp: run_step_def put_session_def rest_kept_def split: runner.splits if_splits)
  have "session_ok s \<Longrightarrow> session_ok (fst (run_turn w msg s (network st)))" for s by (rule section_ok(4))
  with heap_set [OF assms(2), of p "fst (run_turn w msg (heap st ! p) (network st))"] assms(2)
    section_adminID(5) s show ?thesis unfolding heap_ok_def by auto
qed

lemma create_ok:
  assumes "table_ok st"
  shows "table_ok (snd (uc_CreateSession repo admin eid sid st))"
proof -
  have new: "session_ok \<lparr>encounterID = a, encounterName = b, encounterData = c, adminID = d, adminName = e,
      participants = [], playersNum = 0, mu = False, runner = Idle\<rparr>" for a b c d e
    by (simp add: session_ok_def players_def maxPlayersNum_def)
  have g: "grows (heap st) (heap st @ [s])" for s by (simp add: grows_def nth_append)
  have upd: "set (AList.update k v xs) \<subseteq> insert (k, v) (set xs)" for k and v :: nat and xs
    by (induction xs) auto
  have tm: "\<forall>(s, p) \<in> set (AList.update sid (length h) xs). p < Suc (length h)"
    if "\<forall>(s, p) \<in> set xs. p < length h" for xs :: "(string \<times> nat) list" and h :: "session list"
    using upd [of sid "length h" xs] that by fastforce
  show ?thesis
    using assms tm [of "tm_sessions st" "heap st"] new pc_ok_grows [OF _ g]
    by (auto simp: uc_CreateSession_def tm_CreateSession_def table_ok_def heap_ok_def Let_def
        split: prod.splits sum.splits)
qed

lemma table_ok_heap:
  assumes "table_ok st" and "heap_ok (heap st')" "grows (heap st) (heap st')"
    and "set (tm_sessions st') \<subseteq> set (tm_sessions st)"
    and "\<And>th. th \<in> set (conn_threads st') \<Longrightarrow>
      th \<in> set (conn_threads st) \<or> pc_ok (heap st') (th_user th) (th_pc th)"
  shows "table_ok st'"
proof -
  have "p < length (heap st')" if "(sid, p) \<in> set (tm_sessions st')" for sid p
    using assms(1,3,4) that unfolding table_ok_def grows_def by fastforce
  moreover have "pc_ok (heap st') (th_user th) (th_pc th)" if "th \<in> set (conn_threads st')" for th
    using assms(5) [OF that] assms(1,3) pc_ok_grows unfolding table_ok_def by blast
  ultimately show ?thesis using assms(2) by (auto simp: table_ok_def)
qed

lemma in_list_updateD: "x \<in> set (xs[i := y]) \<Longrightarrow> x \<in> set xs \<or> x = y"
  using set_update_subset_insert by fast

lemma set_pc_ok:
  assumes "table_ok st" and "i < length (conn_threads st)"
    and "pc_ok (heap st) (th_user (conn_threads st ! i)) pc"
  shows "table_ok (st\<lparr>conn_threads := (conn_threads st)[i := (conn_threads st ! i)\<lparr>th_pc := pc\<rparr>]\<rparr>)"
  by (rule table_ok_heap [OF assms(1)])
    (use assms in \<open>auto simp: table_ok_def dest!: in_list_updateD\<close>)

lemma table_next_ok:
  assumes "table_ok st" and "table_next w repo ev st = Some st'"
  shows "table_ok st'"
proof (cases ev)
  case (Create admin eid sid)
  with assms create_ok show ?thesis by auto
next
  case (Connect u sid)
  with assms show ?thesis by (auto simp: table_ok_def pc_ok_def)
next
  case (ConnStep i)
  let ?th = "conn_threads st ! i"
  from assms(2) ConnStep obtain pc st1 where i: "i < length (conn_threads st)"
    and c: "conn_step w ?th (th_pc ?th) st = Some (pc, st1)"
    and st': "st' = st1\<lparr>conn_threads := (conn_threads st1)[i := (conn_threads st1 ! i)\<lparr>th_pc := pc\<rparr>]\<rparr>"
    by (auto split: if_splits option.splits)
  have o: "heap_ok (heap st)" "pc_ok (heap st) (th_user ?th) (th_pc ?th)"
    "\<forall>(sid, p) \<in> set (tm_sessions st). p < length (heap st)"
    using assms(1) i by (auto simp: table_ok_def)
  note k = conn_step_ok [OF c o]
  then have "table_ok st1" by (intro table_ok_heap [OF assms(1)]) (auto simp: rest_kept_def)
  with k i st' set_pc_ok [of st1 i pc] show ?thesis by (simp add: rest_kept_def)
next
  case (Arrives i msg)
  with assms(2) obtain p where i: "i < length (conn_threads st)" "th_pc (conn_threads st ! i) = Reading p"
    and st': "st' = st\<lparr>conn_threads := (conn_threads st)[i := (conn_threads st ! i)\<lparr>th_pc := GotMsg p msg\<rparr>]\<rparr>"
    by (auto split: if_splits conn_pc.splits)
  have "pc_ok (heap st) (th_user (conn_threads st ! i)) (Reading p)"
    using assms(1) nth_mem [OF i(1)] i(2) unfolding table_ok_def by metis
  then show ?thesis unfolding st' by (intro set_pc_ok [OF assms(1) i(1)]) (simp add: pc_ok_def)
next
  case (ReadFails i)
  with assms(2) obtain p where i: "i < length (conn_threads st)" "th_pc (conn_threads st ! i) = Reading p"
    and st': "st' = st\<lparr>conn_threads := (conn_threads st)[i := (conn_threads st ! i)\<lparr>th_pc := Leaving p False\<rparr>]\<rparr>"
    by (auto split: if_splits conn_pc.splits)
  have "pc_ok (heap st) (th_user (conn_threads st ! i)) (Reading p)"
    using assms(1) nth_mem [OF i(1)] i(2) unfolding table_ok_def by metis
  then show ?thesis unfolding st' by (intro set_pc_ok [OF assms(1) i(1)]) (simp add: pc_ok_def)
next
  case (Breaks c)
  with assms show ?thesis by (auto simp: table_ok_def)
next
  case (RunStep p)
  with assms(2) have "run_step w p st = Some st'" by (auto split: if_splits)
  from run_step_ok [OF this] assms(1) show ?thesis
    by (intro table_ok_heap [OF assms(1)]) (auto simp: table_ok_def rest_kept_def)
next
  case (Fires sid)
  with assms(2) have "heap st' = heap st" "tm_sessions st' = tm_sessions st"
    "conn_threads st' = conn_threads st"
    by (auto split: option.splits bool.splits)
  with assms(1) show ?thesis by (simp add: table_ok_def)
next
  case (TimerStep i)
  let ?ti = "timer_threads st ! i"
  from assms(2) TimerStep obtain pc st1 where c: "timer_step w repo ?ti (ti_pc ?ti) st = Some (pc, st1)"
    and st': "st' = st1\<lparr>timer_threads := (timer_threads st1)[i := (timer_threads st1 ! i)\<lparr>ti_pc := pc\<rparr>]\<rparr>"
    by (auto split: if_splits option.splits)
  from timer_step_ok [OF c] assms(1) show ?thesis
    unfolding st' by (intro table_ok_heap [OF assms(1)]) (auto simp: table_ok_def)
qed

lemma table_init_ok: "table_ok (table_init d)"
  by (simp add: table_ok_def table_init_def heap_ok_def)

lemma table_reaches_ok:
  assumes "table_reaches w repo st st'" and "table_ok st"
  shows "table_ok st'"
  using assms by (induction rule: table_reaches.induct) (auto elim!: table_step.cases intro: table_next_ok)

lemma table_run_reaches:
  "table_run w repo evs st = Some st' \<Longrightarrow> table_reaches w repo st st'"
proof -
  have "table_run w repo evs st1 = Some st2 \<Longrightarrow> table_reaches w repo st st1 \<Longrightarrow> table_reaches w repo st st2"
    for st1 st2
  proof (induction evs arbitrary: st1)
    case (Cons ev evs)
    then obtain x where "\<not> crashed st1" "table_next w repo ev st1 = Some x" "table_run w repo evs x = Some st2"
      by (auto split: if_splits option.splits)
    moreover from this(1,2) have "table_step w repo st1 x" by (rule table_step.step)
    ultimately show ?case using Cons.IH Cons.prems(2) table_reaches.more by blast
  qed simp
  then show "table_run w repo evs st = Some st' \<Longrightarrow> table_reaches w repo st st'"
    using table_reaches.refl by blast
qed

section \<open>A lock nobody will release\<close>

definition frozen_since :: "nat \<Rightarrow> session \<Rightarrow> 'd table_state \<Rightarrow> bool" where
  "frozen_since p s st \<longleftrightarrow> p < length (heap st) \<and> mu s \<and>
     heap st ! p = s\<lparr>runner := runner (heap st ! p)\<rparr>"

lemma frozen_mu: "frozen_since p s st \<Longrightarrow> mu (heap st ! p)"
  by (metis frozen_since_def session.select_convs(8) session.surjective session.update_convs(9))

lemma frozen_fields:
  assumes "frozen_since p s st"
  shows "participants (heap st ! p) = participants s" "encounterData (heap st ! p) = encounterData s"
proof -
  obtain r where "heap st ! p = s\<lparr>runner := r\<rparr>" using assms unfolding frozen_since_def by blast
  then show "participants (heap st ! p) = participants s" "encounterData (heap st ! p) = encounterData s"
    by simp_all
qed

lemma frozen_heap: "frozen_since p s st \<Longrightarrow> heap st' = heap st \<Longrightarrow> frozen_since p s st'"
  by (simp add: frozen_since_def)

lemma frozen_other: "frozen_since p s st \<Longrightarrow> q \<noteq> p \<Longrightarrow> heap st' = (heap st)[q := s'] \<Longrightarrow> frozen_since p s st'"
  by (simp add: frozen_since_def)

lemma conn_step_frozen:
  assumes "conn_step w th pc st = Some (pc', st')" and "frozen_since p s st"
  shows "frozen_since p s st'"
proof -
  have mu: "mu (heap st ! p)" using assms(2) by (rule frozen_mu)
  note other = frozen_other [OF assms(2)] and same = frozen_heap [OF assms(2)]
  show ?thesis
  proof (cases pc)
    case (Sending q msg)
    with assms(1) have "heap st' = (heap st)[q := (heap st ! q)\<lparr>runner := Got msg\<rparr>]"
      by (auto simp: upd_session_def split: if_splits)
    moreover have "(heap st ! p)\<lparr>runner := r\<rparr> = s\<lparr>runner := r\<rparr>" for r
      using assms(2) unfolding frozen_since_def by (metis session.update_convs(9) session.surjective)
    ultimately show ?thesis using assms(2)
      by (cases "q = p") (auto simp: frozen_since_def)
  next
    case (AddingAdmin q)
    with assms(1) mu show ?thesis by (intro other [of q]) (auto simp: upd_session_def split: if_splits)
  next
    case (AddingPlayer q)
    with assms(1) mu show ?thesis
      by (intro other [of q _ "snd (AddParticipant (userID (th_user th)) (DisplayName (th_user th))
            (th_conn th) (heap st ! q))"])
        (auto simp: upd_session_def refuse_def split: if_splits prod.splits sum.splits)
  next
    case (SendingInfo q)
    with assms(1) mu show ?thesis by (intro other [of q]) (auto simp: put_session_def split: if_splits)
  next
    case (FirstMsg q)
    with assms(1) have m: "\<not> mu (heap st ! q)" by (auto split: if_splits)
    show ?thesis
    proof (cases "WriteFirstMsg w (userID (th_user th)) (heap st ! q) (network st)")
      case None
      with assms(1) FirstMsg m show ?thesis by (intro same) auto
    next
      case (Some sn)
      with assms(1) FirstMsg mu m show ?thesis by (intro other [of q _ "fst sn"]) (auto simp: put_session_def)
    qed
  next
    case (Removing q b)
    with assms(1) mu show ?thesis
      by (intro other [of q _ "fst (snd (RemoveParticipant (userID (th_user th)) (heap st ! q) (network st)))"])
        (auto simp: put_session_def finish_def split: if_splits prod.splits bool.splits)
  next
    case (RemovedInfo q b)
    with assms(1) mu show ?thesis
      by (intro other [of q]) (auto simp: put_session_def finish_def split: if_splits)
  qed (use assms(1) in \<open>auto simp: refuse_def finish_def split: option.splits if_splits
      intro!: same dest: refreshSession_Some\<close>)
qed

lemma timer_step_frozen:
  assumes "timer_step w repo ti pc st = Some (pc', st')" and "frozen_since p s st"
  shows "frozen_since p s st'"
proof -
  have mu: "mu (heap st ! p)" using assms(2) by (rule frozen_mu)
  note other = frozen_other [OF assms(2)] and same = frozen_heap [OF assms(2)]
  show ?thesis
  proof (cases pc)
    case (TRemove q k ks)
    with assms(1) mu show ?thesis
      by (intro other [of q _ "fst (snd (RemoveParticipant k (heap st ! q) (network st)))"])
        (auto simp: put_session_def split: if_splits prod.splits bool.splits)
  next
    case (TInfo q k ks)
    with assms(1) mu show ?thesis by (intro other [of q]) (auto simp: put_session_def split: if_splits)
  qed (use assms(1) in \<open>auto split: go.splits sum.splits option.splits list.splits if_splits intro!: same\<close>)
qed

lemma table_next_frozen:
  assumes "table_next w repo ev st = Some st'" and "frozen_since p s st"
  shows "frozen_since p s st'"
proof (cases ev)
  case (Create admin eid sid)
  with assms show ?thesis
    by (auto simp: uc_CreateSession_def tm_CreateSession_def Let_def frozen_since_def nth_append
        split: prod.splits sum.splits)
next
  case (ConnStep i)
  with assms(1) obtain pc st1 where
    c: "conn_step w (conn_threads st ! i) (th_pc (conn_threads st ! i)) st = Some (pc, st1)"
    and h: "heap st' = heap st1" by (auto split: if_splits option.splits)
  from frozen_heap [OF conn_step_frozen [OF c assms(2)] h] show ?thesis .
next
  case (RunStep q)
  have mu: "mu (heap st ! p)" using assms(2) by (rule frozen_mu)
  from RunStep assms(1) have "q \<noteq> p" using mu by (auto simp: run_step_def split: if_splits runner.splits)
  moreover from RunStep assms(1) have "\<exists>s'. heap st' = (heap st)[q := s']"
    by (auto simp: run_step_def put_session_def split: if_splits runner.splits)
  ultimately show ?thesis using frozen_other [OF assms(2)] by blast
next
  case (TimerStep i)
  with assms(1) obtain pc st1 where
    c: "timer_step w repo (timer_threads st ! i) (ti_pc (timer_threads st ! i)) st = Some (pc, st1)"
    and h: "heap st' = heap st1" by (auto split: if_splits option.splits)
  from frozen_heap [OF timer_step_frozen [OF c assms(2)] h] show ?thesis .
qed (use assms(1) in \<open>auto split: if_splits conn_pc.splits option.splits bool.splits
    intro!: frozen_heap [OF assms(2)]\<close>)

lemma frozen_reaches:
  assumes "table_reaches w repo st st'" and "frozen_since p s st"
  shows "frozen_since p s st'"
  using assms by (induction rule: table_reaches.induct)
    (auto elim!: table_step.cases intro: table_next_frozen)

lemma frozen_reads_block:
  assumes "frozen_since p s st" and "map_of (tm_sessions st) sid = Some p"
  shows "tm_read get sid st = Block"
  using frozen_mu [OF assms(1)] assms(2) by (simp add: tm_read_def)

section \<open>A timer that is left alone\<close>

text \<open>\<open>n\<close> steps of a timer's goroutine with nothing else running.\<close>

fun timer_alone ::
    "wire \<Rightarrow> 'd encounter_repository \<Rightarrow> timer_thread \<Rightarrow> nat \<Rightarrow> timer_pc \<times> 'd table_state
     \<Rightarrow> (timer_pc \<times> 'd table_state) option" where
  "timer_alone w repo ti 0 x = Some x"
| "timer_alone w repo ti (Suc n) x =
     (case timer_step w repo ti (fst x) (snd x) of None \<Rightarrow> None | Some y \<Rightarrow> timer_alone w repo ti n y)"

lemma timer_alone_add:
  "timer_alone w repo ti m x = Some y \<Longrightarrow> timer_alone w repo ti n y = Some z \<Longrightarrow>
     timer_alone w repo ti (m + n) x = Some z"
  by (induction m arbitrary: x) (auto split: option.splits)

text \<open>Participants only leave, and whoever leaves has a closed connection.\<close>

definition only_leave :: "nat \<Rightarrow> 'd table_state \<Rightarrow> 'd table_state \<Rightarrow> bool" where
  "only_leave p st st' \<longleftrightarrow>
     store st' = store st \<and> watchers st' = watchers st \<and> tm_sessions st' = tm_sessions st \<and>
     crashed st' = crashed st \<and> length (heap st') = length (heap st) \<and>
     mu (heap st' ! p) = mu (heap st ! p) \<and>
     set (participants (heap st' ! p)) \<subseteq> set (participants (heap st ! p)) \<and>
     distinct (map fst (participants (heap st' ! p))) \<and>
     set (dead (network st)) \<subseteq> set (dead (network st')) \<and>
     (\<forall>x \<in> set (participants (heap st ! p)).
        x \<in> set (participants (heap st' ! p)) \<or> Conn (snd x) \<in> set (dead (network st')))"

lemma only_leave_refl: "distinct (map fst (participants (heap st ! p))) \<Longrightarrow> only_leave p st st"
  by (simp add: only_leave_def)

lemma only_leave_trans:
  assumes "only_leave p a b" and "only_leave p b c"
  shows "only_leave p a c"
  using assms unfolding only_leave_def by (auto dest: subsetD)

lemma sendParticipantsInfo_eq:
  "sendParticipantsInfo w uid status s n = (s', n') \<Longrightarrow>
     set (dead n') = set (dead n) \<and> s' = s\<lparr>participants := filter (reachable_seat n) (participants s)\<rparr> \<and>
     frames n' = frames n @ map (\<lambda>(k, p). (Conn p,
       ParticipantsInfo status uid (map (seated \<circ> snd) (participants s)))) (participants s')"
  by (auto simp: sendParticipantsInfo_def Let_def split: prod.splits dest!: send_all_eq)

lemma range_step:
  assumes "p < length (heap st)" and "\<not> mu (heap st ! p)"
    and d: "distinct (map fst (participants (heap st ! p)))"
  shows "\<exists>n st'. n \<le> 3 \<and> timer_alone w repo ti n (TRange p (k # ks), st) = Some (TRange p ks, st') \<and>
     only_leave p st st' \<and> k \<notin> fst ` set (participants (heap st' ! p))"
proof (cases "map_of (participants (heap st ! p)) k")
  case None
  then have "timer_alone w repo ti 1 (TRange p (k # ks), st) = Some (TRange p ks, st)"
    "k \<notin> fst ` set (participants (heap st ! p))"
    by (simp_all add: CheckUser_def map_of_eq_None_iff)
  then show ?thesis using only_leave_refl [OF d] by (intro exI [of _ 1]) auto
next
  case (Some q)
  let ?s1 = "(heap st ! p)\<lparr>playersNum := (if Role (seated q) \<noteq> Admin then playersNum (heap st ! p) - 1
        else playersNum (heap st ! p)), participants := AList.delete k (participants (heap st ! p))\<rparr>"
  let ?n1 = "close_conn (Conn q) (network st)"
  let ?st1 = "put_session p (?s1, ?n1) st"
  have r: "RemoveParticipant k (heap st ! p) (network st) = (True, ?s1, ?n1)"
    using Some by (simp add: RemoveParticipant_def)
  obtain s2 n2 where i: "sendParticipantsInfo w k Disconnected ?s1 ?n1 = (s2, n2)" by fastforce
  let ?st2 = "put_session p (s2, n2) ?st1"
  note e = sendParticipantsInfo_eq [OF i]
  have h1: "heap ?st1 ! p = ?s1" "network ?st1 = ?n1" using assms(1) by (simp_all add: put_session_def)
  have "timer_alone w repo ti 3 (TRange p (k # ks), st) = Some (TRange p ks, ?st2)"
    using Some assms r i by (simp add: numeral_3_eq_3 CheckUser_def h1)
  note steps = this
  have s2: "heap ?st2 ! p = s2" "network ?st2 = n2" using assms(1) by (simp_all add: put_session_def)
  have ps: "participants s2 = filter (reachable_seat ?n1) (AList.delete k (participants (heap st ! p)))"
    and n2: "set (dead n2) = insert (Conn q) (set (dead (network st)))"
    and m2: "mu s2 = mu (heap st ! p)"
    using e by (simp_all add: close_conn_def)
  have gone: "x \<in> set (participants s2) \<or> Conn (snd x) \<in> set (dead n2)"
    if "x \<in> set (participants (heap st ! p))" for x
  proof (cases "fst x = k")
    case True
    with that d Some have "snd x = q" by (metis map_of_is_SomeI option.inject prod.collapse)
    then show ?thesis by (simp add: n2)
  next
    case False
    with that show ?thesis by (auto simp: ps n2 AList.delete_eq reachable_seat_def close_conn_def)
  qed
  have "distinct (map fst (participants s2))"
    unfolding ps using d by (intro distinct_map_filter distinct_delete)
  moreover have "set (participants s2) \<subseteq> set (participants (heap st ! p))"
    unfolding ps by (auto simp: AList.delete_eq)
  ultimately have "only_leave p st ?st2"
    unfolding only_leave_def s2 using gone m2 n2 by (auto simp: put_session_def)
  moreover have "k \<notin> fst ` set (participants (heap ?st2 ! p))"
    unfolding s2 ps by (auto simp: AList.delete_eq)
  ultimately show ?thesis using steps by (intro exI [of _ 3]) auto
qed

lemma range_all:
  assumes "p < length (heap st)" and "\<not> mu (heap st ! p)"
    and "distinct (map fst (participants (heap st ! p)))"
  shows "\<exists>n st'. n \<le> 3 * length ks + 1 \<and> timer_alone w repo ti n (TRange p ks, st) = Some (TDelete, st') \<and>
     only_leave p st st' \<and> fst ` set (participants (heap st' ! p)) \<inter> set ks = {}"
  using assms
proof (induction ks arbitrary: st)
  case Nil
  then have "timer_alone w repo ti 1 (TRange p [], st) = Some (TDelete, st)" by simp
  with only_leave_refl [OF Nil.prems(3)] show ?case by (intro exI [of _ 1]) auto
next
  case (Cons k ks)
  from range_step [OF Cons.prems] obtain m st1 where m: "m \<le> 3" and 1:
    "timer_alone w repo ti m (TRange p (k # ks), st) = Some (TRange p ks, st1)"
    "only_leave p st st1" "k \<notin> fst ` set (participants (heap st1 ! p))" by blast
  then have "p < length (heap st1)" "\<not> mu (heap st1 ! p)" "distinct (map fst (participants (heap st1 ! p)))"
    using Cons.prems by (simp_all add: only_leave_def)
  from Cons.IH [OF this] obtain n st2 where n: "n \<le> 3 * length ks + 1" and 2:
    "timer_alone w repo ti n (TRange p ks, st1) = Some (TDelete, st2)"
    "only_leave p st1 st2" "fst ` set (participants (heap st2 ! p)) \<inter> set ks = {}" by blast
  moreover have "k \<notin> fst ` set (participants (heap st2 ! p))"
    using 1(3) 2(2) by (auto simp: only_leave_def)
  ultimately show ?case
    using timer_alone_add [OF 1(1) 2(1)] only_leave_trans [OF 1(2) 2(2)] m n
    by (intro exI [of _ "m + n"] exI [of _ st2]) auto
qed

section \<open>Properties\<close>

text \<open>
  C13. However the goroutines interleave, no session ever seats more than four players, nor
  more than five participants; no two seats have the same user, and only the user who
  created the session has the admin's role.
\<close>

theorem table_capacity:
  assumes "table_reaches w repo (table_init d) st" and "s \<in> set (heap st)"
  shows "int (length (players (participants s))) \<le> maxPlayersNum \<and> length (participants s) \<le> 5 \<and>
    distinct (map fst (participants s)) \<and>
    (\<forall>(k, q) \<in> set (participants s). ID (seated q) = k \<and> (Role (seated q) = Admin \<longrightarrow> k = adminID s))"
proof -
  have "session_ok s"
    using table_reaches_ok [OF assms(1) table_init_ok] assms(2) by (simp add: table_ok_def heap_ok_def)
  with session_ok_capacity [OF this] show ?thesis by (auto simp: session_ok_def maxPlayersNum_def)
qed

definition demo_wire :: wire where
  "demo_wire = \<lparr>wire_dec = (\<lambda>s. if s = ''{}'' then Some (JObj []) else None), wire_enc = (\<lambda>_. ''{}''),
     valid_json = (\<lambda>s. s = ''{}'')\<rparr>"

definition demo_repo :: "encounter list encounter_repository" where
  "demo_repo = notebook (\<lambda>_ _ _. True) (\<lambda>_ _. True) []"

definition demo_notes :: "encounter list" where
  "demo_notes = [\<lparr>UserID = 1, Name = ''cave'', Data = ''{}'', UUID = ''id1''\<rparr>]"

lemmas demo_run = table_init_def uc_CreateSession_def demo_repo_def demo_notes_def notebook_def
  tm_CreateSession_def upd_session_def put_session_def AddAdmin_def seat_of_def CheckUser_def
  sendParticipantsInfo_def SendWSOkResponse_def write_frame_def refreshSession_def demo_user_def

theorem table_capacity_witness:
  "\<exists>st s. table_reaches demo_wire demo_repo (table_init demo_notes) st \<and> heap st = [s] \<and>
     length (participants s) = 1 \<and> int (length (players (participants s))) \<le> maxPlayersNum"
proof -
  obtain st where st: "table_run demo_wire demo_repo
      [Create (demo_user 1) ''id1'' ''s'', Connect (demo_user 1) ''s'', ConnStep 0, ConnStep 0, ConnStep 0,
       ConnStep 0] (table_init demo_notes) = Some st" and h: "\<exists>s. heap st = [s] \<and> length (participants s) = 1"
    by (simp add: demo_run)
  from h obtain s where s: "heap st = [s]" "length (participants s) = 1" by blast
  from table_capacity [OF table_run_reaches [OF st], of s] s show ?thesis
    using table_run_reaches [OF st] by (intro exI [of _ st] exI [of _ s]) simp
qed

text \<open>
  C14. A fifth player brings the table to a halt. When a player tries to join a session that
  already counts four, the player is refused but the session's lock is never released:
  whatever happens afterwards, nobody joins or leaves, no message changes the encounter, and
  every later request for the table's data blocks.
\<close>

theorem full_table_freezes:
  assumes "i < length (conn_threads st)" and "th_pc (conn_threads st ! i) = AddingPlayer p"
    and "p < length (heap st)" and "playersNum (heap st ! p) = maxPlayersNum"
    and "table_next w repo (ConnStep i) st = Some st1" and "table_reaches w repo st1 st2"
  shows "participants (heap st2 ! p) = participants (heap st ! p) \<and>
    encounterData (heap st2 ! p) = encounterData (heap st ! p) \<and>
    (\<forall>sid. map_of (tm_sessions st2) sid = Some p \<longrightarrow>
       tm_GetTableData sid st2 = Block \<and> tm_GetEncounterData sid st2 = Block)"
proof -
  let ?s = "(heap st ! p)\<lparr>mu := True\<rparr>"
  have "frozen_since p ?s st1"
    using assms(1-5)
    by (auto simp: AddParticipant_def upd_session_def refuse_def frozen_since_def split: if_splits)
  note f = frozen_reaches [OF assms(6) this]
  with frozen_fields [OF f] show ?thesis
    by (simp add: tm_GetTableData_def tm_GetEncounterData_def frozen_reads_block [OF f])
qed

definition demo_session :: "int \<Rightarrow> runner \<Rightarrow> session" where
  "demo_session n r =
     \<lparr>encounterID = ''id1'', encounterName = ''cave'', encounterData = Some ''{}'', adminID = 1,
      adminName = ''u'', participants = [(2, seat_of 2 ''u'' Player 7)], playersNum = n, mu = False,
      runner = r\<rparr>"

definition demo_table :: "int \<Rightarrow> runner \<Rightarrow> conn_thread list \<Rightarrow> encounter list table_state" where
  "demo_table n r ths =
     \<lparr>tm_sessions = [(''s'', 0)], heap = [demo_session n r], network = \<lparr>dead = [], frames = []\<rparr>,
      watchers = [(''s'', ''id1'', True)], conn_threads = ths, timer_threads = [], store = demo_notes,
      crashed = False\<rparr>"

definition demo_thread :: "int \<Rightarrow> conn_pc \<Rightarrow> conn_thread" where
  "demo_thread i pc = \<lparr>th_user = demo_user i, th_session = ''s'', th_conn = 9, th_pc = pc\<rparr>"

theorem full_table_freezes_witness:
  "\<exists>st1. table_next demo_wire demo_repo (ConnStep 0) (demo_table 4 Idle [demo_thread 6 (AddingPlayer 0)]) =
      Some st1 \<and> tm_GetTableData ''s'' st1 = Block"
proof -
  let ?st = "demo_table 4 Idle [demo_thread 6 (AddingPlayer 0)]"
  obtain st1 where n: "table_next demo_wire demo_repo (ConnStep 0) ?st = Some st1"
    and t: "tm_sessions st1 = [(''s'', 0)]"
    by (simp add: demo_table_def demo_thread_def demo_session_def AddParticipant_def maxPlayersNum_def
        upd_session_def refuse_def)
  have "tm_GetTableData ''s'' st1 = Block"
    using full_table_freezes [OF _ _ _ _ n table_reaches.refl, of 0] t
    by (simp add: demo_table_def demo_thread_def demo_session_def maxPlayersNum_def)
  with n show ?thesis by blast
qed

text \<open>
  So does a message that does not merge: when the session's goroutine receives bytes that
  are not JSON or that conflict with the encounter, it ends with the lock held, the encounter's
  data is lost from the session, nobody can join or leave any more, and a timer that runs out
  later waits for ever instead of saving.
\<close>

theorem bad_message_freezes:
  assumes "p < length (heap st)" and "runner (heap st ! p) = Got msg"
    and "encounterData (heap st ! p) = Some dat" and "Merge (wire_dec w) (wire_enc w) dat msg = Inl e"
    and "table_next w repo (RunStep p) st = Some st1" and "table_reaches w repo st1 st2"
  shows "participants (heap st2 ! p) = participants (heap st ! p) \<and>
    encounterData (heap st2 ! p) = None \<and>
    (\<forall>sid. map_of (tm_sessions st2) sid = Some p \<longrightarrow> tm_GetTableData sid st2 = Block) \<and>
    (\<forall>ti. map_of (tm_sessions st2) (ti_session ti) = Some p \<longrightarrow>
       timer_step w repo ti TGetData st2 = None)"
proof -
  let ?s = "(heap st ! p)\<lparr>encounterData := None, mu := True, runner := Gone\<rparr>"
  have "frozen_since p ?s st1"
    using assms(1-5)
    by (auto simp: run_step_def run_turn_def put_session_def frozen_since_def split: if_splits)
  note f = frozen_reaches [OF assms(6) this]
  with frozen_fields [OF f] show ?thesis
    by (simp add: tm_GetTableData_def tm_GetEncounterData_def frozen_reads_block [OF f])
qed

theorem bad_message_freezes_witness:
  "\<exists>st1. table_next demo_wire demo_repo (RunStep 0) (demo_table 1 (Got ''{'') []) = Some st1 \<and>
      tm_GetTableData ''s'' st1 = Block"
proof -
  let ?st = "demo_table 1 (Got ''{'') []"
  have m: "Merge (wire_dec demo_wire) (wire_enc demo_wire) ''{}'' ''{'' = Inl BadPatch"
    by (simp add: Merge_def demo_wire_def)
  obtain st1 where n: "table_next demo_wire demo_repo (RunStep 0) ?st = Some st1"
    and t: "tm_sessions st1 = [(''s'', 0)]"
    by (simp add: demo_table_def demo_session_def run_step_def run_turn_def m put_session_def)
  have "tm_GetTableData ''s'' st1 = Block"
    using bad_message_freezes [OF _ _ _ m n table_reaches.refl] t
    by (simp add: demo_table_def demo_session_def)
  with n show ?thesis by blast
qed

text \<open>
  C15. A message that merges reaches everyone. When the session's goroutine takes a message,
  the encounter becomes the merge of the old one and the message, every participant whose
  connection works gets exactly that document and keeps the seat, the others lose theirs, the
  lock is free again and the goroutine waits for the next message; no other session changes.
\<close>

theorem message_reaches_everyone:
  assumes "p < length (heap st)" and "runner (heap st ! p) = Got msg" and "\<not> mu (heap st ! p)"
    and "encounterData (heap st ! p) = Some dat"
    and "Merge (wire_dec w) (wire_enc w) dat msg = Inr merged" and "valid_json w merged"
    and "table_next w repo (RunStep p) st = Some st'"
  shows "encounterData (heap st' ! p) = Some merged \<and>
    participants (heap st' ! p) = filter (reachable_seat (network st)) (participants (heap st ! p)) \<and>
    frames (network st') = frames (network st) @
      map (\<lambda>(k, q). (Conn q, BattleInfo (Some merged))) (participants (heap st' ! p)) \<and>
    \<not> mu (heap st' ! p) \<and> runner (heap st' ! p) = Idle \<and>
    (\<forall>q. q \<noteq> p \<longrightarrow> heap st' ! q = heap st ! q)"
proof -
  obtain ps n1 where ps: "send_all w (BattleInfo (Some merged)) (participants (heap st ! p)) (network st) =
      (ps, n1)" by fastforce
  note e = send_all_eq [OF ps]
  from assms ps have "st' = put_session p ((heap st ! p)\<lparr>encounterData := Some merged,
      participants := ps, runner := Idle\<rparr>, n1) st"
    by (auto simp: run_step_def run_turn_def split: if_splits)
  with e assms(1,3,6) show ?thesis by (simp add: put_session_def)
qed

theorem message_reaches_everyone_witness:
  "\<exists>st'. table_next demo_wire demo_repo (RunStep 0) (demo_table 1 (Got ''{}'') []) = Some st' \<and>
     frames (network st') = [(7, BattleInfo (Some ''{}''))]"
proof -
  let ?st = "demo_table 1 (Got ''{}'') []"
  have m: "Merge (wire_dec demo_wire) (wire_enc demo_wire) ''{}'' ''{}'' = Inr ''{}''"
    by (simp add: Merge_def demo_wire_def mergeObjects.simps)
  have v: "valid_json demo_wire ''{}''" by (simp add: demo_wire_def)
  obtain st' where n: "table_next demo_wire demo_repo (RunStep 0) ?st = Some st'"
    by (simp add: demo_table_def demo_session_def run_step_def run_turn_def m)
  from message_reaches_everyone [OF _ _ _ _ m v n]
  have "frames (network st') = [(7, BattleInfo (Some ''{}''))]"
    by (simp add: demo_table_def demo_session_def reachable_seat_def seat_of_def)
  with n show ?thesis by blast
qed

text \<open>
  C16. A timer that runs out and is left to itself, on a session whose lock is free, comes to
  its end within 21 steps. The session and its timer are gone then, every participant has left
  and has their connection closed. The encounter has the session's document if the database took
  it, which it does when it answers; otherwise it has what it had before and the document is lost,
  as the error is ignored. What happens when others run in between is the next property.
\<close>

theorem timer_saves_and_closes:
  assumes "map_of (tm_sessions st) (ti_session ti) = Some p" and "p < length (heap st)"
    and "session_ok (heap st ! p)" and "\<not> mu (heap st ! p)"
    and "encounterData (heap st ! p) = Some dat" and "map_of (watchers st) (ti_session ti) \<noteq> None"
    and "encounters_ok (store st)"
  shows "\<exists>n st' r. n \<le> 21 \<and>
    timer_alone w (encounterStorage tsquery) ti n (TGetData, st) = Some (TFinished, st') \<and>
    sto_UpdateEncounter dat (ti_encounter ti) (store st) = (r, store st') \<and>
    visible_encounters (store st') =
      (if r = Inr () then update_where (\<lambda>e. UUID e = ti_encounter ti) (\<lambda>e. e\<lparr>Data := dat\<rparr>) (visible_encounters (store st))
       else visible_encounters (store st)) \<and>
    (healthy (store st) \<longrightarrow> r = Inr ()) \<and>
    map_of (tm_sessions st') (ti_session ti) = None \<and> map_of (watchers st') (ti_session ti) = None \<and>
    participants (heap st' ! p) = [] \<and>
    (\<forall>(k, q) \<in> set (participants (heap st ! p)). Conn q \<in> set (dead (network st'))) \<and>
    crashed st' = crashed st"
proof -
  let ?sid = "ti_session ti" and ?ps = "participants (heap st ! p)" and ?repo = "encounterStorage tsquery"
  obtain r db where u: "sto_UpdateEncounter dat (ti_encounter ti) (store st) = (r, db)" by fastforce
  let ?st1 = "st\<lparr>watchers := AList.delete ?sid (watchers st), store := db\<rparr>"
  have 1: "timer_alone w ?repo ti 4 (TGetData, st) = Some (TRange p (map fst ?ps), ?st1)"
    using assms u by (auto simp: eval_nat_numeral tm_GetEncounterData_def tm_read_def)
  have "distinct (map fst (participants (heap ?st1 ! p)))" using assms(3) by (simp add: session_ok_def)
  moreover have "p < length (heap ?st1)" "\<not> mu (heap ?st1 ! p)" using assms(2,4) by simp_all
  ultimately obtain n st2 where n: "n \<le> 3 * length ?ps + 1"
    and 2: "timer_alone w ?repo ti n (TRange p (map fst ?ps), ?st1) = Some (TDelete, st2)"
    and l: "only_leave p ?st1 st2" and e: "fst ` set (participants (heap st2 ! p)) \<inter> set (map fst ?ps) = {}"
    using range_all [of p ?st1, where w = w and repo = ?repo and ti = ti and ks = "map fst ?ps"] by auto
  have "set (participants (heap st2 ! p)) \<subseteq> set ?ps" using l by (simp add: only_leave_def)
  then have "fst ` set (participants (heap st2 ! p)) \<subseteq> set (map fst ?ps)"
    unfolding set_map by (rule image_mono)
  with e have "fst ` set (participants (heap st2 ! p)) = {}" by (simp only: inf.absorb1)
  then have empty: "participants (heap st2 ! p) = []" by simp
  let ?st3 = "st2\<lparr>tm_sessions := AList.delete ?sid (tm_sessions st2)\<rparr>"
  have 3: "timer_alone w ?repo ti 1 (TDelete, st2) = Some (TFinished, ?st3)" by simp
  have "4 + n + 1 \<le> 21" using n session_ok_capacity(2) [OF assms(3)] by simp
  moreover have "store ?st3 = db" using l by (simp add: only_leave_def)
  ultimately show ?thesis
    using timer_alone_add [OF timer_alone_add [OF 1 2] 3] empty l u sto_update [OF u assms(7)]
    by (intro exI [of _ "4 + n + 1"] exI [of _ ?st3] exI [of _ r])
      (auto simp: only_leave_def delete_conv)
qed

definition demo_saving :: "outcome list \<Rightarrow> postgres table_state" where
  "demo_saving os = (table_init (demo_db os))\<lparr>tm_sessions := [(''s'', 0)], heap := [demo_session 1 Idle],
     watchers := [(''s'', ''id1'', False)]\<rparr>"

theorem timer_saves_and_closes_witness:
  "\<exists>n st'. n \<le> 21 \<and> timer_alone demo_wire (encounterStorage (\<lambda>_. None))
      \<lparr>ti_session = ''s'', ti_encounter = ''id1'', ti_pc = TGetData\<rparr> n
      (TGetData, demo_saving []) = Some (TFinished, st') \<and> participants (heap st' ! 0) = [] \<and>
    visible_encounters (store st') = [\<lparr>UserID = 1, Name = ''cave'', Data = ''{}'', UUID = ''id1''\<rparr>] \<and>
    7 \<in> set (dead (network st'))"
proof -
  let ?ti = "\<lparr>ti_session = ''s'', ti_encounter = ''id1'', ti_pc = TGetData\<rparr>" and ?st = "demo_saving []"
  have "map_of (tm_sessions ?st) (ti_session ?ti) = Some 0" "0 < length (heap ?st)" "session_ok (heap ?st ! 0)"
    "\<not> mu (heap ?st ! 0)" "encounterData (heap ?st ! 0) = Some ''{}''" "map_of (watchers ?st) (ti_session ?ti) \<noteq> None"
    "encounters_ok (store ?st)"
    by (simp_all add: demo_saving_def table_init_def demo_session_def session_ok_def players_def seat_of_def
        maxPlayersNum_def encounters_ok_def demo_db_def)
  from timer_saves_and_closes [OF this, of demo_wire "\<lambda>_. None"] show ?thesis
    by (auto simp: demo_saving_def table_init_def demo_session_def seat_of_def demo_db_def healthy_def
        visible_encounters_def update_where_def row_encounter_def)
qed

section \<open>A timer among the others\<close>








text \<open>
  C17. A session is created only by the owner of an encounter that can be seen, and starts
  with the encounter's name and data, nobody seated and its timer armed; a refused creation
  changes no session.
\<close>

theorem session_only_for_owner:
  assumes "encounters_ok (store st)"
    and "uc_CreateSession (encounterStorage tsquery) admin eid sid st = (r, st')"
  shows "case r of
      Inr sid' \<Rightarrow> sid' = sid \<and> (\<exists>e \<in> set (visible_encounters (store st)). UUID e = eid \<and>
        UserID e = userID admin \<and> map_of (tm_sessions st') sid = Some (length (heap st)) \<and>
        map_of (watchers st') sid = Some (eid, True) \<and>
        heap st' = heap st @ [\<lparr>encounterID = eid, encounterName = Name e, encounterData = Some (Data e),
          adminID = userID admin, adminName = DisplayName admin, participants = [], playersNum = 0,
          mu = False, runner = Idle\<rparr>])
    | Inl _ \<Rightarrow> heap st' = heap st \<and> tm_sessions st' = tm_sessions st \<and> watchers st' = watchers st"
proof -
  obtain g d1 where g: "sto_GetEncounterByID eid (store st) = (g, d1)" by fastforce
  from sto_get [OF g] have "\<forall>e. g = Inr e \<longrightarrow> e \<in> set (visible_encounters (store st)) \<and> UUID e = eid"
    by (auto dest: find_SomeD)
  with assms(2) g show ?thesis
    by (auto simp: uc_CreateSession_def tm_CreateSession_def Let_def update_conv'
        split: sum.splits if_splits)
qed

theorem session_only_for_owner_witness:
  "\<exists>st'. uc_CreateSession (encounterStorage (\<lambda>_. None)) (demo_user 1) ''id1'' ''s'' (table_init (demo_db [])) =
      (Inr ''s'', st') \<and> (\<exists>e \<in> set (visible_encounters (demo_db [])). UUID e = ''id1'' \<and> UserID e = 1)"
proof -
  have ok: "encounters_ok (store (table_init (demo_db [])))"
    by (simp add: table_init_def encounters_ok_def demo_db_def)
  obtain st' where st': "uc_CreateSession (encounterStorage (\<lambda>_. None)) (demo_user 1) ''id1'' ''s''
      (table_init (demo_db [])) = (Inr ''s'', st')"
    by (simp add: uc_CreateSession_def sto_GetEncounterByID_def query_row_def round_trip_def
        GetEncounterByIDQuery_def demo_db_def table_init_def row_encounter_def demo_user_def Let_def)
  from session_only_for_owner [OF ok st'] st' show ?thesis
    by (auto simp: table_init_def demo_user_def)
qed

text \<open>
  The server can be brought down by a message that arrives while a session's timer is
  running out: between the moment \<open>stopTimer\<close> forgets the timer and the removal of the session,
  \<open>refreshSession\<close> calls a method of a nil timer in the reader's goroutine, where nothing
  recovers. Such a run starts from the empty table.
\<close>

theorem late_message_crashes:
  "\<exists>evs st. table_run demo_wire demo_repo evs (table_init demo_notes) = Some st \<and> crashed st"
proof -
  have "\<exists>st. table_run demo_wire demo_repo
      ([Create (demo_user 1) ''id1'' ''s'', Connect (demo_user 1) ''s''] @ replicate 7 (ConnStep 0) @
       [Fires ''s'', TimerStep 0, TimerStep 0, Arrives 0 ''{}'', ConnStep 0, ConnStep 0, ConnStep 0, ConnStep 0])
      (table_init demo_notes) = Some st \<and> crashed st"
    by (simp add: demo_run eval_nat_numeral WriteFirstMsg_def demo_wire_def tm_GetEncounterData_def
        tm_read_def RemoveParticipant_def finish_def close_conn_def)
  then show ?thesis by blast
qed

end
