(* ===== verification/Strconv.thy ===== *)
theory Strconv
  imports Prelude
begin

text \<open>
  \<open>strconv.Atoi\<close>, the parser of 64-bit decimal integers that query parameters go through and
  \<open>encoding/json\<close> uses for numbers, and its round trip with \<open>strconv.Itoa\<close>.
\<close>

definition int64 :: "int \<Rightarrow> bool" where
  "int64 i \<longleftrightarrow> - (2 ^ 63) \<le> i \<and> i < 2 ^ 63"

definition digit_value :: "char \<Rightarrow> nat option" where
  "digit_value c = (let n = (of_char c :: nat) in if 48 \<le> n \<and> n \<le> 57 then Some (n - 48) else None)"

fun digits_value :: "nat \<Rightarrow> string \<Rightarrow> nat option" where
  "digits_value acc [] = Some acc"
| "digits_value acc (c # cs) =
     (case digit_value c of None \<Rightarrow> None | Some d \<Rightarrow> digits_value (10 * acc + d) cs)"

definition unsigned :: "string \<Rightarrow> nat option" where
  "unsigned s = (if s = [] then None else digits_value 0 s)"

text \<open>\<open>None\<close> is a syntax or a range error.\<close>

definition atoi :: "string \<Rightarrow> int option" where
  "atoi s =
     (let v = (case s of
          c # cs \<Rightarrow>
            if c = CHR ''-'' then map_option (\<lambda>n. - int n) (unsigned cs)
            else if c = CHR ''+'' then map_option int (unsigned cs)
            else map_option int (unsigned s)
        | [] \<Rightarrow> None)
      in case v of None \<Rightarrow> None | Some i \<Rightarrow> if int64 i then Some i else None)"

lemma digit_value_digit: "n < 10 \<Longrightarrow> digit_value (digit n) = Some n"
proof -
  assume "n < 10"
  then have "n \<in> {0, 1, 2, 3, 4, 5, 6, 7, 8, 9}" by auto
  then show ?thesis by (auto simp: digit_def digit_value_def)
qed

lemma digits_value_append:
  "digits_value acc (xs @ ys) =
     (case digits_value acc xs of None \<Rightarrow> None | Some a \<Rightarrow> digits_value a ys)"
  by (induction xs arbitrary: acc) (auto split: option.splits)

lemma digits_value_ndigits: "digits_value 0 (ndigits n) = Some n"
proof (induction n rule: ndigits.induct)
  case (1 n)
  show ?case
  proof (cases "n < 10")
    case True
    then show ?thesis by (simp add: length_ndigits_small digit_value_digit)
  next
    case False
    then have "digits_value 0 (ndigits (n div 10)) = Some (n div 10)" using 1 by simp
    with False show ?thesis by (simp add: ndigits_snoc digits_value_append digit_value_digit)
  qed
qed

lemma hd_ndigits_plus: "hd (ndigits n) \<noteq> CHR ''+''"
proof -
  obtain k where "k < 10" "hd (ndigits n) = digit k"
    using set_ndigits hd_in_set [OF ndigits_neq_Nil [of n]] by blast
  then have "hd (ndigits n) \<in> set ''0123456789''" using digit_in by metis
  then show ?thesis by auto
qed

lemma atoi_itoa: "int64 i \<Longrightarrow> atoi (itoa i) = Some i"
proof (cases "i < 0")
  case True
  then show "int64 i \<Longrightarrow> atoi (itoa i) = Some i"
    by (simp add: itoa_def atoi_def unsigned_def digits_value_ndigits)
next
  case False
  obtain c cs where c: "ndigits (nat i) = c # cs" by (cases "ndigits (nat i)") auto
  have "c \<noteq> CHR ''-''" "c \<noteq> CHR ''+''"
    using hd_ndigits(1) [of "nat i"] hd_ndigits_plus [of "nat i"] c by auto
  with False show "int64 i \<Longrightarrow> atoi (itoa i) = Some i"
    using digits_value_ndigits [of "nat i"] unfolding c
    by (simp add: itoa_def atoi_def unsigned_def c del: digits_value.simps)
qed

end
