(* ===== verification/Maps.thy ===== *)
theory Maps
  imports Responses Strconv
begin

text \<open>
  \<open>internal/pkg/maps\<close>: battle maps. The models with their JSON encoding, the validator, the
  usecases over the repository interface, and the handlers.
\<close>

section \<open>Models and their JSON\<close>

record placement =
  pl_ID :: string
  pl_TileID :: string
  pl_X :: int
  pl_Y :: int
  pl_Rot :: int
  pl_Layer :: int

text \<open>A nil slice of placements (\<open>None\<close>) is written as null.\<close>

record map_data =
  SchemaVersion :: int
  WidthUnits :: int
  HeightUnits :: int
  Placements :: "placement list option"

record map_full =
  mf_ID :: string
  mf_UserID :: int
  mf_Name :: string
  mf_CreatedAt :: int
  mf_UpdatedAt :: int
  mf_Data :: map_data

record map_metadata =
  mm_ID :: string
  mm_UserID :: int
  mm_Name :: string
  mm_CreatedAt :: int
  mm_UpdatedAt :: int

record maps_list =
  ml_Maps :: "map_metadata list"
  ml_Total :: int

record map_request =
  mr_Name :: string
  mr_Data :: map_data

record validation_error =
  Field :: string
  Message :: string

text \<open>
  \<open>json.Marshal\<close> and \<open>json.Unmarshal\<close> of \<open>MapData\<close>. Unmarshalling keeps the zero value of a
  field that is absent or null and fails on a value of the wrong type. Documents are read
  back only from the column, where the field names are the exact ones.
\<close>

definition marshal_placement :: "placement \<Rightarrow> json" where
  "marshal_placement p = JObj
     [(''id'', JStr (pl_ID p)), (''tileId'', JStr (pl_TileID p)), (''x'', JNum (itoa (pl_X p))),
      (''y'', JNum (itoa (pl_Y p))), (''rot'', JNum (itoa (pl_Rot p))), (''layer'', JNum (itoa (pl_Layer p)))]"

definition marshal_map_data :: "map_data \<Rightarrow> json" where
  "marshal_map_data d = JObj
     [(''schemaVersion'', JNum (itoa (SchemaVersion d))), (''widthUnits'', JNum (itoa (WidthUnits d))),
      (''heightUnits'', JNum (itoa (HeightUnits d))),
      (''placements'', case Placements d of None \<Rightarrow> JNull | Some ps \<Rightarrow> JArr (map marshal_placement ps))]"

fun get_int :: "json option \<Rightarrow> int option" where
  "get_int None = Some 0"
| "get_int (Some JNull) = Some 0"
| "get_int (Some (JNum s)) = atoi s"
| "get_int (Some _) = None"

fun get_string :: "json option \<Rightarrow> string option" where
  "get_string None = Some []"
| "get_string (Some JNull) = Some []"
| "get_string (Some (JStr s)) = Some s"
| "get_string (Some _) = None"

definition zero_placement :: placement where
  "zero_placement = \<lparr>pl_ID = [], pl_TileID = [], pl_X = 0, pl_Y = 0, pl_Rot = 0, pl_Layer = 0\<rparr>"

fun unmarshal_placement :: "json \<Rightarrow> placement option" where
  "unmarshal_placement (JObj kvs) =
     (case (get_string (map_of kvs ''id''), get_string (map_of kvs ''tileId''), get_int (map_of kvs ''x''),
        get_int (map_of kvs ''y''), get_int (map_of kvs ''rot''), get_int (map_of kvs ''layer'')) of
        (Some i, Some t, Some x, Some y, Some r, Some l) \<Rightarrow>
          Some \<lparr>pl_ID = i, pl_TileID = t, pl_X = x, pl_Y = y, pl_Rot = r, pl_Layer = l\<rparr>
      | _ \<Rightarrow> None)"
| "unmarshal_placement JNull = Some zero_placement"
| "unmarshal_placement _ = None"

fun unmarshal_list :: "('a \<Rightarrow> 'b option) \<Rightarrow> 'a list \<Rightarrow> 'b list option" where
  "unmarshal_list f [] = Some []"
| "unmarshal_list f (x # xs) =
     (case f x of None \<Rightarrow> None
      | Some y \<Rightarrow> (case unmarshal_list f xs of None \<Rightarrow> None | Some ys \<Rightarrow> Some (y # ys)))"

fun get_placements :: "json option \<Rightarrow> placement list option option" where
  "get_placements None = Some None"
| "get_placements (Some JNull) = Some None"
| "get_placements (Some (JArr js)) = map_option Some (unmarshal_list unmarshal_placement js)"
| "get_placements (Some _) = None"

definition zero_map_data :: map_data where
  "zero_map_data = \<lparr>SchemaVersion = 0, WidthUnits = 0, HeightUnits = 0, Placements = None\<rparr>"

fun unmarshal_map_data :: "json \<Rightarrow> map_data option" where
  "unmarshal_map_data (JObj kvs) =
     (case (get_int (map_of kvs ''schemaVersion''), get_int (map_of kvs ''widthUnits''),
        get_int (map_of kvs ''heightUnits''), get_placements (map_of kvs ''placements'')) of
        (Some s, Some w, Some h, Some ps) \<Rightarrow>
          Some \<lparr>SchemaVersion = s, WidthUnits = w, HeightUnits = h, Placements = ps\<rparr>
      | _ \<Rightarrow> None)"
| "unmarshal_map_data JNull = Some zero_map_data"
| "unmarshal_map_data _ = None"

text \<open>Values of Go's \<open>int\<close> type.\<close>

definition placement_int64 :: "placement \<Rightarrow> bool" where
  "placement_int64 p \<longleftrightarrow> int64 (pl_X p) \<and> int64 (pl_Y p) \<and> int64 (pl_Rot p) \<and> int64 (pl_Layer p)"

definition map_data_int64 :: "map_data \<Rightarrow> bool" where
  "map_data_int64 d \<longleftrightarrow> int64 (SchemaVersion d) \<and> int64 (WidthUnits d) \<and> int64 (HeightUnits d) \<and>
     (\<forall>ps. Placements d = Some ps \<longrightarrow> (\<forall>p \<in> set ps. placement_int64 p))"

lemma unmarshal_marshal_placement:
  "placement_int64 p \<Longrightarrow> unmarshal_placement (marshal_placement p) = Some p"
  by (simp add: marshal_placement_def placement_int64_def atoi_itoa)

lemma unmarshal_list_map:
  "\<forall>x \<in> set xs. f (g x) = Some x \<Longrightarrow> unmarshal_list f (map g xs) = Some xs"
  by (induction xs) auto

lemma unmarshal_marshal_map_data:
  "map_data_int64 d \<Longrightarrow> unmarshal_map_data (marshal_map_data d) = Some d"
  by (cases "Placements d")
    (auto simp: marshal_map_data_def map_data_int64_def atoi_itoa unmarshal_list_map
      unmarshal_marshal_placement)

section \<open>Validator\<close>

definition MinNameLength :: int where "MinNameLength = 1"
definition MaxNameLength :: int where "MaxNameLength = 255"
definition RequiredSchemaV :: int where "RequiredSchemaV = 1"
definition MinRotation :: int where "MinRotation = 0"
definition MaxRotation :: int where "MaxRotation = 3"
definition MapUnitsPerTile :: int where "MapUnitsPerTile = 6"

lemmas limits = MinNameLength_def MaxNameLength_def RequiredSchemaV_def MinRotation_def
  MaxRotation_def MapUnitsPerTile_def

definition verr :: "string \<Rightarrow> string \<Rightarrow> validation_error" where
  "verr f m = \<lparr>Field = f, Message = m\<rparr>"

text \<open>The remainders are taken of nonnegative numbers only, where Go's \<open>%\<close> is \<open>mod\<close>.\<close>

definition validatePlacement :: "int \<Rightarrow> placement \<Rightarrow> validation_error list" where
  "validatePlacement i p =
     (let prefix = ''data.placements['' @ itoa i @ '']'' in
      (if pl_ID p = [] then [verr (prefix @ ''.id'') ''placement id cannot be empty''] else []) @
      (if pl_TileID p = [] then [verr (prefix @ ''.tileId'') ''placement tileId cannot be empty''] else []) @
      (if pl_X p < 0 then [verr (prefix @ ''.x'') ''placement x must be >= 0'']
       else if pl_X p mod MapUnitsPerTile \<noteq> 0
       then [verr (prefix @ ''.x'') (''placement x must be a multiple of '' @ itoa MapUnitsPerTile)] else []) @
      (if pl_Y p < 0 then [verr (prefix @ ''.y'') ''placement y must be >= 0'']
       else if pl_Y p mod MapUnitsPerTile \<noteq> 0
       then [verr (prefix @ ''.y'') (''placement y must be a multiple of '' @ itoa MapUnitsPerTile)] else []) @
      (if pl_Rot p < MinRotation \<or> MaxRotation < pl_Rot p
       then [verr (prefix @ ''.rot'') (''placement rot must be between '' @ itoa MinRotation @ '' and '' @
         itoa MaxRotation)] else []))"

fun validatePlacements :: "int \<Rightarrow> placement list \<Rightarrow> validation_error list" where
  "validatePlacements i [] = []"
| "validatePlacements i (p # ps) = validatePlacement i p @ validatePlacements (i + 1) ps"

definition slice :: "'a list option \<Rightarrow> 'a list" where
  "slice xs = (case xs of None \<Rightarrow> [] | Some ys \<Rightarrow> ys)"

definition ValidateMapRequest :: "string \<Rightarrow> map_data \<Rightarrow> validation_error list" where
  "ValidateMapRequest name d =
     (if int (length name) < MinNameLength \<or> MaxNameLength < int (length name)
      then [verr ''name'' (''name must be between '' @ itoa MinNameLength @ '' and '' @ itoa MaxNameLength @
        '' characters'')] else []) @
     (if SchemaVersion d \<noteq> RequiredSchemaV
      then [verr ''data.schemaVersion'' (''schemaVersion must be '' @ itoa RequiredSchemaV)] else []) @
     (if WidthUnits d \<le> 0 then [verr ''data.widthUnits'' ''widthUnits must be a positive integer'']
      else if WidthUnits d mod MapUnitsPerTile \<noteq> 0
      then [verr ''data.widthUnits'' (''widthUnits must be a multiple of '' @ itoa MapUnitsPerTile)] else []) @
     (if HeightUnits d \<le> 0 then [verr ''data.heightUnits'' ''heightUnits must be a positive integer'']
      else if HeightUnits d mod MapUnitsPerTile \<noteq> 0
      then [verr ''data.heightUnits'' (''heightUnits must be a multiple of '' @ itoa MapUnitsPerTile)] else []) @
     validatePlacements 0 (slice (Placements d))"

fun CategorizeValidationErrors :: "validation_error list \<Rightarrow> string" where
  "CategorizeValidationErrors [] = ''BAD_REQUEST''"
| "CategorizeValidationErrors (e # es) =
     (if Field e = ''data.schemaVersion'' then ''INVALID_SCHEMA_VERSION''
      else if Field e = ''data.widthUnits'' \<or> Field e = ''data.heightUnits'' then ''INVALID_DIMENSIONS''
      else if 15 < length (Field e) \<and> take 15 (Field e) = ''data.placements'' then ''INVALID_PLACEMENT''
      else CategorizeValidationErrors es)"

section \<open>The repository interface and the usecases\<close>

datatype map_error = MapError app_error | ValidationErrorWrapper "validation_error list"

record 'd maps_repository =
  mrepo_CreateMap :: "int \<Rightarrow> string \<Rightarrow> json \<Rightarrow> 'd \<Rightarrow> map_full result \<times> 'd"
  mrepo_GetMapByID :: "int \<Rightarrow> string \<Rightarrow> 'd \<Rightarrow> map_full result \<times> 'd"
  mrepo_UpdateMap :: "int \<Rightarrow> string \<Rightarrow> string \<Rightarrow> json \<Rightarrow> 'd \<Rightarrow> map_full result \<times> 'd"
  mrepo_DeleteMap :: "int \<Rightarrow> string \<Rightarrow> 'd \<Rightarrow> unit result \<times> 'd"
  mrepo_ListMaps :: "int \<Rightarrow> int \<Rightarrow> int \<Rightarrow> 'd \<Rightarrow> maps_list result \<times> 'd"
  mrepo_CheckPermission :: "string \<Rightarrow> int \<Rightarrow> 'd \<Rightarrow> bool \<times> 'd"

definition lift_err :: "'a result \<times> 'd \<Rightarrow> (map_error + 'a) \<times> 'd" where
  "lift_err rd = (case rd of (Inl e, d) \<Rightarrow> (Inl (MapError e), d) | (Inr x, d) \<Rightarrow> (Inr x, d))"

definition muc_CreateMap ::
    "'d maps_repository \<Rightarrow> int \<Rightarrow> map_request \<Rightarrow> 'd \<Rightarrow> (map_error + map_full) \<times> 'd" where
  "muc_CreateMap repo uid req d =
     (let verrs = ValidateMapRequest (mr_Name req) (mr_Data req) in
      if 0 < length verrs then (Inl (ValidationErrorWrapper verrs), d)
      else lift_err (mrepo_CreateMap repo uid (mr_Name req) (marshal_map_data (mr_Data req)) d))"

definition muc_GetMapByID ::
    "'d maps_repository \<Rightarrow> int \<Rightarrow> string \<Rightarrow> 'd \<Rightarrow> (map_error + map_full) \<times> 'd" where
  "muc_GetMapByID repo uid mid d =
     (case mrepo_CheckPermission repo mid uid d of
        (False, d1) \<Rightarrow> (Inl (MapError MapPermissionDenied), d1)
      | (True, d1) \<Rightarrow> lift_err (mrepo_GetMapByID repo uid mid d1))"

definition muc_UpdateMap ::
    "'d maps_repository \<Rightarrow> int \<Rightarrow> string \<Rightarrow> map_request \<Rightarrow> 'd \<Rightarrow> (map_error + map_full) \<times> 'd" where
  "muc_UpdateMap repo uid mid req d =
     (case mrepo_CheckPermission repo mid uid d of
        (False, d1) \<Rightarrow> (Inl (MapError MapPermissionDenied), d1)
      | (True, d1) \<Rightarrow>
          (let verrs = ValidateMapRequest (mr_Name req) (mr_Data req) in
           if 0 < length verrs then (Inl (ValidationErrorWrapper verrs), d1)
           else lift_err (mrepo_UpdateMap repo uid mid (mr_Name req) (marshal_map_data (mr_Data req)) d1)))"

definition muc_DeleteMap ::
    "'d maps_repository \<Rightarrow> int \<Rightarrow> string \<Rightarrow> 'd \<Rightarrow> (map_error + unit) \<times> 'd" where
  "muc_DeleteMap repo uid mid d =
     (case mrepo_CheckPermission repo mid uid d of
        (False, d1) \<Rightarrow> (Inl (MapError MapPermissionDenied), d1)
      | (True, d1) \<Rightarrow> lift_err (mrepo_DeleteMap repo uid mid d1))"

definition muc_ListMaps ::
    "'d maps_repository \<Rightarrow> int \<Rightarrow> int \<Rightarrow> int \<Rightarrow> 'd \<Rightarrow> (map_error + maps_list) \<times> 'd" where
  "muc_ListMaps repo uid start siz d =
     (if bad_page start siz then (Inl (MapError StartPosSizeError), d)
      else lift_err (mrepo_ListMaps repo uid start siz d))"

section \<open>Handlers\<close>

text \<open>
  \<open>delivery/maps_handlers.go\<close>. The error body has a code, a message and the details;
  \<open>valid_uuid\<close> is \<open>uuid.Parse\<close>. Every body of this API marshals.
\<close>

datatype maps_body =
    MapsError string string "validation_error list"
  | MapBody map_full
  | MapsBody maps_list
  | NoBody

definition DefaultStart :: int where "DefaultStart = 0"
definition DefaultSize :: int where "DefaultSize = 20"
definition MaxSize :: int where "MaxSize = 100"

type_synonym maps_response = "int \<times> maps_body"

definition sendMapsError :: "int \<Rightarrow> string \<Rightarrow> string \<Rightarrow> validation_error list \<Rightarrow> maps_response" where
  "sendMapsError code errCode message details = (code, MapsError errCode message details)"

definition sendMapsOkResponse :: "int \<Rightarrow> maps_body \<Rightarrow> maps_response" where
  "sendMapsOkResponse code body = (code, body)"

definition internal_error :: maps_response where
  "internal_error = sendMapsError 500 ''INTERNAL_ERROR'' ''Internal server error'' []"

definition access_error :: "app_error \<Rightarrow> maps_response" where
  "access_error err =
     (if err = MapPermissionDenied then sendMapsError 403 ''FORBIDDEN'' ''Access denied to this map'' []
      else if err = MapNotFoundError then sendMapsError 404 ''NOT_FOUND'' ''Map not found'' []
      else internal_error)"

definition page_start :: "string \<Rightarrow> int" where
  "page_start s = (case atoi s of Some v \<Rightarrow> if 0 \<le> v then v else DefaultStart | None \<Rightarrow> DefaultStart)"

definition page_size :: "string \<Rightarrow> int" where
  "page_size s =
     (let v = (case atoi s of Some v \<Rightarrow> if 0 < v then v else DefaultSize | None \<Rightarrow> DefaultSize)
      in if MaxSize < v then MaxSize else v)"

definition h_ListMaps ::
    "'d maps_repository \<Rightarrow> string \<Rightarrow> string \<Rightarrow> user option \<Rightarrow> 'd \<Rightarrow> maps_response go \<times> 'd" where
  "h_ListMaps repo startStr sizeStr ctx_user d =
     with_user ctx_user (\<lambda>user d.
       case muc_ListMaps repo (userID user) (page_start startStr) (page_size sizeStr) d of
         (Inl err, d1) \<Rightarrow>
           (Return (if err = MapError StartPosSizeError
                    then sendMapsError 400 ''BAD_REQUEST'' ''Invalid start or size parameters'' []
                    else internal_error), d1)
       | (Inr list, d1) \<Rightarrow> (Return (sendMapsOkResponse 200 (MapsBody list)), d1)) d"

text \<open>The checks of the id in the path; \<open>None\<close> when it is usable.\<close>

definition bad_map_id :: "(string \<Rightarrow> bool) \<Rightarrow> string option \<Rightarrow> maps_response option" where
  "bad_map_id valid_uuid var =
     (case var of
        None \<Rightarrow> Some (sendMapsError 400 ''BAD_REQUEST'' ''Map ID is required'' [])
      | Some mid \<Rightarrow>
          if mid = [] then Some (sendMapsError 400 ''BAD_REQUEST'' ''Map ID is required'' [])
          else if \<not> valid_uuid mid then Some (sendMapsError 400 ''BAD_REQUEST'' ''Invalid map ID format'' [])
          else None)"

definition map_error_response :: "map_error \<Rightarrow> maps_response" where
  "map_error_response err =
     (case err of
        ValidationErrorWrapper verrs \<Rightarrow>
          sendMapsError 422 (CategorizeValidationErrors verrs) ''Validation failed'' verrs
      | MapError e \<Rightarrow> access_error e)"

definition h_GetMapByID ::
    "'d maps_repository \<Rightarrow> (string \<Rightarrow> bool) \<Rightarrow> string option \<Rightarrow> user option \<Rightarrow> 'd \<Rightarrow> maps_response go \<times> 'd"
  where
  "h_GetMapByID repo valid_uuid var ctx_user d =
     (case bad_map_id valid_uuid var of
        Some resp \<Rightarrow> (Return resp, d)
      | None \<Rightarrow>
          with_user ctx_user (\<lambda>user d.
            case muc_GetMapByID repo (userID user) (the var) d of
              (Inl (MapError err), d1) \<Rightarrow> (Return (access_error err), d1)
            | (Inl _, d1) \<Rightarrow> (Return internal_error, d1)
            | (Inr mapFull, d1) \<Rightarrow> (Return (sendMapsOkResponse 200 (MapBody mapFull)), d1)) d)"

text \<open>A body that is too large or is not the JSON of a request decodes to \<open>None\<close>.\<close>

definition h_CreateMap ::
    "'d maps_repository \<Rightarrow> map_request option \<Rightarrow> user option \<Rightarrow> 'd \<Rightarrow> maps_response go \<times> 'd" where
  "h_CreateMap repo body ctx_user d =
     (case body of
        None \<Rightarrow> (Return (sendMapsError 400 ''BAD_REQUEST'' ''Invalid JSON format'' []), d)
      | Some req \<Rightarrow>
          with_user ctx_user (\<lambda>user d.
            case muc_CreateMap repo (userID user) req d of
              (Inl (ValidationErrorWrapper verrs), d1) \<Rightarrow>
                (Return (sendMapsError 422 (CategorizeValidationErrors verrs) ''Validation failed'' verrs), d1)
            | (Inl _, d1) \<Rightarrow> (Return internal_error, d1)
            | (Inr mapFull, d1) \<Rightarrow> (Return (sendMapsOkResponse 201 (MapBody mapFull)), d1)) d)"

definition h_UpdateMap ::
    "'d maps_repository \<Rightarrow> (string \<Rightarrow> bool) \<Rightarrow> string option \<Rightarrow> map_request option \<Rightarrow> user option \<Rightarrow> 'd
     \<Rightarrow> maps_response go \<times> 'd" where
  "h_UpdateMap repo valid_uuid var body ctx_user d =
     (case bad_map_id valid_uuid var of
        Some resp \<Rightarrow> (Return resp, d)
      | None \<Rightarrow>
          (case body of
             None \<Rightarrow> (Return (sendMapsError 400 ''BAD_REQUEST'' ''Invalid JSON format'' []), d)
           | Some req \<Rightarrow>
               with_user ctx_user (\<lambda>user d.
                 case muc_UpdateMap repo (userID user) (the var) req d of
                   (Inl err, d1) \<Rightarrow> (Return (map_error_response err), d1)
                 | (Inr mapFull, d1) \<Rightarrow> (Return (sendMapsOkResponse 200 (MapBody mapFull)), d1)) d))"

definition h_DeleteMap ::
    "'d maps_repository \<Rightarrow> (string \<Rightarrow> bool) \<Rightarrow> string option \<Rightarrow> user option \<Rightarrow> 'd \<Rightarrow> maps_response go \<times> 'd"
  where
  "h_DeleteMap repo valid_uuid var ctx_user d =
     (case bad_map_id valid_uuid var of
        Some resp \<Rightarrow> (Return resp, d)
      | None \<Rightarrow>
          with_user ctx_user (\<lambda>user d.
            case muc_DeleteMap repo (userID user) (the var) d of
              (Inl err, d1) \<Rightarrow>
                (Return (case err of MapError e \<Rightarrow> access_error e | _ \<Rightarrow> internal_error), d1)
            | (Inr _, d1) \<Rightarrow> (Return (204, NoBody), d1)) d)"

datatype maps_request =
    MReqList string string
  | MReqGet "string option"
  | MReqCreate "map_request option"
  | MReqUpdate "string option" "map_request option"
  | MReqDelete "string option"

fun serve_map ::
    "'d maps_repository \<Rightarrow> (string \<Rightarrow> bool) \<Rightarrow> user option \<times> maps_request \<Rightarrow> 'd \<Rightarrow> maps_response go \<times> 'd"
  where
  "serve_map repo vu (u, MReqList a b) d = h_ListMaps repo a b u d"
| "serve_map repo vu (u, MReqGet var) d = h_GetMapByID repo vu var u d"
| "serve_map repo vu (u, MReqCreate body) d = h_CreateMap repo body u d"
| "serve_map repo vu (u, MReqUpdate var body) d = h_UpdateMap repo vu var body u d"
| "serve_map repo vu (u, MReqDelete var) d = h_DeleteMap repo vu var u d"

fun serve_maps ::
    "'d maps_repository \<Rightarrow> (string \<Rightarrow> bool) \<Rightarrow> (user option \<times> maps_request) list \<Rightarrow> 'd \<Rightarrow> 'd" where
  "serve_maps repo vu [] d = d"
| "serve_maps repo vu (r # rs) d = serve_maps repo vu rs (snd (serve_map repo vu r d))"

section \<open>What the validator accepts\<close>

definition good_placement :: "placement \<Rightarrow> bool" where
  "good_placement p \<longleftrightarrow> pl_ID p \<noteq> [] \<and> pl_TileID p \<noteq> [] \<and> 0 \<le> pl_X p \<and> 6 dvd pl_X p \<and>
     0 \<le> pl_Y p \<and> 6 dvd pl_Y p \<and> pl_Rot p \<in> {0, 1, 2, 3}"

definition good_size :: "int \<Rightarrow> bool" where
  "good_size n \<longleftrightarrow> 0 < n \<and> 6 dvd n"

definition good_name :: "string \<Rightarrow> bool" where
  "good_name name \<longleftrightarrow> 1 \<le> length name \<and> length name \<le> 255"

lemma if_Nil: "(if c then x # xs else ys) = [] \<longleftrightarrow> \<not> c \<and> ys = []"
  by simp

lemma validatePlacement_Nil: "validatePlacement i p = [] \<longleftrightarrow> good_placement p"
proof -
  have rot: "pl_Rot p \<in> {0, 1, 2, 3} \<longleftrightarrow> \<not> (pl_Rot p < 0 \<or> 3 < pl_Rot p)" by auto
  show ?thesis
    unfolding validatePlacement_def good_placement_def rot Let_def append_is_Nil_conv if_Nil limits
      dvd_eq_mod_eq_0
    by (simp add: linorder_not_less)
qed

lemma validatePlacements_Nil: "validatePlacements i ps = [] \<longleftrightarrow> (\<forall>p \<in> set ps. good_placement p)"
  by (induction i ps rule: validatePlacements.induct) (auto simp: validatePlacement_Nil)

lemma ValidateMapRequest_Nil:
  "ValidateMapRequest name d = [] \<longleftrightarrow>
     good_name name \<and> SchemaVersion d = 1 \<and> good_size (WidthUnits d) \<and> good_size (HeightUnits d) \<and>
     (\<forall>p \<in> set (slice (Placements d)). good_placement p)"
  unfolding ValidateMapRequest_def validatePlacements_Nil good_name_def good_size_def limits
    append_is_Nil_conv if_Nil dvd_eq_mod_eq_0
  by (cases name) (auto simp: linorder_not_le linorder_not_less)

lemma placement_field:
  "e \<in> set (validatePlacement i p) \<Longrightarrow>
     \<exists>suffix. Field e = ''data.placements['' @ itoa i @ '']'' @ suffix"
  by (auto simp: validatePlacement_def verr_def Let_def split: if_splits)

lemma categorize_placement:
  assumes "e \<in> set (validatePlacement i p)"
  shows "CategorizeValidationErrors (e # es) = ''INVALID_PLACEMENT''"
  using placement_field [OF assms] by auto

lemma categorize_placements:
  "validatePlacements i ps \<noteq> [] \<Longrightarrow> CategorizeValidationErrors (validatePlacements i ps) = ''INVALID_PLACEMENT''"
proof (induction i ps rule: validatePlacements.induct)
  case (2 i p ps)
  show ?case
  proof (cases "validatePlacement i p")
    case (Cons e es)
    then have "e \<in> set (validatePlacement i p)" by simp
    from categorize_placement [OF this, of "es @ validatePlacements (i + 1) ps"] Cons show ?thesis
      by (simp del: CategorizeValidationErrors.simps)
  qed (use 2 in simp)
qed simp

text \<open>The fields that are reported, without their messages.\<close>

lemma fields_if:
  "map Field (if c then [verr f m] else []) = (if c then [f] else [])"
  "map Field (if c then [verr f m] else if c' then [verr f m'] else []) = (if c \<or> c' then [f] else [])"
  by (simp_all add: verr_def)

lemma distinct_if: "distinct ((if c then [x] else []) @ xs) \<longleftrightarrow> (c \<longrightarrow> x \<notin> set xs) \<and> distinct xs"
  by (cases c) simp_all

lemma in_set_if: "x \<in> set (if c then [y] else []) \<longleftrightarrow> c \<and> x = y"
  by auto

lemmas report_fields = map_append fields_if distinct_if set_append Un_iff in_set_if

lemma placement_fields_distinct: "distinct (map Field (validatePlacement i p))"
  unfolding validatePlacement_def Let_def append_assoc report_fields by simp

lemma itoa_bracket:
  assumes "itoa i @ '']'' @ xs = itoa j @ '']'' @ ys"
  shows "i = j"
proof -
  have no: "CHR '']'' \<notin> set (itoa k)" for k
  proof -
    have "CHR '']'' \<notin> set (ndigits n)" for n
      using set_ndigits [of "CHR '']''" n] digit_in by fastforce
    then show ?thesis by (simp add: itoa_def)
  qed
  have "takeWhile (\<lambda>c. c \<noteq> CHR '']'') (itoa k @ '']'' @ zs) = itoa k" for k zs
    using no [of k] by (subst takeWhile_append2) auto
  then have "itoa i = itoa j" by (metis assms)
  then show ?thesis by simp
qed

lemma placements_fields_distinct:
  "distinct (map Field (validatePlacements i ps)) \<and>
   (\<forall>e \<in> set (validatePlacements i ps). \<exists>j suffix. i \<le> j \<and>
      Field e = ''data.placements['' @ itoa j @ '']'' @ suffix)"
proof (induction i ps rule: validatePlacements.induct)
  case (2 i p ps)
  have "Field ` set (validatePlacement i p) \<inter> Field ` set (validatePlacements (i + 1) ps) = {}"
  proof (intro equals0I, clarsimp)
    fix a b
    assume a: "a \<in> set (validatePlacement i p)" and b: "b \<in> set (validatePlacements (i + 1) ps)"
      and eq: "Field a = Field b"
    from placement_field [OF a] b 2 obtain x j y where "i + 1 \<le> j"
      "''data.placements['' @ itoa i @ '']'' @ x = ''data.placements['' @ itoa j @ '']'' @ y"
      unfolding eq by metis
    then show False using itoa_bracket [of i x j y] by simp
  qed
  moreover have "\<forall>e \<in> set (validatePlacements i (p # ps)). \<exists>j suffix. i \<le> j \<and>
      Field e = ''data.placements['' @ itoa j @ '']'' @ suffix"
  proof
    fix e assume "e \<in> set (validatePlacements i (p # ps))"
    then consider "e \<in> set (validatePlacement i p)" | "e \<in> set (validatePlacements (i + 1) ps)" by auto
    then show "\<exists>j suffix. i \<le> j \<and> Field e = ''data.placements['' @ itoa j @ '']'' @ suffix"
    proof cases
      case 1
      with placement_field show ?thesis by blast
    next
      case 2
      with "2.IH" obtain j x where "i + 1 \<le> j" "Field e = ''data.placements['' @ itoa j @ '']'' @ x" by blast
      then show ?thesis by (intro exI [of _ j] exI [of _ x]) simp
    qed
  qed
  ultimately show ?case using 2 placement_fields_distinct [of i p] by simp
qed simp

lemma ValidateMapRequest_distinct: "distinct (map Field (ValidateMapRequest name d))"
proof -
  have "Field e \<notin> {''name'', ''data.schemaVersion'', ''data.widthUnits'', ''data.heightUnits''}"
    if "e \<in> set (validatePlacements 0 ps)" for e ps
    using placements_fields_distinct [of 0 ps] that by fastforce
  then have "Field ` set (validatePlacements 0 ps) \<inter>
      {''name'', ''data.schemaVersion'', ''data.widthUnits'', ''data.heightUnits''} = {}" for ps
    by blast
  then show ?thesis
    using placements_fields_distinct [of 0 "slice (Placements d)"]
    unfolding ValidateMapRequest_def append_assoc report_fields by simp
qed

section \<open>Properties of the validator\<close>

text \<open>A Cyrillic letter takes two bytes.\<close>

definition cyrillic :: "nat \<Rightarrow> string" where
  "cyrillic n = concat (replicate n [CHR 0xD0, CHR 0xB0])"

lemma cyrillic_length: "length (cyrillic n) = 2 * n" "char_length (cyrillic n) = n"
  by (induction n) (simp_all add: cyrillic_def char_length_def utf8_cont_def)

text \<open>
  C18. A map request is accepted exactly when its name has 1 to 255 bytes, its schema version
  is 1, both dimensions are positive multiples of 6, and every placement has an id, a tile,
  coordinates that are nonnegative multiples of 6 and a rotation from 0 to 3; and no field is
  reported twice. The notes on the API and the validator's own message give the bound in
  characters: of the names of 1 to 255 characters those with too many bytes are refused, whatever
  the map, for instance 128 Cyrillic letters, while every accepted name is within the bound of the notes.
\<close>

theorem map_validation:
  "(ValidateMapRequest name d = [] \<longleftrightarrow>
     good_name name \<and> SchemaVersion d = 1 \<and> good_size (WidthUnits d) \<and> good_size (HeightUnits d) \<and>
     (\<forall>p \<in> set (slice (Placements d)). good_placement p)) \<and>
   distinct (map Field (ValidateMapRequest name d)) \<and>
   (ValidateMapRequest name d = [] \<longrightarrow> char_length name \<le> 255) \<and>
   char_length (cyrillic 128) = 128 \<and> ValidateMapRequest (cyrillic 128) d \<noteq> []"
  using ValidateMapRequest_Nil [of name d] ValidateMapRequest_Nil [of "cyrillic 128" d] ValidateMapRequest_distinct
    char_length_le [of name]
  by (simp add: cyrillic_length good_name_def)

theorem map_validation_witness:
  "ValidateMapRequest ''cave'' \<lparr>SchemaVersion = 1, WidthUnits = 12, HeightUnits = 6, Placements = Some [
      \<lparr>pl_ID = ''p'', pl_TileID = ''t'', pl_X = 6, pl_Y = 0, pl_Rot = 3, pl_Layer = 0\<rparr>]\<rparr> = [] \<and>
   ValidateMapRequest ''cave'' \<lparr>SchemaVersion = 1, WidthUnits = 8, HeightUnits = 6, Placements = None\<rparr> \<noteq> []"
  by (simp add: map_validation good_name_def good_size_def good_placement_def slice_def)

lemma categorize_if:
  "CategorizeValidationErrors ((if c then [e] else []) @ es) =
     (if c then CategorizeValidationErrors (e # es) else CategorizeValidationErrors es)"
  "CategorizeValidationErrors ((if c then [e] else if c' then [e'] else []) @ es) =
     (if c then CategorizeValidationErrors (e # es) else if c' then CategorizeValidationErrors (e' # es)
      else CategorizeValidationErrors es)"
  by simp_all

text \<open>
  The error code of a rejected request is that of the first kind of violation in the order
  schema version, dimensions, placements; a request that only has a bad name gets
  \<open>BAD_REQUEST\<close>.
\<close>

theorem map_error_code:
  "CategorizeValidationErrors (ValidateMapRequest name d) =
     (if SchemaVersion d \<noteq> 1 then ''INVALID_SCHEMA_VERSION''
      else if \<not> (good_size (WidthUnits d) \<and> good_size (HeightUnits d)) then ''INVALID_DIMENSIONS''
      else if \<exists>p \<in> set (slice (Placements d)). \<not> good_placement p then ''INVALID_PLACEMENT''
      else ''BAD_REQUEST'')"
proof -
  let ?ps = "validatePlacements 0 (slice (Placements d))"
  have "CategorizeValidationErrors ?ps =
      (if \<exists>p \<in> set (slice (Placements d)). \<not> good_placement p then ''INVALID_PLACEMENT'' else ''BAD_REQUEST'')"
    using validatePlacements_Nil [of 0 "slice (Placements d)"] categorize_placements
    by (cases "?ps = []") (auto simp del: validatePlacements.simps)
  then show ?thesis
    unfolding ValidateMapRequest_def categorize_if append_assoc good_size_def limits dvd_eq_mod_eq_0
    by (simp add: verr_def linorder_not_less)
qed

theorem map_error_code_witness:
  "CategorizeValidationErrors (ValidateMapRequest [] \<lparr>SchemaVersion = 1, WidthUnits = 6, HeightUnits = 6,
      Placements = Some [\<lparr>pl_ID = ''p'', pl_TileID = ''t'', pl_X = 3, pl_Y = 0, pl_Rot = 3, pl_Layer = 0\<rparr>]\<rparr>) =
    ''INVALID_PLACEMENT''"
  by (simp add: map_error_code good_size_def good_placement_def slice_def)

end
