(* ===== verification/MapsStorage.thy ===== *)
theory MapsStorage
  imports Maps EncounterStorage
begin

text \<open>
  The contract of the maps repository, the usecases and handlers over any repository that
  meets it, \<open>internal/pkg/maps/repository\<close> over Postgres and its interpretation, and the
  properties of the maps component.
\<close>

section \<open>The contract\<close>

definition full_of :: "map_row \<Rightarrow> map_full option" where
  "full_of row =
     map_option (\<lambda>d. \<lparr>mf_ID = map_id row, mf_UserID = map_user_id row, mf_Name = map_name row,
       mf_CreatedAt = map_created_at row, mf_UpdatedAt = map_updated_at row, mf_Data = d\<rparr>)
       (unmarshal_map_data (map_jsonb row))"

definition scan_full :: "map_row \<Rightarrow> map_full result" where
  "scan_full row = (case full_of row of None \<Rightarrow> Inl ScanError | Some m \<Rightarrow> Inr m)"

definition meta_of :: "map_row \<Rightarrow> map_metadata" where
  "meta_of row = \<lparr>mm_ID = map_id row, mm_UserID = map_user_id row, mm_Name = map_name row,
     mm_CreatedAt = map_created_at row, mm_UpdatedAt = map_updated_at row\<rparr>"

definition is_map :: "string \<Rightarrow> int \<Rightarrow> map_row \<Rightarrow> bool" where
  "is_map mid uid row \<longleftrightarrow> map_id row = mid \<and> map_user_id row = uid"

definition newest_first :: "map_row list \<Rightarrow> map_row list" where
  "newest_first rows = sort_key (\<lambda>row. - map_updated_at row) rows"

locale maps_repo =
  fixes repo :: "'d maps_repository"
    and inv :: "'d \<Rightarrow> bool"
    and rows :: "'d \<Rightarrow> map_row list"
  assumes distinct_rows: "inv d \<Longrightarrow> distinct (map map_id (rows d))"
    and check: "inv d \<Longrightarrow> mrepo_CheckPermission repo mid uid d = (b, d') \<Longrightarrow>
        inv d' \<and> rows d' = rows d \<and> (b \<longrightarrow> (\<exists>row \<in> set (rows d). is_map mid uid row))"
    and get: "inv d \<Longrightarrow> mrepo_GetMapByID repo uid mid d = (r, d') \<Longrightarrow>
        inv d' \<and> rows d' = rows d \<and>
        (\<forall>m. r = Inr m \<longrightarrow> (\<exists>row \<in> set (rows d). is_map mid uid row \<and> full_of row = Some m))"
    and create: "inv d \<Longrightarrow> mrepo_CreateMap repo uid name dat d = (r, d') \<Longrightarrow>
        inv d' \<and>
        (rows d' = rows d \<and> (\<exists>e. r = Inl e) \<or>
         (\<exists>row. rows d' = rows d @ [row] \<and> map_user_id row = uid \<and> map_name row = name \<and>
            map_jsonb row = dat \<and> r = scan_full row))"
    and update: "inv d \<Longrightarrow> mrepo_UpdateMap repo uid mid name dat d = (r, d') \<Longrightarrow>
        inv d' \<and>
        (rows d' = rows d \<and> (\<exists>e. r = Inl e) \<or>
         (\<exists>t row. rows d' = update_where (is_map mid uid)
              (\<lambda>row. row\<lparr>map_name := name, map_jsonb := dat, map_updated_at := t\<rparr>) (rows d) \<and>
            row \<in> set (rows d') \<and> is_map mid uid row \<and> map_name row = name \<and>
            map_jsonb row = dat \<and> r = scan_full row))"
    and delete: "inv d \<Longrightarrow> mrepo_DeleteMap repo uid mid d = (u, d') \<Longrightarrow>
        inv d' \<and> rows d' = (if u = Inr () then delete_where (is_map mid uid) (rows d) else rows d)"
    and list: "inv d \<Longrightarrow> mrepo_ListMaps repo uid start siz d = (l, d') \<Longrightarrow>
        inv d' \<and> rows d' = rows d \<and>
        (\<forall>ml. l = Inr ml \<longrightarrow>
           ml_Total ml = int (length (filter (\<lambda>row. map_user_id row = uid) (rows d))) \<and>
           (\<exists>k. ml_Maps ml = take k (map meta_of (limit_offset siz start
              (newest_first (filter (\<lambda>row. map_user_id row = uid) (rows d)))))))"
begin

text \<open>Nobody else's rows change.\<close>

lemma others_update:
  "filter (\<lambda>row. map_user_id row \<noteq> uid) (update_where (is_map mid uid)
      (\<lambda>row. row\<lparr>map_name := name, map_jsonb := dat, map_updated_at := t\<rparr>) rs) =
   filter (\<lambda>row. map_user_id row \<noteq> uid) rs"
  by (induction rs) (auto simp: update_where_def is_map_def)

lemma others_delete:
  "filter (\<lambda>row. map_user_id row \<noteq> uid) (delete_where (is_map mid uid) rs) =
   filter (\<lambda>row. map_user_id row \<noteq> uid) rs"
  by (induction rs) (auto simp: delete_where_def is_map_def)

definition others_same :: "int \<Rightarrow> 'd \<Rightarrow> 'd \<Rightarrow> bool" where
  "others_same uid d d' \<longleftrightarrow> inv d' \<and>
     filter (\<lambda>row. map_user_id row \<noteq> uid) (rows d') = filter (\<lambda>row. map_user_id row \<noteq> uid) (rows d)"

lemma lift_err_eq: "lift_err x = (r, d') \<longleftrightarrow>
    (case r of Inl e \<Rightarrow> (\<exists>a. e = MapError a \<and> x = (Inl a, d')) | Inr y \<Rightarrow> x = (Inr y, d'))"
  by (auto simp: lift_err_def split: prod.splits sum.splits)

lemma muc_get:
  assumes "inv d" and "muc_GetMapByID repo uid mid d = (r, d')"
  shows "inv d' \<and> rows d' = rows d \<and>
    (\<forall>m. r = Inr m \<longrightarrow> (\<exists>row \<in> set (rows d). is_map mid uid row \<and> full_of row = Some m))"
proof -
  obtain b d1 where c: "mrepo_CheckPermission repo mid uid d = (b, d1)" by fastforce
  note k = check [OF assms(1) c]
  show ?thesis
  proof (cases b)
    case True
    with assms(2) c have l: "lift_err (mrepo_GetMapByID repo uid mid d1) = (r, d')" by (simp add: muc_GetMapByID_def)
    then obtain r1 where g: "mrepo_GetMapByID repo uid mid d1 = (r1, d')" and r1: "\<forall>m. r = Inr m \<longrightarrow> r1 = Inr m"
      by (auto simp: lift_err_eq split: sum.splits)
    from get [OF _ g] k r1 show ?thesis by simp
  qed (use assms(2) c k in \<open>auto simp: muc_GetMapByID_def\<close>)
qed

lemma muc_create:
  assumes "inv d" and "muc_CreateMap repo uid req d = (r, d')"
  shows "others_same uid d d'"
proof (cases "ValidateMapRequest (mr_Name req) (mr_Data req)")
  case Nil
  with assms(2) obtain r1 where
    "mrepo_CreateMap repo uid (mr_Name req) (marshal_map_data (mr_Data req)) d = (r1, d')"
    by (auto simp: muc_CreateMap_def lift_err_eq split: sum.splits)
  from create [OF assms(1) this] show ?thesis by (auto simp: others_same_def)
qed (use assms in \<open>auto simp: muc_CreateMap_def others_same_def\<close>)

lemma muc_update:
  assumes "inv d" and "muc_UpdateMap repo uid mid req d = (r, d')"
  shows "others_same uid d d'"
proof -
  obtain b d1 where c: "mrepo_CheckPermission repo mid uid d = (b, d1)" by fastforce
  note k = check [OF assms(1) c]
  show ?thesis
  proof (cases "b \<and> ValidateMapRequest (mr_Name req) (mr_Data req) = []")
    case True
    with assms(2) c obtain r1 where
      "mrepo_UpdateMap repo uid mid (mr_Name req) (marshal_map_data (mr_Data req)) d1 = (r1, d')"
      by (auto simp: muc_UpdateMap_def lift_err_eq split: sum.splits)
    from update [OF _ this] k show ?thesis by (auto simp: others_same_def others_update)
  next
    case False
    with assms(2) c have "d' = d1" by (auto simp: muc_UpdateMap_def Let_def split: if_splits bool.splits)
    with k show ?thesis by (simp add: others_same_def)
  qed
qed

lemma muc_delete:
  assumes "inv d" and "muc_DeleteMap repo uid mid d = (r, d')"
  shows "others_same uid d d'"
proof -
  obtain b d1 where c: "mrepo_CheckPermission repo mid uid d = (b, d1)" by fastforce
  note k = check [OF assms(1) c]
  show ?thesis
  proof (cases b)
    case True
    with assms(2) c obtain r1 where "mrepo_DeleteMap repo uid mid d1 = (r1, d')"
      by (auto simp: muc_DeleteMap_def lift_err_eq split: sum.splits)
    from delete [OF _ this] k show ?thesis by (simp add: others_same_def others_delete)
  qed (use assms(2) c k in \<open>auto simp: muc_DeleteMap_def others_same_def\<close>)
qed

lemma muc_list:
  assumes "inv d" and "muc_ListMaps repo uid start siz d = (r, d')"
  shows "others_same uid d d' \<and> (\<forall>ml. r = Inr ml \<longrightarrow> 0 \<le> start \<and> 0 < siz \<and>
     ml_Total ml = int (length (filter (\<lambda>row. map_user_id row = uid) (rows d))) \<and>
     (\<exists>k. ml_Maps ml = take k (map meta_of (limit_offset siz start
        (newest_first (filter (\<lambda>row. map_user_id row = uid) (rows d)))))))"
proof (cases "bad_page start siz")
  case True
  with assms(2) have "r = Inl (MapError StartPosSizeError)" "d' = d" by (simp_all add: muc_ListMaps_def)
  then show ?thesis using assms(1) by (simp add: others_same_def)
next
  case False
  with assms(2) obtain r1 where l: "mrepo_ListMaps repo uid start siz d = (r1, d')"
    and r1: "\<forall>m. r = Inr m \<longrightarrow> r1 = Inr m"
    by (auto simp: muc_ListMaps_def lift_err_eq split: sum.splits)
  from list [OF assms(1) l] r1 False show ?thesis by (simp add: others_same_def bad_page_def)
qed

lemma serve_one:
  assumes "inv d"
  shows "case u of
      None \<Rightarrow> snd (serve_map repo vu (u, req) d) = d
    | Some user \<Rightarrow> others_same (userID user) d (snd (serve_map repo vu (u, req) d))"
proof -
  have refl: "others_same uid d d" for uid using assms by (simp add: others_same_def)
  have get: "muc_GetMapByID repo uid mid d = (r, d') \<Longrightarrow> others_same uid d d'" for uid mid r d'
    using muc_get [OF assms] by (simp add: others_same_def)
  show ?thesis
    by (cases req)
      (auto simp: h_ListMaps_def h_GetMapByID_def h_CreateMap_def h_UpdateMap_def h_DeleteMap_def
        with_user_def refl split: option.splits prod.splits sum.splits map_error.splits
        dest: muc_create [OF assms] muc_update [OF assms] muc_delete [OF assms] get
        intro: muc_list [OF assms, THEN conjunct1])
qed

lemma serve_many:
  assumes "inv d" and "\<forall>(u, req) \<in> set reqs. \<exists>user. u = Some user \<and> userID user \<noteq> owner"
  shows "filter (\<lambda>row. map_user_id row = owner) (rows (serve_maps repo vu reqs d)) =
    filter (\<lambda>row. map_user_id row = owner) (rows d)"
  using assms
proof (induction reqs arbitrary: d)
  case (Cons r reqs)
  then obtain user req where r: "r = (Some user, req)" "userID user \<noteq> owner" by fastforce
  let ?d1 = "snd (serve_map repo vu r d)"
  have k: "others_same (userID user) d ?d1"
    using serve_one [OF Cons.prems(1), of vu "Some user" req] r by simp
  have "filter (\<lambda>row. map_user_id row = owner) rs =
      filter (\<lambda>row. map_user_id row = owner) (filter (\<lambda>row. map_user_id row \<noteq> userID user) rs)" for rs
    using r(2) by (induction rs) auto
  then have "filter (\<lambda>row. map_user_id row = owner) (rows ?d1) = filter (\<lambda>row. map_user_id row = owner) (rows d)"
    using k unfolding others_same_def by metis
  with Cons.IH [of ?d1] Cons.prems(2) k show ?case by (simp add: others_same_def)
qed simp

end

section \<open>Queries\<close>

definition CheckMapPermissionQuery :: "string \<Rightarrow> int \<Rightarrow> postgres \<Rightarrow> bool option" where
  "CheckMapPermissionQuery mid uid db = Some (\<exists>row \<in> set (maps db). is_map mid uid row)"

text \<open>
  A \<open>jsonb\<close> document is refused when one of its strings has a NUL; the name is a
  \<open>VARCHAR(255)\<close>; the id comes from \<open>gen_random_uuid\<close>, the times from \<open>now\<close>.
\<close>

fun pg_json :: "json \<Rightarrow> bool" where
  "pg_json (JStr s) = pg_text s"
| "pg_json (JArr js) = (\<forall>j \<in> set js. pg_json j)"
| "pg_json (JObj kvs) = (\<forall>(k, j) \<in> set kvs. pg_text k \<and> pg_json j)"
| "pg_json _ = True"

definition CreateMapQuery :: "int \<Rightarrow> string \<Rightarrow> json \<Rightarrow> map_row dbcall" where
  "CreateMapQuery uid name dat db =
     (if \<not> pg_text name then (Inl (PgError ''22021'' ''''), db)
      else if \<not> pg_json dat then (Inl (PgError ''22P05'' ''''), db)
      else case uuids db of
        [] \<Rightarrow> (Inl ConnError, db)
      | mid # mids \<Rightarrow>
          (let db1 = db\<lparr>uuids := mids\<rparr> in
           if 255 < char_length name then (Inl (PgError ''22001'' ''''), db1)
           else if name = [] then (Inl (check_violation ''maps_name_check''), db1)
           else if mid \<in> map_id ` set (maps db) then (Inl (unique_violation ''maps_pkey''), db1)
           else if uid \<notin> (userID \<circ> row_user) ` set (users db)
           then (Inl (foreign_key_violation ''maps_user_id_fkey''), db1)
           else
             (let row = \<lparr>map_id = mid, map_user_id = uid, map_name = name, map_jsonb = dat,
                map_created_at = clock db, map_updated_at = clock db\<rparr>
              in (Inr row, db1\<lparr>maps := maps db @ [row]\<rparr>))))"

definition GetMapByIDQuery :: "string \<Rightarrow> int \<Rightarrow> postgres \<Rightarrow> map_row option" where
  "GetMapByIDQuery mid uid db = find (is_map mid uid) (maps db)"

text \<open>The trigger of the table sets \<open>updated_at\<close> on every update.\<close>

definition UpdateMapQuery :: "string \<Rightarrow> int \<Rightarrow> string \<Rightarrow> json \<Rightarrow> map_row dbcall" where
  "UpdateMapQuery mid uid name dat db =
     (if \<not> pg_text name then (Inl (PgError ''22021'' ''''), db)
      else if \<not> pg_json dat then (Inl (PgError ''22P05'' ''''), db)
      else
        (let rs = update_where (is_map mid uid)
           (\<lambda>row. row\<lparr>map_name := name, map_jsonb := dat, map_updated_at := clock db\<rparr>) (maps db)
         in case find (is_map mid uid) rs of
              None \<Rightarrow> (Inl ErrNoRows, db)
            | Some row \<Rightarrow>
                if 255 < char_length name then (Inl (PgError ''22001'' ''''), db)
                else if name = [] then (Inl (check_violation ''maps_name_check''), db)
                else (Inr row, db\<lparr>maps := rs\<rparr>)))"

text \<open>The result is the number of rows affected.\<close>

definition DeleteMapQuery :: "string \<Rightarrow> int \<Rightarrow> nat dbcall" where
  "DeleteMapQuery mid uid db =
     (Inr (length (filter (is_map mid uid) (maps db))),
      db\<lparr>maps := delete_where (is_map mid uid) (maps db)\<rparr>)"

definition ListMapsQuery :: "int \<Rightarrow> int \<Rightarrow> int \<Rightarrow> postgres \<Rightarrow> go_error + map_metadata list" where
  "ListMapsQuery uid siz start db =
     Inr (map meta_of (limit_offset siz start
       (newest_first (filter (\<lambda>row. map_user_id row = uid) (maps db)))))"

definition CountMapsQuery :: "int \<Rightarrow> postgres \<Rightarrow> int option" where
  "CountMapsQuery uid db = Some (int (length (filter (\<lambda>row. map_user_id row = uid) (maps db))))"

section \<open>The storage\<close>

definition msto_CheckPermission :: "string \<Rightarrow> int \<Rightarrow> postgres \<Rightarrow> bool \<times> postgres" where
  "msto_CheckPermission mid uid db =
     (case query_row (CheckMapPermissionQuery mid uid) db of
        (Inl _, db1) \<Rightarrow> (False, db1)
      | (Inr hasPermission, db1) \<Rightarrow> (hasPermission, db1))"

definition msto_CreateMap :: "int \<Rightarrow> string \<Rightarrow> json \<Rightarrow> postgres \<Rightarrow> map_full result \<times> postgres" where
  "msto_CreateMap uid name dat db =
     (case exec (CreateMapQuery uid name dat) db of
        (Inl _, db1) \<Rightarrow> (Inl TxError, db1)
      | (Inr row, db1) \<Rightarrow> (scan_full row, db1))"

definition msto_GetMapByID :: "int \<Rightarrow> string \<Rightarrow> postgres \<Rightarrow> map_full result \<times> postgres" where
  "msto_GetMapByID uid mid db =
     (case query_row (GetMapByIDQuery mid uid) db of
        (Inl err, db1) \<Rightarrow> (Inl (if err = ErrNoRows then MapNotFoundError else ScanError), db1)
      | (Inr row, db1) \<Rightarrow> (scan_full row, db1))"

definition msto_UpdateMap ::
    "int \<Rightarrow> string \<Rightarrow> string \<Rightarrow> json \<Rightarrow> postgres \<Rightarrow> map_full result \<times> postgres" where
  "msto_UpdateMap uid mid name dat db =
     (case exec (UpdateMapQuery mid uid name dat) db of
        (Inl err, db1) \<Rightarrow> (Inl (if err = ErrNoRows then MapNotFoundError else TxError), db1)
      | (Inr row, db1) \<Rightarrow> (scan_full row, db1))"

definition msto_DeleteMap :: "int \<Rightarrow> string \<Rightarrow> postgres \<Rightarrow> unit result \<times> postgres" where
  "msto_DeleteMap uid mid db =
     (case exec (DeleteMapQuery mid uid) db of
        (Inl _, db1) \<Rightarrow> (Inl TxError, db1)
      | (Inr affected, db1) \<Rightarrow> (if affected = 0 then Inl MapNotFoundError else Inr (), db1))"

definition msto_ListMaps :: "int \<Rightarrow> int \<Rightarrow> int \<Rightarrow> postgres \<Rightarrow> maps_list result \<times> postgres" where
  "msto_ListMaps uid start siz db =
     (case query_row (CountMapsQuery uid) db of
        (Inl _, db1) \<Rightarrow> (Inl QueryError, db1)
      | (Inr cnt, db1) \<Rightarrow>
          (case query_rows (ListMapsQuery uid siz start) db1 of
             (Inl err, db2) \<Rightarrow>
               (if err \<noteq> ErrNoRows then Inl QueryError else Inr \<lparr>ml_Maps = [], ml_Total = cnt\<rparr>, db2)
           | (Inr (metas, _), db2) \<Rightarrow> (Inr \<lparr>ml_Maps = metas, ml_Total = cnt\<rparr>, db2)))"

definition mapsStorage :: "postgres maps_repository" where
  "mapsStorage =
     \<lparr>mrepo_CreateMap = msto_CreateMap,
      mrepo_GetMapByID = msto_GetMapByID,
      mrepo_UpdateMap = msto_UpdateMap,
      mrepo_DeleteMap = msto_DeleteMap,
      mrepo_ListMaps = msto_ListMaps,
      mrepo_CheckPermission = msto_CheckPermission\<rparr>"

section \<open>The storage meets the contract\<close>

definition maps_ok :: "postgres \<Rightarrow> bool" where
  "maps_ok db \<longleftrightarrow> distinct (map map_id (maps db))"

lemma mapsStorage_simps [simp]:
  "mrepo_CreateMap mapsStorage = msto_CreateMap" "mrepo_GetMapByID mapsStorage = msto_GetMapByID"
  "mrepo_UpdateMap mapsStorage = msto_UpdateMap" "mrepo_DeleteMap mapsStorage = msto_DeleteMap"
  "mrepo_ListMaps mapsStorage = msto_ListMaps" "mrepo_CheckPermission mapsStorage = msto_CheckPermission"
  by (simp_all add: mapsStorage_def)

lemma msto_check:
  assumes "msto_CheckPermission mid uid db = (b, db')"
  shows "same_tables db db' \<and> (b \<longrightarrow> (\<exists>row \<in> set (maps db). is_map mid uid row)) \<and>
    (healthy db \<longrightarrow> healthy db' \<and> b = (\<exists>row \<in> set (maps db). is_map mid uid row))"
proof -
  obtain q db1 where q: "query_row (CheckMapPermissionQuery mid uid) db = (q, db1)" by fastforce
  note c = query_row_cases [OF q]
  then have st: "same_tables db db1" by simp
  have r: "db' = db1" "b = (case q of Inl _ \<Rightarrow> False | Inr x \<Rightarrow> x)"
    using assms by (auto simp: msto_CheckPermission_def q split: sum.splits)
  show ?thesis
    using c unfolding r CheckMapPermissionQuery_def same_tablesD(4) [OF st] by (elim conjE disjE) auto
qed

lemma msto_get:
  assumes "msto_GetMapByID uid mid db = (r, db')"
  shows "same_tables db db' \<and>
    (\<forall>m. r = Inr m \<longrightarrow> (\<exists>row \<in> set (maps db). is_map mid uid row \<and> full_of row = Some m)) \<and>
    (healthy db \<longrightarrow> healthy db' \<and> r = (case find (is_map mid uid) (maps db) of
       None \<Rightarrow> Inl MapNotFoundError | Some row \<Rightarrow> scan_full row))"
proof -
  obtain q db1 where q: "query_row (GetMapByIDQuery mid uid) db = (q, db1)" by fastforce
  note c = query_row_cases [OF q]
  then have st: "same_tables db db1" by simp
  have r: "db' = db1" "r = (case q of Inl err \<Rightarrow> Inl (if err = ErrNoRows then MapNotFoundError else ScanError)
      | Inr row \<Rightarrow> scan_full row)"
    using assms by (auto simp: msto_GetMapByID_def q split: sum.splits)
  show ?thesis
    using c unfolding r GetMapByIDQuery_def same_tablesD(4) [OF st]
    by (cases "find (is_map mid uid) (maps db)")
      (auto simp: scan_full_def split: option.splits dest!: find_SomeD)
qed

lemma CreateMapQuery_cases:
  assumes "CreateMapQuery uid name dat db = (r, db')" and "maps_ok db"
  shows "maps_ok db' \<and>
    (maps db' = maps db \<and> (\<exists>e. r = Inl e) \<or>
     (\<exists>row. r = Inr row \<and> maps db' = maps db @ [row] \<and> map_user_id row = uid \<and> map_name row = name \<and>
        map_jsonb row = dat))"
  using assms
  by (auto simp: CreateMapQuery_def maps_ok_def Let_def split: if_splits list.splits)

lemma UpdateMapQuery_cases:
  assumes "UpdateMapQuery mid uid name dat db = (r, db')" and "maps_ok db"
  shows "maps_ok db' \<and>
    (maps db' = maps db \<and> (\<exists>e. r = Inl e) \<or>
     (\<exists>t row. r = Inr row \<and> maps db' = update_where (is_map mid uid)
          (\<lambda>row. row\<lparr>map_name := name, map_jsonb := dat, map_updated_at := t\<rparr>) (maps db) \<and>
        row \<in> set (maps db') \<and> is_map mid uid row \<and> map_name row = name \<and> map_jsonb row = dat))"
proof -
  let ?rs = "update_where (is_map mid uid)
      (\<lambda>row. row\<lparr>map_name := name, map_jsonb := dat, map_updated_at := clock db\<rparr>) (maps db)"
  have ok: "distinct (map map_id ?rs)" using assms(2) by (simp add: maps_ok_def)
  have "db' = db \<and> (\<exists>e. r = Inl e) \<or>
      (\<exists>row. find (is_map mid uid) ?rs = Some row \<and> r = Inr row \<and> db' = db\<lparr>maps := ?rs\<rparr>)"
  proof (cases "find (is_map mid uid) ?rs")
    case None
    with assms(1) show ?thesis
      by (cases r) (simp_all add: UpdateMapQuery_def Let_def split: if_split_asm)
  next
    case (Some row)
    with assms(1) show ?thesis
      by (cases r) (simp_all add: UpdateMapQuery_def Let_def split: if_split_asm)
  qed
  then show ?thesis
  proof (elim disjE exE conjE)
    fix row assume f: "find (is_map mid uid) ?rs = Some row" and r: "r = Inr row" "db' = db\<lparr>maps := ?rs\<rparr>"
    from find_SomeD [OF f] have row: "row \<in> set ?rs" "is_map mid uid row" by blast+
    from row(1) obtain row0 where "row = (if is_map mid uid row0
        then row0\<lparr>map_name := name, map_jsonb := dat, map_updated_at := clock db\<rparr> else row0)"
      unfolding set_update_where by blast
    with row(2) have vals: "map_name row = name" "map_jsonb row = dat" by (simp_all split: if_split_asm)
    have "maps_ok db'" using ok by (simp add: maps_ok_def r(2) del: map_update_where)
    moreover have "maps db' = ?rs" by (simp add: r(2))
    ultimately show ?thesis using row vals r(1) by metis
  qed (use assms(2) in simp)
qed

lemma maps_frame:
  "same_tables db db1 \<Longrightarrow> maps db1 = maps db" "same_tables db db1 \<Longrightarrow> maps_ok db1 = maps_ok db"
  by (simp_all add: maps_ok_def same_tables_def)

lemma msto_create:
  assumes "msto_CreateMap uid name dat db = (r, db')" and "maps_ok db"
  shows "maps_ok db' \<and>
    (maps db' = maps db \<and> (\<exists>e. r = Inl e) \<or>
     (\<exists>row. maps db' = maps db @ [row] \<and> map_user_id row = uid \<and> map_name row = name \<and>
        map_jsonb row = dat \<and> r = scan_full row))"
proof -
  obtain q db1 where q: "exec (CreateMapQuery uid name dat) db = (q, db1)" by fastforce
  have r: "db' = db1" "r = (case q of Inl _ \<Rightarrow> Inl TxError | Inr row \<Rightarrow> scan_full row)"
    using assms(1) by (auto simp: msto_CreateMap_def q split: sum.splits)
  from exec_cases [OF q] show ?thesis
  proof (elim disjE exE conjE)
    fix db0 assume "same_tables db db0" "CreateMapQuery uid name dat db0 = (q, db1)"
    with CreateMapQuery_cases [of uid name dat db0 q db1] assms(2) maps_frame [of db db0] r
    show ?thesis by auto
  qed (use r assms(2) maps_frame in auto)
qed

lemma msto_update:
  assumes "msto_UpdateMap uid mid name dat db = (r, db')" and "maps_ok db"
  shows "maps_ok db' \<and>
    (maps db' = maps db \<and> (\<exists>e. r = Inl e) \<or>
     (\<exists>t row. maps db' = update_where (is_map mid uid)
          (\<lambda>row. row\<lparr>map_name := name, map_jsonb := dat, map_updated_at := t\<rparr>) (maps db) \<and>
        row \<in> set (maps db') \<and> is_map mid uid row \<and> map_name row = name \<and> map_jsonb row = dat \<and>
        r = scan_full row))"
proof -
  obtain q db1 where q: "exec (UpdateMapQuery mid uid name dat) db = (q, db1)" by fastforce
  have r: "db' = db1" "r = (case q of Inl err \<Rightarrow> Inl (if err = ErrNoRows then MapNotFoundError else TxError)
      | Inr row \<Rightarrow> scan_full row)"
    using assms(1) by (auto simp: msto_UpdateMap_def q split: sum.splits)
  from exec_cases [OF q] show ?thesis
  proof (elim disjE exE conjE)
    fix db0 assume s: "same_tables db db0" and u: "UpdateMapQuery mid uid name dat db0 = (q, db1)"
    from assms(2) have "maps_ok db0" by (simp add: maps_frame [OF s])
    from UpdateMapQuery_cases [OF u this, unfolded maps_frame(1) [OF s]] show ?thesis
    proof (elim conjE disjE exE, goal_cases)
      case (1 e)
      then show ?thesis by (intro conjI disjI1) (simp_all add: r)
    next
      case (2 t row)
      then have "r = scan_full row" by (simp add: r(2))
      with 2 show ?thesis unfolding r(1) by blast
    qed
  qed (use r assms(2) maps_frame in auto)
qed

lemma msto_delete:
  assumes "msto_DeleteMap uid mid db = (r, db')" and "maps_ok db"
  shows "maps_ok db' \<and>
    maps db' = (if r = Inr () then delete_where (is_map mid uid) (maps db) else maps db)"
proof -
  obtain q db1 where q: "exec (DeleteMapQuery mid uid) db = (q, db1)" by fastforce
  have r: "db' = db1" "r = (case q of Inl _ \<Rightarrow> Inl TxError
      | Inr n \<Rightarrow> if n = 0 then Inl MapNotFoundError else Inr ())"
    using assms(1) by (auto simp: msto_DeleteMap_def q split: sum.splits)
  have id: "filter (is_map mid uid) rs = [] \<Longrightarrow> delete_where (is_map mid uid) rs = rs" for rs
    by (auto simp: delete_where_def filter_empty_conv filter_id_conv)
  have d: "distinct (map map_id (delete_where (is_map mid uid) rs))"
    if "distinct (map map_id rs)" for rs
    using that by (simp add: delete_where_def distinct_map_filter)
  from exec_cases [OF q] show ?thesis
  proof (elim disjE exE conjE)
    fix db0 assume s: "same_tables db db0" and "DeleteMapQuery mid uid db0 = (q, db1)"
    then have "q = Inr (length (filter (is_map mid uid) (maps db)))"
      "maps db1 = delete_where (is_map mid uid) (maps db)"
      using maps_frame(1) [OF s] by (auto simp: DeleteMapQuery_def)
    with r assms(2) id [of "maps db"] d [of "maps db"] show ?thesis by (auto simp: maps_ok_def)
  qed (use r assms(2) maps_frame in auto)
qed

lemma msto_list:
  assumes "msto_ListMaps uid start siz db = (l, db')"
  defines "own \<equiv> filter (\<lambda>row. map_user_id row = uid) (maps db)"
  defines "page \<equiv> map meta_of (limit_offset siz start (newest_first own))"
  shows "same_tables db db' \<and>
    (\<forall>ml. l = Inr ml \<longrightarrow> ml_Total ml = int (length own) \<and> (\<exists>k. ml_Maps ml = take k page)) \<and>
    (healthy db \<longrightarrow> healthy db' \<and> l = Inr \<lparr>ml_Maps = page, ml_Total = int (length own)\<rparr>)"
proof -
  obtain q db1 where q: "query_row (CountMapsQuery uid) db = (q, db1)" by fastforce
  obtain t db2 where t: "query_rows (ListMapsQuery uid siz start) db1 = (t, db2)" by fastforce
  note c = query_row_cases [OF q] and e = query_rows_cases [OF t]
  have s1: "same_tables db db1" using c by simp
  have s2: "same_tables db db2" using s1 e same_tables_trans by blast
  have cq: "CountMapsQuery uid db1 = Some (int (length own))"
    by (simp add: CountMapsQuery_def own_def same_tablesD(4) [OF s1])
  have lq: "ListMapsQuery uid siz start db2 = Inr page"
    by (simp add: ListMapsQuery_def page_def own_def same_tablesD(4) [OF s2])
  have full: "\<exists>k. page = take k page" and none: "\<exists>k. [] = take k page"
    by (rule exI [of _ "length page"], simp) (rule exI [of _ 0], simp)
  show ?thesis
  proof (cases q)
    case (Inl err)
    then have "\<not> healthy db" using c cq by auto
    with Inl assms(1) q s1 show ?thesis by (auto simp: msto_ListMaps_def)
  next
    case (Inr n)
    then have n: "n = int (length own)" using c cq by auto
    have r: "db' = db2" "l = (case t of Inl err \<Rightarrow>
        if err \<noteq> ErrNoRows then Inl QueryError else Inr \<lparr>ml_Maps = [], ml_Total = n\<rparr>
      | Inr (metas, _) \<Rightarrow> Inr \<lparr>ml_Maps = metas, ml_Total = n\<rparr>)"
      using assms(1) Inr by (auto simp: msto_ListMaps_def q t split: sum.splits)
    have h: "healthy db \<longrightarrow> healthy db1" using c by simp
    show ?thesis
    proof (cases t)
      case (Inl err)
      with r n none have "ml_Total ml = int (length own) \<and> (\<exists>k. ml_Maps ml = take k page)"
        if "l = Inr ml" for ml using that by (auto split: if_splits)
      moreover have "\<not> healthy db" using e h lq Inl by auto
      ultimately show ?thesis using s2 r(1) by blast
    next
      case (Inr mb)
      then obtain metas b where t': "t = Inr (metas, b)" by (cases mb) simp
      then have l: "l = Inr \<lparr>ml_Maps = metas, ml_Total = int (length own)\<rparr>" using r(2) n by simp
      have "\<exists>k. metas = take k page" and "healthy db \<longrightarrow> healthy db' \<and> metas = page"
        using e h lq full unfolding t' r(1) by auto
      with l s2 r(1) show ?thesis by simp
    qed
  qed
qed

interpretation ms: maps_repo mapsStorage maps_ok maps
proof (unfold_locales, goal_cases)
  case (1 d) then show ?case by (simp add: maps_ok_def)
next
  case (2 d mid uid b d')
  with msto_check [of mid uid d b d'] show ?case by (auto simp: maps_frame)
next
  case (3 d uid mid r d')
  with msto_get [of uid mid d r d'] show ?case by (auto simp: maps_frame)
next
  case (4 d uid name dat r d')
  with msto_create [of uid name dat d r d'] show ?case by simp
next
  case (5 d uid mid name dat r d')
  with msto_update [of uid mid name dat d r d'] show ?case by simp
next
  case (6 d uid mid u d')
  with msto_delete [of uid mid d u d'] show ?case by simp
next
  case (7 d uid start siz l d')
  with msto_list [of uid start siz d l d'] show ?case by (auto simp: maps_frame)
qed

end
