(* ===== verification/MapsRun.thy ===== *)
theory MapsRun
  imports MapsStorage
begin

text \<open>
  The properties of the maps component, over \<open>mapsStorage\<close> behind the handlers.
\<close>

definition demo_map :: "string \<Rightarrow> int \<Rightarrow> map_row" where
  "demo_map mid t =
     \<lparr>map_id = mid, map_user_id = 1, map_name = ''cave'',
      map_jsonb = marshal_map_data \<lparr>SchemaVersion = 1, WidthUnits = 6, HeightUnits = 6, Placements = None\<rparr>,
      map_created_at = 0, map_updated_at = t\<rparr>"

definition demo_maps :: "outcome list \<Rightarrow> postgres" where
  "demo_maps os = (demo_db os)\<lparr>maps := [demo_map ''m1'' 3, demo_map ''m2'' 5], uuids := [''m3'']\<rparr>"

lemma demo_maps_simps [simp]:
  "maps (demo_maps os) = [demo_map ''m1'' 3, demo_map ''m2'' 5]" "uuids (demo_maps os) = [''m3'']"
  "outcomes (demo_maps os) = os" "users (demo_maps os) = users (demo_db [])"
  "maps_ok (demo_maps os)" "healthy (demo_maps os) = (os = [])"
  by (simp_all add: demo_maps_def demo_db_def maps_ok_def demo_map_def healthy_def)

text \<open>
  C19. Isolation: whatever the other users request, in whatever order and with whatever
  failures of the database, the maps of a user stay exactly as they are.
\<close>

theorem map_isolation:
  assumes "maps_ok db"
    and "\<forall>(u, req) \<in> set reqs. \<exists>user. u = Some user \<and> userID user \<noteq> owner"
  shows "filter (\<lambda>row. map_user_id row = owner) (maps (serve_maps mapsStorage vu reqs db)) =
    filter (\<lambda>row. map_user_id row = owner) (maps db)"
  using assms by (rule ms.serve_many)

theorem map_isolation_witness:
  "filter (\<lambda>row. map_user_id row = 1) (maps (serve_maps mapsStorage (\<lambda>_. True)
     [(Some (demo_user 2), MReqDelete (Some ''m1'')), (Some (demo_user 2), MReqDelete (Some ''m2''))]
     (demo_maps [Served, Refused]))) = [demo_map ''m1'' 3, demo_map ''m2'' 5]"
  by (subst map_isolation) (simp_all add: demo_user_def demo_map_def)

text \<open>What the usecases do on a database that answers.\<close>

lemma muc_get_healthy:
  assumes "healthy db"
  shows "fst (muc_GetMapByID mapsStorage uid mid db) =
    (case find (is_map mid uid) (maps db) of
       None \<Rightarrow> Inl (MapError MapPermissionDenied)
     | Some row \<Rightarrow> (case full_of row of None \<Rightarrow> Inl (MapError ScanError) | Some m \<Rightarrow> Inr m))"
proof -
  obtain b db1 where c: "msto_CheckPermission mid uid db = (b, db1)" by fastforce
  obtain r db2 where g: "msto_GetMapByID uid mid db1 = (r, db2)" by fastforce
  from msto_check [OF c] assms have b: "b = (find (is_map mid uid) (maps db) \<noteq> None)"
    and h: "healthy db1" "maps db1 = maps db" by (auto simp: same_tables_def find_None_iff)
  have r: "r = (case find (is_map mid uid) (maps db) of None \<Rightarrow> Inl MapNotFoundError | Some row \<Rightarrow> scan_full row)"
    using msto_get [OF g] h by simp
  show ?thesis
  proof (cases "find (is_map mid uid) (maps db)")
    case None
    with b c show ?thesis by (simp add: muc_GetMapByID_def)
  next
    case (Some row)
    with b c g r show ?thesis
      by (cases "full_of row") (simp_all add: muc_GetMapByID_def lift_err_def scan_full_def)
  qed
qed

text \<open>
  C20. Who sees a map: on a healthy database a get answers 200 with the stored map to its owner
  and 403 to everybody else, and a map that does not exist is answered 403 as well, never 404;
  a row whose document cannot be read as map data is answered 500.
\<close>

theorem map_get_answer:
  assumes "healthy db" and "vu mid" and "mid \<noteq> []"
  shows "fst (serve_map mapsStorage vu (Some user, MReqGet (Some mid)) db) =
    Return (case find (is_map mid (userID user)) (maps db) of
       None \<Rightarrow> (403, MapsError ''FORBIDDEN'' ''Access denied to this map'' [])
     | Some row \<Rightarrow> (case full_of row of
          None \<Rightarrow> (500, MapsError ''INTERNAL_ERROR'' ''Internal server error'' [])
        | Some m \<Rightarrow> (200, MapBody m)))"
proof -
  obtain r db' where "muc_GetMapByID mapsStorage (userID user) mid db = (r, db')" by fastforce
  with muc_get_healthy [OF assms(1), of "userID user" mid] assms(2,3) show ?thesis
    by (auto simp: h_GetMapByID_def bad_map_id_def with_user_def access_error_def internal_error_def
        sendMapsError_def sendMapsOkResponse_def split: option.splits)
qed

theorem map_get_answer_witness:
  "fst (serve_map mapsStorage (\<lambda>_. True) (Some (demo_user 1), MReqGet (Some ''m9'')) (demo_maps [])) =
    Return (403, MapsError ''FORBIDDEN'' ''Access denied to this map'' [])"
  by (subst map_get_answer) (simp_all add: is_map_def demo_map_def)

text \<open>
  C21. Round trip: a map that passes the validator, created by a registered user on a healthy
  database, is answered 201 with its data, and the owner's get of the new id returns the very
  same map, its document written to the column and read back.
\<close>

theorem map_round_trip:
  assumes "healthy db" and "uuids db = mid # mids" and "mid \<notin> map_id ` set (maps db)"
    and "userID user \<in> (userID \<circ> row_user) ` set (users db)"
    and "ValidateMapRequest (mr_Name req) (mr_Data req) = []" and "map_data_int64 (mr_Data req)"
    and "pg_text (mr_Name req)" and "pg_json (marshal_map_data (mr_Data req))"
    and "vu mid" and "mid \<noteq> []"
    and "serve_map mapsStorage vu (Some user, MReqCreate (Some req)) db = (resp, db')"
  shows "\<exists>t. resp = Return (201, MapBody \<lparr>mf_ID = mid, mf_UserID = userID user, mf_Name = mr_Name req,
        mf_CreatedAt = t, mf_UpdatedAt = t, mf_Data = mr_Data req\<rparr>) \<and>
      fst (serve_map mapsStorage vu (Some user, MReqGet (Some mid)) db') =
      Return (200, MapBody \<lparr>mf_ID = mid, mf_UserID = userID user, mf_Name = mr_Name req,
        mf_CreatedAt = t, mf_UpdatedAt = t, mf_Data = mr_Data req\<rparr>)"
proof -
  let ?row = "\<lambda>t. \<lparr>map_id = mid, map_user_id = userID user, map_name = mr_Name req,
    map_jsonb = marshal_map_data (mr_Data req), map_created_at = t, map_updated_at = t\<rparr>"
  have "good_name (mr_Name req)" using assms(5) by (simp add: ValidateMapRequest_Nil)
  then have name: "mr_Name req \<noteq> []" "char_length (mr_Name req) \<le> 255"
    using char_length_le [of "mr_Name req"] by (auto simp: good_name_def)
  have run: "exec (CreateMapQuery (userID user) (mr_Name req) (marshal_map_data (mr_Data req))) db =
      (Inr (?row (clock db + 1)),
       db\<lparr>clock := clock db + 1, uuids := mids, maps := maps db @ [?row (clock db + 1)]\<rparr>)"
    using assms(1-4,7,8) name
    by (simp add: exec_def round_trip_def healthy_def CreateMapQuery_def Let_def)
  then have new: "resp = Return (201, MapBody \<lparr>mf_ID = mid, mf_UserID = userID user, mf_Name = mr_Name req,
        mf_CreatedAt = clock db + 1, mf_UpdatedAt = clock db + 1, mf_Data = mr_Data req\<rparr>) \<and>
      db' = db\<lparr>clock := clock db + 1, uuids := mids, maps := maps db @ [?row (clock db + 1)]\<rparr>"
    using assms(11,5) unmarshal_marshal_map_data [OF assms(6)]
    by (auto simp: h_CreateMap_def with_user_def muc_CreateMap_def msto_CreateMap_def lift_err_def
        scan_full_def full_of_def sendMapsOkResponse_def)
  then have h: "healthy db'" using assms(1) by (simp add: healthy_def)
  have "find (is_map mid (userID user)) (maps db') = Some (?row (clock db + 1))"
  proof -
    have "find (is_map mid (userID user)) (maps db) = None"
      using assms(3) by (auto simp: find_None_iff is_map_def)
    with new show ?thesis by (simp add: find_append is_map_def)
  qed
  with map_get_answer [OF h, of vu mid user] assms(9,10) new unmarshal_marshal_map_data [OF assms(6)]
  show ?thesis by (intro exI [of _ "clock db + 1"]) (simp add: full_of_def)
qed

theorem map_round_trip_witness:
  "\<exists>t. fst (serve_map mapsStorage (\<lambda>_. True) (Some (demo_user 2), MReqGet (Some ''m3''))
      (snd (serve_map mapsStorage (\<lambda>_. True) (Some (demo_user 2), MReqCreate (Some \<lparr>mr_Name = ''hall'',
        mr_Data = \<lparr>SchemaVersion = 1, WidthUnits = 12, HeightUnits = 6, Placements = Some [
          \<lparr>pl_ID = ''p'', pl_TileID = ''t'', pl_X = 6, pl_Y = 0, pl_Rot = 3, pl_Layer = -1\<rparr>]\<rparr>\<rparr>)) (demo_maps [])))) =
    Return (200, MapBody \<lparr>mf_ID = ''m3'', mf_UserID = 2, mf_Name = ''hall'', mf_CreatedAt = t, mf_UpdatedAt = t,
      mf_Data = \<lparr>SchemaVersion = 1, WidthUnits = 12, HeightUnits = 6, Placements = Some [
          \<lparr>pl_ID = ''p'', pl_TileID = ''t'', pl_X = 6, pl_Y = 0, pl_Rot = 3, pl_Layer = -1\<rparr>]\<rparr>\<rparr>)"
proof -
  let ?d = "\<lparr>SchemaVersion = 1, WidthUnits = 12, HeightUnits = 6, Placements = Some [
          \<lparr>pl_ID = ''p'', pl_TileID = ''t'', pl_X = 6, pl_Y = 0, pl_Rot = 3, pl_Layer = -1\<rparr>]\<rparr>"
  let ?req = "\<lparr>mr_Name = ''hall'', mr_Data = ?d\<rparr>"
  obtain resp db' where s: "serve_map mapsStorage (\<lambda>_. True) (Some (demo_user 2), MReqCreate (Some ?req))
      (demo_maps []) = (resp, db')" by fastforce
  have "ValidateMapRequest (mr_Name ?req) (mr_Data ?req) = []"
    by (simp add: ValidateMapRequest_Nil good_name_def good_size_def good_placement_def slice_def)
  moreover have "map_data_int64 (mr_Data ?req)"
    by (simp add: map_data_int64_def placement_int64_def int64_def)
  moreover have "pg_json (marshal_map_data (mr_Data ?req))"
    by (simp add: marshal_map_data_def marshal_placement_def pg_text_def)
  moreover have "userID (demo_user 2) \<in> (userID \<circ> row_user) ` set (users (demo_maps []))"
    by (simp add: demo_user_def demo_db_def)
  moreover have "''m3'' \<notin> map_id ` set (maps (demo_maps []))" by (simp add: demo_map_def)
  ultimately have "\<exists>t. resp = Return (201, MapBody \<lparr>mf_ID = ''m3'', mf_UserID = userID (demo_user 2),
        mf_Name = mr_Name ?req, mf_CreatedAt = t, mf_UpdatedAt = t, mf_Data = mr_Data ?req\<rparr>) \<and>
      fst (serve_map mapsStorage (\<lambda>_. True) (Some (demo_user 2), MReqGet (Some ''m3'')) db') =
      Return (200, MapBody \<lparr>mf_ID = ''m3'', mf_UserID = userID (demo_user 2), mf_Name = mr_Name ?req,
        mf_CreatedAt = t, mf_UpdatedAt = t, mf_Data = mr_Data ?req\<rparr>)"
    using s by (intro map_round_trip [where mids = "[]"]) (simp_all add: pg_text_def)
  then show ?thesis unfolding s snd_conv by (auto simp: demo_user_def)
qed

text \<open>
  C22. A listing, whatever the query parameters are and whichever round trip fails, holds at
  most 100 maps, only the user's own, each once, the most recently updated first, and its
  total is the number of the user's maps.
\<close>

theorem map_listing:
  assumes "maps_ok db"
    and "serve_map mapsStorage vu (Some user, MReqList startStr sizeStr) db = (Return (200, MapsBody ml), db')"
  shows "length (ml_Maps ml) \<le> 100 \<and> distinct (map mm_ID (ml_Maps ml)) \<and>
    set (ml_Maps ml) \<subseteq> meta_of ` {row \<in> set (maps db). map_user_id row = userID user} \<and>
    sorted_wrt (\<lambda>a b. mm_UpdatedAt b \<le> mm_UpdatedAt a) (ml_Maps ml) \<and>
    ml_Total ml = int (length (filter (\<lambda>row. map_user_id row = userID user) (maps db)))"
proof -
  define own where "own = filter (\<lambda>row. map_user_id row = userID user) (maps db)"
  define siz where "siz = page_size sizeStr"
  obtain r where l: "muc_ListMaps mapsStorage (userID user) (page_start startStr) siz db = (r, db')"
    and r: "r = Inr ml"
    using assms(2) by (auto simp: h_ListMaps_def with_user_def siz_def sendMapsOkResponse_def
        internal_error_def sendMapsError_def split: prod.splits sum.splits if_splits)
  from ms.muc_list [OF assms(1) l] r obtain k where
    ml: "ml_Maps ml = take k (map meta_of (limit_offset siz (page_start startStr) (newest_first own)))"
    and total: "ml_Total ml = int (length own)" by (auto simp: own_def)
  obtain k' j where ml': "ml_Maps ml = map meta_of (take k' (drop j (newest_first own)))" and k': "k' \<le> 100"
  proof
    show "ml_Maps ml = map meta_of (take (min k (nat siz)) (drop (nat (page_start startStr)) (newest_first own)))"
      by (simp add: ml limit_offset_def take_map)
    have "siz \<le> 100" unfolding siz_def page_size_def Let_def MaxSize_def DefaultSize_def
      by (cases "atoi sizeStr") auto
    then show "min k (nat siz) \<le> 100" by linarith
  qed
  let ?part = "take k' (drop j (newest_first own))"
  have sub: "set ?part \<subseteq> set own"
    by (metis newest_first_def set_sort set_take_subset set_drop_subset subset_trans)
  have "distinct (map map_id own)"
    using assms(1) by (simp add: own_def maps_ok_def distinct_map_filter)
  then have "distinct (map map_id (newest_first own))"
    by (simp add: newest_first_def distinct_map)
  then have "distinct (map map_id ?part)"
    by (simp add: take_map [symmetric] drop_map [symmetric])
  then have d: "distinct (map mm_ID (ml_Maps ml))" by (simp add: ml' comp_def meta_of_def)
  have "sorted (map (\<lambda>row. - map_updated_at row) ?part)"
    by (simp add: newest_first_def take_map [symmetric] drop_map [symmetric] sorted_wrt_take sorted_wrt_drop)
  then have s: "sorted_wrt (\<lambda>a b. mm_UpdatedAt b \<le> mm_UpdatedAt a) (ml_Maps ml)"
    by (simp add: ml' sorted_wrt_map meta_of_def)
  have "set (ml_Maps ml) \<subseteq> meta_of ` set own" using sub by (auto simp: ml')
  with d s k' total show ?thesis by (simp add: ml' own_def)
qed

theorem map_listing_witness:
  "\<exists>ml. fst (serve_map mapsStorage (\<lambda>_. True) (Some (demo_user 1), MReqList ''0'' ''900'') (demo_maps [])) =
      Return (200, MapsBody ml) \<and> length (ml_Maps ml) \<le> 100 \<and> ml_Total ml = 2"
proof -
  have atoi: "atoi ''0'' = Some 0" "atoi ''900'' = Some 900"
    by (simp_all add: atoi_def unsigned_def digit_value_def int64_def)
  let ?ml = "\<lparr>ml_Maps = map meta_of [demo_map ''m2'' 5, demo_map ''m1'' 3], ml_Total = 2\<rparr>"
  obtain db' where s: "serve_map mapsStorage (\<lambda>_. True) (Some (demo_user 1), MReqList ''0'' ''900'')
      (demo_maps []) = (Return (200, MapsBody ?ml), db')"
    by (simp add: h_ListMaps_def with_user_def muc_ListMaps_def page_start_def page_size_def atoi
        DefaultStart_def DefaultSize_def MaxSize_def bad_page_def msto_ListMaps_def query_row_def
        query_rows_def round_trip_def CountMapsQuery_def ListMapsQuery_def lift_err_def
        sendMapsOkResponse_def newest_first_def demo_map_def demo_user_def limit_offset_def meta_of_def)
  have "maps_ok (demo_maps [])" by simp
  from map_listing [OF this s] s show ?thesis by simp
qed

end
