(* ===== verification/Gojson.thy ===== *)
theory Gojson
  imports Json Strconv "HOL-Library.Monad_Syntax"
begin

text \<open>
  \<open>json.Unmarshal\<close> into a Go struct. The parsed document keeps the entries of an object in
  their order, duplicates included. An entry is assigned to the field whose name it equals up
  to case; null leaves a field as it is; a later entry overwrites an earlier one; a value of
  the wrong type is an error. A field that no entry names keeps its zero value.
\<close>

text \<open>
  \<open>foldName\<close>: two names that differ only in case, where the Kelvin sign (E2 84 AA) folds to k
  and the long s (C5 BF) to s, as in simple Unicode folding.
\<close>

definition lower :: "char \<Rightarrow> char" where
  "lower c = (let n = (of_char c :: nat) in if 65 \<le> n \<and> n \<le> 90 then char_of (n + 32) else c)"

fun fold_name :: "string \<Rightarrow> string" where
  "fold_name (a # b # c # cs) =
     (if a = CHR 0xE2 \<and> b = CHR 0x84 \<and> c = CHR 0xAA then CHR ''k'' # fold_name cs
      else if a = CHR 0xC5 \<and> b = CHR 0xBF then CHR ''s'' # fold_name (c # cs)
      else lower a # fold_name (b # c # cs))"
| "fold_name [a, b] = (if a = CHR 0xC5 \<and> b = CHR 0xBF then ''s'' else [lower a, lower b])"
| "fold_name [a] = [lower a]"
| "fold_name [] = []"

type_synonym fields = "(string \<times> json) list"

definition entries :: "string \<Rightarrow> fields \<Rightarrow> json list" where
  "entries name kvs = map snd (filter (\<lambda>(k, v). fold_name k = fold_name name) kvs)"

fun assign :: "(json \<Rightarrow> 'a option) \<Rightarrow> 'a \<Rightarrow> json list \<Rightarrow> 'a option" where
  "assign dec x [] = Some x"
| "assign dec x (v # vs) =
     (if v = JNull then assign dec x vs
      else (case dec v of None \<Rightarrow> None | Some y \<Rightarrow> assign dec y vs))"

fun str_of :: "json \<Rightarrow> string option" where
  "str_of (JStr s) = Some s"
| "str_of _ = None"

fun int_of_num :: "json \<Rightarrow> int option" where
  "int_of_num (JNum s) = atoi s"
| "int_of_num _ = None"

fun bool_of :: "json \<Rightarrow> bool option" where
  "bool_of (JBool b) = Some b"
| "bool_of _ = None"

definition str_field :: "string \<Rightarrow> fields \<Rightarrow> string option" where
  "str_field name kvs = assign str_of [] (entries name kvs)"

definition int_field :: "string \<Rightarrow> fields \<Rightarrow> int option" where
  "int_field name kvs = assign int_of_num 0 (entries name kvs)"

definition bool_field :: "string \<Rightarrow> fields \<Rightarrow> bool option" where
  "bool_field name kvs = assign bool_of False (entries name kvs)"

text \<open>A field that is itself a struct: every object that is given for it is decoded into it.\<close>

fun objects :: "json list \<Rightarrow> fields option" where
  "objects [] = Some []"
| "objects (JNull # vs) = objects vs"
| "objects (JObj kvs # vs) = map_option (\<lambda>r. kvs @ r) (objects vs)"
| "objects (_ # vs) = None"

definition obj_field :: "string \<Rightarrow> fields \<Rightarrow> fields option" where
  "obj_field name kvs = objects (entries name kvs)"

text \<open>
  Slices, pointers and \<open>interface{}\<close> are set to nil by null. An element null of an array is
  the zero value of the element type. A slice that is given twice is decoded anew.
\<close>

fun assign_nil :: "(json \<Rightarrow> 'a option) \<Rightarrow> 'a \<Rightarrow> json list \<Rightarrow> 'a option" where
  "assign_nil dec x [] = Some x"
| "assign_nil dec x (v # vs) = (case dec v of None \<Rightarrow> None | Some y \<Rightarrow> assign_nil dec y vs)"

fun elements :: "(json \<Rightarrow> 'a option) \<Rightarrow> 'a \<Rightarrow> json list \<Rightarrow> 'a list option" where
  "elements dec zero [] = Some []"
| "elements dec zero (v # vs) =
     do { x \<leftarrow> (if v = JNull then Some zero else dec v);
          xs \<leftarrow> elements dec zero vs;
          Some (x # xs) }"

fun slice_of :: "(json \<Rightarrow> 'a option) \<Rightarrow> 'a \<Rightarrow> json \<Rightarrow> 'a list option option" where
  "slice_of dec zero JNull = Some None"
| "slice_of dec zero (JArr vs) = map_option Some (elements dec zero vs)"
| "slice_of dec zero _ = None"

definition slice_field ::
    "(json \<Rightarrow> 'a option) \<Rightarrow> 'a \<Rightarrow> string \<Rightarrow> fields \<Rightarrow> 'a list option option" where
  "slice_field dec zero name kvs = assign_nil (slice_of dec zero) None (entries name kvs)"

text \<open>The document itself; null decodes to the zero struct.\<close>

fun struct_of :: "json \<Rightarrow> fields option" where
  "struct_of (JObj kvs) = Some kvs"
| "struct_of JNull = Some []"
| "struct_of _ = None"

definition unmarshal :: "(string \<Rightarrow> json option) \<Rightarrow> (fields \<Rightarrow> 'a option) \<Rightarrow> string \<Rightarrow> 'a option" where
  "unmarshal parse f bytes = parse bytes \<bind> struct_of \<bind> f"

text \<open>A request body, \<open>None\<close> when the decoder found no JSON value.\<close>

definition decoded :: "(fields \<Rightarrow> 'a option) \<Rightarrow> json option \<Rightarrow> 'a option" where
  "decoded dec body = body \<bind> struct_of \<bind> dec"

section \<open>Names that differ\<close>

lemma entries_Nil [simp]: "entries name [] = []"
  by (simp add: entries_def)

lemma entries_Cons [simp]:
  "entries name ((k, v) # kvs) =
     (if fold_name k = fold_name name then v # entries name kvs else entries name kvs)"
  by (simp add: entries_def)

lemma entries_append: "entries name (xs @ ys) = entries name xs @ entries name ys"
  by (simp add: entries_def)

text \<open>A document in which every field occurs once, as \<open>json.Marshal\<close> writes it.\<close>

lemma entries_none: "fold_name k \<notin> (fold_name \<circ> fst) ` set kvs \<Longrightarrow> entries k kvs = []"
  by (induction kvs) (auto simp: entries_def)

lemma entries_distinct:
  assumes "distinct (map (fold_name \<circ> fst) kvs)" and "(k, v) \<in> set kvs"
  shows "entries k kvs = [v]"
  using assms
proof (induction kvs)
  case (Cons kv kvs)
  show ?case
  proof (cases "kv = (k, v)")
    case True
    with Cons.prems(1) entries_none [of k kvs] show ?thesis by simp
  next
    case False
    with Cons.prems have "(k, v) \<in> set kvs" "fold_name (fst kv) \<noteq> fold_name k" by (auto simp: image_iff)
    with Cons show ?thesis by (cases kv) simp
  qed
qed simp

end
