(* ===== verification/OAuth.thy ===== *)
theory OAuth
  imports Apperrors Gojson
begin

text \<open>
  \<open>internal/pkg/auth/external\<close>: the clients of the OAuth providers VK, Google and Yandex.

  The other end of \<open>http.Client.Do\<close> is a parameter: \<open>ext_http\<close> answers a request in a state
  \<open>'w\<close> of the outside world, in any way at all; \<open>ext_json\<close> is the parser of \<open>encoding/json\<close>.
  A form is the list of its values, which \<open>url.Values.Encode\<close> writes.
\<close>

section \<open>Models\<close>

record login_request =
  lr_Code :: string
  lr_State :: string
  lr_CodeVerifier :: string
  lr_DeviceID :: string

record oauth_result =
  or_ProviderUserID :: string
  or_DisplayName :: string
  or_AvatarURL :: string
  or_Email :: string
  or_AccessToken :: string
  or_RefreshToken :: string
  or_IDToken :: string

record http_request =
  rq_method :: string
  rq_url :: string
  rq_form :: "(string \<times> string) list"
  rq_headers :: "(string \<times> string) list"

text \<open>
  What a call comes to: \<open>http.NewRequest\<close> refuses the method or the URL, \<open>Do\<close> fails, the body
  cannot be read, or a status and a body.
\<close>

datatype http_reply = NoRequest | NoReply | BrokenBody | Reply int string

record 'w outside =
  ext_http :: "http_request \<Rightarrow> 'w \<Rightarrow> http_reply \<times> 'w"
  ext_json :: "string \<Rightarrow> json option"

definition fetch ::
    "'w outside \<Rightarrow> app_error \<Rightarrow> http_request \<Rightarrow> 'w \<Rightarrow> (app_error + int \<times> string) \<times> 'w" where
  "fetch ext do_err req w =
     (case ext_http ext req w of
        (NoRequest, w1) \<Rightarrow> (Inl ClientError, w1)
      | (NoReply, w1) \<Rightarrow> (Inl do_err, w1)
      | (BrokenBody, w1) \<Rightarrow> (Inl ClientError, w1)
      | (Reply code body, w1) \<Rightarrow> (Inr (code, body), w1))"

definition full_name :: "string \<Rightarrow> string \<Rightarrow> string" where
  "full_name first lst = first @ '' '' @ lst"

section \<open>Google\<close>

record google_oauth =
  g_clientID :: string
  g_clientSecret :: string
  g_redirectURI :: string

record google_tokens =
  gt_AccessToken :: string
  gt_RefreshToken :: string
  gt_IDToken :: string
  gt_TokenType :: string
  gt_ExpiresIn :: int

record google_user_info =
  gu_Sub :: string
  gu_Name :: string
  gu_GivenName :: string
  gu_FamilyName :: string
  gu_Picture :: string
  gu_Email :: string

definition googleTokenURL :: string where
  "googleTokenURL = ''https://oauth2.googleapis.com/token''"
definition googleUserInfoURL :: string where
  "googleUserInfoURL = ''https://www.googleapis.com/oauth2/v3/userinfo''"

definition dec_google_tokens :: "fields \<Rightarrow> google_tokens option" where
  "dec_google_tokens kvs = do {
     a \<leftarrow> str_field ''access_token'' kvs;
     r \<leftarrow> str_field ''refresh_token'' kvs;
     i \<leftarrow> str_field ''id_token'' kvs;
     t \<leftarrow> str_field ''token_type'' kvs;
     e \<leftarrow> int_field ''expires_in'' kvs;
     Some \<lparr>gt_AccessToken = a, gt_RefreshToken = r, gt_IDToken = i, gt_TokenType = t, gt_ExpiresIn = e\<rparr> }"

definition dec_google_user_info :: "fields \<Rightarrow> google_user_info option" where
  "dec_google_user_info kvs = do {
     s \<leftarrow> str_field ''sub'' kvs;
     n \<leftarrow> str_field ''name'' kvs;
     g \<leftarrow> str_field ''given_name'' kvs;
     f \<leftarrow> str_field ''family_name'' kvs;
     p \<leftarrow> str_field ''picture'' kvs;
     e \<leftarrow> str_field ''email'' kvs;
     Some \<lparr>gu_Sub = s, gu_Name = n, gu_GivenName = g, gu_FamilyName = f, gu_Picture = p, gu_Email = e\<rparr> }"

definition google_exchangeCode ::
    "google_oauth \<Rightarrow> 'w outside \<Rightarrow> string \<Rightarrow> 'w \<Rightarrow> (app_error + google_tokens) \<times> 'w" where
  "google_exchangeCode g ext code w =
     (case fetch ext OAuthProviderError
        \<lparr>rq_method = ''POST'', rq_url = googleTokenURL,
         rq_form = [(''code'', code), (''client_id'', g_clientID g), (''client_secret'', g_clientSecret g),
           (''redirect_uri'', g_redirectURI g), (''grant_type'', ''authorization_code'')],
         rq_headers = [(''Content-Type'', ''application/x-www-form-urlencoded'')]\<rparr> w of
        (Inl e, w1) \<Rightarrow> (Inl e, w1)
      | (Inr (status, body), w1) \<Rightarrow>
          (if status \<noteq> 200 then Inl OAuthProviderError
           else (case unmarshal (ext_json ext) dec_google_tokens body of
                   None \<Rightarrow> Inl ClientError | Some tokens \<Rightarrow> Inr tokens), w1))"

definition google_getUserInfo ::
    "'w outside \<Rightarrow> string \<Rightarrow> 'w \<Rightarrow> (app_error + google_user_info) \<times> 'w" where
  "google_getUserInfo ext accessToken w =
     (case fetch ext OAuthProviderError
        \<lparr>rq_method = ''GET'', rq_url = googleUserInfoURL, rq_form = [],
         rq_headers = [(''Authorization'', ''Bearer '' @ accessToken)]\<rparr> w of
        (Inl e, w1) \<Rightarrow> (Inl e, w1)
      | (Inr (status, body), w1) \<Rightarrow>
          (if status \<noteq> 200 then Inl OAuthProviderError
           else (case unmarshal (ext_json ext) dec_google_user_info body of
                   None \<Rightarrow> Inl ClientError | Some info \<Rightarrow> Inr info), w1))"

definition google_Authenticate ::
    "google_oauth \<Rightarrow> 'w outside \<Rightarrow> login_request \<Rightarrow> 'w \<Rightarrow> oauth_result result \<times> 'w" where
  "google_Authenticate g ext login w =
     (case google_exchangeCode g ext (lr_Code login) w of
        (Inl e, w1) \<Rightarrow> (Inl e, w1)
      | (Inr tokens, w1) \<Rightarrow>
          (case google_getUserInfo ext (gt_AccessToken tokens) w1 of
             (Inl e, w2) \<Rightarrow> (Inl e, w2)
           | (Inr info, w2) \<Rightarrow>
               (Inr \<lparr>or_ProviderUserID = gu_Sub info,
                  or_DisplayName = (if gu_Name info = []
                    then full_name (gu_GivenName info) (gu_FamilyName info) else gu_Name info),
                  or_AvatarURL = gu_Picture info, or_Email = gu_Email info,
                  or_AccessToken = gt_AccessToken tokens, or_RefreshToken = gt_RefreshToken tokens,
                  or_IDToken = gt_IDToken tokens\<rparr>, w2)))"

section \<open>Yandex\<close>

record yandex_oauth =
  y_clientID :: string
  y_clientSecret :: string

record yandex_tokens =
  yt_AccessToken :: string
  yt_RefreshToken :: string
  yt_TokenType :: string
  yt_ExpiresIn :: int

record yandex_user_info =
  yu_ID :: string
  yu_Login :: string
  yu_DisplayName :: string
  yu_FirstName :: string
  yu_LastName :: string
  yu_DefaultEmail :: string
  yu_DefaultAvatarID :: string
  yu_IsAvatarEmpty :: bool

definition yandexTokenURL :: string where
  "yandexTokenURL = ''https://oauth.yandex.ru/token''"
definition yandexUserInfoURL :: string where
  "yandexUserInfoURL = ''https://login.yandex.ru/info?format=json''"

definition dec_yandex_tokens :: "fields \<Rightarrow> yandex_tokens option" where
  "dec_yandex_tokens kvs = do {
     a \<leftarrow> str_field ''access_token'' kvs;
     r \<leftarrow> str_field ''refresh_token'' kvs;
     t \<leftarrow> str_field ''token_type'' kvs;
     e \<leftarrow> int_field ''expires_in'' kvs;
     Some \<lparr>yt_AccessToken = a, yt_RefreshToken = r, yt_TokenType = t, yt_ExpiresIn = e\<rparr> }"

definition dec_yandex_user_info :: "fields \<Rightarrow> yandex_user_info option" where
  "dec_yandex_user_info kvs = do {
     i \<leftarrow> str_field ''id'' kvs;
     l \<leftarrow> str_field ''login'' kvs;
     d \<leftarrow> str_field ''display_name'' kvs;
     f \<leftarrow> str_field ''first_name'' kvs;
     n \<leftarrow> str_field ''last_name'' kvs;
     e \<leftarrow> str_field ''default_email'' kvs;
     a \<leftarrow> str_field ''default_avatar_id'' kvs;
     b \<leftarrow> bool_field ''is_avatar_empty'' kvs;
     Some \<lparr>yu_ID = i, yu_Login = l, yu_DisplayName = d, yu_FirstName = f, yu_LastName = n,
       yu_DefaultEmail = e, yu_DefaultAvatarID = a, yu_IsAvatarEmpty = b\<rparr> }"

definition yandex_exchangeCode ::
    "yandex_oauth \<Rightarrow> 'w outside \<Rightarrow> string \<Rightarrow> 'w \<Rightarrow> (app_error + yandex_tokens) \<times> 'w" where
  "yandex_exchangeCode y ext code w =
     (case fetch ext OAuthProviderError
        \<lparr>rq_method = ''POST'', rq_url = yandexTokenURL,
         rq_form = [(''grant_type'', ''authorization_code''), (''code'', code),
           (''client_id'', y_clientID y), (''client_secret'', y_clientSecret y)],
         rq_headers = [(''Content-Type'', ''application/x-www-form-urlencoded'')]\<rparr> w of
        (Inl e, w1) \<Rightarrow> (Inl e, w1)
      | (Inr (status, body), w1) \<Rightarrow>
          (if status \<noteq> 200 then Inl OAuthProviderError
           else (case unmarshal (ext_json ext) dec_yandex_tokens body of
                   None \<Rightarrow> Inl ClientError | Some tokens \<Rightarrow> Inr tokens), w1))"

definition yandex_getUserInfo ::
    "'w outside \<Rightarrow> string \<Rightarrow> 'w \<Rightarrow> (app_error + yandex_user_info) \<times> 'w" where
  "yandex_getUserInfo ext accessToken w =
     (case fetch ext OAuthProviderError
        \<lparr>rq_method = ''GET'', rq_url = yandexUserInfoURL, rq_form = [],
         rq_headers = [(''Authorization'', ''OAuth '' @ accessToken)]\<rparr> w of
        (Inl e, w1) \<Rightarrow> (Inl e, w1)
      | (Inr (status, body), w1) \<Rightarrow>
          (if status \<noteq> 200 then Inl OAuthProviderError
           else (case unmarshal (ext_json ext) dec_yandex_user_info body of
                   None \<Rightarrow> Inl ClientError | Some info \<Rightarrow> Inr info), w1))"

definition yandex_avatar :: "yandex_user_info \<Rightarrow> string" where
  "yandex_avatar info =
     (if yu_DefaultAvatarID info \<noteq> [] \<and> \<not> yu_IsAvatarEmpty info
      then ''https://avatars.yandex.net/get-yapic/'' @ yu_DefaultAvatarID info @ ''/islands-200'' else [])"

definition yandex_Authenticate ::
    "yandex_oauth \<Rightarrow> 'w outside \<Rightarrow> login_request \<Rightarrow> 'w \<Rightarrow> oauth_result result \<times> 'w" where
  "yandex_Authenticate y ext login w =
     (case yandex_exchangeCode y ext (lr_Code login) w of
        (Inl e, w1) \<Rightarrow> (Inl e, w1)
      | (Inr tokens, w1) \<Rightarrow>
          (case yandex_getUserInfo ext (yt_AccessToken tokens) w1 of
             (Inl e, w2) \<Rightarrow> (Inl e, w2)
           | (Inr info, w2) \<Rightarrow>
               (Inr \<lparr>or_ProviderUserID = yu_ID info,
                  or_DisplayName = (if yu_DisplayName info = []
                    then full_name (yu_FirstName info) (yu_LastName info) else yu_DisplayName info),
                  or_AvatarURL = yandex_avatar info, or_Email = yu_DefaultEmail info,
                  or_AccessToken = yt_AccessToken tokens, or_RefreshToken = yt_RefreshToken tokens,
                  or_IDToken = []\<rparr>, w2)))"

section \<open>VK\<close>

record vk_method =
  vkm_URL :: string
  vkm_Method :: string
  vkm_ContentType :: string

record vk_api =
  vk_RedirectURI :: string
  vk_ClientID :: string
  vk_Exchange :: vk_method
  vk_PublicInfo :: vk_method

record vk_tokens =
  vt_RefreshToken :: string
  vt_AccessToken :: string
  vt_IDToken :: string
  vt_TokenType :: string
  vt_ExpiresIn :: int
  vt_UserID :: int
  vt_State :: string
  vt_Scope :: string

record vk_user =
  vu_UserID :: string
  vu_FirstName :: string
  vu_LastName :: string
  vu_Phone :: string
  vu_Avatar :: string
  vu_Email :: string

definition dec_vk_tokens :: "fields \<Rightarrow> vk_tokens option" where
  "dec_vk_tokens kvs = do {
     r \<leftarrow> str_field ''refresh_token'' kvs;
     a \<leftarrow> str_field ''access_token'' kvs;
     i \<leftarrow> str_field ''id_token'' kvs;
     t \<leftarrow> str_field ''token_type'' kvs;
     e \<leftarrow> int_field ''expires_in'' kvs;
     u \<leftarrow> int_field ''user_id'' kvs;
     s \<leftarrow> str_field ''state'' kvs;
     p \<leftarrow> str_field ''scope'' kvs;
     Some \<lparr>vt_RefreshToken = r, vt_AccessToken = a, vt_IDToken = i, vt_TokenType = t, vt_ExpiresIn = e,
       vt_UserID = u, vt_State = s, vt_Scope = p\<rparr> }"

definition dec_vk_user :: "fields \<Rightarrow> vk_user option" where
  "dec_vk_user kvs = do {
     u \<leftarrow> str_field ''user_id'' kvs;
     f \<leftarrow> str_field ''first_name'' kvs;
     l \<leftarrow> str_field ''last_name'' kvs;
     p \<leftarrow> str_field ''phone'' kvs;
     a \<leftarrow> str_field ''avatar'' kvs;
     e \<leftarrow> str_field ''email'' kvs;
     Some \<lparr>vu_UserID = u, vu_FirstName = f, vu_LastName = l, vu_Phone = p, vu_Avatar = a, vu_Email = e\<rparr> }"

definition dec_vk_public_info :: "fields \<Rightarrow> vk_user option" where
  "dec_vk_public_info kvs = obj_field ''user'' kvs \<bind> dec_vk_user"

text \<open>The error documents; only whether they can be decoded decides the error that is returned.\<close>

definition dec_vk_exchange_error :: "fields \<Rightarrow> (string \<times> string) option" where
  "dec_vk_exchange_error kvs = do {
     e \<leftarrow> str_field ''error'' kvs;
     d \<leftarrow> str_field ''error_description'' kvs;
     Some (e, d) }"

definition dec_vk_info_error :: "fields \<Rightarrow> (string \<times> string \<times> string) option" where
  "dec_vk_info_error kvs = do {
     ed \<leftarrow> dec_vk_exchange_error kvs;
     s \<leftarrow> str_field ''state'' kvs;
     Some (fst ed, snd ed, s) }"

definition vk_exchangeCode ::
    "vk_api \<Rightarrow> 'w outside \<Rightarrow> login_request \<Rightarrow> 'w \<Rightarrow> string result \<times> 'w" where
  "vk_exchangeCode a ext login w =
     (case fetch ext VKApiError
        \<lparr>rq_method = vkm_Method (vk_Exchange a), rq_url = vkm_URL (vk_Exchange a),
         rq_form = [(''grant_type'', ''authorization_code''), (''code_verifier'', lr_CodeVerifier login),
           (''redirect_uri'', vk_RedirectURI a), (''code'', lr_Code login), (''client_id'', vk_ClientID a),
           (''device_id'', lr_DeviceID login), (''state'', lr_State login)],
         rq_headers = [(''Content-Type'', vkm_ContentType (vk_Exchange a))]\<rparr> w of
        (Inl e, w1) \<Rightarrow> (Inl e, w1)
      | (Inr (status, body), w1) \<Rightarrow>
          (if status \<noteq> 200 then
             (case unmarshal (ext_json ext) dec_vk_exchange_error body of
                None \<Rightarrow> Inl ClientError | Some _ \<Rightarrow> Inl VKApiError)
           else Inr body, w1))"

definition vk_getPublicInfo :: "vk_api \<Rightarrow> 'w outside \<Rightarrow> string \<Rightarrow> 'w \<Rightarrow> string result \<times> 'w" where
  "vk_getPublicInfo a ext idToken w =
     (case fetch ext ClientError
        \<lparr>rq_method = vkm_Method (vk_PublicInfo a), rq_url = vkm_URL (vk_PublicInfo a),
         rq_form = [(''id_token'', idToken), (''client_id'', vk_ClientID a)],
         rq_headers = [(''Content-Type'', vkm_ContentType (vk_PublicInfo a))]\<rparr> w of
        (Inl e, w1) \<Rightarrow> (Inl e, w1)
      | (Inr (status, body), w1) \<Rightarrow>
          (if status \<noteq> 200 then
             (case unmarshal (ext_json ext) dec_vk_info_error body of
                None \<Rightarrow> Inl ClientError | Some _ \<Rightarrow> Inl VKApiError)
           else Inr body, w1))"

text \<open>The error of \<open>json.Unmarshal\<close> is passed on as it is.\<close>

definition vk_Authenticate ::
    "vk_api \<Rightarrow> 'w outside \<Rightarrow> login_request \<Rightarrow> 'w \<Rightarrow> oauth_result result \<times> 'w" where
  "vk_Authenticate a ext login w =
     (case vk_exchangeCode a ext login w of
        (Inl e, w1) \<Rightarrow> (Inl e, w1)
      | (Inr rawTokens, w1) \<Rightarrow>
          (case unmarshal (ext_json ext) dec_vk_tokens rawTokens of
             None \<Rightarrow> (Inl (OtherError ''json''), w1)
           | Some tokens \<Rightarrow>
               (case vk_getPublicInfo a ext (vt_IDToken tokens) w1 of
                  (Inl e, w2) \<Rightarrow> (Inl e, w2)
                | (Inr rawPublicInfo, w2) \<Rightarrow>
                    (case unmarshal (ext_json ext) dec_vk_public_info rawPublicInfo of
                       None \<Rightarrow> (Inl (OtherError ''json''), w2)
                     | Some info \<Rightarrow>
                         (Inr \<lparr>or_ProviderUserID = vu_UserID info,
                            or_DisplayName = full_name (vu_FirstName info) (vu_LastName info),
                            or_AvatarURL = vu_Avatar info, or_Email = vu_Email info,
                            or_AccessToken = vt_AccessToken tokens, or_RefreshToken = vt_RefreshToken tokens,
                            or_IDToken = vt_IDToken tokens\<rparr>, w2)))))"

section \<open>The providers\<close>

type_synonym 'w provider = "login_request \<Rightarrow> 'w \<Rightarrow> oauth_result result \<times> 'w"

text \<open>The map that \<open>server/app.go\<close> builds from the clients by their names.\<close>

definition oauthProviders ::
    "vk_api \<Rightarrow> google_oauth \<Rightarrow> yandex_oauth \<Rightarrow> 'w outside \<Rightarrow> string \<rightharpoonup> 'w provider" where
  "oauthProviders a g y ext =
     [''vk'' \<mapsto> vk_Authenticate a ext, ''google'' \<mapsto> google_Authenticate g ext,
      ''yandex'' \<mapsto> yandex_Authenticate y ext]"

text \<open>Which errors a provider can end with.\<close>

lemma fetch_Inl: "fetch ext e req w = (Inl e', w') \<Longrightarrow> e' \<in> {ClientError, e}"
  by (auto simp: fetch_def split: prod.splits http_reply.splits)

lemma google_errors:
  "google_Authenticate g ext login w = (Inl e, w') \<Longrightarrow> e \<in> {ClientError, OAuthProviderError}"
  by (auto simp: google_Authenticate_def google_exchangeCode_def google_getUserInfo_def
      split: prod.splits sum.splits if_splits option.splits dest!: fetch_Inl)

lemma yandex_errors:
  "yandex_Authenticate y ext login w = (Inl e, w') \<Longrightarrow> e \<in> {ClientError, OAuthProviderError}"
  by (auto simp: yandex_Authenticate_def yandex_exchangeCode_def yandex_getUserInfo_def
      split: prod.splits sum.splits if_splits option.splits dest!: fetch_Inl)

lemma vk_errors:
  "vk_Authenticate a ext login w = (Inl e, w') \<Longrightarrow> e \<in> {ClientError, VKApiError, OtherError ''json''}"
  by (auto simp: vk_Authenticate_def vk_exchangeCode_def vk_getPublicInfo_def
      split: prod.splits sum.splits if_splits option.splits dest!: fetch_Inl)

end
