(* ===== verification/Auth.thy ===== *)
theory Auth
  imports Responses OAuth
begin

text \<open>
  \<open>internal/pkg/auth\<close>: the repository interfaces, the session manager on Redis, the usecases,
  the handlers and the middleware that lets only logged-in users through.

  The state behind the usecases has three parts, which only the interfaces touch: the database
  \<open>'d\<close>, the session store \<open>'s\<close> and the outside world \<open>'w\<close> of the OAuth providers.
\<close>

section \<open>Models\<close>

record tokens_data =
  td_AccessToken :: string
  td_RefreshToken :: string
  td_IDToken :: string

record user_identity =
  ui_ID :: int
  ui_UserID :: int
  ui_Provider :: string
  ui_ProviderUserID :: string
  ui_Email :: string
  ui_CreatedAt :: string
  ui_LastUsedAt :: string

record session_data =
  sd_Provider :: string
  sd_Tokens :: tokens_data
  sd_User :: user

section \<open>Interfaces\<close>

record 'd auth_repository =
  arepo_GetUserByID :: "int \<Rightarrow> 'd \<Rightarrow> user result \<times> 'd"
  arepo_CreateUser :: "user \<Rightarrow> 'd \<Rightarrow> user result \<times> 'd"
  arepo_CreateUserWithIdentity :: "user \<Rightarrow> user_identity \<Rightarrow> 'd \<Rightarrow> user result \<times> 'd"
  arepo_UpdateUser :: "user \<Rightarrow> 'd \<Rightarrow> user result \<times> 'd"
  arepo_UpdateLastLoginAt :: "int \<Rightarrow> int \<Rightarrow> 'd \<Rightarrow> unit result \<times> 'd"

record 'd identity_repository =
  irepo_FindByProvider :: "string \<Rightarrow> string \<Rightarrow> 'd \<Rightarrow> user_identity result \<times> 'd"
  irepo_CreateIdentity :: "user_identity \<Rightarrow> 'd \<Rightarrow> unit result \<times> 'd"
  irepo_UpdateLastUsed :: "int \<Rightarrow> int \<Rightarrow> 'd \<Rightarrow> unit result \<times> 'd"
  irepo_ListByUserID :: "int \<Rightarrow> 'd \<Rightarrow> user_identity list result \<times> 'd"
  irepo_DeleteByUserAndProvider :: "int \<Rightarrow> string \<Rightarrow> 'd \<Rightarrow> unit result \<times> 'd"

record 's session_manager =
  sman_CreateSession :: "string \<Rightarrow> session_data \<Rightarrow> int \<Rightarrow> 's \<Rightarrow> unit result \<times> 's"
  sman_RemoveSession :: "string \<Rightarrow> 's \<Rightarrow> unit result \<times> 's"
  sman_GetSession :: "string \<Rightarrow> 's \<Rightarrow> session_data option \<times> 's"

record ('d, 's, 'w) auth_usecases =
  au_repo :: "'d auth_repository"
  au_identityRepo :: "'d identity_repository"
  au_providers :: "string \<rightharpoonup> 'w provider"
  au_sessionManager :: "'s session_manager"

record ('d, 's, 'w) backend =
  be_db :: 'd
  be_sessions :: 's
  be_world :: 'w

text \<open>A call to one part of the state.\<close>

definition on_db :: "('d \<Rightarrow> 'r \<times> 'd) \<Rightarrow> ('d, 's, 'w) backend \<Rightarrow> 'r \<times> ('d, 's, 'w) backend" where
  "on_db f b = (case f (be_db b) of (r, d) \<Rightarrow> (r, b\<lparr>be_db := d\<rparr>))"

definition on_sessions :: "('s \<Rightarrow> 'r \<times> 's) \<Rightarrow> ('d, 's, 'w) backend \<Rightarrow> 'r \<times> ('d, 's, 'w) backend" where
  "on_sessions f b = (case f (be_sessions b) of (r, s) \<Rightarrow> (r, b\<lparr>be_sessions := s\<rparr>))"

definition on_world :: "('w \<Rightarrow> 'r \<times> 'w) \<Rightarrow> ('d, 's, 'w) backend \<Rightarrow> 'r \<times> ('d, 's, 'w) backend" where
  "on_world f b = (case f (be_world b) of (r, w) \<Rightarrow> (r, b\<lparr>be_world := w\<rparr>))"

section \<open>Usecases\<close>

definition new_user :: "int \<Rightarrow> oauth_result \<Rightarrow> user" where
  "new_user uid res =
     \<lparr>userID = uid, DisplayName = or_DisplayName res, AvatarURL = or_AvatarURL res, Status = []\<rparr>"

definition new_identity :: "int \<Rightarrow> string \<Rightarrow> oauth_result \<Rightarrow> user_identity" where
  "new_identity uid provider res =
     \<lparr>ui_ID = 0, ui_UserID = uid, ui_Provider = provider, ui_ProviderUserID = or_ProviderUserID res,
      ui_Email = or_Email res, ui_CreatedAt = [], ui_LastUsedAt = []\<rparr>"

text \<open>The user of an identity that was found, brought up to date with the provider.\<close>

definition refresh_user :: "('d, 's, 'w) auth_usecases \<Rightarrow> user \<Rightarrow> oauth_result \<Rightarrow> 'd \<Rightarrow> user result \<times> 'd" where
  "refresh_user uc userDB res d =
     (if DisplayName userDB \<noteq> or_DisplayName res \<or> AvatarURL userDB \<noteq> or_AvatarURL res
      then arepo_UpdateUser (au_repo uc) (new_user (userID userDB) res) d
      else (Inr userDB, d))"

definition login_existing ::
    "('d, 's, 'w) auth_usecases \<Rightarrow> user_identity \<Rightarrow> oauth_result \<Rightarrow> int \<Rightarrow> 'd \<Rightarrow> user result \<times> 'd" where
  "login_existing uc idn res now d =
     (case arepo_GetUserByID (au_repo uc) (ui_UserID idn) d of
        (Inl err, d1) \<Rightarrow> (Inl err, d1)
      | (Inr userDB, d1) \<Rightarrow>
          (case refresh_user uc userDB res d1 of
             (Inl err, d2) \<Rightarrow> (Inl err, d2)
           | (Inr actualUser, d2) \<Rightarrow>
               (Inr actualUser, snd (irepo_UpdateLastUsed (au_identityRepo uc) (ui_ID idn) now d2))))"

text \<open>A new user with the identity; when another login linked it meanwhile, that user.\<close>

definition login_new ::
    "('d, 's, 'w) auth_usecases \<Rightarrow> string \<Rightarrow> oauth_result \<Rightarrow> 'd \<Rightarrow> user result \<times> 'd" where
  "login_new uc provider res d =
     (case arepo_CreateUserWithIdentity (au_repo uc) (new_user 0 res) (new_identity 0 provider res) d of
        (Inr actualUser, d1) \<Rightarrow> (Inr actualUser, d1)
      | (Inl err, d1) \<Rightarrow>
          (if err = IdentityAlreadyLinkedError then
             (case irepo_FindByProvider (au_identityRepo uc) provider (or_ProviderUserID res) d1 of
                (Inl retryErr, d2) \<Rightarrow> (Inl retryErr, d2)
              | (Inr existing, d2) \<Rightarrow> arepo_GetUserByID (au_repo uc) (ui_UserID existing) d2)
           else (Inl err, d1)))"

definition login_user ::
    "('d, 's, 'w) auth_usecases \<Rightarrow> string \<Rightarrow> oauth_result \<Rightarrow> int \<Rightarrow> 'd \<Rightarrow> user result \<times> 'd" where
  "login_user uc provider res now d =
     (case irepo_FindByProvider (au_identityRepo uc) provider (or_ProviderUserID res) d of
        (Inr idn, d1) \<Rightarrow> login_existing uc idn res now d1
      | (Inl err, d1) \<Rightarrow>
          (if err \<noteq> IdentityNotFoundError then (Inl err, d1) else login_new uc provider res d1))"

definition session_of :: "string \<Rightarrow> oauth_result \<Rightarrow> user \<Rightarrow> session_data" where
  "session_of provider res u =
     \<lparr>sd_Provider = provider,
      sd_Tokens = \<lparr>td_AccessToken = or_AccessToken res, td_RefreshToken = or_RefreshToken res,
        td_IDToken = or_IDToken res\<rparr>,
      sd_User = u\<rparr>"

text \<open>\<open>now\<close> and \<open>now2\<close> are the two readings of \<open>time.Now\<close>.\<close>

definition uc_Login ::
    "('d, 's, 'w) auth_usecases \<Rightarrow> string \<Rightarrow> string \<Rightarrow> login_request \<Rightarrow> int \<Rightarrow> int \<Rightarrow> int
     \<Rightarrow> ('d, 's, 'w) backend \<Rightarrow> user result \<times> ('d, 's, 'w) backend" where
  "uc_Login uc provider sessionID loginData sessionDuration now now2 b =
     (case au_providers uc provider of
        None \<Rightarrow> (Inl UnsupportedProviderError, b)
      | Some authenticate \<Rightarrow>
          (case on_world (authenticate loginData) b of
             (Inl err, b1) \<Rightarrow> (Inl err, b1)
           | (Inr res, b1) \<Rightarrow>
               (case on_db (login_user uc provider res now) b1 of
                  (Inl err, b2) \<Rightarrow> (Inl err, b2)
                | (Inr actualUser, b2) \<Rightarrow>
                    (case on_sessions (sman_CreateSession (au_sessionManager uc) sessionID
                            (session_of provider res actualUser) sessionDuration) b2 of
                       (Inl err, b3) \<Rightarrow> (Inl err, b3)
                     | (Inr _, b3) \<Rightarrow>
                         (Inr actualUser,
                          snd (on_db (arepo_UpdateLastLoginAt (au_repo uc) (userID actualUser) now2) b3))))))"

definition uc_Logout ::
    "('d, 's, 'w) auth_usecases \<Rightarrow> string \<Rightarrow> ('d, 's, 'w) backend \<Rightarrow> unit result \<times> ('d, 's, 'w) backend" where
  "uc_Logout uc sessionID = on_sessions (sman_RemoveSession (au_sessionManager uc) sessionID)"

definition uc_CheckAuth ::
    "('d, 's, 'w) auth_usecases \<Rightarrow> string \<Rightarrow> ('d, 's, 'w) backend \<Rightarrow> user option \<times> ('d, 's, 'w) backend" where
  "uc_CheckAuth uc sessionID b =
     (case on_sessions (sman_GetSession (au_sessionManager uc) sessionID) b of
        (None, b1) \<Rightarrow> (None, b1)
      | (Some data, b1) \<Rightarrow> (Some (sd_User data), b1))"

text \<open>The user of a missing session is read through a nil pointer.\<close>

definition uc_GetUserIDBySessionID ::
    "('d, 's, 'w) auth_usecases \<Rightarrow> string \<Rightarrow> ('d, 's, 'w) backend \<Rightarrow> int go \<times> ('d, 's, 'w) backend" where
  "uc_GetUserIDBySessionID uc sessionID b =
     (case on_sessions (sman_GetSession (au_sessionManager uc) sessionID) b of
        (None, b1) \<Rightarrow> (Panic, b1)
      | (Some data, b1) \<Rightarrow> (Return (userID (sd_User data)), b1))"

definition uc_ListIdentities ::
    "('d, 's, 'w) auth_usecases \<Rightarrow> int \<Rightarrow> ('d, 's, 'w) backend
     \<Rightarrow> user_identity list result \<times> ('d, 's, 'w) backend" where
  "uc_ListIdentities uc uid = on_db (irepo_ListByUserID (au_identityRepo uc) uid)"

definition link_user ::
    "('d, 's, 'w) auth_usecases \<Rightarrow> int \<Rightarrow> string \<Rightarrow> oauth_result \<Rightarrow> 'd \<Rightarrow> unit result \<times> 'd" where
  "link_user uc uid provider res d =
     (case irepo_FindByProvider (au_identityRepo uc) provider (or_ProviderUserID res) d of
        (Inr existing, d1) \<Rightarrow>
          (if ui_UserID existing = uid then Inr () else Inl IdentityAlreadyLinkedError, d1)
      | (Inl err, d1) \<Rightarrow>
          (if err \<noteq> IdentityNotFoundError then (Inl err, d1)
           else irepo_CreateIdentity (au_identityRepo uc) (new_identity uid provider res) d1))"

definition uc_LinkIdentity ::
    "('d, 's, 'w) auth_usecases \<Rightarrow> int \<Rightarrow> string \<Rightarrow> login_request \<Rightarrow> ('d, 's, 'w) backend
     \<Rightarrow> unit result \<times> ('d, 's, 'w) backend" where
  "uc_LinkIdentity uc uid provider loginData b =
     (case au_providers uc provider of
        None \<Rightarrow> (Inl UnsupportedProviderError, b)
      | Some authenticate \<Rightarrow>
          (case on_world (authenticate loginData) b of
             (Inl err, b1) \<Rightarrow> (Inl err, b1)
           | (Inr res, b1) \<Rightarrow> on_db (link_user uc uid provider res) b1))"

definition unlink_user ::
    "('d, 's, 'w) auth_usecases \<Rightarrow> int \<Rightarrow> string \<Rightarrow> 'd \<Rightarrow> unit result \<times> 'd" where
  "unlink_user uc uid provider d =
     (case irepo_ListByUserID (au_identityRepo uc) uid d of
        (Inl err, d1) \<Rightarrow> (Inl err, d1)
      | (Inr idns, d1) \<Rightarrow>
          (if length idns \<le> 1 then (Inl LastIdentityError, d1)
           else irepo_DeleteByUserAndProvider (au_identityRepo uc) uid provider d1))"

definition uc_UnlinkIdentity ::
    "('d, 's, 'w) auth_usecases \<Rightarrow> int \<Rightarrow> string \<Rightarrow> ('d, 's, 'w) backend
     \<Rightarrow> unit result \<times> ('d, 's, 'w) backend" where
  "uc_UnlinkIdentity uc uid provider = on_db (unlink_user uc uid provider)"

section \<open>Handlers\<close>

text \<open>
  An answer with its cookie: the session cookie is set to a value until a time, or cleared. A
  204 has no body.
\<close>

datatype cookie = NoCookie | SetSession string int | ClearSession

datatype auth_body = AuthResponse bool "user option" | Identities "user_identity list" | NoContent

type_synonym auth_response = "cookie \<times> auth_body response"

definition all_marshal :: "'b \<Rightarrow> bool" where "all_marshal _ = True"

definition auth_ok :: "cookie \<Rightarrow> auth_body \<Rightarrow> auth_response" where
  "auth_ok c body = (c, SendOkResponse all_marshal (OkBody body))"

definition auth_err :: "int \<Rightarrow> string \<Rightarrow> auth_response" where
  "auth_err code status = (NoCookie, SendErrResponse code status)"

definition createSession :: "string \<Rightarrow> int \<Rightarrow> int \<Rightarrow> cookie" where
  "createSession sessionID now sessionDuration = SetSession sessionID (now + sessionDuration)"

definition clearSession :: cookie where
  "clearSession = ClearSession"

text \<open>
  \<open>new_id\<close> is \<open>uuid.NewString\<close>, \<open>now3\<close> a third reading of the clock; a body that is not the JSON of a login is \<open>None\<close>.
\<close>

definition h_Login ::
    "('d, 's, 'w) auth_usecases \<Rightarrow> int \<Rightarrow> string \<Rightarrow> login_request option \<Rightarrow> string \<Rightarrow> int \<Rightarrow> int \<Rightarrow> int
     \<Rightarrow> ('d, 's, 'w) backend \<Rightarrow> auth_response go \<times> ('d, 's, 'w) backend" where
  "h_Login uc sessionDuration provider body new_id now now2 now3 b =
     (case body of
        None \<Rightarrow> (Return (auth_err StatusBadRequest ErrBadJSON), b)
      | Some reqData \<Rightarrow>
          (case uc_Login uc provider new_id reqData sessionDuration now now2 b of
             (Inl err, b1) \<Rightarrow>
               (Return (if err = UnsupportedProviderError then auth_err StatusBadRequest ErrBadRequest
                        else auth_err StatusInternalServerError
                          (if err = VKApiError then ErrVKServer
                           else if err = OAuthProviderError then ErrOAuthProvider
                           else ErrInternalServer)), b1)
           | (Inr user, b1) \<Rightarrow>
               (Return (auth_ok (createSession new_id now3 sessionDuration) (AuthResponse True (Some user))), b1)))"

text \<open>The handlers get the session cookie of the request, \<open>None\<close> when there is none.\<close>

definition h_Logout ::
    "('d, 's, 'w) auth_usecases \<Rightarrow> string option \<Rightarrow> ('d, 's, 'w) backend
     \<Rightarrow> auth_response go \<times> ('d, 's, 'w) backend" where
  "h_Logout uc session b =
     (case session of
        None \<Rightarrow> (Panic, b)
      | Some sessionID \<Rightarrow>
          (case uc_Logout uc sessionID b of
             (Inl err, b1) \<Rightarrow> (Return (auth_err StatusInternalServerError ErrInternalServer), b1)
           | (Inr _, b1) \<Rightarrow> (Return (auth_ok clearSession (AuthResponse False None)), b1)))"

definition h_CheckAuth ::
    "('d, 's, 'w) auth_usecases \<Rightarrow> string option \<Rightarrow> ('d, 's, 'w) backend
     \<Rightarrow> auth_response go \<times> ('d, 's, 'w) backend" where
  "h_CheckAuth uc session b =
     (case session of
        None \<Rightarrow> (Return (auth_ok NoCookie (AuthResponse False None)), b)
      | Some sessionID \<Rightarrow>
          (case uc_CheckAuth uc sessionID b of
             (None, b1) \<Rightarrow> (Return (auth_ok NoCookie (AuthResponse False None)), b1)
           | (Some user, b1) \<Rightarrow> (Return (auth_ok NoCookie (AuthResponse True (Some user))), b1)))"

definition h_ListIdentities ::
    "('d, 's, 'w) auth_usecases \<Rightarrow> user option \<Rightarrow> ('d, 's, 'w) backend
     \<Rightarrow> auth_response go \<times> ('d, 's, 'w) backend" where
  "h_ListIdentities uc ctx_user =
     with_user ctx_user (\<lambda>user b.
       case uc_ListIdentities uc (userID user) b of
         (Inl err, b1) \<Rightarrow> (Return (auth_err StatusInternalServerError ErrInternalServer), b1)
       | (Inr idns, b1) \<Rightarrow> (Return (auth_ok NoCookie (Identities idns)), b1))"

definition no_content :: auth_response where
  "no_content = (NoCookie, (204, OkBody NoContent))"

definition h_LinkIdentity ::
    "('d, 's, 'w) auth_usecases \<Rightarrow> string \<Rightarrow> login_request option \<Rightarrow> user option \<Rightarrow> ('d, 's, 'w) backend
     \<Rightarrow> auth_response go \<times> ('d, 's, 'w) backend" where
  "h_LinkIdentity uc provider body ctx_user =
     with_user ctx_user (\<lambda>user b.
       case body of
         None \<Rightarrow> (Return (auth_err StatusBadRequest ErrBadJSON), b)
       | Some reqData \<Rightarrow>
           (case uc_LinkIdentity uc (userID user) provider reqData b of
              (Inl err, b1) \<Rightarrow>
                (Return (if err = UnsupportedProviderError then auth_err StatusBadRequest ErrBadRequest
                         else if err = IdentityAlreadyLinkedError
                         then auth_err StatusBadRequest ErrIdentityAlreadyLinked
                         else auth_err StatusInternalServerError ErrInternalServer), b1)
            | (Inr _, b1) \<Rightarrow> (Return no_content, b1)))"

definition h_UnlinkIdentity ::
    "('d, 's, 'w) auth_usecases \<Rightarrow> string \<Rightarrow> user option \<Rightarrow> ('d, 's, 'w) backend
     \<Rightarrow> auth_response go \<times> ('d, 's, 'w) backend" where
  "h_UnlinkIdentity uc provider ctx_user =
     with_user ctx_user (\<lambda>user b.
       case uc_UnlinkIdentity uc (userID user) provider b of
         (Inl err, b1) \<Rightarrow>
           (Return (if err = LastIdentityError then auth_err StatusBadRequest ErrLastIdentity
                    else if err = IdentityNotFoundError then auth_err StatusBadRequest ErrBadRequest
                    else auth_err StatusInternalServerError ErrInternalServer), b1)
       | (Inr _, b1) \<Rightarrow> (Return no_content, b1))"

section \<open>The middleware\<close>

text \<open>\<open>nxt\<close> is the handler behind it, which finds the user in the request context.\<close>

definition LoginRequiredMiddleware ::
    "('d, 's, 'w) auth_usecases
     \<Rightarrow> (user option \<Rightarrow> ('d, 's, 'w) backend \<Rightarrow> 'b response go \<times> ('d, 's, 'w) backend)
     \<Rightarrow> string option \<Rightarrow> ('d, 's, 'w) backend \<Rightarrow> 'b response go \<times> ('d, 's, 'w) backend" where
  "LoginRequiredMiddleware uc nxt session b =
     (case session of
        None \<Rightarrow> (Return (SendErrResponse StatusUnauthorized ErrNotAuthorized), b)
      | Some sessionID \<Rightarrow>
          (case uc_CheckAuth uc sessionID b of
             (None, b1) \<Rightarrow> (Return (SendErrResponse StatusUnauthorized ErrNotAuthorized), b1)
           | (Some user, b1) \<Rightarrow>
               (if Status user \<noteq> [] \<and> Status user \<noteq> ''active''
                then (Return (SendErrResponse StatusForbidden ErrUserInactive), b1)
                else nxt (Some user) b1)))"

section \<open>The contract of the storage\<close>

text \<open>
  What the usecases rely on: \<open>accounts\<close> are the users by id, \<open>links\<close> the user of each external
  identity. Every call may fail and then changes neither.
\<close>

locale auth_store =
  fixes repo :: "'d auth_repository"
    and irepo :: "'d identity_repository"
    and inv :: "'d \<Rightarrow> bool"
    and accounts :: "'d \<Rightarrow> int \<rightharpoonup> user"
    and links :: "'d \<Rightarrow> string \<times> string \<rightharpoonup> int"
  assumes account_id: "inv d \<Longrightarrow> accounts d uid = Some u \<Longrightarrow> userID u = uid"
    and linked_account: "inv d \<Longrightarrow> links d k = Some uid \<Longrightarrow> accounts d uid \<noteq> None"
    and get_user: "inv d \<Longrightarrow> arepo_GetUserByID repo uid d = (r, d') \<Longrightarrow>
        inv d' \<and> accounts d' = accounts d \<and> links d' = links d \<and> (\<forall>u. r = Inr u \<longrightarrow> accounts d uid = Some u)"
    and update_user: "inv d \<Longrightarrow> arepo_UpdateUser repo u d = (r, d') \<Longrightarrow>
        inv d' \<and> links d' = links d \<and>
        ((\<exists>e. r = Inl e) \<and> accounts d' = accounts d \<or>
         (\<exists>old new. r = Inr new \<and> accounts d (userID u) = Some old \<and>
            new = old\<lparr>DisplayName := DisplayName u, AvatarURL := AvatarURL u\<rparr> \<and>
            accounts d' = (accounts d)(userID u \<mapsto> new)))"
    and create_account: "inv d \<Longrightarrow> arepo_CreateUserWithIdentity repo u idn d = (r, d') \<Longrightarrow>
        inv d' \<and>
        ((\<exists>e. r = Inl e) \<and> accounts d' = accounts d \<and> links d' = links d \<or>
         (\<exists>new. r = Inr new \<and> accounts d (userID new) = None \<and>
            accounts d' = (accounts d)(userID new \<mapsto> new) \<and>
            links d (ui_Provider idn, ui_ProviderUserID idn) = None \<and>
            links d' = (links d)((ui_Provider idn, ui_ProviderUserID idn) \<mapsto> userID new)))"
    and last_login: "inv d \<Longrightarrow> arepo_UpdateLastLoginAt repo uid t d = (r1, d') \<Longrightarrow>
        inv d' \<and> accounts d' = accounts d \<and> links d' = links d"
    and find_identity: "inv d \<Longrightarrow> irepo_FindByProvider irepo p q d = (r2, d') \<Longrightarrow>
        inv d' \<and> accounts d' = accounts d \<and> links d' = links d \<and>
        (\<forall>i. r2 = Inr i \<longrightarrow> links d (p, q) = Some (ui_UserID i))"
    and last_used: "inv d \<Longrightarrow> irepo_UpdateLastUsed irepo iid t d = (r1, d') \<Longrightarrow>
        inv d' \<and> accounts d' = accounts d \<and> links d' = links d"
    and create_identity: "inv d \<Longrightarrow> irepo_CreateIdentity irepo idn d = (r1, d') \<Longrightarrow>
        inv d' \<and> accounts d' = accounts d \<and>
        ((\<exists>e. r1 = Inl e) \<and> links d' = links d \<or>
         r1 = Inr () \<and> links d (ui_Provider idn, ui_ProviderUserID idn) = None \<and>
           links d' = (links d)((ui_Provider idn, ui_ProviderUserID idn) \<mapsto> ui_UserID idn))"
    and list_identities: "inv d \<Longrightarrow> irepo_ListByUserID irepo uid d = (r3, d') \<Longrightarrow>
        inv d' \<and> accounts d' = accounts d \<and> links d' = links d \<and>
        (\<forall>is. r3 = Inr is \<longrightarrow> distinct (map ui_Provider is) \<and>
           (\<forall>i \<in> set is. ui_UserID i = uid \<and> links d (ui_Provider i, ui_ProviderUserID i) = Some uid))"
    and delete_identity: "inv d \<Longrightarrow> irepo_DeleteByUserAndProvider irepo uid p d = (r1, d') \<Longrightarrow>
        inv d' \<and> accounts d' = accounts d \<and>
        ((\<exists>e. r1 = Inl e) \<and> links d' = links d \<or>
         r1 = Inr () \<and> links d' = (\<lambda>k. if fst k = p \<and> links d k = Some uid then None else links d k))"
begin

text \<open>What a login may do to the database.\<close>

definition login_effect :: "string \<times> string \<Rightarrow> 'd \<Rightarrow> user result \<Rightarrow> 'd \<Rightarrow> bool" where
  "login_effect k d r d' \<longleftrightarrow> inv d' \<and>
     (\<forall>k'. k' \<noteq> k \<or> links d k' \<noteq> None \<longrightarrow> links d' k' = links d k') \<and>
     (\<forall>uid. links d' k \<noteq> Some uid \<longrightarrow> accounts d' uid = accounts d uid) \<and>
     (\<forall>uid u. accounts d uid = Some u \<longrightarrow> (\<exists>u'. accounts d' uid = Some u' \<and> Status u' = Status u)) \<and>
     (\<forall>u. r = Inr u \<longrightarrow> links d' k = Some (userID u) \<and> accounts d' (userID u) = Some u)"

lemma login_effect_refl: "inv d \<Longrightarrow> login_effect k d (Inl e) d"
  by (simp add: login_effect_def)

lemma login_effect_same:
  assumes "inv d'" and "accounts d' = accounts d" and "links d' = links d"
    and "\<forall>u. r = Inr u \<longrightarrow> links d k = Some (userID u) \<and> accounts d (userID u) = Some u"
  shows "login_effect k d r d'"
  using assms by (auto simp: login_effect_def)

lemma login_effect_cong:
  assumes "login_effect k d1 r d'" and "accounts d1 = accounts d" and "links d1 = links d"
  shows "login_effect k d r d'"
  using assms by (simp add: login_effect_def)

lemma login_effect_then:
  assumes "login_effect k d r d1" and "inv d'" and "accounts d' = accounts d1" and "links d' = links d1"
  shows "login_effect k d r d'"
  using assms by (simp add: login_effect_def)

lemma login_existing:
  assumes inv: "inv d" and uc: "au_repo uc = repo" "au_identityRepo uc = irepo"
    and link: "links d k = Some (ui_UserID idn)"
    and run: "login_existing uc idn res now d = (r, d')"
  shows "login_effect k d r d'"
proof -
  obtain g d1 where g: "arepo_GetUserByID repo (ui_UserID idn) d = (g, d1)" by fastforce
  note kg = get_user [OF inv g]
  show ?thesis
  proof (cases g)
    case (Inl err)
    with run g uc have "r = Inl err" "d' = d1" by (simp_all add: login_existing_def)
    with kg show ?thesis by (intro login_effect_same) auto
  next
    case (Inr u)
    with kg have u: "accounts d (ui_UserID idn) = Some u" by simp
    with inv have uid: "userID u = ui_UserID idn" by (rule account_id)
    obtain a d2 where a: "refresh_user uc u res d1 = (a, d2)" by fastforce
    have e2: "login_effect k d a d2"
    proof (cases "DisplayName u \<noteq> or_DisplayName res \<or> AvatarURL u \<noteq> or_AvatarURL res")
      case True
      then have up: "arepo_UpdateUser repo (new_user (userID u) res) d1 = (a, d2)"
        using a uc by (simp add: refresh_user_def)
      from kg have "inv d1" by simp
      from update_user [OF this up] kg link u uid show ?thesis
        by (elim conjE disjE exE) (auto simp: login_effect_def new_user_def)
    next
      case False
      then have "a = Inr u" "d2 = d1" using a by (simp_all add: refresh_user_def)
      with kg link u uid show ?thesis by (intro login_effect_same) auto
    qed
    show ?thesis
    proof (cases a)
      case (Inl err)
      with run g uc Inr a have "r = a" "d' = d2" by (simp_all add: login_existing_def)
      with e2 show ?thesis by simp
    next
      case (Inr u2)
      obtain x d3 where x: "irepo_UpdateLastUsed irepo (ui_ID idn) now d2 = (x, d3)" by fastforce
      from run g uc a x Inr \<open>g = Inr u\<close> have "r = a" "d' = d3" by (simp_all add: login_existing_def)
      with e2 last_used [OF _ x] show ?thesis by (auto simp: login_effect_def)
    qed
  qed
qed

lemma login_new:
  assumes inv: "inv d" and uc: "au_repo uc = repo" "au_identityRepo uc = irepo"
    and run: "login_new uc p res d = (r, d')"
  shows "login_effect (p, or_ProviderUserID res) d r d'"
proof -
  let ?k = "(p, or_ProviderUserID res)"
  obtain c d1 where c: "arepo_CreateUserWithIdentity repo (new_user 0 res) (new_identity 0 p res) d = (c, d1)"
    by fastforce
  note kc = create_account [OF inv c]
  show ?thesis
  proof (cases c)
    case (Inr u)
    with run c uc have "r = Inr u" "d' = d1" by (simp_all add: login_new_def)
    with kc Inr show ?thesis by (auto simp: login_effect_def new_identity_def)
  next
    case (Inl err)
    with kc have s1: "inv d1" "accounts d1 = accounts d" "links d1 = links d" by auto
    show ?thesis
    proof (cases "err = IdentityAlreadyLinkedError")
      case False
      with run c uc Inl have "r = Inl err" "d' = d1" by (simp_all add: login_new_def)
      with s1 show ?thesis by (intro login_effect_same) auto
    next
      case True
      obtain f d2 where f: "irepo_FindByProvider irepo p (or_ProviderUserID res) d1 = (f, d2)" by fastforce
      note kf = find_identity [OF s1(1) f]
      show ?thesis
      proof (cases f)
        case (Inl err2)
        with run c uc \<open>c = Inl err\<close> True f have "r = Inl err2" "d' = d2" by (simp_all add: login_new_def)
        with s1 kf show ?thesis by (intro login_effect_same) auto
      next
        case (Inr idn)
        with run c uc \<open>c = Inl err\<close> True f have g: "arepo_GetUserByID repo (ui_UserID idn) d2 = (r, d')"
          by (simp add: login_new_def)
        from kf have "inv d2" by simp
        from get_user [OF this g] kf s1 Inr account_id [OF inv] show ?thesis
          by (intro login_effect_same) auto
      qed
    qed
  qed
qed

lemma login_user:
  assumes inv: "inv d" and uc: "au_repo uc = repo" "au_identityRepo uc = irepo"
    and run: "login_user uc p res now d = (r, d')"
  shows "login_effect (p, or_ProviderUserID res) d r d'"
proof -
  obtain f d1 where f: "irepo_FindByProvider irepo p (or_ProviderUserID res) d = (f, d1)" by fastforce
  from find_identity [OF inv f] have s1: "inv d1" "accounts d1 = accounts d" "links d1 = links d"
    and found: "\<forall>i. f = Inr i \<longrightarrow> links d (p, or_ProviderUserID res) = Some (ui_UserID i)" by simp_all
  show ?thesis
  proof (cases f)
    case (Inr idn)
    with run f uc have "login_existing uc idn res now d1 = (r, d')" by (simp add: login_user_def)
    from login_existing [OF s1(1) uc _ this] found s1 Inr show ?thesis
      by (intro login_effect_cong [OF _ s1(2,3)]) auto
  next
    case (Inl err)
    show ?thesis
    proof (cases "err = IdentityNotFoundError")
      case True
      with run f uc Inl have "login_new uc p res d1 = (r, d')" by (simp add: login_user_def)
      from login_effect_cong [OF login_new [OF s1(1) uc this] s1(2,3)] show ?thesis .
    next
      case False
      with run f uc Inl have "r = Inl err" "d' = d1" by (simp_all add: login_user_def)
      with s1 show ?thesis by (intro login_effect_same) auto
    qed
  qed
qed

text \<open>Linking adds at most the one link, to the user who asked, and never moves a link.\<close>

lemma link_user:
  assumes inv: "inv d" and uc: "au_repo uc = repo" "au_identityRepo uc = irepo"
    and run: "link_user uc uid p res d = (r, d')"
  shows "inv d' \<and> accounts d' = accounts d \<and>
    ((\<exists>e. r = Inl e) \<and> links d' = links d \<or>
     r = Inr () \<and> links d (p, or_ProviderUserID res) \<in> {None, Some uid} \<and>
       links d' = (links d)((p, or_ProviderUserID res) \<mapsto> uid))"
proof -
  let ?k = "(p, or_ProviderUserID res)"
  obtain f d1 where f: "irepo_FindByProvider irepo p (or_ProviderUserID res) d = (f, d1)" by fastforce
  from find_identity [OF inv f] have s1: "inv d1" "accounts d1 = accounts d" "links d1 = links d"
    and found: "\<forall>i. f = Inr i \<longrightarrow> links d ?k = Some (ui_UserID i)" by simp_all
  show ?thesis
  proof (cases f)
    case (Inr idn)
    with run f uc have "r = (if ui_UserID idn = uid then Inr () else Inl IdentityAlreadyLinkedError)" "d' = d1"
      by (simp_all add: link_user_def)
    with s1 found Inr show ?thesis by (auto simp: fun_upd_idem)
  next
    case (Inl err)
    show ?thesis
    proof (cases "err = IdentityNotFoundError")
      case False
      with run f uc Inl have "r = Inl err" "d' = d1" by (simp_all add: link_user_def)
      with s1 show ?thesis by simp
    next
      case True
      with run f uc Inl have c: "irepo_CreateIdentity irepo (new_identity uid p res) d1 = (r, d')"
        by (simp add: link_user_def)
      from create_identity [OF s1(1) c] s1 show ?thesis by (auto simp: new_identity_def)
    qed
  qed
qed

text \<open>Unlinking leaves the user with an identity.\<close>

lemma unlink_user:
  assumes inv: "inv d" and uc: "au_repo uc = repo" "au_identityRepo uc = irepo"
    and run: "unlink_user uc uid p d = (r, d')"
  shows "inv d' \<and> accounts d' = accounts d \<and>
    ((\<exists>e. r = Inl e) \<and> links d' = links d \<or>
     r = Inr () \<and> links d' = (\<lambda>k. if fst k = p \<and> links d k = Some uid then None else links d k) \<and>
       (\<exists>k. links d' k = Some uid))"
proof -
  obtain l d1 where l: "irepo_ListByUserID irepo uid d = (l, d1)" by fastforce
  from list_identities [OF inv l] have s1: "inv d1" "accounts d1 = accounts d" "links d1 = links d"
    and ids: "\<forall>is. l = Inr is \<longrightarrow> distinct (map ui_Provider is) \<and>
           (\<forall>i \<in> set is. links d (ui_Provider i, ui_ProviderUserID i) = Some uid)" by auto
  show ?thesis
  proof (cases l)
    case (Inl err)
    with run l uc have "r = Inl err" "d' = d1" by (simp_all add: unlink_user_def)
    with s1 show ?thesis by simp
  next
    case (Inr "is")
    show ?thesis
    proof (cases "length is \<le> 1")
      case True
      with run l uc Inr have "r = Inl LastIdentityError" "d' = d1" by (simp_all add: unlink_user_def)
      with s1 show ?thesis by simp
    next
      case False
      with run l uc Inr have x: "irepo_DeleteByUserAndProvider irepo uid p d1 = (r, d')"
        by (simp add: unlink_user_def)
      obtain i j where "i \<in> set is" "j \<in> set is" "ui_Provider i \<noteq> ui_Provider j"
      proof -
        from False obtain i j js where "is = i # j # js" by (metis One_nat_def length_Suc_conv le_Suc_eq le_zero_eq list.exhaust list.size(3) nat_le_linear)
        with ids Inr that [of i j] show thesis by auto
      qed
      then obtain k where "k \<in> set is" "ui_Provider k \<noteq> p" by metis
      with ids Inr have "links d (ui_Provider k, ui_ProviderUserID k) = Some uid" "ui_Provider k \<noteq> p" by auto
      with delete_identity [OF s1(1) x] s1 show ?thesis
        by (elim conjE disjE) (simp, force)
    qed
  qed
qed

end

end
