(* ===== verification/AuthStorage.thy ===== *)
theory AuthStorage
  imports Auth EncounterStorage
begin

text \<open>
  \<open>internal/pkg/auth/repository\<close>: users and identities in Postgres and sessions in Redis, the
  contract the usecases rely on, and its interpretation on the storage.
\<close>

section \<open>Queries on users\<close>

definition has_id :: "int \<Rightarrow> user_row \<Rightarrow> bool" where
  "has_id uid row \<longleftrightarrow> userID (row_user row) = uid"

definition GetUserByIDQuery :: "int \<Rightarrow> postgres \<Rightarrow> user option" where
  "GetUserByIDQuery uid db = map_option row_user (find (has_id uid) (users db))"

text \<open>The constraints on a name and an avatar.\<close>

definition user_checks :: "string \<Rightarrow> string \<Rightarrow> go_error option" where
  "user_checks name avatar =
     (if \<not> pg_text name \<or> \<not> pg_text avatar then Some (PgError ''22021'' '''')
      else if name = [] then Some (check_violation ''user_name_check'')
      else if 100 \<le> char_length name then Some (check_violation ''max_len_name'')
      else if avatar = [] then Some (check_violation ''user_avatar_check'')
      else None)"

definition CreateUserQuery :: "string \<Rightarrow> string \<Rightarrow> user dbcall" where
  "CreateUserQuery name avatar db =
     (let uid = user_seq db; db1 = db\<lparr>user_seq := uid + 1\<rparr> in
      case user_checks name avatar of
        Some err \<Rightarrow> (Inl err, db1)
      | None \<Rightarrow>
          if \<exists>row \<in> set (users db). has_id uid row then (Inl (unique_violation ''user_pkey''), db1)
          else
            (let u = \<lparr>userID = uid, DisplayName = name, AvatarURL = avatar, Status = ''active''\<rparr>
             in (Inr u, db1\<lparr>users := users db @ [\<lparr>row_user = u, last_login_at = None\<rparr>]\<rparr>)))"

definition set_profile :: "string \<Rightarrow> string \<Rightarrow> user_row \<Rightarrow> user_row" where
  "set_profile name avatar row =
     row\<lparr>row_user := (row_user row)\<lparr>DisplayName := name, AvatarURL := avatar\<rparr>\<rparr>"

definition UpdateUserQuery :: "int \<Rightarrow> string \<Rightarrow> string \<Rightarrow> user dbcall" where
  "UpdateUserQuery uid name avatar db =
     (case find (has_id uid) (users db) of
        None \<Rightarrow> (Inl ErrNoRows, db)
      | Some row \<Rightarrow>
          (case user_checks name avatar of
             Some err \<Rightarrow> (Inl err, db)
           | None \<Rightarrow> (Inr (row_user (set_profile name avatar row)),
               db\<lparr>users := update_where (has_id uid) (set_profile name avatar) (users db)\<rparr>)))"

definition UpdateLastLoginAtQuery :: "int \<Rightarrow> int \<Rightarrow> unit dbcall" where
  "UpdateLastLoginAtQuery t uid db =
     (Inr (), db\<lparr>users := update_where (has_id uid) (\<lambda>row. row\<lparr>last_login_at := Some t\<rparr>) (users db)\<rparr>)"

section \<open>Queries on identities\<close>

definition is_identity :: "string \<Rightarrow> string \<Rightarrow> identity_row \<Rightarrow> bool" where
  "is_identity provider puid row \<longleftrightarrow> ident_provider row = provider \<and> ident_provider_user_id row = puid"

definition of_user :: "int \<Rightarrow> string \<Rightarrow> identity_row \<Rightarrow> bool" where
  "of_user uid provider row \<longleftrightarrow> ident_user_id row = uid \<and> ident_provider row = provider"

definition FindIdentityByProviderQuery :: "string \<Rightarrow> string \<Rightarrow> postgres \<Rightarrow> identity_row option" where
  "FindIdentityByProviderQuery provider puid db = find (is_identity provider puid) (identities db)"

definition identity_row_of :: "int \<Rightarrow> string \<Rightarrow> string \<Rightarrow> string \<Rightarrow> postgres \<Rightarrow> identity_row" where
  "identity_row_of uid provider puid email db =
     \<lparr>ident_id = identity_seq db, ident_user_id = uid, ident_provider = provider,
      ident_provider_user_id = puid, ident_email = Some email, ident_created_at = clock db,
      ident_last_used_at = None\<rparr>"

text \<open>
  The insertion of an identity. The id comes from a sequence; the unique indexes are tried in
  the order of their creation, the reference to the user at the end of the statement.
\<close>

definition insert_identity :: "int \<Rightarrow> string \<Rightarrow> string \<Rightarrow> string \<Rightarrow> nat dbcall" where
  "insert_identity uid provider puid email db =
     (let db1 = db\<lparr>identity_seq := identity_seq db + 1\<rparr> in
      if \<exists>row \<in> set (identities db). of_user uid provider row
      then (Inl (unique_violation ''uq_identity_user_provider''), db1)
      else if \<not> (\<exists>row \<in> set (users db). has_id uid row)
      then (Inl (foreign_key_violation ''user_identity_user_id_fkey''), db1)
      else (Inr 1, db1\<lparr>identities := identities db @ [identity_row_of uid provider puid email db]\<rparr>))"

definition bad_texts :: "string list \<Rightarrow> bool" where
  "bad_texts xs \<longleftrightarrow> \<not> list_all pg_text xs"

definition CreateIdentityQuery :: "int \<Rightarrow> string \<Rightarrow> string \<Rightarrow> string \<Rightarrow> nat dbcall" where
  "CreateIdentityQuery uid provider puid email db =
     (if bad_texts [provider, puid, email] then (Inl (PgError ''22021'' ''''), db)
      else if \<exists>row \<in> set (identities db). is_identity provider puid row
      then (Inl (unique_violation ''uq_identity_provider''), db\<lparr>identity_seq := identity_seq db + 1\<rparr>)
      else insert_identity uid provider puid email db)"

text \<open>The result of \<open>ON CONFLICT DO NOTHING\<close> is the number of rows inserted.\<close>

definition CreateIdentityOnConflictQuery :: "int \<Rightarrow> string \<Rightarrow> string \<Rightarrow> string \<Rightarrow> nat dbcall" where
  "CreateIdentityOnConflictQuery uid provider puid email db =
     (if bad_texts [provider, puid, email] then (Inl (PgError ''22021'' ''''), db)
      else if \<exists>row \<in> set (identities db). is_identity provider puid row
      then (Inr 0, db\<lparr>identity_seq := identity_seq db + 1\<rparr>)
      else insert_identity uid provider puid email db)"

definition UpdateIdentityLastUsedQuery :: "int \<Rightarrow> int \<Rightarrow> unit dbcall" where
  "UpdateIdentityLastUsedQuery t iid db =
     (Inr (), db\<lparr>identities := update_where (\<lambda>row. ident_id row = iid)
        (\<lambda>row. row\<lparr>ident_last_used_at := Some t\<rparr>) (identities db)\<rparr>)"

definition ListIdentitiesByUserIDQuery :: "int \<Rightarrow> postgres \<Rightarrow> go_error + identity_row list" where
  "ListIdentitiesByUserIDQuery uid db =
     Inr (sort_key ident_created_at (filter (\<lambda>row. ident_user_id row = uid) (identities db)))"

definition DeleteIdentityByUserAndProviderQuery :: "int \<Rightarrow> string \<Rightarrow> nat dbcall" where
  "DeleteIdentityByUserAndProviderQuery uid provider db =
     (if \<not> pg_text provider then (Inl (PgError ''22021'' ''''), db)
      else (Inr (length (filter (of_user uid provider) (identities db))),
            db\<lparr>identities := delete_where (of_user uid provider) (identities db)\<rparr>))"

section \<open>The storage of users\<close>

definition asto_GetUserByID :: "int \<Rightarrow> postgres \<Rightarrow> user result \<times> postgres" where
  "asto_GetUserByID uid db =
     (case query_row (GetUserByIDQuery uid) db of
        (Inl _, db1) \<Rightarrow> (Inl UserDoesNotExistError, db1)
      | (Inr u, db1) \<Rightarrow> (Inr u, db1))"

definition tx_result :: "'a dbcall \<Rightarrow> postgres \<Rightarrow> 'a result \<times> postgres" where
  "tx_result body db =
     (case transaction body db of
        (Inl err, db1) \<Rightarrow>
          (Inl (if err = Sentinel IdentityAlreadyLinkedError then IdentityAlreadyLinkedError else TxError), db1)
      | (Inr x, db1) \<Rightarrow> (Inr x, db1))"

definition asto_CreateUser :: "user \<Rightarrow> postgres \<Rightarrow> user result \<times> postgres" where
  "asto_CreateUser u = tx_result (exec (CreateUserQuery (DisplayName u) (AvatarURL u)))"

definition asto_UpdateUser :: "user \<Rightarrow> postgres \<Rightarrow> user result \<times> postgres" where
  "asto_UpdateUser u = tx_result (exec (UpdateUserQuery (userID u) (DisplayName u) (AvatarURL u)))"

definition create_both :: "user \<Rightarrow> user_identity \<Rightarrow> user dbcall" where
  "create_both u idn =
     db_bind (exec (CreateUserQuery (DisplayName u) (AvatarURL u))) (\<lambda>dbUser.
     db_bind (exec (CreateIdentityOnConflictQuery (userID dbUser) (ui_Provider idn) (ui_ProviderUserID idn)
         (ui_Email idn))) (\<lambda>affected db.
       (if affected = 0 then Inl (Sentinel IdentityAlreadyLinkedError) else Inr dbUser, db)))"

definition asto_CreateUserWithIdentity ::
    "user \<Rightarrow> user_identity \<Rightarrow> postgres \<Rightarrow> user result \<times> postgres" where
  "asto_CreateUserWithIdentity u idn = tx_result (create_both u idn)"

definition asto_UpdateLastLoginAt :: "int \<Rightarrow> int \<Rightarrow> postgres \<Rightarrow> unit result \<times> postgres" where
  "asto_UpdateLastLoginAt uid t db =
     (case exec (UpdateLastLoginAtQuery t uid) db of
        (Inl err, db1) \<Rightarrow> (Inl (OtherError ''driver''), db1)
      | (Inr _, db1) \<Rightarrow> (Inr (), db1))"

definition authStorage :: "postgres auth_repository" where
  "authStorage =
     \<lparr>arepo_GetUserByID = asto_GetUserByID,
      arepo_CreateUser = asto_CreateUser,
      arepo_CreateUserWithIdentity = asto_CreateUserWithIdentity,
      arepo_UpdateUser = asto_UpdateUser,
      arepo_UpdateLastLoginAt = asto_UpdateLastLoginAt\<rparr>"

section \<open>The storage of identities\<close>

definition email_text :: "identity_row \<Rightarrow> string" where
  "email_text row = (case ident_email row of None \<Rightarrow> [] | Some e \<Rightarrow> e)"

definition identity_of :: "string \<Rightarrow> identity_row \<Rightarrow> user_identity" where
  "identity_of created row =
     \<lparr>ui_ID = ident_id row, ui_UserID = ident_user_id row, ui_Provider = ident_provider row,
      ui_ProviderUserID = ident_provider_user_id row, ui_Email = email_text row, ui_CreatedAt = created,
      ui_LastUsedAt = []\<rparr>"

text \<open>Every error, also of the connection, is reported as an identity that is not found.\<close>

definition isto_FindByProvider ::
    "string \<Rightarrow> string \<Rightarrow> postgres \<Rightarrow> user_identity result \<times> postgres" where
  "isto_FindByProvider provider puid db =
     (case query_row (FindIdentityByProviderQuery provider puid) db of
        (Inl _, db1) \<Rightarrow> (Inl IdentityNotFoundError, db1)
      | (Inr row, db1) \<Rightarrow> (Inr (identity_of [] row), db1))"

definition isto_CreateIdentity :: "user_identity \<Rightarrow> postgres \<Rightarrow> unit result \<times> postgres" where
  "isto_CreateIdentity idn db =
     (case exec (CreateIdentityQuery (ui_UserID idn) (ui_Provider idn) (ui_ProviderUserID idn) (ui_Email idn)) db of
        (Inl err, db1) \<Rightarrow>
          (Inl (if err = PgError ''23505'' ''uq_identity_provider'' then IdentityAlreadyLinkedError else TxError), db1)
      | (Inr _, db1) \<Rightarrow> (Inr (), db1))"

definition isto_UpdateLastUsed :: "int \<Rightarrow> int \<Rightarrow> postgres \<Rightarrow> unit result \<times> postgres" where
  "isto_UpdateLastUsed iid t db =
     (case exec (UpdateIdentityLastUsedQuery t iid) db of
        (Inl err, db1) \<Rightarrow> (Inl (OtherError ''driver''), db1)
      | (Inr _, db1) \<Rightarrow> (Inr (), db1))"

text \<open>
  The loop over the rows. \<open>scan_text\<close> is the driver's conversion of a \<open>timestamptz\<close> into a
  Go string, \<open>None\<close> when it refuses it; the first row that cannot be scanned ends the loop.
\<close>

fun scan_identities :: "(int \<Rightarrow> string option) \<Rightarrow> identity_row list \<Rightarrow> user_identity list option" where
  "scan_identities scan_text [] = Some []"
| "scan_identities scan_text (row # rows) =
     (case scan_text (ident_created_at row) of
        None \<Rightarrow> None
      | Some created \<Rightarrow> map_option (\<lambda>r. identity_of created row # r) (scan_identities scan_text rows))"

definition isto_ListByUserID ::
    "(int \<Rightarrow> string option) \<Rightarrow> int \<Rightarrow> postgres \<Rightarrow> user_identity list result \<times> postgres" where
  "isto_ListByUserID scan_text uid db =
     (case query_rows (ListIdentitiesByUserIDQuery uid) db of
        (Inl err, db1) \<Rightarrow> (Inl (OtherError ''driver''), db1)
      | (Inr (rows, rows_err), db1) \<Rightarrow>
          (case scan_identities scan_text rows of
             None \<Rightarrow> (Inl (OtherError ''scan''), db1)
           | Some idns \<Rightarrow> (if rows_err \<noteq> None then Inl (OtherError ''driver'') else Inr idns, db1)))"

definition isto_DeleteByUserAndProvider :: "int \<Rightarrow> string \<Rightarrow> postgres \<Rightarrow> unit result \<times> postgres" where
  "isto_DeleteByUserAndProvider uid provider db =
     (case exec (DeleteIdentityByUserAndProviderQuery uid provider) db of
        (Inl err, db1) \<Rightarrow> (Inl TxError, db1)
      | (Inr affected, db1) \<Rightarrow> (if affected = 0 then Inl IdentityNotFoundError else Inr (), db1))"

definition identityStorage :: "(int \<Rightarrow> string option) \<Rightarrow> postgres identity_repository" where
  "identityStorage scan_text =
     \<lparr>irepo_FindByProvider = isto_FindByProvider,
      irepo_CreateIdentity = isto_CreateIdentity,
      irepo_UpdateLastUsed = isto_UpdateLastUsed,
      irepo_ListByUserID = isto_ListByUserID scan_text,
      irepo_DeleteByUserAndProvider = isto_DeleteByUserAndProvider\<rparr>"

section \<open>Sessions in Redis\<close>

text \<open>
  A store with a value and an expiry time per key, a clock, and the schedule of what happens to
  the coming commands (\<open>True\<close>: served). Times and durations are in the clock's unit.
\<close>

record redis =
  r_entries :: "string \<rightharpoonup> string \<times> int option"
  r_now :: int
  r_served :: "bool list"

definition redis_turn :: "redis \<Rightarrow> bool \<times> redis" where
  "redis_turn r = (case r_served r of [] \<Rightarrow> (True, r) | b # bs \<Rightarrow> (b, r\<lparr>r_served := bs\<rparr>))"

definition alive :: "redis \<Rightarrow> string \<Rightarrow> string option" where
  "alive r key =
     (case r_entries r key of
        None \<Rightarrow> None
      | Some (v, None) \<Rightarrow> Some v
      | Some (v, Some t) \<Rightarrow> (if r_now r < t then Some v else None))"

text \<open>\<open>Set\<close>: no expiry unless the duration is positive; \<open>redis.KeepTTL\<close> is -1.\<close>

definition redis_expiry :: "redis \<Rightarrow> string \<Rightarrow> int \<Rightarrow> int option" where
  "redis_expiry r key d =
     (if 0 < d then Some (r_now r + d)
      else if d = -1 \<and> alive r key \<noteq> None then snd (the (r_entries r key))
      else None)"

definition redis_Set :: "string \<Rightarrow> string \<Rightarrow> int \<Rightarrow> redis \<Rightarrow> bool \<times> redis" where
  "redis_Set key v d r =
     (case redis_turn r of
        (False, r1) \<Rightarrow> (False, r1)
      | (True, r1) \<Rightarrow> (True, r1\<lparr>r_entries := (r_entries r1)(key \<mapsto> (v, redis_expiry r1 key d))\<rparr>))"

definition redis_Get :: "string \<Rightarrow> redis \<Rightarrow> string option \<times> redis" where
  "redis_Get key r =
     (case redis_turn r of (False, r1) \<Rightarrow> (None, r1) | (True, r1) \<Rightarrow> (alive r1 key, r1))"

definition redis_Del :: "string \<Rightarrow> redis \<Rightarrow> bool \<times> redis" where
  "redis_Del key r =
     (case redis_turn r of
        (False, r1) \<Rightarrow> (False, r1)
      | (True, r1) \<Rightarrow> (True, r1\<lparr>r_entries := (r_entries r1)(key := None)\<rparr>))"

text \<open>The JSON of a session; empty avatars and statuses are omitted.\<close>

definition opt_str :: "string \<Rightarrow> string \<Rightarrow> fields" where
  "opt_str name s = (if s = [] then [] else [(name, JStr s)])"

definition marshal_user :: "user \<Rightarrow> json" where
  "marshal_user u = JObj
     ([(''id'', JNum (itoa (userID u))), (''displayName'', JStr (DisplayName u))] @
      opt_str ''avatarUrl'' (AvatarURL u) @ opt_str ''status'' (Status u))"

definition marshal_session :: "session_data \<Rightarrow> json" where
  "marshal_session s = JObj
     [(''provider'', JStr (sd_Provider s)),
      (''tokens'', JObj [(''accessToken'', JStr (td_AccessToken (sd_Tokens s))),
         (''refreshToken'', JStr (td_RefreshToken (sd_Tokens s))), (''idToken'', JStr (td_IDToken (sd_Tokens s)))]),
      (''user'', marshal_user (sd_User s))]"

definition dec_tokens :: "fields \<Rightarrow> tokens_data option" where
  "dec_tokens kvs = do {
     a \<leftarrow> str_field ''accessToken'' kvs;
     r \<leftarrow> str_field ''refreshToken'' kvs;
     i \<leftarrow> str_field ''idToken'' kvs;
     Some \<lparr>td_AccessToken = a, td_RefreshToken = r, td_IDToken = i\<rparr> }"

definition dec_user :: "fields \<Rightarrow> user option" where
  "dec_user kvs = do {
     i \<leftarrow> int_field ''id'' kvs;
     d \<leftarrow> str_field ''displayName'' kvs;
     a \<leftarrow> str_field ''avatarUrl'' kvs;
     s \<leftarrow> str_field ''status'' kvs;
     Some \<lparr>userID = i, DisplayName = d, AvatarURL = a, Status = s\<rparr> }"

definition dec_session :: "fields \<Rightarrow> session_data option" where
  "dec_session kvs = do {
     p \<leftarrow> str_field ''provider'' kvs;
     t \<leftarrow> obj_field ''tokens'' kvs \<bind> dec_tokens;
     u \<leftarrow> obj_field ''user'' kvs \<bind> dec_user;
     Some \<lparr>sd_Provider = p, sd_Tokens = t, sd_User = u\<rparr> }"

text \<open>Decoding into a pointer: null gives a nil pointer.\<close>

fun unmarshal_session :: "json \<Rightarrow> session_data option" where
  "unmarshal_session (JObj kvs) = dec_session kvs"
| "unmarshal_session _ = None"

definition sm_GetSession ::
    "(string \<Rightarrow> json option) \<Rightarrow> string \<Rightarrow> redis \<Rightarrow> session_data option \<times> redis" where
  "sm_GetSession parse sessionID r =
     (case redis_Get sessionID r of
        (raw, r1) \<Rightarrow> (parse (case raw of None \<Rightarrow> [] | Some s \<Rightarrow> s) \<bind> unmarshal_session, r1))"

definition sm_CreateSession ::
    "(json \<Rightarrow> string) \<Rightarrow> string \<Rightarrow> session_data \<Rightarrow> int \<Rightarrow> redis \<Rightarrow> unit result \<times> redis" where
  "sm_CreateSession render sessionID s sessionDuration r =
     (case redis_Set sessionID (render (marshal_session s)) sessionDuration r of
        (False, r1) \<Rightarrow> (Inl AddToRedisError, r1)
      | (True, r1) \<Rightarrow> (Inr (), r1))"

definition sm_RemoveSession ::
    "(string \<Rightarrow> json option) \<Rightarrow> string \<Rightarrow> redis \<Rightarrow> unit result \<times> redis" where
  "sm_RemoveSession parse sessionID r =
     (case sm_GetSession parse sessionID r of
        (None, r1) \<Rightarrow> (Inl SessionNotExistsError, r1)
      | (Some _, r1) \<Rightarrow>
          (case redis_Del sessionID r1 of
             (False, r2) \<Rightarrow> (Inl DeleteFromRedisError, r2)
           | (True, r2) \<Rightarrow> (Inr (), r2)))"

definition sessionManager :: "(string \<Rightarrow> json option) \<Rightarrow> (json \<Rightarrow> string) \<Rightarrow> redis session_manager" where
  "sessionManager parse render =
     \<lparr>sman_CreateSession = sm_CreateSession render,
      sman_RemoveSession = sm_RemoveSession parse,
      sman_GetSession = sm_GetSession parse\<rparr>"

text \<open>A session that has been written is read back as it was.\<close>

lemma unmarshal_marshal_session:
  "int64 (userID (sd_User s)) \<Longrightarrow> unmarshal_session (marshal_session s) = Some s"
  by (simp add: marshal_session_def marshal_user_def opt_str_def dec_session_def dec_tokens_def dec_user_def
      str_field_def int_field_def obj_field_def lower_def atoi_itoa)

section \<open>The storage meets the contract\<close>

definition accounts :: "postgres \<Rightarrow> int \<rightharpoonup> user" where
  "accounts db uid = map_option row_user (find (has_id uid) (users db))"

definition links :: "postgres \<Rightarrow> string \<times> string \<rightharpoonup> int" where
  "links db k = map_option ident_user_id (find (is_identity (fst k) (snd k)) (identities db))"

text \<open>The constraints of the two tables.\<close>

definition user_ids :: "postgres \<Rightarrow> int list" where
  "user_ids db = map (\<lambda>row. userID (row_user row)) (users db)"

definition auth_inv :: "postgres \<Rightarrow> bool" where
  "auth_inv db \<longleftrightarrow>
     distinct (user_ids db) \<and>
     (\<forall>row \<in> set (users db). AvatarURL (row_user row) \<noteq> []) \<and>
     distinct (map (\<lambda>row. (ident_provider row, ident_provider_user_id row)) (identities db)) \<and>
     distinct (map (\<lambda>row. (ident_user_id row, ident_provider row)) (identities db)) \<and>
     (\<forall>row \<in> set (identities db). ident_user_id row \<in> set (user_ids db))"

lemma auth_frame:
  assumes "same_tables db db'"
  shows "auth_inv db' = auth_inv db" and "accounts db' = accounts db" and "links db' = links db"
  using same_tablesD [OF assms] by (simp_all add: auth_inv_def user_ids_def accounts_def [abs_def] links_def [abs_def])

lemma auth_frame_cases:
  assumes "same_tables db db'" and "auth_inv db"
  shows "auth_inv db' \<and> accounts db' = accounts db \<and> links db' = links db"
  using auth_frame [OF assms(1)] assms(2) by simp

lemma exec_Inr:
  assumes "exec stmt db = (Inr x, db')"
  shows "\<exists>db1. same_tables db db1 \<and> stmt db1 = (Inr x, db')"
  using exec_cases [OF assms] by auto

lemma exec_Inl:
  assumes "exec stmt db = (Inl e, db')" and "\<And>a e b. stmt a = (Inl e, b) \<Longrightarrow> same_tables a b"
  shows "same_tables db db'"
  using exec_cases [OF assms(1)] assms(2) same_tables_trans by auto

lemma tx_result_cases:
  assumes "tx_result body db = (r, db')"
  shows "((\<exists>e. r = Inl e) \<and> same_tables db db') \<or>
     (\<exists>x db1 db2. r = Inr x \<and> same_tables db db1 \<and> body db1 = (Inr x, db2) \<and> same_tables db2 db')"
proof -
  obtain t db1 where t: "transaction body db = (t, db1)" by fastforce
  with assms have r: "db' = db1" "r = (case t of
      Inl err \<Rightarrow> Inl (if err = Sentinel IdentityAlreadyLinkedError then IdentityAlreadyLinkedError else TxError)
    | Inr x \<Rightarrow> Inr x)" by (auto simp: tx_result_def split: sum.splits)
  from transaction_cases [OF t] show ?thesis
  proof (elim disjE exE conjE)
    fix x a b
    assume "t = Inr x" "same_tables db a" "body a = (Inr x, b)" "same_tables b db1"
    with r show ?thesis by auto
  qed (use r in auto)
qed

text \<open>The effect of each statement that succeeds.\<close>

lemma accounts_None: "accounts db uid = None \<longleftrightarrow> \<not> (\<exists>row \<in> set (users db). has_id uid row)"
  by (auto simp: accounts_def find_None_iff)

lemma user_ids_iff: "uid \<in> set (user_ids db) \<longleftrightarrow> (\<exists>row \<in> set (users db). has_id uid row)"
  by (auto simp: user_ids_def has_id_def)

lemma account_iff: "uid \<in> set (user_ids db) \<longleftrightarrow> accounts db uid \<noteq> None"
  using accounts_None [of db uid] by (simp add: user_ids_iff)

lemma links_None: "links db (p, q) = None \<longleftrightarrow> \<not> (\<exists>row \<in> set (identities db). is_identity p q row)"
  by (auto simp: links_def find_None_iff)

lemma accounts_id: "accounts db uid = Some u \<Longrightarrow> userID u = uid"
  by (auto simp: accounts_def has_id_def dest!: find_SomeD)

lemma user_checks_avatar: "user_checks name avatar = None \<Longrightarrow> avatar \<noteq> []"
  by (auto simp: user_checks_def split: if_splits)

lemma CreateUserQuery_Inr:
  assumes "CreateUserQuery name avatar db = (Inr u, db')" and "auth_inv db"
  shows "auth_inv db' \<and> links db' = links db \<and> accounts db (userID u) = None \<and>
    accounts db' = (accounts db)(userID u \<mapsto> u) \<and> identities db' = identities db \<and>
    (\<forall>p q. links db (p, q) \<noteq> Some (userID u))"
proof -
  have c: "user_checks name avatar = None" "\<not> (\<exists>row \<in> set (users db). has_id (user_seq db) row)"
    and u: "u = \<lparr>userID = user_seq db, DisplayName = name, AvatarURL = avatar, Status = ''active''\<rparr>"
    and db': "db' = db\<lparr>user_seq := user_seq db + 1,
      users := users db @ [\<lparr>row_user = u, last_login_at = None\<rparr>]\<rparr>"
    using assms(1) by (auto simp: CreateUserQuery_def Let_def split: option.splits if_splits)
  have "find (has_id (user_seq db)) (users db) = None" using c(2) by (auto simp: find_None_iff)
  then have "accounts db' k = ((accounts db)(userID u \<mapsto> u)) k" for k
    by (cases "k = user_seq db") (auto simp: accounts_def db' find_append u has_id_def split: option.splits)
  moreover have "links db' = links db" by (simp add: links_def [abs_def] db')
  moreover have "auth_inv db'"
    using assms(2) c user_checks_avatar [OF c(1)] by (auto simp: auth_inv_def user_ids_def db' u has_id_def)
  moreover have "accounts db (userID u) = None" using c(2) by (simp add: accounts_None u)
  moreover have "links db (p, q) \<noteq> Some (userID u)" for p q
    using assms(2) c(2) user_ids_iff [of "user_seq db" db]
    by (auto simp: links_def auth_inv_def u dest!: find_SomeD)
  ultimately show ?thesis by (simp add: db' fun_eq_iff)
qed

lemma UpdateUserQuery_Inr:
  assumes "UpdateUserQuery uid name avatar db = (Inr u, db')" and "auth_inv db"
  shows "auth_inv db' \<and> links db' = links db \<and>
    (\<exists>old. accounts db uid = Some old \<and> u = old\<lparr>DisplayName := name, AvatarURL := avatar\<rparr> \<and>
       accounts db' = (accounts db)(uid \<mapsto> u))"
proof -
  obtain row where f: "find (has_id uid) (users db) = Some row" and c: "user_checks name avatar = None"
    and u: "u = row_user (set_profile name avatar row)"
    and db': "db' = db\<lparr>users := update_where (has_id uid) (set_profile name avatar) (users db)\<rparr>"
    using assms(1) by (auto simp: UpdateUserQuery_def split: option.splits)
  have id: "has_id k (set_profile name avatar r) = has_id k r" for k r
    by (simp add: has_id_def set_profile_def)
  from find_SomeD [OF f] have row: "has_id uid row" by blast
  have "accounts db' k = ((accounts db)(uid \<mapsto> u)) k" for k
  proof (cases "k = uid")
    case True
    with f row show ?thesis by (simp add: accounts_def db' find_update_where id u)
  next
    case False
    have "\<not> has_id uid r" if "find (has_id k) (users db) = Some r" for r
      using find_SomeD [OF that] False by (auto simp: has_id_def)
    with False show ?thesis
      by (cases "find (has_id k) (users db)") (simp_all add: accounts_def db' find_update_where id)
  qed
  moreover have "links db' = links db" by (simp add: links_def [abs_def] db')
  moreover have "user_ids db' = user_ids db"
    by (simp add: user_ids_def db' set_profile_def)
  then have "auth_inv db'"
    using assms(2) user_checks_avatar [OF c] by (auto simp: auth_inv_def db' set_profile_def)
  ultimately show ?thesis
    using f by (auto simp: accounts_def u set_profile_def fun_eq_iff)
qed

lemma UpdateLastLoginAtQuery_effect:
  assumes "UpdateLastLoginAtQuery t uid db = (r, db')" and "auth_inv db"
  shows "auth_inv db' \<and> accounts db' = accounts db \<and> links db' = links db"
proof -
  have db': "db' = db\<lparr>users := update_where (has_id uid) (\<lambda>row. row\<lparr>last_login_at := Some t\<rparr>) (users db)\<rparr>"
    using assms(1) by (simp add: UpdateLastLoginAtQuery_def)
  have id: "has_id k (r\<lparr>last_login_at := x\<rparr>) = has_id k r" for k r x by (simp add: has_id_def)
  have "accounts db' = accounts db"
    by (rule ext) (simp add: accounts_def db' find_update_where id option.map_comp comp_def if_distrib cong: if_cong)
  moreover have "user_ids db' = user_ids db" by (simp add: user_ids_def db')
  then have "auth_inv db'" using assms(2) by (auto simp: auth_inv_def db')
  ultimately show ?thesis by (simp add: links_def [abs_def] db')
qed

lemma UpdateIdentityLastUsedQuery_effect:
  assumes "UpdateIdentityLastUsedQuery t iid db = (r, db')" and "auth_inv db"
  shows "auth_inv db' \<and> accounts db' = accounts db \<and> links db' = links db"
proof -
  have db': "db' = db\<lparr>identities := update_where (\<lambda>row. ident_id row = iid)
      (\<lambda>row. row\<lparr>ident_last_used_at := Some t\<rparr>) (identities db)\<rparr>"
    using assms(1) by (simp add: UpdateIdentityLastUsedQuery_def)
  have id: "is_identity p q (r\<lparr>ident_last_used_at := x\<rparr>) = is_identity p q r" for p q r x
    by (simp add: is_identity_def)
  have "links db' = links db"
    by (rule ext) (simp add: links_def db' find_update_where id option.map_comp comp_def if_distrib cong: if_cong)
  moreover have "auth_inv db'" using assms(2) by (auto simp: auth_inv_def user_ids_def db')
  ultimately show ?thesis by (simp add: accounts_def [abs_def] db')
qed

lemma insert_identity_Inr:
  assumes "insert_identity uid p q email db = (Inr n, db')" and "auth_inv db" and "links db (p, q) = None"
  shows "n = 1 \<and> auth_inv db' \<and> accounts db' = accounts db \<and> links db' = (links db)((p, q) \<mapsto> uid)"
proof -
  have c: "\<not> (\<exists>row \<in> set (identities db). of_user uid p row)" "\<exists>row \<in> set (users db). has_id uid row"
    and n: "n = 1" and db': "db' = db\<lparr>identity_seq := identity_seq db + 1,
      identities := identities db @ [identity_row_of uid p q email db]\<rparr>"
    using assms(1) by (auto simp: insert_identity_def Let_def split: if_splits)
  have "find (is_identity p q) (identities db) = None" using assms(3) by (simp add: links_def)
  then have "links db' k = ((links db)((p, q) \<mapsto> uid)) k" for k
    by (cases "k = (p, q)"; cases k)
      (auto simp: links_def db' find_append is_identity_def identity_row_of_def split: option.splits)
  moreover have "auth_inv db'"
    using assms(2,3) c
    by (auto simp: auth_inv_def user_ids_def db' identity_row_of_def links_None is_identity_def of_user_def
        has_id_def)
  moreover have "accounts db' = accounts db" by (simp add: accounts_def [abs_def] db')
  ultimately show ?thesis using n by (simp add: fun_eq_iff)
qed

lemma insert_identity_Inl: "insert_identity uid p q email db = (Inl e, db') \<Longrightarrow> same_tables db db'"
  by (auto simp: insert_identity_def Let_def same_tables_def split: if_splits)

lemma CreateIdentityQuery_Inl: "CreateIdentityQuery uid p q email db = (Inl e, db') \<Longrightarrow> same_tables db db'"
  by (auto simp: CreateIdentityQuery_def dest: insert_identity_Inl split: if_splits)
    (simp add: same_tables_def)

lemma CreateIdentityQuery_Inr:
  assumes "CreateIdentityQuery uid p q email db = (Inr n, db')" and "auth_inv db"
  shows "auth_inv db' \<and> accounts db' = accounts db \<and> links db (p, q) = None \<and>
    links db' = (links db)((p, q) \<mapsto> uid)"
proof -
  have n: "links db (p, q) = None" and i: "insert_identity uid p q email db = (Inr n, db')"
    using assms(1) by (auto simp: CreateIdentityQuery_def links_None split: if_splits)
  from insert_identity_Inr [OF i assms(2) n] n show ?thesis by simp
qed

lemma DeleteIdentity_Inr:
  assumes "DeleteIdentityByUserAndProviderQuery uid p db = (Inr n, db')" and "auth_inv db"
  shows "auth_inv db' \<and> accounts db' = accounts db \<and>
    links db' = (\<lambda>k. if fst k = p \<and> links db k = Some uid then None else links db k) \<and>
    (n = 0 \<longrightarrow> identities db' = identities db)"
proof -
  have n: "n = length (filter (of_user uid p) (identities db))"
    and db': "db' = db\<lparr>identities := delete_where (of_user uid p) (identities db)\<rparr>"
    using assms(1) by (auto simp: DeleteIdentityByUserAndProviderQuery_def split: if_splits)
  have uniq: "r = r'" if "r \<in> set (identities db)" "r' \<in> set (identities db)" "is_identity a b r" "is_identity a b r'"
    for r r' a b
  proof -
    from assms(2) have "inj_on (\<lambda>row. (ident_provider row, ident_provider_user_id row)) (set (identities db))"
      by (simp add: auth_inv_def distinct_map)
    with that show ?thesis by (auto simp: is_identity_def dest: inj_onD)
  qed
  have "links db' (a, b) = (if a = p \<and> links db (a, b) = Some uid then None else links db (a, b))" for a b
  proof (cases "find (is_identity a b) (identities db)")
    case None
    then have "find (\<lambda>r. is_identity a b r \<and> \<not> of_user uid p r) (identities db) = None"
      by (auto simp: find_None_iff)
    with None show ?thesis by (simp add: links_def db' find_delete_where)
  next
    case (Some r)
    from find_SomeD [OF Some] have r: "r \<in> set (identities db)" "is_identity a b r" by auto
    show ?thesis
    proof (cases "of_user uid p r")
      case True
      with r uniq have "find (\<lambda>r. is_identity a b r \<and> \<not> of_user uid p r) (identities db) = None"
        by (auto simp: find_None_iff)
      with True Some r show ?thesis
        by (simp add: links_def db' find_delete_where of_user_def is_identity_def)
    next
      case False
      with r have "find (\<lambda>r. is_identity a b r \<and> \<not> of_user uid p r) (identities db) \<noteq> None"
        by (auto simp: find_None_iff)
      then obtain r' where f: "find (\<lambda>r. is_identity a b r \<and> \<not> of_user uid p r) (identities db) = Some r'" by blast
      from find_SomeD [OF f] have "r' = r" using r uniq by blast
      with f Some False r show ?thesis
        by (auto simp: links_def db' find_delete_where of_user_def is_identity_def)
    qed
  qed
  moreover have "auth_inv db'"
    using assms(2) by (auto simp: auth_inv_def user_ids_def db' delete_where_def distinct_map_filter)
  moreover have "accounts db' = accounts db" by (simp add: accounts_def [abs_def] db')
  moreover have "n = 0 \<longrightarrow> identities db' = identities db"
    by (simp add: n db' delete_where_def filter_empty_conv filter_id_conv)
  ultimately show ?thesis by (auto simp: fun_eq_iff)
qed

text \<open>The operations of the storage, one lemma each.\<close>

lemma asto_get:
  assumes "asto_GetUserByID uid db = (r, db')"
  shows "same_tables db db' \<and> (\<forall>u. r = Inr u \<longrightarrow> accounts db uid = Some u) \<and>
    (healthy db \<longrightarrow> healthy db' \<and> r = (case accounts db uid of None \<Rightarrow> Inl UserDoesNotExistError | Some u \<Rightarrow> Inr u))"
proof -
  obtain q db1 where q: "query_row (GetUserByIDQuery uid) db = (q, db1)" by fastforce
  note c = query_row_cases [OF q]
  then have st: "same_tables db db1" by simp
  have r: "db' = db1" "r = (case q of Inl _ \<Rightarrow> Inl UserDoesNotExistError | Inr u \<Rightarrow> Inr u)"
    using assms by (auto simp: asto_GetUserByID_def q split: sum.splits)
  show ?thesis
    using c unfolding r GetUserByIDQuery_def accounts_def same_tablesD(1) [OF st]
    by (cases "find (has_id uid) (users db)") auto
qed

lemma asto_update:
  assumes "asto_UpdateUser u db = (r, db')" and "auth_inv db"
  shows "auth_inv db' \<and> links db' = links db \<and>
    ((\<exists>e. r = Inl e) \<and> accounts db' = accounts db \<or>
     (\<exists>old new. r = Inr new \<and> accounts db (userID u) = Some old \<and>
        new = old\<lparr>DisplayName := DisplayName u, AvatarURL := AvatarURL u\<rparr> \<and>
        accounts db' = (accounts db)(userID u \<mapsto> new)))"
  using tx_result_cases [OF assms(1) [unfolded asto_UpdateUser_def]]
proof (elim disjE exE conjE)
  fix x db1 db2
  assume r: "r = Inr x" and s: "same_tables db db1" "same_tables db2 db'"
    and e: "exec (UpdateUserQuery (userID u) (DisplayName u) (AvatarURL u)) db1 = (Inr x, db2)"
  from exec_Inr [OF e] obtain db3 where s3: "same_tables db1 db3"
    and up: "UpdateUserQuery (userID u) (DisplayName u) (AvatarURL u) db3 = (Inr x, db2)"
    by blast
  have f: "same_tables db db3" using s(1) s3 same_tables_trans by blast
  then have "auth_inv db3" using auth_frame [OF f] assms(2) by simp
  from UpdateUserQuery_Inr [OF up this] r show ?thesis
    unfolding auth_frame [OF f] auth_frame [OF s(2)] by blast
next
  fix e assume "r = Inl e" and s: "same_tables db db'"
  with auth_frame_cases [OF s assms(2)] show ?thesis by simp
qed

lemma create_both_Inr:
  assumes "create_both u idn db = (Inr x, db')" and "auth_inv db"
  shows "auth_inv db' \<and> accounts db (userID x) = None \<and> accounts db' = (accounts db)(userID x \<mapsto> x) \<and>
    links db (ui_Provider idn, ui_ProviderUserID idn) = None \<and>
    links db' = (links db)((ui_Provider idn, ui_ProviderUserID idn) \<mapsto> userID x)"
proof -
  let ?k = "(ui_Provider idn, ui_ProviderUserID idn)"
  from assms(1) obtain db1 n db2 where c: "exec (CreateUserQuery (DisplayName u) (AvatarURL u)) db = (Inr x, db1)"
    and i: "exec (CreateIdentityOnConflictQuery (userID x) (ui_Provider idn) (ui_ProviderUserID idn) (ui_Email idn)) db1 =
      (Inr n, db')" and n: "n \<noteq> 0"
    by (auto simp: create_both_def db_bind_Inr split: if_splits)
  from exec_Inr [OF c] obtain a where a: "same_tables db a"
    "CreateUserQuery (DisplayName u) (AvatarURL u) a = (Inr x, db1)" by blast
  then have inv: "auth_inv a" using auth_frame [OF a(1)] assms(2) by simp
  note u1 = CreateUserQuery_Inr [OF a(2) inv, unfolded auth_frame [OF a(1)]]
  from exec_Inr [OF i] obtain b where b: "same_tables db1 b"
    "CreateIdentityOnConflictQuery (userID x) (ui_Provider idn) (ui_ProviderUserID idn) (ui_Email idn) b =
      (Inr n, db')" by blast
  have binv: "auth_inv b" using auth_frame [OF b(1)] u1 by simp
  have none: "links b ?k = None"
    and ins: "insert_identity (userID x) (ui_Provider idn) (ui_ProviderUserID idn) (ui_Email idn) b = (Inr n, db')"
    using b(2) n by (auto simp: CreateIdentityOnConflictQuery_def links_None split: if_splits)
  from insert_identity_Inr [OF ins binv none] u1 none show ?thesis
    unfolding auth_frame [OF b(1)] by simp
qed

lemma asto_create_both:
  assumes "asto_CreateUserWithIdentity u idn db = (r, db')" and "auth_inv db"
  shows "auth_inv db' \<and>
    ((\<exists>e. r = Inl e) \<and> accounts db' = accounts db \<and> links db' = links db \<or>
     (\<exists>new. r = Inr new \<and> accounts db (userID new) = None \<and>
        accounts db' = (accounts db)(userID new \<mapsto> new) \<and>
        links db (ui_Provider idn, ui_ProviderUserID idn) = None \<and>
        links db' = (links db)((ui_Provider idn, ui_ProviderUserID idn) \<mapsto> userID new)))"
  using tx_result_cases [OF assms(1) [unfolded asto_CreateUserWithIdentity_def]]
proof (elim disjE exE conjE)
  fix x db1 db2
  assume r: "r = Inr x" and s: "same_tables db db1" "same_tables db2 db'"
    and c: "create_both u idn db1 = (Inr x, db2)"
  have "auth_inv db1" using auth_frame [OF s(1)] assms(2) by simp
  from create_both_Inr [OF c this] r show ?thesis
    unfolding auth_frame [OF s(1)] auth_frame [OF s(2)] by blast
next
  fix e assume "r = Inl e" and s: "same_tables db db'"
  with auth_frame_cases [OF s assms(2)] show ?thesis by simp
qed

lemma exec_effect:
  assumes "exec stmt db = (q, db')" and "auth_inv db"
    and "\<And>a r b. stmt a = (r, b) \<Longrightarrow> auth_inv a \<Longrightarrow> auth_inv b \<and> accounts b = accounts a \<and> links b = links a"
  shows "auth_inv db' \<and> accounts db' = accounts db \<and> links db' = links db"
  using exec_cases [OF assms(1)]
proof (elim disjE exE conjE)
  fix db1 assume s: "same_tables db db1" and "stmt db1 = (q, db')"
  with assms(2) assms(3) [of db1 q db'] auth_frame [OF s] show ?thesis by simp
next
  assume s: "same_tables db db'"
  with auth_frame_cases [OF s assms(2)] show ?thesis by simp
qed

lemma asto_last_login:
  assumes "asto_UpdateLastLoginAt uid t db = (r, db')" and "auth_inv db"
  shows "auth_inv db' \<and> accounts db' = accounts db \<and> links db' = links db"
proof -
  obtain q db1 where q: "exec (UpdateLastLoginAtQuery t uid) db = (q, db1)" by fastforce
  with assms(1) have "db' = db1" by (auto simp: asto_UpdateLastLoginAt_def split: sum.splits)
  moreover have "auth_inv db1 \<and> accounts db1 = accounts db \<and> links db1 = links db"
    by (rule exec_effect [OF q assms(2)]) (rule UpdateLastLoginAtQuery_effect)
  ultimately show ?thesis by simp
qed

lemma isto_last_used:
  assumes "isto_UpdateLastUsed iid t db = (r, db')" and "auth_inv db"
  shows "auth_inv db' \<and> accounts db' = accounts db \<and> links db' = links db"
proof -
  obtain q db1 where q: "exec (UpdateIdentityLastUsedQuery t iid) db = (q, db1)" by fastforce
  with assms(1) have "db' = db1" by (auto simp: isto_UpdateLastUsed_def split: sum.splits)
  moreover have "auth_inv db1 \<and> accounts db1 = accounts db \<and> links db1 = links db"
    by (rule exec_effect [OF q assms(2)]) (rule UpdateIdentityLastUsedQuery_effect)
  ultimately show ?thesis by simp
qed

lemma isto_find:
  assumes "isto_FindByProvider p q db = (r, db')"
  shows "same_tables db db' \<and> (\<forall>e. r = Inl e \<longrightarrow> e = IdentityNotFoundError) \<and>
    (\<forall>i. r = Inr i \<longrightarrow> links db (p, q) = Some (ui_UserID i)) \<and>
    (healthy db \<longrightarrow> healthy db' \<and> ((\<exists>i. r = Inr i) \<longleftrightarrow> links db (p, q) \<noteq> None))"
proof -
  obtain x db1 where x: "query_row (FindIdentityByProviderQuery p q) db = (x, db1)" by fastforce
  note c = query_row_cases [OF x]
  then have st: "same_tables db db1" by simp
  have r: "db' = db1" "r = (case x of Inl _ \<Rightarrow> Inl IdentityNotFoundError | Inr row \<Rightarrow> Inr (identity_of [] row))"
    using assms by (auto simp: isto_FindByProvider_def x split: sum.splits)
  show ?thesis
    using c unfolding r FindIdentityByProviderQuery_def links_def same_tablesD(2) [OF st]
    by (cases "find (is_identity p q) (identities db)") (auto simp: identity_of_def)
qed

lemma isto_create:
  assumes "isto_CreateIdentity idn db = (r, db')" and "auth_inv db"
  shows "auth_inv db' \<and> accounts db' = accounts db \<and>
    ((\<exists>e. r = Inl e) \<and> links db' = links db \<or>
     r = Inr () \<and> links db (ui_Provider idn, ui_ProviderUserID idn) = None \<and>
       links db' = (links db)((ui_Provider idn, ui_ProviderUserID idn) \<mapsto> ui_UserID idn))"
proof -
  let ?stmt = "CreateIdentityQuery (ui_UserID idn) (ui_Provider idn) (ui_ProviderUserID idn) (ui_Email idn)"
  obtain q db1 where q: "exec ?stmt db = (q, db1)" by fastforce
  show ?thesis
  proof (cases q)
    case (Inl e)
    with assms(1) q have "\<exists>e. r = Inl e" "db' = db1" by (auto simp: isto_CreateIdentity_def)
    moreover have "same_tables db db1"
      by (rule exec_Inl [OF q [unfolded Inl]]) (rule CreateIdentityQuery_Inl)
    ultimately show ?thesis using auth_frame_cases assms(2) by blast
  next
    case (Inr n)
    with assms(1) q have r: "r = Inr ()" "db' = db1" by (auto simp: isto_CreateIdentity_def)
    from exec_Inr [OF q [unfolded Inr]] obtain a where a: "same_tables db a" "?stmt a = (Inr n, db1)" by blast
    have "auth_inv a" using auth_frame [OF a(1)] assms(2) by simp
    from CreateIdentityQuery_Inr [OF a(2) this] r show ?thesis unfolding auth_frame [OF a(1)] by simp
  qed
qed

lemma isto_delete:
  assumes "isto_DeleteByUserAndProvider uid p db = (r, db')" and "auth_inv db"
  shows "auth_inv db' \<and> accounts db' = accounts db \<and>
    ((\<exists>e. r = Inl e) \<and> links db' = links db \<or>
     r = Inr () \<and> links db' = (\<lambda>k. if fst k = p \<and> links db k = Some uid then None else links db k))"
proof -
  let ?stmt = "DeleteIdentityByUserAndProviderQuery uid p"
  obtain q db1 where q: "exec ?stmt db = (q, db1)" by fastforce
  have fails: "?stmt a = (Inl e, b) \<Longrightarrow> same_tables a b" for a e b
    by (auto simp: DeleteIdentityByUserAndProviderQuery_def split: if_splits)
  show ?thesis
  proof (cases q)
    case (Inl e)
    with assms(1) q have "\<exists>e. r = Inl e" "db' = db1" by (auto simp: isto_DeleteByUserAndProvider_def)
    moreover have "same_tables db db1" by (rule exec_Inl [OF q [unfolded Inl]]) (rule fails)
    ultimately show ?thesis using auth_frame_cases assms(2) by blast
  next
    case (Inr n)
    with assms(1) q have r: "r = (if n = 0 then Inl IdentityNotFoundError else Inr ())" "db' = db1"
      by (auto simp: isto_DeleteByUserAndProvider_def)
    from exec_Inr [OF q [unfolded Inr]] obtain a where a: "same_tables db a" "?stmt a = (Inr n, db1)" by blast
    have "auth_inv a" using auth_frame [OF a(1)] assms(2) by simp
    note d = DeleteIdentity_Inr [OF a(2) this]
    show ?thesis
    proof (cases "n = 0")
      case True
      with d have "links db1 = links a" by (simp add: links_def [abs_def])
      with d r True show ?thesis unfolding auth_frame [OF a(1)] by simp
    next
      case False
      with d r show ?thesis unfolding auth_frame [OF a(1)] by simp
    qed
  qed
qed

lemma scan_identities_Some:
  "scan_identities scan_text rows = Some ids \<Longrightarrow>
     list_all2 (\<lambda>row i. \<exists>c. i = identity_of c row) rows ids"
  by (induction rows arbitrary: ids) (auto split: option.splits)

lemma isto_list:
  assumes "isto_ListByUserID scan_text uid db = (r, db')" and "auth_inv db"
  shows "same_tables db db' \<and>
    (\<forall>ids. r = Inr ids \<longrightarrow> distinct (map ui_Provider ids) \<and>
       (\<forall>i \<in> set ids. ui_UserID i = uid \<and> links db (ui_Provider i, ui_ProviderUserID i) = Some uid))"
proof -
  obtain q db1 where q: "query_rows (ListIdentitiesByUserIDQuery uid) db = (q, db1)" by fastforce
  note c = query_rows_cases [OF q]
  let ?own = "sort_key ident_created_at (filter (\<lambda>row. ident_user_id row = uid) (identities db))"
  have st: "same_tables db db1" and db': "db' = db1"
    using c assms(1) by (auto simp: isto_ListByUserID_def q split: sum.splits prod.splits option.splits)
  have "distinct (map ui_Provider ids) \<and>
      (\<forall>i \<in> set ids. ui_UserID i = uid \<and> links db (ui_Provider i, ui_ProviderUserID i) = Some uid)"
    if "r = Inr ids" for ids
  proof -
    from that assms(1) q obtain rows where rows: "q = Inr (rows, None)"
      and scan: "scan_identities scan_text rows = Some ids"
      by (auto simp: isto_ListByUserID_def split: sum.splits prod.splits option.splits if_splits)
    from c rows have r: "rows = ?own"
      by (auto simp: ListIdentitiesByUserIDQuery_def same_tablesD(2) [OF st])
    have l: "list_all2 (\<lambda>row i. \<exists>c. i = identity_of c row) ?own ids"
      using scan_identities_Some [OF scan] unfolding r .
    then have prov: "map ui_Provider ids = map ident_provider ?own"
      by (induction rule: list_all2_induct) (auto simp: identity_of_def)
    have "distinct (map (\<lambda>row. (ident_user_id row, ident_provider row)) (filter (\<lambda>row. ident_user_id row = uid) (identities db)))"
      using assms(2) by (simp add: auth_inv_def distinct_map_filter)
    then have "inj_on ident_provider (set ?own)" "distinct ?own"
      by (auto simp: distinct_map inj_on_def)
    then have "distinct (map ui_Provider ids)" unfolding prov by (simp add: distinct_map)
    moreover have "ui_UserID i = uid \<and> links db (ui_Provider i, ui_ProviderUserID i) = Some uid" if i: "i \<in> set ids" for i
    proof -
      from l i obtain row c where row: "row \<in> set ?own" and ic: "i = identity_of c row"
        by (induction rule: list_all2_induct) auto
      from row have "row \<in> set (identities db)" "ident_user_id row = uid" by auto
      moreover have "find (is_identity (ident_provider row) (ident_provider_user_id row)) (identities db) = Some row"
      proof -
        have "distinct (map (\<lambda>row. (ident_provider row, ident_provider_user_id row)) (identities db))"
          using assms(2) by (simp add: auth_inv_def)
        from find_unique [OF this \<open>row \<in> set (identities db)\<close> refl] show ?thesis
          by (simp add: is_identity_def [abs_def])
      qed
      ultimately show ?thesis by (simp add: ic identity_of_def links_def)
    qed
    ultimately show ?thesis by blast
  qed
  with st db' show ?thesis by blast
qed

lemma authStorage_simps [simp]:
  "arepo_GetUserByID authStorage = asto_GetUserByID" "arepo_UpdateUser authStorage = asto_UpdateUser"
  "arepo_CreateUserWithIdentity authStorage = asto_CreateUserWithIdentity"
  "arepo_UpdateLastLoginAt authStorage = asto_UpdateLastLoginAt"
  "irepo_FindByProvider (identityStorage f) = isto_FindByProvider"
  "irepo_CreateIdentity (identityStorage f) = isto_CreateIdentity"
  "irepo_UpdateLastUsed (identityStorage f) = isto_UpdateLastUsed"
  "irepo_ListByUserID (identityStorage f) = isto_ListByUserID f"
  "irepo_DeleteByUserAndProvider (identityStorage f) = isto_DeleteByUserAndProvider"
  by (simp_all add: authStorage_def identityStorage_def)

interpretation store: auth_store authStorage "identityStorage scan_text" auth_inv accounts links
  for scan_text
proof (unfold_locales, goal_cases)
  case 1 then show ?case by (simp add: accounts_id)
next
  case (2 d k uid)
  then have "uid \<in> set (user_ids d)" by (auto simp: links_def auth_inv_def dest!: find_SomeD)
  then show ?case by (simp add: account_iff)
next
  case (3 d uid r d')
  then have "asto_GetUserByID uid d = (r, d')" by simp
  from asto_get [OF this] auth_frame_cases 3(1) show ?case by blast
next
  case (4 d u r d')
  then show ?case using asto_update by simp
next
  case (5 d u idn r d')
  then show ?case using asto_create_both by simp
next
  case (6 d uid t r d')
  then show ?case using asto_last_login by simp
next
  case (7 d p q r d')
  then have "isto_FindByProvider p q d = (r, d')" by simp
  from isto_find [OF this] auth_frame_cases 7(1) show ?case by blast
next
  case (8 d iid t r d')
  then show ?case using isto_last_used by simp
next
  case (9 d idn r d')
  then show ?case using isto_create by simp
next
  case (10 d uid r d')
  then have "isto_ListByUserID scan_text uid d = (r, d')" by simp
  from isto_list [OF this 10(1)] auth_frame_cases 10(1) show ?case by blast
next
  case (11 d uid p r d')
  then show ?case using isto_delete by simp
qed

end
