(* ===== verification/AuthRun.thy ===== *)
theory AuthRun
  imports AuthStorage
begin

text \<open>
  The properties of authentication: what a login may do to users and identities, how long a
  session lasts, and linking and unlinking of identities.
\<close>

definition authUsecases ::
    "(int \<Rightarrow> string option) \<Rightarrow> (string \<Rightarrow> json option) \<Rightarrow> (json \<Rightarrow> string) \<Rightarrow> (string \<rightharpoonup> 'w provider)
     \<Rightarrow> (postgres, redis, 'w) auth_usecases" where
  "authUsecases scan_text parse render providers =
     \<lparr>au_repo = authStorage, au_identityRepo = identityStorage scan_text, au_providers = providers,
      au_sessionManager = sessionManager parse render\<rparr>"

lemma authUsecases_simps [simp]:
  "au_repo (authUsecases f parse render ps) = authStorage"
  "au_identityRepo (authUsecases f parse render ps) = identityStorage f"
  "au_providers (authUsecases f parse render ps) = ps"
  "au_sessionManager (authUsecases f parse render ps) = sessionManager parse render"
  by (simp_all add: authUsecases_def)

lemma sessionManager_simps [simp]:
  "sman_CreateSession (sessionManager parse render) = sm_CreateSession render"
  "sman_RemoveSession (sessionManager parse render) = sm_RemoveSession parse"
  "sman_GetSession (sessionManager parse render) = sm_GetSession parse"
  by (simp_all add: sessionManager_def)

section \<open>How a login runs\<close>

lemma on_db_eq: "on_db f b = (r, b') \<longleftrightarrow> (\<exists>d. f (be_db b) = (r, d) \<and> b' = b\<lparr>be_db := d\<rparr>)"
  by (auto simp: on_db_def split: prod.splits)

lemma on_sessions_eq:
  "on_sessions f b = (r, b') \<longleftrightarrow> (\<exists>s. f (be_sessions b) = (r, s) \<and> b' = b\<lparr>be_sessions := s\<rparr>)"
  by (auto simp: on_sessions_def split: prod.splits)

lemma on_world_eq: "on_world f b = (r, b') \<longleftrightarrow> (\<exists>w. f (be_world b) = (r, w) \<and> b' = b\<lparr>be_world := w\<rparr>)"
  by (auto simp: on_world_def split: prod.splits)

text \<open>The three parts of a login that got through.\<close>

lemma uc_Login_Inr:
  assumes "uc_Login uc p sid login dur now now2 b = (Inr u, b')"
  obtains auth res w d s d' where
    "au_providers uc p = Some auth" "auth login (be_world b) = (Inr res, w)"
    "login_user uc p res now (be_db b) = (Inr u, d)"
    "sman_CreateSession (au_sessionManager uc) sid (session_of p res u) dur (be_sessions b) = (Inr (), s)"
    "d' = snd (arepo_UpdateLastLoginAt (au_repo uc) (userID u) now2 d)"
    "b' = \<lparr>be_db = d', be_sessions = s, be_world = w\<rparr>"
proof -
  from assms obtain auth res b1 b2 b3 where p: "au_providers uc p = Some auth"
    and a: "on_world (auth login) b = (Inr res, b1)"
    and l: "on_db (login_user uc p res now) b1 = (Inr u, b2)"
    and s: "on_sessions (sman_CreateSession (au_sessionManager uc) sid (session_of p res u) dur) b2 = (Inr (), b3)"
    and b': "b' = snd (on_db (arepo_UpdateLastLoginAt (au_repo uc) (userID u) now2) b3)"
    by (auto simp: uc_Login_def split: option.splits prod.splits sum.splits)
  obtain w where w: "auth login (be_world b) = (Inr res, w)" "b1 = b\<lparr>be_world := w\<rparr>"
    using a by (auto simp: on_world_eq)
  obtain d where d: "login_user uc p res now (be_db b) = (Inr u, d)" "b2 = b1\<lparr>be_db := d\<rparr>"
    using l w(2) by (auto simp: on_db_eq)
  obtain t where t: "sman_CreateSession (au_sessionManager uc) sid (session_of p res u) dur (be_sessions b) = (Inr (), t)"
    "b3 = b2\<lparr>be_sessions := t\<rparr>"
    using s d(2) w(2) by (auto simp: on_sessions_eq)
  have "b' = \<lparr>be_db = snd (arepo_UpdateLastLoginAt (au_repo uc) (userID u) now2 d), be_sessions = t, be_world = w\<rparr>"
    using b' t(2) d(2) w(2) by (cases b) (simp add: on_db_def split: prod.splits)
  with that p w(1) d(1) t(1) show thesis by blast
qed

text \<open>What any login, successful or not, does to the database: nothing, or the effect of
  \<open>login_user\<close>.\<close>

lemma uc_Login_db:
  assumes "uc_Login uc p sid login dur now now2 b = (r, b')"
  shows "be_db b' = be_db b \<or>
    (\<exists>res r' d. login_user uc p res now (be_db b) = (r', d) \<and>
       (be_db b' = d \<or> (\<exists>uid x. arepo_UpdateLastLoginAt (au_repo uc) uid now2 d = (x, be_db b'))))"
proof (cases "au_providers uc p")
  case None
  with assms show ?thesis by (simp add: uc_Login_def)
next
  case (Some auth)
  obtain a w where a: "auth login (be_world b) = (a, w)" by fastforce
  show ?thesis
  proof (cases a)
    case (Inl e)
    with assms Some a show ?thesis by (auto simp: uc_Login_def on_world_def)
  next
    case (Inr res)
    obtain r' d where l: "login_user uc p res now (be_db b) = (r', d)" by fastforce
    obtain c s where c: "\<And>u. r' = Inr u \<Longrightarrow>
        sman_CreateSession (au_sessionManager uc) sid (session_of p res u) dur (be_sessions b) = (c, s)"
      by (cases r') fastforce+
    from assms Some a Inr l c have "be_db b' = d \<or> (\<exists>uid x. arepo_UpdateLastLoginAt (au_repo uc) uid now2 d = (x, be_db b'))"
      by (cases r'; cases c) (auto simp: uc_Login_def on_world_def on_db_def on_sessions_def split: prod.splits)
    with l show ?thesis by blast
  qed
qed

lemma login_effect_keeps:
  assumes "store.login_effect k d r d'"
  shows "auth_inv d' \<and> (\<forall>k. links d k \<noteq> None \<longrightarrow> links d' k = links d k) \<and>
    (\<forall>uid u. accounts d uid = Some u \<longrightarrow> (\<exists>u'. accounts d' uid = Some u' \<and> Status u' = Status u))"
  using assms unfolding store.login_effect_def by blast

lemma last_login_keeps:
  assumes "auth_inv d"
  shows "auth_inv (snd (asto_UpdateLastLoginAt uid t d)) \<and> accounts (snd (asto_UpdateLastLoginAt uid t d)) = accounts d \<and>
    links (snd (asto_UpdateLastLoginAt uid t d)) = links d"
  using asto_last_login [OF _ assms, of uid t] by (metis prod.collapse)

text \<open>
  C23. A login, with whatever failures of the database, the session store and the provider,
  never moves an identity to another user and never changes anybody's status; and a login that
  succeeds is the login of exactly the user to whom the identity confirmed by the provider
  belongs afterwards.
\<close>

theorem login_respects_identities:
  assumes "auth_inv (be_db b)"
    and "uc_Login (authUsecases scan_text parse render providers) p sid login dur now now2 b = (r, b')"
  shows "auth_inv (be_db b') \<and>
    (\<forall>k. links (be_db b) k \<noteq> None \<longrightarrow> links (be_db b') k = links (be_db b) k) \<and>
    (\<forall>uid u. accounts (be_db b) uid = Some u \<longrightarrow>
       (\<exists>u'. accounts (be_db b') uid = Some u' \<and> Status u' = Status u)) \<and>
    (\<forall>u. r = Inr u \<longrightarrow> (\<exists>auth res w. providers p = Some auth \<and> auth login (be_world b) = (Inr res, w) \<and>
       links (be_db b') (p, or_ProviderUserID res) = Some (userID u) \<and>
       accounts (be_db b') (userID u) = Some u))"
proof -
  let ?uc = "authUsecases scan_text parse render providers"
  have effect: "store.login_effect (p, or_ProviderUserID res) (be_db b) r' d"
    if "login_user ?uc p res now (be_db b) = (r', d)" for res r' d
    by (rule store.login_user [OF assms(1) _ _ that]) simp_all
  have keeps: "auth_inv (be_db b') \<and>
      (\<forall>k. links (be_db b) k \<noteq> None \<longrightarrow> links (be_db b') k = links (be_db b) k) \<and>
      (\<forall>uid u. accounts (be_db b) uid = Some u \<longrightarrow>
         (\<exists>u'. accounts (be_db b') uid = Some u' \<and> Status u' = Status u))"
    using uc_Login_db [OF assms(2)]
  proof (elim disjE exE conjE)
    fix res r' d uid x
    assume l: "login_user ?uc p res now (be_db b) = (r', d)"
      and "arepo_UpdateLastLoginAt (au_repo ?uc) uid now2 d = (x, be_db b')"
    then have a: "asto_UpdateLastLoginAt uid now2 d = (x, be_db b')" by simp
    note k = login_effect_keeps [OF effect [OF l]]
    from k have "auth_inv d" by blast
    from asto_last_login [OF a this] k show ?thesis by simp
  next
    fix res r' d assume "login_user ?uc p res now (be_db b) = (r', d)" "be_db b' = d"
    then have "login_user ?uc p res now (be_db b) = (r', be_db b')" by simp
    from login_effect_keeps [OF effect [OF this]] show ?thesis .
  qed (use assms(1) in simp)
  moreover have "\<exists>auth res w. providers p = Some auth \<and> auth login (be_world b) = (Inr res, w) \<and>
       links (be_db b') (p, or_ProviderUserID res) = Some (userID u) \<and>
       accounts (be_db b') (userID u) = Some u" if "r = Inr u" for u
  proof -
    from assms(2) that obtain auth res w d s d' where p: "providers p = Some auth"
      "auth login (be_world b) = (Inr res, w)" and l: "login_user ?uc p res now (be_db b) = (Inr u, d)"
      and d': "d' = snd (asto_UpdateLastLoginAt (userID u) now2 d)" and b': "be_db b' = d'"
      by (auto elim!: uc_Login_Inr)
    from effect [OF l] have "auth_inv d" "links d (p, or_ProviderUserID res) = Some (userID u)"
      "accounts d (userID u) = Some u" by (auto simp: store.login_effect_def)
    with last_login_keeps [of d "userID u" now2] p show ?thesis unfolding b' d' by auto
  qed
  ultimately show ?thesis by blast
qed

text \<open>A provider that confirms one identity, a codec that writes one session, an empty store.\<close>

definition demo_result :: "string \<Rightarrow> string \<Rightarrow> oauth_result" where
  "demo_result puid avatar = \<lparr>or_ProviderUserID = puid, or_DisplayName = ''u'', or_AvatarURL = avatar, or_Email = [],
     or_AccessToken = ''t'', or_RefreshToken = [], or_IDToken = []\<rparr>"

definition demo_providers :: "string \<Rightarrow> string \<Rightarrow> string \<rightharpoonup> unit provider" where
  "demo_providers puid avatar = [''vk'' \<mapsto> (\<lambda>_ w. (Inr (demo_result puid avatar), w))]"

definition demo_session :: session_data where
  "demo_session = session_of ''vk'' (demo_result ''x'' ''a'') (demo_user 1)"

definition demo_render :: "json \<Rightarrow> string" where
  "demo_render j = (if j = marshal_session demo_session then ''s'' else ''?'')"

definition demo_parse :: "string \<Rightarrow> json option" where
  "demo_parse s = (if s = ''s'' then Some (marshal_session demo_session) else None)"

definition demo_ident :: "int \<Rightarrow> string \<Rightarrow> string \<Rightarrow> int \<Rightarrow> identity_row" where
  "demo_ident i p q t = \<lparr>ident_id = i, ident_user_id = 1, ident_provider = p, ident_provider_user_id = q,
     ident_email = None, ident_created_at = t, ident_last_used_at = None\<rparr>"

definition demo_auth :: "identity_row list \<Rightarrow> outcome list \<Rightarrow> (postgres, redis, unit) backend" where
  "demo_auth ids os =
     \<lparr>be_db = (demo_db os)\<lparr>identities := ids\<rparr>,
      be_sessions = \<lparr>r_entries = Map.empty, r_now = 0, r_served = []\<rparr>, be_world = ()\<rparr>"

definition demo_login :: login_request where
  "demo_login = \<lparr>lr_Code = [], lr_State = [], lr_CodeVerifier = [], lr_DeviceID = []\<rparr>"

abbreviation demo_uc :: "string \<Rightarrow> string \<Rightarrow> (postgres, redis, unit) auth_usecases" where
  "demo_uc puid avatar \<equiv> authUsecases (\<lambda>_. None) demo_parse demo_render (demo_providers puid avatar)"

lemma demo_auth_simps [simp]:
  "users (be_db (demo_auth ids os)) = users (demo_db [])" "identities (be_db (demo_auth ids os)) = ids"
  "outcomes (be_db (demo_auth ids os)) = os" "healthy (be_db (demo_auth ids os)) = (os = [])"
  "be_sessions (demo_auth ids os) = \<lparr>r_entries = Map.empty, r_now = 0, r_served = []\<rparr>"
  "be_world (demo_auth ids os) = ()"
  by (simp_all add: demo_auth_def demo_db_def healthy_def)

lemma demo_providers_vk [simp]:
  "demo_providers puid avatar ''vk'' = Some (\<lambda>_ w. (Inr (demo_result puid avatar), w))"
  by (simp add: demo_providers_def)

lemma demo_auth_inv:
  "auth_inv (be_db (demo_auth [demo_ident 1 ''vk'' ''x'' 0] os))"
  "auth_inv (be_db (demo_auth [demo_ident 1 ''vk'' ''x'' 0, demo_ident 2 ''google'' ''y'' 1] os))"
  by (simp_all add: auth_inv_def user_ids_def demo_ident_def demo_db_def demo_user_def)

text \<open>The login of the user that has the identity, on a database that answers.\<close>

lemma login_user_healthy:
  assumes "healthy d" and "links d (p, or_ProviderUserID res) = Some uid" and "accounts d uid = Some u"
    and "DisplayName u = or_DisplayName res" and "AvatarURL u = or_AvatarURL res"
  shows "\<exists>d'. login_user (authUsecases f parse render ps) p res now d = (Inr u, d')"
proof -
  let ?uc = "authUsecases f parse render ps"
  obtain i d1 where f: "isto_FindByProvider p (or_ProviderUserID res) d = (i, d1)" by fastforce
  note c = isto_find [OF f]
  from c assms(1) have h: "healthy d1" "same_tables d d1" by simp_all
  from c assms(1,2) have "\<exists>i'. i = Inr i'" by simp
  then obtain idn where i: "i = Inr idn" by blast
  with c assms(2) have "Some uid = Some (ui_UserID idn)" by metis
  with i have idn: "i = Inr idn" "ui_UserID idn = uid" by simp_all
  obtain g d2 where g: "asto_GetUserByID uid d1 = (g, d2)" by fastforce
  have "g = (case accounts d1 uid of None \<Rightarrow> Inl UserDoesNotExistError | Some u \<Rightarrow> Inr u)"
    using asto_get [OF g] h(1) by blast
  then have "g = Inr u" unfolding auth_frame(2) [OF h(2)] assms(3) by simp
  with g idn(2) assms(4,5) have "login_existing ?uc idn res now d1 =
      (Inr u, snd (isto_UpdateLastUsed (ui_ID idn) now d2))"
    by (simp add: login_existing_def refresh_user_def)
  moreover have "login_user ?uc p res now d = login_existing ?uc idn res now d1"
    using f idn(1) by (simp add: login_user_def)
  ultimately show ?thesis by auto
qed

lemma demo_login_run:
  "\<exists>b'. uc_Login (demo_uc ''x'' ''a'') ''vk'' ''sid'' demo_login 100 0 0
     (demo_auth [demo_ident 1 ''vk'' ''x'' 0] []) = (Inr (demo_user 1), b') \<and>
     be_sessions b' = \<lparr>r_entries = [''sid'' \<mapsto> (''s'', Some 100)], r_now = 0, r_served = []\<rparr>"
proof -
  let ?d = "be_db (demo_auth [demo_ident 1 ''vk'' ''x'' 0] [])"
  have "\<exists>d'. login_user (demo_uc ''x'' ''a'') ''vk'' (demo_result ''x'' ''a'') 0 ?d = (Inr (demo_user 1), d')"
    by (rule login_user_healthy [where uid = 1])
      (simp_all add: links_def is_identity_def demo_ident_def accounts_def has_id_def demo_db_def demo_user_def
        demo_result_def)
  then obtain d where d: "login_user (demo_uc ''x'' ''a'') ''vk'' (demo_result ''x'' ''a'') 0 ?d = (Inr (demo_user 1), d)"
    by blast
  show ?thesis
    by (simp add: uc_Login_def on_world_def on_db_def d on_sessions_def sm_CreateSession_def
        redis_Set_def redis_turn_def redis_expiry_def demo_render_def demo_session_def split: prod.splits)
qed

theorem login_respects_identities_witness:
  "\<exists>b'. uc_Login (demo_uc ''x'' ''a'') ''vk'' ''sid'' demo_login 100 0 0
     (demo_auth [demo_ident 1 ''vk'' ''x'' 0] []) = (Inr (demo_user 1), b') \<and>
     links (be_db b') (''vk'', ''x'') = Some 1"
proof -
  obtain b' where run: "uc_Login (demo_uc ''x'' ''a'') ''vk'' ''sid'' demo_login 100 0 0
     (demo_auth [demo_ident 1 ''vk'' ''x'' 0] []) = (Inr (demo_user 1), b')" using demo_login_run by blast
  from login_respects_identities [OF demo_auth_inv(1) run]
  have "links (be_db b') (''vk'', ''x'') = Some 1"
    by (auto simp: demo_providers_def demo_result_def demo_user_def)
  with run show ?thesis by blast
qed

section \<open>The life of a session\<close>

definition at_time :: "int \<Rightarrow> ('d, redis, 'w) backend \<Rightarrow> ('d, redis, 'w) backend" where
  "at_time t b = b\<lparr>be_sessions := (be_sessions b)\<lparr>r_now := t\<rparr>\<rparr>"

lemma sm_CreateSession_Inr:
  assumes "sm_CreateSession render sid sd dur r = (Inr (), r')" and "0 < dur"
  shows "r_entries r' = (r_entries r)(sid \<mapsto> (render (marshal_session sd), Some (r_now r + dur))) \<and> r_now r' = r_now r"
proof -
  obtain ok r1 where t: "redis_turn r = (ok, r1)" by fastforce
  then have "r_entries r1 = r_entries r" "r_now r1 = r_now r"
    by (auto simp: redis_turn_def split: list.splits)
  with assms t show ?thesis
    by (cases ok) (auto simp: sm_CreateSession_def redis_Set_def redis_expiry_def)
qed

lemma sm_GetSession_served:
  assumes "r_served r = []"
  shows "sm_GetSession parse sid r = (parse (case alive r sid of None \<Rightarrow> [] | Some v \<Rightarrow> v) \<bind> unmarshal_session, r)"
  using assms by (simp add: sm_GetSession_def redis_Get_def redis_turn_def)

text \<open>
  C24. A session lives as long as it was made for: after a login at time \<open>now\<close>, while the
  session store answers and the session is not replaced, the middleware lets the bearer of the
  cookie through as exactly the user who logged in, as long as the duration has not passed, and
  answers 401 from then on; a user whose status at the login was not active is answered 403.
  That the document of the session is parsed as it was written, and that an empty text is not
  JSON, is what is used of \<open>encoding/json\<close>.
\<close>

theorem login_session:
  assumes "uc_Login (authUsecases scan_text parse render providers) p sid login dur now now2 b = (Inr u, b')"
    and "0 < dur" and "int64 (userID u)" and "r_served (be_sessions b') = []"
    and "providers p = Some auth" and "auth login (be_world b) = (Inr res, w)"
    and "parse (render (marshal_session (session_of p res u))) = Some (marshal_session (session_of p res u))"
    and "parse [] = None"
  shows "LoginRequiredMiddleware (authUsecases scan_text parse render providers) nxt (Some sid) (at_time t b') =
    (if r_now (be_sessions b) + dur \<le> t then (Return (401, ErrBody ErrNotAuthorized), at_time t b')
     else if Status u \<in> {[], ''active''} then nxt (Some u) (at_time t b')
     else (Return (403, ErrBody ErrUserInactive), at_time t b'))"
proof -
  obtain d' r where c: "sm_CreateSession render sid (session_of p res u) dur (be_sessions b) = (Inr (), r)"
    and b': "b' = \<lparr>be_db = d', be_sessions = r, be_world = w\<rparr>"
    using assms(1,5,6) by (auto elim!: uc_Login_Inr)
  let ?r = "r\<lparr>r_now := t\<rparr>"
  note e = sm_CreateSession_Inr [OF c assms(2)]
  have a: "alive ?r sid = (if t < r_now (be_sessions b) + dur then Some (render (marshal_session (session_of p res u))) else None)"
    using e by (simp add: alive_def)
  have "r_served ?r = []" using assms(4) by (simp add: b')
  note g = sm_GetSession_served [OF this, of parse sid]
  have bk: "unmarshal_session (marshal_session (session_of p res u)) = Some (session_of p res u)"
    by (rule unmarshal_marshal_session) (simp add: session_of_def assms(3))
  have st: "at_time t b' = \<lparr>be_db = d', be_sessions = ?r, be_world = w\<rparr>" by (simp add: at_time_def b')
  have "uc_CheckAuth (authUsecases scan_text parse render providers) sid (at_time t b') =
      (if t < r_now (be_sessions b) + dur then Some u else None, at_time t b')"
    using assms(7,8) bk
    by (simp add: uc_CheckAuth_def on_sessions_def st g a) (simp add: session_of_def)
  then show ?thesis by (auto simp: LoginRequiredMiddleware_def status_defs)
qed

theorem login_session_witness:
  "\<exists>b'. LoginRequiredMiddleware (demo_uc ''x'' ''a'') (\<lambda>u b. (Return (200, OkBody u), b)) (Some ''sid'') (at_time 99 b') =
      (Return (200, OkBody (Some (demo_user 1))), at_time 99 b') \<and>
    LoginRequiredMiddleware (demo_uc ''x'' ''a'') (\<lambda>u b. (Return (200, OkBody u), b)) (Some ''sid'') (at_time 100 b') =
      (Return (401, ErrBody ErrNotAuthorized), at_time 100 b')"
proof -
  let ?b = "demo_auth [demo_ident 1 ''vk'' ''x'' 0] []"
  obtain b' where run: "uc_Login (demo_uc ''x'' ''a'') ''vk'' ''sid'' demo_login 100 0 0 ?b = (Inr (demo_user 1), b')"
    and s: "r_served (be_sessions b') = []" using demo_login_run by force
  have h: "(0::int) < 100" "int64 (userID (demo_user 1))"
    "(\<lambda>_ w. (Inr (demo_result ''x'' ''a''), w)) demo_login (be_world ?b) = (Inr (demo_result ''x'' ''a''), ())"
    "demo_parse (demo_render (marshal_session (session_of ''vk'' (demo_result ''x'' ''a'') (demo_user 1)))) =
      Some (marshal_session (session_of ''vk'' (demo_result ''x'' ''a'') (demo_user 1)))"
    "demo_parse [] = None"
    by (simp_all add: int64_def demo_user_def demo_parse_def demo_render_def demo_session_def)
  note t = login_session [OF run h(1,2) s demo_providers_vk h(3,4,5),
      of "\<lambda>u b. (Return (200, OkBody u), b)"]
  show ?thesis using t [of 99] t [of 100] by (intro exI [of _ b']) (simp add: demo_user_def)
qed

text \<open>
  C25. After a logout that was answered 200 the cookie is worth nothing: as long as no session is
  made under it again, every request with it is answered 401, at any time and whatever the
  session store does.
\<close>

theorem logout_ends_session:
  assumes "h_Logout (authUsecases scan_text parse render providers) (Some sid) b = (Return (c, (StatusOk, body)), b')"
    and "parse [] = None"
  shows "c = ClearSession \<and>
    fst (LoginRequiredMiddleware (authUsecases scan_text parse render providers) nxt (Some sid)
      (at_time t (b'\<lparr>be_sessions := (be_sessions b')\<lparr>r_served := coming\<rparr>\<rparr>))) =
    Return (401, ErrBody ErrNotAuthorized)"
proof -
  obtain r where rm: "sm_RemoveSession parse sid (be_sessions b) = (Inr (), r)" and b': "b' = b\<lparr>be_sessions := r\<rparr>"
    and c: "c = ClearSession"
    using assms(1) by (auto simp: h_Logout_def uc_Logout_def on_sessions_eq auth_ok_def auth_err_def clearSession_def
        SendErrResponse_def sendResponse_def status_defs split: prod.splits sum.splits)
  have "r_entries r sid = None"
    using rm by (auto simp: sm_RemoveSession_def redis_Del_def split: prod.splits option.splits bool.splits)
  then have "alive (r\<lparr>r_served := cs, r_now := t\<rparr>) sid = None" for cs by (simp add: alive_def)
  then have "fst (sm_GetSession parse sid (r\<lparr>r_served := coming, r_now := t\<rparr>)) = None"
    using assms(2) \<open>r_entries r sid = None\<close>
    by (cases coming) (auto simp: sm_GetSession_def redis_Get_def redis_turn_def alive_def split: bool.splits)
  then show ?thesis
    using c by (auto simp: LoginRequiredMiddleware_def uc_CheckAuth_def on_sessions_def at_time_def b' status_defs
        split: prod.splits)
qed

theorem logout_ends_session_witness:
  "\<exists>b'. fst (LoginRequiredMiddleware (demo_uc ''x'' ''a'') (\<lambda>u b. (Return (200, OkBody u), b)) (Some ''sid'')
      (at_time 5 (b'\<lparr>be_sessions := (be_sessions b')\<lparr>r_served := [True]\<rparr>\<rparr>))) = Return (401, ErrBody ErrNotAuthorized)"
proof -
  let ?b = "(demo_auth [] [])\<lparr>be_sessions := \<lparr>r_entries = [''sid'' \<mapsto> (''s'', Some 100)], r_now = 0, r_served = []\<rparr>\<rparr>"
  have bk: "unmarshal_session (marshal_session demo_session) = Some demo_session"
    by (rule unmarshal_marshal_session) (simp add: demo_session_def session_of_def demo_user_def int64_def)
  obtain body b' where run: "h_Logout (demo_uc ''x'' ''a'') (Some ''sid'') ?b = (Return (ClearSession, (StatusOk, body)), b')"
    by (simp add: h_Logout_def uc_Logout_def on_sessions_def sm_RemoveSession_def sm_GetSession_served alive_def
        demo_parse_def bk redis_Del_def redis_turn_def auth_ok_def clearSession_def all_marshal_def)
  have "demo_parse [] = None" by (simp add: demo_parse_def)
  from logout_ends_session [OF run this] show ?thesis by blast
qed

section \<open>Users without an avatar\<close>

lemma no_avatar_update:
  assumes "tx_result (exec (UpdateUserQuery uid name [])) db = (r, db')"
  shows "\<exists>e. r = Inl e"
  using tx_result_cases [OF assms]
proof (elim disjE exE conjE)
  fix x db1 db2 assume "exec (UpdateUserQuery uid name []) db1 = (Inr x, db2)"
  from exec_Inr [OF this] show ?thesis
    by (auto simp: UpdateUserQuery_def user_checks_def split: option.splits if_splits)
qed simp

lemma no_avatar_create:
  assumes "asto_CreateUserWithIdentity u idn db = (r, db')" and "AvatarURL u = []"
  shows "r = Inl TxError"
proof -
  have "\<exists>e. e \<noteq> Sentinel IdentityAlreadyLinkedError \<and> fst (create_both u idn d) = Inl e" for d
  proof -
    obtain q d1 where q: "exec (CreateUserQuery (DisplayName u) (AvatarURL u)) d = (q, d1)" by fastforce
    from exec_cases [OF q] assms(2) have "\<exists>e. e \<noteq> Sentinel IdentityAlreadyLinkedError \<and> q = Inl e"
      by (auto simp: CreateUserQuery_def Let_def user_checks_def split: if_splits)
    with q show ?thesis by (auto simp: create_both_def db_bind_def)
  qed
  then have body: "\<exists>e d'. e \<noteq> Sentinel IdentityAlreadyLinkedError \<and> create_both u idn d = (Inl e, d')" for d
    by (metis prod.collapse)
  obtain x y where t: "transaction (create_both u idn) db = (x, y)" by fastforce
  obtain z a where z: "exec (\<lambda>db. (Inr (), db)) db = (z, a)" by fastforce
  from exec_cases [OF z] have "z = Inl ConnError \<or> z = Inr ()" by auto
  with t z body [of a] have "\<exists>e. e \<noteq> Sentinel IdentityAlreadyLinkedError \<and> x = Inl e"
    by (auto simp: transaction_def)
  with assms(1) t show ?thesis by (auto simp: asto_CreateUserWithIdentity_def tx_result_def)
qed

text \<open>
  C26. A user without an avatar cannot log in. When the provider reports no avatar, which the
  Yandex client does for everybody who has none, no login ever succeeds: a new user violates the
  constraint of the column and so does the update of an existing one.
\<close>

theorem no_avatar_no_login:
  assumes "auth_inv (be_db b)" and "providers p = Some auth"
    and "auth login (be_world b) = (Inr res, w)" and "or_AvatarURL res = []"
  shows "\<exists>e. fst (uc_Login (authUsecases scan_text parse render providers) p sid login dur now now2 b) = Inl e"
proof -
  let ?uc = "authUsecases scan_text parse render providers"
  have new: "\<exists>e d'. login_new ?uc p res d = (Inl e, d')" for d
  proof -
    obtain c d1 where c: "asto_CreateUserWithIdentity (new_user 0 res) (new_identity 0 p res) d = (c, d1)" by fastforce
    from no_avatar_create [OF c] assms(4) have "c = Inl TxError" by (simp add: new_user_def)
    with c show ?thesis by (simp add: login_new_def)
  qed
  have old: "\<exists>e d'. login_existing ?uc idn res now d = (Inl e, d')" if "auth_inv d" for idn d
  proof -
    obtain g d1 where g: "asto_GetUserByID (ui_UserID idn) d = (g, d1)" by fastforce
    show ?thesis
    proof (cases g)
      case (Inr u)
      with asto_get [OF g] have "accounts d (ui_UserID idn) = Some u" by simp
      with that have "AvatarURL u \<noteq> []" by (auto simp: accounts_def auth_inv_def dest!: find_SomeD)
      with assms(4) have "refresh_user ?uc u res d1 = asto_UpdateUser (new_user (userID u) res) d1"
        by (simp add: refresh_user_def)
      moreover obtain x d2 where x: "asto_UpdateUser (new_user (userID u) res) d1 = (x, d2)" by fastforce
      moreover from no_avatar_update x assms(4) have "\<exists>e. x = Inl e"
        by (auto simp: asto_UpdateUser_def new_user_def)
      ultimately show ?thesis using g Inr by (auto simp: login_existing_def)
    qed (use g in \<open>simp add: login_existing_def\<close>)
  qed
  obtain i d1 where f: "isto_FindByProvider p (or_ProviderUserID res) (be_db b) = (i, d1)" by fastforce
  from isto_find [OF f] have "same_tables (be_db b) d1" by blast
  then have "auth_inv d1" using auth_frame assms(1) by blast
  then have "\<exists>e d'. login_user ?uc p res now (be_db b) = (Inl e, d')"
    using f new [of d1] old [of d1] by (cases i) (auto simp: login_user_def)
  with assms(2,3) show ?thesis by (auto simp: uc_Login_def on_world_def on_db_def)
qed

theorem no_avatar_no_login_witness:
  "\<exists>e. fst (uc_Login (demo_uc ''z'' []) ''vk'' ''sid'' demo_login 100 0 0
     (demo_auth [demo_ident 1 ''vk'' ''x'' 0] [])) = Inl e"
  by (rule no_avatar_no_login [where providers = "demo_providers ''z'' []" and res = "demo_result ''z'' []" and w = "()"])
    (simp_all add: demo_auth_inv demo_result_def)

section \<open>Linking and unlinking\<close>

lemma with_db: "on_db f b = (fst (f (be_db b)), b\<lparr>be_db := snd (f (be_db b))\<rparr>)"
  by (simp add: on_db_def split: prod.splits)

lemma list_refused:
  assumes "\<forall>t. scan_text t = None" and "healthy db" and "links db k = Some uid"
  shows "\<exists>db'. isto_ListByUserID scan_text uid db = (Inl (OtherError ''scan''), db') \<and> same_tables db db'"
proof -
  obtain q db1 where q: "query_rows (ListIdentitiesByUserIDQuery uid) db = (q, db1)" by fastforce
  note c = query_rows_cases [OF q]
  then have st: "same_tables db db1" by simp
  let ?own = "sort_key ident_created_at (filter (\<lambda>row. ident_user_id row = uid) (identities db))"
  have rows: "q = Inr (?own, None)"
    using c assms(2) by (simp add: ListIdentitiesByUserIDQuery_def same_tablesD(2) [OF st])
  from assms(3) obtain row where "row \<in> set (identities db)" "ident_user_id row = uid"
    by (auto simp: links_def dest!: find_SomeD)
  then have "row \<in> set ?own" by simp
  then have "?own \<noteq> []" by (metis empty_iff list.set(1))
  then obtain x xs where "?own = x # xs" by (cases ?own) simp_all
  then have "scan_identities scan_text ?own = None" using assms(1) by simp
  with q rows st show ?thesis by (simp add: isto_ListByUserID_def)
qed

text \<open>
  C27. Identities can be neither listed nor unlinked. The driver refuses to scan the column
  \<open>created_at\<close>, a \<open>timestamptz\<close>, into a Go string; so on a database that answers, every user
  who has an identity gets 500 for the list and for every unlinking, and nothing changes.
\<close>

theorem identities_out_of_reach:
  assumes "\<forall>t. scan_text t = None" and "healthy (be_db b)" and "links (be_db b) k = Some (userID u)"
  shows "fst (h_ListIdentities (authUsecases scan_text parse render providers) (Some u) b) =
      Return (NoCookie, (500, ErrBody ErrInternalServer)) \<and>
    fst (h_UnlinkIdentity (authUsecases scan_text parse render providers) p (Some u) b) =
      Return (NoCookie, (500, ErrBody ErrInternalServer)) \<and>
    links (be_db (snd (h_UnlinkIdentity (authUsecases scan_text parse render providers) p (Some u) b))) =
      links (be_db b)"
proof -
  from list_refused [OF assms] obtain db' where
    l: "isto_ListByUserID scan_text (userID u) (be_db b) = (Inl (OtherError ''scan''), db')" "same_tables (be_db b) db'"
    by blast
  have "links db' = links (be_db b)" by (rule auth_frame(3) [OF l(2)])
  with l(1) show ?thesis
    by (simp add: h_ListIdentities_def h_UnlinkIdentity_def uc_ListIdentities_def uc_UnlinkIdentity_def with_db
        unlink_user_def auth_err_def status_defs)
qed

theorem identities_out_of_reach_witness:
  "fst (h_ListIdentities (demo_uc ''x'' ''a'') (Some (demo_user 1)) (demo_auth [demo_ident 1 ''vk'' ''x'' 0] [])) =
     Return (NoCookie, (500, ErrBody ErrInternalServer))"
proof -
  have "\<forall>t. (\<lambda>_. None) (t :: int) = (None :: string option)"
    "healthy (be_db (demo_auth [demo_ident 1 ''vk'' ''x'' 0] []))"
    "links (be_db (demo_auth [demo_ident 1 ''vk'' ''x'' 0] [])) (''vk'', ''x'') = Some (userID (demo_user 1))"
    by (simp_all add: links_def is_identity_def demo_ident_def demo_user_def)
  from identities_out_of_reach [OF this] show ?thesis by blast
qed

text \<open>
  C28. Linking never takes an identity from somebody else, and unlinking never takes the last
  identity from a user: with whatever failures, a link request adds at most the identity that the
  provider confirmed, to the user who asks and only if nobody else has it; an unlink request
  removes at most the user's identity of that provider and leaves the user with another one.
\<close>

theorem link_unlink_safe:
  assumes "auth_inv (be_db b)"
  shows "(uc_LinkIdentity (authUsecases scan_text parse render providers) uid p login b = (r, b1) \<longrightarrow>
      auth_inv (be_db b1) \<and> accounts (be_db b1) = accounts (be_db b) \<and>
      (links (be_db b1) = links (be_db b) \<or>
       (\<exists>auth res w. providers p = Some auth \<and> auth login (be_world b) = (Inr res, w) \<and> r = Inr () \<and>
          links (be_db b) (p, or_ProviderUserID res) = None \<and>
          links (be_db b1) = (links (be_db b))((p, or_ProviderUserID res) \<mapsto> uid)))) \<and>
    (uc_UnlinkIdentity (authUsecases scan_text parse render providers) uid p b = (r, b1) \<longrightarrow>
      auth_inv (be_db b1) \<and> accounts (be_db b1) = accounts (be_db b) \<and>
      (links (be_db b1) = links (be_db b) \<or>
       r = Inr () \<and> (\<exists>k. links (be_db b1) k = Some uid) \<and>
         links (be_db b1) = (\<lambda>k. if fst k = p \<and> links (be_db b) k = Some uid then None else links (be_db b) k)))"
proof (rule conjI; rule impI)
  let ?uc = "authUsecases scan_text parse render providers"
  assume run: "uc_LinkIdentity ?uc uid p login b = (r, b1)"
  show "auth_inv (be_db b1) \<and> accounts (be_db b1) = accounts (be_db b) \<and>
      (links (be_db b1) = links (be_db b) \<or>
       (\<exists>auth res w. providers p = Some auth \<and> auth login (be_world b) = (Inr res, w) \<and> r = Inr () \<and>
          links (be_db b) (p, or_ProviderUserID res) = None \<and>
          links (be_db b1) = (links (be_db b))((p, or_ProviderUserID res) \<mapsto> uid)))"
  proof (cases "\<exists>auth res w. providers p = Some auth \<and> auth login (be_world b) = (Inr res, w)")
    case True
    then obtain auth res w where a: "providers p = Some auth" "auth login (be_world b) = (Inr res, w)" by blast
    obtain d where l: "link_user ?uc uid p res (be_db b) = (r, d)" and d: "be_db b1 = d"
      using run a by (cases "link_user ?uc uid p res (be_db b)") (auto simp add: uc_LinkIdentity_def on_world_def with_db)
    from store.link_user [OF assms _ _ l] have e: "auth_inv d \<and> accounts d = accounts (be_db b) \<and>
      ((\<exists>e. r = Inl e) \<and> links d = links (be_db b) \<or>
       r = Inr () \<and> links (be_db b) (p, or_ProviderUserID res) \<in> {None, Some uid} \<and>
         links d = (links (be_db b))((p, or_ProviderUserID res) \<mapsto> uid))" by simp
    then show ?thesis unfolding d using a by (auto simp: fun_upd_idem)
  next
    case False
    then have "be_db b1 = be_db b"
      using run by (auto simp: uc_LinkIdentity_def on_world_def split: option.splits prod.splits sum.splits)
    with assms show ?thesis by simp
  qed
next
  let ?uc = "authUsecases scan_text parse render providers"
  assume "uc_UnlinkIdentity ?uc uid p b = (r, b1)"
  then obtain d where u: "unlink_user ?uc uid p (be_db b) = (r, d)" and d: "be_db b1 = d"
    by (auto simp: uc_UnlinkIdentity_def on_db_eq)
  from store.unlink_user [OF assms _ _ u]
  show "auth_inv (be_db b1) \<and> accounts (be_db b1) = accounts (be_db b) \<and>
      (links (be_db b1) = links (be_db b) \<or>
       r = Inr () \<and> (\<exists>k. links (be_db b1) k = Some uid) \<and>
         links (be_db b1) = (\<lambda>k. if fst k = p \<and> links (be_db b) k = Some uid then None else links (be_db b) k))"
    unfolding d by auto
qed

theorem link_unlink_safe_witness:
  "\<exists>k. links (be_db (snd (uc_UnlinkIdentity (authUsecases (\<lambda>_. Some []) demo_parse demo_render (demo_providers ''x'' ''a''))
      1 ''vk'' (demo_auth [demo_ident 1 ''vk'' ''x'' 0, demo_ident 2 ''google'' ''y'' 1] [])))) k = Some 1"
proof -
  let ?b = "demo_auth [demo_ident 1 ''vk'' ''x'' 0, demo_ident 2 ''google'' ''y'' 1] []"
  obtain r b1 where run: "uc_UnlinkIdentity (authUsecases (\<lambda>_. Some []) demo_parse demo_render (demo_providers ''x'' ''a''))
      1 ''vk'' ?b = (r, b1)" by fastforce
  have "links (be_db ?b) (''google'', ''y'') = Some 1"
    by (simp add: links_def is_identity_def demo_ident_def)
  moreover from link_unlink_safe [OF demo_auth_inv(2), THEN conjunct2, THEN mp, OF run]
  have "links (be_db b1) = links (be_db ?b) \<or> (\<exists>k. links (be_db b1) k = Some 1)" by blast
  ultimately have "\<exists>k. links (be_db b1) k = Some 1" by (elim disjE) (simp_all only:, blast+)
  with run show ?thesis by simp
qed

text \<open>
  A second account of the same provider cannot be linked, and the refusal is reported as a
  server error: when the user already has an identity of the provider and nobody has the new one,
  a database that answers makes the request end with 500.
\<close>

theorem second_account_refused:
  assumes "auth_inv (be_db b)" and "healthy (be_db b)" and "providers p = Some auth"
    and "auth login (be_world b) = (Inr res, w)" and "links (be_db b) (p, q) = Some (userID u)"
    and "links (be_db b) (p, or_ProviderUserID res) = None"
  shows "fst (h_LinkIdentity (authUsecases scan_text parse render providers) p (Some login) (Some u) b) =
    Return (NoCookie, (500, ErrBody ErrInternalServer))"
proof -
  let ?uc = "authUsecases scan_text parse render providers"
  let ?idn = "new_identity (userID u) p res"
  obtain i d1 where f: "isto_FindByProvider p (or_ProviderUserID res) (be_db b) = (i, d1)" by fastforce
  note c = isto_find [OF f]
  have i: "i = Inl IdentityNotFoundError" using c assms(2,6) by (cases i) simp_all
  have h: "healthy d1" "same_tables (be_db b) d1" using c assms(2) by simp_all
  obtain s d2 where x: "exec (CreateIdentityQuery (userID u) p (or_ProviderUserID res) (or_Email res)) d1 = (s, d2)"
    by fastforce
  from exec_cases [OF x] h(1) obtain d3 where d3: "same_tables d1 d3"
    and st: "CreateIdentityQuery (userID u) p (or_ProviderUserID res) (or_Email res) d3 = (s, d2)" by auto
  have st3: "same_tables (be_db b) d3" using h(2) d3 same_tables_trans by blast
  have "\<not> (\<exists>row \<in> set (identities d3). is_identity p (or_ProviderUserID res) row)"
    using assms(6) auth_frame(3) [OF st3] links_None [of d3] by simp
  moreover have "\<exists>row \<in> set (identities d3). of_user (userID u) p row"
    using assms(5) auth_frame(3) [OF st3]
    by (auto simp: links_def of_user_def is_identity_def same_tablesD(2) [OF st3] dest!: find_SomeD)
  ultimately have "\<exists>e. s = Inl e \<and> e \<noteq> PgError ''23505'' ''uq_identity_provider''"
    using st by (auto simp: CreateIdentityQuery_def insert_identity_def Let_def split: if_splits)
  then have "fst (link_user ?uc (userID u) p res (be_db b)) = Inl TxError"
    using f i x by (auto simp: link_user_def isto_CreateIdentity_def new_identity_def)
  with assms(3,4) show ?thesis
    by (simp add: h_LinkIdentity_def uc_LinkIdentity_def on_world_def with_db auth_err_def status_defs)
qed

theorem second_account_refused_witness:
  "fst (h_LinkIdentity (demo_uc ''other'' ''a'') ''vk'' (Some demo_login) (Some (demo_user 1))
     (demo_auth [demo_ident 1 ''vk'' ''x'' 0] [])) = Return (NoCookie, (500, ErrBody ErrInternalServer))"
  by (rule second_account_refused [OF demo_auth_inv(1), where q = "''x''" and res = "demo_result ''other'' ''a''" and w = "()"])
    (simp_all add: links_def is_identity_def demo_ident_def demo_user_def demo_result_def)

end
