(* ===== verification/Mongo.thy ===== *)
theory Mongo
  imports Postgres Strconv "HOL-Library.AList" "HOL-Library.Monad_Syntax"
begin

text \<open>
  The MongoDB server behind the bestiary, the characters and the map tiles: BSON values,
  the operators the repositories write into their filters, with the documented meaning of
  each, and what \<open>Find\<close>, \<open>FindOne\<close>, the cursor loop and \<open>InsertOne\<close> can do.

  Regular expressions and the sort order belong to the server and are parameters. Failures
  are part of the state, as for Postgres: \<open>mongo_outcomes\<close> says of every coming call whether
  it is served, refused, or breaks after some documents have been delivered.
\<close>

section \<open>Values\<close>

text \<open>An ObjectID is its 24 lower-case hexadecimal digits.\<close>

datatype bson =
    BNull
  | BBool bool
  | BInt int
  | BDouble string
  | BStr string
  | BOid string
  | BArr "bson list"
  | BDoc "(string \<times> bson) list"

type_synonym document = "(string \<times> bson) list"

definition is_hex :: "char \<Rightarrow> bool" where
  "is_hex c \<longleftrightarrow> c \<in> set ''0123456789abcdefABCDEF''"

definition lower_hex :: "char \<Rightarrow> char" where
  "lower_hex c = (let n = (of_char c :: nat) in if 65 \<le> n \<and> n \<le> 70 then char_of (n + 32) else c)"

text \<open>\<open>primitive.ObjectIDFromHex\<close>, and \<open>primitive.NilObjectID\<close> as its digits.\<close>

definition ObjectIDFromHex :: "string \<Rightarrow> string option" where
  "ObjectIDFromHex s =
     (if length s = 24 \<and> list_all is_hex s then Some (map lower_hex s) else None)"

definition nil_oid :: string where
  "nil_oid = replicate 24 (CHR ''0'')"

section \<open>Filters\<close>

text \<open>
  \<open>{key: v}\<close>, \<open>{$in: vs}\<close>, \<open>{$nin: vs}\<close>, \<open>{$regex: r, $options: i}\<close> and
  \<open>{$elemMatch: {$or: [{k: {$in: vs}}, \<dots>]}}\<close>; the entries of a filter are a conjunction.
  A nil slice of Go is written as null, which the server refuses as the operand of \<open>$nin\<close>.
\<close>

datatype condition =
    Equals bson
  | In "string list"
  | NotIn "string list option"
  | Regex string
  | ElemMatchOr "(string \<times> string list) list"

type_synonym mongo_filter = "(string \<times> condition) list"

fun split_on :: "char \<Rightarrow> string \<Rightarrow> string list" where
  "split_on sep [] = [[]]"
| "split_on sep (c # cs) =
     (if c = sep then [] # split_on sep cs
      else (case split_on sep cs of [] \<Rightarrow> [[c]] | p # ps \<Rightarrow> (c # p) # ps))"

text \<open>The values at a dotted path, and the candidates of a comparison: an array and its elements.\<close>

fun reached :: "string list \<Rightarrow> bson \<Rightarrow> bson list" where
  "reached [] v = [v]"
| "reached (k # ks) (BDoc d) = (case map_of d k of None \<Rightarrow> [] | Some v \<Rightarrow> reached ks v)"
| "reached (k # ks) (BArr vs) =
     concat (map (\<lambda>v. case v of
         BDoc d \<Rightarrow> (case map_of d k of None \<Rightarrow> [] | Some w \<Rightarrow> reached ks w) | _ \<Rightarrow> []) vs)"
| "reached (k # ks) _ = []"

fun candidates :: "bson \<Rightarrow> bson list" where
  "candidates (BArr vs) = BArr vs # vs"
| "candidates v = [v]"

definition values_at :: "string \<Rightarrow> bson \<Rightarrow> bson list" where
  "values_at key v = reached (split_on (CHR ''.'') key) v"

definition in_strings :: "string list \<Rightarrow> bson list \<Rightarrow> bool" where
  "in_strings ss vs \<longleftrightarrow> list_ex (\<lambda>s. BStr s \<in> set (concat (map candidates vs))) ss"

fun holds :: "(string \<Rightarrow> string \<Rightarrow> bool) \<Rightarrow> condition \<Rightarrow> bson list \<Rightarrow> bool" where
  "holds rx (Equals w) vs = (w \<in> set (concat (map candidates vs)))"
| "holds rx (In ss) vs = in_strings ss vs"
| "holds rx (NotIn ss) vs = (\<not> in_strings (case ss of None \<Rightarrow> [] | Some l \<Rightarrow> l) vs)"
| "holds rx (Regex r) vs =
     list_ex (\<lambda>v. case v of BStr s \<Rightarrow> rx r s | _ \<Rightarrow> False) (concat (map candidates vs))"
| "holds rx (ElemMatchOr alts) vs =
     list_ex (\<lambda>v. case v of
         BArr es \<Rightarrow> list_ex (\<lambda>e. list_ex (\<lambda>(k, ss). in_strings ss (values_at k e)) alts) es
       | _ \<Rightarrow> False) vs"

definition matches :: "(string \<Rightarrow> string \<Rightarrow> bool) \<Rightarrow> mongo_filter \<Rightarrow> document \<Rightarrow> bool" where
  "matches rx f d \<longleftrightarrow> list_all (\<lambda>(key, c). holds rx c (values_at key (BDoc d))) f"

section \<open>The server\<close>

record find_options =
  fo_limit :: int
  fo_skip :: int
  fo_sort :: "(string \<times> int) list"

definition Find_options :: find_options where
  "Find_options = \<lparr>fo_limit = 0, fo_skip = 0, fo_sort = []\<rparr>"

record mongo_server =
  regex_ok :: "string \<Rightarrow> bool"
  regex_match :: "string \<Rightarrow> string \<Rightarrow> bool"
  sort_docs :: "(string \<times> int) list \<Rightarrow> document list \<Rightarrow> document list"

text \<open>What is relied on of the sort: it does not make up documents.\<close>

definition server_ok :: "mongo_server \<Rightarrow> bool" where
  "server_ok srv \<longleftrightarrow> (\<forall>ks ds. set (sort_docs srv ks ds) \<subseteq> set ds)"

record mongo =
  creatures :: "document list"
  generated_creatures :: "document list"
  characters :: "document list"
  map_tiles :: "document list"
  new_oids :: "string list"
  mongo_outcomes :: "outcome list"

datatype mongo_error = ErrNoDocuments | MongoError

text \<open>\<open>primitive.NewObjectID\<close> takes the next of \<open>new_oids\<close>.\<close>

definition NewObjectID :: "mongo \<Rightarrow> string \<times> mongo" where
  "NewObjectID m =
     (case new_oids m of [] \<Rightarrow> (nil_oid, m) | i # is \<Rightarrow> (i, m\<lparr>new_oids := is\<rparr>))"

definition mongo_call :: "mongo \<Rightarrow> outcome \<times> mongo" where
  "mongo_call m =
     (case mongo_outcomes m of [] \<Rightarrow> (Served, m) | x # xs \<Rightarrow> (x, m\<lparr>mongo_outcomes := xs\<rparr>))"

definition filter_ok :: "mongo_server \<Rightarrow> mongo_filter \<Rightarrow> bool" where
  "filter_ok srv f \<longleftrightarrow>
     list_all (\<lambda>(key, c). case c of Regex r \<Rightarrow> regex_ok srv r | NotIn ss \<Rightarrow> ss \<noteq> None | _ \<Rightarrow> True) f"

definition page_of :: "find_options \<Rightarrow> document list \<Rightarrow> document list" where
  "page_of fo ds =
     (let rest = drop (nat (fo_skip fo)) ds
      in if fo_limit fo = 0 then rest else take (nat (fo_limit fo)) rest)"

text \<open>
  \<open>Find\<close> and the cursor loop: the documents \<open>cursor.Next\<close> delivers. When a call breaks, the
  loop ends early; the repositories do not look at \<open>cursor.Err\<close>.
\<close>

definition mongo_Find ::
    "mongo_server \<Rightarrow> (mongo \<Rightarrow> document list) \<Rightarrow> mongo_filter \<Rightarrow> find_options \<Rightarrow> mongo
     \<Rightarrow> (mongo_error + document list) \<times> mongo" where
  "mongo_Find srv coll f fo m =
     (let (got, m1) = mongo_call m;
          found = page_of fo (sort_docs srv (fo_sort fo) (filter (matches (regex_match srv) f) (coll m1)))
      in (case got of
            Refused \<Rightarrow> Inl MongoError
          | Served \<Rightarrow> if filter_ok srv f then Inr found else Inl MongoError
          | Broken n \<Rightarrow> if filter_ok srv f then Inr (take n found) else Inl MongoError, m1))"

definition mongo_FindOne ::
    "mongo_server \<Rightarrow> (mongo \<Rightarrow> document list) \<Rightarrow> mongo_filter \<Rightarrow> mongo
     \<Rightarrow> (mongo_error + document) \<times> mongo" where
  "mongo_FindOne srv coll f m =
     (case mongo_call m of
        (Served, m1) \<Rightarrow>
          (case find (matches (regex_match srv) f) (coll m1) of
             None \<Rightarrow> (Inl ErrNoDocuments, m1) | Some d \<Rightarrow> (Inr d, m1))
      | (_, m1) \<Rightarrow> (Inl MongoError, m1))"

text \<open>
  \<open>InsertOne\<close>: the driver gives a document without \<open>_id\<close> a new one, the server refuses a
  second document with the same \<open>_id\<close>.
\<close>

definition ensure_id :: "document \<Rightarrow> mongo \<Rightarrow> document \<times> mongo" where
  "ensure_id d m =
     (case map_of d ''_id'' of
        Some _ \<Rightarrow> (d, m)
      | None \<Rightarrow> (let (i, m1) = NewObjectID m in ((''_id'', BOid i) # d, m1)))"

definition mongo_InsertOne ::
    "(mongo \<Rightarrow> document list) \<Rightarrow> ((document list \<Rightarrow> document list) \<Rightarrow> mongo \<Rightarrow> mongo) \<Rightarrow> document
     \<Rightarrow> mongo \<Rightarrow> (mongo_error + unit) \<times> mongo" where
  "mongo_InsertOne coll upd doc m =
     (let (d, m1) = ensure_id doc m in
      case mongo_call m1 of
        (Served, m2) \<Rightarrow>
          (if list_ex (\<lambda>d'. map_of d' ''_id'' = map_of d ''_id'') (coll m2) then (Inl MongoError, m2)
           else (Inr (), upd (\<lambda>ds. ds @ [d]) m2))
      | (_, m2) \<Rightarrow> (Inl MongoError, m2))"

section \<open>Writing and reading documents\<close>

text \<open>
  Struct codecs: an entry that \<open>omitempty\<close> leaves out is \<open>None\<close>. A missing field and null give
  the zero value; a field of another type is an error. A slice is \<open>None\<close> when it is nil.
\<close>

type_synonym 'a slice = "'a list option"

fun present :: "(string \<times> bson option) list \<Rightarrow> document" where
  "present [] = []"
| "present ((k, None) # r) = present r"
| "present ((k, Some v) # r) = (k, v) # present r"

definition bfield :: "(bson \<Rightarrow> 'a option) \<Rightarrow> 'a \<Rightarrow> string \<Rightarrow> document \<Rightarrow> 'a option" where
  "bfield dec zero key d = (case map_of d key of None \<Rightarrow> Some zero | Some v \<Rightarrow> dec v)"

fun b_str :: "bson \<Rightarrow> string option" where
  "b_str (BStr s) = Some s"
| "b_str BNull = Some []"
| "b_str _ = None"

fun b_int :: "bson \<Rightarrow> int option" where
  "b_int (BInt i) = Some i"
| "b_int (BDouble s) = atoi s"
| "b_int (BBool b) = Some (if b then 1 else 0)"
| "b_int BNull = Some 0"
| "b_int _ = None"

fun b_oid :: "bson \<Rightarrow> string option" where
  "b_oid (BOid s) = Some s"
| "b_oid BNull = Some nil_oid"
| "b_oid _ = None"

text \<open>
  A value read into an \<open>interface{}\<close>, kept as what \<open>encoding/json\<close> writes of it: a document becomes
  a \<open>primitive.D\<close>, a slice of structs with the fields \<open>Key\<close> and \<open>Value\<close> and no JSON method of its own.
  (A document written of a Go map has the entries of the map in any order; the association list of
  the model stands for the order of that write.)
\<close>

fun driver_any :: "bson \<Rightarrow> bson" where
  "driver_any (BArr vs) = BArr (map driver_any vs)"
| "driver_any (BDoc kvs) =
     BArr (map (\<lambda>(k, v). BDoc [(''Key'', BStr k), (''Value'', driver_any v)]) kvs)"
| "driver_any v = v"

definition b_any :: "bson \<Rightarrow> bson option" where
  "b_any v = Some (driver_any v)"

fun decode_all :: "(bson \<Rightarrow> 'a option) \<Rightarrow> bson list \<Rightarrow> 'a list option" where
  "decode_all dec [] = Some []"
| "decode_all dec (v # vs) = do { x \<leftarrow> dec v; xs \<leftarrow> decode_all dec vs; Some (x # xs) }"

fun b_slice :: "(bson \<Rightarrow> 'a option) \<Rightarrow> bson \<Rightarrow> 'a slice option" where
  "b_slice dec (BArr vs) = map_option Some (decode_all dec vs)"
| "b_slice dec BNull = Some None"
| "b_slice dec _ = None"

fun b_struct :: "(document \<Rightarrow> 'a option) \<Rightarrow> bson \<Rightarrow> 'a option" where
  "b_struct dec (BDoc d) = dec d"
| "b_struct dec BNull = dec []"
| "b_struct dec _ = None"

fun b_pointer :: "(bson \<Rightarrow> 'a option) \<Rightarrow> bson \<Rightarrow> 'a option option" where
  "b_pointer dec BNull = Some None"
| "b_pointer dec v = map_option Some (dec v)"

definition w_slice :: "('a \<Rightarrow> bson) \<Rightarrow> 'a slice \<Rightarrow> bson" where
  "w_slice wr xs = (case xs of None \<Rightarrow> BNull | Some ys \<Rightarrow> BArr (map wr ys))"

definition omit_slice :: "('a \<Rightarrow> bson) \<Rightarrow> 'a slice \<Rightarrow> bson option" where
  "omit_slice wr xs = (case xs of Some (y # ys) \<Rightarrow> Some (BArr (map wr (y # ys))) | _ \<Rightarrow> None)"

definition omit_str :: "string \<Rightarrow> bson option" where
  "omit_str s = (if s = [] then None else Some (BStr s))"

definition omit_int :: "int \<Rightarrow> bson option" where
  "omit_int i = (if i = 0 then None else Some (BInt i))"

section \<open>Lemmas\<close>

lemma map_of_present:
  assumes "distinct (map fst es)"
  shows "map_of (present es) k = (case map_of es k of None \<Rightarrow> None | Some v \<Rightarrow> v)"
  using assms
proof (induction es rule: present.induct)
  case (2 k' r)
  then have "map_of r k' = None" by (simp add: map_of_eq_None_iff)
  with 2 show ?case by auto
qed auto

lemma decode_all_map:
  assumes "\<And>x. x \<in> set xs \<Longrightarrow> dec (wr x) = Some x"
  shows "decode_all dec (map wr xs) = Some xs"
  using assms by (induction xs) auto

lemma filter_matches_page:
  assumes "server_ok srv"
    and "mongo_Find srv coll f fo m = (Inr ds, m')" and "d \<in> set ds"
  shows "d \<in> set (coll (snd (mongo_call m)))" and "matches (regex_match srv) f d"
proof -
  let ?found = "page_of fo (sort_docs srv (fo_sort fo)
      (filter (matches (regex_match srv) f) (coll (snd (mongo_call m)))))"
  have "set ds \<subseteq> set ?found"
    using assms(2) by (auto simp: mongo_Find_def Let_def split: prod.splits outcome.splits if_splits dest: in_set_takeD)
  moreover have "set ?found \<subseteq> set (sort_docs srv (fo_sort fo)
      (filter (matches (regex_match srv) f) (coll (snd (mongo_call m)))))"
    by (auto simp: page_of_def Let_def dest: in_set_takeD in_set_dropD)
  ultimately have "d \<in> set (filter (matches (regex_match srv) f) (coll (snd (mongo_call m))))"
    using assms(1,3) unfolding server_ok_def by blast
  then show "d \<in> set (coll (snd (mongo_call m)))" and "matches (regex_match srv) f d" by auto
qed

lemma mongo_call_tables [simp]:
  "creatures (snd (mongo_call m)) = creatures m"
  "generated_creatures (snd (mongo_call m)) = generated_creatures m"
  "characters (snd (mongo_call m)) = characters m"
  "map_tiles (snd (mongo_call m)) = map_tiles m"
  by (simp_all add: mongo_call_def split: list.split)

lemma mongo_Find_state: "snd (mongo_Find srv coll f fo m) = snd (mongo_call m)"
  by (simp add: mongo_Find_def Let_def split: prod.split)

lemma mongo_Find_length:
  assumes "mongo_Find srv coll f fo m = (Inr ds, m')" and "0 < fo_limit fo"
  shows "int (length ds) \<le> fo_limit fo"
proof -
  have "length (page_of fo es) \<le> nat (fo_limit fo)" for es
    using assms(2) by (simp add: page_of_def Let_def)
  then have "length ds \<le> nat (fo_limit fo)"
    using assms(1)
    by (auto simp: mongo_Find_def Let_def min_le_iff_disj split: prod.splits outcome.splits if_splits)
  with assms(2) show ?thesis by linarith
qed

end
