(* ===== verification/Creature.thy ===== *)
theory Creature
  imports Mongo Gojson
begin

text \<open>
  \<open>internal/models/creature.go\<close>, \<open>bestiary.go\<close> and the attacks of \<open>attack.go\<close>: the records,
  the documents MongoDB keeps of them (bson tags with \<open>omitempty\<close>) and their decoding from
  JSON and from documents. Reading a written creature gives it back, except that an empty
  slice of an \<open>omitempty\<close> field comes back nil.
\<close>

section \<open>Records\<close>

text \<open>The dynamic values of \<open>interface{}\<close> fields are kept as BSON values.\<close>

type_synonym any = bson

record creature_name =
  nm_Rus :: string
  nm_Eng :: string

record creature_size =
  sz_Rus :: string
  sz_Eng :: string
  sz_Cell :: string

record creature_type =
  ty_Name :: string
  ty_Tags :: "string slice"

record source_group =
  sg_Name :: string
  sg_ShortName :: string

record source =
  so_ShortName :: string
  so_Name :: string
  so_Group :: source_group

record hits =
  hi_Average :: int
  hi_Formula :: string

record speed =
  sp_Value :: any
  sp_Name :: string
  sp_Additional :: string

record ability =
  ab_Str :: int
  ab_Dex :: int
  ab_Con :: int
  ab_Int :: int
  ab_Wiz :: int
  ab_Cha :: int

record skill =
  sk_Name :: string
  sk_Value :: int

record sense =
  se_Name :: string
  se_Value :: int
  se_Additional :: string

record senses =
  ss_PassivePerception :: string
  ss_Sense :: "sense slice"

text \<open>\<open>Action\<close>, \<open>BonusAction\<close> and \<open>Reaction\<close> have the same fields.\<close>

record action =
  ac_Name :: string
  ac_Value :: string

record tag =
  tg_Name :: string
  tg_Description :: string

record saving_throw =
  st_Name :: string
  st_ShortName :: string
  st_Value :: any

text \<open>\<open>Feat\<close> and \<open>LegendaryAction\<close> have the same fields.\<close>

record feat =
  ft_Name :: string
  ft_Value :: any

record legendary =
  lg_List :: "feat slice"
  lg_Count :: any

record armor =
  ar_Name :: string
  ar_Type :: string
  ar_Url :: any

record damage_llm =
  dl_Dice :: string
  dl_Count :: int
  dl_Type :: string
  dl_Bonus :: int

record additional_effect_llm =
  ae_Damage :: "damage_llm option"
  ae_Condition :: string
  ae_EscapeDC :: int

record multi_attack_llm =
  ma_Type :: string
  ma_Count :: int

record area_attack_llm =
  aa_Shape :: string
  aa_Recharge :: string
  aa_SaveDC :: int
  aa_SaveType :: string
  aa_OnFail :: string
  aa_OnSuccess :: string

record attack_llm =
  al_Name :: string
  al_Type :: string
  al_AttackBonus :: string
  al_Reach :: string
  al_Range :: string
  al_Target :: string
  al_Damage :: "damage_llm option"
  al_Attacks :: "multi_attack_llm slice"
  al_AdditionalEffects :: "additional_effect_llm slice"
  al_Area :: "area_attack_llm option"
  al_Shape :: string
  al_Recharge :: string
  al_SaveDC :: int
  al_SaveType :: string
  al_OnFail :: string
  al_OnSuccess :: string

record creature =
  cr_ID :: string
  cr_Name :: creature_name
  cr_Size :: creature_size
  cr_Type :: creature_type
  cr_ChallengeRating :: string
  cr_URL :: string
  cr_Source :: source
  cr_IDNum :: int
  cr_Experience :: int
  cr_ProficiencyBonus :: string
  cr_Alignment :: string
  cr_ArmorClass :: int
  cr_ArmorText :: string
  cr_Armors :: "armor slice"
  cr_Hits :: hits
  cr_Speed :: "speed slice"
  cr_Ability :: ability
  cr_SavingThrows :: "saving_throw slice"
  cr_Skills :: "skill slice"
  cr_DamageVulnerabilities :: "string slice"
  cr_DamageResistances :: "string slice"
  cr_ConditionImmunities :: "string slice"
  cr_DamageImmunities :: "string slice"
  cr_Senses :: senses
  cr_Languages :: "string slice"
  cr_Feats :: "feat slice"
  cr_Actions :: "action slice"
  cr_BonusActions :: "action slice"
  cr_Legendary :: legendary
  cr_Reactions :: "action slice"
  cr_Description :: string
  cr_Tags :: "tag slice"
  cr_Images :: "string slice"
  cr_Environment :: "string slice"
  cr_LLMParsedAttack :: "attack_llm slice"
  cr_UserID :: string

record creature_input =
  ci_ID :: string
  ci_ImageBase64 :: string
  ci_ImageBase64Circle :: string
  ci_Creature :: creature

record bestiary_creature =
  bc_ID :: string
  bc_Name :: creature_name
  bc_Type :: string
  bc_ChallengeRating :: string
  bc_URL :: string
  bc_Source :: source
  bc_Images :: "string slice"


section \<open>Documents\<close>

text \<open>The zero values and what \<open>bson.Marshal\<close> writes.\<close>

definition zero_creature_name :: creature_name where
  "zero_creature_name =
     \<lparr>nm_Rus = [], nm_Eng = []\<rparr>"

definition w_creature_name :: "creature_name \<Rightarrow> bson" where
  "w_creature_name x = BDoc (present [
     (''rus'', Some (BStr (nm_Rus x))),
     (''eng'', Some (BStr (nm_Eng x)))])"

definition zero_creature_size :: creature_size where
  "zero_creature_size =
     \<lparr>sz_Rus = [], sz_Eng = [], sz_Cell = []\<rparr>"

definition w_creature_size :: "creature_size \<Rightarrow> bson" where
  "w_creature_size x = BDoc (present [
     (''rus'', Some (BStr (sz_Rus x))),
     (''eng'', Some (BStr (sz_Eng x))),
     (''cell'', Some (BStr (sz_Cell x)))])"

definition zero_creature_type :: creature_type where
  "zero_creature_type =
     \<lparr>ty_Name = [], ty_Tags = None\<rparr>"

definition w_creature_type :: "creature_type \<Rightarrow> bson" where
  "w_creature_type x = BDoc (present [
     (''name'', Some (BStr (ty_Name x))),
     (''tags'', Some (w_slice BStr (ty_Tags x)))])"

definition zero_source_group :: source_group where
  "zero_source_group =
     \<lparr>sg_Name = [], sg_ShortName = []\<rparr>"

definition w_source_group :: "source_group \<Rightarrow> bson" where
  "w_source_group x = BDoc (present [
     (''name'', Some (BStr (sg_Name x))),
     (''shortName'', Some (BStr (sg_ShortName x)))])"

definition zero_source :: source where
  "zero_source =
     \<lparr>so_ShortName = [], so_Name = [], so_Group = zero_source_group\<rparr>"

definition w_source :: "source \<Rightarrow> bson" where
  "w_source x = BDoc (present [
     (''shortName'', Some (BStr (so_ShortName x))),
     (''name'', Some (BStr (so_Name x))),
     (''group'', Some (w_source_group (so_Group x)))])"

definition zero_hits :: hits where
  "zero_hits =
     \<lparr>hi_Average = 0, hi_Formula = []\<rparr>"

definition w_hits :: "hits \<Rightarrow> bson" where
  "w_hits x = BDoc (present [
     (''average'', Some (BInt (hi_Average x))),
     (''formula'', Some (BStr (hi_Formula x)))])"

definition zero_speed :: speed where
  "zero_speed =
     \<lparr>sp_Value = BNull, sp_Name = [], sp_Additional = []\<rparr>"

definition w_speed :: "speed \<Rightarrow> bson" where
  "w_speed x = BDoc (present [
     (''value'', Some (sp_Value x)),
     (''name'', omit_str (sp_Name x)),
     (''additional'', omit_str (sp_Additional x))])"

definition zero_ability :: ability where
  "zero_ability =
     \<lparr>ab_Str = 0, ab_Dex = 0, ab_Con = 0, ab_Int = 0, ab_Wiz = 0, ab_Cha = 0\<rparr>"

definition w_ability :: "ability \<Rightarrow> bson" where
  "w_ability x = BDoc (present [
     (''str'', Some (BInt (ab_Str x))),
     (''dex'', Some (BInt (ab_Dex x))),
     (''con'', Some (BInt (ab_Con x))),
     (''int'', Some (BInt (ab_Int x))),
     (''wiz'', Some (BInt (ab_Wiz x))),
     (''cha'', Some (BInt (ab_Cha x)))])"

definition zero_skill :: skill where
  "zero_skill =
     \<lparr>sk_Name = [], sk_Value = 0\<rparr>"

definition w_skill :: "skill \<Rightarrow> bson" where
  "w_skill x = BDoc (present [
     (''name'', Some (BStr (sk_Name x))),
     (''value'', Some (BInt (sk_Value x)))])"

definition zero_sense :: sense where
  "zero_sense =
     \<lparr>se_Name = [], se_Value = 0, se_Additional = []\<rparr>"

definition w_sense :: "sense \<Rightarrow> bson" where
  "w_sense x = BDoc (present [
     (''name'', Some (BStr (se_Name x))),
     (''value'', Some (BInt (se_Value x))),
     (''additional'', omit_str (se_Additional x))])"

definition zero_senses :: senses where
  "zero_senses =
     \<lparr>ss_PassivePerception = [], ss_Sense = None\<rparr>"

definition w_senses :: "senses \<Rightarrow> bson" where
  "w_senses x = BDoc (present [
     (''passivePerception'', Some (BStr (ss_PassivePerception x))),
     (''senses'', omit_slice w_sense (ss_Sense x))])"

definition zero_action :: action where
  "zero_action =
     \<lparr>ac_Name = [], ac_Value = []\<rparr>"

definition w_action :: "action \<Rightarrow> bson" where
  "w_action x = BDoc (present [
     (''name'', Some (BStr (ac_Name x))),
     (''value'', Some (BStr (ac_Value x)))])"

definition zero_tag :: tag where
  "zero_tag =
     \<lparr>tg_Name = [], tg_Description = []\<rparr>"

definition w_tag :: "tag \<Rightarrow> bson" where
  "w_tag x = BDoc (present [
     (''name'', Some (BStr (tg_Name x))),
     (''description'', Some (BStr (tg_Description x)))])"

definition zero_saving_throw :: saving_throw where
  "zero_saving_throw =
     \<lparr>st_Name = [], st_ShortName = [], st_Value = BNull\<rparr>"

definition w_saving_throw :: "saving_throw \<Rightarrow> bson" where
  "w_saving_throw x = BDoc (present [
     (''name'', Some (BStr (st_Name x))),
     (''shortName'', Some (BStr (st_ShortName x))),
     (''value'', Some (st_Value x))])"

definition zero_feat :: feat where
  "zero_feat =
     \<lparr>ft_Name = [], ft_Value = BNull\<rparr>"

definition w_feat :: "feat \<Rightarrow> bson" where
  "w_feat x = BDoc (present [
     (''name'', Some (BStr (ft_Name x))),
     (''value'', Some (ft_Value x))])"

definition zero_legendary :: legendary where
  "zero_legendary =
     \<lparr>lg_List = None, lg_Count = BNull\<rparr>"

definition w_legendary :: "legendary \<Rightarrow> bson" where
  "w_legendary x = BDoc (present [
     (''list'', Some (w_slice w_feat (lg_List x))),
     (''count'', Some (lg_Count x))])"

definition zero_armor :: armor where
  "zero_armor =
     \<lparr>ar_Name = [], ar_Type = [], ar_Url = BNull\<rparr>"

definition w_armor :: "armor \<Rightarrow> bson" where
  "w_armor x = BDoc (present [
     (''name'', Some (BStr (ar_Name x))),
     (''type'', Some (BStr (ar_Type x))),
     (''url'', Some (ar_Url x))])"

definition zero_damage_llm :: damage_llm where
  "zero_damage_llm =
     \<lparr>dl_Dice = [], dl_Count = 0, dl_Type = [], dl_Bonus = 0\<rparr>"

definition w_damage_llm :: "damage_llm \<Rightarrow> bson" where
  "w_damage_llm x = BDoc (present [
     (''dice'', Some (BStr (dl_Dice x))),
     (''count'', Some (BInt (dl_Count x))),
     (''type'', Some (BStr (dl_Type x))),
     (''bonus'', Some (BInt (dl_Bonus x)))])"

definition zero_additional_effect_llm :: additional_effect_llm where
  "zero_additional_effect_llm =
     \<lparr>ae_Damage = None, ae_Condition = [], ae_EscapeDC = 0\<rparr>"

definition w_additional_effect_llm :: "additional_effect_llm \<Rightarrow> bson" where
  "w_additional_effect_llm x = BDoc (present [
     (''damage'', map_option w_damage_llm (ae_Damage x)),
     (''condition'', omit_str (ae_Condition x)),
     (''escape_dc'', omit_int (ae_EscapeDC x))])"

definition zero_multi_attack_llm :: multi_attack_llm where
  "zero_multi_attack_llm =
     \<lparr>ma_Type = [], ma_Count = 0\<rparr>"

definition w_multi_attack_llm :: "multi_attack_llm \<Rightarrow> bson" where
  "w_multi_attack_llm x = BDoc (present [
     (''type'', Some (BStr (ma_Type x))),
     (''count'', Some (BInt (ma_Count x)))])"

definition zero_area_attack_llm :: area_attack_llm where
  "zero_area_attack_llm =
     \<lparr>aa_Shape = [], aa_Recharge = [], aa_SaveDC = 0, aa_SaveType = [], aa_OnFail = [],
       aa_OnSuccess = []\<rparr>"

definition w_area_attack_llm :: "area_attack_llm \<Rightarrow> bson" where
  "w_area_attack_llm x = BDoc (present [
     (''shape'', omit_str (aa_Shape x)),
     (''recharge'', omit_str (aa_Recharge x)),
     (''save_dc'', omit_int (aa_SaveDC x)),
     (''save_type'', omit_str (aa_SaveType x)),
     (''on_fail'', omit_str (aa_OnFail x)),
     (''on_success'', omit_str (aa_OnSuccess x))])"

definition zero_attack_llm :: attack_llm where
  "zero_attack_llm =
     \<lparr>al_Name = [], al_Type = [], al_AttackBonus = [], al_Reach = [], al_Range = [],
       al_Target = [], al_Damage = None, al_Attacks = None, al_AdditionalEffects = None,
       al_Area = None, al_Shape = [], al_Recharge = [], al_SaveDC = 0, al_SaveType = [],
       al_OnFail = [], al_OnSuccess = []\<rparr>"

definition w_attack_llm :: "attack_llm \<Rightarrow> bson" where
  "w_attack_llm x = BDoc (present [
     (''name'', Some (BStr (al_Name x))),
     (''type'', omit_str (al_Type x)),
     (''attack_bonus'', omit_str (al_AttackBonus x)),
     (''reach'', omit_str (al_Reach x)),
     (''range'', omit_str (al_Range x)),
     (''target'', omit_str (al_Target x)),
     (''damage'', map_option w_damage_llm (al_Damage x)),
     (''attacks'', omit_slice w_multi_attack_llm (al_Attacks x)),
     (''additional_effects'', omit_slice w_additional_effect_llm (al_AdditionalEffects x)),
     (''area'', map_option w_area_attack_llm (al_Area x)),
     (''shape'', omit_str (al_Shape x)),
     (''recharge'', omit_str (al_Recharge x)),
     (''save_dc'', omit_int (al_SaveDC x)),
     (''save_type'', omit_str (al_SaveType x)),
     (''on_fail'', omit_str (al_OnFail x)),
     (''on_success'', omit_str (al_OnSuccess x))])"

definition zero_creature :: creature where
  "zero_creature =
     \<lparr>cr_ID = nil_oid, cr_Name = zero_creature_name, cr_Size = zero_creature_size,
       cr_Type = zero_creature_type, cr_ChallengeRating = [], cr_URL = [], cr_Source = zero_source,
       cr_IDNum = 0, cr_Experience = 0, cr_ProficiencyBonus = [], cr_Alignment = [],
       cr_ArmorClass = 0, cr_ArmorText = [], cr_Armors = None, cr_Hits = zero_hits,
       cr_Speed = None, cr_Ability = zero_ability, cr_SavingThrows = None, cr_Skills = None,
       cr_DamageVulnerabilities = None, cr_DamageResistances = None, cr_ConditionImmunities = None,
       cr_DamageImmunities = None, cr_Senses = zero_senses, cr_Languages = None, cr_Feats = None,
       cr_Actions = None, cr_BonusActions = None, cr_Legendary = zero_legendary,
       cr_Reactions = None, cr_Description = [], cr_Tags = None, cr_Images = None,
       cr_Environment = None, cr_LLMParsedAttack = None, cr_UserID = []\<rparr>"

definition creature_fields :: "creature \<Rightarrow> (string \<times> bson option) list" where
  "creature_fields x = [
     (''_id'', (if cr_ID x = nil_oid then None else Some (BOid (cr_ID x)))),
     (''name'', Some (w_creature_name (cr_Name x))),
     (''size'', Some (w_creature_size (cr_Size x))),
     (''type'', Some (w_creature_type (cr_Type x))),
     (''challengeRating'', Some (BStr (cr_ChallengeRating x))),
     (''url'', Some (BStr (cr_URL x))),
     (''source'', Some (w_source (cr_Source x))),
     (''id'', Some (BInt (cr_IDNum x))),
     (''experience'', omit_int (cr_Experience x)),
     (''proficiencyBonus'', Some (BStr (cr_ProficiencyBonus x))),
     (''alignment'', Some (BStr (cr_Alignment x))),
     (''armorClass'', Some (BInt (cr_ArmorClass x))),
     (''armorText'', omit_str (cr_ArmorText x)),
     (''armors'', omit_slice w_armor (cr_Armors x)),
     (''hits'', Some (w_hits (cr_Hits x))),
     (''speed'', Some (w_slice w_speed (cr_Speed x))),
     (''ability'', Some (w_ability (cr_Ability x))),
     (''savingThrows'', omit_slice w_saving_throw (cr_SavingThrows x)),
     (''skills'', Some (w_slice w_skill (cr_Skills x))),
     (''damageVulnerabilities'', omit_slice BStr (cr_DamageVulnerabilities x)),
     (''damageResistances'', omit_slice BStr (cr_DamageResistances x)),
     (''conditionImmunities'', omit_slice BStr (cr_ConditionImmunities x)),
     (''damageImmunities'', omit_slice BStr (cr_DamageImmunities x)),
     (''senses'', Some (w_senses (cr_Senses x))),
     (''languages'', Some (w_slice BStr (cr_Languages x))),
     (''feats'', omit_slice w_feat (cr_Feats x)),
     (''actions'', Some (w_slice w_action (cr_Actions x))),
     (''bonusActions'', omit_slice w_action (cr_BonusActions x)),
     (''legendary'', Some (w_legendary (cr_Legendary x))),
     (''reactions'', omit_slice w_action (cr_Reactions x)),
     (''description'', Some (BStr (cr_Description x))),
     (''tags'', Some (w_slice w_tag (cr_Tags x))),
     (''images'', Some (w_slice BStr (cr_Images x))),
     (''environment'', omit_slice BStr (cr_Environment x)),
     (''llm_parsed_attack'', omit_slice w_attack_llm (cr_LLMParsedAttack x)),
     (''userID'', omit_str (cr_UserID x))]"

definition w_creature :: "creature \<Rightarrow> bson" where
  "w_creature x = BDoc (present (creature_fields x))"
text \<open>What \<open>Decode\<close> reads.\<close>

definition r_creature_name :: "document \<Rightarrow> creature_name option" where
  "r_creature_name d = do {
     x0 \<leftarrow> bfield b_str [] ''rus'' d;
     x1 \<leftarrow> bfield b_str [] ''eng'' d;
     Some \<lparr>nm_Rus = x0, nm_Eng = x1\<rparr> }"

definition r_creature_size :: "document \<Rightarrow> creature_size option" where
  "r_creature_size d = do {
     x0 \<leftarrow> bfield b_str [] ''rus'' d;
     x1 \<leftarrow> bfield b_str [] ''eng'' d;
     x2 \<leftarrow> bfield b_str [] ''cell'' d;
     Some \<lparr>sz_Rus = x0, sz_Eng = x1, sz_Cell = x2\<rparr> }"

definition r_creature_type :: "document \<Rightarrow> creature_type option" where
  "r_creature_type d = do {
     x0 \<leftarrow> bfield b_str [] ''name'' d;
     x1 \<leftarrow> bfield (b_slice b_str) None ''tags'' d;
     Some \<lparr>ty_Name = x0, ty_Tags = x1\<rparr> }"

definition r_source_group :: "document \<Rightarrow> source_group option" where
  "r_source_group d = do {
     x0 \<leftarrow> bfield b_str [] ''name'' d;
     x1 \<leftarrow> bfield b_str [] ''shortName'' d;
     Some \<lparr>sg_Name = x0, sg_ShortName = x1\<rparr> }"

definition r_source :: "document \<Rightarrow> source option" where
  "r_source d = do {
     x0 \<leftarrow> bfield b_str [] ''shortName'' d;
     x1 \<leftarrow> bfield b_str [] ''name'' d;
     x2 \<leftarrow> bfield (b_struct r_source_group) zero_source_group ''group'' d;
     Some \<lparr>so_ShortName = x0, so_Name = x1, so_Group = x2\<rparr> }"

definition r_hits :: "document \<Rightarrow> hits option" where
  "r_hits d = do {
     x0 \<leftarrow> bfield b_int 0 ''average'' d;
     x1 \<leftarrow> bfield b_str [] ''formula'' d;
     Some \<lparr>hi_Average = x0, hi_Formula = x1\<rparr> }"

definition r_speed :: "document \<Rightarrow> speed option" where
  "r_speed d = do {
     x0 \<leftarrow> bfield b_any BNull ''value'' d;
     x1 \<leftarrow> bfield b_str [] ''name'' d;
     x2 \<leftarrow> bfield b_str [] ''additional'' d;
     Some \<lparr>sp_Value = x0, sp_Name = x1, sp_Additional = x2\<rparr> }"

definition r_ability :: "document \<Rightarrow> ability option" where
  "r_ability d = do {
     x0 \<leftarrow> bfield b_int 0 ''str'' d;
     x1 \<leftarrow> bfield b_int 0 ''dex'' d;
     x2 \<leftarrow> bfield b_int 0 ''con'' d;
     x3 \<leftarrow> bfield b_int 0 ''int'' d;
     x4 \<leftarrow> bfield b_int 0 ''wiz'' d;
     x5 \<leftarrow> bfield b_int 0 ''cha'' d;
     Some \<lparr>ab_Str = x0, ab_Dex = x1, ab_Con = x2, ab_Int = x3, ab_Wiz = x4,
       ab_Cha = x5\<rparr> }"

definition r_skill :: "document \<Rightarrow> skill option" where
  "r_skill d = do {
     x0 \<leftarrow> bfield b_str [] ''name'' d;
     x1 \<leftarrow> bfield b_int 0 ''value'' d;
     Some \<lparr>sk_Name = x0, sk_Value = x1\<rparr> }"

definition r_sense :: "document \<Rightarrow> sense option" where
  "r_sense d = do {
     x0 \<leftarrow> bfield b_str [] ''name'' d;
     x1 \<leftarrow> bfield b_int 0 ''value'' d;
     x2 \<leftarrow> bfield b_str [] ''additional'' d;
     Some \<lparr>se_Name = x0, se_Value = x1, se_Additional = x2\<rparr> }"

definition r_senses :: "document \<Rightarrow> senses option" where
  "r_senses d = do {
     x0 \<leftarrow> bfield b_str [] ''passivePerception'' d;
     x1 \<leftarrow> bfield (b_slice (b_struct r_sense)) None ''senses'' d;
     Some \<lparr>ss_PassivePerception = x0, ss_Sense = x1\<rparr> }"

definition r_action :: "document \<Rightarrow> action option" where
  "r_action d = do {
     x0 \<leftarrow> bfield b_str [] ''name'' d;
     x1 \<leftarrow> bfield b_str [] ''value'' d;
     Some \<lparr>ac_Name = x0, ac_Value = x1\<rparr> }"

definition r_tag :: "document \<Rightarrow> tag option" where
  "r_tag d = do {
     x0 \<leftarrow> bfield b_str [] ''name'' d;
     x1 \<leftarrow> bfield b_str [] ''description'' d;
     Some \<lparr>tg_Name = x0, tg_Description = x1\<rparr> }"

definition r_saving_throw :: "document \<Rightarrow> saving_throw option" where
  "r_saving_throw d = do {
     x0 \<leftarrow> bfield b_str [] ''name'' d;
     x1 \<leftarrow> bfield b_str [] ''shortName'' d;
     x2 \<leftarrow> bfield b_any BNull ''value'' d;
     Some \<lparr>st_Name = x0, st_ShortName = x1, st_Value = x2\<rparr> }"

definition r_feat :: "document \<Rightarrow> feat option" where
  "r_feat d = do {
     x0 \<leftarrow> bfield b_str [] ''name'' d;
     x1 \<leftarrow> bfield b_any BNull ''value'' d;
     Some \<lparr>ft_Name = x0, ft_Value = x1\<rparr> }"

definition r_legendary :: "document \<Rightarrow> legendary option" where
  "r_legendary d = do {
     x0 \<leftarrow> bfield (b_slice (b_struct r_feat)) None ''list'' d;
     x1 \<leftarrow> bfield b_any BNull ''count'' d;
     Some \<lparr>lg_List = x0, lg_Count = x1\<rparr> }"

definition r_armor :: "document \<Rightarrow> armor option" where
  "r_armor d = do {
     x0 \<leftarrow> bfield b_str [] ''name'' d;
     x1 \<leftarrow> bfield b_str [] ''type'' d;
     x2 \<leftarrow> bfield b_any BNull ''url'' d;
     Some \<lparr>ar_Name = x0, ar_Type = x1, ar_Url = x2\<rparr> }"

definition r_damage_llm :: "document \<Rightarrow> damage_llm option" where
  "r_damage_llm d = do {
     x0 \<leftarrow> bfield b_str [] ''dice'' d;
     x1 \<leftarrow> bfield b_int 0 ''count'' d;
     x2 \<leftarrow> bfield b_str [] ''type'' d;
     x3 \<leftarrow> bfield b_int 0 ''bonus'' d;
     Some \<lparr>dl_Dice = x0, dl_Count = x1, dl_Type = x2, dl_Bonus = x3\<rparr> }"

definition r_additional_effect_llm :: "document \<Rightarrow> additional_effect_llm option" where
  "r_additional_effect_llm d = do {
     x0 \<leftarrow> bfield (b_pointer (b_struct r_damage_llm)) None ''damage'' d;
     x1 \<leftarrow> bfield b_str [] ''condition'' d;
     x2 \<leftarrow> bfield b_int 0 ''escape_dc'' d;
     Some \<lparr>ae_Damage = x0, ae_Condition = x1, ae_EscapeDC = x2\<rparr> }"

definition r_multi_attack_llm :: "document \<Rightarrow> multi_attack_llm option" where
  "r_multi_attack_llm d = do {
     x0 \<leftarrow> bfield b_str [] ''type'' d;
     x1 \<leftarrow> bfield b_int 0 ''count'' d;
     Some \<lparr>ma_Type = x0, ma_Count = x1\<rparr> }"

definition r_area_attack_llm :: "document \<Rightarrow> area_attack_llm option" where
  "r_area_attack_llm d = do {
     x0 \<leftarrow> bfield b_str [] ''shape'' d;
     x1 \<leftarrow> bfield b_str [] ''recharge'' d;
     x2 \<leftarrow> bfield b_int 0 ''save_dc'' d;
     x3 \<leftarrow> bfield b_str [] ''save_type'' d;
     x4 \<leftarrow> bfield b_str [] ''on_fail'' d;
     x5 \<leftarrow> bfield b_str [] ''on_success'' d;
     Some \<lparr>aa_Shape = x0, aa_Recharge = x1, aa_SaveDC = x2, aa_SaveType = x3,
       aa_OnFail = x4, aa_OnSuccess = x5\<rparr> }"

definition r_attack_llm :: "document \<Rightarrow> attack_llm option" where
  "r_attack_llm d = do {
     x0 \<leftarrow> bfield b_str [] ''name'' d;
     x1 \<leftarrow> bfield b_str [] ''type'' d;
     x2 \<leftarrow> bfield b_str [] ''attack_bonus'' d;
     x3 \<leftarrow> bfield b_str [] ''reach'' d;
     x4 \<leftarrow> bfield b_str [] ''range'' d;
     x5 \<leftarrow> bfield b_str [] ''target'' d;
     x6 \<leftarrow> bfield (b_pointer (b_struct r_damage_llm)) None ''damage'' d;
     x7 \<leftarrow> bfield (b_slice (b_struct r_multi_attack_llm)) None ''attacks'' d;
     x8 \<leftarrow> bfield (b_slice (b_struct r_additional_effect_llm)) None ''additional_effects'' d;
     x9 \<leftarrow> bfield (b_pointer (b_struct r_area_attack_llm)) None ''area'' d;
     x10 \<leftarrow> bfield b_str [] ''shape'' d;
     x11 \<leftarrow> bfield b_str [] ''recharge'' d;
     x12 \<leftarrow> bfield b_int 0 ''save_dc'' d;
     x13 \<leftarrow> bfield b_str [] ''save_type'' d;
     x14 \<leftarrow> bfield b_str [] ''on_fail'' d;
     x15 \<leftarrow> bfield b_str [] ''on_success'' d;
     Some \<lparr>al_Name = x0, al_Type = x1, al_AttackBonus = x2, al_Reach = x3, al_Range = x4,
       al_Target = x5, al_Damage = x6, al_Attacks = x7, al_AdditionalEffects = x8, al_Area = x9,
       al_Shape = x10, al_Recharge = x11, al_SaveDC = x12, al_SaveType = x13, al_OnFail = x14,
       al_OnSuccess = x15\<rparr> }"

definition r_creature :: "document \<Rightarrow> creature option" where
  "r_creature d = do {
     x0 \<leftarrow> bfield b_oid nil_oid ''_id'' d;
     x1 \<leftarrow> bfield (b_struct r_creature_name) zero_creature_name ''name'' d;
     x2 \<leftarrow> bfield (b_struct r_creature_size) zero_creature_size ''size'' d;
     x3 \<leftarrow> bfield (b_struct r_creature_type) zero_creature_type ''type'' d;
     x4 \<leftarrow> bfield b_str [] ''challengeRating'' d;
     x5 \<leftarrow> bfield b_str [] ''url'' d;
     x6 \<leftarrow> bfield (b_struct r_source) zero_source ''source'' d;
     x7 \<leftarrow> bfield b_int 0 ''id'' d;
     x8 \<leftarrow> bfield b_int 0 ''experience'' d;
     x9 \<leftarrow> bfield b_str [] ''proficiencyBonus'' d;
     x10 \<leftarrow> bfield b_str [] ''alignment'' d;
     x11 \<leftarrow> bfield b_int 0 ''armorClass'' d;
     x12 \<leftarrow> bfield b_str [] ''armorText'' d;
     x13 \<leftarrow> bfield (b_slice (b_struct r_armor)) None ''armors'' d;
     x14 \<leftarrow> bfield (b_struct r_hits) zero_hits ''hits'' d;
     x15 \<leftarrow> bfield (b_slice (b_struct r_speed)) None ''speed'' d;
     x16 \<leftarrow> bfield (b_struct r_ability) zero_ability ''ability'' d;
     x17 \<leftarrow> bfield (b_slice (b_struct r_saving_throw)) None ''savingThrows'' d;
     x18 \<leftarrow> bfield (b_slice (b_struct r_skill)) None ''skills'' d;
     x19 \<leftarrow> bfield (b_slice b_str) None ''damageVulnerabilities'' d;
     x20 \<leftarrow> bfield (b_slice b_str) None ''damageResistances'' d;
     x21 \<leftarrow> bfield (b_slice b_str) None ''conditionImmunities'' d;
     x22 \<leftarrow> bfield (b_slice b_str) None ''damageImmunities'' d;
     x23 \<leftarrow> bfield (b_struct r_senses) zero_senses ''senses'' d;
     x24 \<leftarrow> bfield (b_slice b_str) None ''languages'' d;
     x25 \<leftarrow> bfield (b_slice (b_struct r_feat)) None ''feats'' d;
     x26 \<leftarrow> bfield (b_slice (b_struct r_action)) None ''actions'' d;
     x27 \<leftarrow> bfield (b_slice (b_struct r_action)) None ''bonusActions'' d;
     x28 \<leftarrow> bfield (b_struct r_legendary) zero_legendary ''legendary'' d;
     x29 \<leftarrow> bfield (b_slice (b_struct r_action)) None ''reactions'' d;
     x30 \<leftarrow> bfield b_str [] ''description'' d;
     x31 \<leftarrow> bfield (b_slice (b_struct r_tag)) None ''tags'' d;
     x32 \<leftarrow> bfield (b_slice b_str) None ''images'' d;
     x33 \<leftarrow> bfield (b_slice b_str) None ''environment'' d;
     x34 \<leftarrow> bfield (b_slice (b_struct r_attack_llm)) None ''llm_parsed_attack'' d;
     x35 \<leftarrow> bfield b_str [] ''userID'' d;
     Some \<lparr>cr_ID = x0, cr_Name = x1, cr_Size = x2, cr_Type = x3, cr_ChallengeRating = x4,
       cr_URL = x5, cr_Source = x6, cr_IDNum = x7, cr_Experience = x8, cr_ProficiencyBonus = x9,
       cr_Alignment = x10, cr_ArmorClass = x11, cr_ArmorText = x12, cr_Armors = x13, cr_Hits = x14,
       cr_Speed = x15, cr_Ability = x16, cr_SavingThrows = x17, cr_Skills = x18,
       cr_DamageVulnerabilities = x19, cr_DamageResistances = x20, cr_ConditionImmunities = x21,
       cr_DamageImmunities = x22, cr_Senses = x23, cr_Languages = x24, cr_Feats = x25,
       cr_Actions = x26, cr_BonusActions = x27, cr_Legendary = x28, cr_Reactions = x29,
       cr_Description = x30, cr_Tags = x31, cr_Images = x32, cr_Environment = x33,
       cr_LLMParsedAttack = x34, cr_UserID = x35\<rparr> }"


section \<open>JSON\<close>

text \<open>Go values of JSON in an \<open>interface{}\<close>; a later duplicate of a key replaces the value.\<close>

fun any_of_json :: "json \<Rightarrow> any" where
  "any_of_json JNull = BNull"
| "any_of_json (JBool b) = BBool b"
| "any_of_json (JNum s) = BDouble s"
| "any_of_json (JStr s) = BStr s"
| "any_of_json (JArr vs) = BArr (map any_of_json vs)"
| "any_of_json (JObj kvs) =
     BDoc (fold (\<lambda>(k, v) m. AList.update k v m) (map (\<lambda>(k, v). (k, any_of_json v)) kvs) [])"

definition any_field :: "string \<Rightarrow> fields \<Rightarrow> any option" where
  "any_field name kvs = assign_nil (\<lambda>v. Some (any_of_json v)) BNull (entries name kvs)"

fun object_of :: "(fields \<Rightarrow> 'a option) \<Rightarrow> json \<Rightarrow> 'a option" where
  "object_of dec (JObj kvs) = dec kvs"
| "object_of dec _ = None"

text \<open>A pointer to a struct: null resets it, every object is decoded into the same struct.\<close>

fun pointer_entries :: "fields option \<Rightarrow> json list \<Rightarrow> fields option option" where
  "pointer_entries acc [] = Some acc"
| "pointer_entries acc (JNull # vs) = pointer_entries None vs"
| "pointer_entries acc (JObj kvs # vs) =
     pointer_entries (Some ((case acc of None \<Rightarrow> [] | Some a \<Rightarrow> a) @ kvs)) vs"
| "pointer_entries acc (_ # vs) = None"

definition pointer_field :: "(fields \<Rightarrow> 'a option) \<Rightarrow> string \<Rightarrow> fields \<Rightarrow> 'a option option" where
  "pointer_field dec name kvs =
     (case pointer_entries None (entries name kvs) of
        None \<Rightarrow> None
      | Some None \<Rightarrow> Some None
      | Some (Some o_kvs) \<Rightarrow> map_option Some (dec o_kvs))"

text \<open>\<open>ObjectID.UnmarshalJSON\<close>: the empty string is the nil id; \<open>{"$oid": \<dots>}\<close> is accepted.\<close>

fun oid_of :: "json \<Rightarrow> string option" where
  "oid_of (JStr s) = (if s = [] then Some nil_oid else ObjectIDFromHex s)"
| "oid_of (JObj kvs) =
     (case map_of (rev kvs) ''$oid'' of
        Some (JStr s) \<Rightarrow> if s = [] then Some nil_oid else ObjectIDFromHex s
      | _ \<Rightarrow> None)"
| "oid_of _ = None"

definition oid_field :: "string \<Rightarrow> fields \<Rightarrow> string option" where
  "oid_field name kvs = assign oid_of nil_oid (entries name kvs)"

definition j_creature_name :: "fields \<Rightarrow> creature_name option" where
  "j_creature_name kvs = do {
     x0 \<leftarrow> str_field ''rus'' kvs;
     x1 \<leftarrow> str_field ''eng'' kvs;
     Some \<lparr>nm_Rus = x0, nm_Eng = x1\<rparr> }"

definition j_creature_size :: "fields \<Rightarrow> creature_size option" where
  "j_creature_size kvs = do {
     x0 \<leftarrow> str_field ''rus'' kvs;
     x1 \<leftarrow> str_field ''eng'' kvs;
     x2 \<leftarrow> str_field ''cell'' kvs;
     Some \<lparr>sz_Rus = x0, sz_Eng = x1, sz_Cell = x2\<rparr> }"

definition j_creature_type :: "fields \<Rightarrow> creature_type option" where
  "j_creature_type kvs = do {
     x0 \<leftarrow> str_field ''name'' kvs;
     x1 \<leftarrow> slice_field str_of [] ''tags'' kvs;
     Some \<lparr>ty_Name = x0, ty_Tags = x1\<rparr> }"

definition j_source_group :: "fields \<Rightarrow> source_group option" where
  "j_source_group kvs = do {
     x0 \<leftarrow> str_field ''name'' kvs;
     x1 \<leftarrow> str_field ''shortName'' kvs;
     Some \<lparr>sg_Name = x0, sg_ShortName = x1\<rparr> }"

definition j_source :: "fields \<Rightarrow> source option" where
  "j_source kvs = do {
     x0 \<leftarrow> str_field ''shortName'' kvs;
     x1 \<leftarrow> str_field ''name'' kvs;
     x2 \<leftarrow> obj_field ''group'' kvs \<bind> j_source_group;
     Some \<lparr>so_ShortName = x0, so_Name = x1, so_Group = x2\<rparr> }"

definition j_hits :: "fields \<Rightarrow> hits option" where
  "j_hits kvs = do {
     x0 \<leftarrow> int_field ''average'' kvs;
     x1 \<leftarrow> str_field ''formula'' kvs;
     Some \<lparr>hi_Average = x0, hi_Formula = x1\<rparr> }"

definition j_speed :: "fields \<Rightarrow> speed option" where
  "j_speed kvs = do {
     x0 \<leftarrow> any_field ''value'' kvs;
     x1 \<leftarrow> str_field ''name'' kvs;
     x2 \<leftarrow> str_field ''additional'' kvs;
     Some \<lparr>sp_Value = x0, sp_Name = x1, sp_Additional = x2\<rparr> }"

definition j_ability :: "fields \<Rightarrow> ability option" where
  "j_ability kvs = do {
     x0 \<leftarrow> int_field ''str'' kvs;
     x1 \<leftarrow> int_field ''dex'' kvs;
     x2 \<leftarrow> int_field ''con'' kvs;
     x3 \<leftarrow> int_field ''int'' kvs;
     x4 \<leftarrow> int_field ''wis'' kvs;
     x5 \<leftarrow> int_field ''cha'' kvs;
     Some \<lparr>ab_Str = x0, ab_Dex = x1, ab_Con = x2, ab_Int = x3, ab_Wiz = x4,
       ab_Cha = x5\<rparr> }"

definition j_skill :: "fields \<Rightarrow> skill option" where
  "j_skill kvs = do {
     x0 \<leftarrow> str_field ''name'' kvs;
     x1 \<leftarrow> int_field ''value'' kvs;
     Some \<lparr>sk_Name = x0, sk_Value = x1\<rparr> }"

definition j_sense :: "fields \<Rightarrow> sense option" where
  "j_sense kvs = do {
     x0 \<leftarrow> str_field ''name'' kvs;
     x1 \<leftarrow> int_field ''value'' kvs;
     x2 \<leftarrow> str_field ''additional'' kvs;
     Some \<lparr>se_Name = x0, se_Value = x1, se_Additional = x2\<rparr> }"

definition j_senses :: "fields \<Rightarrow> senses option" where
  "j_senses kvs = do {
     x0 \<leftarrow> str_field ''passivePerception'' kvs;
     x1 \<leftarrow> slice_field (object_of j_sense) zero_sense ''senses'' kvs;
     Some \<lparr>ss_PassivePerception = x0, ss_Sense = x1\<rparr> }"

definition j_action :: "fields \<Rightarrow> action option" where
  "j_action kvs = do {
     x0 \<leftarrow> str_field ''name'' kvs;
     x1 \<leftarrow> str_field ''value'' kvs;
     Some \<lparr>ac_Name = x0, ac_Value = x1\<rparr> }"

definition j_tag :: "fields \<Rightarrow> tag option" where
  "j_tag kvs = do {
     x0 \<leftarrow> str_field ''name'' kvs;
     x1 \<leftarrow> str_field ''description'' kvs;
     Some \<lparr>tg_Name = x0, tg_Description = x1\<rparr> }"

definition j_saving_throw :: "fields \<Rightarrow> saving_throw option" where
  "j_saving_throw kvs = do {
     x0 \<leftarrow> str_field ''name'' kvs;
     x1 \<leftarrow> str_field ''shortName'' kvs;
     x2 \<leftarrow> any_field ''value'' kvs;
     Some \<lparr>st_Name = x0, st_ShortName = x1, st_Value = x2\<rparr> }"

definition j_feat :: "fields \<Rightarrow> feat option" where
  "j_feat kvs = do {
     x0 \<leftarrow> str_field ''name'' kvs;
     x1 \<leftarrow> any_field ''value'' kvs;
     Some \<lparr>ft_Name = x0, ft_Value = x1\<rparr> }"

definition j_legendary :: "fields \<Rightarrow> legendary option" where
  "j_legendary kvs = do {
     x0 \<leftarrow> slice_field (object_of j_feat) zero_feat ''list'' kvs;
     x1 \<leftarrow> any_field ''count'' kvs;
     Some \<lparr>lg_List = x0, lg_Count = x1\<rparr> }"

definition j_armor :: "fields \<Rightarrow> armor option" where
  "j_armor kvs = do {
     x0 \<leftarrow> str_field ''name'' kvs;
     x1 \<leftarrow> str_field ''type'' kvs;
     x2 \<leftarrow> any_field ''url'' kvs;
     Some \<lparr>ar_Name = x0, ar_Type = x1, ar_Url = x2\<rparr> }"

definition j_damage_llm :: "fields \<Rightarrow> damage_llm option" where
  "j_damage_llm kvs = do {
     x0 \<leftarrow> str_field ''dice'' kvs;
     x1 \<leftarrow> int_field ''count'' kvs;
     x2 \<leftarrow> str_field ''type'' kvs;
     x3 \<leftarrow> int_field ''bonus'' kvs;
     Some \<lparr>dl_Dice = x0, dl_Count = x1, dl_Type = x2, dl_Bonus = x3\<rparr> }"

definition j_additional_effect_llm :: "fields \<Rightarrow> additional_effect_llm option" where
  "j_additional_effect_llm kvs = do {
     x0 \<leftarrow> pointer_field j_damage_llm ''damage'' kvs;
     x1 \<leftarrow> str_field ''condition'' kvs;
     x2 \<leftarrow> int_field ''escapeDc'' kvs;
     Some \<lparr>ae_Damage = x0, ae_Condition = x1, ae_EscapeDC = x2\<rparr> }"

definition j_multi_attack_llm :: "fields \<Rightarrow> multi_attack_llm option" where
  "j_multi_attack_llm kvs = do {
     x0 \<leftarrow> str_field ''type'' kvs;
     x1 \<leftarrow> int_field ''count'' kvs;
     Some \<lparr>ma_Type = x0, ma_Count = x1\<rparr> }"

definition j_area_attack_llm :: "fields \<Rightarrow> area_attack_llm option" where
  "j_area_attack_llm kvs = do {
     x0 \<leftarrow> str_field ''shape'' kvs;
     x1 \<leftarrow> str_field ''recharge'' kvs;
     x2 \<leftarrow> int_field ''saveDc'' kvs;
     x3 \<leftarrow> str_field ''saveType'' kvs;
     x4 \<leftarrow> str_field ''onSail'' kvs;
     x5 \<leftarrow> str_field ''onSuccess'' kvs;
     Some \<lparr>aa_Shape = x0, aa_Recharge = x1, aa_SaveDC = x2, aa_SaveType = x3,
       aa_OnFail = x4, aa_OnSuccess = x5\<rparr> }"

definition j_attack_llm :: "fields \<Rightarrow> attack_llm option" where
  "j_attack_llm kvs = do {
     x0 \<leftarrow> str_field ''name'' kvs;
     x1 \<leftarrow> str_field ''type'' kvs;
     x2 \<leftarrow> str_field ''attackBonus'' kvs;
     x3 \<leftarrow> str_field ''reach'' kvs;
     x4 \<leftarrow> str_field ''range'' kvs;
     x5 \<leftarrow> str_field ''target'' kvs;
     x6 \<leftarrow> pointer_field j_damage_llm ''damage'' kvs;
     x7 \<leftarrow> slice_field (object_of j_multi_attack_llm) zero_multi_attack_llm ''attacks'' kvs;
     x8 \<leftarrow> slice_field (object_of j_additional_effect_llm) zero_additional_effect_llm ''additionalEffects'' kvs;
     x9 \<leftarrow> pointer_field j_area_attack_llm ''area'' kvs;
     x10 \<leftarrow> str_field ''shape'' kvs;
     x11 \<leftarrow> str_field ''recharge'' kvs;
     x12 \<leftarrow> int_field ''saveDc'' kvs;
     x13 \<leftarrow> str_field ''saveType'' kvs;
     x14 \<leftarrow> str_field ''onFail'' kvs;
     x15 \<leftarrow> str_field ''onSuccess'' kvs;
     Some \<lparr>al_Name = x0, al_Type = x1, al_AttackBonus = x2, al_Reach = x3, al_Range = x4,
       al_Target = x5, al_Damage = x6, al_Attacks = x7, al_AdditionalEffects = x8, al_Area = x9,
       al_Shape = x10, al_Recharge = x11, al_SaveDC = x12, al_SaveType = x13, al_OnFail = x14,
       al_OnSuccess = x15\<rparr> }"

definition j_creature :: "fields \<Rightarrow> creature option" where
  "j_creature kvs = do {
     x0 \<leftarrow> oid_field ''_id'' kvs;
     x1 \<leftarrow> obj_field ''name'' kvs \<bind> j_creature_name;
     x2 \<leftarrow> obj_field ''size'' kvs \<bind> j_creature_size;
     x3 \<leftarrow> obj_field ''type'' kvs \<bind> j_creature_type;
     x4 \<leftarrow> str_field ''challengeRating'' kvs;
     x5 \<leftarrow> str_field ''url'' kvs;
     x6 \<leftarrow> obj_field ''source'' kvs \<bind> j_source;
     x7 \<leftarrow> int_field ''id'' kvs;
     x8 \<leftarrow> int_field ''experience'' kvs;
     x9 \<leftarrow> str_field ''proficiencyBonus'' kvs;
     x10 \<leftarrow> str_field ''alignment'' kvs;
     x11 \<leftarrow> int_field ''armorClass'' kvs;
     x12 \<leftarrow> str_field ''armorText'' kvs;
     x13 \<leftarrow> slice_field (object_of j_armor) zero_armor ''armors'' kvs;
     x14 \<leftarrow> obj_field ''hits'' kvs \<bind> j_hits;
     x15 \<leftarrow> slice_field (object_of j_speed) zero_speed ''speed'' kvs;
     x16 \<leftarrow> obj_field ''ability'' kvs \<bind> j_ability;
     x17 \<leftarrow> slice_field (object_of j_saving_throw) zero_saving_throw ''savingThrows'' kvs;
     x18 \<leftarrow> slice_field (object_of j_skill) zero_skill ''skills'' kvs;
     x19 \<leftarrow> slice_field str_of [] ''damageVulnerabilities'' kvs;
     x20 \<leftarrow> slice_field str_of [] ''damageResistances'' kvs;
     x21 \<leftarrow> slice_field str_of [] ''conditionImmunities'' kvs;
     x22 \<leftarrow> slice_field str_of [] ''damageImmunities'' kvs;
     x23 \<leftarrow> obj_field ''senses'' kvs \<bind> j_senses;
     x24 \<leftarrow> slice_field str_of [] ''languages'' kvs;
     x25 \<leftarrow> slice_field (object_of j_feat) zero_feat ''feats'' kvs;
     x26 \<leftarrow> slice_field (object_of j_action) zero_action ''actions'' kvs;
     x27 \<leftarrow> slice_field (object_of j_action) zero_action ''bonusActions'' kvs;
     x28 \<leftarrow> obj_field ''legendary'' kvs \<bind> j_legendary;
     x29 \<leftarrow> slice_field (object_of j_action) zero_action ''reactions'' kvs;
     x30 \<leftarrow> str_field ''description'' kvs;
     x31 \<leftarrow> slice_field (object_of j_tag) zero_tag ''tags'' kvs;
     x32 \<leftarrow> slice_field str_of [] ''images'' kvs;
     x33 \<leftarrow> slice_field str_of [] ''environment'' kvs;
     x34 \<leftarrow> slice_field (object_of j_attack_llm) zero_attack_llm ''attacksLLM'' kvs;
     x35 \<leftarrow> str_field ''userID'' kvs;
     Some \<lparr>cr_ID = x0, cr_Name = x1, cr_Size = x2, cr_Type = x3, cr_ChallengeRating = x4,
       cr_URL = x5, cr_Source = x6, cr_IDNum = x7, cr_Experience = x8, cr_ProficiencyBonus = x9,
       cr_Alignment = x10, cr_ArmorClass = x11, cr_ArmorText = x12, cr_Armors = x13, cr_Hits = x14,
       cr_Speed = x15, cr_Ability = x16, cr_SavingThrows = x17, cr_Skills = x18,
       cr_DamageVulnerabilities = x19, cr_DamageResistances = x20, cr_ConditionImmunities = x21,
       cr_DamageImmunities = x22, cr_Senses = x23, cr_Languages = x24, cr_Feats = x25,
       cr_Actions = x26, cr_BonusActions = x27, cr_Legendary = x28, cr_Reactions = x29,
       cr_Description = x30, cr_Tags = x31, cr_Images = x32, cr_Environment = x33,
       cr_LLMParsedAttack = x34, cr_UserID = x35\<rparr> }"

definition unmarshal_creature :: "json \<Rightarrow> creature option" where
  "unmarshal_creature v = struct_of v \<bind> j_creature"

text \<open>
  The own fields of \<open>CreatureInput\<close> hide those of the embedded \<open>Creature\<close> with the same JSON
  name: \<open>_id\<close> goes to the string.
\<close>

definition j_creature_input :: "fields \<Rightarrow> creature_input option" where
  "j_creature_input kvs = do {
     i \<leftarrow> str_field ''_id'' kvs;
     r \<leftarrow> str_field ''imageBase64'' kvs;
     t \<leftarrow> str_field ''imageBase64Circle'' kvs;
     c \<leftarrow> j_creature (filter (\<lambda>(k, v). fold_name k \<noteq> ''_id'') kvs);
     Some \<lparr>ci_ID = i, ci_ImageBase64 = r, ci_ImageBase64Circle = t, ci_Creature = c\<rparr> }"

section \<open>The short form of the lists\<close>

definition r_bestiary_creature :: "document \<Rightarrow> bestiary_creature option" where
  "r_bestiary_creature d = do {
     i \<leftarrow> bfield b_oid nil_oid ''_id'' d;
     n \<leftarrow> bfield (b_struct r_creature_name) zero_creature_name ''name'' d;
     t \<leftarrow> bfield (b_struct (bfield b_str [] ''name'')) [] ''type'' d;
     c \<leftarrow> bfield b_str [] ''challengeRating'' d;
     u \<leftarrow> bfield b_str [] ''url'' d;
     s \<leftarrow> bfield (b_struct r_source) zero_source ''source'' d;
     p \<leftarrow> bfield (b_slice b_str) None ''images'' d;
     Some \<lparr>bc_ID = i, bc_Name = n, bc_Type = t, bc_ChallengeRating = c, bc_URL = u, bc_Source = s,
       bc_Images = p\<rparr> }"

definition short_of :: "creature \<Rightarrow> bestiary_creature" where
  "short_of c = \<lparr>bc_ID = cr_ID c, bc_Name = cr_Name c, bc_Type = ty_Name (cr_Type c),
     bc_ChallengeRating = cr_ChallengeRating c, bc_URL = cr_URL c, bc_Source = cr_Source c,
     bc_Images = cr_Images c\<rparr>"


section \<open>Reading what was written\<close>

definition nil_empty :: "'a slice \<Rightarrow> 'a slice" where
  "nil_empty xs = (if xs = Some [] then None else xs)"

definition tidy_senses :: "senses \<Rightarrow> senses" where
  "tidy_senses x = x\<lparr>ss_Sense := nil_empty (ss_Sense x)\<rparr>"

text \<open>Fields of type \<open>interface{}\<close> come back as the driver reads them.\<close>

definition tidy_speed :: "speed \<Rightarrow> speed" where
  "tidy_speed x = x\<lparr>sp_Value := driver_any (sp_Value x)\<rparr>"

definition tidy_saving_throw :: "saving_throw \<Rightarrow> saving_throw" where
  "tidy_saving_throw x = x\<lparr>st_Value := driver_any (st_Value x)\<rparr>"

definition tidy_feat :: "feat \<Rightarrow> feat" where
  "tidy_feat x = x\<lparr>ft_Value := driver_any (ft_Value x)\<rparr>"

definition tidy_armor :: "armor \<Rightarrow> armor" where
  "tidy_armor x = x\<lparr>ar_Url := driver_any (ar_Url x)\<rparr>"

definition tidy_legendary :: "legendary \<Rightarrow> legendary" where
  "tidy_legendary x = x\<lparr>lg_List := map_option (map tidy_feat) (lg_List x),
     lg_Count := driver_any (lg_Count x)\<rparr>"

definition tidy_attack :: "attack_llm \<Rightarrow> attack_llm" where
  "tidy_attack x = x\<lparr>al_Attacks := nil_empty (al_Attacks x),
     al_AdditionalEffects := nil_empty (al_AdditionalEffects x)\<rparr>"

definition tidy_creature :: "creature \<Rightarrow> creature" where
  "tidy_creature c = c\<lparr>cr_Armors := nil_empty (map_option (map tidy_armor) (cr_Armors c)),
     cr_Speed := map_option (map tidy_speed) (cr_Speed c),
     cr_SavingThrows := nil_empty (map_option (map tidy_saving_throw) (cr_SavingThrows c)),
     cr_DamageVulnerabilities := nil_empty (cr_DamageVulnerabilities c),
     cr_DamageResistances := nil_empty (cr_DamageResistances c),
     cr_ConditionImmunities := nil_empty (cr_ConditionImmunities c),
     cr_DamageImmunities := nil_empty (cr_DamageImmunities c),
     cr_Senses := tidy_senses (cr_Senses c),
     cr_Feats := nil_empty (map_option (map tidy_feat) (cr_Feats c)),
     cr_Legendary := tidy_legendary (cr_Legendary c), cr_BonusActions := nil_empty (cr_BonusActions c),
     cr_Reactions := nil_empty (cr_Reactions c), cr_Environment := nil_empty (cr_Environment c),
     cr_LLMParsedAttack := nil_empty (map_option (map tidy_attack) (cr_LLMParsedAttack c))\<rparr>"

declare present.simps [simp del]

named_theorems reading "reading back the fields of a document"

lemma bfield_present [reading]:
  assumes "distinct (map fst es)"
  shows "bfield dec z k (present es) =
    (case map_of es k of Some (Some v) \<Rightarrow> dec v | _ \<Rightarrow> Some z)"
  using assms by (simp add: bfield_def map_of_present split: option.split)

lemma read_omit_str [reading]: "(case omit_str s of None \<Rightarrow> Some [] | Some v \<Rightarrow> b_str v) = Some s"
  by (simp add: omit_str_def)

lemma read_omit_int [reading]: "(case omit_int i of None \<Rightarrow> Some 0 | Some v \<Rightarrow> b_int v) = Some i"
  by (simp add: omit_int_def)

lemma decode_all_tidy:
  "(\<And>x. dec (wr x) = Some (t x)) \<Longrightarrow> decode_all dec (map wr xs) = Some (map t xs)"
  by (induction xs) auto

lemma read_omit_slice:
  assumes "\<And>x. dec (wr x) = Some (t x)"
  shows "(case omit_slice wr xs of None \<Rightarrow> Some None | Some v \<Rightarrow> b_slice dec v) =
    Some (nil_empty (map_option (map t) xs))"
proof (cases xs)
  case (Some ys)
  then show ?thesis
    by (cases ys) (simp_all add: omit_slice_def nil_empty_def decode_all_tidy [of dec wr t] assms)
qed (simp add: omit_slice_def nil_empty_def)

lemma read_slice [reading]:
  assumes "\<And>x. dec (wr x) = Some x"
  shows "b_slice dec (w_slice wr xs) = Some xs"
  using decode_all_map [of _ dec wr] assms by (simp add: w_slice_def split: option.split)

lemma read_omit_slice' [reading]:
  assumes "\<And>x. dec (wr x) = Some x"
  shows "(case omit_slice wr xs of None \<Rightarrow> Some None | Some v \<Rightarrow> b_slice dec v) = Some (nil_empty xs)"
  using read_omit_slice [of dec wr "\<lambda>x. x" xs] assms by (simp add: option.map_ident)

lemma read_tidy_slice:
  assumes "\<And>x. dec (wr x) = Some (t x)"
  shows "b_slice dec (w_slice wr xs) = Some (map_option (map t) xs)"
  using decode_all_tidy [of dec wr t] assms by (simp add: w_slice_def split: option.split)

lemma read_any [reading]: "b_any v = Some (driver_any v)"
  by (simp add: b_any_def)

lemma read_str [reading]: "b_str (BStr s) = Some s" "b_int (BInt i) = Some i"
  by simp_all

lemma read_pointer [reading]:
  assumes "\<And>x. wr x \<noteq> BNull" and "\<And>x. dec (wr x) = Some x"
  shows "(case p of None \<Rightarrow> Some None | Some x \<Rightarrow> (b_pointer dec \<circ> wr) x) = Some p"
proof (cases p)
  case (Some x)
  with assms(1) [of x] assms(2) [of x] show ?thesis by (cases "wr x") auto
qed simp

lemma written_not_null [reading]:
  "w_damage_llm x \<noteq> BNull" "w_area_attack_llm y \<noteq> BNull"
  by (simp_all add: w_damage_llm_def w_area_attack_llm_def)

lemma read_creature_name [reading]: "b_struct r_creature_name (w_creature_name x) = Some x"
  by (simp add: w_creature_name_def r_creature_name_def reading)

lemma read_creature_size [reading]: "b_struct r_creature_size (w_creature_size x) = Some x"
  by (simp add: w_creature_size_def r_creature_size_def reading)

lemma read_creature_type [reading]: "b_struct r_creature_type (w_creature_type x) = Some x"
  by (simp add: w_creature_type_def r_creature_type_def reading)

lemma read_source_group [reading]: "b_struct r_source_group (w_source_group x) = Some x"
  by (simp add: w_source_group_def r_source_group_def reading)

lemma read_source [reading]: "b_struct r_source (w_source x) = Some x"
  by (simp add: w_source_def r_source_def reading)

lemma read_hits [reading]: "b_struct r_hits (w_hits x) = Some x"
  by (simp add: w_hits_def r_hits_def reading)

lemma read_speed [reading]: "b_struct r_speed (w_speed x) = Some (tidy_speed x)"
  by (simp add: w_speed_def r_speed_def tidy_speed_def reading)

lemma read_ability [reading]: "b_struct r_ability (w_ability x) = Some x"
  by (simp add: w_ability_def r_ability_def reading)

lemma read_skill [reading]: "b_struct r_skill (w_skill x) = Some x"
  by (simp add: w_skill_def r_skill_def reading)

lemma read_sense [reading]: "b_struct r_sense (w_sense x) = Some x"
  by (simp add: w_sense_def r_sense_def reading)

lemma read_senses [reading]: "b_struct r_senses (w_senses x) = Some (tidy_senses x)"
  by (simp add: w_senses_def r_senses_def reading tidy_senses_def)

lemma read_action [reading]: "b_struct r_action (w_action x) = Some x"
  by (simp add: w_action_def r_action_def reading)

lemma read_tag [reading]: "b_struct r_tag (w_tag x) = Some x"
  by (simp add: w_tag_def r_tag_def reading)

lemma read_saving_throw [reading]: "b_struct r_saving_throw (w_saving_throw x) = Some (tidy_saving_throw x)"
  by (simp add: w_saving_throw_def r_saving_throw_def tidy_saving_throw_def reading)

lemma read_feat [reading]: "b_struct r_feat (w_feat x) = Some (tidy_feat x)"
  by (simp add: w_feat_def r_feat_def tidy_feat_def reading)

lemmas read_feats [reading] = read_tidy_slice [of "b_struct r_feat" w_feat tidy_feat, OF read_feat]

lemma read_legendary [reading]: "b_struct r_legendary (w_legendary x) = Some (tidy_legendary x)"
  by (simp add: w_legendary_def r_legendary_def tidy_legendary_def reading)

lemma read_armor [reading]: "b_struct r_armor (w_armor x) = Some (tidy_armor x)"
  by (simp add: w_armor_def r_armor_def tidy_armor_def reading)

lemma read_damage_llm [reading]: "b_struct r_damage_llm (w_damage_llm x) = Some x"
  by (simp add: w_damage_llm_def r_damage_llm_def reading)

lemma read_additional_effect_llm [reading]: "b_struct r_additional_effect_llm (w_additional_effect_llm x) = Some x"
  by (simp add: w_additional_effect_llm_def r_additional_effect_llm_def reading)

lemma read_multi_attack_llm [reading]: "b_struct r_multi_attack_llm (w_multi_attack_llm x) = Some x"
  by (simp add: w_multi_attack_llm_def r_multi_attack_llm_def reading)

lemma read_area_attack_llm [reading]: "b_struct r_area_attack_llm (w_area_attack_llm x) = Some x"
  by (simp add: w_area_attack_llm_def r_area_attack_llm_def reading)

lemma read_attack_llm [reading]: "b_struct r_attack_llm (w_attack_llm x) = Some (tidy_attack x)"
  by (simp add: w_attack_llm_def r_attack_llm_def tidy_attack_def reading)


lemmas read_dynamic [reading] =
  read_omit_slice [of "b_struct r_armor" w_armor tidy_armor, OF read_armor]
  read_omit_slice [of "b_struct r_saving_throw" w_saving_throw tidy_saving_throw, OF read_saving_throw]
  read_omit_slice [of "b_struct r_feat" w_feat tidy_feat, OF read_feat]
  read_tidy_slice [of "b_struct r_speed" w_speed tidy_speed, OF read_speed]

lemmas read_attacks = read_omit_slice [of "b_struct r_attack_llm" w_attack_llm tidy_attack, OF read_attack_llm]

lemma distinct_creature_fields: "distinct (map fst (creature_fields x))"
  by (simp add: creature_fields_def)

lemma creature_field:
  "map_of (creature_fields x) ''_id'' = Some ((if cr_ID x = nil_oid then None else Some (BOid (cr_ID x))))"
  "map_of (creature_fields x) ''name'' = Some (Some (w_creature_name (cr_Name x)))"
  "map_of (creature_fields x) ''size'' = Some (Some (w_creature_size (cr_Size x)))"
  "map_of (creature_fields x) ''type'' = Some (Some (w_creature_type (cr_Type x)))"
  "map_of (creature_fields x) ''challengeRating'' = Some (Some (BStr (cr_ChallengeRating x)))"
  "map_of (creature_fields x) ''url'' = Some (Some (BStr (cr_URL x)))"
  "map_of (creature_fields x) ''source'' = Some (Some (w_source (cr_Source x)))"
  "map_of (creature_fields x) ''id'' = Some (Some (BInt (cr_IDNum x)))"
  "map_of (creature_fields x) ''experience'' = Some (omit_int (cr_Experience x))"
  "map_of (creature_fields x) ''proficiencyBonus'' = Some (Some (BStr (cr_ProficiencyBonus x)))"
  "map_of (creature_fields x) ''alignment'' = Some (Some (BStr (cr_Alignment x)))"
  "map_of (creature_fields x) ''armorClass'' = Some (Some (BInt (cr_ArmorClass x)))"
  "map_of (creature_fields x) ''armorText'' = Some (omit_str (cr_ArmorText x))"
  "map_of (creature_fields x) ''armors'' = Some (omit_slice w_armor (cr_Armors x))"
  "map_of (creature_fields x) ''hits'' = Some (Some (w_hits (cr_Hits x)))"
  "map_of (creature_fields x) ''speed'' = Some (Some (w_slice w_speed (cr_Speed x)))"
  "map_of (creature_fields x) ''ability'' = Some (Some (w_ability (cr_Ability x)))"
  "map_of (creature_fields x) ''savingThrows'' = Some (omit_slice w_saving_throw (cr_SavingThrows x))"
  "map_of (creature_fields x) ''skills'' = Some (Some (w_slice w_skill (cr_Skills x)))"
  "map_of (creature_fields x) ''damageVulnerabilities'' = Some (omit_slice BStr (cr_DamageVulnerabilities x))"
  "map_of (creature_fields x) ''damageResistances'' = Some (omit_slice BStr (cr_DamageResistances x))"
  "map_of (creature_fields x) ''conditionImmunities'' = Some (omit_slice BStr (cr_ConditionImmunities x))"
  "map_of (creature_fields x) ''damageImmunities'' = Some (omit_slice BStr (cr_DamageImmunities x))"
  "map_of (creature_fields x) ''senses'' = Some (Some (w_senses (cr_Senses x)))"
  "map_of (creature_fields x) ''languages'' = Some (Some (w_slice BStr (cr_Languages x)))"
  "map_of (creature_fields x) ''feats'' = Some (omit_slice w_feat (cr_Feats x))"
  "map_of (creature_fields x) ''actions'' = Some (Some (w_slice w_action (cr_Actions x)))"
  "map_of (creature_fields x) ''bonusActions'' = Some (omit_slice w_action (cr_BonusActions x))"
  "map_of (creature_fields x) ''legendary'' = Some (Some (w_legendary (cr_Legendary x)))"
  "map_of (creature_fields x) ''reactions'' = Some (omit_slice w_action (cr_Reactions x))"
  "map_of (creature_fields x) ''description'' = Some (Some (BStr (cr_Description x)))"
  "map_of (creature_fields x) ''tags'' = Some (Some (w_slice w_tag (cr_Tags x)))"
  "map_of (creature_fields x) ''images'' = Some (Some (w_slice BStr (cr_Images x)))"
  "map_of (creature_fields x) ''environment'' = Some (omit_slice BStr (cr_Environment x))"
  "map_of (creature_fields x) ''llm_parsed_attack'' = Some (omit_slice w_attack_llm (cr_LLMParsedAttack x))"
  "map_of (creature_fields x) ''userID'' = Some (omit_str (cr_UserID x))"
  by (simp_all add: creature_fields_def)

lemmas bfield_creature = bfield_present [OF distinct_creature_fields]

lemma read_creature: "b_struct r_creature (w_creature x) = Some (tidy_creature x)"
  by (simp add: w_creature_def r_creature_def tidy_creature_def bfield_creature creature_field
      reading read_attacks del: bfield_present)

lemma read_type_name: "b_struct (bfield b_str [] ''name'') (w_creature_type x) = Some (ty_Name x)"
  by (simp add: w_creature_type_def reading)

text \<open>The lists show the short form of what was written.\<close>

lemma read_short:
  assumes "w_creature c = BDoc d"
  shows "r_bestiary_creature d = Some (short_of c)"
  using assms
  by (auto simp: w_creature_def r_bestiary_creature_def short_of_def bfield_creature creature_field
      reading read_type_name simp del: bfield_present)

end
