(* ===== verification/Bestiary.thy ===== *)
theory Bestiary
  imports Creature Encounter
begin

text \<open>
  \<open>internal/pkg/bestiary\<close>: the creatures everybody sees and the creatures a user has
  generated. The filters the repository builds, the repository over MongoDB, the usecases
  over the Go interfaces and the handlers. The language model is a parameter.
\<close>

section \<open>Requests\<close>

text \<open>\<open>models/search.go\<close> and \<open>BestiaryReq\<close>.\<close>

record order =
  or_Field :: string
  or_Direction :: string

record filter_params =
  fp_Book :: "string slice"
  fp_Npc :: "string slice"
  fp_ChallengeRating :: "string slice"
  fp_Type :: "string slice"
  fp_Size :: "string slice"
  fp_Tag :: "string slice"
  fp_Moving :: "string slice"
  fp_Senses :: "string slice"
  fp_VulnerabilityDamage :: "string slice"
  fp_ResistanceDamage :: "string slice"
  fp_ImmunityDamage :: "string slice"
  fp_ImmunityCondition :: "string slice"
  fp_Features :: "string slice"
  fp_Environment :: "string slice"

record bestiary_req =
  br_Start :: int
  br_Size :: int
  br_Search :: search_params
  br_Order :: "order slice"
  br_Filter :: filter_params

definition j_search_params :: "fields \<Rightarrow> search_params option" where
  "j_search_params kvs = do {
     v \<leftarrow> str_field ''value'' kvs;
     e \<leftarrow> bool_field ''exact'' kvs;
     Some \<lparr>Value = v, Exact = e\<rparr> }"

definition j_order :: "fields \<Rightarrow> order option" where
  "j_order kvs = do {
     f \<leftarrow> str_field ''field'' kvs;
     d \<leftarrow> str_field ''direction'' kvs;
     Some \<lparr>or_Field = f, or_Direction = d\<rparr> }"

definition j_filter_params :: "fields \<Rightarrow> filter_params option" where
  "j_filter_params kvs = do {
     x0 \<leftarrow> slice_field str_of [] ''book'' kvs;
     x1 \<leftarrow> slice_field str_of [] ''npc'' kvs;
     x2 \<leftarrow> slice_field str_of [] ''challengeRating'' kvs;
     x3 \<leftarrow> slice_field str_of [] ''type'' kvs;
     x4 \<leftarrow> slice_field str_of [] ''size'' kvs;
     x5 \<leftarrow> slice_field str_of [] ''tag'' kvs;
     x6 \<leftarrow> slice_field str_of [] ''moving'' kvs;
     x7 \<leftarrow> slice_field str_of [] ''senses'' kvs;
     x8 \<leftarrow> slice_field str_of [] ''vulnerabilityDamage'' kvs;
     x9 \<leftarrow> slice_field str_of [] ''resistanceDamage'' kvs;
     x10 \<leftarrow> slice_field str_of [] ''immunityDamage'' kvs;
     x11 \<leftarrow> slice_field str_of [] ''immunityCondition'' kvs;
     x12 \<leftarrow> slice_field str_of [] ''features'' kvs;
     x13 \<leftarrow> slice_field str_of [] ''environment'' kvs;
     Some \<lparr>fp_Book = x0, fp_Npc = x1, fp_ChallengeRating = x2, fp_Type = x3, fp_Size = x4, fp_Tag =
       x5, fp_Moving = x6, fp_Senses = x7, fp_VulnerabilityDamage = x8, fp_ResistanceDamage =
       x9, fp_ImmunityDamage = x10, fp_ImmunityCondition = x11, fp_Features = x12,
       fp_Environment = x13\<rparr> }"

definition j_bestiary_req :: "fields \<Rightarrow> bestiary_req option" where
  "j_bestiary_req kvs = do {
     s \<leftarrow> int_field ''start'' kvs;
     n \<leftarrow> int_field ''size'' kvs;
     q \<leftarrow> obj_field ''search'' kvs \<bind> j_search_params;
     r \<leftarrow> slice_field (object_of j_order) \<lparr>or_Field = [], or_Direction = []\<rparr> ''order'' kvs;
     f \<leftarrow> obj_field ''filter'' kvs \<bind> j_filter_params;
     Some \<lparr>br_Start = s, br_Size = n, br_Search = q, br_Order = r, br_Filter = f\<rparr> }"

text \<open>A nil slice and an empty one are the same to \<open>len\<close> and \<open>range\<close>.\<close>

definition items :: "'a slice \<Rightarrow> 'a list" where
  "items xs = (case xs of None \<Rightarrow> [] | Some ys \<Rightarrow> ys)"

section \<open>Filters\<close>

text \<open>\<open>repository/filters.go\<close>. The Russian words are their UTF-8 bytes.\<close>

definition defaultBooks :: "string list" where
  "defaultBooks =
    [''DMG'', ''MM'', ''VGM'', ''XGE'', ''MTF'', ''AAtM'', ''TCE'', ''FTD'', ''MPMM'', ''MCV1'',
     ''tVD'', ''BGG'', ''BMT'', ''MPP'', ''RoT'', ''LMoP'', ''HotDQ'', ''PotA'', ''OotA'',
     ''COS'', ''SKT'', ''TOA'', ''KKW'', ''WDMM'', ''WDH'', ''HftT'', ''BGDIA'', ''AI'',
     ''GOS'', ''OoW'', ''IDRotF'', ''CM'', ''WBtW'', ''JttRC'', ''LoX'', ''MCV2DC'', ''DSotDQ'',
     ''DoSI'', ''CRCotN'', ''PaBTSO'', ''ToFW'', ''KftGV'', ''HAT'', ''DitLCoT'', ''VEoR'',
     ''QftIS'', ''DIP'', ''GGR'', ''ERLW'', ''MOT'', ''SCC'', ''VRGR'', ''BAM'', ''MCV4EC'',
     ''UA22GO'', ''UAMoS'', ''UA22WotM'', ''MHH'', ''ODL'', ''EGtW'', ''GHtPG'', ''TDCS'',
     ''VSoS'', ''TLtRW'', ''DoDk'', ''MCV3MC'', ''BotJR'', ''CoN'', ''LH'', ''PG'', ''CoA'',
     ''LHEX'', ''HB'']"

definition moving_words :: "(string \<times> string) list" where
  "moving_words =
     [([CHR 0xD0, CHR 0xBB, CHR 0xD0, CHR 0xB5, CHR 0xD1, CHR 0x82, CHR 0xD0, CHR 0xB0, CHR
        0xD0, CHR 0xB5, CHR 0xD1, CHR 0x82],
       [CHR 0xD0, CHR 0xBB, CHR 0xD0, CHR 0xB5, CHR 0xD1, CHR 0x82, CHR 0xD0, CHR 0xB0, CHR
        0xD1, CHR 0x8F]),
      ([CHR 0xD0, CHR 0xBF, CHR 0xD0, CHR 0xB0, CHR 0xD1, CHR 0x80, CHR 0xD0, CHR 0xB8, CHR
        0xD1, CHR 0x82],
       [CHR 0xD0, CHR 0xBF, CHR 0xD0, CHR 0xB0, CHR 0xD1, CHR 0x80, CHR 0xD0, CHR 0xB8, CHR
        0xD1, CHR 0x82]),
      ([CHR 0xD0, CHR 0xBB, CHR 0xD0, CHR 0xB0, CHR 0xD0, CHR 0xB7, CHR 0xD0, CHR 0xB0, CHR
        0xD0, CHR 0xB5, CHR 0xD1, CHR 0x82],
       [CHR 0xD0, CHR 0xBB, CHR 0xD0, CHR 0xB0, CHR 0xD0, CHR 0xB7, CHR 0xD0, CHR 0xB0, CHR
        0xD1, CHR 0x8F]),
      ([CHR 0xD0, CHR 0xBF, CHR 0xD0, CHR 0xBB, CHR 0xD0, CHR 0xB0, CHR 0xD0, CHR 0xB2, CHR
        0xD0, CHR 0xB0, CHR 0xD0, CHR 0xB5, CHR 0xD1, CHR 0x82],
       [CHR 0xD0, CHR 0xBF, CHR 0xD0, CHR 0xBB, CHR 0xD0, CHR 0xB0, CHR 0xD0, CHR 0xB2, CHR
        0xD0, CHR 0xB0, CHR 0xD1, CHR 0x8F]),
      ([CHR 0xD0, CHR 0xBA, CHR 0xD0, CHR 0xBE, CHR 0xD0, CHR 0xBF, CHR 0xD0, CHR 0xB0, CHR
        0xD0, CHR 0xB5, CHR 0xD1, CHR 0x82],
       [CHR 0xD0, CHR 0xBA, CHR 0xD0, CHR 0xBE, CHR 0xD0, CHR 0xBF, CHR 0xD0, CHR 0xB0, CHR
        0xD1, CHR 0x8F])]"

text \<open>The empty entry \<open>bson.E{}\<close> is \<open>None\<close>.\<close>

definition createMovingFilter :: "string list \<Rightarrow> (string \<times> condition) option" where
  "createMovingFilter moving =
     (let mappedValues = List.map_filter (map_of moving_words) moving
      in if 0 < length mappedValues
         then Some (''speed'', ElemMatchOr [(''name'', mappedValues), (''additional'', mappedValues)])
         else None)"

text \<open>The result starts as a nil slice, and stays one when every book is requested.\<close>

definition excludeBooks :: "string list \<Rightarrow> string list \<Rightarrow> string slice" where
  "excludeBooks books requested =
     (if requested = [] then Some books
      else (let result = filter (\<lambda>b. b \<notin> set requested) books in if result = [] then None else Some result))"

definition filterBook :: "string list \<Rightarrow> mongo_filter" where
  "filterBook book =
     (if 0 < length book then [(''source.shortName'', NotIn (excludeBooks defaultBooks book))]
      else [(''source.shortName'', In defaultBooks)])"

definition filterIn :: "string \<Rightarrow> string list \<Rightarrow> mongo_filter" where
  "filterIn field vals = (if 0 < length vals then [(field, In vals)] else [])"

definition filterMoving :: "string list \<Rightarrow> mongo_filter" where
  "filterMoving moving =
     (if 0 < length moving
      then (case createMovingFilter moving of None \<Rightarrow> [] | Some e \<Rightarrow> [e]) else [])"

definition buildTypesFilters :: "filter_params \<Rightarrow> mongo_filter" where
  "buildTypesFilters f =
     filterBook (items (fp_Book f)) @
     filterIn ''npc'' (items (fp_Npc f)) @
     filterIn ''type.name'' (items (fp_Type f)) @
     filterIn ''challengeRating'' (items (fp_ChallengeRating f)) @
     filterIn ''size.rus'' (items (fp_Size f)) @
     filterIn ''tags'' (items (fp_Tag f)) @
     filterMoving (items (fp_Moving f)) @
     filterIn ''senses.senses.name'' (items (fp_Senses f)) @
     filterIn ''damageVulnerabilities'' (items (fp_VulnerabilityDamage f)) @
     filterIn ''damageResistances'' (items (fp_ResistanceDamage f)) @
     filterIn ''damageImmunities'' (items (fp_ImmunityDamage f)) @
     filterIn ''conditionImmunities'' (items (fp_ImmunityCondition f)) @
     filterIn ''feats.name'' (items (fp_Features f)) @
     filterIn ''environment'' (items (fp_Environment f))"

fun sort_of :: "order list \<Rightarrow> (string \<times> int) list result" where
  "sort_of [] = Inr []"
| "sort_of (r # rs) =
     (if or_Direction r = ''asc'' \<or> or_Direction r = ''desc''
      then (case sort_of rs of
              Inl e \<Rightarrow> Inl e
            | Inr ks \<Rightarrow> Inr ((or_Field r, if or_Direction r = ''asc'' then 1 else - 1) # ks))
      else Inl UnknownDirectionError)"

definition buildFindOptions :: "int \<Rightarrow> int \<Rightarrow> order list \<Rightarrow> find_options result" where
  "buildFindOptions start siz rs =
     (case sort_of rs of
        Inl e \<Rightarrow> Inl e
      | Inr ks \<Rightarrow> Inr \<lparr>fo_limit = siz, fo_skip = start, fo_sort = ks\<rparr>)"

text \<open>
  \<open>repository/language.go\<close>. The Russian letters are the two-byte sequences D0 90--D0 BF,
  D1 80--D1 8F, D0 81 and D1 91; a byte D0 or D1 never occurs inside another character.
\<close>

definition is_latin :: "char \<Rightarrow> bool" where
  "is_latin c = (let n = (of_char c :: nat) in (97 \<le> n \<and> n \<le> 122) \<or> (65 \<le> n \<and> n \<le> 90))"

fun starts_russian :: "string \<Rightarrow> bool" where
  "starts_russian (a # b # _) =
     (let m = (of_char a :: nat); n = (of_char b :: nat) in
      (m = 0xD0 \<and> (n = 0x81 \<or> (0x90 \<le> n \<and> n \<le> 0xBF))) \<or>
      (m = 0xD1 \<and> ((0x80 \<le> n \<and> n \<le> 0x8F) \<or> n = 0x91)))"
| "starts_russian _ = False"

fun detect :: "bool \<Rightarrow> bool \<Rightarrow> string \<Rightarrow> string option" where
  "detect hasRussian hasEnglish [] = Some (if hasEnglish then ''name.eng'' else ''name.rus'')"
| "detect hasRussian hasEnglish (c # cs) =
     (let ru = (hasRussian \<or> starts_russian (c # cs)); en = (hasEnglish \<or> is_latin c)
      in if ru \<and> en then None else detect ru en cs)"

definition detectLanguageField :: "string \<Rightarrow> string option" where
  "detectLanguageField v = detect False False v"

section \<open>The repository\<close>

record 'd bestiary_repository =
  brepo_List :: "int \<Rightarrow> int \<Rightarrow> order list \<Rightarrow> filter_params \<Rightarrow> search_params \<Rightarrow> 'd
     \<Rightarrow> bestiary_creature list option result \<times> 'd"
  brepo_ByEngName :: "string \<Rightarrow> bool \<Rightarrow> 'd \<Rightarrow> creature option result \<times> 'd"
  brepo_UserList :: "int \<Rightarrow> int \<Rightarrow> order list \<Rightarrow> filter_params \<Rightarrow> search_params \<Rightarrow> int \<Rightarrow> 'd
     \<Rightarrow> bestiary_creature list option result \<times> 'd"
  brepo_Add :: "creature \<Rightarrow> 'd \<Rightarrow> unit result \<times> 'd"

text \<open>\<open>repository/bestiary_storage.go\<close> over the server's collections.\<close>

definition bcollection :: "bool \<Rightarrow> mongo \<Rightarrow> document list" where
  "bcollection isUserCollection m = (if isUserCollection then generated_creatures m else creatures m)"

fun decode_list :: "document list \<Rightarrow> bestiary_creature list result" where
  "decode_list [] = Inr []"
| "decode_list (d # ds) =
     (case r_bestiary_creature d of
        None \<Rightarrow> Inl DecodeMongoDataErr
      | Some c \<Rightarrow> (case decode_list ds of Inl e \<Rightarrow> Inl e | Inr cs \<Rightarrow> Inr (c # cs)))"

definition bsto_getCreaturesList ::
    "mongo_server \<Rightarrow> mongo_filter \<Rightarrow> find_options \<Rightarrow> bool \<Rightarrow> mongo
     \<Rightarrow> bestiary_creature list option result \<times> mongo" where
  "bsto_getCreaturesList srv filters fo isUserCollection m =
     (case mongo_Find srv (bcollection isUserCollection) filters fo m of
        (Inl ErrNoDocuments, m1) \<Rightarrow> (Inr None, m1)
      | (Inl MongoError, m1) \<Rightarrow> (Inl FindMongoDataErr, m1)
      | (Inr ds, m1) \<Rightarrow>
          ((case decode_list ds of
              Inl e \<Rightarrow> Inl e | Inr cs \<Rightarrow> Inr (if cs = [] then None else Some cs)), m1))"

text \<open>The search entry: \<open>None\<close> when the text mixes both alphabets.\<close>

definition search_filter :: "search_params \<Rightarrow> mongo_filter option" where
  "search_filter search =
     (if Value search \<noteq> []
      then map_option (\<lambda>field. [(field, Regex (Value search))]) (detectLanguageField (Value search))
      else Some [])"

definition bsto_GetCreaturesList ::
    "mongo_server \<Rightarrow> int \<Rightarrow> int \<Rightarrow> order list \<Rightarrow> filter_params \<Rightarrow> search_params \<Rightarrow> mongo
     \<Rightarrow> bestiary_creature list option result \<times> mongo" where
  "bsto_GetCreaturesList srv siz start rs f search m =
     (case search_filter search of
        None \<Rightarrow> (Inr None, m)
      | Some q \<Rightarrow>
          (case buildFindOptions start siz rs of
             Inl e \<Rightarrow> (Inl e, m)
           | Inr fo \<Rightarrow> bsto_getCreaturesList srv (buildTypesFilters f @ q) fo False m))"

definition bsto_GetUserCreaturesList ::
    "mongo_server \<Rightarrow> int \<Rightarrow> int \<Rightarrow> order list \<Rightarrow> filter_params \<Rightarrow> search_params \<Rightarrow> int \<Rightarrow> mongo
     \<Rightarrow> bestiary_creature list option result \<times> mongo" where
  "bsto_GetUserCreaturesList srv siz start rs f search uid m =
     (case search_filter search of
        None \<Rightarrow> (Inr None, m)
      | Some q \<Rightarrow>
          (let filters = buildTypesFilters f @ q @ [(''userID'', Equals (BStr (itoa uid)))]
           in case buildFindOptions start siz rs of
                Inl e \<Rightarrow> (Inl e, m)
              | Inr fo \<Rightarrow> bsto_getCreaturesList srv filters fo True m))"

definition creature_url :: "string \<Rightarrow> string" where
  "creature_url s = ''/bestiary/'' @ s"

definition bsto_GetCreatureByEngName ::
    "mongo_server \<Rightarrow> string \<Rightarrow> bool \<Rightarrow> mongo \<Rightarrow> creature option result \<times> mongo" where
  "bsto_GetCreatureByEngName srv url isUserCollection m =
     (case mongo_FindOne srv (bcollection isUserCollection)
             [(''url'', Equals (BStr (creature_url url)))] m of
        (Inl ErrNoDocuments, m1) \<Rightarrow> (Inr None, m1)
      | (Inl MongoError, m1) \<Rightarrow> (Inl FindMongoDataErr, m1)
      | (Inr d, m1) \<Rightarrow>
          ((case r_creature d of None \<Rightarrow> Inl FindMongoDataErr | Some c \<Rightarrow> Inr (Some c)), m1))"

definition bsto_AddGeneratedCreature :: "creature \<Rightarrow> mongo \<Rightarrow> unit result \<times> mongo" where
  "bsto_AddGeneratedCreature c m =
     (case mongo_InsertOne generated_creatures generated_creatures_update (present (creature_fields c)) m of
        (Inl _, m1) \<Rightarrow> (Inl InsertMongoDataErr, m1)
      | (Inr _, m1) \<Rightarrow> (Inr (), m1))"

definition bestiaryStorage :: "mongo_server \<Rightarrow> mongo bestiary_repository" where
  "bestiaryStorage srv =
     \<lparr>brepo_List = bsto_GetCreaturesList srv, brepo_ByEngName = bsto_GetCreatureByEngName srv,
      brepo_UserList = bsto_GetUserCreaturesList srv, brepo_Add = bsto_AddGeneratedCreature\<rparr>"

end
