(* ===== verification/BestiaryUse.thy ===== *)
theory BestiaryUse
  imports Bestiary OAuth
begin

text \<open>
  The rest of \<open>internal/pkg/bestiary\<close>: images in the object store, the client of the language
  model, the usecases over the interfaces and the handlers.

  The other end of the language model's HTTP client is a parameter, as for the OAuth clients.
\<close>

section \<open>Images\<close>

text \<open>\<open>base64.StdEncoding.DecodeString\<close>: line breaks are ignored, padding is required.\<close>

definition base64_value :: "char \<Rightarrow> nat option" where
  "base64_value c =
     (let n = (of_char c :: nat) in
      if 65 \<le> n \<and> n \<le> 90 then Some (n - 65)
      else if 97 \<le> n \<and> n \<le> 122 then Some (n - 71)
      else if 48 \<le> n \<and> n \<le> 57 then Some (n + 4)
      else if n = 43 then Some 62 else if n = 47 then Some 63 else None)"

fun base64_quads :: "string \<Rightarrow> string option" where
  "base64_quads [] = Some []"
| "base64_quads (a # b # c # d # r) =
     (if d = CHR ''='' \<and> r \<noteq> [] then None
      else if c = CHR ''='' \<and> d = CHR ''='' then
        do { v \<leftarrow> base64_value a; w \<leftarrow> base64_value b; Some [char_of (v * 4 + w div 16)] }
      else if d = CHR ''='' then
        do { v \<leftarrow> base64_value a; w \<leftarrow> base64_value b; x \<leftarrow> base64_value c;
             Some [char_of (v * 4 + w div 16), char_of (w mod 16 * 16 + x div 4)] }
      else
        do { v \<leftarrow> base64_value a; w \<leftarrow> base64_value b; x \<leftarrow> base64_value c; y \<leftarrow> base64_value d;
             bs \<leftarrow> base64_quads r;
             Some (char_of (v * 4 + w div 16) # char_of (w mod 16 * 16 + x div 4)
                   # char_of (x mod 4 * 64 + y) # bs) })"
| "base64_quads _ = None"

definition base64_decode :: "string \<Rightarrow> string option" where
  "base64_decode s = base64_quads (filter (\<lambda>c. c \<noteq> CHR 0x0A \<and> c \<noteq> CHR 0x0D) s)"

text \<open>The bucket: the objects by name, and what becomes of the coming \<open>PutObject\<close> calls.\<close>

record bucket =
  objects_of :: "(string \<times> string) list"
  put_outcomes :: "bool list"

definition PutObject :: "string \<Rightarrow> string \<Rightarrow> bucket \<Rightarrow> bool \<times> bucket" where
  "PutObject objectName bytes s =
     (case put_outcomes s of
        [] \<Rightarrow> (True, s\<lparr>objects_of := AList.update objectName bytes (objects_of s)\<rparr>)
      | True # r \<Rightarrow>
          (True, s\<lparr>objects_of := AList.update objectName bytes (objects_of s), put_outcomes := r\<rparr>)
      | False # r \<Rightarrow> (False, s\<lparr>put_outcomes := r\<rparr>))"

text \<open>\<open>repository/s3_manager.go\<close>.\<close>

definition s3_UploadImage :: "string \<Rightarrow> string \<Rightarrow> string \<Rightarrow> bucket \<Rightarrow> string result \<times> bucket" where
  "s3_UploadImage bucketName base64Data objectName s =
     (let parts = split_on (CHR '','') base64Data in
      if length parts \<noteq> 2 then (Inl InvalidBase64Err, s)
      else (case base64_decode (parts ! 1) of
              None \<Rightarrow> (Inl (OtherError ''illegal base64 data''), s)
            | Some bytes \<Rightarrow>
                (case PutObject objectName bytes s of
                   (False, s1) \<Rightarrow> (Inl (OtherError ''PutObject''), s1)
                 | (True, s1) \<Rightarrow>
                     (Inr (''https://encounterium.ru/'' @ bucketName @ ''/'' @ objectName), s1))))"

section \<open>The language model\<close>

text \<open>
  \<open>external/gemini_client.go\<close>. A request has the field of its JSON body or the file of its
  multipart body. \<open>go_json\<close> decodes a body into a \<open>map[string]interface{}\<close>; its numbers are
  those that \<open>json.Marshal\<close> writes of the \<open>float64\<close> values. A body of a 200 answer that cannot
  be read is \<open>BrokenBody\<close>.
\<close>

datatype gemini_body = DescBody string | FileBody string

record gemini_request =
  gr_url :: string
  gr_key :: string
  gr_body :: gemini_body

record 'w gemini_outside =
  go_http :: "gemini_request \<Rightarrow> 'w \<Rightarrow> http_reply \<times> 'w"
  go_json :: "string \<Rightarrow> json option"

record gemini_client =
  gc_baseURL :: string
  gc_apiKey :: string

fun parseJSONResponse :: "(string \<Rightarrow> json option) \<Rightarrow> http_reply \<Rightarrow> json result" where
  "parseJSONResponse parse (Reply code body) =
     (if code \<noteq> 200 then Inl ApiErr
      else (case parse body of
              Some (JObj kvs) \<Rightarrow> Inr (JObj kvs) | Some JNull \<Rightarrow> Inr JNull | _ \<Rightarrow> Inl InvalidJSONError))"
| "parseJSONResponse parse BrokenBody = Inl InvalidJSONError"
| "parseJSONResponse parse NoRequest = Inl (OtherError ''NewRequest'')"
| "parseJSONResponse parse NoReply = Inl (OtherError ''Do'')"

definition gemini_GenerateFromDescription ::
    "gemini_client \<Rightarrow> 'w gemini_outside \<Rightarrow> string \<Rightarrow> 'w \<Rightarrow> json result \<times> 'w" where
  "gemini_GenerateFromDescription g ext desc w =
     (case go_http ext \<lparr>gr_url = gc_baseURL g @ ''/create_struct_from_desc/'', gr_key = gc_apiKey g,
        gr_body = DescBody desc\<rparr> w of
        (r, w1) \<Rightarrow> (parseJSONResponse (go_json ext) r, w1))"

definition gemini_GenerateFromImage ::
    "gemini_client \<Rightarrow> 'w gemini_outside \<Rightarrow> string \<Rightarrow> 'w \<Rightarrow> json result \<times> 'w" where
  "gemini_GenerateFromImage g ext img w =
     (case go_http ext \<lparr>gr_url = gc_baseURL g @ ''/parse_card_from_img/'', gr_key = gc_apiKey g,
        gr_body = FileBody img\<rparr> w of
        (r, w1) \<Rightarrow> (parseJSONResponse (go_json ext) r, w1))"

text \<open>The interface.\<close>

record 'w gemini_api =
  gm_FromImage :: "string \<Rightarrow> 'w \<Rightarrow> json result \<times> 'w"
  gm_FromDescription :: "string \<Rightarrow> 'w \<Rightarrow> json result \<times> 'w"

definition geminiClient :: "gemini_client \<Rightarrow> 'w gemini_outside \<Rightarrow> 'w gemini_api" where
  "geminiClient g ext =
     \<lparr>gm_FromImage = gemini_GenerateFromImage g ext,
      gm_FromDescription = gemini_GenerateFromDescription g ext\<rparr>"

section \<open>Usecases\<close>

text \<open>
  \<open>usecases/bestiary.go\<close>. Adding a creature works on the store and on the bucket; \<open>new_id\<close> is
  what \<open>primitive.NewObjectID\<close> returns.
\<close>

definition buc_GetCreaturesList ::
    "'d bestiary_repository \<Rightarrow> int \<Rightarrow> int \<Rightarrow> order list \<Rightarrow> filter_params \<Rightarrow> search_params \<Rightarrow> 'd
     \<Rightarrow> bestiary_creature list option result \<times> 'd" where
  "buc_GetCreaturesList repo siz start rs f search d =
     (if bad_page start siz then (Inl StartPosSizeError, d)
      else brepo_List repo siz start rs f search d)"

definition buc_GetCreatureByEngName ::
    "'d bestiary_repository \<Rightarrow> string \<Rightarrow> 'd \<Rightarrow> creature option result \<times> 'd" where
  "buc_GetCreatureByEngName repo engName d = brepo_ByEngName repo engName False d"

definition buc_GetUserCreaturesList ::
    "'d bestiary_repository \<Rightarrow> int \<Rightarrow> int \<Rightarrow> order list \<Rightarrow> filter_params \<Rightarrow> search_params \<Rightarrow> int \<Rightarrow> 'd
     \<Rightarrow> bestiary_creature list option result \<times> 'd" where
  "buc_GetUserCreaturesList repo siz start rs f search uid d =
     (if bad_page start siz then (Inl StartPosSizeError, d)
      else brepo_UserList repo siz start rs f search uid d)"

text \<open>The repository answers \<open>(nil, nil)\<close> for an unknown name, and nil has no \<open>UserID\<close>.\<close>

definition buc_GetUserCreatureByEngName ::
    "'d bestiary_repository \<Rightarrow> string \<Rightarrow> int \<Rightarrow> 'd \<Rightarrow> creature option result go \<times> 'd" where
  "buc_GetUserCreatureByEngName repo engName uid d =
     (case brepo_ByEngName repo engName True d of
        (Inl e, d1) \<Rightarrow> (Return (Inl e), d1)
      | (Inr None, d1) \<Rightarrow> (Panic, d1)
      | (Inr (Some c), d1) \<Rightarrow>
          (Return (if cr_UserID c \<noteq> itoa uid then Inl PermissionDeniedError else Inr (Some c)), d1))"

definition given_id :: "string \<Rightarrow> int \<Rightarrow> creature_input \<Rightarrow> creature result" where
  "given_id new_id uid inp =
     (if ci_ID inp = ''current'' \<or> ci_ID inp = []
      then Inr ((ci_Creature inp)\<lparr>cr_ID := new_id, cr_UserID := itoa uid\<rparr>)
      else (case ObjectIDFromHex (ci_ID inp) of
              None \<Rightarrow> Inl InvalidInputError
            | Some i \<Rightarrow> Inr ((ci_Creature inp)\<lparr>cr_ID := i\<rparr>)))"

definition buc_AddGeneratedCreature ::
    "'d bestiary_repository \<Rightarrow> string \<Rightarrow> string \<Rightarrow> creature_input \<Rightarrow> int \<Rightarrow> 'd \<times> bucket
     \<Rightarrow> unit result \<times> ('d \<times> bucket)" where
  "buc_AddGeneratedCreature repo bucketName new_id inp uid st =
     (case given_id new_id uid inp of
        Inl e \<Rightarrow> (Inl e, st)
      | Inr c \<Rightarrow>
          if nm_Eng (cr_Name (ci_Creature inp)) = [] then (Inl InvalidInputError, st)
          else
            (case s3_UploadImage bucketName (ci_ImageBase64 inp)
                    (''generated-creature-images/processed/'' @ cr_ID c @ ''.webp'') (snd st) of
               (Inl e, s1) \<Rightarrow> (Inl e, (fst st, s1))
             | (Inr urlRect, s1) \<Rightarrow>
                 (case s3_UploadImage bucketName (ci_ImageBase64Circle inp)
                         (''generated-creature-images/tokens/'' @ cr_ID c @ ''.webp'') s1 of
                    (Inl e, s2) \<Rightarrow> (Inl e, (fst st, s2))
                  | (Inr urlToken, s2) \<Rightarrow>
                      (case brepo_Add repo
                              (c\<lparr>cr_URL := creature_url (cr_ID c),
                                 cr_Images := Some (items (cr_Images c) @ [urlToken, urlRect, urlRect])\<rparr>)
                              (fst st) of
                         (r, d1) \<Rightarrow> (r, (d1, s2))))))"

text \<open>
  The map goes through \<open>json.Marshal\<close>, which writes the keys in order, and \<open>json.Unmarshal\<close> into
  the struct.
\<close>

definition to_creature :: "json \<Rightarrow> creature result" where
  "to_creature raw =
     (case unmarshal_creature (canon raw) of None \<Rightarrow> Inl (OtherError ''json'') | Some c \<Rightarrow> Inr c)"

definition buc_ParseCreatureFromImage :: "'w gemini_api \<Rightarrow> string \<Rightarrow> 'w \<Rightarrow> creature result \<times> 'w" where
  "buc_ParseCreatureFromImage gem img w =
     (case gm_FromImage gem img w of
        (Inl e, w1) \<Rightarrow> (Inl e, w1)
      | (Inr raw, w1) \<Rightarrow> (to_creature raw, w1))"

definition buc_GenerateCreatureFromDescription ::
    "'w gemini_api \<Rightarrow> string \<Rightarrow> 'w \<Rightarrow> creature result \<times> 'w" where
  "buc_GenerateCreatureFromDescription gem desc w =
     (case gm_FromDescription gem desc w of
        (Inl e, w1) \<Rightarrow> (Inl e, w1)
      | (Inr raw, w1) \<Rightarrow> (to_creature raw, w1))"

section \<open>Handlers\<close>

text \<open>
  \<open>delivery/bestiary_handlers.go\<close>. The body is the JSON value the decoder found, \<open>None\<close> when
  there is none; all values that are answered marshal.
\<close>

datatype bestiary_body = BodyCreatures "bestiary_creature list option" | BodyCreature creature

definition list_error :: "app_error \<Rightarrow> 'b response" where
  "list_error err =
     (if err = StartPosSizeError then SendErrResponse StatusBadRequest ErrSizeOrPosition
      else if err = UnknownDirectionError then SendErrResponse StatusBadRequest ErrWrongDirection
      else SendErrResponse StatusInternalServerError ErrInternalServer)"

definition h_GetCreaturesList ::
    "'d bestiary_repository \<Rightarrow> json option \<Rightarrow> 'd \<Rightarrow> bestiary_body response go \<times> 'd" where
  "h_GetCreaturesList repo body d =
     (case decoded j_bestiary_req body of
        None \<Rightarrow> (Return (SendErrResponse StatusBadRequest ErrBadJSON), d)
      | Some req \<Rightarrow>
          (case buc_GetCreaturesList repo (br_Size req) (br_Start req) (items (br_Order req))
                  (br_Filter req) (br_Search req) d of
             (Inl e, d1) \<Rightarrow>
               (Return (if e = NoDocsErr then SendOk NullBody else list_error e), d1)
           | (Inr cs, d1) \<Rightarrow> (Return (SendOk (OkBody (BodyCreatures cs))), d1)))"

fun creature_or_missing :: "creature option \<Rightarrow> bestiary_body response" where
  "creature_or_missing None = SendErrResponse StatusBadRequest ErrCreatureNotFound"
| "creature_or_missing (Some c) = SendOk (OkBody (BodyCreature c))"

definition h_GetCreatureByName ::
    "'d bestiary_repository \<Rightarrow> string \<Rightarrow> 'd \<Rightarrow> bestiary_body response go \<times> 'd" where
  "h_GetCreatureByName repo creatureName d =
     (case buc_GetCreatureByEngName repo creatureName d of
        (Inl _, d1) \<Rightarrow> (Return (SendErrResponse StatusInternalServerError ErrInternalServer), d1)
      | (Inr c, d1) \<Rightarrow> (Return (creature_or_missing c), d1))"

definition h_GetUserCreaturesList ::
    "'d bestiary_repository \<Rightarrow> json option \<Rightarrow> user option \<Rightarrow> 'd \<Rightarrow> bestiary_body response go \<times> 'd" where
  "h_GetUserCreaturesList repo body ctx_user d =
     (case decoded j_bestiary_req body of
        None \<Rightarrow> (Return (SendErrResponse StatusBadRequest ErrBadJSON), d)
      | Some req \<Rightarrow>
          with_user ctx_user (\<lambda>user d.
            case buc_GetUserCreaturesList repo (br_Size req) (br_Start req) (items (br_Order req))
                   (br_Filter req) (br_Search req) (userID user) d of
              (Inl e, d1) \<Rightarrow> (Return (list_error e), d1)
            | (Inr cs, d1) \<Rightarrow> (Return (SendOk (OkBody (BodyCreatures cs))), d1)) d)"

definition h_GetUserCreatureByName ::
    "'d bestiary_repository \<Rightarrow> string \<Rightarrow> user option \<Rightarrow> 'd \<Rightarrow> bestiary_body response go \<times> 'd" where
  "h_GetUserCreatureByName repo creatureName ctx_user d =
     with_user ctx_user (\<lambda>user d.
       case buc_GetUserCreatureByEngName repo creatureName (userID user) d of
         (Return (Inl e), d1) \<Rightarrow>
           (Return (if e = PermissionDeniedError then SendErrResponse StatusForbidden ErrForbidden
                    else SendErrResponse StatusInternalServerError ErrInternalServer), d1)
       | (Return (Inr c), d1) \<Rightarrow> (Return (creature_or_missing c), d1)
       | (Panic, d1) \<Rightarrow> (Panic, d1)
       | (Block, d1) \<Rightarrow> (Block, d1)) d"

definition h_AddGeneratedCreature ::
    "'d bestiary_repository \<Rightarrow> string \<Rightarrow> string \<Rightarrow> json option \<Rightarrow> user option \<Rightarrow> 'd \<times> bucket
     \<Rightarrow> bestiary_body response go \<times> ('d \<times> bucket)" where
  "h_AddGeneratedCreature repo bucketName new_id body ctx_user st =
     (case decoded j_creature_input body of
        None \<Rightarrow> (Return (SendErrResponse StatusBadRequest ErrBadJSON), st)
      | Some inp \<Rightarrow>
          with_user ctx_user (\<lambda>user st.
            case buc_AddGeneratedCreature repo bucketName new_id inp (userID user) st of
              (Inl e, st1) \<Rightarrow>
                (Return (if e = InvalidInputError then SendErrResponse StatusBadRequest ErrInvalidID
                         else if e = InvalidBase64Err then SendErrResponse StatusBadRequest ErrWrongBase64
                         else SendErrResponse StatusInternalServerError ErrInternalServer), st1)
            | (Inr _, st1) \<Rightarrow> (Return (SendOk NullBody), st1)) st)"

text \<open>
  The upload of a form: the form does not parse, has no file \<open>image\<close>, the file cannot be
  read, or its bytes. The 10 MB of \<open>ParseMultipartForm\<close> are what is kept in memory, not a limit.
\<close>

datatype image_form = BadForm | NoImage | UnreadableImage | ImageBytes string

definition h_UploadCreatureStatblockImage ::
    "'w gemini_api \<Rightarrow> image_form \<Rightarrow> 'w \<Rightarrow> bestiary_body response go \<times> 'w" where
  "h_UploadCreatureStatblockImage gem form w =
     (case form of
        BadForm \<Rightarrow> (Return (SendErrResponse StatusBadRequest ErrWrongFileSize), w)
      | NoImage \<Rightarrow> (Return (SendErrResponse StatusBadRequest ErrWrongImage), w)
      | UnreadableImage \<Rightarrow> (Return (SendErrResponse StatusInternalServerError ErrInternalServer), w)
      | ImageBytes bytes \<Rightarrow>
          (case buc_ParseCreatureFromImage gem bytes w of
             (Inl _, w1) \<Rightarrow> (Return (SendErrResponse StatusInternalServerError ErrInternalServer), w1)
           | (Inr c, w1) \<Rightarrow> (Return (SendOk (OkBody (BodyCreature c))), w1)))"

definition h_SubmitCreatureGenerationPrompt ::
    "'w gemini_api \<Rightarrow> json option \<Rightarrow> 'w \<Rightarrow> bestiary_body response go \<times> 'w" where
  "h_SubmitCreatureGenerationPrompt gem body w =
     (case decoded (str_field ''description'') body of
        None \<Rightarrow> (Return (SendErrResponse StatusBadRequest ErrBadJSON), w)
      | Some desc \<Rightarrow>
          (case buc_GenerateCreatureFromDescription gem desc w of
             (Inl _, w1) \<Rightarrow> (Return (SendErrResponse StatusInternalServerError ErrInternalServer), w1)
           | (Inr c, w1) \<Rightarrow> (Return (SendOk (OkBody (BodyCreature c))), w1)))"

end
