(* ===== verification/ActionValue.thy ===== *)
theory ActionValue
  imports Prelude
begin

text \<open>
  \<open>processActionValue\<close> of \<open>usecases/generated_creature_processor.go\<close>: it wraps the attack bonuses
  and the damage dice of an action's text in dice rollers. The two regular expressions are
  written out as the functions that find their leftmost matches; a text is the list of its
  characters, each with its UTF-8 bytes.
\<close>

section \<open>Characters\<close>

function runes :: "string \<Rightarrow> string list" where
  "runes [] = []"
| "runes (c # cs) = (c # takeWhile utf8_cont cs) # runes (dropWhile utf8_cont cs)"
  by pat_completeness auto
termination by (relation "measure length") (auto simp: le_imp_less_Suc length_dropWhile_le)

definition code :: "char \<Rightarrow> nat" where
  "code c = of_char c"

definition is_digit :: "string \<Rightarrow> bool" where
  "is_digit r \<longleftrightarrow> (case r of [c] \<Rightarrow> 48 \<le> code c \<and> code c \<le> 57 | _ \<Rightarrow> False)"

text \<open>\<open>\w\<close>, \<open>[+-]\<close> and \<open>\s\<close> of regexp.\<close>

definition is_word :: "string \<Rightarrow> bool" where
  "is_word r \<longleftrightarrow> (case r of
       [c] \<Rightarrow> 48 \<le> code c \<and> code c \<le> 57 \<or> 65 \<le> code c \<and> code c \<le> 90 \<or>
             97 \<le> code c \<and> code c \<le> 122 \<or> code c = 95
     | _ \<Rightarrow> False)"

definition is_sign :: "string \<Rightarrow> bool" where
  "is_sign r \<longleftrightarrow> r = ''+'' \<or> r = ''-''"

definition is_blank :: "string \<Rightarrow> bool" where
  "is_blank r \<longleftrightarrow> r \<in> {[CHR 0x09], [CHR 0x0A], [CHR 0x0C], [CHR 0x0D], '' ''}"

text \<open>\<open>unicode.IsSpace\<close> and \<open>strings.TrimSpace\<close>.\<close>

definition is_space :: "string \<Rightarrow> bool" where
  "is_space r \<longleftrightarrow> (case map code r of
       [n] \<Rightarrow> 9 \<le> n \<and> n \<le> 13 \<or> n = 32
     | [m, n] \<Rightarrow> m = 0xC2 \<and> (n = 0x85 \<or> n = 0xA0)
     | [l, m, n] \<Rightarrow>
         l = 0xE1 \<and> m = 0x9A \<and> n = 0x80 \<or>
         l = 0xE2 \<and> m = 0x80 \<and> (0x80 \<le> n \<and> n \<le> 0x8A \<or> n = 0xA8 \<or> n = 0xA9 \<or> n = 0xAF) \<or>
         l = 0xE2 \<and> m = 0x81 \<and> n = 0x9F \<or>
         l = 0xE3 \<and> m = 0x80 \<and> n = 0x80
     | _ \<Rightarrow> False)"

definition TrimSpace :: "string \<Rightarrow> string" where
  "TrimSpace s = concat (rev (dropWhile is_space (rev (dropWhile is_space (runes s)))))"

section \<open>The steps\<close>

text \<open>The part before the first colon.\<close>

definition wrap_prefix :: "string \<Rightarrow> string" where
  "wrap_prefix v =
     (if CHR '':'' \<in> set v
      then ''<p><em>'' @ TrimSpace (takeWhile (\<lambda>c. c \<noteq> CHR '':'') v) @ '':</em> '' @
           TrimSpace (tl (dropWhile (\<lambda>c. c \<noteq> CHR '':'') v))
      else v)"

text \<open>\<open>string(b)\<close> of a byte is the UTF-8 of the character with that number.\<close>

definition string_of_byte :: "char \<Rightarrow> string" where
  "string_of_byte c =
     (if code c < 128 then [c] else [char_of (192 + code c div 64), char_of (128 + code c mod 64)])"

definition d20_text :: string where
  "d20_text = [CHR 0xD0, CHR 0xBA, CHR 0x32, CHR 0x30, CHR 0x20]"

definition attack_text :: string where
  "attack_text = [CHR 0xD0, CHR 0x90, CHR 0xD1, CHR 0x82, CHR 0xD0, CHR 0xB0, CHR 0xD0, CHR 0xBA,
     CHR 0xD0, CHR 0xB0]"

definition damage_text :: string where
  "damage_text = [CHR 0xD0, CHR 0xA3, CHR 0xD1, CHR 0x80, CHR 0xD0, CHR 0xBE, CHR 0xD0, CHR 0xBD]"

definition attack_formula :: "string \<Rightarrow> string" where
  "attack_formula mtch =
     (let sign = string_of_byte (mtch ! (length mtch - 3)); num = drop (length mtch - 2) mtch
      in d20_text @ sign @ '' '' @ dropWhile (\<lambda>c. c = CHR ''+'' \<or> c = CHR ''-'') num)"

definition attack_roller :: "string \<Rightarrow> string" where
  "attack_roller mtch =
     (let sign = string_of_byte (mtch ! (length mtch - 3)); num = drop (length mtch - 2) mtch
      in ''</em> <dice-roller label=\"'' @ attack_text @ ''\" formula=\"'' @ attack_formula mtch @
         ''\">'' @ sign @ num @ ''</dice-roller>'')"

text \<open>\<open>([^\w])([+-]\d{1,2})\<close>, the second digit when there is one.\<close>

fun replace_bonuses :: "string list \<Rightarrow> string" where
  "replace_bonuses (r # s # d # e # rs) =
     (if \<not> is_word r \<and> is_sign s \<and> is_digit d
      then (if is_digit e then attack_roller (r @ s @ d @ e) @ replace_bonuses rs
            else attack_roller (r @ s @ d) @ replace_bonuses (e # rs))
      else r @ replace_bonuses (s # d # e # rs))"
| "replace_bonuses [r, s, d] =
     (if \<not> is_word r \<and> is_sign s \<and> is_digit d then attack_roller (r @ s @ d) else r @ s @ d)"
| "replace_bonuses rs = concat rs"

text \<open>\<open>\((\d+k\d+(?:\s*[+-]\s*\d+)?)\)\<close>, with the Cyrillic letter, after its opening parenthesis:
  what the group matched and what is left.\<close>

definition dice_letter :: string where
  "dice_letter = [CHR 0xD0, CHR 0xBA]"

definition modifier :: "string list \<Rightarrow> (string list \<times> string list) option" where
  "modifier rs =
     (let ws = takeWhile is_blank rs; r1 = dropWhile is_blank rs in
      case r1 of
        [] \<Rightarrow> None
      | s # r2 \<Rightarrow>
          (let vs = takeWhile is_blank r2; r3 = dropWhile is_blank r2;
               n = takeWhile is_digit r3; r4 = dropWhile is_digit r3 in
           if is_sign s \<and> n \<noteq> [] then Some (ws @ [s] @ vs @ n, r4) else None))"

definition closes :: "string list \<Rightarrow> bool" where
  "closes rs \<longleftrightarrow> (case rs of [] \<Rightarrow> False | r # _ \<Rightarrow> r = '')'')"

definition dice_at :: "string list \<Rightarrow> string list option" where
  "dice_at rs =
     (let m = takeWhile is_digit rs; r1 = dropWhile is_digit rs in
      case r1 of
        [] \<Rightarrow> None
      | l # r2 \<Rightarrow>
          (let n = takeWhile is_digit r2; r3 = dropWhile is_digit r2 in
           if m = [] \<or> l \<noteq> dice_letter \<or> n = [] then None
           else if closes r3 then Some (m @ [l] @ n)
           else (case modifier r3 of
                   Some (b, r4) \<Rightarrow> if closes r4 then Some (m @ [l] @ n @ b) else None
                 | None \<Rightarrow> None)))"

text \<open>The first argument counts the characters that the last match has still to consume.\<close>

fun replace_dice :: "nat \<Rightarrow> string list \<Rightarrow> string" where
  "replace_dice k [] = []"
| "replace_dice (Suc k) (r # rs) = replace_dice k rs"
| "replace_dice 0 (r # rs) =
     (case (if r = ''('' then dice_at rs else None) of
        Some g \<Rightarrow>
          ''(<dice-roller label=\"'' @ damage_text @ ''\" formula=\"'' @ concat g @ ''\"/>)'' @
          replace_dice (Suc (length g)) rs
      | None \<Rightarrow> r @ replace_dice 0 rs)"

definition processActionValue :: "string \<Rightarrow> string" where
  "processActionValue v =
     (if TrimSpace v = [] then v
      else
        (let v1 = wrap_prefix v; v2 = replace_bonuses (runes v1) in replace_dice 0 (runes v2)))"

end
