(* ===== verification/Llm.thy ===== *)
theory Llm
  imports BestiaryUse ActionValue
begin

text \<open>
  The generation of creatures in the background: \<open>models/llm_job.go\<close>,
  \<open>repository/llm_storage.go\<close>, \<open>usecases/llm.go\<close>, \<open>actions_processor.go\<close>,
  \<open>generated_creature_processor.go\<close>, \<open>delivery/llm_handlers.go\<close> and
  \<open>action_processor_adapter.go\<close>.

  Jobs are objects on a heap: the store keeps pointers and \<open>Get\<close> hands them out, so the
  goroutine \<open>process\<close> and the handlers work on the same object. The goroutine is a list of
  atomic steps, one for each access to shared memory and each call to the outside, which
  interleave with new jobs and the steps of other goroutines. The language model and the
  service that parses actions are parameters.
\<close>

section \<open>Jobs and their store\<close>

record llm_job =
  jb_ID :: string
  jb_Description :: "string option"
  jb_Image :: string
  jb_Status :: string
  jb_Result :: "creature option"
  jb_CreatedAt :: int
  jb_UpdatedAt :: int

text \<open>Where a goroutine \<open>process\<close> stands; a number is the address of its job.\<close>

datatype pc =
    Begin string
  | MarkStep1 nat
  | SaveStep1 nat
  | Ask nat
  | MarkError nat
  | SaveError nat
  | MarkStep2 nat creature
  | SaveStep2 nat creature
  | Check nat creature
  | MarkDone nat creature
  | SetResult nat creature
  | SaveDone nat

record 'w forge =
  heap :: "llm_job list"
  jobs :: "(string \<times> nat) list"
  procs :: "pc list"
  fg_clock :: int
  fg_world :: 'w

definition llm_Create :: "llm_job \<Rightarrow> 'w forge \<Rightarrow> unit result \<times> 'w forge" where
  "llm_Create job st =
     (Inr (), st\<lparr>heap := heap st @ [job\<lparr>jb_CreatedAt := fg_clock st, jb_UpdatedAt := fg_clock st\<rparr>],
        jobs := AList.update (jb_ID job) (length (heap st)) (jobs st)\<rparr>)"

definition llm_Get :: "string \<Rightarrow> 'w forge \<Rightarrow> nat result" where
  "llm_Get i st = (case map_of (jobs st) i of None \<Rightarrow> Inl NotFoundError | Some p \<Rightarrow> Inr p)"

definition llm_Update :: "nat \<Rightarrow> 'w forge \<Rightarrow> unit result \<times> 'w forge" where
  "llm_Update p st =
     (case map_of (jobs st) (jb_ID (heap st ! p)) of
        None \<Rightarrow> (Inl NotFoundError, st)
      | Some q \<Rightarrow>
          (let j = (heap st ! p)\<lparr>jb_UpdatedAt := fg_clock st\<rparr>;
               h = (heap st)[p := j]
           in (Inr (), st\<lparr>heap := h[q := (h ! q)\<lparr>jb_Status := jb_Status j, jb_Result := jb_Result j,
                jb_UpdatedAt := jb_UpdatedAt j\<rparr>]\<rparr>)))"

section \<open>Checking a generated creature\<close>

text \<open>
  The gRPC client: it gets names and texts of the actions and answers a
  \<open>map[string]interface{}\<close> or an error.
\<close>

type_synonym 'w gateway = "(string \<times> string) list \<Rightarrow> 'w \<Rightarrow> json result \<times> 'w"

definition adapter_ProcessActions :: "'w gateway \<Rightarrow> action slice \<Rightarrow> 'w \<Rightarrow> json result \<times> 'w" where
  "adapter_ProcessActions client actions w =
     client (map (\<lambda>a. (ac_Name a, ac_Value a)) (items actions)) w"

definition ap_ProcessActions :: "'w gateway \<Rightarrow> action slice \<Rightarrow> 'w \<Rightarrow> attack_llm slice result \<times> 'w" where
  "ap_ProcessActions client actions w =
     (case adapter_ProcessActions client actions w of
        (Inl _, w1) \<Rightarrow> (Inl ReceivedActionProcessingError, w1)
      | (Inr rawMap, w1) \<Rightarrow>
          ((case (case rawMap of JObj kvs \<Rightarrow> map_of kvs ''parsed_actions'' | _ \<Rightarrow> None) of
              None \<Rightarrow> Inl ParsedActionsErr
            | Some rawParsed \<Rightarrow>
                (case slice_of (object_of j_attack_llm) zero_attack_llm (canon rawParsed) of
                   None \<Rightarrow> Inl (OtherError ''json'') | Some attacks \<Rightarrow> Inr attacks)), w1))"

text \<open>An error of the parser leaves the creature without parsed attacks.\<close>

definition ValidateAndProcessGeneratedCreature ::
    "'w gateway \<Rightarrow> creature option \<Rightarrow> 'w \<Rightarrow> creature result \<times> 'w" where
  "ValidateAndProcessGeneratedCreature client c w =
     (case c of
        None \<Rightarrow> (Inl NilCreatureErr, w)
      | Some cr \<Rightarrow>
          (case ap_ProcessActions client (cr_Actions cr) w of
             (r, w1) \<Rightarrow>
               (let updated = (case r of Inl _ \<Rightarrow> cr | Inr attacks \<Rightarrow> cr\<lparr>cr_LLMParsedAttack := attacks\<rparr>)
                in (Inr (updated\<lparr>cr_Actions := map_option
                      (map (\<lambda>a. a\<lparr>ac_Value := processActionValue (ac_Value a)\<rparr>)) (cr_Actions updated)\<rparr>),
                    w1))))"

section \<open>Usecases\<close>

text \<open>\<open>new_id\<close> is what the id generator returns; the runner starts a goroutine.\<close>

definition submit :: "llm_job \<Rightarrow> 'w forge \<Rightarrow> string result \<times> 'w forge" where
  "submit job st =
     (case llm_Create job st of
        (Inl e, st1) \<Rightarrow> (Inl e, st1)
      | (Inr _, st1) \<Rightarrow> (Inr (jb_ID job), st1\<lparr>procs := procs st1 @ [Begin (jb_ID job)]\<rparr>))"

definition uc_SubmitText :: "string \<Rightarrow> string \<Rightarrow> 'w forge \<Rightarrow> string result \<times> 'w forge" where
  "uc_SubmitText new_id desc st =
     submit \<lparr>jb_ID = new_id, jb_Description = Some desc, jb_Image = [], jb_Status = ''pending'',
       jb_Result = None, jb_CreatedAt = 0, jb_UpdatedAt = 0\<rparr> st"

definition uc_SubmitImage :: "string \<Rightarrow> string \<Rightarrow> 'w forge \<Rightarrow> string result \<times> 'w forge" where
  "uc_SubmitImage new_id img st =
     submit \<lparr>jb_ID = new_id, jb_Description = None, jb_Image = img, jb_Status = ''pending'',
       jb_Result = None, jb_CreatedAt = 0, jb_UpdatedAt = 0\<rparr> st"

definition uc_GetJob :: "string \<Rightarrow> 'w forge \<Rightarrow> llm_job result" where
  "uc_GetJob i st = (case llm_Get i st of Inl e \<Rightarrow> Inl e | Inr p \<Rightarrow> Inr (heap st ! p))"

record 'w llm_env =
  le_gemini :: "'w gemini_api"
  le_gateway :: "'w gateway"

definition set_status :: "nat \<Rightarrow> string \<Rightarrow> 'w forge \<Rightarrow> 'w forge" where
  "set_status p s st = st\<lparr>heap := (heap st)[p := (heap st ! p)\<lparr>jb_Status := s\<rparr>]\<rparr>"

text \<open>One step of \<open>process\<close>; \<open>None\<close> is its end.\<close>

fun process_step :: "'w llm_env \<Rightarrow> pc \<Rightarrow> 'w forge \<Rightarrow> pc option \<times> 'w forge" where
  "process_step env (Begin i) st =
     (case llm_Get i st of Inl _ \<Rightarrow> (None, st) | Inr p \<Rightarrow> (Some (MarkStep1 p), st))"
| "process_step env (MarkStep1 p) st = (Some (SaveStep1 p), set_status p ''processing_step_1'' st)"
| "process_step env (SaveStep1 p) st =
     (case llm_Update p st of (Inl _, st1) \<Rightarrow> (None, st1) | (Inr _, st1) \<Rightarrow> (Some (Ask p), st1))"
| "process_step env (Ask p) st =
     (case (case jb_Description (heap st ! p) of
              Some desc \<Rightarrow> gm_FromDescription (le_gemini env) desc (fg_world st)
            | None \<Rightarrow> gm_FromImage (le_gemini env) (jb_Image (heap st ! p)) (fg_world st)) of
        (Inl _, w1) \<Rightarrow> (Some (MarkError p), st\<lparr>fg_world := w1\<rparr>)
      | (Inr raw, w1) \<Rightarrow>
          (Some (case unmarshal_creature (canon raw) of None \<Rightarrow> MarkError p | Some cr \<Rightarrow> MarkStep2 p cr),
           st\<lparr>fg_world := w1\<rparr>))"
| "process_step env (MarkError p) st = (Some (SaveError p), set_status p ''error'' st)"
| "process_step env (SaveError p) st = (None, snd (llm_Update p st))"
| "process_step env (MarkStep2 p cr) st =
     (Some (SaveStep2 p cr), set_status p ''processing_step_2'' st)"
| "process_step env (SaveStep2 p cr) st =
     (case llm_Update p st of (Inl _, st1) \<Rightarrow> (None, st1) | (Inr _, st1) \<Rightarrow> (Some (Check p cr), st1))"
| "process_step env (Check p cr) st =
     (case ValidateAndProcessGeneratedCreature (le_gateway env) (Some cr) (fg_world st) of
        (Inl _, w1) \<Rightarrow> (Some (MarkError p), st\<lparr>fg_world := w1\<rparr>)
      | (Inr processed, w1) \<Rightarrow> (Some (MarkDone p processed), st\<lparr>fg_world := w1\<rparr>))"
| "process_step env (MarkDone p cr) st = (Some (SetResult p cr), set_status p ''done'' st)"
| "process_step env (SetResult p cr) st =
     (Some (SaveDone p), st\<lparr>heap := (heap st)[p := (heap st ! p)\<lparr>jb_Result := Some cr\<rparr>]\<rparr>)"
| "process_step env (SaveDone p) st = (None, snd (llm_Update p st))"

section \<open>Handlers\<close>

datatype llm_body =
    BodyJob string
  | BodyStatus string "creature option"

definition h_SubmitGenerationPrompt ::
    "string \<Rightarrow> json option \<Rightarrow> 'w forge \<Rightarrow> llm_body response \<times> 'w forge" where
  "h_SubmitGenerationPrompt new_id body st =
     (case decoded (str_field ''description'') body of
        None \<Rightarrow> (SendErrResponse StatusBadRequest ErrBadJSON, st)
      | Some desc \<Rightarrow>
          (case uc_SubmitText new_id desc st of
             (Inl _, st1) \<Rightarrow> (SendErrResponse StatusInternalServerError ErrInternalServer, st1)
           | (Inr i, st1) \<Rightarrow> (SendOk (OkBody (BodyJob i)), st1)))"

text \<open>The raw body of an \<open>application/octet-stream\<close> (\<open>None\<close> when it cannot be read), or a form.\<close>

datatype image_body = RawImage "string option" | FormImage image_form

definition h_SubmitGenerationImage ::
    "string \<Rightarrow> image_body \<Rightarrow> 'w forge \<Rightarrow> llm_body response \<times> 'w forge" where
  "h_SubmitGenerationImage new_id body st =
     (case (case body of
              RawImage None \<Rightarrow> Inl (SendErrResponse StatusBadRequest ErrWrongImage)
            | RawImage (Some bytes) \<Rightarrow> Inr bytes
            | FormImage BadForm \<Rightarrow> Inl (SendErrResponse StatusBadRequest ErrWrongFileSize)
            | FormImage NoImage \<Rightarrow> Inl (SendErrResponse StatusBadRequest ErrEmptyImage)
            | FormImage UnreadableImage \<Rightarrow>
                Inl (SendErrResponse StatusInternalServerError ErrInternalServer)
            | FormImage (ImageBytes bytes) \<Rightarrow> Inr bytes) of
        Inl r \<Rightarrow> (r, st)
      | Inr bytes \<Rightarrow>
          (case uc_SubmitImage new_id bytes st of
             (Inl _, st1) \<Rightarrow> (SendErrResponse StatusInternalServerError ErrInternalServer, st1)
           | (Inr i, st1) \<Rightarrow> (SendOk (OkBody (BodyJob i)), st1)))"

definition h_GetGenerationStatus :: "string \<Rightarrow> 'w forge \<Rightarrow> llm_body response" where
  "h_GetGenerationStatus i st =
     (case uc_GetJob i st of
        Inl e \<Rightarrow>
          (if e = NotFoundError then SendErrResponse StatusBadRequest ErrWrongJobID
           else SendErrResponse StatusInternalServerError ErrInternalServer)
      | Inr job \<Rightarrow>
          SendOk (OkBody (BodyStatus []
            (if jb_Status job = ''done'' \<and> jb_Result job \<noteq> None then jb_Result job else None))))"

section \<open>Runs\<close>

definition after_step :: "nat \<Rightarrow> pc option \<Rightarrow> 'w forge \<Rightarrow> 'w forge" where
  "after_step i nxt st =
     st\<lparr>procs := (case nxt of
          None \<Rightarrow> take i (procs st) @ drop (Suc i) (procs st)
        | Some k \<Rightarrow> (procs st)[i := k])\<rparr>"

text \<open>Job ids are fresh, as \<open>uuid.New\<close> makes them.\<close>

inductive llm_step :: "'w llm_env \<Rightarrow> 'w forge \<Rightarrow> 'w forge \<Rightarrow> bool" for env where
  submit_text: "new_id \<notin> fst ` set (jobs st) \<Longrightarrow> llm_step env st (snd (h_SubmitGenerationPrompt new_id body st))"
| submit_image: "new_id \<notin> fst ` set (jobs st) \<Longrightarrow> llm_step env st (snd (h_SubmitGenerationImage new_id img st))"
| goroutine: "i < length (procs st) \<Longrightarrow> process_step env (procs st ! i) st = (nxt, st1)
    \<Longrightarrow> llm_step env st (after_step i nxt st1)"
| elsewhere: "llm_step env st (st\<lparr>fg_world := w, fg_clock := fg_clock st + t\<rparr>)"

inductive llm_run :: "'w llm_env \<Rightarrow> 'w forge \<Rightarrow> 'w forge \<Rightarrow> bool" for env where
  own: "i < length (procs st) \<Longrightarrow> process_step env (procs st ! i) st = (nxt, st1)
    \<Longrightarrow> llm_run env st (after_step i nxt st1)"

definition idle :: "'w \<Rightarrow> int \<Rightarrow> 'w forge" where
  "idle w t = \<lparr>heap = [], jobs = [], procs = [], fg_clock = t, fg_world = w\<rparr>"

definition llm_reachable :: "'w llm_env \<Rightarrow> 'w forge \<Rightarrow> bool" where
  "llm_reachable env st \<longleftrightarrow> (\<exists>w t. (llm_step env)\<^sup>*\<^sup>* (idle w t) st)"

end
