(* ===== verification/LlmRun.thy ===== *)
theory LlmRun
  imports Llm
begin

text \<open>
  The jobs in every reachable state: each job has at most one goroutine, which stands at a
  step that agrees with the job's status, and a job without one is finished. Hence statuses
  only move forward, a result appears only with the status done, and every job is finished
  after at most ten steps of its goroutine, whatever the language model answers.
\<close>

section \<open>Stages\<close>

definition statuses :: "string list" where
  "statuses = [''pending'', ''processing_step_1'', ''processing_step_2'', ''done'', ''error'']"

definition rank :: "string \<Rightarrow> nat" where
  "rank s = (if s = ''pending'' then 0 else if s = ''processing_step_1'' then 1
     else if s = ''processing_step_2'' then 2 else 3)"

definition finished :: "llm_job \<Rightarrow> bool" where
  "finished j \<longleftrightarrow> jb_Status j = ''error'' \<and> jb_Result j = None \<or>
     jb_Status j = ''done'' \<and> jb_Result j \<noteq> None"

fun target :: "(string \<times> nat) list \<Rightarrow> pc \<Rightarrow> nat option" where
  "target js (Begin i) = map_of js i"
| "target js (MarkStep1 p) = Some p"
| "target js (SaveStep1 p) = Some p"
| "target js (Ask p) = Some p"
| "target js (MarkError p) = Some p"
| "target js (SaveError p) = Some p"
| "target js (MarkStep2 p _) = Some p"
| "target js (SaveStep2 p _) = Some p"
| "target js (Check p _) = Some p"
| "target js (MarkDone p _) = Some p"
| "target js (SetResult p _) = Some p"
| "target js (SaveDone p) = Some p"

fun stage :: "pc \<Rightarrow> string list" where
  "stage (Begin _) = [''pending'']"
| "stage (MarkStep1 _) = [''pending'']"
| "stage (SaveStep1 _) = [''processing_step_1'']"
| "stage (Ask _) = [''processing_step_1'']"
| "stage (MarkError _) = [''processing_step_1'', ''processing_step_2'']"
| "stage (SaveError _) = [''error'']"
| "stage (MarkStep2 _ _) = [''processing_step_1'']"
| "stage (SaveStep2 _ _) = [''processing_step_2'']"
| "stage (Check _ _) = [''processing_step_2'']"
| "stage (MarkDone _ _) = [''processing_step_2'']"
| "stage (SetResult _ _) = [''done'']"
| "stage (SaveDone _) = [''done'']"

definition agrees :: "pc \<Rightarrow> llm_job \<Rightarrow> bool" where
  "agrees k j \<longleftrightarrow> jb_Status j \<in> set (stage k) \<and>
     (jb_Result j \<noteq> None \<longleftrightarrow> (case k of SaveDone _ \<Rightarrow> True | _ \<Rightarrow> False))"

text \<open>The steps a goroutine still has at most.\<close>

fun work :: "pc \<Rightarrow> nat" where
  "work (Begin _) = 10"
| "work (MarkStep1 _) = 9"
| "work (SaveStep1 _) = 8"
| "work (Ask _) = 7"
| "work (MarkStep2 _ _) = 6"
| "work (SaveStep2 _ _) = 5"
| "work (Check _ _) = 4"
| "work (MarkDone _ _) = 3"
| "work (SetResult _ _) = 2"
| "work (SaveDone _) = 1"
| "work (MarkError _) = 2"
| "work (SaveError _) = 1"

section \<open>The invariant\<close>

definition store_ok :: "'w forge \<Rightarrow> bool" where
  "store_ok st \<longleftrightarrow> (\<forall>i p. map_of (jobs st) i = Some p \<longleftrightarrow> p < length (heap st) \<and> jb_ID (heap st ! p) = i)"

definition workers :: "'w forge \<Rightarrow> nat \<Rightarrow> pc list" where
  "workers st p = filter (\<lambda>k. target (jobs st) k = Some p) (procs st)"

definition job_ok :: "'w forge \<Rightarrow> nat \<Rightarrow> bool" where
  "job_ok st p \<longleftrightarrow> (\<exists>k. workers st p = [k] \<and> agrees k (heap st ! p)) \<or>
     workers st p = [] \<and> finished (heap st ! p)"

definition forge_ok :: "'w forge \<Rightarrow> bool" where
  "forge_ok st \<longleftrightarrow> store_ok st \<and> (\<forall>p < length (heap st). job_ok st p) \<and>
     (\<forall>k \<in> set (procs st). \<exists>p < length (heap st). target (jobs st) k = Some p)"

definition forward :: "llm_job \<Rightarrow> llm_job \<Rightarrow> bool" where
  "forward j j' \<longleftrightarrow> jb_ID j' = jb_ID j \<and> rank (jb_Status j) \<le> rank (jb_Status j') \<and>
     (finished j \<longrightarrow> jb_Status j' = jb_Status j) \<and> (jb_Result j \<noteq> None \<longrightarrow> jb_Result j' = jb_Result j)"

lemma forward_refl: "forward j j"
  by (simp add: forward_def)

lemma llm_Update_own:
  assumes "store_ok st" and "p < length (heap st)"
  shows "llm_Update p st =
    (Inr (), st\<lparr>heap := (heap st)[p := (heap st ! p)\<lparr>jb_UpdatedAt := fg_clock st\<rparr>]\<rparr>)"
proof -
  have "map_of (jobs st) (jb_ID (heap st ! p)) = Some p"
    using assms by (simp add: store_ok_def)
  with assms(2) show ?thesis by (simp add: llm_Update_def Let_def)
qed

text \<open>A step of a goroutine keeps to its job and brings it forward.\<close>

definition step_ok :: "nat \<Rightarrow> pc \<Rightarrow> 'w forge \<Rightarrow> pc option \<Rightarrow> 'w forge \<Rightarrow> llm_job \<Rightarrow> bool" where
  "step_ok p k st nxt st1 j \<longleftrightarrow> jobs st1 = jobs st \<and> procs st1 = procs st \<and>
     heap st1 = (heap st)[p := j] \<and> forward (heap st ! p) j \<and>
     (case nxt of
        None \<Rightarrow> finished j
      | Some k' \<Rightarrow> target (jobs st) k' = Some p \<and> agrees k' j \<and> work k' < work k)"

lemma process_step_ok:
  assumes ok: "store_ok st" "p < length (heap st)" and k: "target (jobs st) k = Some p"
    and a: "agrees k (heap st ! p)" and step: "process_step env k st = (nxt, st1)"
  shows "\<exists>j. step_ok p k st nxt st1 j"
proof -
  note upd = llm_Update_own [OF ok]
  note d = step_ok_def forward_def agrees_def finished_def rank_def
  show ?thesis
  proof (cases k)
    case (Begin i)
    with step k a show ?thesis
      by (intro exI [of _ "heap st ! p"]) (auto simp: d llm_Get_def)
  next
    case (MarkStep1 q)
    with step k a show ?thesis
      by (intro exI [of _ "(heap st ! p)\<lparr>jb_Status := ''processing_step_1''\<rparr>"])
        (auto simp: d set_status_def)
  next
    case (SaveStep1 q)
    with step k a show ?thesis
      by (intro exI [of _ "(heap st ! p)\<lparr>jb_UpdatedAt := fg_clock st\<rparr>"]) (auto simp: d upd)
  next
    case (Ask q)
    with step k a show ?thesis
      by (intro exI [of _ "heap st ! p"])
        (auto simp: d split: prod.splits sum.splits option.splits)
  next
    case (MarkError q)
    with step k a show ?thesis
      by (intro exI [of _ "(heap st ! p)\<lparr>jb_Status := ''error''\<rparr>"]) (auto simp: d set_status_def)
  next
    case (SaveError q)
    with step k a show ?thesis
      by (intro exI [of _ "(heap st ! p)\<lparr>jb_UpdatedAt := fg_clock st\<rparr>"]) (auto simp: d upd)
  next
    case (MarkStep2 q c)
    with step k a show ?thesis
      by (intro exI [of _ "(heap st ! p)\<lparr>jb_Status := ''processing_step_2''\<rparr>"])
        (auto simp: d set_status_def)
  next
    case (SaveStep2 q c)
    with step k a show ?thesis
      by (intro exI [of _ "(heap st ! p)\<lparr>jb_UpdatedAt := fg_clock st\<rparr>"]) (auto simp: d upd)
  next
    case (Check q c)
    with step k a show ?thesis
      by (intro exI [of _ "heap st ! p"])
        (auto simp: d split: prod.splits sum.splits)
  next
    case (MarkDone q c)
    with step k a show ?thesis
      by (intro exI [of _ "(heap st ! p)\<lparr>jb_Status := ''done''\<rparr>"]) (auto simp: d set_status_def)
  next
    case (SetResult q c)
    with step k a show ?thesis
      by (intro exI [of _ "(heap st ! p)\<lparr>jb_Result := Some c\<rparr>"]) (auto simp: d)
  next
    case (SaveDone q)
    with step k a show ?thesis
      by (intro exI [of _ "(heap st ! p)\<lparr>jb_UpdatedAt := fg_clock st\<rparr>"]) (auto simp: d upd)
  qed
qed

text \<open>The goroutine is replaced by its next step or leaves the list.\<close>

lemma split_procs:
  assumes "i < length (procs st)" and "procs st1 = procs st"
  obtains as bs where "procs st = as @ (procs st ! i) # bs"
    and "procs (after_step i nxt st1) = as @ (case nxt of None \<Rightarrow> [] | Some k' \<Rightarrow> [k']) @ bs"
proof
  show "procs st = take i (procs st) @ procs st ! i # drop (Suc i) (procs st)"
    using assms(1) by (rule id_take_nth_drop)
  show "procs (after_step i nxt st1) =
      take i (procs st) @ (case nxt of None \<Rightarrow> [] | Some k' \<Rightarrow> [k']) @ drop (Suc i) (procs st)"
    using assms by (simp add: after_step_def upd_conv_take_nth_drop split: option.split)
qed

lemma after_step_other [simp]:
  "heap (after_step i nxt st) = heap st" "jobs (after_step i nxt st) = jobs st"
  by (simp_all add: after_step_def)

lemma goroutine_ok:
  assumes inv: "forge_ok st" and i: "i < length (procs st)"
    and step: "process_step env (procs st ! i) st = (nxt, st1)"
  shows "forge_ok (after_step i nxt st1) \<and> length (heap st1) = length (heap st) \<and>
    (\<forall>p < length (heap st). forward (heap st ! p) (heap st1 ! p)) \<and>
    sum_list (map work (procs (after_step i nxt st1))) < sum_list (map work (procs st))"
proof -
  let ?k = "procs st ! i"
  let ?st = "after_step i nxt st1"
  have store: "store_ok st" using inv by (simp add: forge_ok_def)
  obtain p where p: "p < length (heap st)" "target (jobs st) ?k = Some p"
    using inv i nth_mem [OF i] unfolding forge_ok_def by blast
  have "?k \<in> set (workers st p)" using i p by (simp add: workers_def)
  then have w: "workers st p = [?k]" and a: "agrees ?k (heap st ! p)"
    using inv p(1) unfolding forge_ok_def job_ok_def by auto
  obtain j where j: "step_ok p ?k st nxt st1 j"
    using process_step_ok [OF store p(1) p(2) a step] by blast
  note j' = j [unfolded step_ok_def]
  obtain as bs where sp: "procs st = as @ ?k # bs"
      "procs ?st = as @ (case nxt of None \<Rightarrow> [] | Some k' \<Rightarrow> [k']) @ bs"
    using split_procs [OF i, of st1 nxt] j' by blast
  have "filter (\<lambda>k. target (jobs st) k = Some p) as @
      ?k # filter (\<lambda>k. target (jobs st) k = Some p) bs = [?k]"
    using w p(2) sp(1) by (metis (mono_tags, lifting) filter.simps(2) filter_append workers_def)
  then have none: "filter (\<lambda>k. target (jobs st) k = Some p) as = []"
      "filter (\<lambda>k. target (jobs st) k = Some p) bs = []"
    by (auto simp: append_eq_Cons_conv)
  have store': "store_ok ?st"
    using store j' p(1) by (auto simp: store_ok_def forward_def nth_list_update)
  have own: "job_ok ?st p"
    using j' none p(1) sp(2) by (auto simp: job_ok_def workers_def split: option.splits)
  have others: "job_ok ?st q" if "q < length (heap st)" "q \<noteq> p" for q
  proof -
    have "workers st q = filter (\<lambda>k. target (jobs st) k = Some q) (as @ ?k # bs)"
      unfolding workers_def using sp(1) by (rule arg_cong)
    then have "workers ?st q = workers st q"
      using j' that(2) p(2) sp(2) by (auto simp: workers_def split: option.splits)
    moreover have "heap ?st ! q = heap st ! q" using j' that by simp
    ultimately show ?thesis using inv that(1) by (simp add: job_ok_def forge_ok_def)
  qed
  have tgt: "\<exists>p < length (heap ?st). target (jobs ?st) k = Some p" if "k \<in> set (procs ?st)" for k
  proof -
    have "set as \<union> set bs \<subseteq> set (procs st)" using arg_cong [OF sp(1), of set] by auto
    then have "k \<in> set (procs st) \<or> nxt = Some k" using that sp(2) by (auto split: option.splits)
    then show ?thesis using inv j' p(1) by (auto simp: forge_ok_def)
  qed
  have work: "sum_list (map work (procs ?st)) < sum_list (map work (procs st))"
  proof -
    have "(case nxt of None \<Rightarrow> 0 | Some k' \<Rightarrow> work k') < work ?k"
      using j' by (cases ?k) (auto split: option.splits)
    moreover have "sum_list (map work (procs st)) =
        sum_list (map work as) + work ?k + sum_list (map work bs)"
      using arg_cong [OF sp(1), of "\<lambda>ks. sum_list (map work ks)"] by simp
    ultimately show ?thesis by (auto simp: sp(2) split: option.splits)
  qed
  have "\<forall>q < length (heap st). forward (heap st ! q) (heap st1 ! q)"
    using j' p(1) by (auto simp: nth_list_update forward_refl)
  moreover have "length (heap st1) = length (heap st)" using j' by simp
  moreover have "forge_ok ?st"
    using store' own others tgt calculation(2) unfolding forge_ok_def by auto
  ultimately show ?thesis using work by blast
qed


lemma submit_ok:
  assumes inv: "forge_ok st" and new: "jb_ID job \<notin> fst ` set (jobs st)"
    and job: "jb_Status job = ''pending''" "jb_Result job = None"
  shows "forge_ok (snd (submit job st))" and "length (heap (snd (submit job st))) = Suc (length (heap st))"
    and "p < length (heap st) \<Longrightarrow> heap (snd (submit job st)) ! p = heap st ! p"
proof -
  let ?st = "snd (submit job st)"
  let ?n = "length (heap st)"
  let ?j = "job\<lparr>jb_CreatedAt := fg_clock st, jb_UpdatedAt := fg_clock st\<rparr>"
  have st: "heap ?st = heap st @ [?j]" "jobs ?st = AList.update (jb_ID job) ?n (jobs st)"
      "procs ?st = procs st @ [Begin (jb_ID job)]"
    by (simp_all add: submit_def llm_Create_def)
  show "length (heap ?st) = Suc ?n" using st by simp
  show "p < ?n \<Longrightarrow> heap ?st ! p = heap st ! p" using st by (simp add: nth_append)
  have m: "map_of (jobs ?st) = (map_of (jobs st))(jb_ID job \<mapsto> ?n)"
    using st by (simp add: update_conv')
  have fresh: "map_of (jobs st) (jb_ID job) = None"
    using new by (simp add: map_of_eq_None_iff)
  have store: "store_ok st" and tg: "\<And>k. k \<in> set (procs st) \<Longrightarrow> \<exists>p < ?n. target (jobs st) k = Some p"
    using inv by (auto simp: forge_ok_def)
  have "jb_ID (heap st ! p) \<noteq> jb_ID job" if "p < ?n" for p
    using store fresh that by (metis option.distinct(1) store_ok_def)
  then have "store_ok ?st"
    using store by (auto simp: store_ok_def m st(1) nth_append less_Suc_eq)
  moreover have same: "target (jobs ?st) k = target (jobs st) k" if "k \<in> set (procs st)" for k
    using tg [OF that] fresh by (cases k) (auto simp: m)
  have w: "workers ?st p = workers st p @ (if p = ?n then [Begin (jb_ID job)] else [])" for p
  proof -
    have "filter (\<lambda>k. target (jobs ?st) k = Some p) (procs st) = workers st p"
      unfolding workers_def by (rule filter_cong) (simp_all add: same)
    then show ?thesis by (simp add: workers_def st(3)) (simp add: m)
  qed
  have none: "workers st ?n = []"
    using tg by (fastforce simp: workers_def filter_empty_conv)
  have "job_ok ?st p" if "p < length (heap ?st)" for p
  proof (cases "p = ?n")
    case True
    then show ?thesis using w [of p] none job by (simp add: job_ok_def st agrees_def)
  next
    case False
    with that st have "p < ?n" by simp
    with inv have "job_ok st p" by (simp add: forge_ok_def)
    with False \<open>p < ?n\<close> w [of p] st show ?thesis by (simp add: job_ok_def nth_append)
  qed
  moreover have "\<exists>p < length (heap ?st). target (jobs ?st) k = Some p" if "k \<in> set (procs ?st)" for k
  proof (cases "k \<in> set (procs st)")
    case True
    then obtain p where "p < ?n" "target (jobs st) k = Some p" using tg by blast
    with same [OF True] st(1) show ?thesis by (intro exI [of _ p]) simp
  next
    case False
    with that st(3) have "k = Begin (jb_ID job)" by simp
    then show ?thesis by (simp add: m) (simp add: st(1))
  qed
  ultimately show "forge_ok ?st" by (simp add: forge_ok_def)
qed

lemma idle_ok: "forge_ok (idle w t)"
  by (simp add: forge_ok_def idle_def store_ok_def)

lemma handlers_submit:
  "snd (h_SubmitGenerationPrompt new_id body st) = st \<or>
   (\<exists>job. jb_ID job = new_id \<and> jb_Status job = ''pending'' \<and> jb_Result job = None \<and>
      snd (h_SubmitGenerationPrompt new_id body st) = snd (submit job st))"
  "snd (h_SubmitGenerationImage new_id img st) = st \<or>
   (\<exists>job. jb_ID job = new_id \<and> jb_Status job = ''pending'' \<and> jb_Result job = None \<and>
      snd (h_SubmitGenerationImage new_id img st) = snd (submit job st))"
proof -
  have s: "submit job st = (Inr (jb_ID job), snd (submit job st))" for job and st :: "'a forge"
    by (simp add: submit_def llm_Create_def)
  show "snd (h_SubmitGenerationPrompt new_id body st) = st \<or>
     (\<exists>job. jb_ID job = new_id \<and> jb_Status job = ''pending'' \<and> jb_Result job = None \<and>
        snd (h_SubmitGenerationPrompt new_id body st) = snd (submit job st))"
  proof (cases "decoded (str_field ''description'') body")
    case (Some desc)
    let ?job = "\<lparr>jb_ID = new_id, jb_Description = Some desc, jb_Image = [], jb_Status = ''pending'',
       jb_Result = None, jb_CreatedAt = 0, jb_UpdatedAt = 0\<rparr>"
    have "snd (h_SubmitGenerationPrompt new_id body st) = snd (submit ?job st)"
      using Some s [of ?job st] by (simp add: h_SubmitGenerationPrompt_def uc_SubmitText_def split: prod.split sum.split)
    then show ?thesis by (intro disjI2 exI [of _ ?job]) simp
  qed (simp add: h_SubmitGenerationPrompt_def)
  show "snd (h_SubmitGenerationImage new_id img st) = st \<or>
     (\<exists>job. jb_ID job = new_id \<and> jb_Status job = ''pending'' \<and> jb_Result job = None \<and>
        snd (h_SubmitGenerationImage new_id img st) = snd (submit job st))"
  proof -
    let ?job = "\<lambda>bytes. \<lparr>jb_ID = new_id, jb_Description = None, jb_Image = bytes, jb_Status = ''pending'',
       jb_Result = None, jb_CreatedAt = 0, jb_UpdatedAt = 0\<rparr>"
    have "snd (h_SubmitGenerationImage new_id img st) = st \<or>
        (\<exists>bytes. snd (h_SubmitGenerationImage new_id img st) = snd (submit (?job bytes) st))"
      unfolding h_SubmitGenerationImage_def uc_SubmitImage_def
      by (subst s) (auto split: image_body.splits image_form.splits option.splits)
    then show ?thesis by (elim disjE exE) (simp, rule disjI2, rule_tac x = "?job bytes" in exI, simp)
  qed
qed

lemma submitted_ok:
  assumes "st' = st \<or> (\<exists>job. jb_ID job = new_id \<and> jb_Status job = ''pending'' \<and> jb_Result job = None \<and>
      st' = snd (submit job st))"
    and "new_id \<notin> fst ` set (jobs st)" and "forge_ok st"
  shows "forge_ok st' \<and> length (heap st) \<le> length (heap st') \<and>
    (\<forall>p < length (heap st). forward (heap st ! p) (heap st' ! p))"
  using assms(1)
proof (elim disjE exE conjE)
  assume "st' = st"
  then show ?thesis using assms(3) by (simp add: forward_refl)
next
  fix job assume "jb_ID job = new_id" "jb_Status job = ''pending''" "jb_Result job = None"
    and st': "st' = snd (submit job st)"
  then have j: "jb_ID job \<notin> fst ` set (jobs st)" "jb_Status job = ''pending''" "jb_Result job = None"
    using assms(2) by auto
  show ?thesis
    unfolding st' using submit_ok [OF assms(3) j] by (simp add: forward_refl)
qed

lemma llm_step_ok:
  assumes "llm_step env st st'" and "forge_ok st"
  shows "forge_ok st' \<and> length (heap st) \<le> length (heap st') \<and>
    (\<forall>p < length (heap st). forward (heap st ! p) (heap st' ! p))"
  using assms
proof (induction rule: llm_step.induct)
  case (submit_text new_id st body)
  show ?case by (rule submitted_ok [OF handlers_submit(1) submit_text])
next
  case (submit_image new_id st img)
  show ?case by (rule submitted_ok [OF handlers_submit(2) submit_image])
next
  case (goroutine i st nxt st1)
  with goroutine_ok [of st i env nxt st1] show ?case by simp
next
  case (elsewhere st t w)
  have "forge_ok (st\<lparr>fg_world := w, fg_clock := fg_clock st + t\<rparr>) = forge_ok st"
    by (simp add: forge_ok_def store_ok_def job_ok_def workers_def)
  with elsewhere show ?case by (simp add: forward_refl)
qed

lemma steps_ok:
  assumes "(llm_step env)\<^sup>*\<^sup>* st0 st" and "forge_ok st0"
  shows "forge_ok st"
  using assms(1)
proof (induction rule: rtranclp_induct)
  case base
  show ?case by (rule assms(2))
next
  case (step y z)
  show ?case by (rule llm_step_ok [OF step.hyps(2) step.IH, THEN conjunct1])
qed

lemma reachable_ok:
  assumes "llm_reachable env st"
  shows "forge_ok st"
proof -
  obtain w t where "(llm_step env)\<^sup>*\<^sup>* (idle w t) st"
    using assms by (auto simp: llm_reachable_def)
  then show ?thesis using idle_ok by (rule steps_ok)
qed

lemma llm_run_ok:
  assumes "llm_run env st st'" and "forge_ok st"
  shows "forge_ok st' \<and> sum_list (map work (procs st')) < sum_list (map work (procs st))"
  using assms
proof (induction rule: llm_run.induct)
  case (own i st nxt st1)
  then show ?case using goroutine_ok by blast
qed

lemma llm_runs_ok:
  assumes "(llm_run env ^^ n) st st'" and "forge_ok st"
  shows "forge_ok st' \<and> n + sum_list (map work (procs st')) \<le> sum_list (map work (procs st))"
  using assms(1)
proof (induction n arbitrary: st')
  case 0
  with assms(2) show ?case by simp
next
  case (Suc n)
  then obtain st1 where "(llm_run env ^^ n) st st1" and r: "llm_run env st1 st'" by auto
  with Suc.IH have "forge_ok st1 \<and> n + sum_list (map work (procs st1)) \<le> sum_list (map work (procs st))"
    by blast
  with llm_run_ok [OF r] show ?case by linarith
qed

lemma work_bound: "sum_list (map work ks) \<le> 10 * length ks"
proof (induction ks)
  case (Cons k ks)
  have "work k \<le> 10" by (cases k) auto
  with Cons show ?case by simp
qed simp

lemma run_possible:
  assumes "procs st \<noteq> []"
  shows "\<exists>st'. llm_run env st st'"
proof -
  obtain nxt st1 where "process_step env (procs st ! 0) st = (nxt, st1)" by fastforce
  with assms show ?thesis by (blast intro: llm_run.own)
qed

lemma job_status:
  assumes "forge_ok st" and "p < length (heap st)"
  shows "jb_Status (heap st ! p) \<in> set statuses"
    and "jb_Result (heap st ! p) \<noteq> None \<Longrightarrow> jb_Status (heap st ! p) = ''done''"
    and "procs st = [] \<Longrightarrow> finished (heap st ! p)"
proof -
  have ok: "job_ok st p" using assms by (simp add: forge_ok_def)
  have ag: "jb_Status j \<in> set statuses \<and> (jb_Result j \<noteq> None \<longrightarrow> jb_Status j = ''done'')"
    if "agrees k j" for k j
    using that by (cases k) (auto simp: agrees_def statuses_def)
  have fin: "jb_Status j \<in> set statuses \<and> (jb_Result j \<noteq> None \<longrightarrow> jb_Status j = ''done'')"
    if "finished j" for j
    using that by (auto simp: finished_def statuses_def)
  show "jb_Status (heap st ! p) \<in> set statuses"
    and "jb_Result (heap st ! p) \<noteq> None \<Longrightarrow> jb_Status (heap st ! p) = ''done''"
    using ok ag fin unfolding job_ok_def by blast+
  show "procs st = [] \<Longrightarrow> finished (heap st ! p)"
    using ok by (auto simp: job_ok_def workers_def)
qed

section \<open>A run\<close>

text \<open>A language model that is down, and the states of one job until it has failed.\<close>

definition demo_env :: "unit llm_env" where
  "demo_env =
     \<lparr>le_gemini = \<lparr>gm_FromImage = (\<lambda>_ w. (Inl ApiErr, w)), gm_FromDescription = (\<lambda>_ w. (Inl ApiErr, w))\<rparr>,
      le_gateway = (\<lambda>_ w. (Inl ApiErr, w))\<rparr>"

definition run_first :: "'w llm_env \<Rightarrow> 'w forge \<Rightarrow> 'w forge" where
  "run_first env st = (case process_step env (procs st ! 0) st of (nxt, st1) \<Rightarrow> after_step 0 nxt st1)"

definition demo_forge :: "nat \<Rightarrow> unit forge" where
  "demo_forge n = (run_first demo_env ^^ n)
     (snd (h_SubmitGenerationPrompt ''j1'' (Some (JObj [(''description'', JStr ''goblin'')])) (idle () 0)))"

lemma demo_states:
  "demo_forge 0 = \<lparr>heap = [\<lparr>jb_ID = ''j1'', jb_Description = Some ''goblin'', jb_Image = [],
     jb_Status = ''pending'', jb_Result = None, jb_CreatedAt = 0, jb_UpdatedAt = 0\<rparr>],
     jobs = [(''j1'', 0)], procs = [Begin ''j1''], fg_clock = 0, fg_world = ()\<rparr>"
  "demo_forge 6 = \<lparr>heap = [\<lparr>jb_ID = ''j1'', jb_Description = Some ''goblin'', jb_Image = [],
     jb_Status = ''error'', jb_Result = None, jb_CreatedAt = 0, jb_UpdatedAt = 0\<rparr>],
     jobs = [(''j1'', 0)], procs = [], fg_clock = 0, fg_world = ()\<rparr>"
  and demo_procs: "k < 6 \<Longrightarrow> procs (demo_forge k) \<noteq> []"
proof -
  show 0: "demo_forge 0 = \<lparr>heap = [\<lparr>jb_ID = ''j1'', jb_Description = Some ''goblin'', jb_Image = [],
     jb_Status = ''pending'', jb_Result = None, jb_CreatedAt = 0, jb_UpdatedAt = 0\<rparr>],
     jobs = [(''j1'', 0)], procs = [Begin ''j1''], fg_clock = 0, fg_world = ()\<rparr>"
    by (simp add: demo_forge_def h_SubmitGenerationPrompt_def decoded_def str_field_def uc_SubmitText_def
        submit_def llm_Create_def idle_def)
  have S: "demo_forge (Suc n) = run_first demo_env (demo_forge n)" for n
    by (simp add: demo_forge_def)
  note d = S run_first_def llm_Get_def after_step_def set_status_def llm_Update_def demo_env_def Let_def
  have 1: "demo_forge (Suc 0) = (demo_forge 0)\<lparr>procs := [MarkStep1 0]\<rparr>" by (simp add: d 0)
  have 2: "demo_forge (Suc (Suc 0)) = (set_status 0 ''processing_step_1'' (demo_forge 0))\<lparr>procs := [SaveStep1 0]\<rparr>"
    unfolding S [of "Suc 0"] 1 by (simp add: d 0)
  have 3: "demo_forge (Suc (Suc (Suc 0))) = (set_status 0 ''processing_step_1'' (demo_forge 0))\<lparr>procs := [Ask 0]\<rparr>"
    unfolding S [of "Suc (Suc 0)"] 2 by (simp add: d 0)
  have 4: "demo_forge (Suc (Suc (Suc (Suc 0)))) =
      (set_status 0 ''processing_step_1'' (demo_forge 0))\<lparr>procs := [MarkError 0]\<rparr>"
    unfolding S [of "Suc (Suc (Suc 0))"] 3 by (simp add: d 0)
  have 5: "demo_forge (Suc (Suc (Suc (Suc (Suc 0))))) =
      (set_status 0 ''error'' (demo_forge 0))\<lparr>procs := [SaveError 0]\<rparr>"
    unfolding S [of "Suc (Suc (Suc (Suc 0)))"] 4 by (simp add: d 0)
  have 6: "demo_forge (Suc (Suc (Suc (Suc (Suc (Suc 0)))))) = (set_status 0 ''error'' (demo_forge 0))\<lparr>procs := []\<rparr>"
    unfolding S [of "Suc (Suc (Suc (Suc (Suc 0))))"] 5 by (simp add: d 0)
  show "demo_forge 6 = \<lparr>heap = [\<lparr>jb_ID = ''j1'', jb_Description = Some ''goblin'', jb_Image = [],
     jb_Status = ''error'', jb_Result = None, jb_CreatedAt = 0, jb_UpdatedAt = 0\<rparr>],
     jobs = [(''j1'', 0)], procs = [], fg_clock = 0, fg_world = ()\<rparr>"
    using 6 by (simp add: eval_nat_numeral 0 set_status_def)
  assume "k < 6"
  then have "k \<in> {0, Suc 0, Suc (Suc 0), Suc (Suc (Suc 0)), Suc (Suc (Suc (Suc 0))),
      Suc (Suc (Suc (Suc (Suc 0))))}" by auto
  then show "procs (demo_forge k) \<noteq> []" using 0 1 2 3 4 5 by auto
qed

lemma demo_reachable: "llm_reachable demo_env (demo_forge 0)"
proof -
  have "llm_step demo_env (idle () 0)
      (snd (h_SubmitGenerationPrompt ''j1'' (Some (JObj [(''description'', JStr ''goblin'')])) (idle () 0)))"
    by (rule llm_step.submit_text) (simp add: idle_def)
  then show ?thesis unfolding llm_reachable_def demo_forge_def by (auto intro!: exI)
qed

lemma demo_run: "k \<le> 6 \<Longrightarrow> (llm_run demo_env ^^ k) (demo_forge 0) (demo_forge k)"
proof (induction k)
  case (Suc k)
  then have "procs (demo_forge k) \<noteq> []" using demo_procs by simp
  then have "llm_run demo_env (demo_forge k) (demo_forge (Suc k))"
    using llm_run.own [of 0 "demo_forge k" demo_env]
    by (auto simp: demo_forge_def run_first_def split: prod.split)
  with Suc show ?case by (auto intro: relcomppI)
qed simp

section \<open>The properties\<close>

text \<open>
  C33. In every reachable state every job has one of the five documented statuses and a
  result only when it is done; no step of any goroutine or request changes the id of a job,
  takes it back to an earlier status, changes a finished status or changes a result.
\<close>

theorem jobs_move_forward:
  assumes "llm_reachable env st" and "p < length (heap st)"
  shows "jb_Status (heap st ! p) \<in> set statuses \<and>
    (jb_Result (heap st ! p) \<noteq> None \<longrightarrow> jb_Status (heap st ! p) = ''done'') \<and>
    (\<forall>st'. llm_step env st st' \<longrightarrow> p < length (heap st') \<and> forward (heap st ! p) (heap st' ! p))"
proof -
  have ok: "forge_ok st" using assms(1) by (rule reachable_ok)
  show ?thesis
    using job_status [OF ok assms(2)] llm_step_ok [OF _ ok] assms(2) by (meson less_le_trans)
qed

theorem jobs_move_forward_witness:
  "jb_Status (heap (demo_forge 0) ! 0) \<in> set statuses \<and>
   llm_step demo_env (demo_forge 0) (demo_forge 1) \<and> forward (heap (demo_forge 0) ! 0) (heap (demo_forge 1) ! 0)"
proof -
  have "llm_run demo_env (demo_forge 0) (demo_forge 1)" using demo_run [of 1]
    by (simp only: relpowp_1 one_le_numeral)
  then have s: "llm_step demo_env (demo_forge 0) (demo_forge 1)"
    by (auto elim!: llm_run.cases intro: llm_step.goroutine)
  moreover have "0 < length (heap (demo_forge 0))" by (simp add: demo_states)
  ultimately show ?thesis using jobs_move_forward [OF demo_reachable, of 0] by blast
qed

text \<open>
  C34. From every reachable state, whatever the language model and the parser answer, the
  running goroutines together make at most ten steps each, can make a step as long as one of
  them is left, and when none is left every job is finished: failed, or done with a result.
\<close>

theorem jobs_finish:
  assumes "llm_reachable env st" and "(llm_run env ^^ n) st st'"
  shows "n \<le> 10 * length (procs st) \<and>
    (if procs st' = [] then list_all finished (heap st') else (\<exists>st''. llm_run env st' st''))"
proof -
  have r: "forge_ok st'" "n + sum_list (map work (procs st')) \<le> sum_list (map work (procs st))"
    using llm_runs_ok [OF assms(2) reachable_ok [OF assms(1)]] by auto
  then have "n \<le> 10 * length (procs st)" using work_bound [of "procs st"] by linarith
  moreover have "procs st' = [] \<Longrightarrow> list_all finished (heap st')"
    using job_status(3) [OF r(1)] by (simp add: list_all_length)
  ultimately show ?thesis using run_possible by auto
qed

theorem jobs_finish_witness:
  "(llm_run demo_env ^^ 6) (demo_forge 0) (demo_forge 6) \<and> procs (demo_forge 6) = [] \<and>
   list_all finished (heap (demo_forge 6))"
  using jobs_finish [OF demo_reachable demo_run [of 6]] demo_run [of 6] by (simp add: demo_states)

text \<open>
  C35. The status request never reports a status: in every reachable state the field is empty,
  the result is the job's result, and so a job that has failed looks for ever like one that
  still waits.
\<close>

theorem status_never_told:
  assumes "llm_reachable env st" and "uc_GetJob i st = Inr job"
  shows "h_GetGenerationStatus i st = (200, OkBody (BodyStatus [] (jb_Result job))) \<and>
    (jb_Status job \<noteq> ''done'' \<longrightarrow> h_GetGenerationStatus i st = (200, OkBody (BodyStatus [] None)))"
proof -
  have ok: "forge_ok st" using assms(1) by (rule reachable_ok)
  obtain p where "map_of (jobs st) i = Some p" "job = heap st ! p"
    using assms(2) by (auto simp: uc_GetJob_def llm_Get_def split: option.splits)
  moreover have "p < length (heap st)"
    using ok calculation(1) by (auto simp: forge_ok_def store_ok_def)
  ultimately have "jb_Result job \<noteq> None \<Longrightarrow> jb_Status job = ''done''"
    using job_status(2) [OF ok] by blast
  then show ?thesis
    using assms(2) by (cases "jb_Result job") (simp_all add: h_GetGenerationStatus_def StatusOk_def)
qed


theorem status_never_told_witness:
  "h_GetGenerationStatus ''j1'' (demo_forge 0) = (200, OkBody (BodyStatus [] None)) \<and>
   h_GetGenerationStatus ''j1'' (demo_forge 6) = (200, OkBody (BodyStatus [] None))"
proof -
  have run_step: "llm_run demo_env st st' \<Longrightarrow> llm_step demo_env st st'" for st st'
    by (auto elim!: llm_run.cases intro: llm_step.goroutine)
  have "(llm_run demo_env)\<^sup>*\<^sup>* (demo_forge 0) (demo_forge 6)"
    using demo_run [of 6] by (simp add: relpowp_imp_rtranclp)
  then have "(llm_step demo_env)\<^sup>*\<^sup>* (demo_forge 0) (demo_forge 6)"
    by (rule rtranclp_mono [THEN predicate2D, rotated]) (use run_step in blast)
  then have r6: "llm_reachable demo_env (demo_forge 6)"
    using demo_reachable unfolding llm_reachable_def by (meson rtranclp_trans)
  have "uc_GetJob ''j1'' (demo_forge 0) = Inr (heap (demo_forge 0) ! 0)"
    and "uc_GetJob ''j1'' (demo_forge 6) = Inr (heap (demo_forge 6) ! 0)"
    by (simp_all add: uc_GetJob_def llm_Get_def demo_states)
  then show ?thesis
    using status_never_told [OF demo_reachable] status_never_told [OF r6] by (simp add: demo_states)
qed

end
