(* ===== verification/Shape.thy ===== *)
theory Shape
  imports Creature
begin

text \<open>
  Values of large Go structs, given by the shape of the struct: the names of its fields (json
  and bson tags agree) and their types. A value is kept as the BSON value that is written of
  it. Decoding JSON gives a value of the shape or fails. Reading back the document of a value of
  the shape gives a value of the shape: the same one, but for documents in fields of type
  \<open>interface{}\<close>, which the driver reads as lists of keys and values.
\<close>

section \<open>Shapes and their values\<close>

datatype shape =
    SStr
  | SInt
  | SBool
  | SAny
  | SSlice shape
  | SMap shape
  | SStruct "(string \<times> shape) list"

fun zero_of :: "shape \<Rightarrow> bson" where
  "zero_of SStr = BStr []"
| "zero_of SInt = BInt 0"
| "zero_of SBool = BBool False"
| "zero_of (SStruct fs) = BDoc (map (\<lambda>(k, sh). (k, zero_of sh)) fs)"
| "zero_of _ = BNull"

fun has_shape :: "shape \<Rightarrow> bson \<Rightarrow> bool"
  and has_fields :: "(string \<times> shape) list \<Rightarrow> document \<Rightarrow> bool" where
  "has_shape SStr v = (case v of BStr _ \<Rightarrow> True | _ \<Rightarrow> False)"
| "has_shape SInt v = (case v of BInt _ \<Rightarrow> True | _ \<Rightarrow> False)"
| "has_shape SBool v = (case v of BBool _ \<Rightarrow> True | _ \<Rightarrow> False)"
| "has_shape SAny v = True"
| "has_shape (SSlice sh) v = (case v of BNull \<Rightarrow> True | BArr vs \<Rightarrow> (\<forall>x \<in> set vs. has_shape sh x) | _ \<Rightarrow> False)"
| "has_shape (SMap sh) v =
     (case v of BNull \<Rightarrow> True
      | BDoc d \<Rightarrow> distinct (map fst d) \<and> (\<forall>(k, x) \<in> set d. has_shape sh x) | _ \<Rightarrow> False)"
| "has_shape (SStruct fs) v = (case v of BDoc d \<Rightarrow> has_fields fs d | _ \<Rightarrow> False)"
| "has_fields [] d = (d = [])"
| "has_fields ((k, sh) # fs) d =
     (case d of (k', v) # d' \<Rightarrow> k' = k \<and> has_shape sh v \<and> has_fields fs d' | [] \<Rightarrow> False)"

text \<open>Field names of a struct differ, so that a document has one entry for each.\<close>

fun wf_shape :: "shape \<Rightarrow> bool"
  and wf_fields :: "(string \<times> shape) list \<Rightarrow> bool" where
  "wf_shape (SSlice sh) = wf_shape sh"
| "wf_shape (SMap sh) = wf_shape sh"
| "wf_shape (SStruct fs) = (distinct (map fst fs) \<and> wf_fields fs)"
| "wf_shape _ = True"
| "wf_fields [] = True"
| "wf_fields ((k, sh) # fs) = (wf_shape sh \<and> wf_fields fs)"

section \<open>Decoding JSON\<close>

fun all_some :: "'a option list \<Rightarrow> 'a list option" where
  "all_some [] = Some []"
| "all_some (x # xs) = do { y \<leftarrow> x; ys \<leftarrow> all_some xs; Some (y # ys) }"

definition insert_all :: "(string \<times> bson) list \<Rightarrow> document \<Rightarrow> document" where
  "insert_all kvs d = fold (\<lambda>(k, v) m. AList.update k v m) kvs d"

text \<open>The value of a field for which the JSON values of the list are given in turn.\<close>

fun decode_field :: "shape \<Rightarrow> json list \<Rightarrow> bson option"
  and decode_fields :: "(string \<times> shape) list \<Rightarrow> fields \<Rightarrow> document option"
  and decode_map :: "shape \<Rightarrow> bson \<Rightarrow> json list \<Rightarrow> bson option" where
  "decode_field SStr vs = map_option BStr (assign str_of [] vs)"
| "decode_field SInt vs = map_option BInt (assign int_of_num 0 vs)"
| "decode_field SBool vs = map_option BBool (assign bool_of False vs)"
| "decode_field SAny vs = assign_nil (\<lambda>v. Some (any_of_json v)) BNull vs"
| "decode_field (SSlice sh) vs =
     assign_nil (\<lambda>j. case j of
         JNull \<Rightarrow> Some BNull
       | JArr es \<Rightarrow> map_option BArr (all_some (map (\<lambda>e. decode_field sh [e]) es))
       | _ \<Rightarrow> None) BNull vs"
| "decode_field (SMap sh) vs = decode_map sh BNull vs"
| "decode_field (SStruct fs) vs =
     (case objects vs of None \<Rightarrow> None | Some kvs \<Rightarrow> map_option BDoc (decode_fields fs kvs))"
| "decode_fields [] kvs = Some []"
| "decode_fields ((k, sh) # fs) kvs =
     do { v \<leftarrow> decode_field sh (entries k kvs); d \<leftarrow> decode_fields fs kvs; Some ((k, v) # d) }"
| "decode_map sh acc [] = Some acc"
| "decode_map sh acc (v # vs) =
     (case v of
        JNull \<Rightarrow> decode_map sh BNull vs
      | JObj kvs \<Rightarrow>
          (case all_some (map (\<lambda>(k, e). map_option (Pair k) (decode_field sh [e])) kvs) of
             None \<Rightarrow> None
           | Some kxs \<Rightarrow>
               decode_map sh (BDoc (insert_all kxs (case acc of BDoc d \<Rightarrow> d | _ \<Rightarrow> []))) vs)
      | _ \<Rightarrow> None)"

definition unmarshal_shape :: "shape \<Rightarrow> json \<Rightarrow> bson option" where
  "unmarshal_shape sh v = decode_field sh [v]"

section \<open>Reading documents\<close>

text \<open>
  The values of a \<open>map[string]interface{}\<close> stay maps: \<open>MapCodec\<close> hands its own type down to the
  documents in it. A field of a struct gets no such type, and \<open>interface{}\<close> takes the driver's own.
\<close>

fun read_shape :: "shape \<Rightarrow> bson \<Rightarrow> bson option"
  and read_fields :: "(string \<times> shape) list \<Rightarrow> document \<Rightarrow> document option" where
  "read_shape SStr v = map_option BStr (b_str v)"
| "read_shape SInt v = map_option BInt (b_int v)"
| "read_shape SBool v = (case v of BBool b \<Rightarrow> Some v | BNull \<Rightarrow> Some (BBool False) | _ \<Rightarrow> None)"
| "read_shape SAny v = b_any v"
| "read_shape (SSlice sh) v =
     (case v of BNull \<Rightarrow> Some BNull
      | BArr vs \<Rightarrow> map_option BArr (all_some (map (read_shape sh) vs)) | _ \<Rightarrow> None)"
| "read_shape (SMap sh) v =
     (case v of BNull \<Rightarrow> Some BNull
      | BDoc d \<Rightarrow>
          map_option (\<lambda>kxs. BDoc (insert_all kxs []))
            (all_some (map (\<lambda>(k, x). map_option (Pair k)
              (if sh = SAny then Some x else read_shape sh x)) d))
      | _ \<Rightarrow> None)"
| "read_shape (SStruct fs) v =
     (case v of BDoc d \<Rightarrow> map_option BDoc (read_fields fs d)
      | BNull \<Rightarrow> Some (zero_of (SStruct fs)) | _ \<Rightarrow> None)"
| "read_fields [] d = Some []"
| "read_fields ((k, sh) # fs) d =
     do { v \<leftarrow> (case map_of d k of None \<Rightarrow> Some (zero_of sh) | Some v \<Rightarrow> read_shape sh v);
          r \<leftarrow> read_fields fs d;
          Some ((k, v) # r) }"

section \<open>What comes back\<close>

text \<open>
  The value read back of a written value, the values of a shape's fields of type \<open>interface{}\<close>
  (those in a \<open>map[string]interface{}\<close> left out), and whether one of these holds a document.
\<close>

fun returned :: "shape \<Rightarrow> bson \<Rightarrow> bson"
  and returned_fields :: "(string \<times> shape) list \<Rightarrow> document \<Rightarrow> document" where
  "returned SAny v = driver_any v"
| "returned (SSlice sh) v = (case v of BArr vs \<Rightarrow> BArr (map (returned sh) vs) | _ \<Rightarrow> v)"
| "returned (SMap sh) v =
     (case v of
        BDoc d \<Rightarrow> BDoc (map (\<lambda>(k, x). (k, if sh = SAny then x else returned sh x)) d) | _ \<Rightarrow> v)"
| "returned (SStruct fs) v = (case v of BDoc d \<Rightarrow> BDoc (returned_fields fs d) | _ \<Rightarrow> v)"
| "returned sh v = v"
| "returned_fields ((k, sh) # fs) ((k', v) # d) = (k', returned sh v) # returned_fields fs d"
| "returned_fields fs d = d"

fun dynamic :: "shape \<Rightarrow> bson \<Rightarrow> bson list"
  and dynamic_fields :: "(string \<times> shape) list \<Rightarrow> document \<Rightarrow> bson list" where
  "dynamic SAny v = [v]"
| "dynamic (SSlice sh) v = (case v of BArr vs \<Rightarrow> concat (map (dynamic sh) vs) | _ \<Rightarrow> [])"
| "dynamic (SMap sh) v =
     (case v of
        BDoc d \<Rightarrow> concat (map (\<lambda>(k, x). if sh = SAny then [] else dynamic sh x) d) | _ \<Rightarrow> [])"
| "dynamic (SStruct fs) v = (case v of BDoc d \<Rightarrow> dynamic_fields fs d | _ \<Rightarrow> [])"
| "dynamic sh v = []"
| "dynamic_fields ((k, sh) # fs) ((k', v) # d) = dynamic sh v @ dynamic_fields fs d"
| "dynamic_fields fs d = []"

text \<open>No field has the type \<open>interface{}\<close>.\<close>

fun static :: "shape \<Rightarrow> bool"
  and static_fields :: "(string \<times> shape) list \<Rightarrow> bool" where
  "static SAny = False"
| "static (SSlice sh) = static sh"
| "static (SMap sh) = (sh = SAny \<or> static sh)"
| "static (SStruct fs) = static_fields fs"
| "static sh = True"
| "static_fields [] = True"
| "static_fields ((k, sh) # fs) = (static sh \<and> static_fields fs)"

fun no_document :: "bson \<Rightarrow> bool" where
  "no_document (BArr vs) = list_all no_document vs"
| "no_document (BDoc d) = False"
| "no_document v = True"

section \<open>Lemmas\<close>

lemma all_some_iff: "all_some xs = Some ys \<longleftrightarrow> xs = map Some ys"
proof (induction xs arbitrary: ys)
  case (Cons x xs)
  then show ?case by (cases x; cases ys) (auto simp: bind_eq_Some_conv)
qed auto

lemma update_fresh: "k \<notin> fst ` set m \<Longrightarrow> AList.update k v m = m @ [(k, v)]"
  by (induction m) auto

lemma insert_all_fresh:
  assumes "distinct (map fst (d @ kvs))"
  shows "insert_all kvs d = d @ kvs"
  using assms unfolding insert_all_def
  by (induction kvs arbitrary: d) (auto simp: update_fresh image_iff)

lemma set_update: "set (AList.update k v m) \<subseteq> insert (k, v) (set m)"
  by (induction m) auto

lemma insert_all_keeps:
  assumes "distinct (map fst d)" and "\<forall>(k, x) \<in> set d. p x" and "\<forall>(k, x) \<in> set kvs. p x"
  shows "distinct (map fst (insert_all kvs d)) \<and> (\<forall>(k, x) \<in> set (insert_all kvs d). p x)"
  using assms unfolding insert_all_def
proof (induction kvs arbitrary: d)
  case (Cons kv kvs)
  obtain k v where kv: "kv = (k, v)" by fastforce
  have "distinct (map fst (AList.update k v d))" using Cons.prems(1) by (rule distinct_update)
  moreover have "\<forall>(k', x) \<in> set (AList.update k v d). p x"
    using set_update [of k v d] Cons.prems kv by fastforce
  ultimately show ?case using Cons.IH Cons.prems(3) kv by simp
qed simp

lemma driver_any_same: "no_document v \<Longrightarrow> driver_any v = v"
  by (induction v rule: driver_any.induct) (auto simp: list_all_iff intro: map_idI)

lemma list_all_concat_map: "list_all p (concat (map f xs)) = (\<forall>x \<in> set xs. list_all p (f x))"
  by (auto simp: list_all_iff)

lemma returned_same:
  shows "list_all no_document (dynamic sh v) \<Longrightarrow> returned sh v = v"
    and "list_all no_document (dynamic_fields fs d) \<Longrightarrow> returned_fields fs d = d"
  by (induction sh v and fs d rule: returned_returned_fields.induct)
    (force simp: driver_any_same list_all_concat_map split: bson.splits intro!: map_idI)+

lemma static_dynamic:
  shows "static sh \<Longrightarrow> dynamic sh v = []" and "static_fields fs \<Longrightarrow> dynamic_fields fs d = []"
  by (induction sh v and fs d rule: dynamic_dynamic_fields.induct) (auto split: bson.splits)

lemma returned_static: "static sh \<Longrightarrow> returned sh v = v"
  by (rule returned_same(1)) (simp add: static_dynamic)

lemma returned_shape:
  shows "has_shape sh v \<Longrightarrow> has_shape sh (returned sh v)"
    and "has_fields fs d \<Longrightarrow> has_fields fs (returned_fields fs d)"
  by (induction sh v and fs d rule: returned_returned_fields.induct)
    (auto simp: comp_def case_prod_beta split: bson.splits)

lemma read_own:
  shows "has_shape sh v \<Longrightarrow> wf_shape sh \<Longrightarrow> read_shape sh v = Some (returned sh v)"
    and "has_fields fs d \<Longrightarrow> wf_fields fs \<Longrightarrow> \<forall>(k, x) \<in> set d. map_of d0 k = Some x
      \<Longrightarrow> read_fields fs d0 = Some (returned_fields fs d)"
proof (induction sh v and fs d arbitrary: and d0 rule: has_shape_has_fields.induct)
  case (5 sh v)
  then show ?case
    by (cases v) (auto simp: all_some_iff)
next
  case (6 sh v)
  show ?case
  proof (cases v)
    case (BDoc d)
    let ?r = "map (\<lambda>(k, x). (k, if sh = SAny then x else returned sh x)) d"
    have "map (\<lambda>(k, x). map_option (Pair k) (if sh = SAny then Some x else read_shape sh x)) d
        = map Some ?r"
      using 6 BDoc by auto
    then have "all_some (map (\<lambda>(k, x). map_option (Pair k)
        (if sh = SAny then Some x else read_shape sh x)) d) = Some ?r"
      by (simp only: all_some_iff)
    moreover have "distinct (map fst ?r)"
      using 6 BDoc by (simp add: comp_def case_prod_beta)
    ultimately show ?thesis using BDoc by (simp add: insert_all_fresh)
  qed (use 6 in auto)
next
  case (7 fs v)
  show ?case
  proof (cases v)
    case (BDoc d)
    have "map fst d = map fst fs" if "has_fields fs d" for fs d
      using that by (induction fs arbitrary: d) (auto split: list.splits)
    then have "distinct (map fst d)" using 7 BDoc by simp
    then have "\<forall>(k, x) \<in> set d. map_of d k = Some x" by auto
    with 7 BDoc show ?thesis by simp
  qed (use 7 in auto)
next
  case (9 k sh fs d)
  then show ?case by (auto split: list.splits)
qed (auto simp: b_any_def split: bson.splits)

lemma assign_nil_keeps:
  assumes "assign_nil dec x vs = Some y" and "p x" and "\<And>v z. v \<in> set vs \<Longrightarrow> dec v = Some z \<Longrightarrow> p z"
  shows "p y"
  using assms
proof (induction vs arbitrary: x)
  case (Cons v vs)
  then obtain z where "dec v = Some z" "assign_nil dec z vs = Some y" by (auto split: option.splits)
  with Cons.IH [of z] Cons.prems(3) show ?case by (metis list.set_intros)
qed simp

lemma decoded_shape:
  shows "decode_field sh vs = Some v \<Longrightarrow> has_shape sh v"
    and "decode_fields fs kvs = Some d \<Longrightarrow> has_fields fs d"
    and "decode_map sh acc ws = Some w \<Longrightarrow> has_shape (SMap sh) acc \<Longrightarrow> has_shape (SMap sh) w"
proof (induction sh vs and fs kvs and sh acc ws arbitrary: v and d and w
    rule: decode_field_decode_fields_decode_map.induct)
  case (5 sh vs)
  from 5(2) have "assign_nil (\<lambda>j. case j of
         JNull \<Rightarrow> Some BNull
       | JArr es \<Rightarrow> map_option BArr (all_some (map (\<lambda>e. decode_field sh [e]) es))
       | _ \<Rightarrow> None) BNull vs = Some v" by simp
  then show ?case
  proof (rule assign_nil_keeps)
    fix j z assume j: "j \<in> set vs" "(case j of JNull \<Rightarrow> Some BNull
       | JArr es \<Rightarrow> map_option BArr (all_some (map (\<lambda>e. decode_field sh [e]) es)) | _ \<Rightarrow> None) = Some z"
    show "has_shape (SSlice sh) z"
    proof (cases j)
      case (JArr es)
      with j obtain ys where ys: "z = BArr ys" "map (\<lambda>e. decode_field sh [e]) es = map Some ys"
        by (auto simp: all_some_iff)
      have "has_shape sh y" if "y \<in> set ys" for y
      proof -
        have "Some y \<in> set (map (\<lambda>e. decode_field sh [e]) es)" unfolding ys(2) using that by simp
        then obtain e where "e \<in> set es" "Some y = decode_field sh [e]" by auto
        with 5(1) j(1) JArr show ?thesis by metis
      qed
      with ys show ?thesis by simp
    qed (use j in auto)
  qed simp
next
  case (7 fs vs)
  then show ?case by (auto split: option.splits)
next
  case (11 sh acc v vs)
  show ?case
  proof (cases v)
    case (JObj kvs)
    let ?l = "map (\<lambda>(k, e). map_option (Pair k) (decode_field sh [e])) kvs"
    obtain kxs where kxs: "all_some ?l = Some kxs"
      using 11(4) JObj by (auto split: option.splits)
    have "has_shape sh x" if "(k, x) \<in> set kxs" for k x
    proof -
      have "Some (k, x) \<in> set ?l" using kxs that by (auto simp: all_some_iff)
      then obtain e where "(k, e) \<in> set kvs" "decode_field sh [e] = Some x"
        by (auto dest!: sym [of "Some (k, x)"])
      with 11(2) JObj show ?thesis by blast
    qed
    then have "has_shape (SMap sh) (BDoc (insert_all kxs (case acc of BDoc d \<Rightarrow> d | _ \<Rightarrow> [])))"
      using insert_all_keeps [of "case acc of BDoc d \<Rightarrow> d | _ \<Rightarrow> []" "has_shape sh" kxs] 11(5)
      by (cases acc) auto
    with 11 JObj kxs show ?thesis by auto
  qed (use 11 in auto)
qed (auto simp: bind_eq_Some_conv split: option.splits)

end
