(* ===== verification/Character.thy ===== *)
theory Character
  imports Shape Encounter
begin

text \<open>
  \<open>internal/pkg/character\<close>: the character sheets of the users, uploaded as the JSON export of
  another program, and the sheets with the user \<open>*\<close>, which everybody sees. A sheet is a value
  of the shape of \<open>CharacterData\<close>, so everything the code keeps of it is in the model.
\<close>

section \<open>Models\<close>

text \<open>Structs with the only field \<open>value\<close>, and with \<open>name\<close>, \<open>label\<close> and \<open>value\<close>.\<close>

definition valued :: "shape \<Rightarrow> shape" where
  "valued sh = SStruct [(''value'', sh)]"

definition labelled :: "shape \<Rightarrow> shape" where
  "labelled sh = SStruct [(''name'', SStr), (''label'', SStr), (''value'', sh)]"

definition character_name_shape :: shape where
  "character_name_shape =
     SStruct [
       (''value'', SStr)]"

definition char_class_shape :: shape where
  "char_class_shape =
     SStruct [
       (''name'', SStr),
       (''label'', SStr),
       (''value'', SStr)]"

definition character_level_shape :: shape where
  "character_level_shape =
     SStruct [
       (''name'', SStr),
       (''label'', SStr),
       (''value'', SInt)]"

definition character_race_shape :: shape where
  "character_race_shape =
     SStruct [
       (''name'', SStr),
       (''label'', SStr),
       (''value'', SStr)]"

definition character_avatar_shape :: shape where
  "character_avatar_shape =
     SStruct [
       (''jpeg'', SStr),
       (''webp'', SStr)]"

definition data_info_shape :: shape where
  "data_info_shape =
     SStruct [
       (''charClass'', char_class_shape),
       (''level'', character_level_shape),
       (''background'', labelled SStr),
       (''playerName'', labelled SStr),
       (''race'', character_race_shape),
       (''alignment'', labelled SStr),
       (''experience'', labelled SAny)]"

definition data_sub_info_shape :: shape where
  "data_sub_info_shape =
     SStruct [
       (''age'', labelled SAny),
       (''height'', labelled SAny),
       (''weight'', labelled SAny),
       (''eyes'', labelled SAny),
       (''skin'', labelled SAny),
       (''hair'', labelled SAny)]"

definition data_spells_info_shape :: shape where
  "data_spells_info_shape =
     SStruct [
       (''base'', labelled SStr),
       (''save'', labelled SStr),
       (''mod'', labelled SStr)]"

definition data_spells_shape :: shape where
  "data_spells_shape =
     SStruct [
       (''slots-1'', valued SAny),
       (''slots-2'', valued SAny),
       (''slots-3'', valued SAny),
       (''slots-4'', valued SAny),
       (''slots-5'', valued SAny)]"

definition data_stats_shape :: shape where
  "data_stats_shape =
     SStruct [
       (''str'', SStruct [(''name'', SStr), (''label'', SStr), (''score'', SInt), (''modifier'', SInt)]),
       (''dex'', SStruct [(''name'', SStr), (''label'', SStr), (''score'', SInt), (''modifier'', SInt)]),
       (''con'', SStruct [(''name'', SStr), (''label'', SStr), (''score'', SInt), (''modifier'', SInt)]),
       (''int'', SStruct [(''name'', SStr), (''label'', SStr), (''score'', SInt), (''modifier'', SInt)]),
       (''wis'', SStruct [(''name'', SStr), (''label'', SStr), (''score'', SInt), (''modifier'', SInt)]),
       (''cha'', SStruct [(''name'', SStr), (''label'', SStr), (''score'', SInt), (''modifier'', SInt)])]"

definition data_saves_shape :: shape where
  "data_saves_shape =
     SStruct [
       (''str'', SStruct [(''name'', SStr), (''isProf'', SBool)]),
       (''dex'', SStruct [(''name'', SStr), (''isProf'', SBool)]),
       (''con'', SStruct [(''name'', SStr), (''isProf'', SBool)]),
       (''int'', SStruct [(''name'', SStr), (''isProf'', SBool)]),
       (''wis'', SStruct [(''name'', SStr), (''isProf'', SBool)]),
       (''cha'', SStruct [(''name'', SStr), (''isProf'', SBool)])]"

definition data_skills_shape :: shape where
  "data_skills_shape =
     SStruct [
       (''baseStat'', SStr),
       (''name'', SStr),
       (''label'', SStr),
       (''isProf'', SInt)]"

definition data_vitality_shape :: shape where
  "data_vitality_shape =
     SStruct [
       (''hp-dice-current'', valued SInt),
       (''hp-dice-multi'', SMap SAny),
       (''hit-die'', valued SAny),
       (''hp-current'', valued SAny),
       (''speed'', valued SAny),
       (''hp-max'', valued SAny),
       (''ac'', valued SAny),
       (''isDying'', SBool),
       (''deathFails'', SInt),
       (''deathSuccesses'', SInt)]"

definition data_weapons_list_shape :: shape where
  "data_weapons_list_shape =
     SStruct [
       (''id'', SStr),
       (''name'', valued SStr),
       (''mod'', valued SStr),
       (''dmg'', valued SStr),
       (''isProf'', SBool),
       (''modBonus'', valued SInt)]"

definition data_weapons_shape :: shape where
  "data_weapons_shape =
     SStruct [
       (''weaponName-0'', valued SStr),
       (''weaponMod-0'', valued SStr),
       (''weaponDmg-0'', valued SStr),
       (''weaponName-1'', valued SStr),
       (''weaponMod-1'', valued SStr),
       (''weaponDmg-1'', valued SStr)]"

definition data_text_shape :: shape where
  "data_text_shape =
     SStruct [
       (''attacks'', valued (SStruct [(''data'', SAny)])),
       (''equipment'', valued (SStruct [(''data'', SStruct [(''type'', SStr), (''content'',
         SSlice (SStruct [(''type'', SStr), (''content'', SSlice (SStruct [(''type'', SStr),
         (''text'', SStr)]))]))])])),
       (''prof'', valued (SStruct [(''data'', SStruct [(''type'', SStr), (''content'',
         SSlice (SStruct [(''type'', SStr), (''content'', SSlice (SStruct [(''type'', SStr),
         (''text'', SStr), (''marks'', SSlice (SStruct [(''type'', SStr)]))]))]))])])),
       (''traits'', valued (SStruct [(''data'', SStruct [(''type'', SStr), (''content'',
         SSlice (SStruct [(''type'', SStr), (''content'', SSlice (SStruct [(''type'', SStr),
         (''text'', SStr), (''marks'', SSlice (SStruct [(''type'', SStr)]))]))]))])])),
       (''allies'', valued (SStruct [(''data'', SAny)])),
       (''features'', valued (SStruct [(''data'', SAny)])),
       (''personality'', SStruct [(''value'', SStruct [(''data'', SStruct [(''type'', SStr), (''content'',
         SSlice (SStruct [(''type'', SStr)]))])]), (''size'', SInt)]),
       (''ideals'', valued (SStruct [(''data'', SStruct [(''type'', SStr), (''content'',
         SSlice (SStruct [(''type'', SStr)]))])])),
       (''bonds'', valued (SStruct [(''data'', SStruct [(''type'', SStr), (''content'',
         SSlice (SStruct [(''type'', SStr)]))])])),
       (''flaws'', valued (SStruct [(''data'', SStruct [(''type'', SStr), (''content'',
         SSlice (SStruct [(''type'', SStr)]))])])),
       (''background'', valued (SStruct [(''data'', SAny)])),
       (''quests'', SStruct [(''value'', SStruct [(''data'', SAny)]), (''size'', SInt)]),
       (''spells-level-0'', valued (SStruct [(''data'', SAny)])),
       (''spells-level-1'', valued (SStruct [(''data'', SAny)])),
       (''spells-level-2'', valued (SStruct [(''data'', SAny)])),
       (''spells-level-3'', valued (SStruct [(''data'', SAny)])),
       (''spells-level-4'', valued (SStruct [(''data'', SAny)])),
       (''spells-level-5'', valued (SStruct [(''data'', SAny)])),
       (''spells-level-6'', valued (SStruct [(''data'', SAny)])),
       (''spells-level-7'', valued (SStruct [(''data'', SAny)])),
       (''spells-level-8'', valued (SStruct [(''data'', SAny)])),
       (''spells-level-9'', valued (SStruct [(''data'', SAny)]))]"

definition data_coins_shape :: shape where
  "data_coins_shape =
     SStruct [
       (''gp'', valued SAny),
       (''total'', valued SAny),
       (''sp'', valued SAny),
       (''cp'', valued SAny),
       (''pp'', valued SAny),
       (''ep'', valued SAny)]"

definition character_data_shape :: shape where
  "character_data_shape =
     SStruct [
       (''isDefault'', SBool),
       (''jsonType'', SStr),
       (''template'', SStr),
       (''name'', character_name_shape),
       (''info'', data_info_shape),
       (''subInfo'', data_sub_info_shape),
       (''spellsInfo'', data_spells_info_shape),
       (''spells'', data_spells_shape),
       (''spellsPact'', SMap SAny),
       (''proficiency'', SInt),
       (''stats'', data_stats_shape),
       (''saves'', data_saves_shape),
       (''skills'', SMap data_skills_shape),
       (''vitality'', data_vitality_shape),
       (''weaponsList'', SSlice data_weapons_list_shape),
       (''weapons'', data_weapons_shape),
       (''text'', data_text_shape),
       (''coins'', data_coins_shape),
       (''resources'', SMap SAny),
       (''bonusesSkills'', SMap SAny),
       (''bonusesStats'', SMap SAny),
       (''conditions'', SAny),
       (''hiddenName'', SStr),
       (''casterClass'', valued SStr),
       (''avatar'', character_avatar_shape),
       (''createdAt'', SStr)]"

definition character_spells_shape :: shape where
  "character_spells_shape =
     SStruct [
       (''mode'', SStr),
       (''prepared'', SSlice SStr),
       (''book'', SSlice SStr)]"

definition character_raw_shape :: shape where
  "character_raw_shape =
     SStruct [
       (''tags'', SSlice SStr),
       (''disabledBlocks'', SMap SAny),
       (''spells'', character_spells_shape),
       (''data'', SStr),
       (''jsonType'', SStr),
       (''version'', SStr)]"

text \<open>A \<open>Character\<close> is its \<open>_id\<close> and the document of its other fields.\<close>

definition character_fields :: "(string \<times> shape) list" where
  "character_fields =
     [(''userID'', SStr),
      (''tags'', SSlice SStr),
      (''disabledBlocks'', SMap SAny),
      (''spells'', character_spells_shape),
      (''data'', character_data_shape),
      (''jsonType'', SStr),
      (''version'', SStr)]"

record character =
  ch_ID :: string
  ch_Fields :: document

fun at :: "string list \<Rightarrow> bson \<Rightarrow> bson" where
  "at [] v = v"
| "at (k # ks) (BDoc d) = (case map_of d k of None \<Rightarrow> BNull | Some v \<Rightarrow> at ks v)"
| "at (k # ks) _ = BNull"

fun text_of :: "bson \<Rightarrow> string" where
  "text_of (BStr s) = s"
| "text_of _ = []"

definition ch_UserID :: "character \<Rightarrow> string" where
  "ch_UserID c = text_of (at [''userID''] (BDoc (ch_Fields c)))"

definition w_character :: "character \<Rightarrow> document" where
  "w_character c = (''_id'', BOid (ch_ID c)) # ch_Fields c"

definition r_character :: "document \<Rightarrow> character option" where
  "r_character d = do {
     i \<leftarrow> bfield b_oid nil_oid ''_id'' d;
     fs \<leftarrow> read_fields character_fields d;
     Some \<lparr>ch_ID = i, ch_Fields = fs\<rparr> }"

record character_short =
  cs_ID :: string
  cs_CharClass :: bson
  cs_CharacterLevel :: bson
  cs_CharacterName :: bson
  cs_CharacterRace :: bson
  cs_Avatar :: bson

definition character_short_of :: "character \<Rightarrow> character_short" where
  "character_short_of c =
     (let dat = at [''data''] (BDoc (ch_Fields c)) in
      \<lparr>cs_ID = ch_ID c, cs_CharClass = at [''info'', ''charClass''] dat,
       cs_CharacterLevel = at [''info'', ''level''] dat, cs_CharacterName = at [''name''] dat,
       cs_CharacterRace = at [''info'', ''race''] dat, cs_Avatar = at [''avatar''] dat\<rparr>)"

record character_req =
  chr_Start :: int
  chr_Size :: int
  chr_Search :: search_params

definition j_character_req :: "fields \<Rightarrow> character_req option" where
  "j_character_req kvs = do {
     s \<leftarrow> int_field ''start'' kvs;
     n \<leftarrow> int_field ''size'' kvs;
     o_kvs \<leftarrow> obj_field ''search'' kvs;
     v \<leftarrow> str_field ''value'' o_kvs;
     e \<leftarrow> bool_field ''exact'' o_kvs;
     Some \<lparr>chr_Start = s, chr_Size = n, chr_Search = \<lparr>Value = v, Exact = e\<rparr>\<rparr> }"

section \<open>The repository\<close>

text \<open>
  The interface. A raw sheet is the document of \<open>CharacterRaw\<close>. \<open>parse\<close> is the parser of
  \<open>encoding/json\<close> on a whole buffer.
\<close>

record 'd character_repository =
  crepo_List :: "int \<Rightarrow> int \<Rightarrow> int \<Rightarrow> search_params \<Rightarrow> 'd \<Rightarrow> character_short list option result \<times> 'd"
  crepo_ByMongoId :: "string \<Rightarrow> 'd \<Rightarrow> character option result \<times> 'd"
  crepo_Add :: "bson \<Rightarrow> int \<Rightarrow> 'd \<Rightarrow> unit result \<times> 'd"

definition possibleIds :: "int \<Rightarrow> string list" where
  "possibleIds uid = [''*'', itoa uid]"

fun decode_characters :: "document list \<Rightarrow> character list result" where
  "decode_characters [] = Inr []"
| "decode_characters (d # ds) =
     (case r_character d of
        None \<Rightarrow> Inl DecodeMongoDataErr
      | Some c \<Rightarrow> (case decode_characters ds of Inl e \<Rightarrow> Inl e | Inr cs \<Rightarrow> Inr (c # cs)))"

definition csto_getCharactersList ::
    "mongo_server \<Rightarrow> mongo_filter \<Rightarrow> find_options \<Rightarrow> mongo \<Rightarrow> character_short list option result \<times> mongo" where
  "csto_getCharactersList srv filters fo m =
     (case mongo_Find srv characters filters fo m of
        (Inl ErrNoDocuments, m1) \<Rightarrow> (Inl NoDocsErr, m1)
      | (Inl MongoError, m1) \<Rightarrow> (Inl FindMongoDataErr, m1)
      | (Inr ds, m1) \<Rightarrow>
          ((case decode_characters ds of
              Inl e \<Rightarrow> Inl e
            | Inr cs \<Rightarrow> Inr (if cs = [] then None else Some (map character_short_of cs))), m1))"

definition csto_GetCharactersList ::
    "mongo_server \<Rightarrow> int \<Rightarrow> int \<Rightarrow> int \<Rightarrow> search_params \<Rightarrow> mongo
     \<Rightarrow> character_short list option result \<times> mongo" where
  "csto_GetCharactersList srv siz start uid search m =
     csto_getCharactersList srv
       ((if Value search \<noteq> [] then [(''data.name.value'', Regex (Value search))] else []) @
        [(''userID'', In (possibleIds uid))])
       (Find_options\<lparr>fo_limit := siz, fo_skip := start\<rparr>) m"

definition csto_GetCharacterByMongoId ::
    "mongo_server \<Rightarrow> string \<Rightarrow> mongo \<Rightarrow> character option result \<times> mongo" where
  "csto_GetCharacterByMongoId srv i m =
     (case ObjectIDFromHex i of
        None \<Rightarrow> (Inl InvalidIDErr, m)
      | Some primitiveId \<Rightarrow>
          (case mongo_FindOne srv characters [(''_id'', Equals (BOid primitiveId))] m of
             (Inl ErrNoDocuments, m1) \<Rightarrow> (Inr None, m1)
           | (Inl MongoError, m1) \<Rightarrow> (Inl FindMongoDataErr, m1)
           | (Inr d, m1) \<Rightarrow>
               ((case r_character d of None \<Rightarrow> Inl FindMongoDataErr | Some c \<Rightarrow> Inr (Some c)), m1)))"

definition RemoveBackslashes :: "string \<Rightarrow> string" where
  "RemoveBackslashes inp = filter (\<lambda>c. c \<noteq> CHR 0x5C) inp"

definition csto_AddCharacter ::
    "(string \<Rightarrow> json option) \<Rightarrow> bson \<Rightarrow> int \<Rightarrow> mongo \<Rightarrow> unit result \<times> mongo" where
  "csto_AddCharacter parse rawChar uid m =
     (case parse (RemoveBackslashes (text_of (at [''data''] rawChar))) \<bind> unmarshal_shape character_data_shape of
        None \<Rightarrow> (Inl UnmarashallingJSONError, m)
      | Some characterData \<Rightarrow>
          (let (i, m1) = NewObjectID m;
               c = \<lparr>ch_ID = i,
                 ch_Fields =
                   [(''userID'', BStr (itoa uid)), (''tags'', at [''tags''] rawChar),
                    (''disabledBlocks'', at [''disabledBlocks''] rawChar), (''spells'', at [''spells''] rawChar),
                    (''data'', characterData), (''jsonType'', at [''jsonType''] rawChar),
                    (''version'', at [''version''] rawChar)]\<rparr>
           in case mongo_InsertOne characters characters_update (w_character c) m1 of
                (Inl _, m2) \<Rightarrow> (Inl InsertMongoDataErr, m2)
              | (Inr _, m2) \<Rightarrow> (Inr (), m2)))"

definition characterStorage :: "mongo_server \<Rightarrow> (string \<Rightarrow> json option) \<Rightarrow> mongo character_repository" where
  "characterStorage srv parse =
     \<lparr>crepo_List = csto_GetCharactersList srv, crepo_ByMongoId = csto_GetCharacterByMongoId srv,
      crepo_Add = csto_AddCharacter parse\<rparr>"

section \<open>Usecases\<close>

definition cuc_GetCharactersList ::
    "'d character_repository \<Rightarrow> int \<Rightarrow> int \<Rightarrow> int \<Rightarrow> search_params \<Rightarrow> 'd
     \<Rightarrow> character_short list option result \<times> 'd" where
  "cuc_GetCharactersList repo siz start uid search d =
     (if bad_page start siz then (Inl StartPosSizeError, d)
      else crepo_List repo siz start uid search d)"

text \<open>The file is \<open>None\<close> when it cannot be read.\<close>

definition cuc_AddCharacter ::
    "'d character_repository \<Rightarrow> (string \<Rightarrow> json option) \<Rightarrow> string option \<Rightarrow> int \<Rightarrow> 'd \<Rightarrow> unit result \<times> 'd" where
  "cuc_AddCharacter repo parse file uid d =
     (case file of
        None \<Rightarrow> (Inl ReadFileError, d)
      | Some fileBytes \<Rightarrow>
          (case parse fileBytes \<bind> unmarshal_shape character_raw_shape of
             None \<Rightarrow> (Inl InvalidJSONError, d)
           | Some rawChar \<Rightarrow>
               if text_of (at [''data''] rawChar) = [] then (Inl InvalidInputError, d)
               else crepo_Add repo rawChar uid d))"

text \<open>As for the creatures, nil has no \<open>UserID\<close>.\<close>

definition cuc_GetCharacterByMongoId ::
    "'d character_repository \<Rightarrow> string \<Rightarrow> int \<Rightarrow> 'd \<Rightarrow> character option result go \<times> 'd" where
  "cuc_GetCharacterByMongoId repo i uid d =
     (if i = [] then (Return (Inl InvalidInputError), d)
      else
        (case crepo_ByMongoId repo i d of
           (Inl e, d1) \<Rightarrow> (Return (Inl e), d1)
         | (Inr None, d1) \<Rightarrow> (Panic, d1)
         | (Inr (Some c), d1) \<Rightarrow>
             (Return (if ch_UserID c \<noteq> ''*'' \<and> ch_UserID c \<noteq> itoa uid then Inl PermissionDeniedError
                      else Inr (Some c)), d1)))"

section \<open>Handlers\<close>

datatype character_body = BodyCharacters "character_short list option" | BodyCharacter character

definition h_GetCharactersList ::
    "'d character_repository \<Rightarrow> json option \<Rightarrow> user option \<Rightarrow> 'd \<Rightarrow> character_body response go \<times> 'd" where
  "h_GetCharactersList repo body ctx_user d =
     (case decoded j_character_req body of
        None \<Rightarrow> (Return (SendErrResponse StatusBadRequest ErrBadJSON), d)
      | Some req \<Rightarrow>
          with_user ctx_user (\<lambda>user d.
            case cuc_GetCharactersList repo (chr_Size req) (chr_Start req) (userID user) (chr_Search req) d of
              (Inl e, d1) \<Rightarrow>
                (Return (if e = NoDocsErr then SendOk NullBody
                         else if e = StartPosSizeError then SendErrResponse StatusBadRequest ErrSizeOrPosition
                         else SendErrResponse StatusInternalServerError ErrInternalServer), d1)
            | (Inr cs, d1) \<Rightarrow> (Return (SendOk (OkBody (BodyCharacters cs))), d1)) d)"

text \<open>The uploaded form: malformed, without the file, or the file's content type and bytes.\<close>

datatype character_form = MalformedForm | NoFile | CharacterFile string "string option"

definition h_AddCharacter ::
    "'d character_repository \<Rightarrow> (string \<Rightarrow> json option) \<Rightarrow> character_form \<Rightarrow> user option \<Rightarrow> 'd
     \<Rightarrow> character_body response go \<times> 'd" where
  "h_AddCharacter repo parse form ctx_user d =
     (case form of
        MalformedForm \<Rightarrow> (Return (SendErrResponse StatusBadRequest ErrWrongFileSize), d)
      | NoFile \<Rightarrow> (Return (SendErrResponse StatusInternalServerError ErrInternalServer), d)
      | CharacterFile contentType file \<Rightarrow>
          if contentType \<noteq> ''application/json''
          then (Return (SendErrResponse StatusBadRequest ErrWrongFileType), d)
          else
            with_user ctx_user (\<lambda>user d.
              case cuc_AddCharacter repo parse file (userID user) d of
                (Inl e, d1) \<Rightarrow>
                  (Return (if e = InvalidInputError then SendErrResponse StatusBadRequest ErrEmptyCharacterData
                           else if e = InvalidJSONError then SendErrResponse StatusBadRequest ErrBadJSON
                           else SendErrResponse StatusInternalServerError ErrInternalServer), d1)
              | (Inr _, d1) \<Rightarrow> (Return (SendOk NullBody), d1)) d)"

definition h_GetCharacterByMongoId ::
    "'d character_repository \<Rightarrow> string option \<Rightarrow> user option \<Rightarrow> 'd \<Rightarrow> character_body response go \<times> 'd" where
  "h_GetCharacterByMongoId repo var ctx_user d =
     (case var of
        None \<Rightarrow> (Return (SendErrResponse StatusBadRequest ErrInvalidID), d)
      | Some i \<Rightarrow>
          if i = [] then (Return (SendErrResponse StatusBadRequest ErrInvalidID), d)
          else
            with_user ctx_user (\<lambda>user d.
              case cuc_GetCharacterByMongoId repo i (userID user) d of
                (Return (Inl e), d1) \<Rightarrow>
                  (Return (if e = InvalidInputError \<or> e = InvalidIDErr
                           then SendErrResponse StatusBadRequest ErrInvalidID
                           else if e = PermissionDeniedError then SendErrResponse StatusForbidden ErrForbidden
                           else SendErrResponse StatusInternalServerError ErrInternalServer), d1)
              | (Return (Inr None), d1) \<Rightarrow>
                  (Return (SendErrResponse StatusBadRequest ErrCharacterNotFound), d1)
              | (Return (Inr (Some c)), d1) \<Rightarrow> (Return (SendOk (OkBody (BodyCharacter c))), d1)
              | (Panic, d1) \<Rightarrow> (Panic, d1)
              | (Block, d1) \<Rightarrow> (Block, d1)) d)"

end
