(* ===== verification/MapTiles.thy ===== *)
theory MapTiles
  imports Character
begin

text \<open>
  \<open>internal/pkg/maptiles\<close>: the categories of tiles a user can build maps from, the own ones and
  those of the user \<open>*\<close>; and \<open>internal/pkg/description\<close>, which asks another service to
  describe a battle.
\<close>

section \<open>Tiles\<close>

text \<open>A category is its \<open>_id\<close> and the document of its other fields.\<close>

definition map_tile_shape :: shape where
  "map_tile_shape = SStruct [(''id'', SStr), (''name'', SStr), (''imageUrl'', SStr)]"

definition map_tile_category_fields :: "(string \<times> shape) list" where
  "map_tile_category_fields =
     [(''id'', SStr), (''name'', SStr), (''tiles'', SSlice map_tile_shape), (''userID'', SStr)]"

record map_tile_category =
  mc_MongoID :: string
  mc_Fields :: document

definition mc_UserID :: "map_tile_category \<Rightarrow> string" where
  "mc_UserID c = text_of (at [''userID''] (BDoc (mc_Fields c)))"

definition r_map_tile_category :: "document \<Rightarrow> map_tile_category option" where
  "r_map_tile_category d = do {
     i \<leftarrow> bfield b_oid nil_oid ''_id'' d;
     fs \<leftarrow> read_fields map_tile_category_fields d;
     Some \<lparr>mc_MongoID = i, mc_Fields = fs\<rparr> }"

record 'd maptiles_repository =
  trepo_GetCategories :: "int \<Rightarrow> 'd \<Rightarrow> map_tile_category list option result \<times> 'd"

fun decode_categories :: "document list \<Rightarrow> map_tile_category list result" where
  "decode_categories [] = Inr []"
| "decode_categories (d # ds) =
     (case r_map_tile_category d of
        None \<Rightarrow> Inl DecodeMongoDataErr
      | Some c \<Rightarrow> (case decode_categories ds of Inl e \<Rightarrow> Inl e | Inr cs \<Rightarrow> Inr (c # cs)))"

definition tsto_GetCategories ::
    "mongo_server \<Rightarrow> int \<Rightarrow> mongo \<Rightarrow> map_tile_category list option result \<times> mongo" where
  "tsto_GetCategories srv uid m =
     (case mongo_Find srv map_tiles [(''userID'', In [''*'', itoa uid])] Find_options m of
        (Inl ErrNoDocuments, m1) \<Rightarrow> (Inl NoDocsErr, m1)
      | (Inl MongoError, m1) \<Rightarrow> (Inl FindMongoDataErr, m1)
      | (Inr ds, m1) \<Rightarrow>
          ((case decode_categories ds of
              Inl e \<Rightarrow> Inl e | Inr cs \<Rightarrow> Inr (if cs = [] then None else Some cs)), m1))"

definition mapTilesStorage :: "mongo_server \<Rightarrow> mongo maptiles_repository" where
  "mapTilesStorage srv = \<lparr>trepo_GetCategories = tsto_GetCategories srv\<rparr>"

definition tuc_GetCategories ::
    "'d maptiles_repository \<Rightarrow> int \<Rightarrow> 'd \<Rightarrow> map_tile_category list option result \<times> 'd" where
  "tuc_GetCategories repo uid d =
     (if uid < 0 then (Inl InvalidUserIDError, d) else trepo_GetCategories repo uid d)"

datatype tiles_body = BodyCategories "map_tile_category list option"

definition h_GetCategories ::
    "'d maptiles_repository \<Rightarrow> user option \<Rightarrow> 'd \<Rightarrow> tiles_body response go \<times> 'd" where
  "h_GetCategories repo ctx_user d =
     with_user ctx_user (\<lambda>user d.
       case tuc_GetCategories repo (userID user) d of
         (Inl e, d1) \<Rightarrow>
           (Return (if e = NoDocsErr then SendOk NullBody
                    else if e = InvalidUserIDError then SendErrResponse StatusBadRequest ErrInvalidID
                    else SendErrResponse StatusInternalServerError ErrInternalServer), d1)
       | (Inr cs, d1) \<Rightarrow> (Return (SendOk (OkBody (BodyCategories cs))), d1)) d"

section \<open>Descriptions\<close>

text \<open>\<open>client\<close> is the generated gRPC client: the text, or \<open>None\<close> for an error.\<close>

record description_request =
  dr_FirstCharID :: string
  dr_SecondCharID :: string

type_synonym 'w description_client = "string \<Rightarrow> string \<Rightarrow> 'w \<Rightarrow> string option \<times> 'w"

definition j_description_request :: "fields \<Rightarrow> description_request option" where
  "j_description_request kvs = do {
     f \<leftarrow> str_field ''first_char_id'' kvs;
     s \<leftarrow> str_field ''second_char_id'' kvs;
     Some \<lparr>dr_FirstCharID = f, dr_SecondCharID = s\<rparr> }"

definition adapter_Describe :: "'w description_client \<Rightarrow> string \<Rightarrow> string \<Rightarrow> 'w \<Rightarrow> string result \<times> 'w" where
  "adapter_Describe client a b w =
     (case client a b w of
        (None, w1) \<Rightarrow> (Inl (OtherError ''grpc''), w1) | (Some t, w1) \<Rightarrow> (Inr t, w1))"

definition duc_GenerateDescription ::
    "'w description_client \<Rightarrow> description_request \<Rightarrow> 'w \<Rightarrow> string result \<times> 'w" where
  "duc_GenerateDescription client req w =
     (case adapter_Describe client (dr_FirstCharID req) (dr_SecondCharID req) w of
        (Inl _, w1) \<Rightarrow> (Inl ReceivedDescriptionError, w1)
      | (Inr t, w1) \<Rightarrow> (Inr t, w1))"

definition h_GenerateDescription ::
    "'w description_client \<Rightarrow> json option \<Rightarrow> 'w \<Rightarrow> string response \<times> 'w" where
  "h_GenerateDescription client body w =
     (case decoded j_description_request body of
        None \<Rightarrow> (SendErrResponse StatusBadRequest ErrBadJSON, w)
      | Some req \<Rightarrow>
          (case duc_GenerateDescription client req w of
             (Inl _, w1) \<Rightarrow> (SendErrResponse StatusInternalServerError ErrInternalServer, w1)
           | (Inr t, w1) \<Rightarrow> (SendOk (OkBody t), w1)))"

end
