(* ===== verification/DocumentsRun.thy ===== *)
theory DocumentsRun
  imports MapTiles BestiaryUse
begin

text \<open>
  What the users see of the documents of others. Each of the three repositories over MongoDB
  keeps a contract, a locale: a list of user \<open>uid\<close> holds only values of the abstract set
  \<open>own uid\<close> of the store it reads, and reading changes nothing. The locales are interpreted on
  the storages; the statements about the handlers are proved in them.
\<close>

section \<open>The contracts\<close>

locale personal_lists =
  fixes lst :: "int \<Rightarrow> int \<Rightarrow> int \<Rightarrow> 'q \<Rightarrow> 'd \<Rightarrow> 'a list option result \<times> 'd"
    and own :: "int \<Rightarrow> 'd \<Rightarrow> 'a set"
    and healthy :: bool
  assumes listed: "healthy \<Longrightarrow> lst uid siz start q d = (Inr (Some xs), d') \<Longrightarrow> set xs \<subseteq> own uid d"
    and page: "0 < siz \<Longrightarrow> lst uid siz start q d = (Inr (Some xs), d') \<Longrightarrow> int (length xs) \<le> siz"
    and reads: "lst uid siz start q d = (r, d') \<Longrightarrow> own v d' = own v d"
begin

lemma personal:
  assumes "healthy" and "\<not> bad_page start siz"
    and "lst uid siz start q d = (Inr (Some xs), d')"
  shows "set xs \<subseteq> own uid d \<and> int (length xs) \<le> siz \<and> own v d' = own v d"
  using listed [OF assms(1,3)] page [OF _ assms(3)] reads [OF assms(3)] assms(2)
  by (simp add: bad_page_def)

end

section \<open>The storages\<close>

text \<open>\<open>userID\<close> of a document is one of the strings, or an array that holds one of them.\<close>

definition owned_by :: "string list \<Rightarrow> document \<Rightarrow> bool" where
  "owned_by ids d \<longleftrightarrow>
     (case map_of d ''userID'' of None \<Rightarrow> False | Some v \<Rightarrow> list_ex (\<lambda>i. BStr i \<in> set (candidates v)) ids)"

lemma values_userID:
  "values_at ''userID'' (BDoc d) = (case map_of d ''userID'' of None \<Rightarrow> [] | Some v \<Rightarrow> [v])"
  by (simp add: values_at_def split: option.split)

lemma matches_owner:
  assumes "matches rx f d"
  shows "(''userID'', Equals (BStr i)) \<in> set f \<Longrightarrow> owned_by [i] d"
    and "(''userID'', In ids) \<in> set f \<Longrightarrow> owned_by ids d"
proof -
  have all: "\<forall>(key, c) \<in> set f. holds rx c (values_at key (BDoc d))"
    using assms by (simp add: matches_def list_all_iff)
  {
    assume "(''userID'', Equals (BStr i)) \<in> set f"
    with all have "holds rx (Equals (BStr i)) (values_at ''userID'' (BDoc d))" by blast
    then show "owned_by [i] d"
      by (cases "map_of d ''userID''") (simp_all add: owned_by_def values_userID)
  next
    assume "(''userID'', In ids) \<in> set f"
    with all have "holds rx (In ids) (values_at ''userID'' (BDoc d))" by blast
    then show "owned_by ids d"
      by (cases "map_of d ''userID''") (simp_all add: owned_by_def values_userID in_strings_def list_ex_iff)
  }
qed

definition own_creatures :: "int \<Rightarrow> mongo \<Rightarrow> bestiary_creature set" where
  "own_creatures uid m =
     {c. \<exists>d \<in> set (generated_creatures m). owned_by [itoa uid] d \<and> r_bestiary_creature d = Some c}"

definition own_characters :: "int \<Rightarrow> mongo \<Rightarrow> character_short set" where
  "own_characters uid m =
     {s. \<exists>d \<in> set (characters m). owned_by (possibleIds uid) d \<and>
        (\<exists>c. r_character d = Some c \<and> s = character_short_of c)}"

definition own_categories :: "int \<Rightarrow> mongo \<Rightarrow> map_tile_category set" where
  "own_categories uid m =
     {c. \<exists>d \<in> set (map_tiles m). owned_by [''*'', itoa uid] d \<and> r_map_tile_category d = Some c}"

lemma decode_list_length: "decode_list ds = Inr cs \<Longrightarrow> length cs = length ds"
  by (induction ds arbitrary: cs) (auto split: option.splits sum.splits)

lemma decode_list_set: "decode_list ds = Inr cs \<Longrightarrow> c \<in> set cs \<Longrightarrow> \<exists>d \<in> set ds. r_bestiary_creature d = Some c"
  by (induction ds arbitrary: cs) (auto split: option.splits sum.splits)

lemma decode_characters_length: "decode_characters ds = Inr cs \<Longrightarrow> length cs = length ds"
  by (induction ds arbitrary: cs) (auto split: option.splits sum.splits)

lemma decode_characters_set: "decode_characters ds = Inr cs \<Longrightarrow> c \<in> set cs \<Longrightarrow> \<exists>d \<in> set ds. r_character d = Some c"
  by (induction ds arbitrary: cs) (auto split: option.splits sum.splits)

lemma decode_categories_set:
  "decode_categories ds = Inr cs \<Longrightarrow> c \<in> set cs \<Longrightarrow> \<exists>d \<in> set ds. r_map_tile_category d = Some c"
  by (induction ds arbitrary: cs) (auto split: option.splits sum.splits)

lemma bsto_getCreaturesList_cases:
  assumes "bsto_getCreaturesList srv f fo b m = (r, m')"
  shows "m' = snd (mongo_call m) \<and> (\<forall>xs. r = Inr (Some xs) \<longrightarrow>
    (\<exists>ds. mongo_Find srv (bcollection b) f fo m = (Inr ds, m') \<and> decode_list ds = Inr xs))"
  using assms mongo_Find_state [of srv "bcollection b" f fo m]
  by (auto simp: bsto_getCreaturesList_def split: prod.splits sum.splits mongo_error.splits if_splits)

lemma csto_getCharactersList_cases:
  assumes "csto_getCharactersList srv f fo m = (r, m')"
  shows "m' = snd (mongo_call m) \<and> (\<forall>xs. r = Inr (Some xs) \<longrightarrow>
    (\<exists>ds cs. mongo_Find srv characters f fo m = (Inr ds, m') \<and> decode_characters ds = Inr cs \<and>
       xs = map character_short_of cs))"
  using assms mongo_Find_state [of srv characters f fo m]
  by (auto simp: csto_getCharactersList_def split: prod.splits sum.splits mongo_error.splits if_splits)

text \<open>The user list of the bestiary with its query as one argument.\<close>

definition creature_lists ::
    "mongo_server \<Rightarrow> int \<Rightarrow> int \<Rightarrow> int \<Rightarrow> order list \<times> filter_params \<times> search_params \<Rightarrow> mongo
     \<Rightarrow> bestiary_creature list option result \<times> mongo" where
  "creature_lists srv uid siz start q m =
     (case q of (rs, f, search) \<Rightarrow> brepo_UserList (bestiaryStorage srv) siz start rs f search uid m)"

definition character_lists ::
    "mongo_server \<Rightarrow> int \<Rightarrow> int \<Rightarrow> int \<Rightarrow> search_params \<Rightarrow> mongo
     \<Rightarrow> character_short list option result \<times> mongo" where
  "character_lists srv uid siz start search m = csto_GetCharactersList srv siz start uid search m"

lemma creature_lists_cases:
  assumes "creature_lists srv uid siz start (rs, f, search) m = (r, m')"
  shows "(m' = m \<or> m' = snd (mongo_call m)) \<and> (\<forall>xs. r = Inr (Some xs) \<longrightarrow>
    (\<exists>g fo ds. (''userID'', Equals (BStr (itoa uid))) \<in> set g \<and> fo_limit fo = siz \<and>
       mongo_Find srv generated_creatures g fo m = (Inr ds, m') \<and> decode_list ds = Inr xs))"
proof -
  have coll: "bcollection True = generated_creatures" by (simp add: fun_eq_iff bcollection_def)
  show ?thesis
  proof (cases "search_filter search")
    case None
    with assms show ?thesis
      by (auto simp: creature_lists_def bestiaryStorage_def bsto_GetUserCreaturesList_def)
  next
    case (Some q)
    show ?thesis
    proof (cases "buildFindOptions start siz rs")
      case (Inl e)
      with Some assms show ?thesis
        by (auto simp: creature_lists_def bestiaryStorage_def bsto_GetUserCreaturesList_def)
    next
      case (Inr fo)
      let ?g = "buildTypesFilters f @ q @ [(''userID'', Equals (BStr (itoa uid)))]"
      have "bsto_getCreaturesList srv ?g fo True m = (r, m')"
        using assms Some Inr by (simp add: creature_lists_def bestiaryStorage_def bsto_GetUserCreaturesList_def)
      note c = bsto_getCreaturesList_cases [OF this]
      have "fo_limit fo = siz" using Inr by (auto simp: buildFindOptions_def split: sum.splits)
      moreover have "(''userID'', Equals (BStr (itoa uid))) \<in> set ?g" by simp
      ultimately show ?thesis using c unfolding coll by blast
    qed
  qed
qed

lemma own_frame:
  "own_creatures v (snd (mongo_call m)) = own_creatures v m"
  "own_characters v (snd (mongo_call m)) = own_characters v m"
  "own_categories v (snd (mongo_call m)) = own_categories v m"
  by (simp_all add: own_creatures_def own_characters_def own_categories_def)

interpretation bl: personal_lists "creature_lists srv" own_creatures "server_ok srv" for srv
proof
  fix uid siz start :: int and q :: "order list \<times> filter_params \<times> search_params" and m xs m'
  obtain rs f search where q: "q = (rs, f, search)" by (cases q)
  {
    assume ok: "server_ok srv" and l: "creature_lists srv uid siz start q m = (Inr (Some xs), m')"
    then obtain g fo ds where g: "(''userID'', Equals (BStr (itoa uid))) \<in> set g"
        and f: "mongo_Find srv generated_creatures g fo m = (Inr ds, m')" and ds: "decode_list ds = Inr xs"
      using creature_lists_cases [of srv uid siz start rs f search m "Inr (Some xs)" m'] q by blast
    show "set xs \<subseteq> own_creatures uid m"
    proof
      fix c assume "c \<in> set xs"
      then obtain d where d: "d \<in> set ds" "r_bestiary_creature d = Some c"
        using decode_list_set [OF ds] by blast
      have "d \<in> set (generated_creatures m)" "owned_by [itoa uid] d"
        using filter_matches_page [OF ok f d(1)] matches_owner(1) [OF _ g] by auto
      with d show "c \<in> own_creatures uid m" by (auto simp: own_creatures_def)
    qed
  next
    assume "0 < siz" and l: "creature_lists srv uid siz start q m = (Inr (Some xs), m')"
    then obtain g fo ds where "fo_limit fo = siz"
        and "mongo_Find srv generated_creatures g fo m = (Inr ds, m')" and "decode_list ds = Inr xs"
      using creature_lists_cases [of srv uid siz start rs f search m "Inr (Some xs)" m'] q by blast
    with \<open>0 < siz\<close> show "int (length xs) \<le> siz"
      using mongo_Find_length [of srv generated_creatures g fo m ds m'] decode_list_length by metis
  }
next
  fix uid siz start :: int and q :: "order list \<times> filter_params \<times> search_params" and m r m' and v :: int
  assume l: "creature_lists srv uid siz start q m = (r, m')"
  obtain rs f search where "q = (rs, f, search)" by (cases q)
  with l have "m' = m \<or> m' = snd (mongo_call m)" using creature_lists_cases by blast
  then show "own_creatures v m' = own_creatures v m" using own_frame(1) by auto
qed

interpretation cl: personal_lists "character_lists srv" own_characters "server_ok srv" for srv
proof
  fix uid siz start :: int and q :: search_params and m xs m'
  let ?f = "(if Value q \<noteq> [] then [(''data.name.value'', Regex (Value q))] else []) @
      [(''userID'', In (possibleIds uid))]"
  let ?fo = "Find_options\<lparr>fo_limit := siz, fo_skip := start\<rparr>"
  assume l: "character_lists srv uid siz start q m = (Inr (Some xs), m')"
  then have "csto_getCharactersList srv ?f ?fo m = (Inr (Some xs), m')"
    by (simp add: character_lists_def csto_GetCharactersList_def)
  then obtain ds cs where f: "mongo_Find srv characters ?f ?fo m = (Inr ds, m')"
      and ds: "decode_characters ds = Inr cs" and xs: "xs = map character_short_of cs"
    using csto_getCharactersList_cases by blast
  {
    assume ok: "server_ok srv"
    show "set xs \<subseteq> own_characters uid m"
    proof
      fix s assume "s \<in> set xs"
      then obtain c where c: "c \<in> set cs" "s = character_short_of c" using xs by auto
      obtain d where d: "d \<in> set ds" "r_character d = Some c"
        using decode_characters_set [OF ds c(1)] by blast
      have "d \<in> set (characters m)" "owned_by (possibleIds uid) d"
        using filter_matches_page [OF ok f d(1)] matches_owner(2) by auto
      with d c show "s \<in> own_characters uid m" by (auto simp: own_characters_def)
    qed
  next
    assume "0 < siz"
    then have "int (length ds) \<le> siz" using mongo_Find_length [OF f] by simp
    then show "int (length xs) \<le> siz" using decode_characters_length [OF ds] xs by simp
  }
next
  fix uid siz start :: int and q :: search_params and m r m' and v :: int
  assume "character_lists srv uid siz start q m = (r, m')"
  then have "m' = snd (mongo_call m)"
    by (simp add: character_lists_def csto_GetCharactersList_def csto_getCharactersList_cases)
  then show "own_characters v m' = own_characters v m" using own_frame(2) by simp
qed

lemma categories_own:
  assumes "server_ok srv" and "tsto_GetCategories srv uid m = (Inr (Some xs), m')"
  shows "set xs \<subseteq> own_categories uid m"
proof
  fix c assume "c \<in> set xs"
  obtain ds where f: "mongo_Find srv map_tiles [(''userID'', In [''*'', itoa uid])] Find_options m = (Inr ds, m')"
      and ds: "decode_categories ds = Inr xs"
    using assms(2) by (auto simp: tsto_GetCategories_def split: prod.splits sum.splits mongo_error.splits if_splits)
  obtain d where d: "d \<in> set ds" "r_map_tile_category d = Some c"
    using decode_categories_set [OF ds \<open>c \<in> set xs\<close>] by blast
  have "d \<in> set (map_tiles m)" "owned_by [''*'', itoa uid] d"
    using filter_matches_page [OF assms(1) f d(1)] matches_owner(2) by auto
  with d show "c \<in> own_categories uid m" by (auto simp: own_categories_def)
qed

section \<open>A small server\<close>

definition demo_server :: mongo_server where
  "demo_server = \<lparr>regex_ok = (\<lambda>_. True), regex_match = (\<lambda>_ _. True), sort_docs = (\<lambda>_ ds. ds)\<rparr>"

definition demo_user :: "int \<Rightarrow> user" where
  "demo_user i = \<lparr>userID = i, DisplayName = ''U'', AvatarURL = ''a'', Status = ''active''\<rparr>"

definition demo_oid :: string where
  "demo_oid = ''0123456789abcdef01234567''"

definition demo_mongo :: mongo where
  "demo_mongo = \<lparr>creatures = [], generated_creatures = [], characters = [],
     map_tiles = [[(''_id'', BOid demo_oid), (''id'', BStr ''village''), (''userID'', BStr ''*'')]],
     new_oids = [demo_oid], mongo_outcomes = []\<rparr>"

definition demo_category :: map_tile_category where
  "demo_category = \<lparr>mc_MongoID = demo_oid,
     mc_Fields = [(''id'', BStr ''village''), (''name'', BStr []), (''tiles'', BNull), (''userID'', BStr ''*'')]\<rparr>"

lemma demo_server_ok: "server_ok demo_server"
  by (simp add: server_ok_def demo_server_def)

lemma demo_oid: "ObjectIDFromHex demo_oid = Some demo_oid" "demo_oid \<noteq> nil_oid"
  by code_simp+

lemma demo_tiles:
  "h_GetCategories (mapTilesStorage demo_server) (Some (demo_user 1)) demo_mongo =
    (Return (200, OkBody (BodyCategories (Some [demo_category]))), demo_mongo)"
  by (simp add: h_GetCategories_def tuc_GetCategories_def mapTilesStorage_def tsto_GetCategories_def
      demo_user_def demo_mongo_def demo_server_def mongo_Find_def mongo_call_def filter_ok_def
      matches_def values_userID in_strings_def page_of_def Find_options_def r_map_tile_category_def
      map_tile_category_fields_def map_tile_shape_def bfield_def demo_category_def StatusOk_def)

section \<open>The handlers\<close>

lemma user_creatures_page:
  assumes "h_GetUserCreaturesList (bestiaryStorage srv) body (Some u) m =
      (Return (200, OkBody (BodyCreatures (Some cs))), m')"
  obtains req where "decoded j_bestiary_req body = Some req" and "\<not> bad_page (br_Start req) (br_Size req)"
    and "creature_lists srv (userID u) (br_Size req) (br_Start req)
           (items (br_Order req), br_Filter req, br_Search req) m = (Inr (Some cs), m')"
proof (cases "decoded j_bestiary_req body")
  case None
  with assms show ?thesis by (simp add: h_GetUserCreaturesList_def)
next
  case (Some req)
  let ?r = "buc_GetUserCreaturesList (bestiaryStorage srv) (br_Size req) (br_Start req) (items (br_Order req))
      (br_Filter req) (br_Search req) (userID u) m"
  obtain r m1 where r: "?r = (r, m1)" by fastforce
  have "r = Inr (Some cs) \<and> m1 = m'"
    using assms Some r by (auto simp: h_GetUserCreaturesList_def list_error_def split: sum.splits if_splits)
  with r show ?thesis
    using that [OF Some] by (simp add: buc_GetUserCreaturesList_def creature_lists_def split: if_splits)
qed

lemma characters_page:
  assumes "h_GetCharactersList (characterStorage srv parse) body (Some u) m =
      (Return (200, OkBody (BodyCharacters (Some cs))), m')"
  obtains req where "decoded j_character_req body = Some req" and "\<not> bad_page (chr_Start req) (chr_Size req)"
    and "character_lists srv (userID u) (chr_Size req) (chr_Start req) (chr_Search req) m = (Inr (Some cs), m')"
proof (cases "decoded j_character_req body")
  case None
  with assms show ?thesis by (simp add: h_GetCharactersList_def)
next
  case (Some req)
  let ?r = "cuc_GetCharactersList (characterStorage srv parse) (chr_Size req) (chr_Start req) (userID u)
      (chr_Search req) m"
  obtain r m1 where r: "?r = (r, m1)" by fastforce
  have "r = Inr (Some cs) \<and> m1 = m'"
    using assms Some r by (auto simp: h_GetCharactersList_def split: sum.splits if_splits)
  with r show ?thesis
    using that [OF Some]
    by (simp add: cuc_GetCharactersList_def character_lists_def characterStorage_def split: if_splits)
qed

lemma character_answer:
  assumes "h_GetCharacterByMongoId repo var (Some u) m = (Return (200, OkBody (BodyCharacter c)), m')"
  shows "ch_UserID c = ''*'' \<or> ch_UserID c = itoa (userID u)"
  using assms
  by (auto simp: h_GetCharacterByMongoId_def cuc_GetCharacterByMongoId_def
      split: option.splits if_splits prod.splits go.splits sum.splits)

lemma user_creature_answer:
  assumes "h_GetUserCreatureByName repo nm (Some u) m = (Return (200, OkBody (BodyCreature c)), m')"
  shows "cr_UserID c = itoa (userID u)"
  using assms
  by (auto simp: h_GetUserCreatureByName_def buc_GetUserCreatureByEngName_def
      split: option.splits if_splits prod.splits go.splits sum.splits)

lemma tiles_answer:
  assumes "h_GetCategories (mapTilesStorage srv) (Some u) m = (Return (200, OkBody (BodyCategories (Some cs))), m')"
  shows "tsto_GetCategories srv (userID u) m = (Inr (Some cs), m')"
  using assms
  by (auto simp: h_GetCategories_def tuc_GetCategories_def mapTilesStorage_def
      split: prod.splits sum.splits if_splits)

text \<open>
  C36. Whatever the requests, the documents and the faults of the server: the lists of a user's
  creatures, characters and tiles show only documents owned by the user (or, for characters
  and tiles, shared as \<open>*\<close>), with at most the requested number; a creature or a character asked
  for by its name or id is answered only to its owner, or to everybody if it is shared.
\<close>

theorem personal_documents:
  assumes "server_ok srv"
  shows "(h_GetUserCreaturesList (bestiaryStorage srv) body (Some u) m =
        (Return (200, OkBody (BodyCreatures (Some cs))), m1) \<longrightarrow>
      set cs \<subseteq> own_creatures (userID u) m \<and>
      (\<exists>req. decoded j_bestiary_req body = Some req \<and> int (length cs) \<le> br_Size req)) \<and>
    (h_GetUserCreatureByName (bestiaryStorage srv) nm (Some u) m =
        (Return (200, OkBody (BodyCreature cr)), m2) \<longrightarrow> cr_UserID cr = itoa (userID u)) \<and>
    (h_GetCharactersList (characterStorage srv parse) body (Some u) m =
        (Return (200, OkBody (BodyCharacters (Some ss))), m3) \<longrightarrow>
      set ss \<subseteq> own_characters (userID u) m \<and>
      (\<exists>req. decoded j_character_req body = Some req \<and> int (length ss) \<le> chr_Size req)) \<and>
    (h_GetCharacterByMongoId (characterStorage srv parse) var (Some u) m =
        (Return (200, OkBody (BodyCharacter ch)), m4) \<longrightarrow>
      ch_UserID ch = ''*'' \<or> ch_UserID ch = itoa (userID u)) \<and>
    (h_GetCategories (mapTilesStorage srv) (Some u) m =
        (Return (200, OkBody (BodyCategories (Some ts))), m5) \<longrightarrow> set ts \<subseteq> own_categories (userID u) m)"
proof (rule conjI [OF impI conjI [OF impI conjI [OF impI conjI [OF impI impI]]]])
  assume a: "h_GetUserCreaturesList (bestiaryStorage srv) body (Some u) m =
        (Return (200, OkBody (BodyCreatures (Some cs))), m1)"
  show "set cs \<subseteq> own_creatures (userID u) m \<and>
      (\<exists>req. decoded j_bestiary_req body = Some req \<and> int (length cs) \<le> br_Size req)"
    using user_creatures_page [OF a] bl.personal [OF assms] by metis
next
  assume a: "h_GetCharactersList (characterStorage srv parse) body (Some u) m =
        (Return (200, OkBody (BodyCharacters (Some ss))), m3)"
  show "set ss \<subseteq> own_characters (userID u) m \<and>
      (\<exists>req. decoded j_character_req body = Some req \<and> int (length ss) \<le> chr_Size req)"
    using characters_page [OF a] cl.personal [OF assms] by metis
next
  assume "h_GetCategories (mapTilesStorage srv) (Some u) m =
        (Return (200, OkBody (BodyCategories (Some ts))), m5)"
  then show "set ts \<subseteq> own_categories (userID u) m"
    by (rule categories_own [OF assms tiles_answer])
qed (rule user_creature_answer, assumption, rule character_answer, assumption)

theorem personal_documents_witness:
  "h_GetCategories (mapTilesStorage demo_server) (Some (demo_user 1)) demo_mongo =
     (Return (200, OkBody (BodyCategories (Some [demo_category]))), demo_mongo) \<and>
   demo_category \<in> own_categories 1 demo_mongo"
proof -
  have "set [demo_category] \<subseteq> own_categories (userID (demo_user 1)) demo_mongo"
    using personal_documents [OF demo_server_ok, of None "demo_user 1" demo_mongo] demo_tiles by blast
  then show ?thesis using demo_tiles by (simp add: demo_user_def)
qed

end
