(* ===== verification/BestiaryRun.thy ===== *)
theory BestiaryRun
  imports DocumentsRun ActionValue
begin

text \<open>
  Generated creatures: what is added is read back by its id; what an explicit id lets a user do
  to others; and the texts of the actions.
\<close>

section \<open>Images\<close>

definition image_bytes :: "string \<Rightarrow> string option" where
  "image_bytes img =
     (let parts = split_on (CHR '','') img
      in if length parts = 2 then base64_decode (parts ! 1) else None)"

definition stored :: "string \<Rightarrow> string \<Rightarrow> bucket \<Rightarrow> bucket" where
  "stored nm bytes s = s\<lparr>objects_of := AList.update nm bytes (objects_of s)\<rparr>"

lemma upload_ok:
  assumes "image_bytes img = Some bytes" and "put_outcomes s = []"
  shows "\<exists>url. s3_UploadImage b img nm s = (Inr url, stored nm bytes s)"
  using assms
  by (auto simp: image_bytes_def s3_UploadImage_def PutObject_def stored_def Let_def split: if_splits)

lemma stored_simps [simp]:
  "put_outcomes (stored nm bytes s) = put_outcomes s"
  "map_of (objects_of (stored nm bytes s)) k = (if k = nm then Some bytes else map_of (objects_of s) k)"
  by (simp_all add: stored_def update_conv')

definition rect_name :: "string \<Rightarrow> string" where
  "rect_name i = ''generated-creature-images/processed/'' @ i @ ''.webp''"

definition token_name :: "string \<Rightarrow> string" where
  "token_name i = ''generated-creature-images/tokens/'' @ i @ ''.webp''"

lemma rect_neq_token: "rect_name i \<noteq> token_name i"
  by (simp add: rect_name_def token_name_def)

section \<open>Adding and reading\<close>

lemma mongo_up: "mongo_outcomes m = [] \<Longrightarrow> mongo_call m = (Served, m)"
  by (simp add: mongo_call_def)

lemma creature_document:
  "map_of (present (creature_fields c)) ''url'' = Some (BStr (cr_URL c))"
  "cr_ID c \<noteq> nil_oid \<Longrightarrow> map_of (present (creature_fields c)) ''_id'' = Some (BOid (cr_ID c))"
  "cr_UserID c \<noteq> [] \<Longrightarrow> map_of (present (creature_fields c)) ''userID'' = Some (BStr (cr_UserID c))"
  "r_creature (present (creature_fields c)) = Some (tidy_creature c)"
  "r_bestiary_creature (present (creature_fields c)) = Some (short_of c)"
  using read_creature [of c] read_short [of c]
  by (simp_all add: map_of_present distinct_creature_fields creature_field omit_str_def w_creature_def)

lemma add_creature:
  assumes "mongo_outcomes m = []" and "cr_ID c \<noteq> nil_oid"
  shows "bsto_AddGeneratedCreature c m =
    (if list_ex (\<lambda>d. map_of d ''_id'' = Some (BOid (cr_ID c))) (generated_creatures m)
     then (Inl InsertMongoDataErr, m)
     else (Inr (), m\<lparr>generated_creatures := generated_creatures m @ [present (creature_fields c)]\<rparr>))"
  using assms
  by (simp add: bsto_AddGeneratedCreature_def mongo_InsertOne_def ensure_id_def creature_document mongo_up)

lemma values_url: "values_at ''url'' (BDoc d) = (case map_of d ''url'' of None \<Rightarrow> [] | Some v \<Rightarrow> [v])"
  by (simp add: values_at_def split: option.split)

definition has_url :: "string \<Rightarrow> document \<Rightarrow> bool" where
  "has_url s d \<longleftrightarrow> (case map_of d ''url'' of None \<Rightarrow> False | Some v \<Rightarrow> BStr (creature_url s) \<in> set (candidates v))"

lemma matches_url: "matches rx [(''url'', Equals (BStr (creature_url s)))] = has_url s"
  by (simp add: fun_eq_iff matches_def values_url has_url_def split: option.split)

lemma read_added:
  assumes "mongo_outcomes m = []" and "cr_URL c = creature_url s"
    and "\<not> list_ex (has_url s) (generated_creatures m)"
  shows "bsto_GetCreatureByEngName srv s True
      (m\<lparr>generated_creatures := generated_creatures m @ [present (creature_fields c)]\<rparr>) =
    (Inr (Some (tidy_creature c)),
     m\<lparr>generated_creatures := generated_creatures m @ [present (creature_fields c)]\<rparr>)"
proof -
  let ?d = "present (creature_fields c)"
  have "has_url s ?d" using assms(2) by (simp add: has_url_def creature_document)
  moreover have "find (has_url s) (generated_creatures m) = None"
    using assms(3) by (simp add: find_None_iff list_ex_iff)
  ultimately have "find (has_url s) (generated_creatures m @ [?d]) = Some ?d"
    by (simp add: find_append)
  then show ?thesis
    using assms(1)
    by (simp add: bsto_GetCreatureByEngName_def mongo_FindOne_def mongo_call_def bcollection_def
        matches_url creature_document)
qed

text \<open>A request with an explicit id and two proper images on healthy stores.\<close>

lemma add_explicit:
  assumes "decoded j_creature_input body = Some inp" and "ObjectIDFromHex (ci_ID inp) = Some i"
    and "i \<noteq> nil_oid" and "nm_Eng (cr_Name (ci_Creature inp)) \<noteq> []"
    and "image_bytes (ci_ImageBase64 inp) = Some rect" and "image_bytes (ci_ImageBase64Circle inp) = Some tok"
    and "mongo_outcomes m = []" and "put_outcomes s = []"
  obtains c where "cr_ID c = i" and "cr_URL c = creature_url i" and "cr_UserID c = cr_UserID (ci_Creature inp)"
    and "h_AddGeneratedCreature (bestiaryStorage srv) b new_id body (Some u) (m, s) =
      (case bsto_AddGeneratedCreature c m of
         (r, m1) \<Rightarrow>
           (Return (case r of Inl _ \<Rightarrow> SendErrResponse StatusInternalServerError ErrInternalServer
                    | Inr _ \<Rightarrow> SendOk NullBody), (m1, stored (token_name i) tok (stored (rect_name i) rect s))))"
proof -
  have len: "length (ci_ID inp) = 24"
    using assms(2) by (simp add: ObjectIDFromHex_def split: if_splits)
  then have g: "given_id new_id (userID u) inp = Inr ((ci_Creature inp)\<lparr>cr_ID := i\<rparr>)"
    using assms(2) by (auto simp: given_id_def)
  obtain url1 where u1: "s3_UploadImage b (ci_ImageBase64 inp) (rect_name i) s =
      (Inr url1, stored (rect_name i) rect s)"
    using upload_ok [OF assms(5,8)] by blast
  obtain url2 where u2: "s3_UploadImage b (ci_ImageBase64Circle inp) (token_name i) (stored (rect_name i) rect s) =
      (Inr url2, stored (token_name i) tok (stored (rect_name i) rect s))"
    using upload_ok [OF assms(6), of "stored (rect_name i) rect s"] assms(8) by auto
  let ?c = "(ci_Creature inp)\<lparr>cr_ID := i, cr_URL := creature_url i,
    cr_Images := Some (items (cr_Images (ci_Creature inp)) @ [url2, url1, url1])\<rparr>"
  have uc: "buc_AddGeneratedCreature (bestiaryStorage srv) b new_id inp (userID u) (m, s) =
      (case bsto_AddGeneratedCreature ?c m of
         (r, m1) \<Rightarrow> (r, (m1, stored (token_name i) tok (stored (rect_name i) rect s))))"
    using assms(4) u1 [unfolded rect_name_def] u2 [unfolded rect_name_def token_name_def]
    by (simp add: buc_AddGeneratedCreature_def g bestiaryStorage_def rect_name_def token_name_def)
  have e: "r = Inl e \<Longrightarrow> e = InsertMongoDataErr" if "bsto_AddGeneratedCreature ?c m = (r, m1)" for r e m1
    using that by (auto simp: bsto_AddGeneratedCreature_def split: prod.splits sum.splits)
  show ?thesis
  proof (rule that [of ?c])
    show "h_AddGeneratedCreature (bestiaryStorage srv) b new_id body (Some u) (m, s) =
      (case bsto_AddGeneratedCreature ?c m of
         (r, m1) \<Rightarrow>
           (Return (case r of Inl _ \<Rightarrow> SendErrResponse StatusInternalServerError ErrInternalServer
                    | Inr _ \<Rightarrow> SendOk NullBody), (m1, stored (token_name i) tok (stored (rect_name i) rect s))))"
      using assms(1) uc e by (auto simp: h_AddGeneratedCreature_def split: prod.splits sum.splits)
  qed simp_all
qed

section \<open>A request\<close>

text \<open>User 1 adds a creature with an id and the owner 2; the images are the bytes ABC.\<close>

definition demo_body :: "json option" where
  "demo_body = Some (JObj [(''_id'', JStr demo_oid), (''imageBase64'', JStr ''webp,QUJD''),
     (''imageBase64Circle'', JStr ''webp,QUJD''), (''name'', JObj [(''eng'', JStr ''Goblin'')]),
     (''userID'', JStr ''2'')])"

definition demo_input :: creature_input where
  "demo_input = \<lparr>ci_ID = demo_oid, ci_ImageBase64 = ''webp,QUJD'', ci_ImageBase64Circle = ''webp,QUJD'',
     ci_Creature = zero_creature\<lparr>cr_Name := \<lparr>nm_Rus = [], nm_Eng = ''Goblin''\<rparr>, cr_UserID := ''2''\<rparr>\<rparr>"

lemma demo_fold:
  "fold_name ''_id'' = ''_id''"
  "fold_name ''imageBase64'' = ''imagebase64''"
  "fold_name ''imageBase64Circle'' = ''imagebase64circle''"
  "fold_name ''name'' = ''name''"
  "fold_name ''size'' = ''size''"
  "fold_name ''type'' = ''type''"
  "fold_name ''challengeRating'' = ''challengerating''"
  "fold_name ''url'' = ''url''"
  "fold_name ''source'' = ''source''"
  "fold_name ''id'' = ''id''"
  "fold_name ''experience'' = ''experience''"
  "fold_name ''proficiencyBonus'' = ''proficiencybonus''"
  "fold_name ''alignment'' = ''alignment''"
  "fold_name ''armorClass'' = ''armorclass''"
  "fold_name ''armorText'' = ''armortext''"
  "fold_name ''armors'' = ''armors''"
  "fold_name ''hits'' = ''hits''"
  "fold_name ''speed'' = ''speed''"
  "fold_name ''ability'' = ''ability''"
  "fold_name ''savingThrows'' = ''savingthrows''"
  "fold_name ''skills'' = ''skills''"
  "fold_name ''damageVulnerabilities'' = ''damagevulnerabilities''"
  "fold_name ''damageResistances'' = ''damageresistances''"
  "fold_name ''conditionImmunities'' = ''conditionimmunities''"
  "fold_name ''damageImmunities'' = ''damageimmunities''"
  "fold_name ''senses'' = ''senses''"
  "fold_name ''languages'' = ''languages''"
  "fold_name ''feats'' = ''feats''"
  "fold_name ''actions'' = ''actions''"
  "fold_name ''bonusActions'' = ''bonusactions''"
  "fold_name ''legendary'' = ''legendary''"
  "fold_name ''reactions'' = ''reactions''"
  "fold_name ''description'' = ''description''"
  "fold_name ''tags'' = ''tags''"
  "fold_name ''images'' = ''images''"
  "fold_name ''environment'' = ''environment''"
  "fold_name ''attacksLLM'' = ''attacksllm''"
  "fold_name ''userID'' = ''userid''"
  "fold_name ''rus'' = ''rus''"
  "fold_name ''eng'' = ''eng''"
  by code_simp+

lemma demo_zero:
  "j_creature_size [] = Some zero_creature_size"
  "j_creature_type [] = Some zero_creature_type"
  "j_source_group [] = Some zero_source_group"
  "j_source [] = Some zero_source"
  "j_hits [] = Some zero_hits"
  "j_ability [] = Some zero_ability"
  "j_senses [] = Some zero_senses"
  "j_legendary [] = Some zero_legendary"
  by (simp_all add: str_field_def int_field_def slice_field_def obj_field_def any_field_def
      j_creature_size_def zero_creature_size_def
      j_creature_type_def zero_creature_type_def
      j_source_group_def zero_source_group_def
      j_source_def zero_source_def
      j_hits_def zero_hits_def
      j_ability_def zero_ability_def
      j_senses_def zero_senses_def
      j_legendary_def zero_legendary_def)

lemma demo_input: "decoded j_creature_input demo_body = Some demo_input"
  by (simp add: decoded_def demo_body_def j_creature_input_def j_creature_def str_field_def int_field_def
      slice_field_def obj_field_def oid_field_def demo_fold j_creature_name_def demo_zero zero_creature_def
      demo_input_def del: fold_name.simps)

lemma demo_image: "image_bytes ''webp,QUJD'' = Some ''ABC''"
  by code_simp

lemma demo_given:
  "ci_ID demo_input = demo_oid" "nm_Eng (cr_Name (ci_Creature demo_input)) \<noteq> []"
  "image_bytes (ci_ImageBase64 demo_input) = Some ''ABC''"
  "image_bytes (ci_ImageBase64Circle demo_input) = Some ''ABC''"
  "cr_UserID (ci_Creature demo_input) = itoa (userID (demo_user 2))"
  "mongo_outcomes demo_mongo = []" "generated_creatures demo_mongo = []" "creatures demo_mongo = []"
  "characters demo_mongo = []"
  by (simp_all add: demo_input_def demo_image demo_user_def demo_mongo_def itoa_def length_ndigits_small digit_def)

definition demo_bucket :: bucket where
  "demo_bucket = \<lparr>objects_of = [], put_outcomes = []\<rparr>"

section \<open>The properties\<close>

text \<open>
  C37. A creature that is added with an explicit id keeps the owner its sender wrote into it:
  any user can put a creature into the collection of another, who then gets it as an own one.
\<close>

theorem creature_planted:
  assumes "decoded j_creature_input body = Some inp" and "ObjectIDFromHex (ci_ID inp) = Some i"
    and "i \<noteq> nil_oid" and "nm_Eng (cr_Name (ci_Creature inp)) \<noteq> []"
    and "image_bytes (ci_ImageBase64 inp) \<noteq> None" and "image_bytes (ci_ImageBase64Circle inp) \<noteq> None"
    and "mongo_outcomes m = []" and "put_outcomes s = []"
    and "\<not> list_ex (\<lambda>d. map_of d ''_id'' = Some (BOid i) \<or> has_url i d) (generated_creatures m)"
    and "cr_UserID (ci_Creature inp) = itoa (userID victim)"
  shows "\<exists>m' s' c. h_AddGeneratedCreature (bestiaryStorage srv) b new_id body (Some attacker) (m, s) =
      (Return (200, NullBody), (m', s')) \<and>
    h_GetUserCreatureByName (bestiaryStorage srv) i (Some victim) m' =
      (Return (200, OkBody (BodyCreature c)), m') \<and>
    short_of c \<in> own_creatures (userID victim) m'"
proof -
  obtain rect tok where "image_bytes (ci_ImageBase64 inp) = Some rect"
      and "image_bytes (ci_ImageBase64Circle inp) = Some tok"
    using assms(5,6) by blast
  then obtain c where c: "cr_ID c = i" "cr_URL c = creature_url i" "cr_UserID c = itoa (userID victim)"
    and h: "h_AddGeneratedCreature (bestiaryStorage srv) b new_id body (Some attacker) (m, s) =
      (case bsto_AddGeneratedCreature c m of
         (r, m1) \<Rightarrow>
           (Return (case r of Inl _ \<Rightarrow> SendErrResponse StatusInternalServerError ErrInternalServer
                    | Inr _ \<Rightarrow> SendOk NullBody), (m1, stored (token_name i) tok (stored (rect_name i) rect s))))"
    using add_explicit [OF assms(1-4) _ _ assms(7,8)] assms(10) by metis
  let ?m = "m\<lparr>generated_creatures := generated_creatures m @ [present (creature_fields c)]\<rparr>"
  have new: "\<not> list_ex (\<lambda>d. map_of d ''_id'' = Some (BOid i)) (generated_creatures m)"
      "\<not> list_ex (has_url i) (generated_creatures m)"
    using assms(9) by (auto simp: list_ex_iff)
  have 1: "h_AddGeneratedCreature (bestiaryStorage srv) b new_id body (Some attacker) (m, s) =
      (Return (200, NullBody), (?m, stored (token_name i) tok (stored (rect_name i) rect s)))"
    using h new(1) c(1) assms(3) by (simp add: add_creature [OF assms(7)] StatusOk_def)
  have "cr_UserID (tidy_creature c) = itoa (userID victim)" using c(3) by (simp add: tidy_creature_def)
  then have 2: "h_GetUserCreatureByName (bestiaryStorage srv) i (Some victim) ?m =
      (Return (200, OkBody (BodyCreature (tidy_creature c))), ?m)"
    using read_added [OF assms(7) c(2) new(2), of srv]
    by (simp add: h_GetUserCreatureByName_def buc_GetUserCreatureByEngName_def bestiaryStorage_def StatusOk_def)
  have "owned_by [itoa (userID victim)] (present (creature_fields c))"
    using c(3) by (simp add: owned_by_def creature_document)
  moreover have "short_of (tidy_creature c) = short_of c" by (simp add: short_of_def tidy_creature_def)
  ultimately have "short_of (tidy_creature c) \<in> own_creatures (userID victim) ?m"
    using creature_document(5) [of c] by (auto simp: own_creatures_def)
  with 1 2 show ?thesis by blast
qed

theorem creature_planted_witness:
  "\<exists>m' s' c. h_AddGeneratedCreature (bestiaryStorage demo_server) ''b'' [] demo_body (Some (demo_user 1))
      (demo_mongo, demo_bucket) = (Return (200, NullBody), (m', s')) \<and>
    h_GetUserCreatureByName (bestiaryStorage demo_server) demo_oid (Some (demo_user 2)) m' =
      (Return (200, OkBody (BodyCreature c)), m') \<and>
    short_of c \<in> own_creatures (userID (demo_user 2)) m'"
  by (rule creature_planted [OF demo_input])
    (simp_all add: demo_given demo_oid demo_bucket_def)

text \<open>
  The images are stored before the creature is inserted: a request with the id of a
  creature that already exists, whoever owns it, is answered with 500 and leaves the
  collection as it is, but both images of the creature are the sender's.
\<close>

theorem images_overwritten:
  assumes "decoded j_creature_input body = Some inp" and "ObjectIDFromHex (ci_ID inp) = Some i"
    and "i \<noteq> nil_oid" and "nm_Eng (cr_Name (ci_Creature inp)) \<noteq> []"
    and "image_bytes (ci_ImageBase64 inp) = Some rect" and "image_bytes (ci_ImageBase64Circle inp) = Some tok"
    and "mongo_outcomes m = []" and "put_outcomes s = []"
    and "d \<in> set (generated_creatures m)" and "map_of d ''_id'' = Some (BOid i)"
  shows "\<exists>m' s'. h_AddGeneratedCreature (bestiaryStorage srv) b new_id body (Some attacker) (m, s) =
      (Return (500, ErrBody ErrInternalServer), (m', s')) \<and>
    generated_creatures m' = generated_creatures m \<and>
    map_of (objects_of s') (rect_name i) = Some rect \<and> map_of (objects_of s') (token_name i) = Some tok"
proof -
  obtain c where c: "cr_ID c = i"
    and h: "h_AddGeneratedCreature (bestiaryStorage srv) b new_id body (Some attacker) (m, s) =
      (case bsto_AddGeneratedCreature c m of
         (r, m1) \<Rightarrow>
           (Return (case r of Inl _ \<Rightarrow> SendErrResponse StatusInternalServerError ErrInternalServer
                    | Inr _ \<Rightarrow> SendOk NullBody), (m1, stored (token_name i) tok (stored (rect_name i) rect s))))"
    using add_explicit [OF assms(1-8)] by metis
  have "list_ex (\<lambda>d. map_of d ''_id'' = Some (BOid (cr_ID c))) (generated_creatures m)"
    using assms(9,10) c by (auto simp: list_ex_iff)
  then show ?thesis
    using h c assms(3) rect_neq_token [of i]
    by (simp add: add_creature [OF assms(7)] StatusInternalServerError_def)
qed

theorem images_overwritten_witness:
  "\<exists>m' s'. h_AddGeneratedCreature (bestiaryStorage demo_server) ''b'' [] demo_body (Some (demo_user 1))
      (demo_mongo\<lparr>generated_creatures := [[(''_id'', BOid demo_oid)]]\<rparr>, demo_bucket) =
      (Return (500, ErrBody ErrInternalServer), (m', s')) \<and>
    generated_creatures m' = [[(''_id'', BOid demo_oid)]] \<and>
    map_of (objects_of s') (rect_name demo_oid) = Some ''ABC'' \<and>
    map_of (objects_of s') (token_name demo_oid) = Some ''ABC''"
  using images_overwritten [OF demo_input, of demo_oid "''ABC''" "''ABC''"
      "demo_mongo\<lparr>generated_creatures := [[(''_id'', BOid demo_oid)]]\<rparr>" demo_bucket "[(''_id'', BOid demo_oid)]"]
  by (simp add: demo_given demo_oid demo_bucket_def)

text \<open>
  A name or an id that does not exist is a 500 for the own creatures and the characters:
  the repositories answer nil without an error, and the permission check dereferences it. Only
  the public bestiary gives the 400 all three handlers have for this case.
\<close>

theorem missing_documents:
  assumes "mongo_outcomes m = []" and "\<not> list_ex (has_url nm) (generated_creatures m @ creatures m)"
    and "ObjectIDFromHex i = Some j"
    and "\<not> list_ex (matches (regex_match srv) [(''_id'', Equals (BOid j))]) (characters m)"
  shows "RecoveryMiddleware (h_GetUserCreatureByName (bestiaryStorage srv) nm (Some u)) m =
      (Return (500, TextBody ErrInternalServer), m) \<and>
    RecoveryMiddleware (h_GetCharacterByMongoId (characterStorage srv parse) (Some i) (Some u)) m =
      (Return (500, TextBody ErrInternalServer), m) \<and>
    RecoveryMiddleware (h_GetCreatureByName (bestiaryStorage srv) nm) m =
      (Return (400, ErrBody ErrCreatureNotFound), m)"
proof -
  have none: "find (has_url nm) (generated_creatures m) = None" "find (has_url nm) (creatures m) = None"
      "find (matches (regex_match srv) [(''_id'', Equals (BOid j))]) (characters m) = None"
    using assms(2,4) by (auto simp: find_None_iff list_ex_iff)
  have "i \<noteq> []" using assms(3) by (auto simp: ObjectIDFromHex_def)
  then show ?thesis
    using assms(1,3) none
    by (simp add: RecoveryMiddleware_def h_GetUserCreatureByName_def buc_GetUserCreatureByEngName_def
        h_GetCreatureByName_def buc_GetCreatureByEngName_def bestiaryStorage_def
        bsto_GetCreatureByEngName_def bcollection_def mongo_FindOne_def mongo_up matches_url
        h_GetCharacterByMongoId_def cuc_GetCharacterByMongoId_def characterStorage_def
        csto_GetCharacterByMongoId_def status_defs)
qed

theorem missing_documents_witness:
  "RecoveryMiddleware (h_GetUserCreatureByName (bestiaryStorage demo_server) ''none'' (Some (demo_user 1)))
      demo_mongo = (Return (500, TextBody ErrInternalServer), demo_mongo) \<and>
   RecoveryMiddleware (h_GetCharacterByMongoId (characterStorage demo_server (\<lambda>_. None)) (Some demo_oid)
      (Some (demo_user 1))) demo_mongo = (Return (500, TextBody ErrInternalServer), demo_mongo)"
  using missing_documents [of demo_mongo "''none''" demo_oid demo_oid demo_server "demo_user 1" "\<lambda>_. None"]
  by (simp add: demo_given demo_oid)

text \<open>
  Whoever asks for every book is refused by the server: the slice of the books to leave out is
  nil, and \<open>$nin\<close> needs an array.
\<close>

lemma every_book_refused:
  assumes "set defaultBooks \<subseteq> set (items (fp_Book f))"
  shows "\<not> filter_ok srv (buildTypesFilters f @ q)"
    and "fst (bsto_GetCreaturesList srv siz start rs f search m) \<noteq> Inr (Some cs)"
proof -
  have b: "filterBook (items (fp_Book f)) = [(''source.shortName'', NotIn None)]"
  proof -
    have "items (fp_Book f) \<noteq> []" using assms by (auto simp: defaultBooks_def)
    moreover have "filter (\<lambda>b. b \<notin> set (items (fp_Book f))) defaultBooks = []"
      using assms by (auto simp: filter_empty_conv)
    ultimately show ?thesis by (simp add: filterBook_def excludeBooks_def Let_def)
  qed
  then show refused: "\<not> filter_ok srv (buildTypesFilters f @ q)" for q
    by (simp add: filter_ok_def buildTypesFilters_def)
  have "mongo_Find srv coll (buildTypesFilters f @ q) fo m = (Inl MongoError, snd (mongo_call m))" for coll q fo
    using refused [of q] by (simp add: mongo_Find_def Let_def split: prod.split outcome.split)
  then show "fst (bsto_GetCreaturesList srv siz start rs f search m) \<noteq> Inr (Some cs)"
    by (simp add: bsto_GetCreaturesList_def bsto_getCreaturesList_def split: option.split sum.split)
qed

section \<open>Action texts\<close>

text \<open>
  A bonus of one digit is three bytes with the character before it, so the byte taken for the
  sign is that character: plus and minus give the same formula. With two digits the sign is right.
\<close>

lemma bonus_sign_lost:
  assumes "r \<noteq> []" and "is_digit d" and "is_digit e"
  shows "attack_formula (r @ ''+'' @ d) = attack_formula (r @ ''-'' @ d)"
    and "attack_formula (r @ ''+'' @ d @ e) = d20_text @ ''+ '' @ d @ e"
    and "attack_formula (r @ ''-'' @ d @ e) = d20_text @ ''- '' @ d @ e"
proof -
  obtain c where d: "d = [c]" "48 \<le> code c"
    using assms(2) by (auto simp: is_digit_def split: list.splits)
  then have c: "c \<noteq> CHR ''+''" "c \<noteq> CHR ''-''" by (auto simp: code_def)
  obtain c' where e: "e = [c']"
    using assms(3) by (auto simp: is_digit_def split: list.splits)
  obtain r' z where r: "r = r' @ [z]" using assms(1) by (cases r rule: rev_cases) auto
  show "attack_formula (r @ ''+'' @ d) = attack_formula (r @ ''-'' @ d)"
    using d c by (simp add: attack_formula_def r nth_append Let_def)
  show "attack_formula (r @ ''+'' @ d @ e) = d20_text @ ''+ '' @ d @ e"
    and "attack_formula (r @ ''-'' @ d @ e) = d20_text @ ''- '' @ d @ e"
    using d c e by (simp_all add: attack_formula_def nth_append string_of_byte_def code_def Let_def)
qed

text \<open>The backslash of an escaped quote goes, the quote stays and ends the string.\<close>

lemma escapes_lost: "RemoveBackslashes (a @ [CHR 0x5C, CHR 0x22] @ b) = RemoveBackslashes (a @ [CHR 0x22] @ b)"
  by (simp add: RemoveBackslashes_def)

end
