(* ===== verification/CharacterRun.thy ===== *)
theory CharacterRun
  imports DocumentsRun
begin

text \<open>
  A character sheet that is accepted has the shape of \<open>CharacterData\<close>, whatever was uploaded,
  and is read back as it was decoded, but for the objects in fields of type \<open>interface{}\<close>.
\<close>

lemma wf_character_fields: "wf_fields character_fields"
  by (simp add: character_fields_def character_spells_shape_def character_data_shape_def
      character_name_shape_def data_info_shape_def char_class_shape_def character_level_shape_def
      character_race_shape_def data_sub_info_shape_def data_spells_info_shape_def data_spells_shape_def
      data_stats_shape_def data_saves_shape_def data_skills_shape_def data_vitality_shape_def
      data_weapons_list_shape_def data_weapons_shape_def data_text_shape_def data_coins_shape_def
      character_avatar_shape_def valued_def labelled_def)

lemma shape_elims:
  "has_shape SStr v \<longleftrightarrow> (\<exists>s. v = BStr s)"
  "has_shape (SStruct fs) v \<longleftrightarrow> (\<exists>d. v = BDoc d \<and> has_fields fs d)"
  "has_fields ((k, sh) # fs) d \<longleftrightarrow> (\<exists>v d'. d = (k, v) # d' \<and> has_shape sh v \<and> has_fields fs d')"
proof -
  show "has_shape SStr v \<longleftrightarrow> (\<exists>s. v = BStr s)" by (cases v) auto
  show "has_shape (SStruct fs) v \<longleftrightarrow> (\<exists>d. v = BDoc d \<and> has_fields fs d)" by (cases v) auto
  show "has_fields ((k, sh) # fs) d \<longleftrightarrow>
      (\<exists>v d'. d = (k, v) # d' \<and> has_shape sh v \<and> has_fields fs d')" by (cases d) auto
qed

lemma raw_fields:
  assumes "has_shape character_raw_shape raw"
  obtains t b p x j v where "at [''tags''] raw = t" "has_shape (SSlice SStr) t"
    and "at [''disabledBlocks''] raw = b" "has_shape (SMap SAny) b"
    and "at [''spells''] raw = p" "has_shape character_spells_shape p"
    and "at [''data''] raw = BStr x"
    and "at [''jsonType''] raw = BStr j" and "at [''version''] raw = BStr v"
proof -
  obtain t b p x j v where r: "raw = BDoc [(''tags'', t), (''disabledBlocks'', b), (''spells'', p),
      (''data'', BStr x), (''jsonType'', BStr j), (''version'', BStr v)]"
      "has_shape (SSlice SStr) t" "has_shape (SMap SAny) b" "has_shape character_spells_shape p"
    using assms
    by (auto simp: character_raw_shape_def shape_elims simp del: has_shape.simps has_fields.simps(2))
  show ?thesis by (rule that [of t b p x j v]) (use r in simp_all)
qed

definition added_character ::
    "string \<Rightarrow> int \<Rightarrow> bson \<Rightarrow> bson \<Rightarrow> character" where
  "added_character i uid rawChar v =
     \<lparr>ch_ID = i, ch_Fields =
        [(''userID'', BStr (itoa uid)), (''tags'', at [''tags''] rawChar),
         (''disabledBlocks'', at [''disabledBlocks''] rawChar), (''spells'', at [''spells''] rawChar),
         (''data'', v), (''jsonType'', at [''jsonType''] rawChar), (''version'', at [''version''] rawChar)]\<rparr>"

lemma static_parts: "static (SSlice SStr)" "static (SMap SAny)" "static character_spells_shape"
  by (simp_all add: character_spells_shape_def)

lemma read_character:
  assumes "has_shape character_raw_shape raw" and "has_shape character_data_shape v"
  shows "r_character (w_character (added_character i uid raw v)) =
    Some (added_character i uid raw (returned character_data_shape v))"
proof -
  let ?c = "added_character i uid raw v"
  obtain t b p x j w where r: "at [''tags''] raw = t" "has_shape (SSlice SStr) t"
    "at [''disabledBlocks''] raw = b" "has_shape (SMap SAny) b"
    "at [''spells''] raw = p" "has_shape character_spells_shape p"
    "at [''data''] raw = BStr x" "at [''jsonType''] raw = BStr j" "at [''version''] raw = BStr w"
    by (rule raw_fields [OF assms(1)])
  have "has_fields character_fields (ch_Fields ?c)"
    using r(2,4,6) assms(2)
    by (simp add: character_fields_def added_character_def shape_elims r(1,3,5,8,9)
        del: has_shape.simps has_fields.simps(2))
  then have "read_fields character_fields (w_character ?c) =
      Some (returned_fields character_fields (ch_Fields ?c))"
    by (rule read_own(2) [OF _ wf_character_fields]) (simp add: w_character_def added_character_def)
  moreover have "returned_fields character_fields (ch_Fields ?c) =
      ch_Fields (added_character i uid raw (returned character_data_shape v))"
    by (simp add: character_fields_def added_character_def r returned_static static_parts
        del: returned.simps(2,3))
  ultimately show ?thesis
    by (simp add: r_character_def bfield_def w_character_def added_character_def)
qed

text \<open>
  C38. On a healthy server an uploaded sheet that decodes is answered with 200; asked for by its
  new id, its owner gets a sheet that has the shape of \<open>CharacterData\<close>, every field of the struct
  with its type and no other, and is the decoded sheet as the driver reads it back: the objects
  in fields of type \<open>interface{}\<close> have become arrays of keys and values, everything else is as it
  was. A sheet with no object there is read back exactly.
\<close>

theorem character_stored:
  assumes "mongo_outcomes m = []" and "new_oids m = i # ids" and "ObjectIDFromHex i = Some i"
    and "\<not> list_ex (matches (regex_match srv) [(''_id'', Equals (BOid i))]) (characters m)"
    and "parse file \<bind> unmarshal_shape character_raw_shape = Some raw"
    and "text_of (at [''data''] raw) \<noteq> []"
    and "parse (RemoveBackslashes (text_of (at [''data''] raw))) \<bind> unmarshal_shape character_data_shape = Some v"
  shows "\<exists>m' c. h_AddCharacter (characterStorage srv parse) parse
        (CharacterFile ''application/json'' (Some file)) (Some u) m = (Return (200, NullBody), m') \<and>
      h_GetCharacterByMongoId (characterStorage srv parse) (Some i) (Some u) m' =
        (Return (200, OkBody (BodyCharacter c)), m') \<and>
      at [''data''] (BDoc (ch_Fields c)) = returned character_data_shape v \<and>
      (list_all no_document (dynamic character_data_shape v) \<longrightarrow> at [''data''] (BDoc (ch_Fields c)) = v) \<and>
      ch_UserID c = itoa (userID u) \<and>
      has_shape character_data_shape v \<and> has_shape character_data_shape (at [''data''] (BDoc (ch_Fields c)))"
proof -
  let ?c = "added_character i (userID u) raw v"
  let ?got = "added_character i (userID u) raw (returned character_data_shape v)"
  let ?d = "w_character ?c"
  let ?m = "m\<lparr>new_oids := ids, characters := characters m @ [?d]\<rparr>"
  have shapes: "has_shape character_raw_shape raw" "has_shape character_data_shape v"
    using assms(5,7) by (auto simp: unmarshal_shape_def bind_eq_Some_conv intro: decoded_shape(1))
  have val: "values_at ''_id'' (BDoc d) = (case map_of d ''_id'' of None \<Rightarrow> [] | Some v \<Rightarrow> [v])" for d
    by (simp add: values_at_def split: option.split)
  have idd: "map_of ?d ''_id'' = Some (BOid i)" by (simp add: w_character_def added_character_def)
  then have md: "matches (regex_match srv) [(''_id'', Equals (BOid i))] ?d"
    by (simp add: matches_def val)
  have none: "find (matches (regex_match srv) [(''_id'', Equals (BOid i))]) (characters m) = None"
    using assms(4) by (auto simp: find_None_iff list_ex_iff)
  have fresh: "\<not> list_ex (\<lambda>d. map_of d ''_id'' = Some (BOid i)) (characters m)"
    using assms(4) by (auto simp: list_ex_iff matches_def val)
  have "crepo_Add (characterStorage srv parse) raw (userID u) m = (Inr (), ?m)"
    using assms(1,2,7) fresh idd
    by (simp add: characterStorage_def csto_AddCharacter_def NewObjectID_def added_character_def [symmetric]
        mongo_InsertOne_def ensure_id_def mongo_call_def)
  then have 1: "h_AddCharacter (characterStorage srv parse) parse
        (CharacterFile ''application/json'' (Some file)) (Some u) m = (Return (200, NullBody), ?m)"
    using assms(5,6) by (simp add: h_AddCharacter_def cuc_AddCharacter_def StatusOk_def)
  have own: "ch_UserID ?got = itoa (userID u)" by (simp add: ch_UserID_def added_character_def)
  have "find (matches (regex_match srv) [(''_id'', Equals (BOid i))]) (characters m @ [?d]) = Some ?d"
    using none md by (simp add: find_append)
  moreover have "i \<noteq> []" using assms(3) by (auto simp: ObjectIDFromHex_def)
  ultimately have 2: "h_GetCharacterByMongoId (characterStorage srv parse) (Some i) (Some u) ?m =
        (Return (200, OkBody (BodyCharacter ?got)), ?m)"
    using assms(1,3) own read_character [OF shapes, of i "userID u"]
    by (simp add: h_GetCharacterByMongoId_def cuc_GetCharacterByMongoId_def characterStorage_def
        csto_GetCharacterByMongoId_def mongo_FindOne_def mongo_call_def StatusOk_def)
  have "at [''data''] (BDoc (ch_Fields ?got)) = returned character_data_shape v"
    by (simp add: added_character_def)
  with 1 2 own shapes returned_same(1) returned_shape(1) show ?thesis by metis
qed

text \<open>
  A sheet whose attacks are the object \<open>{type: doc}\<close>: its owner gets \<open>[{Key: type, Value: doc}]\<close>.
\<close>

definition demo_data :: json where
  "demo_data = JObj [(''text'', JObj [(''attacks'', JObj [(''value'', JObj [(''data'',
     JObj [(''type'', JStr ''doc'')])])])])]"

definition demo_parse :: "string \<Rightarrow> json option" where
  "demo_parse s = (if s = ''F'' then Some (JObj [(''data'', JStr ''D'')])
     else if s = ''D'' then Some demo_data else None)"

definition demo_raw :: bson where
  "demo_raw = BDoc [(''tags'', BNull), (''disabledBlocks'', BNull),
     (''spells'', zero_of character_spells_shape), (''data'', BStr ''D''), (''jsonType'', BStr []), (''version'', BStr [])]"

definition demo_value :: bson where
  "demo_value = the (unmarshal_shape character_data_shape demo_data)"

definition attacks_path :: "string list" where
  "attacks_path = [''text'', ''attacks'', ''value'', ''data'']"

lemma demo_sheet:
  "demo_parse ''F'' \<bind> unmarshal_shape character_raw_shape = Some demo_raw"
  "demo_parse ''D'' \<bind> unmarshal_shape character_data_shape = Some demo_value"
  by code_simp+

lemma demo_attacks:
  "at attacks_path demo_value = BDoc [(''type'', BStr ''doc'')]"
  "at attacks_path (returned character_data_shape demo_value) =
     BArr [BDoc [(''Key'', BStr ''type''), (''Value'', BStr ''doc'')]]"
  by code_simp+

lemma demo_text: "at [''data''] demo_raw = BStr ''D''"
  by (simp add: demo_raw_def)

theorem character_stored_witness:
  "\<exists>m' c. h_AddCharacter (characterStorage demo_server demo_parse) demo_parse
        (CharacterFile ''application/json'' (Some ''F'')) (Some (demo_user 1)) demo_mongo =
        (Return (200, NullBody), m') \<and>
      h_GetCharacterByMongoId (characterStorage demo_server demo_parse) (Some demo_oid) (Some (demo_user 1)) m' =
        (Return (200, OkBody (BodyCharacter c)), m') \<and>
      at attacks_path (at [''data''] (BDoc (ch_Fields c))) =
        BArr [BDoc [(''Key'', BStr ''type''), (''Value'', BStr ''doc'')]] \<and>
      ch_UserID c = itoa (userID (demo_user 1)) \<and>
      has_shape character_data_shape demo_value"
proof -
  obtain m' c where "h_AddCharacter (characterStorage demo_server demo_parse) demo_parse
        (CharacterFile ''application/json'' (Some ''F'')) (Some (demo_user 1)) demo_mongo =
        (Return (200, NullBody), m')"
      "h_GetCharacterByMongoId (characterStorage demo_server demo_parse) (Some demo_oid) (Some (demo_user 1)) m' =
        (Return (200, OkBody (BodyCharacter c)), m')"
      "at [''data''] (BDoc (ch_Fields c)) = returned character_data_shape demo_value"
      "ch_UserID c = itoa (userID (demo_user 1))" "has_shape character_data_shape demo_value"
    using character_stored [of demo_mongo demo_oid "[]" demo_server demo_parse "''F''" demo_raw demo_value
        "demo_user 1"]
    by (auto simp: demo_mongo_def demo_text RemoveBackslashes_def demo_sheet demo_oid(1))
  then show ?thesis using demo_attacks(2) by metis
qed

end
