(* ===== verification/Mux.thy ===== *)
theory Mux
  imports Prelude
begin

text \<open>
  The request router the program builds on, translated from its vendored source
  (\<open>vendor/github.com/gorilla/mux\<close>): templates of paths and their matching, routes with their
  matchers, nested routers with their middlewares, and the state \<open>RouteMatch\<close> that is threaded
  through all of them, with its errors.

  Left out: host, header, query and scheme matchers, patterns inside braces, strict slashes and
  encoded paths, none of which the program uses. A handler \<open>'h\<close> and a middleware \<open>'m\<close> are kept as
  names; a handler with middlewares around it is a chain.
\<close>

section \<open>Templates\<close>

text \<open>
  \<open>newRouteRegexp\<close>: braces delimit variables. The first argument is the level of braces, the
  second what has been read since the last piece, backwards.
\<close>

datatype piece = Lit string | Var string

fun pieces :: "nat \<Rightarrow> string \<Rightarrow> string \<Rightarrow> piece list option" where
  "pieces level buf [] = (if level = 0 then Some [Lit (rev buf)] else None)"
| "pieces level buf (c # cs) =
     (if c = CHR ''{'' then
        (if level = 0 then map_option (Cons (Lit (rev buf))) (pieces 1 [] cs)
         else pieces (level + 1) (c # buf) cs)
      else if c = CHR ''}'' then
        (if level = 0 then None
         else if level = 1 then
           (if buf = [] \<or> CHR '':'' \<in> set buf then None
            else map_option (Cons (Var (rev buf))) (pieces 0 [] cs))
         else pieces (level - 1) (c # buf) cs)
      else pieces level (c # buf) cs)"

definition newRouteRegexp :: "string \<Rightarrow> piece list option" where
  "newRouteRegexp tpl = pieces 0 [] tpl"

text \<open>
  The regular expression of a template, \<open>^\<close> the literals and a group \<open>[^/]+\<close> for each variable,
  closed by \<open>$\<close> unless it is a prefix: the variables of the leftmost match, each as long as
  possible.
\<close>

fun first_some :: "('a \<Rightarrow> 'b option) \<Rightarrow> 'a list \<Rightarrow> 'b option" where
  "first_some f [] = None"
| "first_some f (x # xs) = (case f x of None \<Rightarrow> first_some f xs | Some y \<Rightarrow> Some y)"

fun submatch :: "bool \<Rightarrow> piece list \<Rightarrow> string \<Rightarrow> (string \<times> string) list option" where
  "submatch prefix [] s = (if prefix \<or> s = [] then Some [] else None)"
| "submatch prefix (Lit l # ps) s =
     (if take (length l) s = l then submatch prefix ps (drop (length l) s) else None)"
| "submatch prefix (Var x # ps) s =
     first_some (\<lambda>n. map_option (Cons (x, take n s)) (submatch prefix ps (drop n s)))
       (rev [1..<Suc (length (takeWhile (\<lambda>c. c \<noteq> CHR ''/'') s))])"

section \<open>Routes and routers\<close>

datatype ('m, 'h) route =
    Route (matchers: "('m, 'h) matcher list") (handler: "'h option")
      (path_regexp: "(string \<times> piece list \<times> bool) option") (err: bool)
and ('m, 'h) matcher =
    RegexpMatcher bool "piece list" | MethodMatcher "string list" | RouterMatcher "('m, 'h) router"
and ('m, 'h) router =
    Router (routes: "('m, 'h) route list") (middlewares: "'m list")

text \<open>What a router copies into its routes and a route into its subrouter.\<close>

record ('m, 'h) route_conf =
  rc_path :: "(string \<times> piece list \<times> bool) option"
  rc_matchers :: "('m, 'h) matcher list"
  rc_err :: bool

definition NewRouter :: "('m, 'h) route_conf" where
  "NewRouter = \<lparr>rc_path = None, rc_matchers = [], rc_err = False\<rparr>"

definition TrimRight :: "string \<Rightarrow> string" where
  "TrimRight s = rev (dropWhile (\<lambda>c. c = CHR ''/'') (rev s))"

definition addRegexpMatcher :: "string \<Rightarrow> bool \<Rightarrow> ('m, 'h) route_conf \<Rightarrow> ('m, 'h) route_conf" where
  "addRegexpMatcher tpl prefix r =
     (if rc_err r then r
      else if tpl \<noteq> [] \<and> hd tpl \<noteq> CHR ''/'' then r\<lparr>rc_err := True\<rparr>
      else let tpl1 = (case rc_path r of Some (t, _) \<Rightarrow> TrimRight t @ tpl | None \<Rightarrow> tpl) in
        case newRouteRegexp tpl1 of
          None \<Rightarrow> r\<lparr>rc_err := True\<rparr>
        | Some ps \<Rightarrow> r\<lparr>rc_path := Some (tpl1, ps, prefix),
                        rc_matchers := rc_matchers r @ [RegexpMatcher prefix ps]\<rparr>)"

definition addMatcher :: "('m, 'h) matcher \<Rightarrow> ('m, 'h) route_conf \<Rightarrow> ('m, 'h) route_conf" where
  "addMatcher x r = (if rc_err r then r else r\<lparr>rc_matchers := rc_matchers r @ [x]\<rparr>)"

definition route_of :: "'h option \<Rightarrow> ('m, 'h) route_conf \<Rightarrow> ('m, 'h) route" where
  "route_of h r = Route (rc_matchers r) (if rc_err r then None else h) (rc_path r) (rc_err r)"

text \<open>\<open>router.HandleFunc(tpl, h).Methods(ms...)\<close>; the methods of the program are in upper case.\<close>

definition HandleFunc :: "string \<Rightarrow> 'h \<Rightarrow> string list \<Rightarrow> ('m, 'h) route_conf \<Rightarrow> ('m, 'h) route" where
  "HandleFunc tpl h ms c = route_of (Some h) (addMatcher (MethodMatcher ms) (addRegexpMatcher tpl False c))"

text \<open>\<open>router.PathPrefix(tpl).Handler(h)\<close>.\<close>

definition PrefixHandler :: "string \<Rightarrow> 'h \<Rightarrow> ('m, 'h) route_conf \<Rightarrow> ('m, 'h) route" where
  "PrefixHandler tpl h c = route_of (Some h) (addRegexpMatcher tpl True c)"

text \<open>
  \<open>router.PathPrefix(tpl).Subrouter()\<close> with its \<open>Use\<close> and the routes that are added to it: the
  subrouter starts from the configuration of the route.
\<close>

definition Subrouter ::
    "string \<Rightarrow> 'm list \<Rightarrow> (('m, 'h) route_conf \<Rightarrow> ('m, 'h) route list) \<Rightarrow> ('m, 'h) route_conf
     \<Rightarrow> ('m, 'h) route" where
  "Subrouter tpl mws body c =
     (let r = addRegexpMatcher tpl True c
      in route_of None (addMatcher (RouterMatcher (Router (body r) mws)) r))"

section \<open>Matching\<close>

datatype match_err = ErrMethodMismatch | ErrNotFound

datatype ('m, 'h) chain = Handler 'h | Middleware 'm "('m, 'h) chain"

record ('m, 'h) route_match =
  rm_Route :: "string option option"
  rm_Handler :: "('m, 'h) chain option"
  rm_Vars :: "(string \<times> string) list option"
  rm_MatchErr :: "match_err option"

definition no_match :: "('m, 'h) route_match" where
  "no_match = \<lparr>rm_Route = None, rm_Handler = None, rm_Vars = None, rm_MatchErr = None\<rparr>"

text \<open>\<open>setMatch\<close>: the variables of the route's own path.\<close>

definition setMatch :: "(string \<times> piece list \<times> bool) option \<Rightarrow> string \<Rightarrow> (string \<times> string) list
    \<Rightarrow> (string \<times> string) list" where
  "setMatch p path vars =
     (case p of None \<Rightarrow> vars
      | Some (_, ps, prefix) \<Rightarrow>
          (case submatch prefix ps path of None \<Rightarrow> vars | Some vs \<Rightarrow> rev vs @ vars))"

definition or_else :: "'a option \<Rightarrow> 'a option \<Rightarrow> 'a option" where
  "or_else x y = (case x of None \<Rightarrow> y | Some _ \<Rightarrow> x)"

text \<open>The end of \<open>Route.Match\<close>, when every matcher has been tried and none but of methods has failed.\<close>

definition matched ::
    "'h option \<Rightarrow> (string \<times> piece list \<times> bool) option \<Rightarrow> string \<Rightarrow> ('m, 'h) route_match
     \<Rightarrow> ('m, 'h) route_match" where
  "matched h p path m =
     (let m1 = (if rm_MatchErr m = Some ErrMethodMismatch \<and> h \<noteq> None
                then m\<lparr>rm_MatchErr := None, rm_Handler := map_option Handler h\<rparr> else m)
      in m1\<lparr>rm_Route := or_else (rm_Route m1) (Some (map_option fst p)),
            rm_Handler := or_else (rm_Handler m1) (map_option Handler h),
            rm_Vars := Some (setMatch p path (case rm_Vars m1 of None \<Rightarrow> [] | Some vs \<Rightarrow> vs))\<rparr>)"

definition wrap :: "'m list \<Rightarrow> ('m, 'h) route_match \<Rightarrow> ('m, 'h) route_match" where
  "wrap mws m =
     (if rm_MatchErr m = None then m\<lparr>rm_Handler := map_option (foldr Middleware mws) (rm_Handler m)\<rparr>
      else m)"

definition clear :: "match_err \<Rightarrow> ('m, 'h) route_match \<Rightarrow> ('m, 'h) route_match" where
  "clear e m = (if rm_MatchErr m = Some e then m\<lparr>rm_MatchErr := None\<rparr> else m)"

fun is_method :: "('m, 'h) matcher \<Rightarrow> bool" where
  "is_method (MethodMatcher ms) = True"
| "is_method x = False"

text \<open>
  \<open>match_all\<close> is the loop over the matchers: \<open>None\<close> when one of them ends it, otherwise the error
  of the methods, if any. The success of any matcher forgets a mismatch of methods of an
  earlier route.
\<close>

function (sequential)
  match_route :: "('m, 'h) route \<Rightarrow> string \<Rightarrow> string \<Rightarrow> ('m, 'h) route_match \<Rightarrow> bool \<times> ('m, 'h) route_match"
and match_all :: "('m, 'h) matcher list \<Rightarrow> string \<Rightarrow> string \<Rightarrow> match_err option \<Rightarrow> ('m, 'h) route_match
    \<Rightarrow> match_err option option \<times> ('m, 'h) route_match"
and match_one :: "('m, 'h) matcher \<Rightarrow> string \<Rightarrow> string \<Rightarrow> ('m, 'h) route_match \<Rightarrow> bool \<times> ('m, 'h) route_match"
and match_routes :: "('m, 'h) route list \<Rightarrow> 'm list \<Rightarrow> string \<Rightarrow> string \<Rightarrow> ('m, 'h) route_match
    \<Rightarrow> bool \<times> ('m, 'h) route_match"
where
  "match_route (Route ms h p e) meth path m =
     (if e then (False, m)
      else case match_all ms meth path None m of
        (None, m1) \<Rightarrow> (False, m1)
      | (Some (Some matchErr), m1) \<Rightarrow> (False, m1\<lparr>rm_MatchErr := Some matchErr\<rparr>)
      | (Some None, m1) \<Rightarrow> (True, matched h p path m1))"
| "match_all [] meth path matchErr m = (Some matchErr, m)"
| "match_all (x # xs) meth path matchErr m =
     (case match_one x meth path m of
        (False, m1) \<Rightarrow>
          (if is_method x then match_all xs meth path (Some ErrMethodMismatch) m1
           else (None, clear ErrNotFound m1))
      | (True, m1) \<Rightarrow> match_all xs meth path matchErr (clear ErrMethodMismatch m1))"
| "match_one (RegexpMatcher prefix ps) meth path m = (submatch prefix ps path \<noteq> None, m)"
| "match_one (MethodMatcher ms) meth path m = (meth \<in> set ms, m)"
| "match_one (RouterMatcher (Router rs mws)) meth path m = match_routes rs mws meth path m"
| "match_routes [] mws meth path m =
     (False, if rm_MatchErr m = Some ErrMethodMismatch then m else m\<lparr>rm_MatchErr := Some ErrNotFound\<rparr>)"
| "match_routes (r # rs) mws meth path m =
     (case match_route r meth path m of
        (True, m1) \<Rightarrow> (True, wrap mws m1)
      | (False, m1) \<Rightarrow> match_routes rs mws meth path m1)"
  by pat_completeness auto

termination
  by (relation "measure (\<lambda>x. case x of
        Inl (Inl (r, _)) \<Rightarrow> size r
      | Inl (Inr (ms, _)) \<Rightarrow> size_list size ms
      | Inr (Inl (x, _)) \<Rightarrow> size x
      | Inr (Inr (rs, _)) \<Rightarrow> size_list size rs)")
     auto

section \<open>Dispatching\<close>

text \<open>
  \<open>path.Clean\<close> of a rooted path, by its segments: empty ones and dots go, two dots take the
  segment before them along.
\<close>

fun split_slash :: "string \<Rightarrow> string \<Rightarrow> string list" where
  "split_slash buf [] = [rev buf]"
| "split_slash buf (c # cs) =
     (if c = CHR ''/'' then rev buf # split_slash [] cs else split_slash (c # buf) cs)"

fun clean_segments :: "string list \<Rightarrow> string list \<Rightarrow> string list" where
  "clean_segments acc [] = rev acc"
| "clean_segments acc (x # xs) =
     (if x = [] \<or> x = ''.'' then clean_segments acc xs
      else if x = ''..'' then clean_segments (tl acc) xs
      else clean_segments (x # acc) xs)"

definition Clean :: "string \<Rightarrow> string" where
  "Clean p =
     (let xs = clean_segments [] (split_slash [] p)
      in if xs = [] then ''/'' else concat (map (\<lambda>x. CHR ''/'' # x) xs))"

definition cleanPath :: "string \<Rightarrow> string" where
  "cleanPath p =
     (if p = [] then ''/''
      else let p1 = (if hd p \<noteq> CHR ''/'' then CHR ''/'' # p else p); np = Clean p1
        in if last p1 = CHR ''/'' \<and> np \<noteq> ''/'' then np @ ''/'' else np)"

datatype ('m, 'h) dispatch =
    Redirect string
  | Found "('m, 'h) chain" "string option" "(string \<times> string) list"
  | MethodNotAllowed
  | NotFound

definition ServeHTTP :: "('m, 'h) router \<Rightarrow> string \<Rightarrow> string \<Rightarrow> ('m, 'h) dispatch" where
  "ServeHTTP rt meth path =
     (if cleanPath path \<noteq> path then Redirect (cleanPath path)
      else case match_routes (routes rt) (middlewares rt) meth path no_match of
        (True, m) \<Rightarrow>
          (case rm_Handler m of
             Some c \<Rightarrow> Found c (case rm_Route m of Some t \<Rightarrow> t | None \<Rightarrow> None)
                         (case rm_Vars m of Some vs \<Rightarrow> vs | None \<Rightarrow> [])
           | None \<Rightarrow> (if rm_MatchErr m = Some ErrMethodMismatch then MethodNotAllowed else NotFound))
      | (False, m) \<Rightarrow>
          (if rm_MatchErr m = Some ErrMethodMismatch then MethodNotAllowed else NotFound))"

section \<open>Routers as lists\<close>

text \<open>
  A router whose routes copy the matchers of their ancestors decides like the list of its
  leaves: the first leaf all of whose matchers pass is the match, inside the middlewares of
  its ancestors. \<open>flat pre rs es\<close> says that \<open>es\<close> are the leaves of the routes \<open>rs\<close> of a router
  with the matchers \<open>pre\<close>.
\<close>

type_synonym ('m, 'h) leaf =
  "('m, 'h) matcher list \<times> 'h \<times> (string \<times> piece list \<times> bool) option \<times> 'm list"

fun passes :: "string \<Rightarrow> string \<Rightarrow> ('m, 'h) matcher \<Rightarrow> bool" where
  "passes meth path (RegexpMatcher prefix ps) = (submatch prefix ps path \<noteq> None)"
| "passes meth path (MethodMatcher ms) = (meth \<in> set ms)"
| "passes meth path (RouterMatcher r) = False"

fun is_router :: "('m, 'h) matcher \<Rightarrow> bool" where
  "is_router (RouterMatcher r) = True"
| "is_router x = False"

fun var_free :: "('m, 'h) matcher \<Rightarrow> bool" where
  "var_free (RegexpMatcher prefix ps) = (\<forall>p \<in> set ps. \<exists>l. p = Lit l)"
| "var_free x = False"

definition leaf_matches :: "string \<Rightarrow> string \<Rightarrow> ('m, 'h) leaf \<Rightarrow> bool" where
  "leaf_matches meth path lf = list_all (passes meth path) (fst lf)"

definition inside :: "'m list \<Rightarrow> ('m, 'h) leaf \<Rightarrow> ('m, 'h) leaf" where
  "inside ws = (\<lambda>(ms, h, p, mws). (ms, h, p, ws @ mws))"

definition leaf_match :: "string \<Rightarrow> ('m, 'h) leaf \<Rightarrow> ('m, 'h) route_match" where
  "leaf_match path = (\<lambda>(ms, h, p, mws).
     \<lparr>rm_Route = Some (map_option fst p), rm_Handler = Some (foldr Middleware mws (Handler h)),
      rm_Vars = Some (setMatch p path []), rm_MatchErr = None\<rparr>)"

inductive flat :: "('m, 'h) matcher list \<Rightarrow> ('m, 'h) route list \<Rightarrow> ('m, 'h) leaf list \<Rightarrow> bool" where
  flat_Nil: "flat pre [] []"
| flat_leaf:
    "ms = x # xs \<Longrightarrow> take (length pre) ms = pre \<Longrightarrow> \<not> is_method x \<Longrightarrow> \<forall>y \<in> set ms. \<not> is_router y \<Longrightarrow>
     flat pre rs es \<Longrightarrow> flat pre (Route ms (Some h) p False # rs) ((ms, h, p, []) # es)"
| flat_sub:
    "ms = pre1 @ [RouterMatcher (Router rs1 ws)] \<Longrightarrow> pre1 \<noteq> [] \<Longrightarrow> take (length pre) pre1 = pre \<Longrightarrow>
     \<forall>y \<in> set pre1. var_free y \<Longrightarrow> p = Some (t, ps, True) \<Longrightarrow> \<forall>q \<in> set ps. \<exists>l. q = Lit l \<Longrightarrow>
     flat pre1 rs1 es1 \<Longrightarrow> flat pre rs es \<Longrightarrow>
     flat pre (Route ms None p False # rs) (map (inside ws) es1 @ es)"

lemma flat_prefix:
  assumes "flat pre rs es" "lf \<in> set es"
  shows "\<exists>ys. fst lf = pre @ ys"
  using assms
proof (induction arbitrary: lf rule: flat.induct)
  case (flat_leaf ms x xs pre rs es h p)
  have "\<exists>ys. ms = pre @ ys" using flat_leaf.hyps(2) append_take_drop_id by metis
  then show ?case using flat_leaf.prems flat_leaf.IH[of lf] by auto
next
  case (flat_sub ms pre1 rs1 ws pre p t ps es1 rs es)
  obtain zs where zs: "pre1 = pre @ zs" using flat_sub.hyps(3) append_take_drop_id by metis
  consider "lf \<in> set es" | lf1 where "lf1 \<in> set es1" "lf = inside ws lf1" using flat_sub.prems by auto
  then show ?case
  proof cases
    case 1
    then show ?thesis by (rule flat_sub.IH(2))
  next
    case 2
    obtain ys where "fst lf1 = pre1 @ ys" using flat_sub.IH(1)[OF 2(1)] by blast
    then have "fst lf = pre @ (zs @ ys)" using zs 2(2) by (cases lf1) (simp add: inside_def)
    then show ?thesis by blast
  qed
qed simp

lemma flat_append: "flat pre rs es \<Longrightarrow> flat pre rs' es' \<Longrightarrow> flat pre (rs @ rs') (es @ es')"
proof (induction rule: flat.induct)
  case (flat_leaf ms x xs pre rs es h p)
  then show ?case using flat.flat_leaf[of ms x xs pre "rs @ rs'" "es @ es'" h p] by simp
next
  case (flat_sub ms pre1 rs1 ws pre p t ps es1 rs es)
  then show ?case
    using flat.flat_sub[of ms pre1 rs1 ws pre p t ps es1 "rs @ rs'" "es @ es'"] by simp
qed simp

text \<open>States between routes: nothing is filled in yet, and a missing route has been forgotten.\<close>

definition fresh :: "('m, 'h) route_match \<Rightarrow> bool" where
  "fresh m \<longleftrightarrow> rm_Route m = None \<and> rm_Handler m = None \<and> rm_Vars m = None \<and> rm_MatchErr m \<noteq> Some ErrNotFound"

lemma fresh_no_match [simp]: "fresh no_match"
  by (simp add: fresh_def no_match_def)

lemma fresh_clear [simp]: "fresh m \<Longrightarrow> fresh (clear e m)"
  by (simp add: fresh_def clear_def)

lemma clear_NotFound [simp]: "fresh m \<Longrightarrow> clear ErrNotFound m = m"
  by (simp add: fresh_def clear_def)

lemma clear_twice [simp]: "clear e (clear e m) = clear e m"
  by (simp add: clear_def)

lemma match_one_passes: "\<not> is_router x \<Longrightarrow> match_one x meth path m = (passes meth path x, m)"
  by (cases x) auto

text \<open>The loop over matchers none of which is a router.\<close>

lemma match_all_plain:
  assumes "\<forall>y \<in> set xs. \<not> is_router y" "fresh m"
  shows "\<exists>m1. fresh m1 \<and> (rm_MatchErr m = None \<longrightarrow> m1 = m) \<and>
    match_all xs meth path er m =
      (if list_all (\<lambda>y. is_method y \<or> passes meth path y) xs
       then Some (if list_all (passes meth path) xs then er else Some ErrMethodMismatch) else None, m1)"
  using assms
proof (induction xs arbitrary: er m)
  case (Cons x xs)
  have x: "match_one x meth path m = (passes meth path x, m)" and xs: "\<forall>y \<in> set xs. \<not> is_router y"
    using Cons.prems by (simp_all add: match_one_passes)
  show ?case
  proof (cases "passes meth path x")
    case True
    obtain m1 where m1: "fresh m1" "rm_MatchErr (clear ErrMethodMismatch m) = None \<longrightarrow> m1 = clear ErrMethodMismatch m"
      "match_all xs meth path er (clear ErrMethodMismatch m) =
        (if list_all (\<lambda>y. is_method y \<or> passes meth path y) xs
         then Some (if list_all (passes meth path) xs then er else Some ErrMethodMismatch) else None, m1)"
      using Cons.IH[OF xs fresh_clear[OF Cons.prems(2)]] by blast
    have "rm_MatchErr m = None \<longrightarrow> m1 = m" using m1(2) by (simp add: clear_def)
    then show ?thesis using m1(1, 3) x True by auto
  next
    case False
    show ?thesis
    proof (cases "is_method x")
      case True
      show ?thesis using Cons.IH[OF xs Cons.prems(2), of "Some ErrMethodMismatch"] x False True by auto
    next
      case m: False
      show ?thesis using x False m Cons.prems(2) by auto
    qed
  qed
qed auto

lemma match_all_step:
  assumes "\<not> is_router x" "passes meth path x" "fresh m"
  shows "match_all (x # xs) meth path er m = match_all xs meth path er (clear ErrMethodMismatch m)
    \<and> rm_MatchErr (clear ErrMethodMismatch m) = None"
proof -
  have "rm_MatchErr m \<noteq> Some ErrNotFound" using assms(3) by (simp add: fresh_def)
  then have "rm_MatchErr (clear ErrMethodMismatch m) = None"
    by (cases "rm_MatchErr m"; cases "the (rm_MatchErr m)") (auto simp: clear_def)
  then show ?thesis using assms by (simp add: match_one_passes)
qed

text \<open>A leaf as a route.\<close>

lemma match_leaf:
  assumes "ms = x # xs" "\<not> is_method x" "\<forall>y \<in> set ms. \<not> is_router y" "fresh m"
  shows "if list_all (passes meth path) ms
    then match_route (Route ms (Some h) p False) meth path m = (True, leaf_match path (ms, h, p, []))
    else \<exists>m1. fresh m1 \<and> match_route (Route ms (Some h) p False) meth path m = (False, m1)"
proof (cases "passes meth path x")
  case False
  then show ?thesis using assms by (auto simp: match_one_passes)
next
  case True
  let ?m = "clear ErrMethodMismatch m"
  have step: "match_all ms meth path None m = match_all xs meth path None ?m" and e: "rm_MatchErr ?m = None"
    using match_all_step[of x meth path m xs None] assms True by auto
  obtain m1 where m1: "fresh m1" "rm_MatchErr ?m = None \<longrightarrow> m1 = ?m"
    "match_all xs meth path None ?m =
      (if list_all (\<lambda>y. is_method y \<or> passes meth path y) xs
       then Some (if list_all (passes meth path) xs then None else Some ErrMethodMismatch) else None, m1)"
    using match_all_plain[of xs ?m meth path None] assms by auto
  have m: "m1 = ?m" using m1(2) e by simp
  have mono: "list_all (passes meth path) xs \<Longrightarrow> list_all (\<lambda>y. is_method y \<or> passes meth path y) xs"
    by (auto simp: list_all_iff)
  show ?thesis
  proof (cases "list_all (passes meth path) xs")
    case all: True
    then show ?thesis using step m1(1, 3) m e True assms(1) mono[OF all]
      by (simp add: matched_def leaf_match_def fresh_def or_else_def Let_def)
  next
    case some: False
    then show ?thesis using step m1(1, 3) m True assms(1)
      by (auto simp: fresh_def)
  qed
qed

text \<open>A subrouter as a route.\<close>

lemma match_all_router:
  assumes "\<forall>y \<in> set pre. var_free y" "fresh m" "is_router R"
  shows "if list_all (passes meth path) pre
    then match_all (pre @ [R]) meth path er m =
      (case match_one R meth path (if pre = [] then m else clear ErrMethodMismatch m) of
         (True, m2) \<Rightarrow> (Some er, clear ErrMethodMismatch m2)
       | (False, m2) \<Rightarrow> (None, clear ErrNotFound m2))
    else \<exists>m1. fresh m1 \<and> match_all (pre @ [R]) meth path er m = (None, m1)"
  using assms
proof (induction pre arbitrary: m)
  case Nil
  then show ?case by (cases R) (simp_all split: prod.splits bool.splits)
next
  case (Cons x xs)
  have x: "\<not> is_router x" "\<not> is_method x" using Cons.prems(1) by (cases x; simp)+
  show ?case
  proof (cases "passes meth path x")
    case True
    have "match_all ((x # xs) @ [R]) meth path er m = match_all (xs @ [R]) meth path er (clear ErrMethodMismatch m)"
      using match_all_step[of x meth path m "xs @ [R]" er] x(1) True Cons.prems(2) by simp
    then show ?thesis using Cons.IH[of "clear ErrMethodMismatch m"] Cons.prems True by simp
  next
    case False
    then show ?thesis using x Cons.prems(2) by (simp add: match_one_passes)
  qed
qed

lemma submatch_var_free: "\<forall>q \<in> set ps. \<exists>l. q = Lit l \<Longrightarrow> submatch prefix ps s \<in> {None, Some []}"
  by (induction prefix ps s rule: submatch.induct) auto

lemma leaf_matches_inside [simp]: "leaf_matches meth path (inside ws lf) = leaf_matches meth path lf"
  by (cases lf) (simp add: leaf_matches_def inside_def)

lemma find_map_inside:
  "find (leaf_matches meth path) (map (inside ws) es) = map_option (inside ws) (find (leaf_matches meth path) es)"
  by (induction es) auto

lemma matched_leaf_match:
  assumes "p = Some (t, ps, True)" "\<forall>q \<in> set ps. \<exists>l. q = Lit l"
  shows "matched None p path (clear ErrMethodMismatch (leaf_match path lf)) = leaf_match path lf"
proof -
  have "setMatch p path vs = vs" for vs
    using assms submatch_var_free[of ps True path] by (auto simp: setMatch_def)
  then show ?thesis
    by (cases lf) (simp add: matched_def leaf_match_def clear_def or_else_def Let_def)
qed

lemma wrap_leaf_match: "wrap ws (leaf_match path lf) = leaf_match path (inside ws lf)"
  by (cases lf) (simp add: wrap_def leaf_match_def inside_def)

lemma leaf_inside_Nil [simp]: "inside [] lf = lf"
  by (cases lf) (simp add: inside_def)

declare match_route.simps [simp del]

text \<open>
  The list of leaves decides. When none of them matches, the router goes on with the routes
  \<open>ys\<close> behind in a fresh state.
\<close>

lemma match_flat_append:
  assumes "flat pre rs es" "fresh m"
  shows "case find (leaf_matches meth path) es of
      Some lf \<Rightarrow> match_routes (rs @ ys) ws meth path m = (True, leaf_match path (inside ws lf))
    | None \<Rightarrow> \<exists>m1. fresh m1 \<and> match_routes (rs @ ys) ws meth path m = match_routes ys ws meth path m1"
  using assms
proof (induction arbitrary: m ws ys rule: flat.induct)
  case (flat_Nil pre)
  then show ?case by auto
next
  case (flat_leaf ms x xs pre rs es h p)
  note leaf = match_leaf[OF flat_leaf.hyps(1,3,4) flat_leaf.prems, of meth path h p]
  show ?case
  proof (cases "list_all (passes meth path) ms")
    case True
    then show ?thesis using leaf by (simp add: leaf_matches_def wrap_leaf_match)
  next
    case False
    then obtain m1 where m1: "fresh m1" "match_route (Route ms (Some h) p False) meth path m = (False, m1)"
      using leaf by auto
    have eqs: "match_routes ((Route ms (Some h) p False # rs) @ ys) ws meth path m =
        match_routes (rs @ ys) ws meth path m1"
      "find (leaf_matches meth path) ((ms, h, p, []) # es) = find (leaf_matches meth path) es"
      using m1(2) False by (simp_all add: leaf_matches_def)
    show ?thesis unfolding eqs by (rule flat_leaf.IH[OF m1(1)])
  qed
next
  case (flat_sub ms pre1 rs1 ws1 pre p t ps es1 rs es)
  let ?R = "RouterMatcher (Router rs1 ws1)"
  have R: "is_router ?R" by simp
  note router = match_all_router[OF flat_sub.hyps(4) flat_sub.prems R, of meth path None]
  have route: "match_route (Route ms None p False) meth path m =
      (case match_all (pre1 @ [?R]) meth path None m of
        (None, m1) \<Rightarrow> (False, m1)
      | (Some (Some matchErr), m1) \<Rightarrow> (False, m1\<lparr>rm_MatchErr := Some matchErr\<rparr>)
      | (Some None, m1) \<Rightarrow> (True, matched None p path m1))"
    by (simp add: flat_sub.hyps(1) match_route.simps)
  have rest: ?case if m1: "match_route (Route ms None p False) meth path m = (False, m1)" "fresh m1"
      "find (leaf_matches meth path) es1 = None" for m1
  proof -
    have eqs: "match_routes ((Route ms None p False # rs) @ ys) ws meth path m =
        match_routes (rs @ ys) ws meth path m1"
      "find (leaf_matches meth path) (map (inside ws1) es1 @ es) = find (leaf_matches meth path) es"
      using m1 by (simp_all add: find_append find_map_inside)
    show ?thesis unfolding eqs by (rule flat_sub.IH(2)[OF m1(2)])
  qed
  show ?case
  proof (cases "list_all (passes meth path) pre1")
    case False
    have "find (leaf_matches meth path) es1 = None"
      using flat_prefix[OF flat_sub.hyps(7)] False by (fastforce simp: find_None_iff leaf_matches_def)
    then show ?thesis using router route rest False by auto
  next
    case True
    let ?m = "clear ErrMethodMismatch m"
    have all: "match_all (pre1 @ [?R]) meth path None m =
      (case match_routes rs1 ws1 meth path ?m of
         (True, m2) \<Rightarrow> (Some None, clear ErrMethodMismatch m2) | (False, m2) \<Rightarrow> (None, clear ErrNotFound m2))"
      using router True flat_sub.hyps(2) by simp
    have "fresh ?m" using flat_sub.prems by simp
    note inner = flat_sub.IH(1)[OF this, of "[]" ws1, simplified append_Nil2]
    show ?thesis
    proof (cases "find (leaf_matches meth path) es1")
      case None
      then obtain m1 where m1: "fresh m1" "match_routes rs1 ws1 meth path ?m = match_routes [] ws1 meth path m1"
        using inner by auto
      have "fresh (clear ErrNotFound (snd (match_routes [] ws1 meth path m1)))"
        "fst (match_routes [] ws1 meth path m1) = False"
        using m1(1) by (auto simp: fresh_def clear_def)
      then show ?thesis using m1(2) all route rest None by (cases "match_routes [] ws1 meth path m1") auto
    next
      case (Some lf)
      have "match_route (Route ms None p False) meth path m = (True, leaf_match path (inside ws1 lf))"
        using inner all route Some matched_leaf_match[OF flat_sub.hyps(5,6)] by simp
      then show ?thesis using Some by (simp add: find_append find_map_inside wrap_leaf_match)
    qed
  qed
qed

text \<open>How a leaf or a subrouter that is reached fails: with 405 exactly when only the method is wrong.\<close>

lemma leaf_error:
  assumes "ms = x # xs" "\<not> is_method x" "\<forall>y \<in> set ms. \<not> is_router y" "fresh m" "passes meth path x"
    and "\<not> list_all (passes meth path) ms"
  shows "\<exists>m1. match_route (Route ms (Some h) p False) meth path m = (False, m1) \<and>
    rm_MatchErr m1 = (if list_all (\<lambda>y. is_method y \<or> passes meth path y) ms then Some ErrMethodMismatch else None)"
proof -
  let ?m = "clear ErrMethodMismatch m"
  have step: "match_all ms meth path None m = match_all xs meth path None ?m" and e: "rm_MatchErr ?m = None"
    using match_all_step[of x meth path m xs None] assms by auto
  obtain m1 where "rm_MatchErr ?m = None \<longrightarrow> m1 = ?m"
    "match_all xs meth path None ?m =
      (if list_all (\<lambda>y. is_method y \<or> passes meth path y) xs
       then Some (if list_all (passes meth path) xs then None else Some ErrMethodMismatch) else None, m1)"
    using match_all_plain[of xs ?m meth path None] assms by auto
  then show ?thesis using step e assms(1, 5, 6) by (auto simp: match_route.simps)
qed

lemma sub_error:
  assumes "\<forall>y \<in> set pre. var_free y" "pre = x # xs" "fresh m" "passes meth path x"
    and "fst (match_routes rs ws meth path (clear ErrMethodMismatch m)) = False"
  shows "\<exists>m1. match_route (Route (pre @ [RouterMatcher (Router rs ws)]) None p False) meth path m = (False, m1) \<and>
    rm_MatchErr m1 = (if list_all (passes meth path) pre
      then rm_MatchErr (clear ErrNotFound (snd (match_routes rs ws meth path (clear ErrMethodMismatch m)))) else None)"
proof (cases "list_all (passes meth path) xs")
  case True
  then show ?thesis
    using match_all_router[of pre m "RouterMatcher (Router rs ws)" meth path None] assms
    by (auto simp: match_route.simps split: prod.splits)
next
  case False
  have x: "\<not> is_router x" using assms(1, 2) by (cases x) auto
  have "match_all (xs @ [R]) meth path None (clear ErrMethodMismatch m) = (None, clear ErrMethodMismatch m)"
    if "\<forall>y \<in> set xs. var_free y" "\<not> list_all (passes meth path) xs" for xs R
    using that
  proof (induction xs)
    case (Cons y ys)
    have y: "\<not> is_router y" "\<not> is_method y" using Cons.prems(1) by (cases y; simp)+
    show ?case using Cons y assms(3) by (cases "passes meth path y") (simp_all add: match_one_passes)
  qed simp
  then have "match_all ((x # xs) @ [RouterMatcher (Router rs ws)]) meth path None m = (None, clear ErrMethodMismatch m)"
    using match_all_step[OF x assms(4, 3), of "xs @ [RouterMatcher (Router rs ws)]" None] assms(1, 2) False by simp
  then show ?thesis using match_all_step[OF x assms(4, 3), of xs None] assms(2) False
    by (simp add: match_route.simps)
qed

section \<open>The leaves of a router as it is built\<close>

text \<open>The configuration below a prefix, and the leaf of a \<open>HandleFunc\<close> in it.\<close>

definition regexp_of :: "string \<Rightarrow> piece list" where
  "regexp_of tpl = the (newRouteRegexp tpl)"

definition below :: "string \<Rightarrow> ('m, 'h) matcher list \<Rightarrow> ('m, 'h) route_conf" where
  "below t pre = \<lparr>rc_path = Some (t, regexp_of t, True), rc_matchers = pre, rc_err = False\<rparr>"

definition func_leaf :: "('m, 'h) matcher list \<Rightarrow> string \<Rightarrow> string list \<Rightarrow> 'h \<Rightarrow> ('m, 'h) leaf" where
  "func_leaf pre tpl ms h =
     (pre @ [RegexpMatcher False (regexp_of tpl), MethodMatcher ms], h, Some (tpl, regexp_of tpl, False), [])"

definition rooted :: "string \<Rightarrow> bool" where
  "rooted tpl \<longleftrightarrow> tpl = [] \<or> hd tpl = CHR ''/''"

lemma flat_HandleFunc:
  assumes "rooted tpl" "newRouteRegexp (TrimRight t @ tpl) \<noteq> None"
    and "pre \<noteq> []" "\<forall>y \<in> set pre. var_free y" "flat pre rs es"
  shows "flat pre (HandleFunc tpl h ms (below t pre) # rs) (func_leaf pre (TrimRight t @ tpl) ms h # es)"
proof -
  obtain x xs where pre: "pre = x # xs" using assms(3) by (cases pre) auto
  have x: "\<not> is_method x" using assms(4) pre by (cases x) auto
  have free: "\<not> is_router y" if "y \<in> set pre" for y using assms(4) that by (cases y) auto
  have route: "HandleFunc tpl h ms (below t pre) =
      Route (pre @ [RegexpMatcher False (regexp_of (TrimRight t @ tpl)), MethodMatcher ms]) (Some h)
        (Some (TrimRight t @ tpl, regexp_of (TrimRight t @ tpl), False)) False"
    using assms(1, 2)
    by (auto simp: HandleFunc_def below_def addRegexpMatcher_def addMatcher_def route_of_def regexp_of_def
        rooted_def Let_def)
  show ?thesis unfolding route func_leaf_def
    using x free assms(5) pre by (intro flat_leaf[where x = x]) auto
qed

lemma flat_Subrouter:
  assumes "rooted tpl" "newRouteRegexp (TrimRight t @ tpl) = Some [Lit l]" "\<forall>y \<in> set pre. var_free y"
    and "flat (pre @ [RegexpMatcher True [Lit l]])
           (body (below (TrimRight t @ tpl) (pre @ [RegexpMatcher True [Lit l]]))) es1"
    and "flat pre rs es" "es2 = map (inside ws) es1 @ es"
  shows "flat pre (Subrouter tpl ws body (below t pre) # rs) es2"
proof -
  let ?pre = "pre @ [RegexpMatcher True [Lit l]]" and ?t = "TrimRight t @ tpl"
  have route: "Subrouter tpl ws body (below t pre) =
      Route (?pre @ [RouterMatcher (Router (body (below ?t ?pre)) ws)]) None (Some (?t, [Lit l], True)) False"
    using assms(1, 2)
    by (auto simp: Subrouter_def below_def addRegexpMatcher_def addMatcher_def route_of_def regexp_of_def
        rooted_def Let_def)
  have free: "\<forall>y \<in> set ?pre. var_free y" using assms(3) by simp
  show ?thesis unfolding route assms(6)
    by (rule flat_sub[OF refl _ _ free refl _ assms(4, 5)]) simp_all
qed

text \<open>The last route decides between 404 and 405: nothing that failed before it is remembered.\<close>

lemma submatch_Lit_take:
  "submatch prefix (Lit l # ps) s \<noteq> None \<Longrightarrow> take (length l') l = l' \<Longrightarrow> take (length l') s = l'"
  by (auto split: if_splits) (metis length_take min.cobounded1 take_take min_absorb1)

end
