(* ===== verification/Logging.thy ===== *)
theory Logging
  imports Postgres "HOL-Library.Word"
begin

text \<open>
  The request context (\<open>utils/requestctx.go\<close>), the logger (\<open>internal/pkg/logger\<close>) with its no-op
  twin, and the part of zap that decides which lines are written: the sampler that
  \<open>zap.NewProductionConfig\<close> puts in front of the output.

  A logger is the list of the fields it adds to every line. Lines are kept as data; their
  encoding, caller and stack trace are left out.
\<close>

section \<open>Fields\<close>

text \<open>Values that are logged: the cases of the type switch of \<open>with\<close>, and everything else.\<close>

datatype go_any = GString string | GInt int | GInt64 int | GFloat64 string | GBool bool
  | GNil | GMap "(string \<times> go_any) list"

datatype zap_field = StringType string | Int64Type int | Float64Type string | BoolType bool
  | AnyType go_any

type_synonym fields = "(string \<times> zap_field) list"

fun zap_of :: "go_any \<Rightarrow> zap_field" where
  "zap_of (GString v) = StringType v"
| "zap_of (GInt v) = Int64Type v"
| "zap_of (GInt64 v) = Int64Type v"
| "zap_of (GFloat64 v) = Float64Type v"
| "zap_of (GBool v) = BoolType v"
| "zap_of v = AnyType v"

definition with_field :: "string \<Rightarrow> go_any \<Rightarrow> fields \<Rightarrow> fields" where
  "with_field key val l = l @ [(key, zap_of val)]"

datatype logger = Zap fields | Noop

section \<open>Contexts\<close>

text \<open>
  A context is the chain of its values. Strings and the logger's unexported key type never
  collide; two string keys may, for instance \<open>Config.CtxUserKey\<close> with one of
  \<open>requestctx.go\<close>.
\<close>

datatype ctx_key = StringKey string | LoggerKey | VarsKey | RouteKey

datatype ctx_value = StringVal string | LoggerVal logger | UserVal user
  | VarsVal "(string \<times> string) list" | RouteVal string

type_synonym ctxt = "(ctx_key \<times> ctx_value) list"

definition Background :: ctxt where "Background = []"

definition WithValue :: "ctx_key \<Rightarrow> ctx_value \<Rightarrow> ctxt \<Rightarrow> ctxt" where
  "WithValue k v ctx = (k, v) # ctx"

definition Value :: "ctx_key \<Rightarrow> ctxt \<Rightarrow> ctx_value option" where
  "Value k ctx = map_of ctx k"

lemma Value_WithValue: "Value k (WithValue k' v ctx) = (if k = k' then Some v else Value k ctx)"
  by (simp add: Value_def WithValue_def)

definition string_value :: "string \<Rightarrow> ctxt \<Rightarrow> string" where
  "string_value k ctx = (case Value (StringKey k) ctx of Some (StringVal v) \<Rightarrow> v | _ \<Rightarrow> [])"

definition keyMethod :: string where "keyMethod = ''method''"
definition keyURL :: string where "keyURL = ''path''"
definition keySession :: string where "keySession = ''session''"
definition keyExternalMethod :: string where "keyExternalMethod = ''external_method''"
definition keyExternalEndpoint :: string where "keyExternalEndpoint = ''external_endpoint''"

lemmas request_keys = keyMethod_def keyURL_def keySession_def keyExternalMethod_def
  keyExternalEndpoint_def

text \<open>
  A request. \<open>rq_URL\<close> is what \<open>r.URL.String()\<close> gives, \<open>rq_Path\<close> the decoded \<open>r.URL.Path\<close>;
  \<open>rq_Header\<close> maps canonical header keys to their values; \<open>rq_cookie\<close> is the value of the
  cookie \<open>session_id\<close>.
\<close>

record server_request =
  rq_Method :: string
  rq_URL :: string
  rq_Path :: string
  rq_Header :: "(string \<times> string list) list"
  rq_cookie :: "string option"
  rq_body :: string

definition SaveRequestData :: "ctxt \<Rightarrow> server_request \<Rightarrow> ctxt" where
  "SaveRequestData ctx r =
     (let sessionID = (case rq_cookie r of Some session \<Rightarrow> session | None \<Rightarrow> [])
      in WithValue (StringKey keySession) (StringVal sessionID)
           (WithValue (StringKey keyURL) (StringVal (rq_URL r))
             (WithValue (StringKey keyMethod) (StringVal (rq_Method r)) ctx)))"

definition GetMethod :: "ctxt \<Rightarrow> string" where "GetMethod ctx = string_value keyMethod ctx"
definition GetURL :: "ctxt \<Rightarrow> string" where "GetURL ctx = string_value keyURL ctx"
definition GetSession :: "ctxt \<Rightarrow> string" where "GetSession ctx = string_value keySession ctx"

definition SaveExternalRequestData :: "ctxt \<Rightarrow> server_request \<Rightarrow> ctxt" where
  "SaveExternalRequestData ctx r =
     WithValue (StringKey keyExternalMethod) (StringVal (rq_Method r))
       (WithValue (StringKey keyExternalEndpoint) (StringVal (rq_URL r)) ctx)"

definition GetExternalMethod :: "ctxt \<Rightarrow> string" where
  "GetExternalMethod ctx = string_value keyExternalMethod ctx"

definition GetExternalURL :: "ctxt \<Rightarrow> string" where
  "GetExternalURL ctx = string_value keyExternalEndpoint ctx"

lemmas context_getters = GetMethod_def GetURL_def GetSession_def GetExternalMethod_def
  GetExternalURL_def string_value_def

lemma SaveRequestData_get:
  "GetMethod (SaveRequestData ctx r) = rq_Method r"
  "GetURL (SaveRequestData ctx r) = rq_URL r"
  "GetSession (SaveRequestData ctx r) = (case rq_cookie r of Some s \<Rightarrow> s | None \<Rightarrow> [])"
  by (simp_all add: context_getters SaveRequestData_def Value_WithValue request_keys)

text \<open>A value under another key leaves what the getters read alone.\<close>

lemma string_value_other:
  "k \<noteq> StringKey s \<Longrightarrow> string_value s (WithValue k v ctx) = string_value s ctx"
  by (simp add: string_value_def Value_WithValue)

section \<open>The sampler of zap\<close>

datatype level = InfoLevel | WarnLevel | ErrorLevel

text \<open>
  The sampler counts the entries of a level and message per second. The message is hashed
  (\<open>fnv32a\<close>) into one of 4096 counters; a counter is its reset time and its count.
\<close>

record sink =
  clock :: int
  counters :: "level \<times> nat \<Rightarrow> int \<times> nat"
  lines :: "(level \<times> fields) list"

definition fnv32a :: "string \<Rightarrow> 32 word" where
  "fnv32a s = fold (\<lambda>c h. xor h (word_of_nat (of_char c)) * 16777619) s 2166136261"

definition slot :: "level \<Rightarrow> string \<Rightarrow> level \<times> nat" where
  "slot lvl msg = (lvl, unat (fnv32a msg) mod 4096)"

definition second :: int where "second = 1000000000"

definition IncCheckReset :: "int \<Rightarrow> int \<times> nat \<Rightarrow> int \<times> nat" where
  "IncCheckReset t = (\<lambda>(resetAt, n). if resetAt > t then (resetAt, n + 1) else (t + second, 1))"

definition sampled :: "nat \<Rightarrow> bool" where
  "sampled n \<longleftrightarrow> \<not> (n > 100 \<and> (n - 100) mod 100 \<noteq> 0)"

definition emit :: "level \<Rightarrow> string \<Rightarrow> fields \<Rightarrow> sink \<Rightarrow> sink" where
  "emit lvl msg fs s =
     (let j = slot lvl msg; c = IncCheckReset (clock s) (counters s j);
          s1 = s\<lparr>counters := (counters s)(j := c)\<rparr>
      in if sampled (snd c) then s1\<lparr>lines := lines s1 @ [(lvl, fs)]\<rparr> else s1)"

text \<open>A log nothing has been written to.\<close>

definition new_sink :: sink where
  "new_sink = \<lparr>clock = 0, counters = (\<lambda>_. (0, 0)), lines = []\<rparr>"

section \<open>The logger\<close>

text \<open>
  \<open>New\<close> keeps the sampling of the production configuration and gives its encoder no message
  key, so the text of a line travels as a field and the message of every entry is empty,
  except for \<open>UsecasesError\<close>.
\<close>

definition New :: "bool \<Rightarrow> logger option" where
  "New buildable = (if buildable then Some (Zap []) else None)"

fun WithContext :: "logger \<Rightarrow> string \<Rightarrow> ctxt \<Rightarrow> ctxt" where
  "WithContext (Zap l) uuid ctx =
     WithValue LoggerKey (LoggerVal (Zap (with_field ''request-uuid'' (GString uuid) l))) ctx"
| "WithContext Noop uuid ctx = ctx"

definition FromContext :: "ctxt \<Rightarrow> logger" where
  "FromContext ctx = (case Value LoggerKey ctx of Some (LoggerVal l) \<Rightarrow> l | _ \<Rightarrow> Noop)"

text \<open>\<open>err.Error()\<close> panics on a nil error, before anything is written.\<close>

definition err_Error :: "string option \<Rightarrow> (string \<Rightarrow> sink \<Rightarrow> sink) \<Rightarrow> sink \<Rightarrow> unit go \<times> sink" where
  "err_Error err k s = (case err of None \<Rightarrow> (Panic, s) | Some e \<Rightarrow> (Return (), k e s))"

fun ServerInfo :: "logger \<Rightarrow> string \<Rightarrow> string \<Rightarrow> bool \<Rightarrow> sink \<Rightarrow> unit go \<times> sink" where
  "ServerInfo Noop host port isProduction s = (Return (), s)"
| "ServerInfo (Zap l) host port isProduction s =
     (let mode = (if isProduction then ''production'' else ''development'');
          ln = with_field ''msg'' (GString ''server started successfully'')
                 (with_field ''mode'' (GString mode)
                   (with_field ''port'' (GString port)
                     (with_field ''host'' (GString host)
                       (with_field ''layer'' (GString ''server'') l))))
      in (Return (), emit InfoLevel [] ln s))"

definition logDB :: "fields \<Rightarrow> string \<Rightarrow> string \<Rightarrow> string \<Rightarrow> go_any \<Rightarrow> bool \<Rightarrow> string \<Rightarrow> fields" where
  "logDB l host port db dbName isSecure msg =
     (let connType = (if isSecure then ''secure'' else ''insecure'')
      in with_field ''msg'' (GString msg)
           (with_field ''conn_type'' (GString connType)
             (with_field ''db_name'' dbName
               (with_field ''db'' (GString db)
                 (with_field ''port'' (GString port)
                   (with_field ''host'' (GString host)
                     (with_field ''layer'' (GString ''server'') l)))))))"

fun DBInfo :: "logger \<Rightarrow> string \<Rightarrow> string \<Rightarrow> string \<Rightarrow> go_any \<Rightarrow> bool \<Rightarrow> sink \<Rightarrow> unit go \<times> sink" where
  "DBInfo Noop host port db dbName isSecure s = (Return (), s)"
| "DBInfo (Zap l) host port db dbName isSecure s =
     (Return (), emit InfoLevel [] (logDB l host port db dbName isSecure ''db connection opened successfully'') s)"

text \<open>The real \<open>DBFatal\<close> ends the process: its flag says so.\<close>

fun DBFatal ::
    "logger \<Rightarrow> string \<Rightarrow> string \<Rightarrow> string \<Rightarrow> go_any \<Rightarrow> bool \<Rightarrow> string \<Rightarrow> string option \<Rightarrow> sink
     \<Rightarrow> bool go \<times> sink" where
  "DBFatal Noop host port db dbName isSecure msg err s = (Return False, s)"
| "DBFatal (Zap l) host port db dbName isSecure msg err s =
     (case err of
        None \<Rightarrow> (Panic, s)
      | Some e \<Rightarrow> (Return True,
          emit ErrorLevel [] (with_field ''err'' (GString e) (logDB l host port db dbName isSecure msg)) s))"

definition logDeliveryRequest :: "fields \<Rightarrow> ctxt \<Rightarrow> fields" where
  "logDeliveryRequest l ctx =
     with_field ''session_id'' (GString (GetSession ctx))
       (with_field ''method'' (GString (GetMethod ctx))
         (with_field ''path'' (GString (GetURL ctx))
           (with_field ''layer'' (GString ''delivery'') l)))"

definition logDeliveryResponse :: "fields \<Rightarrow> int \<Rightarrow> string \<Rightarrow> fields" where
  "logDeliveryResponse l code status =
     with_field ''status'' (GString status) (with_field ''code'' (GInt code) l)"

fun DeliveryInfo :: "logger \<Rightarrow> ctxt \<Rightarrow> string \<Rightarrow> go_any \<Rightarrow> sink \<Rightarrow> unit go \<times> sink" where
  "DeliveryInfo Noop ctx msg fs s = (Return (), s)"
| "DeliveryInfo (Zap l) ctx msg fs s =
     (Return (), emit InfoLevel []
        (with_field ''fields'' fs (with_field ''msg'' (GString msg) (logDeliveryRequest l ctx))) s)"

fun DeliveryError ::
    "logger \<Rightarrow> ctxt \<Rightarrow> int \<Rightarrow> string \<Rightarrow> string option \<Rightarrow> go_any \<Rightarrow> sink \<Rightarrow> unit go \<times> sink" where
  "DeliveryError Noop ctx code status err fs s = (Return (), s)"
| "DeliveryError (Zap l) ctx code status err fs s =
     (let newLogger = logDeliveryResponse (logDeliveryRequest l ctx) code status
      in if code = 500
         then err_Error err (\<lambda>e. emit ErrorLevel []
                (with_field ''fields'' fs (with_field ''err'' (GString e) newLogger))) s
         else (Return (), emit WarnLevel [] newLogger s))"

text \<open>
  \<open>GetPrevFunctionName\<close> keeps what follows the last dot of the full name of the function
  \<open>skip\<close> frames up; the frames are given from the function that calls it outwards.
\<close>

definition after_last_dot :: "string \<Rightarrow> string" where
  "after_last_dot s = rev (takeWhile (\<lambda>c. c \<noteq> CHR ''.'') (rev s))"

definition GetFunctionName :: "string list \<Rightarrow> string" where
  "GetFunctionName frames = after_last_dot (frames ! 0)"

definition GetPrevFunctionName :: "string list \<Rightarrow> nat \<Rightarrow> string" where
  "GetPrevFunctionName frames skip = after_last_dot (frames ! skip)"

text \<open>Frame 0 is \<open>logUsecases\<close> or \<open>logRepo\<close>, frame 1 the method of the logger, frame 2 its caller.\<close>

definition frames_of :: "string \<Rightarrow> string list" where
  "frames_of caller = [''logger.logX'', ''logger.X'', caller]"

definition logUsecases :: "fields \<Rightarrow> string \<Rightarrow> int \<Rightarrow> fields" where
  "logUsecases l caller user_id =
     (let newLogger = with_field ''usecase'' (GString (GetPrevFunctionName (frames_of caller) 2))
                        (with_field ''layer'' (GString ''usecases'') l)
      in if user_id = 0 then newLogger else with_field ''user_id'' (GInt user_id) newLogger)"

fun UsecasesInfo :: "logger \<Rightarrow> string \<Rightarrow> string \<Rightarrow> int \<Rightarrow> sink \<Rightarrow> unit go \<times> sink" where
  "UsecasesInfo Noop caller msg user_id s = (Return (), s)"
| "UsecasesInfo (Zap l) caller msg user_id s =
     (Return (), emit InfoLevel [] (with_field ''msg'' (GString msg) (logUsecases l caller user_id)) s)"

fun UsecasesWarn :: "logger \<Rightarrow> string \<Rightarrow> string option \<Rightarrow> int \<Rightarrow> go_any \<Rightarrow> sink \<Rightarrow> unit go \<times> sink" where
  "UsecasesWarn Noop caller err user_id fs s = (Return (), s)"
| "UsecasesWarn (Zap l) caller err user_id fs s =
     err_Error err (\<lambda>e. emit WarnLevel []
       (with_field ''fields'' fs (with_field ''msg'' (GString e) (logUsecases l caller user_id)))) s"

fun UsecasesError :: "logger \<Rightarrow> string \<Rightarrow> string option \<Rightarrow> int \<Rightarrow> go_any \<Rightarrow> sink \<Rightarrow> unit go \<times> sink" where
  "UsecasesError Noop caller err user_id fs s = (Return (), s)"
| "UsecasesError (Zap l) caller err user_id fs s =
     err_Error err (\<lambda>e. emit ErrorLevel e
       (with_field ''fields'' fs (with_field ''err'' (GString e) (logUsecases l caller user_id)))) s"

definition logRepo :: "fields \<Rightarrow> string \<Rightarrow> go_any \<Rightarrow> fields" where
  "logRepo l caller params =
     with_field ''params'' params
       (with_field ''method'' (GString (GetPrevFunctionName (frames_of caller) 2))
         (with_field ''layer'' (GString ''repo'') l))"

fun RepoInfo :: "logger \<Rightarrow> string \<Rightarrow> string \<Rightarrow> go_any \<Rightarrow> sink \<Rightarrow> unit go \<times> sink" where
  "RepoInfo Noop caller msg params s = (Return (), s)"
| "RepoInfo (Zap l) caller msg params s =
     (Return (), emit InfoLevel [] (with_field ''msg'' (GString msg) (logRepo l caller params)) s)"

fun RepoWarn :: "logger \<Rightarrow> string \<Rightarrow> string option \<Rightarrow> go_any \<Rightarrow> sink \<Rightarrow> unit go \<times> sink" where
  "RepoWarn Noop caller err params s = (Return (), s)"
| "RepoWarn (Zap l) caller err params s =
     err_Error err (\<lambda>e. emit WarnLevel [] (with_field ''msg'' (GString e) (logRepo l caller params))) s"

fun RepoError :: "logger \<Rightarrow> string \<Rightarrow> string option \<Rightarrow> go_any \<Rightarrow> sink \<Rightarrow> unit go \<times> sink" where
  "RepoError Noop caller err params s = (Return (), s)"
| "RepoError (Zap l) caller err params s =
     err_Error err (\<lambda>e. emit ErrorLevel [] (with_field ''err'' (GString e) (logRepo l caller params))) s"

definition logExternal :: "fields \<Rightarrow> ctxt \<Rightarrow> go_any \<Rightarrow> fields" where
  "logExternal l ctx params =
     with_field ''params'' params
       (with_field ''method'' (GString (GetExternalMethod ctx))
         (with_field ''endpoint'' (GString (GetExternalURL ctx))
           (with_field ''layer'' (GString ''external'') l)))"

fun ExternalInfo :: "logger \<Rightarrow> ctxt \<Rightarrow> string \<Rightarrow> go_any \<Rightarrow> sink \<Rightarrow> unit go \<times> sink" where
  "ExternalInfo Noop ctx msg params s = (Return (), s)"
| "ExternalInfo (Zap l) ctx msg params s =
     (Return (), emit InfoLevel [] (with_field ''msg'' (GString msg) (logExternal l ctx params)) s)"

fun ExternalWarn :: "logger \<Rightarrow> ctxt \<Rightarrow> string option \<Rightarrow> go_any \<Rightarrow> sink \<Rightarrow> unit go \<times> sink" where
  "ExternalWarn Noop ctx err params s = (Return (), s)"
| "ExternalWarn (Zap l) ctx err params s =
     err_Error err (\<lambda>e. emit WarnLevel [] (with_field ''msg'' (GString e) (logExternal l ctx params))) s"

fun ExternalError :: "logger \<Rightarrow> ctxt \<Rightarrow> string option \<Rightarrow> go_any \<Rightarrow> sink \<Rightarrow> unit go \<times> sink" where
  "ExternalError Noop ctx err params s = (Return (), s)"
| "ExternalError (Zap l) ctx err params s =
     err_Error err (\<lambda>e. emit ErrorLevel [] (with_field ''err'' (GString e) (logExternal l ctx params))) s"

section \<open>What reaches the log\<close>

text \<open>A call of the logger that does not end the process: everything but \<open>DBFatal\<close>.\<close>

datatype log_call =
    CServerInfo string string bool
  | CDBInfo string string string go_any bool
  | CDeliveryInfo ctxt string go_any
  | CDeliveryError ctxt int string "string option" go_any
  | CUsecasesInfo string string int
  | CUsecasesWarn string "string option" int go_any
  | CUsecasesError string "string option" int go_any
  | CRepoInfo string string go_any
  | CRepoWarn string "string option" go_any
  | CRepoError string "string option" go_any
  | CExternalInfo ctxt string go_any
  | CExternalWarn ctxt "string option" go_any
  | CExternalError ctxt "string option" go_any

fun do_log :: "logger \<Rightarrow> log_call \<Rightarrow> sink \<Rightarrow> unit go \<times> sink" where
  "do_log lg (CServerInfo host port isProd) = ServerInfo lg host port isProd"
| "do_log lg (CDBInfo host port db dbName sec) = DBInfo lg host port db dbName sec"
| "do_log lg (CDeliveryInfo ctx msg fs) = DeliveryInfo lg ctx msg fs"
| "do_log lg (CDeliveryError ctx code status err fs) = DeliveryError lg ctx code status err fs"
| "do_log lg (CUsecasesInfo caller msg uid) = UsecasesInfo lg caller msg uid"
| "do_log lg (CUsecasesWarn caller err uid fs) = UsecasesWarn lg caller err uid fs"
| "do_log lg (CUsecasesError caller err uid fs) = UsecasesError lg caller err uid fs"
| "do_log lg (CRepoInfo caller msg params) = RepoInfo lg caller msg params"
| "do_log lg (CRepoWarn caller err params) = RepoWarn lg caller err params"
| "do_log lg (CRepoError caller err params) = RepoError lg caller err params"
| "do_log lg (CExternalInfo ctx msg params) = ExternalInfo lg ctx msg params"
| "do_log lg (CExternalWarn ctx err params) = ExternalWarn lg ctx err params"
| "do_log lg (CExternalError ctx err params) = ExternalError lg ctx err params"

fun call_level :: "log_call \<Rightarrow> level" where
  "call_level (CDeliveryError ctx code status err fs) = (if code = 500 then ErrorLevel else WarnLevel)"
| "call_level (CUsecasesWarn caller err uid fs) = WarnLevel"
| "call_level (CRepoWarn caller err params) = WarnLevel"
| "call_level (CExternalWarn ctx err params) = WarnLevel"
| "call_level (CUsecasesError caller err uid fs) = ErrorLevel"
| "call_level (CRepoError caller err params) = ErrorLevel"
| "call_level (CExternalError ctx err params) = ErrorLevel"
| "call_level c = InfoLevel"

text \<open>
  The message zap is given: the error for \<open>UsecasesError\<close>, nothing otherwise. It decides, with the
  level, which counter of the sampler the call goes to.
\<close>

fun call_message :: "log_call \<Rightarrow> string" where
  "call_message (CUsecasesError caller err uid fs) = (case err of None \<Rightarrow> [] | Some e \<Rightarrow> e)"
| "call_message c = []"

definition call_slot :: "log_call \<Rightarrow> level \<times> nat" where
  "call_slot c = slot (call_level c) (call_message c)"

text \<open>The error a call prints, if it prints one, must not be nil.\<close>

fun has_error :: "log_call \<Rightarrow> bool" where
  "has_error (CDeliveryError ctx code status err fs) = (code = 500 \<longrightarrow> err \<noteq> None)"
| "has_error (CUsecasesWarn caller err uid fs) = (err \<noteq> None)"
| "has_error (CUsecasesError caller err uid fs) = (err \<noteq> None)"
| "has_error (CRepoWarn caller err params) = (err \<noteq> None)"
| "has_error (CRepoError caller err params) = (err \<noteq> None)"
| "has_error (CExternalWarn ctx err params) = (err \<noteq> None)"
| "has_error (CExternalError ctx err params) = (err \<noteq> None)"
| "has_error c = True"

lemma log_Noop: "do_log Noop c s = (Return (), s)"
  by (cases c) auto

lemma log_emits:
  assumes "has_error c"
  shows "\<exists>fs. \<forall>s. do_log (Zap l) c s = (Return (), emit (call_level c) (call_message c) (l @ fs) s)"
  using assms
  by (cases c) (auto simp: err_Error_def with_field_def logDB_def logDeliveryRequest_def
      logDeliveryResponse_def logUsecases_def logRepo_def logExternal_def Let_def)

text \<open>A sequence of calls, each with the time it is made at and its logger.\<close>

type_synonym timed_call = "int \<times> fields \<times> log_call"

fun log_all :: "timed_call list \<Rightarrow> sink \<Rightarrow> sink" where
  "log_all [] s = s"
| "log_all ((t, l, c) # cs) s = log_all cs (snd (do_log (Zap l) c (s\<lparr>clock := t\<rparr>)))"

lemma log_all_append: "log_all (cs @ ds) s = log_all ds (log_all cs s)"
  by (induction cs s rule: log_all.induct) auto

text \<open>What a call writes to a log of its own.\<close>

definition written_alone :: "timed_call \<Rightarrow> (level \<times> fields) list" where
  "written_alone = (\<lambda>(t, l, c). lines (snd (do_log (Zap l) c new_sink)))"

text \<open>
  The windows of a counter: the first call opens one, which takes every call until one comes a
  second or more after it was opened; that call opens the next.
\<close>

function windows :: "int list \<Rightarrow> int list list" where
  "windows [] = []"
| "windows (t # ts) =
     (t # takeWhile (\<lambda>u. u < t + second) ts) # windows (dropWhile (\<lambda>u. u < t + second) ts)"
  by pat_completeness auto
termination by (relation "measure length") (auto simp: less_Suc_eq_le length_dropWhile_le)

text \<open>
  The place of the last of the calls in its window, when the counter starts with a window that
  ends at \<open>r\<close> and has \<open>n\<close> calls.
\<close>

definition place :: "int \<times> nat \<Rightarrow> int list \<Rightarrow> nat" where
  "place = (\<lambda>(r, n) ts.
     let later = dropWhile (\<lambda>t. t < r) ts
     in if later = [] then n + length ts else length (last (windows later)))"

text \<open>The times of the calls that go to a counter.\<close>

definition times_at :: "level \<times> nat \<Rightarrow> timed_call list \<Rightarrow> int list" where
  "times_at j cs = map fst (filter (\<lambda>(t, l, c). call_slot c = j) cs)"

definition counter_of :: "timed_call \<Rightarrow> level \<times> nat" where
  "counter_of = (\<lambda>(t, l, c). call_slot c)"

text \<open>The counter after calls at the times of the list.\<close>

lemma count_within:
  "\<forall>t \<in> set ts. t < r \<Longrightarrow> fold IncCheckReset ts (r, n) = (r, n + length ts)"
  by (induction ts arbitrary: n) (auto simp: IncCheckReset_def)

lemma count_windows:
  assumes "ts \<noteq> []" and "r \<le> hd ts"
  shows "snd (fold IncCheckReset ts (r, n)) = length (last (windows ts))"
  using assms
proof (induction ts arbitrary: r n rule: windows.induct)
  case (2 t ts)
  let ?w = "takeWhile (\<lambda>u. u < t + second) ts" and ?d = "dropWhile (\<lambda>u. u < t + second) ts"
  have "fold IncCheckReset (t # ts) (r, n) = fold IncCheckReset ts (t + second, 1)"
    using 2(3) by (simp add: IncCheckReset_def)
  also have "\<dots> = fold IncCheckReset ?d (fold IncCheckReset ?w (t + second, 1))"
    by (metis comp_apply fold_append takeWhile_dropWhile_id)
  also have "fold IncCheckReset ?w (t + second, 1) = (t + second, Suc (length ?w))"
    by (subst count_within) (auto dest: set_takeWhileD)
  finally have eq: "fold IncCheckReset (t # ts) (r, n) =
      fold IncCheckReset ?d (t + second, Suc (length ?w))" .
  show ?case
  proof (cases "?d = []")
    case False
    moreover have "t + second \<le> hd ?d" using hd_dropWhile [OF False] by simp
    moreover have "windows ?d \<noteq> []" using False by (cases ?d) auto
    ultimately show ?thesis using 2(1) eq by simp
  qed (use eq in \<open>simp del: dropWhile_eq_Nil_conv\<close>)
qed simp

lemma count_place:
  assumes "ts \<noteq> []"
  shows "snd (fold IncCheckReset ts c) = place c ts"
proof -
  obtain r n where c: "c = (r, n)" by fastforce
  let ?w = "takeWhile (\<lambda>t. t < r) ts" and ?d = "dropWhile (\<lambda>t. t < r) ts"
  have "fold IncCheckReset ts c = fold IncCheckReset ?d (fold IncCheckReset ?w c)"
    by (metis comp_apply fold_append takeWhile_dropWhile_id)
  also have "fold IncCheckReset ?w c = (r, n + length ?w)"
    unfolding c by (rule count_within) (auto dest: set_takeWhileD)
  finally have eq: "fold IncCheckReset ts c = fold IncCheckReset ?d (r, n + length ?w)" .
  show ?thesis
  proof (cases "?d = []")
    case True
    then have w: "?w = ts" by (metis append_Nil2 takeWhile_dropWhile_id)
    show ?thesis unfolding eq w by (simp add: True c place_def del: dropWhile_eq_Nil_conv)
  next
    case False
    moreover have "r \<le> hd ?d" using hd_dropWhile [OF False] by simp
    ultimately show ?thesis using eq c count_windows by (simp add: place_def del: dropWhile_eq_Nil_conv)
  qed
qed

text \<open>One call, and its effect on the counters and on the log.\<close>

lemma sampled_iff: "sampled k \<longleftrightarrow> k \<le> 100 \<or> 100 dvd k"
proof (cases "k \<le> 100")
  case False
  then obtain i where "k = 100 + i" using le_Suc_ex nat_le_linear by blast
  with False show ?thesis by (simp add: sampled_def dvd_eq_mod_eq_0)
qed (simp add: sampled_def)

lemma emit_alone: "lines (emit lvl msg fs new_sink) = [(lvl, fs)]"
  by (simp add: emit_def new_sink_def IncCheckReset_def second_def sampled_def Let_def)

lemma do_log_step:
  assumes "has_error c"
  shows "counters (snd (do_log (Zap l) c (s\<lparr>clock := t\<rparr>))) =
      (counters s)(call_slot c := IncCheckReset t (counters s (call_slot c)))"
    and "lines (snd (do_log (Zap l) c (s\<lparr>clock := t\<rparr>))) =
      lines s @ (if sampled (snd (IncCheckReset t (counters s (call_slot c)))) then written_alone (t, l, c) else [])"
proof -
  obtain fs where fs: "do_log (Zap l) c s' = (Return (), emit (call_level c) (call_message c) (l @ fs) s')" for s'
    using log_emits [OF assms, of l] by blast
  show "counters (snd (do_log (Zap l) c (s\<lparr>clock := t\<rparr>))) =
      (counters s)(call_slot c := IncCheckReset t (counters s (call_slot c)))"
    by (simp add: fs emit_def call_slot_def Let_def)
  show "lines (snd (do_log (Zap l) c (s\<lparr>clock := t\<rparr>))) =
      lines s @ (if sampled (snd (IncCheckReset t (counters s (call_slot c)))) then written_alone (t, l, c) else [])"
    unfolding written_alone_def prod.case fs snd_conv emit_alone
    by (simp add: emit_def call_slot_def Let_def)
qed

lemma log_all_counters:
  assumes "\<forall>(t, l, c) \<in> set cs. has_error c"
  shows "counters (log_all cs s) j = fold IncCheckReset (times_at j cs) (counters s j)"
  using assms
  by (induction cs s rule: log_all.induct) (auto simp: times_at_def do_log_step(1))

text \<open>The calls that are kept, by their positions.\<close>

definition keeps :: "sink \<Rightarrow> timed_call list \<Rightarrow> nat \<Rightarrow> bool" where
  "keeps s cs i \<longleftrightarrow>
     (let j = counter_of (cs ! i); k = place (counters s j) (times_at j (take (Suc i) cs))
      in k \<le> 100 \<or> 100 dvd k)"

definition kept_calls :: "sink \<Rightarrow> timed_call list \<Rightarrow> nat set" where
  "kept_calls s cs = {i. i < length cs \<and> keeps s cs i}"

lemma keeps_append:
  "i < length cs \<Longrightarrow> keeps s (cs @ [x]) i = keeps s cs i"
  "keeps s (cs @ [x]) (length cs) =
     (let k = place (counters s (counter_of x)) (times_at (counter_of x) (cs @ [x])) in k \<le> 100 \<or> 100 dvd k)"
  by (simp_all add: keeps_def nth_append Let_def)

lemma nths_kept_append:
  "nths (cs @ [x]) (kept_calls s (cs @ [x])) = nths cs (kept_calls s cs) @
     (if keeps s (cs @ [x]) (length cs) then [x] else [])"
proof -
  have "nths cs (kept_calls s (cs @ [x])) = nths cs (kept_calls s cs)"
    unfolding nths_def
    by (intro arg_cong [where f = "map fst"] filter_cong)
      (auto simp: kept_calls_def keeps_append(1) less_Suc_eq dest: set_zip_rightD)
  moreover have "0 \<in> {j. j + length cs \<in> kept_calls s (cs @ [x])} \<longleftrightarrow> keeps s (cs @ [x]) (length cs)"
    by (simp add: kept_calls_def)
  ultimately show ?thesis unfolding nths_append nths_singleton by simp
qed

text \<open>
  C40.
  The text of a log line travels as a field, so zap's sampler takes all lines of a level for
  repetitions of one message, but for those of \<open>UsecasesError\<close>, whose message is their error:
  of the calls that go to one counter, from whatever request and layer and whatever they say,
  each window of a second keeps the first hundred and then every hundredth, and the log gets
  the lines of exactly these calls, in their order.
\<close>

theorem log_lines_dropped:
  assumes "\<forall>(t, l, c) \<in> set cs. has_error c"
  shows "lines (log_all cs s) = lines s @ concat (map written_alone (nths cs (kept_calls s cs)))"
  using assms
proof (induction cs rule: rev_induct)
  case (snoc x cs)
  obtain t l c where x: "x = (t, l, c)" by (cases x)
  have ok: "has_error c" "\<forall>(t, l, c) \<in> set cs. has_error c" using snoc.prems x by auto
  let ?j = "call_slot c"
  let ?k = "place (counters s ?j) (times_at ?j (cs @ [x]))"
  let ?keep = "keeps s (cs @ [x]) (length cs)"
  have "times_at ?j (cs @ [x]) = times_at ?j cs @ [t]" by (simp add: times_at_def x)
  then have k: "snd (IncCheckReset t (counters (log_all cs s) ?j)) = ?k"
    using count_place [of "times_at ?j (cs @ [x])" "counters s ?j"]
    by (simp add: log_all_counters [OF ok(2)])
  have "?keep \<longleftrightarrow> sampled ?k"
    by (simp add: keeps_append(2) sampled_iff counter_of_def x Let_def)
  then have "lines (log_all (cs @ [x]) s) =
      lines (log_all cs s) @ (if ?keep then written_alone x else [])"
    using k by (simp add: log_all_append x do_log_step(2) [OF ok(1)])
  moreover have "nths (cs @ [x]) (kept_calls s (cs @ [x])) = nths cs (kept_calls s cs) @
      (if ?keep then [x] else [])"
    by (rule nths_kept_append)
  ultimately show ?case using snoc.IH ok(2) by simp
qed simp

text \<open>
  250 calls at once and one a second later: the first window keeps its calls 1 to 100 and 200,
  the second its only one.
\<close>

definition demo_call :: "int \<Rightarrow> timed_call" where
  "demo_call t = (t, [], CDeliveryInfo [] ''a'' GNil)"

definition demo_calls :: "timed_call list" where
  "demo_calls = replicate 250 (demo_call 0) @ [demo_call second]"

lemma windows_burst: "\<forall>u \<in> set ts. u < t + second \<Longrightarrow> windows (t # ts @ [t + second]) = [t # ts, [t + second]]"
  "\<forall>u \<in> set ts. u < t + second \<Longrightarrow> windows (t # ts) = [t # ts]"
  by (simp_all add: takeWhile_append2 dropWhile_append2 takeWhile_eq_all_conv [THEN iffD2]
      dropWhile_eq_Nil_conv [THEN iffD2])

lemma demo_place:
  "place (0, 0) (replicate (Suc i) 0) = Suc i"
  "place (0, 0) (replicate (Suc i) 0 @ [second]) = 1"
  using windows_burst [of "replicate i 0" 0] by (simp_all add: place_def second_def)

lemma demo_times:
  "times_at (counter_of (demo_call u)) (replicate n (demo_call t)) = replicate n t"
  "times_at (counter_of (demo_call u)) (replicate n (demo_call t) @ [demo_call v]) = replicate n t @ [v]"
  by (simp_all add: times_at_def demo_call_def counter_of_def)

lemma demo_kept: "kept_calls new_sink demo_calls = set (filter (\<lambda>i. i < 100 \<or> i = 199 \<or> i = 250) [0..<251])"
proof -
  have "keeps new_sink demo_calls i \<longleftrightarrow> i < 100 \<or> i = 199" if i: "i < 250" for i
  proof -
    have "take (Suc i) demo_calls = replicate (Suc i) (demo_call 0)" "demo_calls ! i = demo_call 0"
      using i by (simp_all add: demo_calls_def nth_append min_def del: replicate_Suc)
    then have "keeps new_sink demo_calls i \<longleftrightarrow> Suc i \<le> 100 \<or> 100 dvd Suc i"
      by (simp add: keeps_def demo_times demo_place new_sink_def del: replicate_Suc)
    with i show ?thesis by presburger
  qed
  moreover have "keeps new_sink demo_calls 250"
    using demo_place(2) [of 249] demo_times(2) [of second 250 0 second]
    by (simp add: keeps_def demo_calls_def nth_append new_sink_def)
  ultimately show ?thesis
    by (auto simp: kept_calls_def demo_calls_def less_Suc_eq [of _ 250, simplified])
qed

lemma length_concat_single: "\<forall>x \<in> set xs. length (f x) = 1 \<Longrightarrow> length (concat (map f xs)) = length xs"
  by (induction xs) auto

lemma log_lines_dropped_witness:
  "length (lines (log_all demo_calls new_sink)) = 102"
proof -
  have "length (written_alone x) = 1" if "x \<in> set demo_calls" for x
    using that by (auto simp: demo_calls_def demo_call_def written_alone_def emit_alone)
  then have "length (concat (map written_alone (nths demo_calls A))) = length (nths demo_calls A)" for A
    using set_nths_subset [of demo_calls A] by (intro length_concat_single) blast
  moreover have "\<forall>(t, l, c) \<in> set demo_calls. has_error c" by (auto simp: demo_calls_def demo_call_def)
  ultimately have "length (lines (log_all demo_calls new_sink)) =
      length (nths demo_calls (kept_calls new_sink demo_calls))"
    using log_lines_dropped [of demo_calls new_sink] by (simp add: new_sink_def)
  also have "\<dots> = card (set (filter (\<lambda>i. i < 100 \<or> i = 199 \<or> i = 250) [0..<251]))"
    unfolding demo_kept by (auto simp: length_nths demo_calls_def intro: arg_cong [where f = card])
  also have "\<dots> = 102" by code_simp
  finally show ?thesis .
qed

text \<open>
  The lines a request writes carry what the two outer middlewares have put into its context,
  unless the key of the user is one of theirs.
\<close>

lemma delivery_line:
  assumes "ctx = WithValue (StringKey key) v (SaveRequestData (WithContext (Zap l) uuid ctx0) r)"
    and "key \<notin> {keyMethod, keyURL, keySession}"
  shows "logDeliveryRequest (l @ [(''request-uuid'', StringType uuid)]) ctx =
      l @ [(''request-uuid'', StringType uuid), (''layer'', StringType ''delivery''),
           (''path'', StringType (rq_URL r)), (''method'', StringType (rq_Method r)),
           (''session_id'', StringType (case rq_cookie r of Some sid \<Rightarrow> sid | None \<Rightarrow> []))]"
    and "FromContext ctx = Zap (l @ [(''request-uuid'', StringType uuid)])"
  using assms
  by (auto simp: logDeliveryRequest_def with_field_def GetMethod_def GetURL_def GetSession_def
      string_value_def Value_WithValue SaveRequestData_def FromContext_def request_keys split: option.splits)

end
