(* ===== verification/Metrics.thy ===== *)
theory Metrics
  imports Complex_Main Responses Strconv
begin

text \<open>
  The metrics of the program (\<open>internal/pkg/metrics\<close>): counters and histograms that are
  registered with prometheus by name and kept per list of label values. Times are in
  nanoseconds; a histogram is the list of what was observed, its buckets are data.
\<close>

section \<open>Prometheus\<close>

record collector =
  co_Name :: string
  co_Help :: string
  co_Buckets :: "rat list"
  co_Labels :: "string list"

record registry =
  registered :: "string list"
  counted :: "string \<times> string list \<Rightarrow> nat"
  observed :: "string \<times> string list \<Rightarrow> rat list"

definition NewCounterVec :: "string \<Rightarrow> string \<Rightarrow> string list \<Rightarrow> collector" where
  "NewCounterVec nam help labels = \<lparr>co_Name = nam, co_Help = help, co_Buckets = [], co_Labels = labels\<rparr>"

definition NewHistogramVec :: "string \<Rightarrow> string \<Rightarrow> rat list \<Rightarrow> string list \<Rightarrow> collector" where
  "NewHistogramVec nam help buckets labels =
     \<lparr>co_Name = nam, co_Help = help, co_Buckets = buckets, co_Labels = labels\<rparr>"

text \<open>\<open>prometheus.Register\<close> refuses a name that is taken.\<close>

definition Register :: "collector \<Rightarrow> registry \<Rightarrow> (string + unit) \<times> registry" where
  "Register c g =
     (if co_Name c \<in> set (registered g) then (Inl ''duplicate metrics collector registration attempted'', g)
      else (Inr (), g\<lparr>registered := co_Name c # registered g\<rparr>))"

fun Register_all :: "collector list \<Rightarrow> registry \<Rightarrow> (string + unit) \<times> registry" where
  "Register_all [] g = (Inr (), g)"
| "Register_all (c # cs) g =
     (case Register c g of (Inl err, g1) \<Rightarrow> (Inl err, g1) | (Inr _, g1) \<Rightarrow> Register_all cs g1)"

text \<open>The shape of the constructors: the metrics, or the error of the first refusal.\<close>

definition registering :: "collector list \<Rightarrow> 'm \<Rightarrow> registry \<Rightarrow> (string + 'm) \<times> registry" where
  "registering cs m g =
     (case Register_all cs g of (Inl err, g1) \<Rightarrow> (Inl err, g1) | (Inr _, g1) \<Rightarrow> (Inr m, g1))"

text \<open>\<open>WithLabelValues\<close> panics unless there is one value for each label.\<close>

definition Inc :: "collector \<Rightarrow> string list \<Rightarrow> registry \<Rightarrow> unit go \<times> registry" where
  "Inc c vals g =
     (if length vals = length (co_Labels c)
      then (Return (), g\<lparr>counted := (counted g)((co_Name c, vals) := counted g (co_Name c, vals) + 1)\<rparr>)
      else (Panic, g))"

definition Observe :: "collector \<Rightarrow> string list \<Rightarrow> rat \<Rightarrow> registry \<Rightarrow> unit go \<times> registry" where
  "Observe c vals x g =
     (if length vals = length (co_Labels c)
      then (Return (), g\<lparr>observed := (observed g)((co_Name c, vals) := observed g (co_Name c, vals) @ [x])\<rparr>)
      else (Panic, g))"

definition Seconds :: "int \<Rightarrow> rat" where "Seconds ns = of_int ns / 1000000000"
definition Minutes :: "int \<Rightarrow> rat" where "Minutes ns = of_int ns / 60000000000"

section \<open>Databases\<close>

record dbMetrics =
  dm_dbName :: string
  dm_totalHits :: collector
  dm_totalErrs :: collector
  dm_duration :: collector

definition db_collectors :: "string \<Rightarrow> dbMetrics" where
  "db_collectors dbName =
     \<lparr>dm_dbName = dbName,
      dm_totalHits = NewCounterVec (dbName @ ''_total_hits_count'') (''Number of total '' @ dbName @ '' hits'')
        [''dbName'', ''function''],
      dm_totalErrs = NewCounterVec (dbName @ ''_total_errors_count'') (''Number of total '' @ dbName @ '' errors'')
        [''dbName'', ''function''],
      dm_duration = NewHistogramVec (dbName @ ''_duration'') (''Request time in '' @ dbName @ '' DB'')
        [1/1000, 1/400, 1/200, 1/100, 1/40, 1/20, 1/10, 1/4, 1/2, 1] [''dbName'', ''function'']\<rparr>"

definition NewDBMetrics :: "string \<Rightarrow> registry \<Rightarrow> (string + dbMetrics) \<times> registry" where
  "NewDBMetrics dbName g =
     (let m = db_collectors dbName in registering [dm_totalHits m, dm_totalErrs m, dm_duration m] m g)"

definition db_IncreaseHits :: "dbMetrics \<Rightarrow> string \<Rightarrow> registry \<Rightarrow> unit go \<times> registry" where
  "db_IncreaseHits m f = Inc (dm_totalHits m) [dm_dbName m, f]"

definition db_IncreaseErrs :: "dbMetrics \<Rightarrow> string \<Rightarrow> registry \<Rightarrow> unit go \<times> registry" where
  "db_IncreaseErrs m f = Inc (dm_totalErrs m) [dm_dbName m, f]"

definition db_IncreaseDuration :: "dbMetrics \<Rightarrow> string \<Rightarrow> int \<Rightarrow> registry \<Rightarrow> unit go \<times> registry" where
  "db_IncreaseDuration m f duration = Observe (dm_duration m) [dm_dbName m, f] (Seconds duration)"

section \<open>HTTP\<close>

record httpMetrics =
  hm_totalHits :: collector
  hm_duration :: collector

definition http_collectors :: httpMetrics where
  "http_collectors =
     \<lparr>hm_totalHits = NewCounterVec ''total_hits_count'' ''Number of total http requests'' [''path'', ''code''],
      hm_duration = NewHistogramVec ''request_time'' ''Request time''
        [1/400, 1/200, 1/100, 1/40, 1/20, 1/10, 1/4, 1/2, 1, 5/2] [''path'', ''code'']\<rparr>"

definition NewHTTPMetrics :: "registry \<Rightarrow> (string + httpMetrics) \<times> registry" where
  "NewHTTPMetrics g =
     (let m = http_collectors in registering [hm_totalHits m, hm_duration m] m g)"

definition http_IncreaseHits :: "httpMetrics \<Rightarrow> string \<Rightarrow> int \<Rightarrow> registry \<Rightarrow> unit go \<times> registry" where
  "http_IncreaseHits m path code = Inc (hm_totalHits m) [path, itoa code]"

definition http_IncreaseDuration ::
    "httpMetrics \<Rightarrow> string \<Rightarrow> int \<Rightarrow> int \<Rightarrow> registry \<Rightarrow> unit go \<times> registry" where
  "http_IncreaseDuration m path code duration = Observe (hm_duration m) [path, itoa code] (Seconds duration)"

section \<open>Websockets\<close>

record wsMetrics =
  wm_sessions :: collector
  wm_conns :: collector
  wm_duration :: collector

record wsSessionMetrics =
  sm_receivedMsgs :: collector
  sm_sentMsgs :: collector

definition ws_collectors :: wsMetrics where
  "ws_collectors =
     \<lparr>wm_sessions = NewCounterVec ''ws_sessions_count'' ''Total WS session numbers'' [],
      wm_conns = NewCounterVec ''ws_conns_count'' ''Number of WS connections'' [],
      wm_duration = NewHistogramVec ''ws_session_duration'' ''Websocket session duration''
        [15, 20, 25, 30, 45, 60, 90] []\<rparr>"

definition NewWSMetrics :: "registry \<Rightarrow> (string + wsMetrics) \<times> registry" where
  "NewWSMetrics g =
     (let m = ws_collectors in registering [wm_sessions m, wm_conns m, wm_duration m] m g)"

definition ws_session_collectors :: wsSessionMetrics where
  "ws_session_collectors =
     \<lparr>sm_receivedMsgs = NewCounterVec ''ws_received_msgs_count''
        ''Number of received messages in WS connections'' [],
      sm_sentMsgs = NewCounterVec ''ws_sent_msgs_count'' ''Number of sent messages in WS connections'' []\<rparr>"

definition NewWSSessionMetrics :: "registry \<Rightarrow> (string + wsSessionMetrics) \<times> registry" where
  "NewWSSessionMetrics g =
     (let m = ws_session_collectors in registering [sm_receivedMsgs m, sm_sentMsgs m] m g)"

definition ws_IncSessions :: "wsMetrics \<Rightarrow> registry \<Rightarrow> unit go \<times> registry" where
  "ws_IncSessions m = Inc (wm_sessions m) []"

definition ws_IncConns :: "wsMetrics \<Rightarrow> registry \<Rightarrow> unit go \<times> registry" where
  "ws_IncConns m = Inc (wm_conns m) []"

definition ws_IncReceivedMsgs :: "wsSessionMetrics \<Rightarrow> registry \<Rightarrow> unit go \<times> registry" where
  "ws_IncReceivedMsgs m = Inc (sm_receivedMsgs m) []"

definition ws_IncSentMsgs :: "wsSessionMetrics \<Rightarrow> registry \<Rightarrow> unit go \<times> registry" where
  "ws_IncSentMsgs m = Inc (sm_sentMsgs m) []"

definition ws_IncreaseDuration :: "wsMetrics \<Rightarrow> int \<Rightarrow> registry \<Rightarrow> unit go \<times> registry" where
  "ws_IncreaseDuration m duration = Observe (wm_duration m) [] (Minutes duration)"

lemmas collector_defs = db_collectors_def http_collectors_def ws_collectors_def ws_session_collectors_def
  NewCounterVec_def NewHistogramVec_def

lemmas increase_defs = db_IncreaseHits_def db_IncreaseErrs_def db_IncreaseDuration_def http_IncreaseHits_def
  http_IncreaseDuration_def ws_IncSessions_def ws_IncConns_def ws_IncReceivedMsgs_def ws_IncSentMsgs_def
  ws_IncreaseDuration_def

section \<open>What the metrics promise\<close>

text \<open>The labels always fit, so no counting panics.\<close>

lemma counting_returns:
  "fst (db_IncreaseHits (db_collectors n) f g) = Return ()"
  "fst (db_IncreaseErrs (db_collectors n) f g) = Return ()"
  "fst (db_IncreaseDuration (db_collectors n) f d g) = Return ()"
  "fst (http_IncreaseHits http_collectors p c g) = Return ()"
  "fst (http_IncreaseDuration http_collectors p c d g) = Return ()"
  "fst (ws_IncSessions ws_collectors g) = Return ()"
  "fst (ws_IncConns ws_collectors g) = Return ()"
  "fst (ws_IncReceivedMsgs ws_session_collectors g) = Return ()"
  "fst (ws_IncSentMsgs ws_session_collectors g) = Return ()"
  "fst (ws_IncreaseDuration ws_collectors d g) = Return ()"
  by (simp_all add: increase_defs Inc_def Observe_def collector_defs)

lemma Register_taken: "co_Name c \<in> set (registered g) \<Longrightarrow> \<exists>err. Register c g = (Inl err, g)"
  and Register_free: "co_Name c \<notin> set (registered g) \<Longrightarrow>
    Register c g = (Inr (), g\<lparr>registered := co_Name c # registered g\<rparr>)"
  by (simp_all add: Register_def)

lemma Register_all_free:
  "distinct (map co_Name cs) \<Longrightarrow> set (map co_Name cs) \<inter> set (registered g) = {} \<Longrightarrow>
     Register_all cs g = (Inr (), g\<lparr>registered := rev (map co_Name cs) @ registered g\<rparr>)"
proof (induction cs arbitrary: g)
  case (Cons c cs)
  let ?g = "g\<lparr>registered := co_Name c # registered g\<rparr>"
  have "Register_all cs ?g = (Inr (), ?g\<lparr>registered := rev (map co_Name cs) @ registered ?g\<rparr>)"
    using Cons.prems by (intro Cons.IH) auto
  then show ?case using Cons.prems by (simp add: Register_free)
qed simp

lemma Register_all_taken:
  "co_Name c \<in> set (registered g) \<Longrightarrow> \<exists>err. Register_all (c # cs) g = (Inl err, g)"
  by (simp add: Register_def)

text \<open>
  The constructors register everything the program needs exactly once: all of them succeed in
  the order the server calls them in, and a second call of one fails.
\<close>

definition all_collectors :: "collector list" where
  "all_collectors =
     [hm_totalHits http_collectors, hm_duration http_collectors,
      dm_totalHits (db_collectors ''mongo''), dm_totalErrs (db_collectors ''mongo''), dm_duration (db_collectors ''mongo''),
      dm_totalHits (db_collectors ''postgres''), dm_totalErrs (db_collectors ''postgres''),
      dm_duration (db_collectors ''postgres''),
      dm_totalHits (db_collectors ''redis''), dm_totalErrs (db_collectors ''redis''), dm_duration (db_collectors ''redis''),
      wm_sessions ws_collectors, wm_conns ws_collectors, wm_duration ws_collectors,
      sm_receivedMsgs ws_session_collectors, sm_sentMsgs ws_session_collectors]"

lemma all_collectors_distinct: "distinct (map co_Name all_collectors)"
  by (simp add: all_collectors_def collector_defs)

text \<open>A second pool of metrics for the same database is refused.\<close>

lemma NewDBMetrics_twice:
  assumes "co_Name (dm_totalHits (db_collectors n)) \<in> set (registered g)"
  shows "\<exists>err. NewDBMetrics n g = (Inl err, g)"
  using assms by (simp add: NewDBMetrics_def Let_def registering_def Register_def)

end
