(* ===== verification/Middlewares.thy ===== *)
theory Middlewares
  imports Logging Metrics
begin

text \<open>
  Handlers with the writer they are given, and the five middlewares of the program
  (\<open>internal/pkg/middleware\<close>).

  What a handler does to its writer is a list of events: the codes it passes to
  \<open>WriteHeader\<close> and what it writes. The client gets the first code; the metrics middleware
  remembers the last. A handler may end in a panic after some events.
\<close>

section \<open>Writers and handlers\<close>

datatype 'b event = WroteHeader int | Wrote "'b payload" | SetHeader string string | Hijacked

text \<open>The server's own writer, or the wrapper of the metrics middleware, which is no \<open>Hijacker\<close>.\<close>

datatype writer = ServerWriter | FakeWriter

fun header_codes :: "'b event list \<Rightarrow> int list" where
  "header_codes [] = []"
| "header_codes (WroteHeader c # es) = c # header_codes es"
| "header_codes (e # es) = header_codes es"

lemma header_codes_append [simp]: "header_codes (xs @ ys) = header_codes xs @ header_codes ys"
  by (induction xs rule: header_codes.induct) auto

text \<open>
  \<open>net/http\<close>: the first call of \<open>WriteHeader\<close> counts, writing or returning without one means 200.
\<close>

fun client_status :: "'b event list \<Rightarrow> int" where
  "client_status [] = 200"
| "client_status (WroteHeader c # es) = c"
| "client_status (Wrote b # es) = 200"
| "client_status (Hijacked # es) = 101"
| "client_status (SetHeader n v # es) = client_status es"

record 's server =
  sv_app :: 's
  sv_sink :: sink
  sv_metrics :: registry
  sv_requests :: nat

type_synonym ('b, 's) handler =
  "writer \<Rightarrow> ctxt \<Rightarrow> server_request \<Rightarrow> 's server \<Rightarrow> ('b event list \<times> unit go) \<times> 's server"

text \<open>\<open>w.(http.Hijacker)\<close>.\<close>

fun is_hijacker :: "writer \<Rightarrow> bool" where
  "is_hijacker ServerWriter = True"
| "is_hijacker FakeWriter = False"

definition header_get :: "string \<Rightarrow> server_request \<Rightarrow> string" where
  "header_get k r = (case map_of (rq_Header r) k of Some (v # vs) \<Rightarrow> v | _ \<Rightarrow> [])"

text \<open>
  \<open>sendResponse\<close> as events: the header first, then the body, or \<open>http.Error\<close> on top when the
  body does not marshal.
\<close>

definition sent :: "('b payload \<Rightarrow> bool) \<Rightarrow> int \<Rightarrow> 'b payload \<Rightarrow> 'b event list" where
  "sent marshals code response =
     WroteHeader code #
       (if marshals response then [Wrote response]
        else [WroteHeader StatusInternalServerError, Wrote (TextBody ErrInternalServer)])"

definition sent_err :: "int \<Rightarrow> string \<Rightarrow> 'b event list" where
  "sent_err code status = sent (\<lambda>_. True) code (ErrBody status)"

definition or_body :: "'b payload option \<Rightarrow> 'b payload \<Rightarrow> 'b payload option" where
  "or_body later b = (case later of None \<Rightarrow> Some b | Some l \<Rightarrow> Some l)"

fun last_body :: "'b event list \<Rightarrow> 'b payload option" where
  "last_body [] = None"
| "last_body (Wrote b # es) = or_body (last_body es) b"
| "last_body (e # es) = last_body es"

text \<open>The answer of the other theories is what the client sees of the events.\<close>

lemma sent_view:
  "(client_status (sent marshals code response), last_body (sent marshals code response)) =
     map_prod id Some (sendResponse marshals code response)"
  by (simp add: sent_def sendResponse_def or_body_def)

section \<open>The middlewares\<close>

definition keep_sink :: "(sink \<Rightarrow> 'r \<times> sink) \<Rightarrow> 's server \<Rightarrow> 'r \<times> 's server" where
  "keep_sink f s = (case f (sv_sink s) of (r, k) \<Rightarrow> (r, s\<lparr>sv_sink := k\<rparr>))"

text \<open>\<open>CreateLogMiddleware\<close>; \<open>uuid\<close> is the supply of \<open>uuid.NewString\<close>.\<close>

definition CreateLogMiddleware :: "(nat \<Rightarrow> string) \<Rightarrow> logger \<Rightarrow> ('b, 's) handler \<Rightarrow> ('b, 's) handler" where
  "CreateLogMiddleware uuid lg nxt w ctx r s =
     nxt w (WithContext lg (uuid (sv_requests s)) ctx) r (s\<lparr>sv_requests := sv_requests s + 1\<rparr>)"

definition RequestDataMiddleware :: "('b, 's) handler \<Rightarrow> ('b, 's) handler" where
  "RequestDataMiddleware nxt w ctx r s = nxt w (SaveRequestData ctx r) r s"

text \<open>
  \<open>RecoveryMiddleware\<close> logs the panic and adds a plain 500 to what has been written; it logs
  with the context it was given, not with that of the handler. The text of the panic value is
  \<open>panic_text\<close>.
\<close>

definition RecoveryEvents :: "string \<Rightarrow> ('b, 's) handler \<Rightarrow> ('b, 's) handler" where
  "RecoveryEvents panic_text nxt w ctx r s =
     (case nxt w ctx r s of
        ((es, Panic), s1) \<Rightarrow>
          (case keep_sink (DeliveryError (FromContext ctx) ctx StatusInternalServerError ErrInternalServer
                  (Some panic_text) GNil) s1 of
             (g, s2) \<Rightarrow>
               ((es @ [WroteHeader StatusInternalServerError, Wrote (TextBody ErrInternalServer)], g), s2))
      | res \<Rightarrow> res)"

text \<open>
  \<open>CreateMetricsMiddleware\<close>. \<open>fakeResponseWriter\<close> starts with 200 and keeps the last code. The
  counting follows the call of the next handler without a \<open>defer\<close>, so a panic passes it by.
\<close>

definition fake_code :: "'b event list \<Rightarrow> int" where
  "fake_code es = last (200 # header_codes es)"

definition GetPathTemplate :: "ctxt \<Rightarrow> string" where
  "GetPathTemplate ctx = (case Value RouteKey ctx of Some (RouteVal t) \<Rightarrow> t | _ \<Rightarrow> [])"

definition count_request :: "httpMetrics \<Rightarrow> string \<Rightarrow> int \<Rightarrow> int \<Rightarrow> registry \<Rightarrow> registry" where
  "count_request m path code duration g =
     snd (http_IncreaseDuration m path code duration (snd (http_IncreaseHits m path code g)))"

definition CreateMetricsMiddleware :: "httpMetrics \<Rightarrow> ('b, 's) handler \<Rightarrow> ('b, 's) handler" where
  "CreateMetricsMiddleware m nxt w ctx r s =
     (if header_get ''Upgrade'' r = ''websocket'' then nxt w ctx r s
      else case nxt FakeWriter ctx r s of
        ((es, Return u), s1) \<Rightarrow>
          (let duration = clock (sv_sink s1) - clock (sv_sink s);
               code = fake_code es; path = GetPathTemplate ctx
           in ((es, Return u),
               if path \<noteq> ''/metrics''
               then s1\<lparr>sv_metrics := count_request m path code duration (sv_metrics s1)\<rparr> else s1))
      | res \<Rightarrow> res)"

text \<open>
  \<open>LoginRequiredMiddleware\<close> over the usecase \<open>CheckAuth\<close>: the handler finds the user in its
  context.
\<close>

definition LoginRequired ::
    "(string \<Rightarrow> 's \<Rightarrow> user option \<times> 's) \<Rightarrow> string \<Rightarrow> ('b, 's) handler \<Rightarrow> ('b, 's) handler" where
  "LoginRequired check ctxUserKey nxt w ctx r s =
     (case rq_cookie r of
        None \<Rightarrow> ((sent_err StatusUnauthorized ErrNotAuthorized, Return ()), s)
      | Some sid \<Rightarrow>
          (case check sid (sv_app s) of
             (None, a) \<Rightarrow> ((sent_err StatusUnauthorized ErrNotAuthorized, Return ()), s\<lparr>sv_app := a\<rparr>)
           | (Some user, a) \<Rightarrow>
               (if Status user \<noteq> [] \<and> Status user \<noteq> ''active''
                then ((sent_err StatusForbidden ErrUserInactive, Return ()), s\<lparr>sv_app := a\<rparr>)
                else nxt w (WithValue (StringKey ctxUserKey) (UserVal user) ctx) r (s\<lparr>sv_app := a\<rparr>))))"

text \<open>What handlers read from their context: the user and a variable of the path.\<close>

definition ctx_user :: "string \<Rightarrow> ctxt \<Rightarrow> user option" where
  "ctx_user key ctx = (case Value (StringKey key) ctx of Some (UserVal u) \<Rightarrow> Some u | _ \<Rightarrow> None)"

definition mux_var :: "string \<Rightarrow> ctxt \<Rightarrow> string option" where
  "mux_var x ctx = (case Value VarsKey ctx of Some (VarsVal vs) \<Rightarrow> map_of vs x | _ \<Rightarrow> None)"

section \<open>What they guarantee\<close>

lemma sent_err_simps [simp]:
  "client_status (sent_err code status) = code"
  "header_codes (sent_err code status) = [code]"
  by (simp_all add: sent_err_def sent_def)

lemma count_request_registry:
  "counted (count_request http_collectors path code d g) =
     (counted g)((''total_hits_count'', [path, itoa code]) := counted g (''total_hits_count'', [path, itoa code]) + 1)"
  by (simp add: count_request_def http_IncreaseHits_def http_IncreaseDuration_def Inc_def Observe_def
      http_collectors_def NewCounterVec_def NewHistogramVec_def)

text \<open>The recovery middleware turns every panic into an answer; a real logger or none, it does not panic.\<close>

lemma DeliveryError_returns:
  "err \<noteq> None \<Longrightarrow> fst (DeliveryError lg ctx code status err fs k) = Return ()"
  by (cases lg) (auto simp: err_Error_def Let_def)

lemma RecoveryEvents_no_panic: "snd (fst (RecoveryEvents txt nxt w ctx r s)) \<noteq> Panic"
proof -
  obtain es g s1 where n: "nxt w ctx r s = ((es, g), s1)" by (metis surj_pair)
  have "fst (keep_sink (DeliveryError (FromContext ctx) ctx StatusInternalServerError ErrInternalServer
      (Some txt) GNil) s1) = Return ()"
    by (simp add: keep_sink_def DeliveryError_returns split: prod.splits)
       (metis DeliveryError_returns fst_conv option.distinct(1))
  then show ?thesis using n by (cases g) (auto simp: RecoveryEvents_def split: prod.splits)
qed

lemma RecoveryEvents_app: "sv_app (snd (RecoveryEvents txt nxt w ctx r s)) = sv_app (snd (nxt w ctx r s))"
  by (auto simp: RecoveryEvents_def keep_sink_def split: prod.splits go.splits)

text \<open>The writer behind the metrics middleware, and what the middleware leaves alone.\<close>

definition inner_writer :: "server_request \<Rightarrow> writer \<Rightarrow> writer" where
  "inner_writer r w = (if header_get ''Upgrade'' r = ''websocket'' then w else FakeWriter)"

lemma CreateMetricsMiddleware_keeps:
  "fst (CreateMetricsMiddleware m nxt w ctx r s) = fst (nxt (inner_writer r w) ctx r s)"
  "sv_app (snd (CreateMetricsMiddleware m nxt w ctx r s)) = sv_app (snd (nxt (inner_writer r w) ctx r s))"
  by (auto simp: CreateMetricsMiddleware_def inner_writer_def Let_def split: prod.splits go.splits)

end
