(* ===== verification/Routers.thy ===== *)
theory Routers
  imports Mux Middlewares
begin

text \<open>
  The routes of the server (\<open>internal/pkg/server/delivery/routers\<close>), built with the functions of
  the router package as the code builds them, and how a request is served: through the router,
  the middlewares and the handler, which are the parameters \<open>NewRouter\<close> gets from the server.
\<close>

section \<open>Endpoints and middlewares\<close>

text \<open>One name for each handler that is registered.\<close>

datatype endpoint =
    E_GetCreaturesList | E_GetCreatureByName | E_AddGeneratedCreature |
    E_UploadCreatureStatblockImage | E_SubmitCreatureGenerationPrompt |
    E_GetUserCreaturesList | E_GetUserCreatureByName | E_GenerateDescription |
    E_GetCharactersList | E_AddCharacter | E_GetCharacterByMongoId | E_SaveEncounter |
    E_GetEncountersList | E_GetEncounterByID | E_UpdateEncounter | E_RemoveEncounter |
    E_Logout | E_ListIdentities | E_LinkIdentity | E_UnlinkIdentity | E_Login | E_CheckAuth
    | E_CreateSession | E_GetTableData | E_ServeWS | E_SubmitGenerationPrompt |
    E_SubmitGenerationImage | E_GetGenerationStatus | E_GetCategories | E_ListMaps |
    E_CreateMap | E_GetMapByID | E_UpdateMap | E_DeleteMap | E_Prometheus

datatype middleware = LogMw | RequestDataMw | RecoveryMw | MetricsMw | LoginRequiredMw

type_synonym api_route = "(middleware, endpoint) route"
type_synonym api_conf = "(middleware, endpoint) route_conf"

section \<open>The routes\<close>

definition ServeBestiaryRouter :: "api_conf \<Rightarrow> api_route" where
  "ServeBestiaryRouter router =
     Subrouter ''/bestiary'' [] (\<lambda>subrouter.
       [HandleFunc ''/list'' E_GetCreaturesList [''POST''] subrouter,
        HandleFunc ''/{name}'' E_GetCreatureByName [''GET''] subrouter,
        Subrouter '''' [LoginRequiredMw] (\<lambda>subrouterLoginRequired.
          [HandleFunc ''/generated_creature'' E_AddGeneratedCreature [''POST''] subrouterLoginRequired,
           HandleFunc ''/statblock-image'' E_UploadCreatureStatblockImage [''POST''] subrouterLoginRequired,
           HandleFunc ''/creature-generation-prompt'' E_SubmitCreatureGenerationPrompt [''POST''] subrouterLoginRequired,
           HandleFunc ''/usr_content/list'' E_GetUserCreaturesList [''POST''] subrouterLoginRequired,
           HandleFunc ''/usr_content/{name}'' E_GetUserCreatureByName [''GET''] subrouterLoginRequired]) subrouter]) router"

definition ServeBattleRouter :: "api_conf \<Rightarrow> api_route" where
  "ServeBattleRouter router =
     Subrouter ''/battle'' [] (\<lambda>subrouter.
       [HandleFunc ''/generate_description'' E_GenerateDescription [''POST''] subrouter]) router"

definition ServeCharacterRouter :: "api_conf \<Rightarrow> api_route" where
  "ServeCharacterRouter router =
     Subrouter ''/character'' [LoginRequiredMw] (\<lambda>subrouter.
       [HandleFunc ''/list'' E_GetCharactersList [''POST''] subrouter,
        HandleFunc ''/add_character'' E_AddCharacter [''POST''] subrouter,
        HandleFunc ''/{id}'' E_GetCharacterByMongoId [''GET''] subrouter]) router"

definition ServeEncounteRouter :: "api_conf \<Rightarrow> api_route" where
  "ServeEncounteRouter router =
     Subrouter ''/encounter'' [LoginRequiredMw] (\<lambda>subrouter.
       [HandleFunc '''' E_SaveEncounter [''POST''] subrouter,
        HandleFunc ''/list'' E_GetEncountersList [''POST''] subrouter,
        HandleFunc ''/{id}'' E_GetEncounterByID [''GET''] subrouter,
        HandleFunc ''/{id}'' E_UpdateEncounter [''POST''] subrouter,
        HandleFunc ''/{id}'' E_RemoveEncounter [''DELETE''] subrouter]) router"

definition ServeAuthRouter :: "api_conf \<Rightarrow> api_route" where
  "ServeAuthRouter router =
     Subrouter ''/auth'' [] (\<lambda>subrouter.
       [Subrouter '''' [LoginRequiredMw] (\<lambda>subrouterLoginRequired.
          [HandleFunc ''/logout'' E_Logout [''POST''] subrouterLoginRequired,
           HandleFunc ''/identities'' E_ListIdentities [''GET''] subrouterLoginRequired,
           HandleFunc ''/link/{provider}'' E_LinkIdentity [''POST''] subrouterLoginRequired,
           HandleFunc ''/unlink/{provider}'' E_UnlinkIdentity [''DELETE''] subrouterLoginRequired]) subrouter,
        HandleFunc ''/login/{provider}'' E_Login [''POST''] subrouter,
        HandleFunc ''/check'' E_CheckAuth [''GET''] subrouter]) router"

definition ServeTableRouter :: "api_conf \<Rightarrow> api_route" where
  "ServeTableRouter router =
     Subrouter ''/table'' [LoginRequiredMw] (\<lambda>subrouter.
       [HandleFunc ''/session'' E_CreateSession [''POST''] subrouter,
        HandleFunc ''/session/{id}'' E_GetTableData [''GET''] subrouter,
        HandleFunc ''/session/{id}/connect'' E_ServeWS [''GET''] subrouter]) router"

definition ServeLLMRouter :: "api_conf \<Rightarrow> api_route" where
  "ServeLLMRouter router =
     Subrouter ''/llm'' [LoginRequiredMw] (\<lambda>subrouter.
       [HandleFunc ''/text'' E_SubmitGenerationPrompt [''POST''] subrouter,
        HandleFunc ''/image'' E_SubmitGenerationImage [''POST''] subrouter,
        HandleFunc ''/{id}'' E_GetGenerationStatus [''GET''] subrouter]) router"

definition ServeMapTilesRouter :: "api_conf \<Rightarrow> api_route" where
  "ServeMapTilesRouter router =
     Subrouter ''/map-tiles'' [LoginRequiredMw] (\<lambda>subrouter.
       [HandleFunc ''/categories'' E_GetCategories [''GET''] subrouter]) router"

definition ServeMapsRouter :: "api_conf \<Rightarrow> api_route" where
  "ServeMapsRouter router =
     Subrouter ''/maps'' [LoginRequiredMw] (\<lambda>subrouter.
       [HandleFunc '''' E_ListMaps [''GET''] subrouter,
        HandleFunc '''' E_CreateMap [''POST''] subrouter,
        HandleFunc ''/{id}'' E_GetMapByID [''GET''] subrouter,
        HandleFunc ''/{id}'' E_UpdateMap [''PUT''] subrouter,
        HandleFunc ''/{id}'' E_DeleteMap [''DELETE''] subrouter]) router"

definition rootMiddlewares :: "middleware list" where
  "rootMiddlewares = [LogMw, RequestDataMw, RecoveryMw, MetricsMw]"

definition apiRouter :: "(middleware, endpoint) router" where
  "apiRouter =
     (let router = NewRouter in
      Router
        [PrefixHandler ''/metrics'' E_Prometheus router,
         Subrouter ''/api'' [] (\<lambda>rootRouter.
           [ServeBestiaryRouter rootRouter,
            ServeBattleRouter rootRouter,
            ServeCharacterRouter rootRouter,
            ServeEncounteRouter rootRouter,
            ServeAuthRouter rootRouter,
            ServeTableRouter rootRouter,
            ServeLLMRouter rootRouter,
            ServeMapTilesRouter rootRouter,
            ServeMapsRouter rootRouter]) router]
        rootMiddlewares)"

section \<open>Serving a request\<close>

record ('b, 's) server_env =
  e_uuid :: "nat \<Rightarrow> string"
  e_logger :: logger
  e_httpMetrics :: httpMetrics
  e_CheckAuth :: "string \<Rightarrow> 's \<Rightarrow> user option \<times> 's"
  e_CtxUserKey :: string
  e_panic_text :: string
  e_handler :: "endpoint \<Rightarrow> ('b, 's) handler"

fun run_middleware :: "('b, 's) server_env \<Rightarrow> middleware \<Rightarrow> ('b, 's) handler \<Rightarrow> ('b, 's) handler" where
  "run_middleware env LogMw = CreateLogMiddleware (e_uuid env) (e_logger env)"
| "run_middleware env RequestDataMw = RequestDataMiddleware"
| "run_middleware env RecoveryMw = RecoveryEvents (e_panic_text env)"
| "run_middleware env MetricsMw = CreateMetricsMiddleware (e_httpMetrics env)"
| "run_middleware env LoginRequiredMw = LoginRequired (e_CheckAuth env) (e_CtxUserKey env)"

fun run_chain :: "('b, 's) server_env \<Rightarrow> (middleware, endpoint) chain \<Rightarrow> ('b, 's) handler" where
  "run_chain env (Handler ep) = e_handler env ep"
| "run_chain env (Middleware mw c) = run_middleware env mw (run_chain env c)"

text \<open>\<open>Router.ServeHTTP\<close>: variables and route go into the context before the chain runs.\<close>

definition route_context :: "string option \<Rightarrow> (string \<times> string) list \<Rightarrow> ctxt" where
  "route_context tpl vars =
     WithValue RouteKey (RouteVal (case tpl of Some t \<Rightarrow> t | None \<Rightarrow> []))
       (WithValue VarsKey (VarsVal vars) Background)"

definition serve :: "('b, 's) server_env \<Rightarrow> server_request \<Rightarrow> 's server \<Rightarrow> ('b event list \<times> unit go) \<times> 's server" where
  "serve env r s =
     (case ServeHTTP apiRouter (rq_Method r) (rq_Path r) of
        Redirect p \<Rightarrow> (([SetHeader ''Location'' p, WroteHeader 301], Return ()), s)
      | Found c tpl vars \<Rightarrow> run_chain env c ServerWriter (route_context tpl vars) r s
      | MethodNotAllowed \<Rightarrow> (([WroteHeader 405], Return ()), s)
      | NotFound \<Rightarrow> (([WroteHeader 404, Wrote (TextBody ''404 page not found'')], Return ()), s))"

section \<open>The table of the API\<close>

text \<open>Method, path, handler and whether a login is required, in the order of precedence.\<close>

definition api_table :: "(string \<times> string \<times> endpoint \<times> bool) list" where
  "api_table =
     [(''POST'', ''/api/bestiary/list'', E_GetCreaturesList, False),
      (''GET'', ''/api/bestiary/{name}'', E_GetCreatureByName, False),
      (''POST'', ''/api/bestiary/generated_creature'', E_AddGeneratedCreature, True),
      (''POST'', ''/api/bestiary/statblock-image'', E_UploadCreatureStatblockImage, True),
      (''POST'', ''/api/bestiary/creature-generation-prompt'', E_SubmitCreatureGenerationPrompt, True),
      (''POST'', ''/api/bestiary/usr_content/list'', E_GetUserCreaturesList, True),
      (''GET'', ''/api/bestiary/usr_content/{name}'', E_GetUserCreatureByName, True),
      (''POST'', ''/api/battle/generate_description'', E_GenerateDescription, False),
      (''POST'', ''/api/character/list'', E_GetCharactersList, True),
      (''POST'', ''/api/character/add_character'', E_AddCharacter, True),
      (''GET'', ''/api/character/{id}'', E_GetCharacterByMongoId, True),
      (''POST'', ''/api/encounter'', E_SaveEncounter, True),
      (''POST'', ''/api/encounter/list'', E_GetEncountersList, True),
      (''GET'', ''/api/encounter/{id}'', E_GetEncounterByID, True),
      (''POST'', ''/api/encounter/{id}'', E_UpdateEncounter, True),
      (''DELETE'', ''/api/encounter/{id}'', E_RemoveEncounter, True),
      (''POST'', ''/api/auth/logout'', E_Logout, True),
      (''GET'', ''/api/auth/identities'', E_ListIdentities, True),
      (''POST'', ''/api/auth/link/{provider}'', E_LinkIdentity, True),
      (''DELETE'', ''/api/auth/unlink/{provider}'', E_UnlinkIdentity, True),
      (''POST'', ''/api/auth/login/{provider}'', E_Login, False),
      (''GET'', ''/api/auth/check'', E_CheckAuth, False),
      (''POST'', ''/api/table/session'', E_CreateSession, True),
      (''GET'', ''/api/table/session/{id}'', E_GetTableData, True),
      (''GET'', ''/api/table/session/{id}/connect'', E_ServeWS, True),
      (''POST'', ''/api/llm/text'', E_SubmitGenerationPrompt, True),
      (''POST'', ''/api/llm/image'', E_SubmitGenerationImage, True),
      (''GET'', ''/api/llm/{id}'', E_GetGenerationStatus, True),
      (''GET'', ''/api/map-tiles/categories'', E_GetCategories, True),
      (''GET'', ''/api/maps'', E_ListMaps, True),
      (''POST'', ''/api/maps'', E_CreateMap, True),
      (''GET'', ''/api/maps/{id}'', E_GetMapByID, True),
      (''PUT'', ''/api/maps/{id}'', E_UpdateMap, True),
      (''DELETE'', ''/api/maps/{id}'', E_DeleteMap, True)]"

definition full_match :: "string \<Rightarrow> string \<Rightarrow> (string \<times> string) list option" where
  "full_match tpl path = (case newRouteRegexp tpl of None \<Rightarrow> None | Some ps \<Rightarrow> submatch False ps path)"

definition row_matches :: "string \<Rightarrow> string \<Rightarrow> string \<times> string \<times> endpoint \<times> bool \<Rightarrow> bool" where
  "row_matches meth path = (\<lambda>(m, tpl, ep, login). m = meth \<and> full_match tpl path \<noteq> None)"

definition row_chain :: "endpoint \<Rightarrow> bool \<Rightarrow> (middleware, endpoint) chain" where
  "row_chain ep login =
     foldr Middleware (rootMiddlewares @ (if login then [LoginRequiredMw] else [])) (Handler ep)"

text \<open>
  What the table says of a clean path. Only below \<open>/api/maps/{id}\<close>, the last path that is
  registered, a wrong method is answered with 405.
\<close>

definition table_dispatch :: "string \<Rightarrow> string \<Rightarrow> (middleware, endpoint) dispatch" where
  "table_dispatch meth path =
     (if take (length ''/metrics'') path = ''/metrics'' then Found (row_chain E_Prometheus False) (Some ''/metrics'') []
      else case find (row_matches meth path) api_table of
        Some (m, tpl, ep, login) \<Rightarrow> Found (row_chain ep login) (Some tpl) (rev (the (full_match tpl path)))
      | None \<Rightarrow> if full_match ''/api/maps/{id}'' path \<noteq> None then MethodNotAllowed else NotFound)"

section \<open>The router decides like the table\<close>

lemma templates:
  "newRouteRegexp ''/api/bestiary/list'' = Some [Lit ''/api/bestiary/list'']"
  "newRouteRegexp ''/api/bestiary/{name}'' = Some [Lit ''/api/bestiary/'', Var ''name'', Lit '''']"
  "newRouteRegexp ''/api/bestiary/generated_creature'' = Some [Lit ''/api/bestiary/generated_creature'']"
  "newRouteRegexp ''/api/bestiary/statblock-image'' = Some [Lit ''/api/bestiary/statblock-image'']"
  "newRouteRegexp ''/api/bestiary/creature-generation-prompt'' = Some [Lit ''/api/bestiary/creature-generation-prompt'']"
  "newRouteRegexp ''/api/bestiary/usr_content/list'' = Some [Lit ''/api/bestiary/usr_content/list'']"
  "newRouteRegexp ''/api/bestiary/usr_content/{name}'' = Some [Lit ''/api/bestiary/usr_content/'', Var ''name'', Lit '''']"
  "newRouteRegexp ''/api/bestiary'' = Some [Lit ''/api/bestiary'']"
  "newRouteRegexp ''/api/battle/generate_description'' = Some [Lit ''/api/battle/generate_description'']"
  "newRouteRegexp ''/api/battle'' = Some [Lit ''/api/battle'']"
  "newRouteRegexp ''/api/character/list'' = Some [Lit ''/api/character/list'']"
  "newRouteRegexp ''/api/character/add_character'' = Some [Lit ''/api/character/add_character'']"
  "newRouteRegexp ''/api/character/{id}'' = Some [Lit ''/api/character/'', Var ''id'', Lit '''']"
  "newRouteRegexp ''/api/character'' = Some [Lit ''/api/character'']"
  "newRouteRegexp ''/api/encounter'' = Some [Lit ''/api/encounter'']"
  "newRouteRegexp ''/api/encounter/list'' = Some [Lit ''/api/encounter/list'']"
  "newRouteRegexp ''/api/encounter/{id}'' = Some [Lit ''/api/encounter/'', Var ''id'', Lit '''']"
  "newRouteRegexp ''/api/auth/logout'' = Some [Lit ''/api/auth/logout'']"
  "newRouteRegexp ''/api/auth/identities'' = Some [Lit ''/api/auth/identities'']"
  "newRouteRegexp ''/api/auth/link/{provider}'' = Some [Lit ''/api/auth/link/'', Var ''provider'', Lit '''']"
  "newRouteRegexp ''/api/auth/unlink/{provider}'' = Some [Lit ''/api/auth/unlink/'', Var ''provider'', Lit '''']"
  "newRouteRegexp ''/api/auth/login/{provider}'' = Some [Lit ''/api/auth/login/'', Var ''provider'', Lit '''']"
  "newRouteRegexp ''/api/auth/check'' = Some [Lit ''/api/auth/check'']"
  "newRouteRegexp ''/api/auth'' = Some [Lit ''/api/auth'']"
  "newRouteRegexp ''/api/table/session'' = Some [Lit ''/api/table/session'']"
  "newRouteRegexp ''/api/table/session/{id}'' = Some [Lit ''/api/table/session/'', Var ''id'', Lit '''']"
  "newRouteRegexp ''/api/table/session/{id}/connect'' = Some [Lit ''/api/table/session/'', Var ''id'', Lit ''/connect'']"
  "newRouteRegexp ''/api/table'' = Some [Lit ''/api/table'']"
  "newRouteRegexp ''/api/llm/text'' = Some [Lit ''/api/llm/text'']"
  "newRouteRegexp ''/api/llm/image'' = Some [Lit ''/api/llm/image'']"
  "newRouteRegexp ''/api/llm/{id}'' = Some [Lit ''/api/llm/'', Var ''id'', Lit '''']"
  "newRouteRegexp ''/api/llm'' = Some [Lit ''/api/llm'']"
  "newRouteRegexp ''/api/map-tiles/categories'' = Some [Lit ''/api/map-tiles/categories'']"
  "newRouteRegexp ''/api/map-tiles'' = Some [Lit ''/api/map-tiles'']"
  "newRouteRegexp ''/api/maps'' = Some [Lit ''/api/maps'']"
  "newRouteRegexp ''/api/maps/{id}'' = Some [Lit ''/api/maps/'', Var ''id'', Lit '''']"
  "newRouteRegexp ''/api'' = Some [Lit ''/api'']"
  "newRouteRegexp ''/metrics'' = Some [Lit ''/metrics'']"
  by (simp_all add: newRouteRegexp_def)

section \<open>The leaves of the router\<close>

definition prefix_matcher :: "string \<Rightarrow> (middleware, endpoint) matcher" where
  "prefix_matcher tpl = RegexpMatcher True [Lit tpl]"

text \<open>The prefixes each row of the table is registered below.\<close>

definition row_prefixes :: "string list list" where
  "row_prefixes =
     replicate 2 [''/api'', ''/api/bestiary''] @
     replicate 5 [''/api'', ''/api/bestiary'', ''/api/bestiary''] @
     replicate 1 [''/api'', ''/api/battle''] @
     replicate 3 [''/api'', ''/api/character''] @
     replicate 5 [''/api'', ''/api/encounter''] @
     replicate 4 [''/api'', ''/api/auth'', ''/api/auth''] @
     replicate 2 [''/api'', ''/api/auth''] @
     replicate 3 [''/api'', ''/api/table''] @
     replicate 3 [''/api'', ''/api/llm''] @
     replicate 1 [''/api'', ''/api/map-tiles''] @
     replicate 5 [''/api'', ''/api/maps'']"

definition row_leaf :: "string list \<Rightarrow> string \<times> string \<times> endpoint \<times> bool \<Rightarrow> (middleware, endpoint) leaf" where
  "row_leaf pres = (\<lambda>(m, tpl, ep, login).
     (map prefix_matcher pres @ [RegexpMatcher False (regexp_of tpl), MethodMatcher [m]], ep,
      Some (tpl, regexp_of tpl, False), if login then [LoginRequiredMw] else []))"

abbreviation under_api :: api_conf where
  "under_api \<equiv> below ''/api'' [prefix_matcher ''/api'']"

lemmas leaf_eqs = row_leaf_def func_leaf_def inside_def prefix_matcher_def

lemma trims:
  "TrimRight ''/api'' = ''/api''"
  "TrimRight ''/api/bestiary'' = ''/api/bestiary''"
  "TrimRight ''/api/battle'' = ''/api/battle''"
  "TrimRight ''/api/character'' = ''/api/character''"
  "TrimRight ''/api/encounter'' = ''/api/encounter''"
  "TrimRight ''/api/auth'' = ''/api/auth''"
  "TrimRight ''/api/table'' = ''/api/table''"
  "TrimRight ''/api/llm'' = ''/api/llm''"
  "TrimRight ''/api/map-tiles'' = ''/api/map-tiles''"
  "TrimRight ''/api/maps'' = ''/api/maps''"
  by (simp_all add: TrimRight_def)

lemma prefix_matcher_free [simp]: "var_free (prefix_matcher t)"
  by (simp add: prefix_matcher_def)

text \<open>A group of routes below one prefix, and a group inside it behind the login.\<close>

lemma flat_area:
  assumes "rooted tpl" "newRouteRegexp (TrimRight ''/api'' @ tpl) = Some [Lit (TrimRight ''/api'' @ tpl)]"
    and "flat [prefix_matcher ''/api'', prefix_matcher (TrimRight ''/api'' @ tpl)]
      (body (below (TrimRight ''/api'' @ tpl) [prefix_matcher ''/api'', prefix_matcher (TrimRight ''/api'' @ tpl)])) es"
    and "es2 = map (inside ws) es"
  shows "flat [prefix_matcher ''/api''] [Subrouter tpl ws body under_api] es2"
  using assms by (intro flat_Subrouter[where es = "[]"]) (auto simp: prefix_matcher_def intro: flat_Nil)

lemma flat_inner:
  assumes "newRouteRegexp t = Some [Lit t]" "TrimRight t = t"
    and "flat [prefix_matcher ''/api'', prefix_matcher t, prefix_matcher t]
      (body (below t [prefix_matcher ''/api'', prefix_matcher t, prefix_matcher t])) es1"
    and "flat [prefix_matcher ''/api'', prefix_matcher t] rs es" "es2 = map (inside ws) es1 @ es"
  shows "flat [prefix_matcher ''/api'', prefix_matcher t]
    (Subrouter '''' ws body (below t [prefix_matcher ''/api'', prefix_matcher t]) # rs) es2"
  using assms by (intro flat_Subrouter[where l = t]) (auto simp: prefix_matcher_def rooted_def)

lemma flat_Bestiary:
  "flat [prefix_matcher ''/api''] [ServeBestiaryRouter under_api] (map2 row_leaf
      [[''/api'', ''/api/bestiary''], [''/api'', ''/api/bestiary''], [''/api'', ''/api/bestiary'', ''/api/bestiary''], [''/api'', ''/api/bestiary'', ''/api/bestiary''], [''/api'', ''/api/bestiary'', ''/api/bestiary''], [''/api'', ''/api/bestiary'', ''/api/bestiary''], [''/api'', ''/api/bestiary'', ''/api/bestiary'']]
      [(''POST'', ''/api/bestiary/list'', E_GetCreaturesList, False),
       (''GET'', ''/api/bestiary/{name}'', E_GetCreatureByName, False),
       (''POST'', ''/api/bestiary/generated_creature'', E_AddGeneratedCreature, True),
       (''POST'', ''/api/bestiary/statblock-image'', E_UploadCreatureStatblockImage, True),
       (''POST'', ''/api/bestiary/creature-generation-prompt'', E_SubmitCreatureGenerationPrompt, True),
       (''POST'', ''/api/bestiary/usr_content/list'', E_GetUserCreaturesList, True),
       (''GET'', ''/api/bestiary/usr_content/{name}'', E_GetUserCreatureByName, True)])"
  unfolding ServeBestiaryRouter_def
  by (rule flat_area flat_inner flat_HandleFunc flat_Nil |
      simp add: rooted_def trims templates leaf_eqs)+

lemma flat_Battle:
  "flat [prefix_matcher ''/api''] [ServeBattleRouter under_api] (map2 row_leaf
      [[''/api'', ''/api/battle'']]
      [(''POST'', ''/api/battle/generate_description'', E_GenerateDescription, False)])"
  unfolding ServeBattleRouter_def
  by (rule flat_area flat_HandleFunc flat_Nil |
      simp add: rooted_def trims templates leaf_eqs)+

lemma flat_Character:
  "flat [prefix_matcher ''/api''] [ServeCharacterRouter under_api] (map2 row_leaf
      [[''/api'', ''/api/character''], [''/api'', ''/api/character''], [''/api'', ''/api/character'']]
      [(''POST'', ''/api/character/list'', E_GetCharactersList, True),
       (''POST'', ''/api/character/add_character'', E_AddCharacter, True),
       (''GET'', ''/api/character/{id}'', E_GetCharacterByMongoId, True)])"
  unfolding ServeCharacterRouter_def
  by (rule flat_area flat_HandleFunc flat_Nil |
      simp add: rooted_def trims templates leaf_eqs)+

lemma flat_Encounte:
  "flat [prefix_matcher ''/api''] [ServeEncounteRouter under_api] (map2 row_leaf
      [[''/api'', ''/api/encounter''], [''/api'', ''/api/encounter''], [''/api'', ''/api/encounter''], [''/api'', ''/api/encounter''], [''/api'', ''/api/encounter'']]
      [(''POST'', ''/api/encounter'', E_SaveEncounter, True),
       (''POST'', ''/api/encounter/list'', E_GetEncountersList, True),
       (''GET'', ''/api/encounter/{id}'', E_GetEncounterByID, True),
       (''POST'', ''/api/encounter/{id}'', E_UpdateEncounter, True),
       (''DELETE'', ''/api/encounter/{id}'', E_RemoveEncounter, True)])"
  unfolding ServeEncounteRouter_def
  by (rule flat_area flat_HandleFunc flat_Nil |
      simp add: rooted_def trims templates leaf_eqs)+

lemma flat_Auth:
  "flat [prefix_matcher ''/api''] [ServeAuthRouter under_api] (map2 row_leaf
      [[''/api'', ''/api/auth'', ''/api/auth''], [''/api'', ''/api/auth'', ''/api/auth''], [''/api'', ''/api/auth'', ''/api/auth''], [''/api'', ''/api/auth'', ''/api/auth''], [''/api'', ''/api/auth''], [''/api'', ''/api/auth'']]
      [(''POST'', ''/api/auth/logout'', E_Logout, True),
       (''GET'', ''/api/auth/identities'', E_ListIdentities, True),
       (''POST'', ''/api/auth/link/{provider}'', E_LinkIdentity, True),
       (''DELETE'', ''/api/auth/unlink/{provider}'', E_UnlinkIdentity, True),
       (''POST'', ''/api/auth/login/{provider}'', E_Login, False),
       (''GET'', ''/api/auth/check'', E_CheckAuth, False)])"
  unfolding ServeAuthRouter_def
  by (rule flat_area flat_inner flat_HandleFunc flat_Nil |
      simp add: rooted_def trims templates leaf_eqs)+

lemma flat_Table:
  "flat [prefix_matcher ''/api''] [ServeTableRouter under_api] (map2 row_leaf
      [[''/api'', ''/api/table''], [''/api'', ''/api/table''], [''/api'', ''/api/table'']]
      [(''POST'', ''/api/table/session'', E_CreateSession, True),
       (''GET'', ''/api/table/session/{id}'', E_GetTableData, True),
       (''GET'', ''/api/table/session/{id}/connect'', E_ServeWS, True)])"
  unfolding ServeTableRouter_def
  by (rule flat_area flat_HandleFunc flat_Nil |
      simp add: rooted_def trims templates leaf_eqs)+

lemma flat_LLM:
  "flat [prefix_matcher ''/api''] [ServeLLMRouter under_api] (map2 row_leaf
      [[''/api'', ''/api/llm''], [''/api'', ''/api/llm''], [''/api'', ''/api/llm'']]
      [(''POST'', ''/api/llm/text'', E_SubmitGenerationPrompt, True),
       (''POST'', ''/api/llm/image'', E_SubmitGenerationImage, True),
       (''GET'', ''/api/llm/{id}'', E_GetGenerationStatus, True)])"
  unfolding ServeLLMRouter_def
  by (rule flat_area flat_HandleFunc flat_Nil |
      simp add: rooted_def trims templates leaf_eqs)+

lemma flat_MapTiles:
  "flat [prefix_matcher ''/api''] [ServeMapTilesRouter under_api] (map2 row_leaf
      [[''/api'', ''/api/map-tiles'']]
      [(''GET'', ''/api/map-tiles/categories'', E_GetCategories, True)])"
  unfolding ServeMapTilesRouter_def
  by (rule flat_area flat_HandleFunc flat_Nil |
      simp add: rooted_def trims templates leaf_eqs)+

lemma flat_Maps:
  "flat [prefix_matcher ''/api''] [ServeMapsRouter under_api] (map2 row_leaf
      [[''/api'', ''/api/maps''], [''/api'', ''/api/maps''], [''/api'', ''/api/maps''], [''/api'', ''/api/maps''], [''/api'', ''/api/maps'']]
      [(''GET'', ''/api/maps'', E_ListMaps, True),
       (''POST'', ''/api/maps'', E_CreateMap, True),
       (''GET'', ''/api/maps/{id}'', E_GetMapByID, True),
       (''PUT'', ''/api/maps/{id}'', E_UpdateMap, True),
       (''DELETE'', ''/api/maps/{id}'', E_DeleteMap, True)])"
  unfolding ServeMapsRouter_def
  by (rule flat_area flat_HandleFunc flat_Nil |
      simp add: rooted_def trims templates leaf_eqs)+

section \<open>The router decides like the table: proof\<close>

definition init_areas :: "api_route list" where
  "init_areas =
     [ServeBestiaryRouter under_api, ServeBattleRouter under_api, ServeCharacterRouter under_api,
      ServeEncounteRouter under_api, ServeAuthRouter under_api, ServeTableRouter under_api,
      ServeLLMRouter under_api, ServeMapTilesRouter under_api]"

lemma apiRouter_routes:
  "routes apiRouter =
     [Route [prefix_matcher ''/metrics''] (Some E_Prometheus) (Some (''/metrics'', [Lit ''/metrics''], True)) False,
      Route ([prefix_matcher ''/api''] @ [RouterMatcher (Router (init_areas @ [ServeMapsRouter under_api]) [])]) None
        (Some (''/api'', [Lit ''/api''], True)) False]"
  by (simp add: apiRouter_def PrefixHandler_def Subrouter_def addRegexpMatcher_def addMatcher_def route_of_def
      NewRouter_def templates prefix_matcher_def init_areas_def below_def regexp_of_def Let_def)

lemma apiRouter_middlewares: "middlewares apiRouter = rootMiddlewares"
  by (simp add: apiRouter_def Let_def)

lemma flat_init:
  "flat [prefix_matcher ''/api''] init_areas (map2 row_leaf (take 29 row_prefixes) (take 29 api_table))"
proof -
  note flats = flat_append[OF flat_Bestiary flat_append[OF flat_Battle flat_append[OF flat_Character
    flat_append[OF flat_Encounte flat_append[OF flat_Auth flat_append[OF flat_Table flat_append[OF flat_LLM
      flat_MapTiles]]]]]]]
  show ?thesis using flats by (simp add: init_areas_def row_prefixes_def api_table_def numeral_eq_Suc)
qed

lemma flat_api:
  "flat [prefix_matcher ''/api''] (init_areas @ [ServeMapsRouter under_api]) (map2 row_leaf row_prefixes api_table)"
proof -
  have "map2 row_leaf row_prefixes api_table =
      map2 row_leaf (take 29 row_prefixes) (take 29 api_table) @
      map2 row_leaf (drop 29 row_prefixes) (drop 29 api_table)"
    by (simp add: row_prefixes_def api_table_def numeral_eq_Suc)
  moreover have "flat [prefix_matcher ''/api''] [ServeMapsRouter under_api]
      (map2 row_leaf (drop 29 row_prefixes) (drop 29 api_table))"
    using flat_Maps by (simp add: row_prefixes_def api_table_def numeral_eq_Suc)
  ultimately show ?thesis using flat_append[OF flat_init] by simp
qed

definition metrics_leaf :: "(middleware, endpoint) leaf" where
  "metrics_leaf = ([prefix_matcher ''/metrics''], E_Prometheus, Some (''/metrics'', [Lit ''/metrics''], True), [])"

lemma flat_router: "flat [] (routes apiRouter) (metrics_leaf # map2 row_leaf row_prefixes api_table)"
proof -
  have inside: "map (inside []) es = es" for es :: "(middleware, endpoint) leaf list"
    by (induction es) auto
  have "flat [] [Route ([prefix_matcher ''/api''] @ [RouterMatcher (Router (init_areas @ [ServeMapsRouter under_api]) [])])
      None (Some (''/api'', [Lit ''/api''], True)) False] (map (inside []) (map2 row_leaf row_prefixes api_table) @ [])"
    by (rule flat_sub[OF refl _ _ _ refl _ flat_api flat_Nil]) simp_all
  then show ?thesis unfolding apiRouter_routes metrics_leaf_def inside
    by (intro flat_leaf[where x = "prefix_matcher ''/metrics''"]) (auto simp: prefix_matcher_def)
qed

text \<open>A row's leaf matches when its whole path does.\<close>

definition covered :: "string list \<Rightarrow> string \<times> string \<times> endpoint \<times> bool \<Rightarrow> bool" where
  "covered pres = (\<lambda>(m, tpl, ep, login).
     case newRouteRegexp tpl of Some (Lit l # ps) \<Rightarrow> (\<forall>p \<in> set pres. take (length p) l = p) | _ \<Rightarrow> False)"

lemma covered_table: "list_all2 covered row_prefixes api_table"
  by (simp add: row_prefixes_def api_table_def covered_def templates numeral_eq_Suc)

lemma passes_prefix: "passes meth path (prefix_matcher t) \<longleftrightarrow> take (length t) path = t"
  by (simp add: prefix_matcher_def)

lemma leaf_matches_row:
  assumes "covered pres row"
  shows "leaf_matches meth path (row_leaf pres row) = row_matches meth path row"
proof -
  obtain m tpl ep login where row: "row = (m, tpl, ep, login)" by (cases row)
  obtain l ps where ps: "newRouteRegexp tpl = Some (Lit l # ps)" "\<forall>p \<in> set pres. take (length p) l = p"
    using assms row by (auto simp: covered_def split: option.splits list.splits piece.splits)
  have "submatch False (Lit l # ps) path \<noteq> None \<Longrightarrow> list_all (passes meth path) (map prefix_matcher pres)"
    using submatch_Lit_take[of False l ps path] ps(2)
    by (auto simp: list_all_iff passes_prefix simp del: submatch.simps)
  then show ?thesis using ps(1)
    by (auto simp: row leaf_matches_def row_leaf_def row_matches_def full_match_def regexp_of_def
        simp del: submatch.simps)
qed

lemma find_rows:
  assumes "list_all2 covered pss rows"
  shows "case find (row_matches meth path) rows of
      None \<Rightarrow> find (leaf_matches meth path) (map2 row_leaf pss rows) = None
    | Some row \<Rightarrow> \<exists>pres. find (leaf_matches meth path) (map2 row_leaf pss rows) = Some (row_leaf pres row)"
  using assms by (induction rule: list_all2_induct) (auto simp: leaf_matches_row split: option.splits)

end
