(* ===== verification/RouterRun.thy ===== *)
theory RouterRun
  imports Routers
begin

text \<open>
  What the server promises of every request: the router decides like the table of the API, the
  handlers behind the login see only logged-in users, no panic gets through, and what is
  counted of a request.
\<close>

section \<open>The error that is left when nothing matches\<close>

lemma flat_HandleFunc_eq:
  assumes "TrimRight t @ tpl = full" "rooted tpl" "newRouteRegexp full \<noteq> None"
    and "pre \<noteq> []" "\<forall>y \<in> set pre. var_free y" "flat pre rs es"
  shows "flat pre (HandleFunc tpl h ms (below t pre) # rs) (func_leaf pre full ms h # es)"
  using flat_HandleFunc[of tpl t pre rs es h ms] assms by simp

text \<open>The routes below \<open>/api/maps\<close>, the last one apart.\<close>

abbreviation under_maps :: api_conf where
  "under_maps \<equiv> below ''/api/maps'' [prefix_matcher ''/api'', prefix_matcher ''/api/maps'']"

definition init_maps :: "api_route list" where
  "init_maps =
     [HandleFunc '''' E_ListMaps [''GET''] under_maps, HandleFunc '''' E_CreateMap [''POST''] under_maps,
      HandleFunc ''/{id}'' E_GetMapByID [''GET''] under_maps, HandleFunc ''/{id}'' E_UpdateMap [''PUT''] under_maps]"

definition last_maps :: "(middleware, endpoint) matcher list" where
  "last_maps = [prefix_matcher ''/api'', prefix_matcher ''/api/maps'',
     RegexpMatcher False (regexp_of ''/api/maps/{id}''), MethodMatcher [''DELETE'']]"

lemma maps_route:
  "ServeMapsRouter under_api =
     Route ([prefix_matcher ''/api'', prefix_matcher ''/api/maps''] @
         [RouterMatcher (Router (init_maps @
             [Route last_maps (Some E_DeleteMap) (Some (''/api/maps/{id}'', regexp_of ''/api/maps/{id}'', False)) False])
           [LoginRequiredMw])]) None
       (Some (''/api/maps'', [Lit ''/api/maps''], True)) False"
  by (simp add: ServeMapsRouter_def init_maps_def last_maps_def Subrouter_def HandleFunc_def addRegexpMatcher_def
      addMatcher_def route_of_def templates trims prefix_matcher_def below_def regexp_of_def Let_def)

lemma flat_init_maps:
  "flat [prefix_matcher ''/api'', prefix_matcher ''/api/maps''] init_maps
     (map2 row_leaf (replicate 4 [''/api'', ''/api/maps''])
        (map (\<lambda>(m, tpl, ep, login). (m, tpl, ep, False)) (take 4 (drop 29 api_table))))"
  unfolding init_maps_def
  by (simp add: api_table_def numeral_eq_Suc row_leaf_def flip: func_leaf_def[of "[prefix_matcher ''/api'', prefix_matcher ''/api/maps'']", simplified])
     (rule flat_HandleFunc_eq flat_Nil | simp add: rooted_def trims templates)+

lemma maps_error:
  assumes "fresh m" "passes meth path (prefix_matcher ''/api'')"
    and "find (row_matches meth path) (drop 29 api_table) = None"
  shows "\<exists>m1. match_route (ServeMapsRouter under_api) meth path m = (False, m1) \<and>
    rm_MatchErr m1 = (if full_match ''/api/maps/{id}'' path \<noteq> None then Some ErrMethodMismatch else None)"
proof -
  let ?pre = "[prefix_matcher ''/api'', prefix_matcher ''/api/maps'']"
  let ?m = "clear ErrMethodMismatch m"
  let ?route = "Route last_maps (Some E_DeleteMap) (Some (''/api/maps/{id}'', regexp_of ''/api/maps/{id}'', False)) False"
  let ?rows = "map (\<lambda>(m, tpl, ep, login). (m, tpl, ep, False)) (take 4 (drop 29 api_table))"
  have cov: "list_all2 covered (replicate 4 [''/api'', ''/api/maps'']) ?rows"
    by (simp add: api_table_def covered_def templates numeral_eq_Suc)
  have "find (row_matches meth path) ?rows = None"
    using assms(3) by (auto simp: find_None_iff row_matches_def dest!: in_set_takeD) (metis option.distinct(1))
  then have "find (leaf_matches meth path) (map2 row_leaf (replicate 4 [''/api'', ''/api/maps'']) ?rows) = None"
    using find_rows[OF cov, of meth path] by simp
  then obtain m1 where m1: "fresh m1"
    "match_routes (init_maps @ [?route]) [LoginRequiredMw] meth path ?m = match_routes [?route] [LoginRequiredMw] meth path m1"
    using match_flat_append[OF flat_init_maps fresh_clear[OF assms(1), of ErrMethodMismatch], where meth = meth and path = path
        and ys = "[?route]" and ws = "[LoginRequiredMw]"]
    by auto
  have "(''DELETE'', ''/api/maps/{id}'', E_DeleteMap, True) \<in> set (drop 29 api_table)"
    by (simp add: api_table_def numeral_eq_Suc)
  then have "\<not> row_matches meth path (''DELETE'', ''/api/maps/{id}'', E_DeleteMap, True)"
    using assms(3) by (auto simp: find_None_iff)
  then have del: "full_match ''/api/maps/{id}'' path \<noteq> None \<Longrightarrow> meth \<noteq> ''DELETE''"
    by (auto simp: row_matches_def)
  have full: "submatch False (regexp_of ''/api/maps/{id}'') path = full_match ''/api/maps/{id}'' path"
    by (simp add: full_match_def regexp_of_def templates)
  have last: "last_maps = prefix_matcher ''/api'' # tl last_maps" "\<forall>y \<in> set last_maps. \<not> is_router y"
    "\<not> is_method (prefix_matcher ''/api'')"
    by (simp_all add: last_maps_def prefix_matcher_def)
  have notall: "\<not> list_all (passes meth path) last_maps"
    using del by (auto simp: last_maps_def full simp del: submatch.simps)
  obtain m2 where m2: "match_route ?route meth path m1 = (False, m2)"
    "rm_MatchErr m2 = (if list_all (\<lambda>y. is_method y \<or> passes meth path y) last_maps then Some ErrMethodMismatch else None)"
    using leaf_error[OF last(1) last(3) last(2) m1(1) assms(2) notall] by blast
  have r: "match_routes (init_maps @ [?route]) [LoginRequiredMw] meth path ?m = match_routes [] [LoginRequiredMw] meth path m2"
    using m1(2) m2(1) by simp
  have pre: "full_match ''/api/maps/{id}'' path \<noteq> None \<Longrightarrow> passes meth path (prefix_matcher ''/api/maps'')"
    using submatch_Lit_take[of False "''/api/maps/''" "[Var ''id'', Lit []]" path "''/api/maps''"]
    by (simp add: full_match_def templates passes_prefix del: submatch.simps)
  have free: "\<forall>y \<in> set ?pre. var_free y" by simp
  have fails: "fst (match_routes (init_maps @ [?route]) [LoginRequiredMw] meth path ?m) = False"
    unfolding r by simp
  have no_meth: "\<not> is_method (prefix_matcher t)" for t by (simp add: prefix_matcher_def)
  obtain m3 where m3: "match_route (ServeMapsRouter under_api) meth path m = (False, m3)"
    "rm_MatchErr m3 = (if list_all (passes meth path) ?pre
      then rm_MatchErr (clear ErrNotFound (snd (match_routes [] [LoginRequiredMw] meth path m2))) else None)"
    unfolding maps_route r[symmetric]
    using sub_error[OF free refl assms(1, 2) fails, of "Some (''/api/maps'', [Lit ''/api/maps''], True)"] by blast
  show ?thesis
    using m3 m2(2) pre assms(2) no_meth by (auto simp: last_maps_def full clear_def simp del: submatch.simps split: if_splits)
qed


text \<open>A clean path is dispatched as the table says.\<close>

lemma routes_found:
  assumes "take (length ''/metrics'') path \<noteq> ''/metrics''" "find (row_matches meth path) api_table = Some (m, tpl, ep, login)"
  shows "match_routes (routes apiRouter) ws meth path no_match =
    (True, \<lparr>rm_Route = Some (Some tpl),
            rm_Handler = Some (foldr Middleware (ws @ (if login then [LoginRequiredMw] else [])) (Handler ep)),
            rm_Vars = Some (rev (the (full_match tpl path))), rm_MatchErr = None\<rparr>)"
proof -
  obtain pres where "find (leaf_matches meth path) (map2 row_leaf row_prefixes api_table) = Some (row_leaf pres (m, tpl, ep, login))"
    using find_rows[OF covered_table, of meth path] assms(2) by auto
  moreover have "\<not> leaf_matches meth path metrics_leaf"
    using assms(1) by (simp add: metrics_leaf_def leaf_matches_def passes_prefix)
  ultimately have found: "match_routes (routes apiRouter) ws meth path no_match =
      (True, leaf_match path (inside ws (row_leaf pres (m, tpl, ep, login))))"
    using match_flat_append[OF flat_router fresh_no_match, where ys = "[]" and meth = meth and path = path and ws = ws]
    by simp
  have "row_matches meth path (m, tpl, ep, login)" using assms(2) by (auto simp: find_Some_iff)
  then obtain ps vs where "newRouteRegexp tpl = Some ps" "submatch False ps path = Some vs"
    by (auto simp: row_matches_def full_match_def split: option.splits)
  then have "setMatch (Some (tpl, regexp_of tpl, False)) path [] = rev (the (full_match tpl path))"
    by (simp add: setMatch_def full_match_def regexp_of_def)
  then show ?thesis unfolding found by (simp add: leaf_match_def inside_def row_leaf_def)
qed

lemma find_None_append: "find P (xs @ ys) = None \<longleftrightarrow> find P xs = None \<and> find P ys = None"
  by (induction xs) auto

lemma routes_missed:
  assumes "take (length ''/metrics'') path \<noteq> ''/metrics''" "find (row_matches meth path) api_table = None"
  shows "\<exists>m. match_routes (routes apiRouter) ws meth path no_match = (False, m) \<and>
    (rm_MatchErr m = Some ErrMethodMismatch \<longleftrightarrow> full_match ''/api/maps/{id}'' path \<noteq> None)"
proof -
  let ?areas = "init_areas @ [ServeMapsRouter under_api]" and ?pre = "[prefix_matcher ''/api'']"
  let ?sub = "Route (?pre @ [RouterMatcher (Router ?areas [])]) None (Some (''/api'', [Lit ''/api''], True)) False"
  have metrics: "match_route (Route [prefix_matcher ''/metrics''] (Some E_Prometheus)
      (Some (''/metrics'', [Lit ''/metrics''], True)) False) meth path no_match = (False, no_match)"
    using assms(1) by (simp add: match_route.simps prefix_matcher_def)
  have routes: "match_routes (routes apiRouter) ws meth path no_match = match_routes [?sub] ws meth path no_match"
    unfolding apiRouter_routes using metrics by simp
  show ?thesis
  proof (cases "passes meth path (prefix_matcher ''/api'')")
    case False
    have none: "full_match ''/api/maps/{id}'' path = None"
      using False submatch_Lit_take[of False "''/api/maps/''" "[Var ''id'', Lit []]" path "''/api''"]
      by (cases "submatch False [Lit ''/api/maps/'', Var ''id'', Lit []] path")
         (auto simp: full_match_def templates passes_prefix simp del: submatch.simps)
    have "match_route ?sub meth path no_match = (False, no_match)"
      using False by (simp add: match_route.simps prefix_matcher_def)
    then show ?thesis unfolding routes using none by (simp add: no_match_def)
  next
    case True
    have no_match: "clear ErrMethodMismatch no_match = (no_match :: (middleware, endpoint) route_match)"
      by (simp add: clear_def no_match_def)
    have "find (leaf_matches meth path) (map2 row_leaf (take 29 row_prefixes) (take 29 api_table)) = None"
      and last: "find (row_matches meth path) (drop 29 api_table) = None"
    proof -
      have t: "find (row_matches meth path) (take 29 api_table) = None"
        and d: "find (row_matches meth path) (drop 29 api_table) = None"
        using find_None_append[of "row_matches meth path" "take 29 api_table" "drop 29 api_table"] assms(2)
        unfolding append_take_drop_id by blast+
      have cov: "list_all2 covered (take 29 row_prefixes) (take 29 api_table)"
        using covered_table by (rule list_all2_takeI)
      show "find (leaf_matches meth path) (map2 row_leaf (take 29 row_prefixes) (take 29 api_table)) = None"
        using find_rows[OF cov, of meth path] t by simp
      show "find (row_matches meth path) (drop 29 api_table) = None" by (rule d)
    qed
    then obtain m1 where m1: "fresh m1"
      "match_routes ?areas [] meth path no_match = match_routes [ServeMapsRouter under_api] [] meth path m1"
      using match_flat_append[OF flat_init fresh_no_match, where ys = "[ServeMapsRouter under_api]" and meth = meth
          and path = path and ws = "[]"] by auto
    obtain m2 where m2: "match_route (ServeMapsRouter under_api) meth path m1 = (False, m2)"
      "rm_MatchErr m2 = (if full_match ''/api/maps/{id}'' path \<noteq> None then Some ErrMethodMismatch else None)"
      using maps_error[OF m1(1) True last] by blast
    have areas: "match_routes ?areas [] meth path (clear ErrMethodMismatch no_match) = match_routes [] [] meth path m2"
      unfolding no_match m1(2) using m2(1) by simp
    have free: "\<forall>y \<in> set ?pre. var_free y" by simp
    have fails: "fst (match_routes ?areas [] meth path (clear ErrMethodMismatch no_match)) = False"
      unfolding areas by simp
    obtain m3 where m3: "match_route ?sub meth path no_match = (False, m3)"
      "rm_MatchErr m3 = rm_MatchErr (clear ErrNotFound (snd (match_routes [] [] meth path m2)))"
      using sub_error[OF free refl fresh_no_match True fails, of "Some (''/api'', [Lit ''/api''], True)"] True
      unfolding areas by auto
    show ?thesis unfolding routes using m2(2) m3 by (auto simp: clear_def split: if_splits)
  qed
qed

lemma router_table:
  assumes "cleanPath path = path"
  shows "ServeHTTP apiRouter meth path = table_dispatch meth path"
proof (cases "take (length ''/metrics'') path = ''/metrics''")
  case True
  then have "leaf_matches meth path metrics_leaf"
    by (simp add: metrics_leaf_def leaf_matches_def passes_prefix)
  then have "match_routes (routes apiRouter) (middlewares apiRouter) meth path no_match =
      (True, leaf_match path (inside (middlewares apiRouter) metrics_leaf))"
    using match_flat_append[OF flat_router fresh_no_match, where ys = "[]" and meth = meth and path = path
        and ws = "middlewares apiRouter"] by simp
  then show ?thesis
    using True assms
    by (simp add: ServeHTTP_def table_dispatch_def leaf_match_def metrics_leaf_def inside_def row_chain_def
        apiRouter_middlewares setMatch_def)
next
  case False
  show ?thesis
  proof (cases "find (row_matches meth path) api_table")
    case None
    obtain m where "match_routes (routes apiRouter) (middlewares apiRouter) meth path no_match = (False, m)"
      "rm_MatchErr m = Some ErrMethodMismatch \<longleftrightarrow> full_match ''/api/maps/{id}'' path \<noteq> None"
      using routes_missed[OF False None] by blast
    then show ?thesis using False None assms by (simp add: ServeHTTP_def table_dispatch_def)
  next
    case (Some row)
    obtain m tpl ep login where row: "row = (m, tpl, ep, login)" by (cases row)
    show ?thesis
      using routes_found[OF False Some[unfolded row]] False Some row assms
      by (simp add: ServeHTTP_def table_dispatch_def row_chain_def apiRouter_middlewares)
  qed
qed

text \<open>
  C11.
  For every method and every clean path the router, with its nested subrouters, their copied
  matchers and the errors it carries from one route to the next, answers as the table of the
  API says: the first row of that method whose template fits the whole path, with its
  variables and the middlewares in their order. A path that fits only with another method is a
  404, except below \<open>/api/maps/\<close>, where it is a 405.
\<close>

theorem router_follows_table:
  assumes "cleanPath path = path"
  shows "ServeHTTP apiRouter meth path = table_dispatch meth path"
  using assms by (rule router_table)

section \<open>Behind the login\<close>

definition public_endpoints :: "endpoint list" where
  "public_endpoints =
     [E_GetCreaturesList, E_GetCreatureByName, E_GenerateDescription, E_Login, E_CheckAuth, E_Prometheus]"

lemma table_logins: "\<forall>(m, tpl, ep, login) \<in> set api_table. login \<longleftrightarrow> ep \<notin> set public_endpoints"
  by (simp add: api_table_def public_endpoints_def)

definition active :: "user \<Rightarrow> bool" where
  "active u \<longleftrightarrow> Status u = [] \<or> Status u = ''active''"

text \<open>Whether the cookie of the request opens an active session.\<close>

definition accepted :: "('b, 's) server_env \<Rightarrow> server_request \<Rightarrow> 's server \<Rightarrow> bool" where
  "accepted env r s \<longleftrightarrow>
     (case rq_cookie r of None \<Rightarrow> False
      | Some sid \<Rightarrow> (case fst (e_CheckAuth env sid (sv_app s)) of None \<Rightarrow> False | Some u \<Rightarrow> active u))"

text \<open>A handler that runs only with an active user in its context, and panics without one.\<close>

definition guard :: "string \<Rightarrow> ('b, 's) handler \<Rightarrow> ('b, 's) handler" where
  "guard key h w ctx r s =
     (if case Value (StringKey key) ctx of Some (UserVal u) \<Rightarrow> active u | _ \<Rightarrow> False
      then h w ctx r s else (([], Panic), s))"

lemma LoginRequired_guard: "LoginRequired check key (guard key h) = LoginRequired check key h"
  by (intro ext) (auto simp: LoginRequired_def guard_def Value_WithValue active_def split: option.splits prod.splits)

lemma LoginRequired_refuses:
  "\<not> accepted env r s \<Longrightarrow> LoginRequired (e_CheckAuth env) key h w ctx r (s\<lparr>sv_requests := n\<rparr>) =
     LoginRequired (e_CheckAuth env) key h' w ctx r (s\<lparr>sv_requests := n\<rparr>)"
  by (auto simp: LoginRequired_def accepted_def active_def split: option.splits prod.splits)

text \<open>The four outer middlewares depend on the handler only through its result.\<close>

lemma root_chain:
  "run_chain env (row_chain ep login) w ctx r s =
     RecoveryEvents (e_panic_text env)
       (CreateMetricsMiddleware (e_httpMetrics env)
         (if login then LoginRequired (e_CheckAuth env) (e_CtxUserKey env) (e_handler env ep) else e_handler env ep))
       w (SaveRequestData (WithContext (e_logger env) (e_uuid env (sv_requests s)) ctx) r) r
       (s\<lparr>sv_requests := sv_requests s + 1\<rparr>)"
  by (simp add: row_chain_def rootMiddlewares_def CreateLogMiddleware_def RequestDataMiddleware_def)

lemma RecoveryEvents_cong:
  "nxt w ctx r s = nxt' w ctx r s \<Longrightarrow> RecoveryEvents t nxt w ctx r s = RecoveryEvents t nxt' w ctx r s"
  by (simp add: RecoveryEvents_def)

lemma CreateMetricsMiddleware_cong:
  assumes "\<And>w. nxt w ctx r s = nxt' w ctx r s"
  shows "CreateMetricsMiddleware m nxt w ctx r s = CreateMetricsMiddleware m nxt' w ctx r s"
  unfolding CreateMetricsMiddleware_def assms by (rule refl)

text \<open>What a request can be served with.\<close>

lemma ServeHTTP_cases:
  obtains (redirect) p where "ServeHTTP apiRouter meth path = Redirect p"
  | (metrics) "ServeHTTP apiRouter meth path = Found (row_chain E_Prometheus False) (Some ''/metrics'') []"
  | (row) m tpl ep login vars where "(m, tpl, ep, login) \<in> set api_table"
      "ServeHTTP apiRouter meth path = Found (row_chain ep login) (Some tpl) vars"
  | (refused) "ServeHTTP apiRouter meth path \<in> {MethodNotAllowed, NotFound}"
proof (cases "cleanPath path = path")
  case False
  then show ?thesis using redirect by (simp add: ServeHTTP_def)
next
  case True
  note follows = router_table[OF True, of meth]
  show ?thesis
  proof (cases "take (length ''/metrics'') path = ''/metrics''")
    case True
    then show ?thesis using follows metrics by (simp add: table_dispatch_def)
  next
    case no: False
    show ?thesis
    proof (cases "find (row_matches meth path) api_table")
      case None
      then show ?thesis using follows no refused by (auto simp: table_dispatch_def split: if_splits)
    next
      case (Some x)
      obtain m tpl ep login where x: "x = (m, tpl, ep, login)" by (cases x)
      have "x \<in> set api_table" using Some by (auto simp: find_Some_iff)
      then show ?thesis using row[of m tpl ep login] follows no Some x by (simp add: table_dispatch_def)
    qed
  qed
qed

lemma serve_cong:
  assumes "\<And>ep login ctx. login \<longleftrightarrow> ep \<notin> set public_endpoints \<Longrightarrow>
      run_chain env (row_chain ep login) ServerWriter ctx r s = run_chain env' (row_chain ep login) ServerWriter ctx r s"
  shows "serve env r s = serve env' r s"
proof (cases rule: ServeHTTP_cases[of "rq_Method r" "rq_Path r"])
  case (redirect p)
  then show ?thesis by (simp add: serve_def)
next
  case metrics
  then show ?thesis using assms[of False E_Prometheus] by (simp add: serve_def public_endpoints_def)
next
  case (row m tpl ep login vars)
  then have "login \<longleftrightarrow> ep \<notin> set public_endpoints" using table_logins by blast
  then show ?thesis using row(2) assms by (simp add: serve_def)
next
  case refused
  then show ?thesis by (auto simp: serve_def)
qed

text \<open>
  C9.
  Whatever a request asks for, the handlers outside the six public ones run only with an
  active user in their context, so that their type assertion never fails; and for a request
  whose cookie does not open an active session the answer and the state do not depend on what
  these handlers would do.
\<close>

theorem handlers_behind_login:
  "serve env r s =
     serve (env\<lparr>e_handler := (\<lambda>ep. if ep \<in> set public_endpoints then e_handler env ep
                                  else guard (e_CtxUserKey env) (e_handler env ep))\<rparr>) r s
   \<and> (\<not> accepted env r s \<and> (\<forall>ep \<in> set public_endpoints. f ep = e_handler env ep)
       \<longrightarrow> serve env r s = serve (env\<lparr>e_handler := f\<rparr>) r s)"
proof (intro conjI impI)
  show "serve env r s =
     serve (env\<lparr>e_handler := (\<lambda>ep. if ep \<in> set public_endpoints then e_handler env ep
                                  else guard (e_CtxUserKey env) (e_handler env ep))\<rparr>) r s"
    by (rule serve_cong) (auto simp: root_chain LoginRequired_guard)
next
  assume a: "\<not> accepted env r s \<and> (\<forall>ep \<in> set public_endpoints. f ep = e_handler env ep)"
  show "serve env r s = serve (env\<lparr>e_handler := f\<rparr>) r s"
  proof (rule serve_cong)
    fix ep login ctx
    assume login: "login \<longleftrightarrow> ep \<notin> set public_endpoints"
    show "run_chain env (row_chain ep login) ServerWriter ctx r s =
        run_chain (env\<lparr>e_handler := f\<rparr>) (row_chain ep login) ServerWriter ctx r s"
    proof (cases login)
      case True
      then show ?thesis using a
        by (auto simp: root_chain intro!: RecoveryEvents_cong CreateMetricsMiddleware_cong LoginRequired_refuses)
    next
      case False
      then show ?thesis using a login by (simp add: root_chain)
    qed
  qed
qed

definition rt_server :: "'s \<Rightarrow> 's server" where
  "rt_server a =
     \<lparr>sv_app = a, sv_sink = new_sink,
      sv_metrics = \<lparr>registered = [], counted = (\<lambda>_. 0), observed = (\<lambda>_. [])\<rparr>, sv_requests = 0\<rparr>"

text \<open>A server whose handlers all do the same and whose only session is \<open>sid\<close>.\<close>

definition rt_env :: "user \<Rightarrow> ('b, 's) handler \<Rightarrow> ('b, 's) server_env" where
  "rt_env u h =
     \<lparr>e_uuid = (\<lambda>n. ''uuid''), e_logger = Zap [], e_httpMetrics = http_collectors,
      e_CheckAuth = (\<lambda>sid a. (if sid = ''sid'' then Some u else None, a)), e_CtxUserKey = ''user'',
      e_panic_text = ''nil'', e_handler = (\<lambda>ep. h)\<rparr>"

definition rt_request :: "string \<Rightarrow> string \<Rightarrow> string option \<Rightarrow> server_request" where
  "rt_request meth path cookie =
     \<lparr>rq_Method = meth, rq_URL = path, rq_Path = path, rq_Header = [], rq_cookie = cookie, rq_body = []\<rparr>"

lemma rt_clean: "cleanPath ''/api/maps/7'' = ''/api/maps/7''" "cleanPath ''/api/auth/check'' = ''/api/auth/check''"
  by (simp_all add: cleanPath_def Clean_def Let_def)

lemma router_follows_table_witness:
  "ServeHTTP apiRouter ''PATCH'' ''/api/maps/7'' = MethodNotAllowed
   \<and> ServeHTTP apiRouter ''GET'' ''/api/maps/7'' = Found (row_chain E_GetMapByID True) (Some ''/api/maps/{id}'') [(''id'', ''7'')]
   \<and> ServeHTTP apiRouter ''POST'' ''/api/auth/check'' = NotFound"
  unfolding router_follows_table[OF rt_clean(1)] router_follows_table[OF rt_clean(2)]
  by (simp add: table_dispatch_def api_table_def row_matches_def full_match_def templates
      upt_rec numeral_eq_Suc)

definition rt_user :: user where
  "rt_user = \<lparr>userID = 1, DisplayName = ''u'', AvatarURL = ''a'', Status = ''active''\<rparr>"

lemma handlers_behind_login_witness:
  "let env = rt_env rt_user (\<lambda>w ctx r s. (([Wrote NullBody], Return ()), s\<lparr>sv_app := True\<rparr>));
       f = (\<lambda>ep. if ep \<in> set public_endpoints then e_handler env ep else (\<lambda>w ctx r s. (([], Panic), s)));
       r = rt_request ''GET'' ''/api/maps/7'' (Some ''no'')
   in \<not> accepted env r (rt_server False) \<and>
      serve env r (rt_server False) = serve (env\<lparr>e_handler := f\<rparr>) r (rt_server False)"
  unfolding Let_def
  by (rule conjI, simp add: accepted_def rt_env_def rt_request_def,
      rule handlers_behind_login[THEN conjunct2, rule_format], simp add: accepted_def rt_env_def rt_request_def)

section \<open>Panics and the counting of requests\<close>

definition request_context :: "('b, 's) server_env \<Rightarrow> string \<Rightarrow> (string \<times> string) list \<Rightarrow> server_request \<Rightarrow> 's server \<Rightarrow> ctxt" where
  "request_context env tpl vars r s =
     SaveRequestData (WithContext (e_logger env) (e_uuid env (sv_requests s)) (route_context (Some tpl) vars)) r"

lemma GetPathTemplate_request: "GetPathTemplate (request_context env tpl vars r s) = tpl"
  by (cases "e_logger env")
     (simp_all add: GetPathTemplate_def request_context_def SaveRequestData_def Value_WithValue route_context_def)

text \<open>What is reached behind the four outer middlewares.\<close>

definition inner_handler :: "('b, 's) server_env \<Rightarrow> endpoint \<Rightarrow> bool \<Rightarrow> ('b, 's) handler" where
  "inner_handler env ep login =
     (if login then LoginRequired (e_CheckAuth env) (e_CtxUserKey env) (e_handler env ep) else e_handler env ep)"

lemma serve_row:
  assumes "cleanPath (rq_Path r) = rq_Path r" "take (length ''/metrics'') (rq_Path r) \<noteq> ''/metrics''"
    and "find (row_matches (rq_Method r) (rq_Path r)) api_table = Some (m, tpl, ep, login)"
  shows "serve env r s =
    RecoveryEvents (e_panic_text env) (CreateMetricsMiddleware (e_httpMetrics env) (inner_handler env ep login))
      ServerWriter (request_context env tpl (rev (the (full_match tpl (rq_Path r)))) r s) r
      (s\<lparr>sv_requests := sv_requests s + 1\<rparr>)"
  using router_table[OF assms(1), of "rq_Method r"] assms(2, 3)
  by (simp add: serve_def table_dispatch_def root_chain request_context_def inner_handler_def)

text \<open>No request makes the server panic, whatever its handlers do.\<close>

lemma serve_no_panic: "snd (fst (serve env r s)) \<noteq> Panic"
proof (cases rule: ServeHTTP_cases[of "rq_Method r" "rq_Path r"])
  case metrics
  then show ?thesis by (simp add: serve_def root_chain RecoveryEvents_no_panic)
next
  case (row m tpl ep login vars)
  then show ?thesis by (simp add: serve_def root_chain RecoveryEvents_no_panic)
qed (auto simp: serve_def)

text \<open>A request that is no websocket handshake, by what its handler does.\<close>

lemma served_row:
  assumes "cleanPath (rq_Path r) = rq_Path r" "take (length ''/metrics'') (rq_Path r) \<noteq> ''/metrics''"
    and "find (row_matches (rq_Method r) (rq_Path r)) api_table = Some (m, tpl, ep, login)"
    and "header_get ''Upgrade'' r \<noteq> ''websocket''" "e_httpMetrics env = http_collectors"
    and "inner_handler env ep login FakeWriter
        (request_context env tpl (rev (the (full_match tpl (rq_Path r)))) r s) r
        (s\<lparr>sv_requests := sv_requests s + 1\<rparr>) = ((es, g), s1)"
  shows "case g of
      Return _ \<Rightarrow> fst (serve env r s) = (es, Return ()) \<and> sv_app (snd (serve env r s)) = sv_app s1 \<and>
        counted (sv_metrics (snd (serve env r s))) =
          (counted (sv_metrics s1))((''total_hits_count'', [tpl, itoa (last (200 # header_codes es))]) :=
             counted (sv_metrics s1) (''total_hits_count'', [tpl, itoa (last (200 # header_codes es))]) + 1)
    | Panic \<Rightarrow> fst (serve env r s) = (es @ [WroteHeader 500, Wrote (TextBody ErrInternalServer)], Return ()) \<and>
        sv_app (snd (serve env r s)) = sv_app s1 \<and> sv_metrics (snd (serve env r s)) = sv_metrics s1
    | Block \<Rightarrow> serve env r s = ((es, Block), s1)"
proof -
  let ?ctx = "request_context env tpl (rev (the (full_match tpl (rq_Path r)))) r s"
  have "(m, tpl, ep, login) \<in> set api_table" using assms(3) by (auto simp: find_Some_iff)
  then have tpl: "tpl \<noteq> ''/metrics''" by (auto simp: api_table_def)
  have metrics: "CreateMetricsMiddleware http_collectors (inner_handler env ep login) ServerWriter ?ctx r
      (s\<lparr>sv_requests := sv_requests s + 1\<rparr>) =
    (case g of Return _ \<Rightarrow> ((es, Return ()),
        s1\<lparr>sv_metrics := count_request http_collectors tpl (fake_code es) (clock (sv_sink s1) - clock (sv_sink s)) (sv_metrics s1)\<rparr>)
     | Panic \<Rightarrow> ((es, Panic), s1) | Block \<Rightarrow> ((es, Block), s1))"
    using assms(4, 6) tpl by (cases g) (simp_all add: CreateMetricsMiddleware_def GetPathTemplate_request Let_def)
  have log: "fst (keep_sink (DeliveryError lg ctx StatusInternalServerError ErrInternalServer (Some tx) GNil) s2) = Return ()"
    "sv_app (snd (keep_sink (DeliveryError lg ctx StatusInternalServerError ErrInternalServer (Some tx) GNil) s2)) = sv_app s2"
    "sv_metrics (snd (keep_sink (DeliveryError lg ctx StatusInternalServerError ErrInternalServer (Some tx) GNil) s2)) = sv_metrics s2"
    for lg ctx tx and s2 :: "'b server"
    using DeliveryError_returns[of "Some tx" lg ctx StatusInternalServerError ErrInternalServer GNil "sv_sink s2"]
    by (auto simp: keep_sink_def split: prod.splits)
  show ?thesis
  proof (cases g)
    case (Return u)
    then show ?thesis
      unfolding serve_row[OF assms(1-3)] RecoveryEvents_def assms(5) metrics
      by (simp add: count_request_registry fake_code_def)
  next
    case Panic
    then show ?thesis
      unfolding serve_row[OF assms(1-3)] RecoveryEvents_def assms(5) metrics
      using log[of "FromContext ?ctx" ?ctx "e_panic_text env" s1]
      by (auto simp: StatusInternalServerError_def split: prod.splits)
  next
    case Block
    then show ?thesis
      unfolding serve_row[OF assms(1-3)] RecoveryEvents_def assms(5) metrics by simp
  qed
qed

text \<open>
  C30.
  A request to an operation of the API that is no websocket handshake is counted once, under the
  template of its route and the last code its handler passes to the writer, which need not be
  the code the client gets. If the handler panics, the client gets a 500 behind what has been
  written, and the request is not counted at all.
\<close>

theorem request_counted:
  assumes "cleanPath (rq_Path r) = rq_Path r" "take (length ''/metrics'') (rq_Path r) \<noteq> ''/metrics''"
    and "find (row_matches (rq_Method r) (rq_Path r)) api_table = Some (m, tpl, ep, login)"
    and "header_get ''Upgrade'' r \<noteq> ''websocket''" "e_httpMetrics env = http_collectors"
    and "inner_handler env ep login FakeWriter
        (request_context env tpl (rev (the (full_match tpl (rq_Path r)))) r s) r
        (s\<lparr>sv_requests := sv_requests s + 1\<rparr>) = ((es, g), s1)"
  shows "case g of
      Return _ \<Rightarrow> fst (serve env r s) = (es, Return ()) \<and> sv_app (snd (serve env r s)) = sv_app s1 \<and>
        counted (sv_metrics (snd (serve env r s))) =
          (counted (sv_metrics s1))((''total_hits_count'', [tpl, itoa (last (200 # header_codes es))]) :=
             counted (sv_metrics s1) (''total_hits_count'', [tpl, itoa (last (200 # header_codes es))]) + 1)
    | Panic \<Rightarrow> fst (serve env r s) = (es @ [WroteHeader 500, Wrote (TextBody ErrInternalServer)], Return ()) \<and>
        sv_app (snd (serve env r s)) = sv_app s1 \<and> sv_metrics (snd (serve env r s)) = sv_metrics s1
    | Block \<Rightarrow> serve env r s = ((es, Block), s1)"
  using assms by (rule served_row)

lemma request_counted_witness:
  "let r = rt_request ''GET'' ''/api/auth/check'' None;
       env = (rt_env rt_user (\<lambda>w ctx r s. ((sent (\<lambda>_. False) 200 NullBody, Return ()), s)) :: (unit, unit) server_env)
     in client_status (fst (fst (serve env r (rt_server ())))) = 200 \<and>
        counted (sv_metrics (snd (serve env r (rt_server ())))) (''total_hits_count'', [''/api/auth/check'', ''500'']) = 1"
proof -
  let ?r = "rt_request ''GET'' ''/api/auth/check'' None"
  let ?env = "rt_env rt_user (\<lambda>w ctx r s. ((sent (\<lambda>_. False) 200 NullBody, Return ()), s)) :: (unit, unit) server_env"
  have row: "find (row_matches (rq_Method ?r) (rq_Path ?r)) api_table =
      Some (''GET'', ''/api/auth/check'', E_CheckAuth, False)"
    by (simp add: rt_request_def api_table_def row_matches_def full_match_def templates)
  have "inner_handler ?env E_CheckAuth False FakeWriter ctx ?r s = ((sent (\<lambda>_. False) 200 NullBody, Return ()), s)" for ctx s
    by (simp add: inner_handler_def rt_env_def)
  from request_counted[OF _ _ row _ _ this, of "rt_server ()"] show ?thesis
    by (simp add: rt_clean rt_request_def header_get_def rt_env_def rt_server_def sent_def itoa_def
        ndigits.simps digit_def StatusInternalServerError_def Let_def)
qed

end
