(* ===== verification/Websocket.thy ===== *)
theory Websocket
  imports RouterRun BestiaryUse Table
begin

text \<open>
  The websocket handshake: \<open>Upgrader.Upgrade\<close> of the vendored \<open>gorilla/websocket\<close> with the
  options of \<open>NewTableHandler\<close> (no check of the origin, no compression), the handler
  \<open>ServeWS\<close> on top of it, and what the metrics middleware in front of both does to it.

  The connection that is taken over is not modelled here; taking it over always succeeds.
\<close>

section \<open>The handshake\<close>

definition is_token_octet :: "char \<Rightarrow> bool" where
  "is_token_octet c \<longleftrightarrow>
     (CHR ''0'' \<le> c \<and> c \<le> CHR ''9'') \<or> (CHR ''A'' \<le> c \<and> c \<le> CHR ''Z'') \<or> (CHR ''a'' \<le> c \<and> c \<le> CHR ''z'') \<or>
     c \<in> set ''!#$%&*+-.^_|~'' \<or> c = CHR 0x27 \<or> c = CHR 0x60"

definition skipSpace :: "string \<Rightarrow> string" where
  "skipSpace s = dropWhile (\<lambda>b. b = CHR '' '' \<or> b = CHR 0x09) s"

definition nextToken :: "string \<Rightarrow> string \<times> string" where
  "nextToken s = (takeWhile is_token_octet s, dropWhile is_token_octet s)"

definition lower :: "char \<Rightarrow> char" where
  "lower c = (if CHR ''A'' \<le> c \<and> c \<le> CHR ''Z'' then char_of (of_char c + 32 :: nat) else c)"

fun equalASCIIFold :: "string \<Rightarrow> string \<Rightarrow> bool" where
  "equalASCIIFold (a # s) (b # t) =
     (if a = b then equalASCIIFold s t
      else if lower a \<noteq> lower b then False
      else equalASCIIFold s t)"
| "equalASCIIFold s t = (s = t)"

lemma length_skipSpace: "length (skipSpace s) \<le> length s"
  by (simp add: skipSpace_def length_dropWhile_le)

lemma token_list_shrinks:
  assumes "nextToken (skipSpace s) = (t, s1)" "skipSpace s1 = c # s2"
  shows "length s2 < length s"
proof -
  have "length s1 \<le> length s"
    using assms(1) length_dropWhile_le[of is_token_octet "skipSpace s"] length_skipSpace[of s]
    by (auto simp: nextToken_def)
  then show ?thesis using length_skipSpace[of s1] assms(2) by simp
qed

text \<open>One value of the header: a list of tokens with commas between them.\<close>

function token_list_contains :: "string \<Rightarrow> string \<Rightarrow> bool" where
  "token_list_contains value s =
     (case nextToken (skipSpace s) of
        ([], s1) \<Rightarrow> False
      | (t, s1) \<Rightarrow>
          (case skipSpace s1 of
             [] \<Rightarrow> equalASCIIFold t value
           | c # s2 \<Rightarrow>
               (if c \<noteq> CHR '','' then False
                else if equalASCIIFold t value then True
                else token_list_contains value s2)))"
  by pat_completeness auto

termination
  by (relation "measure (length o snd)") (auto intro!: token_list_shrinks[OF sym])

declare token_list_contains.simps [simp del]

definition tokenListContainsValue :: "server_request \<Rightarrow> string \<Rightarrow> string \<Rightarrow> bool" where
  "tokenListContainsValue r nam value =
     (case map_of (rq_Header r) nam of None \<Rightarrow> False | Some vs \<Rightarrow> list_ex (token_list_contains value) vs)"

definition isValidChallengeKey :: "string \<Rightarrow> bool" where
  "isValidChallengeKey s \<longleftrightarrow>
     s \<noteq> [] \<and> (case base64_decode s of None \<Rightarrow> False | Some d \<Rightarrow> length d = 16)"

definition StatusText :: "int \<Rightarrow> string" where
  "StatusText code =
     (if code = 400 then ''Bad Request'' else if code = 405 then ''Method Not Allowed''
      else if code = 500 then ''Internal Server Error'' else [])"

definition returnError :: "int \<Rightarrow> 'b event list" where
  "returnError status =
     [SetHeader ''Sec-Websocket-Version'' ''13'', WroteHeader status, Wrote (TextBody (StatusText status))]"

text \<open>The events of an upgrade and whether it succeeds.\<close>

definition Upgrade :: "writer \<Rightarrow> server_request \<Rightarrow> 'b event list \<times> bool" where
  "Upgrade w r =
     (if \<not> tokenListContainsValue r ''Connection'' ''upgrade'' then (returnError 400, False)
      else if \<not> tokenListContainsValue r ''Upgrade'' ''websocket'' then (returnError 400, False)
      else if rq_Method r \<noteq> ''GET'' then (returnError 405, False)
      else if \<not> tokenListContainsValue r ''Sec-Websocket-Version'' ''13'' then (returnError 400, False)
      else if \<not> isValidChallengeKey (header_get ''Sec-Websocket-Key'' r) then (returnError 400, False)
      else if \<not> is_hijacker w then (returnError 500, False)
      else ([Hijacked], True))"

text \<open>The request is one that the websocket package accepts.\<close>

definition good_handshake :: "server_request \<Rightarrow> bool" where
  "good_handshake r \<longleftrightarrow>
     tokenListContainsValue r ''Connection'' ''upgrade'' \<and> tokenListContainsValue r ''Upgrade'' ''websocket'' \<and>
     rq_Method r = ''GET'' \<and> tokenListContainsValue r ''Sec-Websocket-Version'' ''13'' \<and>
     isValidChallengeKey (header_get ''Sec-Websocket-Key'' r)"

lemma Upgrade_good: "good_handshake r \<Longrightarrow>
    Upgrade w r = (if is_hijacker w then ([Hijacked], True) else (returnError 500, False))"
  by (simp add: good_handshake_def Upgrade_def)

lemma Upgrade_bad: "\<not> good_handshake r \<Longrightarrow> \<not> snd (Upgrade w r)"
  by (auto simp: good_handshake_def Upgrade_def)

section \<open>The handler\<close>

definition ServeWS :: "string \<Rightarrow> ('b, 'd table_state) handler" where
  "ServeWS key w ctx r s =
     (let (es, upgrades) = Upgrade w r in
      case h_ServeWS (mux_var ''id'' ctx) (ctx_user key ctx) upgrades (sv_app s) of
        (Return (Some (code, ErrBody status)), a) \<Rightarrow>
          (((if status = ErrWSUpgrade then es else []) @ sent_err code status, Return ()), s\<lparr>sv_app := a\<rparr>)
      | (Return _, a) \<Rightarrow> ((es, Return ()), s\<lparr>sv_app := a\<rparr>)
      | (Panic, a) \<Rightarrow> (([], Panic), s\<lparr>sv_app := a\<rparr>)
      | (Block, a) \<Rightarrow> (([], Block), s\<lparr>sv_app := a\<rparr>))"

section \<open>Through the server\<close>

text \<open>Templates with one variable.\<close>

lemma first_some_last:
  assumes "\<And>m. 1 \<le> m \<Longrightarrow> m < n \<Longrightarrow> f m = None"
  shows "first_some f (rev [1..<Suc n]) = (if n = 0 then None else f n)"
proof (cases n)
  case (Suc k)
  have none: "first_some f xs = None" if "\<forall>m \<in> set xs. f m = None" for xs :: "nat list"
    using that by (induction xs) auto
  have "first_some f (rev [1..<n]) = None" using assms by (intro none) auto
  moreover have "rev [1..<Suc n] = n # rev [1..<n]" using Suc by simp
  ultimately show ?thesis using Suc by (simp del: upt_Suc split: option.splits)
qed simp

lemma submatch_var:
  assumes "\<And>c w. c \<noteq> CHR ''/'' \<Longrightarrow> submatch prefix ps (c # w) = None"
  shows "submatch prefix (Var x # ps) s =
    (let v = takeWhile (\<lambda>c. c \<noteq> CHR ''/'') s
     in if v = [] then None else map_option (Cons (x, v)) (submatch prefix ps (dropWhile (\<lambda>c. c \<noteq> CHR ''/'') s)))"
proof -
  let ?v = "takeWhile (\<lambda>c. c \<noteq> CHR ''/'') s"
  let ?f = "\<lambda>n. map_option (Cons (x, take n s)) (submatch prefix ps (drop n s))"
  have "?f m = None" if "m < length ?v" for m
  proof -
    have m: "m < length s" using that length_takeWhile_le[of "\<lambda>c. c \<noteq> CHR ''/''" s] by simp
    have "s ! m = ?v ! m" using that by (simp add: takeWhile_nth)
    moreover have "?v ! m \<noteq> CHR ''/''" using nth_mem[OF that] set_takeWhileD by fastforce
    ultimately have "s ! m \<noteq> CHR ''/''" by simp
    then show ?thesis using assms Cons_nth_drop_Suc[OF m, symmetric] by simp
  qed
  then have "first_some ?f (rev [1..<Suc (length ?v)]) = (if length ?v = 0 then None else ?f (length ?v))"
    by (intro first_some_last) auto
  moreover have "take (length ?v) s = ?v" "drop (length ?v) s = dropWhile (\<lambda>c. c \<noteq> CHR ''/'') s"
    by (rule takeWhile_eq_take[symmetric], rule dropWhile_eq_drop[symmetric])
  ultimately show ?thesis by (simp add: Let_def)
qed

lemma submatch_last_var:
  "submatch False [Var x, Lit []] s =
     (let v = takeWhile (\<lambda>c. c \<noteq> CHR ''/'') s
      in if v = [] then None else map_option (Cons (x, v)) (submatch False [Lit []] (dropWhile (\<lambda>c. c \<noteq> CHR ''/'') s)))"
  by (rule submatch_var) simp

lemma submatch_var_slash:
  "submatch False [Var x, Lit (CHR ''/'' # l)] s =
     (let v = takeWhile (\<lambda>c. c \<noteq> CHR ''/'') s
      in if v = [] then None
         else map_option (Cons (x, v)) (submatch False [Lit (CHR ''/'' # l)] (dropWhile (\<lambda>c. c \<noteq> CHR ''/'') s)))"
  by (rule submatch_var) simp

lemma takeWhile_segment:
  assumes "CHR ''/'' \<notin> set v"
  shows "takeWhile (\<lambda>c. c \<noteq> CHR ''/'') (v @ CHR ''/'' # w) = v"
    "dropWhile (\<lambda>c. c \<noteq> CHR ''/'') (v @ CHR ''/'' # w) = CHR ''/'' # w"
  using assms by (induction v) auto

text \<open>Any path of the connect operation.\<close>

definition connect_path :: "string \<Rightarrow> string" where
  "connect_path sid = ''/api/table/session/'' @ sid @ ''/connect''"

lemma connect_row:
  assumes "sid \<noteq> []" "CHR ''/'' \<notin> set sid"
  shows "find (row_matches ''GET'' (connect_path sid)) api_table =
      Some (''GET'', ''/api/table/session/{id}/connect'', E_ServeWS, True)"
    and "full_match ''/api/table/session/{id}/connect'' (connect_path sid) = Some [(''id'', sid)]"
  using assms
  by (simp_all add: api_table_def row_matches_def full_match_def templates connect_path_def submatch_last_var
      submatch_var_slash takeWhile_segment Let_def del: submatch.simps(3))

lemma ServeWS_reached:
  assumes "e_handler env E_ServeWS = ServeWS (e_CtxUserKey env)" "rq_cookie r = Some c"
    and "e_CheckAuth env c (sv_app s) = (Some u, a)" "active u" "good_handshake r" "sid \<noteq> []"
  shows "inner_handler env E_ServeWS True w (request_context env tpl [(''id'', sid)] r s0) r s =
    (if is_hijacker w
     then (([Hijacked], Return ()),
       s\<lparr>sv_app := a\<lparr>conn_threads := conn_threads a @
         [\<lparr>th_user = u, th_session = sid, th_conn = length (conn_threads a), th_pc = Lookup\<rparr>]\<rparr>\<rparr>)
     else ((returnError 500 @ sent_err StatusBadRequest ErrWSUpgrade, Return ()), s\<lparr>sv_app := a\<rparr>))"
proof -
  have ctx: "mux_var ''id'' (WithValue (StringKey k) v (request_context env tpl [(''id'', sid)] r s0)) = Some sid" for k v
    by (cases "e_logger env")
       (simp_all add: mux_var_def request_context_def SaveRequestData_def Value_WithValue route_context_def)
  show ?thesis
    using assms
    by (auto simp: inner_handler_def LoginRequired_def active_def ServeWS_def Upgrade_good ctx h_ServeWS_def no_id_def
        ctx_user_def Value_WithValue SendErrResponse_simp)
qed

text \<open>
  C31.
  The metrics middleware recognises a websocket request by the exact value \<open>websocket\<close> of its
  \<open>Upgrade\<close> header. A user at the connect operation whose handshake the websocket package would
  accept gets a connection with that spelling; with any other the package accepts, for
  instance \<open>WebSocket\<close>, the wrapped writer is no hijacker: the answer is a 500, the handler's 400
  is lost behind it, and the table never sees the user.
\<close>

theorem websocket_spelling:
  assumes "rq_Path r = connect_path sid" "cleanPath (connect_path sid) = connect_path sid" "sid \<noteq> []"
    and "CHR ''/'' \<notin> set sid" "good_handshake r" "rq_cookie r = Some c"
    and "e_CheckAuth env c (sv_app s) = (Some u, a)" "active u"
    and "e_handler env E_ServeWS = ServeWS (e_CtxUserKey env)" "e_httpMetrics env = http_collectors"
  shows "if header_get ''Upgrade'' r = ''websocket''
    then fst (serve env r s) = ([Hijacked], Return ()) \<and>
      sv_app (snd (serve env r s)) = a\<lparr>conn_threads := conn_threads a @
        [\<lparr>th_user = u, th_session = sid, th_conn = length (conn_threads a), th_pc = Lookup\<rparr>]\<rparr>
    else client_status (fst (fst (serve env r s))) = 500 \<and> header_codes (fst (fst (serve env r s))) = [500, 400] \<and>
      sv_app (snd (serve env r s)) = a"
proof -
  have get: "rq_Method r = ''GET''" using assms(5) by (simp add: good_handshake_def)
  have row: "find (row_matches (rq_Method r) (rq_Path r)) api_table =
      Some (''GET'', ''/api/table/session/{id}/connect'', E_ServeWS, True)"
    using connect_row(1)[OF assms(3, 4)] get assms(1) by simp
  have vars: "rev (the (full_match ''/api/table/session/{id}/connect'' (rq_Path r))) = [(''id'', sid)]"
    using connect_row(2)[OF assms(3, 4)] assms(1) by simp
  have clean: "cleanPath (rq_Path r) = rq_Path r" "take (length ''/metrics'') (rq_Path r) \<noteq> ''/metrics''"
    using assms(1, 2) by (simp_all add: connect_path_def)
  let ?ctx = "request_context env ''/api/table/session/{id}/connect'' [(''id'', sid)] r s"
  let ?s = "s\<lparr>sv_requests := sv_requests s + 1\<rparr>"
  have app: "sv_app ?s = sv_app s" by simp
  note reached = ServeWS_reached[OF assms(9, 6) _ assms(8, 5, 3), of ?s a, simplified app, OF assms(7)]
  show ?thesis
  proof (cases "header_get ''Upgrade'' r = ''websocket''")
    case True
    then show ?thesis
      unfolding serve_row[OF clean row] vars RecoveryEvents_def CreateMetricsMiddleware_def
      by (simp add: reached[of ServerWriter "''/api/table/session/{id}/connect''" s, simplified])
  next
    case False
    note inner = reached[of FakeWriter "''/api/table/session/{id}/connect''" s]
    from served_row[OF clean row False assms(10), unfolded vars, OF inner[unfolded is_hijacker.simps if_False]] False
    show ?thesis by (simp add: returnError_def StatusBadRequest_def)
  qed
qed

definition ws_request :: "string \<Rightarrow> server_request" where
  "ws_request upgrade =
     \<lparr>rq_Method = ''GET'', rq_URL = connect_path ''s1'', rq_Path = connect_path ''s1'',
      rq_Header = [(''Connection'', [''keep-alive, Upgrade'']), (''Upgrade'', [upgrade]),
        (''Sec-Websocket-Version'', [''13'']), (''Sec-Websocket-Key'', [''AAAAAAAAAAAAAAAAAAAAAA==''])],
      rq_cookie = Some ''sid'', rq_body = []\<rparr>"

lemma ws_request_good:
  "good_handshake (ws_request ''websocket'')" "good_handshake (ws_request ''WebSocket'')"
  by code_simp+

lemma connect_clean: "cleanPath (connect_path ''s1'') = connect_path ''s1''"
  by (simp add: cleanPath_def Clean_def connect_path_def Let_def)

lemma websocket_spelling_witness:
  "\<forall>a :: unit table_state.
     let env = (rt_env rt_user (ServeWS ''user'') :: (unit, unit table_state) server_env) in
     fst (serve env (ws_request ''websocket'') (rt_server a)) = ([Hijacked], Return ()) \<and>
     client_status (fst (fst (serve env (ws_request ''WebSocket'') (rt_server a)))) = 500 \<and>
     sv_app (snd (serve env (ws_request ''WebSocket'') (rt_server a))) = a"
proof
  fix a :: "unit table_state"
  let ?env = "rt_env rt_user (ServeWS ''user'') :: (unit, unit table_state) server_env"
  have check: "e_CheckAuth ?env ''sid'' (sv_app (rt_server a)) = (Some rt_user, a)"
    and active: "active rt_user" and handler: "e_handler ?env E_ServeWS = ServeWS (e_CtxUserKey ?env)"
    and metrics: "e_httpMetrics ?env = http_collectors"
    by (simp_all add: rt_env_def rt_server_def active_def rt_user_def)
  note spelling = websocket_spelling[OF _ connect_clean _ _ _ _ check active handler metrics]
  have r: "rq_Path (ws_request x) = connect_path ''s1''" "rq_cookie (ws_request x) = Some ''sid''"
    "header_get ''Upgrade'' (ws_request x) = x" for x
    by (simp_all add: ws_request_def header_get_def)
  from spelling[OF r(1) _ _ ws_request_good(1) r(2)] spelling[OF r(1) _ _ ws_request_good(2) r(2)]
  show "let env = (rt_env rt_user (ServeWS ''user'') :: (unit, unit table_state) server_env) in
     fst (serve env (ws_request ''websocket'') (rt_server a)) = ([Hijacked], Return ()) \<and>
     client_status (fst (fst (serve env (ws_request ''WebSocket'') (rt_server a)))) = 500 \<and>
     sv_app (snd (serve env (ws_request ''WebSocket'') (rt_server a))) = a"
    by (simp add: r(3) Let_def)
qed

end
