(* ===== verification/Frames.thy ===== *)
theory Frames
  imports EncounterStorage MapsStorage AuthRun
begin

text \<open>
  What an operation does not touch: \<open>keeps f call\<close> says that the part \<open>f\<close> of the state is
  after the call what it was before. The rules of \<open>keeping\<close> follow the shape of a definition;
  the three locales carry them from the calls of a repository to the handlers over it, and are
  interpreted on the storages: authentication leaves encounters and maps alone, encounters leave
  maps alone, and the other way round.
\<close>

section \<open>Keeping a part of the state\<close>

definition keeps :: "('d \<Rightarrow> 't) \<Rightarrow> ('d \<Rightarrow> 'r \<times> 'd) \<Rightarrow> bool" where
  "keeps f call \<longleftrightarrow> (\<forall>d. f (snd (call d)) = f d)"

named_theorems keeping "rules for keeps"

lemma keepsD: "keeps f call \<Longrightarrow> f (snd (call d)) = f d"
  by (simp add: keeps_def)

lemma keeps_return [keeping]: "keeps f (\<lambda>d. (r d, d))"
  by (simp add: keeps_def)

lemma keeps_step [keeping]:
  "keeps f m \<Longrightarrow> (\<And>x. keeps f (k x)) \<Longrightarrow> keeps f (\<lambda>d. case m d of (x, d1) \<Rightarrow> k x d1)"
  by (auto simp: keeps_def split: prod.splits) (metis snd_conv)

lemma keeps_after [keeping]: "keeps f m \<Longrightarrow> keeps f (\<lambda>d. (r, snd (m d)))"
  by (simp add: keeps_def)

lemma keeps_if [keeping]: "keeps f m \<Longrightarrow> keeps f n \<Longrightarrow> keeps f (\<lambda>d. if c then m d else n d)"
  by (simp add: keeps_def)

lemma keeps_sum [keeping]:
  "(\<And>e. keeps f (m e)) \<Longrightarrow> (\<And>x. keeps f (n x)) \<Longrightarrow> keeps f (\<lambda>d. case y of Inl e \<Rightarrow> m e d | Inr x \<Rightarrow> n x d)"
  by (cases y) auto

lemma keeps_option [keeping]:
  "keeps f m \<Longrightarrow> (\<And>x. keeps f (n x)) \<Longrightarrow> keeps f (\<lambda>d. case y of None \<Rightarrow> m d | Some x \<Rightarrow> n x d)"
  by (cases y) auto

lemma keeps_bool [keeping]:
  "keeps f m \<Longrightarrow> keeps f n \<Longrightarrow> keeps f (\<lambda>d. case y of True \<Rightarrow> m d | False \<Rightarrow> n d)"
  by (cases y) auto

lemma keeps_prod [keeping]: "(\<And>a b. keeps f (m a b)) \<Longrightarrow> keeps f (\<lambda>d. case y of (a, b) \<Rightarrow> m a b d)"
  by (cases y) auto

lemma keeps_map_error [keeping]:
  "(\<And>e. keeps f (m e)) \<Longrightarrow> (\<And>es. keeps f (n es)) \<Longrightarrow>
     keeps f (\<lambda>d. case y of MapError e \<Rightarrow> m e d | ValidationErrorWrapper es \<Rightarrow> n es d)"
  by (cases y) auto

lemma keeps_user [keeping]: "(\<And>u. keeps f (k u)) \<Longrightarrow> keeps f (with_user u k)"
  by (cases u) (auto simp: keeps_def with_user_def)

lemma keeps_lift_err [keeping]: "keeps f m \<Longrightarrow> keeps f (\<lambda>d. lift_err (m d))"
  by (auto simp: keeps_def lift_err_def split: prod.splits sum.splits) (metis snd_conv)+

text \<open>Parts of a backend.\<close>

lemma keeps_on_db [keeping]: "keeps f m \<Longrightarrow> keeps (\<lambda>b. f (be_db b)) (on_db m)"
  by (auto simp: keeps_def on_db_def split: prod.splits) (metis snd_conv)

lemma keeps_on_sessions [keeping]: "keeps (\<lambda>b. f (be_db b)) (on_sessions m)"
  by (auto simp: keeps_def on_sessions_def split: prod.splits)

lemma keeps_on_world [keeping]: "keeps (\<lambda>b. f (be_db b)) (on_world m)"
  by (auto simp: keeps_def on_world_def split: prod.splits)

section \<open>From repositories to handlers\<close>

locale auth_frame =
  fixes uc :: "('d, 's, 'w) auth_usecases" and f :: "'d \<Rightarrow> 't"
  assumes auth_calls [keeping]:
      "keeps f (arepo_GetUserByID (au_repo uc) uid)"
      "keeps f (arepo_CreateUserWithIdentity (au_repo uc) u idn)"
      "keeps f (arepo_UpdateUser (au_repo uc) u)"
      "keeps f (arepo_UpdateLastLoginAt (au_repo uc) uid t)"
      "keeps f (irepo_FindByProvider (au_identityRepo uc) p q)"
      "keeps f (irepo_CreateIdentity (au_identityRepo uc) idn)"
      "keeps f (irepo_UpdateLastUsed (au_identityRepo uc) iid t)"
      "keeps f (irepo_ListByUserID (au_identityRepo uc) uid)"
      "keeps f (irepo_DeleteByUserAndProvider (au_identityRepo uc) uid p)"
begin

lemma login_user: "keeps f (login_user uc p res now)"
  unfolding login_user_def [abs_def] login_existing_def [abs_def] refresh_user_def [abs_def] login_new_def [abs_def]
  by (intro keeping)

lemma link_user: "keeps f (link_user uc uid p res)" and unlink_user: "keeps f (unlink_user uc uid p)"
  unfolding link_user_def [abs_def] unlink_user_def [abs_def] by (intro keeping)+

lemma h_Login: "keeps (\<lambda>b. f (be_db b)) (h_Login uc dur p body new_id now now2 now3)"
  unfolding h_Login_def [abs_def] uc_Login_def [abs_def] by (intro keeping login_user)

lemma h_other:
  "keeps (\<lambda>b. f (be_db b)) (h_Logout uc session)"
  "keeps (\<lambda>b. f (be_db b)) (h_CheckAuth uc session)"
  "keeps (\<lambda>b. f (be_db b)) (h_ListIdentities uc u)"
  "keeps (\<lambda>b. f (be_db b)) (h_LinkIdentity uc p body u)"
  "keeps (\<lambda>b. f (be_db b)) (h_UnlinkIdentity uc p u)"
  unfolding h_Logout_def [abs_def] uc_Logout_def h_CheckAuth_def [abs_def] uc_CheckAuth_def [abs_def]
    h_ListIdentities_def [abs_def] uc_ListIdentities_def h_LinkIdentity_def [abs_def] uc_LinkIdentity_def [abs_def]
    h_UnlinkIdentity_def [abs_def] uc_UnlinkIdentity_def
  by (intro keeping link_user unlink_user)+

lemma CheckAuth: "keeps (\<lambda>b. f (be_db b)) (uc_CheckAuth uc session)"
  unfolding uc_CheckAuth_def [abs_def] by (intro keeping)

end

locale encounter_frame =
  fixes repo :: "'d encounter_repository" and f :: "'d \<Rightarrow> 't"
  assumes encounter_calls [keeping]:
      "keeps f (repo_ListWithSearch repo siz start uid what)"
      "keeps f (repo_List repo siz start uid)"
      "keeps f (repo_GetByID repo eid)"
      "keeps f (repo_Save repo enc eid uid)"
      "keeps f (repo_Update repo dat eid)"
      "keeps f (repo_Remove repo eid)"
      "keeps f (repo_CheckPermission repo eid uid)"
begin

lemmas serve_calls = serve_encounter.simps [THEN eq_reflection, abs_def]

lemma serve: "keeps f (serve_encounter repo valid (u, req))"
  by (cases req; simp only:; unfold serve_calls h_GetEncountersList_def [abs_def]
      uc_GetEncountersList_def [abs_def] h_GetEncounterByID_def [abs_def] uc_GetEncounterByID_def [abs_def]
      h_SaveEncounter_def [abs_def] uc_SaveEncounter_def [abs_def] h_UpdateEncounter_def [abs_def]
      uc_UpdateEncounter_def [abs_def] h_RemoveEncounter_def [abs_def] uc_RemoveEncounter_def [abs_def];
      intro keeping)

end

locale maps_frame =
  fixes repo :: "'d maps_repository" and f :: "'d \<Rightarrow> 't"
  assumes maps_calls [keeping]:
      "keeps f (mrepo_CreateMap repo uid name dat)"
      "keeps f (mrepo_GetMapByID repo uid mid)"
      "keeps f (mrepo_UpdateMap repo uid mid name dat)"
      "keeps f (mrepo_DeleteMap repo uid mid)"
      "keeps f (mrepo_ListMaps repo uid start siz)"
      "keeps f (mrepo_CheckPermission repo mid uid)"
begin

lemmas serve_calls = serve_map.simps [THEN eq_reflection, abs_def]

lemma serve: "keeps f (serve_map repo vu (u, req))"
  by (cases req; simp only:; unfold serve_calls h_ListMaps_def [abs_def] muc_ListMaps_def [abs_def]
      h_GetMapByID_def [abs_def] muc_GetMapByID_def [abs_def] h_CreateMap_def [abs_def] muc_CreateMap_def [abs_def]
      h_UpdateMap_def [abs_def] muc_UpdateMap_def [abs_def] h_DeleteMap_def [abs_def] muc_DeleteMap_def [abs_def] Let_def;
      intro keeping)

end

section \<open>The tables of Postgres\<close>

definition is_table :: "(postgres \<Rightarrow> 't) \<Rightarrow> bool" where
  "is_table f \<longleftrightarrow> (\<forall>db db'. same_tables db db' \<longrightarrow> f db' = f db)"

lemma tables [simp]:
  "is_table encounters" "is_table maps" "is_table (\<lambda>db. (encounters db, maps db))"
  by (simp_all add: is_table_def same_tables_def)

lemma keeps_query_row [keeping]: "is_table f \<Longrightarrow> keeps f (query_row sel)"
  unfolding keeps_def is_table_def by (metis prod.collapse query_row_cases)

lemma keeps_query_rows [keeping]: "is_table f \<Longrightarrow> keeps f (query_rows sel)"
  unfolding keeps_def is_table_def by (metis prod.collapse query_rows_cases)

lemma keeps_exec [keeping]:
  assumes "is_table f" "keeps f stmt"
  shows "keeps f (exec stmt)"
  unfolding keeps_def
proof
  fix db
  obtain r db' where run: "exec stmt db = (r, db')" by fastforce
  from exec_cases [OF this] show "f (snd (exec stmt db)) = f db"
  proof (elim disjE exE conjE)
    assume "same_tables db db'"
    then show ?thesis using assms(1) run by (simp add: is_table_def)
  next
    fix db1
    assume "same_tables db db1" "stmt db1 = (r, db')"
    moreover have "f (snd (stmt db1)) = f db1" by (rule keepsD [OF assms(2)])
    ultimately show ?thesis using assms(1) run by (simp add: is_table_def)
  qed
qed

lemma keeps_db_bind [keeping]:
  assumes "keeps f m" "\<And>x. keeps f (k x)"
  shows "keeps f (db_bind m k)"
  unfolding db_bind_def [abs_def] by (intro keeping assms)

lemma keeps_transaction [keeping]:
  assumes "is_table f" "keeps f body"
  shows "keeps f (transaction body)"
  unfolding keeps_def
proof
  fix db
  obtain r db' where run: "transaction body db = (r, db')" by fastforce
  from transaction_cases [OF this] show "f (snd (transaction body db)) = f db"
  proof (elim disjE exE conjE)
    fix e
    assume "same_tables db db'"
    then show ?thesis using assms(1) run by (simp add: is_table_def)
  next
    fix x db1 db2
    assume "same_tables db db1" "body db1 = (Inr x, db2)" "same_tables db2 db'"
    moreover have "f (snd (body db1)) = f db1" by (rule keepsD [OF assms(2)])
    ultimately show ?thesis using assms(1) run by (simp add: is_table_def)
  qed
qed

lemma statements_keep:
  "keeps (\<lambda>db. (encounters db, maps db)) (CreateUserQuery n a)"
  "keeps (\<lambda>db. (encounters db, maps db)) (UpdateUserQuery uid n a)"
  "keeps (\<lambda>db. (encounters db, maps db)) (UpdateLastLoginAtQuery t uid)"
  "keeps (\<lambda>db. (encounters db, maps db)) (CreateIdentityQuery uid p q e)"
  "keeps (\<lambda>db. (encounters db, maps db)) (CreateIdentityOnConflictQuery uid p q e)"
  "keeps (\<lambda>db. (encounters db, maps db)) (UpdateIdentityLastUsedQuery t iid)"
  "keeps (\<lambda>db. (encounters db, maps db)) (DeleteIdentityByUserAndProviderQuery uid p)"
  "keeps maps (SaveEncounterQuery uid name bytes eid)"
  "keeps maps (UpdateEncounterQuery dat eid)"
  "keeps maps (DeleteEncounterQuery eid)"
  "keeps encounters (CreateMapQuery uid name doc)"
  "keeps encounters (UpdateMapQuery mid uid name doc)"
  "keeps encounters (DeleteMapQuery mid uid)"
  by (auto simp: keeps_def CreateUserQuery_def UpdateUserQuery_def UpdateLastLoginAtQuery_def CreateIdentityQuery_def
      CreateIdentityOnConflictQuery_def insert_identity_def UpdateIdentityLastUsedQuery_def
      DeleteIdentityByUserAndProviderQuery_def SaveEncounterQuery_def UpdateEncounterQuery_def DeleteEncounterQuery_def
      CreateMapQuery_def UpdateMapQuery_def DeleteMapQuery_def Let_def split: option.splits list.splits)

interpretation auth_content: auth_frame "authUsecases scan_text parse render providers" "\<lambda>db. (encounters db, maps db)"
  for scan_text parse render providers
  by unfold_locales
    (simp_all only: authUsecases_simps authStorage_simps,
     unfold asto_GetUserByID_def [abs_def] asto_CreateUserWithIdentity_def asto_UpdateUser_def tx_result_def [abs_def]
       create_both_def asto_UpdateLastLoginAt_def [abs_def] isto_FindByProvider_def [abs_def] isto_CreateIdentity_def [abs_def]
       isto_UpdateLastUsed_def [abs_def] isto_ListByUserID_def [abs_def] isto_DeleteByUserAndProvider_def [abs_def],
     (intro keeping statements_keep tables)+)

interpretation encounters_maps: encounter_frame "encounterStorage tsquery" maps for tsquery
  by unfold_locales
    (simp_all only: encounterStorage_simps,
     unfold sto_GetEncountersListWithSearch_def [abs_def] sto_GetEncountersList_def [abs_def] sto_GetEncounterByID_def [abs_def]
       sto_SaveEncounter_def sto_UpdateEncounter_def sto_RemoveEncounter_def tx_unit_def [abs_def]
       sto_CheckPermission_def [abs_def],
     (intro keeping statements_keep tables)+)

interpretation maps_encounters: maps_frame mapsStorage encounters
  by unfold_locales
    (simp_all only: mapsStorage_simps,
     unfold msto_CreateMap_def [abs_def] msto_GetMapByID_def [abs_def] msto_UpdateMap_def [abs_def]
       msto_DeleteMap_def [abs_def] msto_ListMaps_def [abs_def] msto_CheckPermission_def [abs_def],
     (intro keeping statements_keep tables)+)

end
