(* ===== verification/Api.thy ===== *)
theory Api
  imports RouterRun Frames
begin

text \<open>
  The server of \<open>NewRouter\<close> with the handlers that work on Postgres behind its routes: encounters,
  maps and authentication, on one database, one session store and one outside world. The other
  handlers are a parameter. The middleware in front of them asks the session store itself.

  \<open>api_deps\<close> holds what the handlers take from outside the program: decoders of bodies and queries,
  the check of JSON and uuids, new uuids and clock readings by the number of the request.
\<close>

section \<open>Handlers behind the routes\<close>

datatype 'o api_body =
  EncounterAnswer encounter_body | MapsAnswer maps_body | AuthAnswer auth_body | OtherAnswer 'o

record 'w api_deps =
  ad_tsquery :: "string \<Rightarrow> (string \<Rightarrow> bool) option"
  ad_scan_text :: "int \<Rightarrow> string option"
  ad_parse :: "string \<Rightarrow> json option"
  ad_render :: "json \<Rightarrow> string"
  ad_providers :: "string \<rightharpoonup> 'w provider"
  ad_valid_json :: "string \<Rightarrow> bool"
  ad_valid_uuid :: "string \<Rightarrow> bool"
  ad_query :: "string \<Rightarrow> string \<Rightarrow> string"
  ad_list :: "string \<Rightarrow> get_encounters_list_req option"
  ad_save :: "string \<Rightarrow> save_encounter_req option"
  ad_read :: "string \<Rightarrow> string option"
  ad_map :: "string \<Rightarrow> map_request option"
  ad_login :: "string \<Rightarrow> login_request option"
  ad_new_id :: "nat \<Rightarrow> string"
  ad_now :: "nat \<Rightarrow> nat \<Rightarrow> int"
  ad_duration :: int

definition api_auth :: "'w api_deps \<Rightarrow> (postgres, redis, 'w) auth_usecases" where
  "api_auth d = authUsecases (ad_scan_text d) (ad_parse d) (ad_render d) (ad_providers d)"

text \<open>The request each handler makes of the variables of the path, the query and the body.\<close>

fun encounter_request_of ::
    "'w api_deps \<Rightarrow> endpoint \<Rightarrow> ctxt \<Rightarrow> server_request \<Rightarrow> nat \<Rightarrow> encounter_request option" where
  "encounter_request_of d E_GetEncountersList ctx r n = Some (ReqList (ad_list d (rq_body r)))"
| "encounter_request_of d E_GetEncounterByID ctx r n = Some (ReqGet (mux_var ''id'' ctx))"
| "encounter_request_of d E_SaveEncounter ctx r n = Some (ReqSave (ad_save d (rq_body r)) (ad_new_id d n))"
| "encounter_request_of d E_UpdateEncounter ctx r n = Some (ReqUpdate (mux_var ''id'' ctx) (ad_read d (rq_body r)))"
| "encounter_request_of d E_RemoveEncounter ctx r n = Some (ReqRemove (mux_var ''id'' ctx))"
| "encounter_request_of d ep ctx r n = None"

fun maps_request_of :: "'w api_deps \<Rightarrow> endpoint \<Rightarrow> ctxt \<Rightarrow> server_request \<Rightarrow> maps_request option" where
  "maps_request_of d E_ListMaps ctx r = Some (MReqList (ad_query d (rq_URL r) ''start'') (ad_query d (rq_URL r) ''size''))"
| "maps_request_of d E_GetMapByID ctx r = Some (MReqGet (mux_var ''id'' ctx))"
| "maps_request_of d E_CreateMap ctx r = Some (MReqCreate (ad_map d (rq_body r)))"
| "maps_request_of d E_UpdateMap ctx r = Some (MReqUpdate (mux_var ''id'' ctx) (ad_map d (rq_body r)))"
| "maps_request_of d E_DeleteMap ctx r = Some (MReqDelete (mux_var ''id'' ctx))"
| "maps_request_of d ep ctx r = None"

definition path_provider :: "ctxt \<Rightarrow> string" where
  "path_provider ctx = (case mux_var ''provider'' ctx of None \<Rightarrow> [] | Some p \<Rightarrow> p)"

fun auth_call ::
    "'w api_deps \<Rightarrow> endpoint \<Rightarrow> user option \<Rightarrow> ctxt \<Rightarrow> server_request \<Rightarrow> nat
     \<Rightarrow> ((postgres, redis, 'w) backend \<Rightarrow> auth_response go \<times> (postgres, redis, 'w) backend) option" where
  "auth_call d E_Login u ctx r n =
     Some (h_Login (api_auth d) (ad_duration d) (path_provider ctx) (ad_login d (rq_body r)) (ad_new_id d n)
       (ad_now d n 0) (ad_now d n 1) (ad_now d n 2))"
| "auth_call d E_Logout u ctx r n = Some (h_Logout (api_auth d) (rq_cookie r))"
| "auth_call d E_CheckAuth u ctx r n = Some (h_CheckAuth (api_auth d) (rq_cookie r))"
| "auth_call d E_ListIdentities u ctx r n = Some (h_ListIdentities (api_auth d) u)"
| "auth_call d E_LinkIdentity u ctx r n =
     Some (h_LinkIdentity (api_auth d) (path_provider ctx) (ad_login d (rq_body r)) u)"
| "auth_call d E_UnlinkIdentity u ctx r n = Some (h_UnlinkIdentity (api_auth d) (path_provider ctx) u)"
| "auth_call d ep u ctx r n = None"

text \<open>
  The answers as events. \<open>sendResponse\<close> gives an answer with the text of an error only when the
  body does not marshal; of a cookie the name and the value are kept.
\<close>

definition answered :: "('a \<Rightarrow> 'b) \<Rightarrow> 'a response \<Rightarrow> 'b event list" where
  "answered into resp =
     (case snd resp of
        TextBody t \<Rightarrow> [WroteHeader (fst resp), WroteHeader StatusInternalServerError, Wrote (TextBody t)]
      | body \<Rightarrow> [WroteHeader (fst resp), Wrote (map_payload into body)])"

fun maps_answered :: "maps_response \<Rightarrow> 'o api_body event list" where
  "maps_answered (code, NoBody) = [WroteHeader code]"
| "maps_answered (code, body) =
     [SetHeader ''Content-Type'' ''application/json'', WroteHeader code, Wrote (OkBody (MapsAnswer body))]"

fun cookie_header :: "cookie \<Rightarrow> 'b event list" where
  "cookie_header NoCookie = []"
| "cookie_header (SetSession sid expires) = [SetHeader ''Set-Cookie'' (''session_id='' @ sid)]"
| "cookie_header ClearSession = [SetHeader ''Set-Cookie'' ''session_id='']"

fun auth_answered :: "auth_response \<Rightarrow> 'o api_body event list" where
  "auth_answered (c, (code, OkBody NoContent)) = cookie_header c @ [WroteHeader code]"
| "auth_answered (c, resp) = cookie_header c @ answered AuthAnswer resp"

definition on_app :: "('a \<Rightarrow> 'b event list) \<Rightarrow> ('s \<Rightarrow> 'a go \<times> 's) \<Rightarrow> 's server \<Rightarrow> ('b event list \<times> unit go) \<times> 's server" where
  "on_app events h s =
     (case h (sv_app s) of
        (Return a, x) \<Rightarrow> ((events a, Return ()), s\<lparr>sv_app := x\<rparr>)
      | (Panic, x) \<Rightarrow> (([], Panic), s\<lparr>sv_app := x\<rparr>)
      | (Block, x) \<Rightarrow> (([], Block), s\<lparr>sv_app := x\<rparr>))"

definition api_handler ::
    "'w api_deps \<Rightarrow> string \<Rightarrow> (endpoint \<Rightarrow> ('o api_body, (postgres, redis, 'w) backend) handler)
     \<Rightarrow> endpoint \<Rightarrow> ('o api_body, (postgres, redis, 'w) backend) handler" where
  "api_handler d key other ep w ctx r s =
     (let u = ctx_user key ctx; n = sv_requests s in
      case encounter_request_of d ep ctx r n of
        Some req \<Rightarrow> on_app (answered EncounterAnswer)
          (on_db (serve_encounter (encounterStorage (ad_tsquery d)) (ad_valid_json d) (u, req))) s
      | None \<Rightarrow>
          (case maps_request_of d ep ctx r of
             Some req \<Rightarrow> on_app maps_answered (on_db (serve_map mapsStorage (ad_valid_uuid d) (u, req))) s
           | None \<Rightarrow>
               (case auth_call d ep u ctx r n of
                  Some call \<Rightarrow> on_app auth_answered call s
                | None \<Rightarrow> other ep w ctx r s)))"

text \<open>The environment is the program's: its handlers and the session check of its middleware.\<close>

definition api_env ::
    "'w api_deps \<Rightarrow> (endpoint \<Rightarrow> ('o api_body, (postgres, redis, 'w) backend) handler)
     \<Rightarrow> ('o api_body, (postgres, redis, 'w) backend) server_env
     \<Rightarrow> ('o api_body, (postgres, redis, 'w) backend) server_env" where
  "api_env d other env =
     env\<lparr>e_handler := api_handler d (e_CtxUserKey env) other, e_CheckAuth := uc_CheckAuth (api_auth d)\<rparr>"

lemma api_env_simps [simp]:
  "e_handler (api_env d other env) = api_handler d (e_CtxUserKey env) other"
  "e_CheckAuth (api_env d other env) = uc_CheckAuth (api_auth d)"
  "e_CtxUserKey (api_env d other env) = e_CtxUserKey env"
  "e_httpMetrics (api_env d other env) = e_httpMetrics env"
  by (simp_all add: api_env_def)

fun serve_all :: "('b, 's) server_env \<Rightarrow> server_request list \<Rightarrow> 's server \<Rightarrow> 's server" where
  "serve_all env [] s = s"
| "serve_all env (r # rs) s = serve_all env rs (snd (serve env r s))"

text \<open>The user whose session the cookie of a request opens.\<close>

definition cookie_user :: "('b, 's) server_env \<Rightarrow> server_request \<Rightarrow> 's server \<Rightarrow> user option" where
  "cookie_user env r s =
     (case rq_cookie r of None \<Rightarrow> None | Some sid \<Rightarrow> fst (e_CheckAuth env sid (sv_app s)))"

text \<open>No request of the sequence comes with a cookie that opens a session of the owner by then.\<close>

fun never_as :: "int \<Rightarrow> ('b, 's) server_env \<Rightarrow> server_request list \<Rightarrow> 's server \<Rightarrow> bool" where
  "never_as owner env [] s = True"
| "never_as owner env (r # rs) s =
     ((case cookie_user env r s of None \<Rightarrow> True | Some u \<Rightarrow> userID u \<noteq> owner) \<and>
      never_as owner env rs (snd (serve env r s)))"

section \<open>What a request does to the state\<close>

text \<open>A request reaches at most one handler, and nothing else touches the state behind it.\<close>

lemma serve_app:
  "sv_app (snd (serve env r s)) = sv_app s \<or>
   (\<exists>ep login w ctx s1. (login \<longleftrightarrow> ep \<notin> set public_endpoints) \<and> sv_app s1 = sv_app s \<and>
      sv_app (snd (serve env r s)) = sv_app (snd (inner_handler env ep login w ctx r s1)))"
proof -
  let ?P = "\<exists>ep login w ctx s1. (login \<longleftrightarrow> ep \<notin> set public_endpoints) \<and> sv_app s1 = sv_app s \<and>
      sv_app (snd (serve env r s)) = sv_app (snd (inner_handler env ep login w ctx r s1))"
  have chain: "?P" if f: "ServeHTTP apiRouter (rq_Method r) (rq_Path r) = Found (row_chain ep login) tpl vars"
    and l: "login \<longleftrightarrow> ep \<notin> set public_endpoints" for ep login tpl vars
  proof -
    let ?ctx = "SaveRequestData (WithContext (e_logger env) (e_uuid env (sv_requests s)) (route_context tpl vars)) r"
    have "sv_app (snd (serve env r s)) =
        sv_app (snd (inner_handler env ep login (inner_writer r ServerWriter) ?ctx r (s\<lparr>sv_requests := sv_requests s + 1\<rparr>)))"
      by (simp add: serve_def f root_chain RecoveryEvents_app CreateMetricsMiddleware_keeps inner_handler_def)
    then show ?thesis using l
      by (intro exI [of _ ep] exI [of _ login] exI [of _ "inner_writer r ServerWriter"] exI [of _ ?ctx]
          exI [of _ "s\<lparr>sv_requests := sv_requests s + 1\<rparr>"]) simp
  qed
  show ?thesis
  proof (cases rule: ServeHTTP_cases [of "rq_Method r" "rq_Path r"])
    case metrics
    have "\<not> False \<longleftrightarrow> E_Prometheus \<in> set public_endpoints" by (simp add: public_endpoints_def)
    then show ?thesis using chain [OF metrics] by blast
  next
    case (row m tpl ep login vars)
    then have "login \<longleftrightarrow> ep \<notin> set public_endpoints" using table_logins by blast
    then show ?thesis using chain [OF row(2)] by blast
  qed (auto simp: serve_def)
qed

text \<open>
  A relation between states that the check of a session and the handlers respect, those behind the
  login for the users they can meet, is respected by a request.
\<close>

lemma serve_related:
  assumes "\<And>a. R a a" "\<And>a b c. R a b \<Longrightarrow> R b c \<Longrightarrow> R a c"
    and check: "\<And>sid a. R a (snd (e_CheckAuth env sid a))"
    and handler: "\<And>ep w ctx s. ep \<in> set public_endpoints \<or> (\<exists>u. ctx_user (e_CtxUserKey env) ctx = Some u \<and> good u) \<Longrightarrow>
      R (sv_app s) (sv_app (snd (e_handler env ep w ctx r s)))"
    and cookie: "case cookie_user env r s of None \<Rightarrow> True | Some u \<Rightarrow> good u"
  shows "R (sv_app s) (sv_app (snd (serve env r s)))"
  using serve_app [of env r s]
proof (elim disjE exE conjE)
  assume "sv_app (snd (serve env r s)) = sv_app s"
  then show ?thesis by (simp add: assms(1))
next
  fix ep login w ctx s1
  assume l: "login \<longleftrightarrow> ep \<notin> set public_endpoints" and s1: "sv_app s1 = sv_app s"
    and run: "sv_app (snd (serve env r s)) = sv_app (snd (inner_handler env ep login w ctx r s1))"
  show ?thesis
  proof (cases login)
    case False
    then show ?thesis using run handler [of ep ctx s1 w] l s1 by (simp add: inner_handler_def)
  next
    case login: True
    show ?thesis
    proof (cases "rq_cookie r")
      case None
      then show ?thesis using run login s1 by (simp add: inner_handler_def LoginRequired_def assms(1))
    next
      case (Some sid)
      obtain ans a where auth: "e_CheckAuth env sid (sv_app s) = (ans, a)" by fastforce
      have a: "R (sv_app s) a" using check [of "sv_app s" sid] auth by simp
      show ?thesis
      proof (cases ans)
        case None
        then show ?thesis using run login s1 Some auth a by (simp add: inner_handler_def LoginRequired_def)
      next
        case user: (Some u)
        let ?ctx = "WithValue (StringKey (e_CtxUserKey env)) (UserVal u) ctx"
        have "good u" using cookie auth user Some by (simp add: cookie_user_def)
        then have "R a (sv_app (snd (e_handler env ep w ?ctx r (s1\<lparr>sv_app := a\<rparr>))))"
          using handler [of ep ?ctx "s1\<lparr>sv_app := a\<rparr>" w] by (simp add: ctx_user_def Value_WithValue)
        with a assms(2) have "R (sv_app s) (sv_app (snd (e_handler env ep w ?ctx r (s1\<lparr>sv_app := a\<rparr>))))" by blast
        then show ?thesis using run login s1 Some auth user a
          by (auto simp: inner_handler_def LoginRequired_def)
      qed
    qed
  qed
qed

end
