(* ===== verification/Whole.thy ===== *)
theory Whole
  imports Api Websocket MapTiles Llm
begin

text \<open>
  The whole program while it serves: all handlers behind the routes, on one state that they share
  with the goroutines of the game tables and of the creature generation. What can happen next is
  that a request is served, that a goroutine makes a step, or that time passes outside.

  A request is served as one step here; the goroutines of a table interleave with each other in
  \<open>TableRun\<close>. The handler of \<open>/metrics\<close>, which is prometheus's, is a parameter.
\<close>

section \<open>The state\<close>

text \<open>The database is the store of the tables; the outside world is that of the generation.\<close>

record 'w app =
  ap_tables :: "postgres table_state"
  ap_sessions :: redis
  ap_docs :: mongo
  ap_bucket :: bucket
  ap_forge :: "'w forge"

definition app_backend :: "'w app \<Rightarrow> (postgres, redis, 'w) backend" where
  "app_backend a =
     \<lparr>be_db = store (ap_tables a), be_sessions = ap_sessions a, be_world = fg_world (ap_forge a)\<rparr>"

definition put_backend :: "(postgres, redis, 'w) backend \<Rightarrow> 'w app \<Rightarrow> 'w app" where
  "put_backend b a =
     a\<lparr>ap_tables := (ap_tables a)\<lparr>store := be_db b\<rparr>, ap_sessions := be_sessions b,
       ap_forge := (ap_forge a)\<lparr>fg_world := be_world b\<rparr>\<rparr>"

definition put_tables :: "postgres table_state \<Rightarrow> 'w app \<Rightarrow> 'w app" where
  "put_tables t a = a\<lparr>ap_tables := t\<rparr>"

definition put_docs :: "mongo \<Rightarrow> 'w app \<Rightarrow> 'w app" where
  "put_docs m a = a\<lparr>ap_docs := m\<rparr>"

definition put_forge :: "'w forge \<Rightarrow> 'w app \<Rightarrow> 'w app" where
  "put_forge f a = a\<lparr>ap_forge := f\<rparr>"

definition put_world :: "'w \<Rightarrow> 'w app \<Rightarrow> 'w app" where
  "put_world x a = a\<lparr>ap_forge := (ap_forge a)\<lparr>fg_world := x\<rparr>\<rparr>"

text \<open>A call to a part of the state, and a handler that works on a part.\<close>

definition on_part :: "('s \<Rightarrow> 't) \<Rightarrow> ('t \<Rightarrow> 's \<Rightarrow> 's) \<Rightarrow> ('t \<Rightarrow> 'r \<times> 't) \<Rightarrow> 's \<Rightarrow> 'r \<times> 's" where
  "on_part get put f a = (case f (get a) of (r, t) \<Rightarrow> (r, put t a))"

definition zoom :: "('s \<Rightarrow> 't) \<Rightarrow> ('t \<Rightarrow> 's \<Rightarrow> 's) \<Rightarrow> ('b, 't) handler \<Rightarrow> ('b, 's) handler" where
  "zoom get put h w ctx r s =
     (case h w ctx r \<lparr>sv_app = get (sv_app s), sv_sink = sv_sink s, sv_metrics = sv_metrics s,
          sv_requests = sv_requests s\<rparr> of
        (ans, t) \<Rightarrow>
          (ans, \<lparr>sv_app = put (sv_app t) (sv_app s), sv_sink = sv_sink t, sv_metrics = sv_metrics t,
             sv_requests = sv_requests t\<rparr>))"

section \<open>The handlers\<close>

datatype whole_body =
    BestiaryAnswer bestiary_body | CharacterAnswer character_body | TilesAnswer tiles_body
  | LlmAnswer llm_body | TableAnswer table_body | TextAnswer string

text \<open>
  What comes from outside, besides \<open>api_deps\<close>: the Mongo server, the JSON of a body with its
  entries in order, the forms, the language model, the two gRPC services, and the supplies of ids.
\<close>

record 'w whole_deps =
  wd_api :: "'w api_deps"
  wd_mongo :: mongo_server
  wd_wire :: wire
  wd_json :: "string \<Rightarrow> json option"
  wd_sheet :: "server_request \<Rightarrow> character_form"
  wd_form :: "server_request \<Rightarrow> image_form"
  wd_model :: "'w gemini_api"
  wd_actions :: "'w gateway"
  wd_describe :: "'w description_client"
  wd_sid :: "nat \<Rightarrow> string"
  wd_job_id :: "nat \<Rightarrow> string"
  wd_oid :: "nat \<Rightarrow> string"

definition whole_repo :: "'w whole_deps \<Rightarrow> postgres encounter_repository" where
  "whole_repo d = encounterStorage (ad_tsquery (wd_api d))"

definition path_name :: "ctxt \<Rightarrow> string" where
  "path_name ctx = (case mux_var ''name'' ctx of None \<Rightarrow> [] | Some v \<Rightarrow> v)"

definition path_id :: "ctxt \<Rightarrow> string" where
  "path_id ctx = (case mux_var ''id'' ctx of None \<Rightarrow> [] | Some v \<Rightarrow> v)"

definition image_of :: "'w whole_deps \<Rightarrow> server_request \<Rightarrow> image_body" where
  "image_of d r =
     (if header_get ''Content-Type'' r = ''application/octet-stream'' then RawImage (ad_read (wd_api d) (rq_body r))
      else FormImage (wd_form d r))"

definition say :: "('a \<Rightarrow> whole_body) \<Rightarrow> 'a response \<Rightarrow> whole_body api_body event list" where
  "say into = answered (\<lambda>x. OtherAnswer (into x))"

definition go_of :: "('t \<Rightarrow> 'r \<times> 't) \<Rightarrow> 't \<Rightarrow> 'r go \<times> 't" where
  "go_of f t = (case f t of (r, t1) \<Rightarrow> (Return r, t1))"

definition speak ::
    "('a \<Rightarrow> whole_body) \<Rightarrow> ('t \<Rightarrow> 'a response go \<times> 't) \<Rightarrow> 't \<Rightarrow> whole_body api_body event list go \<times> 't" where
  "speak into call t = (case call t of (g, t1) \<Rightarrow> (go_bind g (\<lambda>x. Return (say into x)), t1))"

text \<open>Documents and the object store.\<close>

fun docs_call ::
    "'w whole_deps \<Rightarrow> endpoint \<Rightarrow> user option \<Rightarrow> ctxt \<Rightarrow> server_request
     \<Rightarrow> (mongo \<Rightarrow> whole_body api_body event list go \<times> mongo) option" where
  "docs_call d E_GetCreaturesList u ctx r =
     Some (speak BestiaryAnswer (h_GetCreaturesList (bestiaryStorage (wd_mongo d)) (wd_json d (rq_body r))))"
| "docs_call d E_GetCreatureByName u ctx r =
     Some (speak BestiaryAnswer (h_GetCreatureByName (bestiaryStorage (wd_mongo d)) (path_name ctx)))"
| "docs_call d E_GetUserCreaturesList u ctx r =
     Some (speak BestiaryAnswer (h_GetUserCreaturesList (bestiaryStorage (wd_mongo d)) (wd_json d (rq_body r)) u))"
| "docs_call d E_GetUserCreatureByName u ctx r =
     Some (speak BestiaryAnswer (h_GetUserCreatureByName (bestiaryStorage (wd_mongo d)) (path_name ctx) u))"
| "docs_call d E_GetCharactersList u ctx r =
     Some (speak CharacterAnswer (h_GetCharactersList (characterStorage (wd_mongo d) (wd_json d)) (wd_json d (rq_body r)) u))"
| "docs_call d E_AddCharacter u ctx r =
     Some (speak CharacterAnswer (h_AddCharacter (characterStorage (wd_mongo d) (wd_json d)) (wd_json d) (wd_sheet d r) u))"
| "docs_call d E_GetCharacterByMongoId u ctx r =
     Some (speak CharacterAnswer (h_GetCharacterByMongoId (characterStorage (wd_mongo d) (wd_json d)) (mux_var ''id'' ctx) u))"
| "docs_call d E_GetCategories u ctx r =
     Some (speak TilesAnswer (h_GetCategories (mapTilesStorage (wd_mongo d)) u))"
| "docs_call d ep u ctx r = None"

definition put_stored :: "mongo \<times> bucket \<Rightarrow> 'w app \<Rightarrow> 'w app" where
  "put_stored mb a = a\<lparr>ap_docs := fst mb, ap_bucket := snd mb\<rparr>"

text \<open>Services outside, jobs and tables.\<close>

fun world_call ::
    "'w whole_deps \<Rightarrow> endpoint \<Rightarrow> server_request \<Rightarrow> ('w \<Rightarrow> whole_body api_body event list go \<times> 'w) option" where
  "world_call d E_UploadCreatureStatblockImage r =
     Some (speak BestiaryAnswer (h_UploadCreatureStatblockImage (wd_model d) (wd_form d r)))"
| "world_call d E_SubmitCreatureGenerationPrompt r =
     Some (speak BestiaryAnswer (h_SubmitCreatureGenerationPrompt (wd_model d) (wd_json d (rq_body r))))"
| "world_call d E_GenerateDescription r =
     Some (speak TextAnswer (go_of (h_GenerateDescription (wd_describe d) (wd_json d (rq_body r)))))"
| "world_call d ep r = None"

fun forge_call ::
    "'w whole_deps \<Rightarrow> endpoint \<Rightarrow> ctxt \<Rightarrow> server_request \<Rightarrow> nat
     \<Rightarrow> ('w forge \<Rightarrow> whole_body api_body event list go \<times> 'w forge) option" where
  "forge_call d E_SubmitGenerationPrompt ctx r n =
     Some (speak LlmAnswer (go_of (h_SubmitGenerationPrompt (wd_job_id d n) (wd_json d (rq_body r)))))"
| "forge_call d E_SubmitGenerationImage ctx r n =
     Some (speak LlmAnswer (go_of (h_SubmitGenerationImage (wd_job_id d n) (image_of d r))))"
| "forge_call d E_GetGenerationStatus ctx r n =
     Some (speak LlmAnswer (\<lambda>f. (Return (h_GetGenerationStatus (path_id ctx) f), f)))"
| "forge_call d ep ctx r n = None"

fun table_call ::
    "'w whole_deps \<Rightarrow> endpoint \<Rightarrow> user option \<Rightarrow> ctxt \<Rightarrow> server_request \<Rightarrow> nat
     \<Rightarrow> (postgres table_state \<Rightarrow> whole_body api_body event list go \<times> postgres table_state) option" where
  "table_call d E_CreateSession u ctx r n =
     Some (speak TableAnswer (h_CreateSession (whole_repo d) (wd_wire d)
       (decoded (str_field ''encounterID'') (wd_json d (rq_body r))) (wd_sid d n) u))"
| "table_call d E_GetTableData u ctx r n =
     Some (speak TableAnswer (\<lambda>t. (h_GetTableData (wd_wire d) (mux_var ''id'' ctx) t, t)))"
| "table_call d ep u ctx r n = None"

text \<open>Every endpoint; those that none of the calls knows are encounters, maps and authentication.\<close>

definition whole_handler ::
    "'w whole_deps \<Rightarrow> string \<Rightarrow> (whole_body api_body, 'w app) handler \<Rightarrow> endpoint
     \<Rightarrow> (whole_body api_body, 'w app) handler" where
  "whole_handler d key prometheus ep w ctx r s =
     (let u = ctx_user key ctx; n = sv_requests s in
      if ep = E_Prometheus then prometheus w ctx r s
      else if ep = E_ServeWS then zoom ap_tables put_tables (ServeWS key) w ctx r s
      else if ep = E_AddGeneratedCreature then
        on_app id
          (on_part (\<lambda>a. (ap_docs a, ap_bucket a)) put_stored
            (speak BestiaryAnswer (h_AddGeneratedCreature (bestiaryStorage (wd_mongo d)) ''creature-images''
              (wd_oid d n) (wd_json d (rq_body r)) u))) s
      else case docs_call d ep u ctx r of
        Some call \<Rightarrow> on_app id (on_part ap_docs put_docs call) s
      | None \<Rightarrow> (case world_call d ep r of
        Some call \<Rightarrow> on_app id (on_part (\<lambda>a. fg_world (ap_forge a)) put_world call) s
      | None \<Rightarrow> (case forge_call d ep ctx r n of
        Some call \<Rightarrow> on_app id (on_part ap_forge put_forge call) s
      | None \<Rightarrow> (case table_call d ep u ctx r n of
        Some call \<Rightarrow> on_app id (on_part ap_tables put_tables call) s
      | None \<Rightarrow> zoom app_backend put_backend
          (api_handler (wd_api d) key (\<lambda>_ _ _ _ s. (([], Return ()), s)) ep) w ctx r s))))"

definition whole_env ::
    "'w whole_deps \<Rightarrow> (whole_body api_body, 'w app) handler \<Rightarrow> (whole_body api_body, 'w app) server_env
     \<Rightarrow> (whole_body api_body, 'w app) server_env" where
  "whole_env d prometheus env =
     env\<lparr>e_handler := whole_handler d (e_CtxUserKey env) prometheus,
         e_CheckAuth := (\<lambda>sid. on_part app_backend put_backend (uc_CheckAuth (api_auth (wd_api d)) sid))\<rparr>"

section \<open>What happens\<close>

datatype 'w happening =
    Request server_request
  | Goroutine table_event
  | Job nat
  | Elsewhere 'w int

text \<open>New sessions and connections come with requests.\<close>

fun by_request :: "table_event \<Rightarrow> bool" where
  "by_request (Create u eid sid) = True"
| "by_request (Connect u sid) = True"
| "by_request ev = False"

definition happen_goroutine :: "'w whole_deps \<Rightarrow> table_event \<Rightarrow> 'w app \<Rightarrow> 'w app option" where
  "happen_goroutine d ev a =
     (if by_request ev then None
      else map_option (\<lambda>t. put_tables t a) (table_next (wd_wire d) (whole_repo d) ev (ap_tables a)))"

definition happen_job :: "'w whole_deps \<Rightarrow> nat \<Rightarrow> 'w app \<Rightarrow> 'w app option" where
  "happen_job d i a =
     (let f = ap_forge a in
      if i < length (procs f)
      then (case process_step \<lparr>le_gemini = wd_model d, le_gateway = wd_actions d\<rparr> (procs f ! i) f of
              (nxt, f1) \<Rightarrow> Some (put_forge (after_step i nxt f1) a))
      else None)"

definition pass :: "'w \<Rightarrow> int \<Rightarrow> 'w app \<Rightarrow> 'w app" where
  "pass x t a =
     a\<lparr>ap_forge := (ap_forge a)\<lparr>fg_world := x, fg_clock := fg_clock (ap_forge a) + t\<rparr>,
       ap_sessions := (ap_sessions a)\<lparr>r_now := r_now (ap_sessions a) + t\<rparr>\<rparr>"

definition to_app :: "'s server \<Rightarrow> 's option \<Rightarrow> 's server option" where
  "to_app s r = map_option (\<lambda>a. s\<lparr>sv_app := a\<rparr>) r"

text \<open>Nothing happens any more once a goroutine has ended the process with a panic.\<close>

fun happen ::
    "'w whole_deps \<Rightarrow> (whole_body api_body, 'w app) server_env \<Rightarrow> 'w happening \<Rightarrow> 'w app server
     \<Rightarrow> 'w app server option" where
  "happen d env (Request r) s = Some (snd (serve env r s))"
| "happen d env (Goroutine ev) s = to_app s (happen_goroutine d ev (sv_app s))"
| "happen d env (Job i) s = to_app s (happen_job d i (sv_app s))"
| "happen d env (Elsewhere x t) s = Some (s\<lparr>sv_app := pass x t (sv_app s)\<rparr>)"

fun happen_all ::
    "'w whole_deps \<Rightarrow> (whole_body api_body, 'w app) server_env \<Rightarrow> 'w happening list \<Rightarrow> 'w app server
     \<Rightarrow> 'w app server option" where
  "happen_all d env [] s = Some s"
| "happen_all d env (h # hs) s =
     (if crashed (ap_tables (sv_app s)) then None
      else case happen d env h s of None \<Rightarrow> None | Some s1 \<Rightarrow> happen_all d env hs s1)"

end
