(* ===== verification/ApiRun.thy ===== *)
theory ApiRun
  imports Api MapsRun Websocket
begin

text \<open>
  Isolation through the whole server: what a sequence of requests that come as other users can do
  to a user's encounters and maps.
\<close>

section \<open>What a user keeps\<close>

definition content :: "(postgres, 's, 'w) backend \<Rightarrow> encounter_row list \<times> map_row list" where
  "content b = (encounters (be_db b), maps (be_db b))"

definition content_ok :: "(postgres, 's, 'w) backend \<Rightarrow> bool" where
  "content_ok b \<longleftrightarrow> encounters_ok (be_db b) \<and> maps_ok (be_db b)"

definition view_of :: "int \<Rightarrow> (postgres, 's, 'w) backend \<Rightarrow> encounter list \<times> map_row list" where
  "view_of owner b =
     (filter (\<lambda>e. UserID e = owner) (visible_encounters (be_db b)),
      filter (\<lambda>row. map_user_id row = owner) (maps (be_db b)))"

text \<open>The owner sees the same, and the tables are still in order.\<close>

definition untouched :: "int \<Rightarrow> (postgres, 's, 'w) backend \<Rightarrow> (postgres, 's, 'w) backend \<Rightarrow> bool" where
  "untouched owner b b' \<longleftrightarrow> (content_ok b \<longrightarrow> content_ok b' \<and> view_of owner b' = view_of owner b)"

lemma untouched_content: "content b' = content b \<Longrightarrow> untouched owner b b'"
  by (simp add: content_def untouched_def content_ok_def view_of_def encounters_ok_def maps_ok_def
      visible_encounters_def)

lemma untouched_trans: "untouched owner a b \<Longrightarrow> untouched owner b c \<Longrightarrow> untouched owner a c"
  by (simp add: untouched_def)

lemma on_app_state: "sv_app (snd (on_app events h s)) = snd (h (sv_app s))"
  by (auto simp: on_app_def split: prod.splits go.splits)

lemma on_db_state: "snd (on_db f b) = b\<lparr>be_db := snd (f (be_db b))\<rparr>"
  by (auto simp: on_db_def split: prod.splits)

lemma encounter_step:
  assumes "userID u \<noteq> owner"
  shows "untouched owner b (snd (on_db (serve_encounter (encounterStorage tsquery) valid (Some u, req)) b))"
proof -
  let ?db = "snd (serve_encounter (encounterStorage tsquery) valid (Some u, req) (be_db b))"
  have m: "maps ?db = maps (be_db b)" by (rule keepsD [OF encounters_maps.serve])
  have "encounters_ok ?db \<and> filter (\<lambda>e. UserID e = owner) (visible_encounters ?db) =
      filter (\<lambda>e. UserID e = owner) (visible_encounters (be_db b))" if "encounters_ok (be_db b)"
    using es.serve_many [OF that, of "[(Some u, req)]" owner tsquery valid] assms by simp
  with m show ?thesis by (simp add: untouched_def content_ok_def view_of_def on_db_state maps_ok_def)
qed

lemma map_step:
  assumes "userID u \<noteq> owner"
  shows "untouched owner b (snd (on_db (serve_map mapsStorage vu (Some u, req)) b))"
proof -
  let ?db = "snd (serve_map mapsStorage vu (Some u, req) (be_db b))"
  have e: "encounters ?db = encounters (be_db b)" by (rule keepsD [OF maps_encounters.serve])
  have "maps_ok ?db \<and> filter (\<lambda>row. map_user_id row = owner) (maps ?db) =
      filter (\<lambda>row. map_user_id row = owner) (maps (be_db b))" if "maps_ok (be_db b)"
    using ms.serve_one [OF that, of vu "Some u" req] ms.serve_many [OF that, of "[(Some u, req)]" owner, of vu] assms
    by (simp add: ms.others_same_def)
  with e show ?thesis
    by (simp add: untouched_def content_ok_def view_of_def on_db_state encounters_ok_def visible_encounters_def)
qed

lemma auth_step:
  assumes "auth_call d ep u ctx r n = Some call"
  shows "keeps content call"
  unfolding content_def [abs_def] using assms
  by (cases ep) (auto simp: api_auth_def intro: auth_content.h_Login auth_content.h_other)

lemma CheckAuth_content: "content (snd (uc_CheckAuth (api_auth d) sid b)) = content b"
  using keepsD [OF auth_content.CheckAuth] by (simp add: content_def api_auth_def)

lemma CheckAuth_db: "be_db (snd (uc_CheckAuth uc sid b)) = be_db b"
  by (auto simp: uc_CheckAuth_def on_sessions_def split: prod.splits option.splits)

text \<open>The handlers behind the login that use the user.\<close>

lemma behind_login:
  assumes "ep \<in> set public_endpoints"
  shows "encounter_request_of d ep ctx r n = None" "maps_request_of d ep ctx r = None"
  using assms by (auto simp: public_endpoints_def)

definition bystander :: "('b, (postgres, 's, 'w) backend) handler \<Rightarrow> bool" where
  "bystander h \<longleftrightarrow> (\<forall>w ctx r s. content (sv_app (snd (h w ctx r s))) = content (sv_app s))"

lemma handler_step:
  assumes "bystander (other ep)" "ep \<in> set public_endpoints \<or> (\<exists>u. ctx_user key ctx = Some u \<and> userID u \<noteq> owner)"
  shows "untouched owner (sv_app s) (sv_app (snd (api_handler d key other ep w ctx r s)))"
proof (cases "encounter_request_of d ep ctx r (sv_requests s)")
  case (Some req)
  then have "ep \<notin> set public_endpoints" using behind_login(1) by (metis option.distinct(1))
  then obtain u where "ctx_user key ctx = Some u" "userID u \<noteq> owner" using assms(2) by blast
  with Some show ?thesis by (simp add: api_handler_def on_app_state encounter_step)
next
  case no_encounter: None
  show ?thesis
  proof (cases "maps_request_of d ep ctx r")
    case (Some req)
    then have "ep \<notin> set public_endpoints" using behind_login(2) by (metis option.distinct(1))
    then obtain u where "ctx_user key ctx = Some u" "userID u \<noteq> owner" using assms(2) by blast
    with no_encounter Some show ?thesis by (simp add: api_handler_def on_app_state map_step)
  next
    case None
    show ?thesis
      using no_encounter None assms(1) auth_step [of d ep "ctx_user key ctx" ctx r "sv_requests s", THEN keepsD]
      by (cases "auth_call d ep (ctx_user key ctx) ctx r (sv_requests s)")
         (auto simp: api_handler_def on_app_state bystander_def intro!: untouched_content)
  qed
qed

lemma serve_step:
  assumes "\<forall>ep. bystander (other ep)"
    and "case cookie_user (api_env d other env) r s of None \<Rightarrow> True | Some u \<Rightarrow> userID u \<noteq> owner"
  shows "untouched owner (sv_app s) (sv_app (snd (serve (api_env d other env) r s)))"
proof (rule serve_related [where R = "untouched owner" and good = "\<lambda>u. userID u \<noteq> owner"])
  show "untouched owner a (snd (e_CheckAuth (api_env d other env) sid a))" for sid a
    by (simp add: CheckAuth_content untouched_content)
  show "untouched owner (sv_app t) (sv_app (snd (e_handler (api_env d other env) ep w ctx r t)))"
    if "ep \<in> set public_endpoints \<or> (\<exists>u. ctx_user (e_CtxUserKey (api_env d other env)) ctx = Some u \<and> userID u \<noteq> owner)"
    for ep w ctx t
    using handler_step [of other ep "e_CtxUserKey env" ctx owner t d w r] assms(1) that by simp
qed (use assms(2) untouched_trans in \<open>auto simp: untouched_content\<close>)

text \<open>
  Isolation through the whole server: a sequence of arbitrary requests, to whatever paths, with
  whatever bodies and failures of the database and the session store, none of which comes with
  a cookie that opens a session of the owner by then, leaves the encounters the owner can see and
  the owner's maps as they are. Logins, logouts and links in between do not matter. Of the
  handlers that do not work on these tables only that is used.
\<close>

theorem api_isolation:
  assumes "\<forall>ep. bystander (other ep)" and "content_ok (sv_app s)"
    and "never_as owner (api_env d other env) rs s"
  shows "view_of owner (sv_app (serve_all (api_env d other env) rs s)) = view_of owner (sv_app s)"
  using assms(2, 3)
proof (induction rs arbitrary: s)
  case (Cons r rs)
  let ?s = "snd (serve (api_env d other env) r s)"
  have "untouched owner (sv_app s) (sv_app ?s)" using serve_step [OF assms(1)] Cons.prems(2) by simp
  then have "content_ok (sv_app ?s)" "view_of owner (sv_app ?s) = view_of owner (sv_app s)"
    using Cons.prems(1) by (simp_all add: untouched_def)
  with Cons.IH [of ?s] Cons.prems(2) show ?case by simp
qed simp


text \<open>The session \<open>sid\<close> belongs to user 1, the encounter to user 2.\<close>

definition demo_deps :: "unit api_deps" where
  "demo_deps =
     \<lparr>ad_tsquery = (\<lambda>_. None), ad_scan_text = (\<lambda>_. None), ad_parse = demo_parse, ad_render = demo_render,
      ad_providers = demo_providers ''x'' ''a'', ad_valid_json = (\<lambda>_. True), ad_valid_uuid = (\<lambda>_. True),
      ad_query = (\<lambda>_ _. []), ad_list = (\<lambda>_. None), ad_save = (\<lambda>_. None), ad_read = Some, ad_map = (\<lambda>_. None),
      ad_login = (\<lambda>_. Some demo_login), ad_new_id = (\<lambda>_. ''new''), ad_now = (\<lambda>_ _. 0), ad_duration = 100\<rparr>"

definition demo_api :: "outcome list \<Rightarrow> (postgres, redis, unit) backend" where
  "demo_api os =
     \<lparr>be_db = (demo_db os)\<lparr>encounters := [\<lparr>enc_user_id = 2, enc_name = ''cave'', enc_data = ''{}'',
        enc_is_deleted = False, enc_uuid = ''id1''\<rparr>]\<rparr>,
      be_sessions = \<lparr>r_entries = [''sid'' \<mapsto> (''s'', Some 100)], r_now = 0, r_served = []\<rparr>, be_world = ()\<rparr>"

definition no_handler :: "endpoint \<Rightarrow> ('b, 's) handler" where
  "no_handler ep w ctx r s = (([], Return ()), s)"

lemma demo_api_user: "fst (uc_CheckAuth (api_auth demo_deps) ''sid'' (demo_api os)) = Some (demo_user 1)"
proof -
  have "unmarshal_session (marshal_session demo_session) = Some demo_session"
    unfolding demo_session_def by (rule unmarshal_marshal_session) (simp add: session_of_def int64_def demo_user_def)
  then show ?thesis
    by (simp add: uc_CheckAuth_def on_sessions_def api_auth_def demo_deps_def demo_api_def sm_GetSession_def
        redis_Get_def redis_turn_def alive_def demo_parse_def)
       (simp add: demo_session_def session_of_def)
qed

lemma api_isolation_witness:
  "view_of 2 (sv_app (serve_all
      (api_env demo_deps no_handler (rt_env rt_user (no_handler E_Logout) :: (unit api_body, (postgres, redis, unit) backend) server_env))
      [rt_request ''DELETE'' ''/api/encounter/id1'' (Some ''sid''), rt_request ''DELETE'' ''/api/encounter/id1'' None]
      (rt_server (demo_api [Served, Refused])))) =
    ([\<lparr>UserID = 2, Name = ''cave'', Data = ''{}'', UUID = ''id1''\<rparr>], [])"
proof -
  let ?env = "api_env demo_deps no_handler
    (rt_env rt_user (no_handler E_Logout) :: (unit api_body, (postgres, redis, unit) backend) server_env)"
  let ?s = "rt_server (demo_api [Served, Refused])"
  have "\<forall>ep. bystander (no_handler ep :: (unit api_body, (postgres, redis, unit) backend) handler)"
    by (simp add: bystander_def no_handler_def)
  moreover have "content_ok (sv_app ?s)"
    by (simp add: content_ok_def rt_server_def demo_api_def encounters_ok_def maps_ok_def demo_db_def)
  moreover have "never_as 2 ?env
      [rt_request ''DELETE'' ''/api/encounter/id1'' (Some ''sid''), rt_request ''DELETE'' ''/api/encounter/id1'' None] ?s"
    by (simp add: cookie_user_def rt_request_def rt_server_def demo_api_user demo_user_def)
  ultimately have "view_of 2 (sv_app (serve_all ?env
      [rt_request ''DELETE'' ''/api/encounter/id1'' (Some ''sid''), rt_request ''DELETE'' ''/api/encounter/id1'' None] ?s)) =
    view_of 2 (sv_app ?s)"
    by (rule api_isolation)
  then show ?thesis
    by (simp add: view_of_def rt_server_def demo_api_def visible_encounters_def row_encounter_def demo_db_def)
qed


section \<open>A request that is answered\<close>

lemma encounter_row:
  assumes "eid \<noteq> []" "CHR ''/'' \<notin> set eid"
  shows "find (row_matches ''GET'' (''/api/encounter/'' @ eid)) api_table =
      Some (''GET'', ''/api/encounter/{id}'', E_GetEncounterByID, True)"
    and "full_match ''/api/encounter/{id}'' (''/api/encounter/'' @ eid) = Some [(''id'', eid)]"
proof -
  have seg: "takeWhile (\<lambda>c. c \<noteq> CHR ''/'') eid = eid" "dropWhile (\<lambda>c. c \<noteq> CHR ''/'') eid = []"
    using assms(2) by (auto simp: takeWhile_eq_all_conv dropWhile_eq_Nil_conv)
  show "find (row_matches ''GET'' (''/api/encounter/'' @ eid)) api_table =
      Some (''GET'', ''/api/encounter/{id}'', E_GetEncounterByID, True)"
    and "full_match ''/api/encounter/{id}'' (''/api/encounter/'' @ eid) = Some [(''id'', eid)]"
    using assms(1)
    by (simp_all add: api_table_def row_matches_def full_match_def templates submatch_last_var Let_def seg
        del: submatch.simps(3))
qed

text \<open>What the database that answers gives for an encounter.\<close>

definition get_answer :: "(string \<Rightarrow> bool) \<Rightarrow> encounter list \<Rightarrow> string \<Rightarrow> int \<Rightarrow> encounter_body response" where
  "get_answer valid es eid uid =
     (case find (\<lambda>e. UUID e = eid) es of
        Some e \<Rightarrow> if UserID e = uid then SendOkResponse (encounter_marshals valid) (OkBody (BodyEncounter e))
                   else SendErrResponse StatusForbidden ErrForbidden
      | None \<Rightarrow> SendErrResponse StatusForbidden ErrForbidden)"

lemma get_encounter_healthy:
  assumes "encounters_ok db" "healthy db" "eid \<noteq> []"
  shows "fst (serve_encounter (encounterStorage tsquery) valid (Some u, ReqGet (Some eid)) db) =
    Return (get_answer valid (visible_encounters db) eid (userID u))"
proof -
  obtain resp db' where run: "serve_encounter (encounterStorage tsquery) valid (Some u, ReqGet (Some eid)) db = (resp, db')"
    by fastforce
  note step = encounter_refines_notebook_step [OF assms(1, 2) run not_listing(1)]
  have uniq: "e = e'" if "e \<in> set (visible_encounters db)" "e' \<in> set (visible_encounters db)" "UUID e = UUID e'" for e e'
    using distinct_visible_encounters [OF assms(1)] that by (metis distinct_map inj_onD)
  show ?thesis
  proof (cases "find (\<lambda>e. UUID e = eid) (visible_encounters db)")
    case None
    then have "\<not> (\<exists>e \<in> set (visible_encounters db). UUID e = eid)" by (auto simp: find_None_iff)
    then show ?thesis using step assms(3) run None
      by (auto simp: h_GetEncounterByID_def no_id_def uc_GetEncounterByID_def notebook_def get_answer_def split: if_splits)
  next
    case (Some e)
    then have e: "e \<in> set (visible_encounters db)" "UUID e = eid" by (auto simp: find_Some_iff)
    have own: "(\<exists>e' \<in> set (visible_encounters db). UUID e' = eid \<and> UserID e' = userID u) \<longleftrightarrow> UserID e = userID u"
      using e uniq by blast
    show ?thesis using step assms(3) run Some own
      by (auto simp: h_GetEncounterByID_def no_id_def uc_GetEncounterByID_def notebook_def get_answer_def split: if_splits)
  qed
qed


lemma mux_var_request:
  "mux_var x (WithValue (StringKey k) v (request_context env tpl vars r s)) = map_of vars x"
  by (cases "e_logger env")
     (simp_all add: mux_var_def request_context_def SaveRequestData_def Value_WithValue route_context_def)

text \<open>What the client gets for the cookie it sends.\<close>

definition get_outcome :: "user option \<Rightarrow> (string \<Rightarrow> bool) \<Rightarrow> encounter list \<Rightarrow> string \<Rightarrow> 'b api_body event list" where
  "get_outcome cookie valid es eid =
     (case cookie of
        None \<Rightarrow> sent_err 401 ErrNotAuthorized
      | Some u \<Rightarrow>
          if active u then answered EncounterAnswer (get_answer valid es eid (userID u)) else sent_err 403 ErrUserInactive)"

lemma inner_get_encounter:
  assumes "content_ok (sv_app s)" "healthy (be_db (sv_app s))" "eid \<noteq> []" "sv_app s1 = sv_app s"
  shows "fst (inner_handler (api_env d other env) E_GetEncounterByID True w
      (request_context (api_env d other env) tpl [(''id'', eid)] r s0) r s1) =
    (get_outcome (cookie_user (api_env d other env) r s) (ad_valid_json d) (visible_encounters (be_db (sv_app s))) eid,
     Return ())"
proof (cases "cookie_user (api_env d other env) r s")
  case None
  then show ?thesis using assms(4)
    by (cases "rq_cookie r"; cases "uc_CheckAuth (api_auth d) (the (rq_cookie r)) (sv_app s)")
       (simp_all add: inner_handler_def LoginRequired_def StatusUnauthorized_def cookie_user_def get_outcome_def)
next
  case (Some u)
  then obtain sid where "rq_cookie r = Some sid" "fst (uc_CheckAuth (api_auth d) sid (sv_app s)) = Some u"
    by (cases "rq_cookie r") (simp_all add: cookie_user_def)
  then obtain b where c: "rq_cookie r = Some sid" "uc_CheckAuth (api_auth d) sid (sv_app s) = (Some u, b)"
    by (metis prod.collapse)
  then have b: "be_db b = be_db (sv_app s)" by (metis CheckAuth_db snd_conv)
  show ?thesis
  proof (cases "active u")
    case False
    then show ?thesis using c Some assms(4)
      by (simp add: inner_handler_def LoginRequired_def active_def StatusForbidden_def get_outcome_def)
  next
    case True
    let ?h = "serve_encounter (encounterStorage (ad_tsquery d)) (ad_valid_json d) (Some u, ReqGet (Some eid))"
    obtain resp db where run: "?h (be_db (sv_app s)) = (resp, db)" by fastforce
    have "resp = Return (get_answer (ad_valid_json d) (visible_encounters (be_db (sv_app s))) eid (userID u))"
      using get_encounter_healthy [OF _ assms(2, 3), of "ad_tsquery d" "ad_valid_json d" u] assms(1) run
      by (simp add: content_ok_def)
    then show ?thesis
      using c b True run Some assms(4)
      by (auto simp: inner_handler_def LoginRequired_def active_def api_handler_def on_app_def on_db_def Let_def
          mux_var_request ctx_user_def Value_WithValue get_outcome_def)
  qed
qed

text \<open>
  C10.
  From the wire to the table and back: a request for an encounter, with a cookie that opens a
  session, reaches the handler with the user of that session and the id of the path. On a
  database that answers, the client gets the stored encounter if it is the user's own and a 403
  otherwise, also when there is no such encounter; a user that is not active gets a 403, a cookie
  without a session a 401, and neither reaches the database.
\<close>

theorem api_get_encounter:
  assumes "rq_Method r = ''GET''" "rq_Path r = ''/api/encounter/'' @ eid" "cleanPath (rq_Path r) = rq_Path r"
    and "eid \<noteq> []" "CHR ''/'' \<notin> set eid" "header_get ''Upgrade'' r \<noteq> ''websocket''"
    and "e_httpMetrics env = http_collectors" "content_ok (sv_app s)" "healthy (be_db (sv_app s))"
  shows "fst (serve (api_env d other env) r s) =
    (case cookie_user (api_env d other env) r s of
       None \<Rightarrow> sent_err 401 ErrNotAuthorized
     | Some u \<Rightarrow>
         if active u
         then answered EncounterAnswer (get_answer (ad_valid_json d) (visible_encounters (be_db (sv_app s))) eid (userID u))
         else sent_err 403 ErrUserInactive,
     Return ())"
proof -
  let ?env = "api_env d other env"
  let ?ctx = "request_context ?env ''/api/encounter/{id}'' [(''id'', eid)] r s"
  let ?s = "s\<lparr>sv_requests := sv_requests s + 1\<rparr>"
  have row: "find (row_matches (rq_Method r) (rq_Path r)) api_table =
      Some (''GET'', ''/api/encounter/{id}'', E_GetEncounterByID, True)"
    using encounter_row(1) [OF assms(4, 5)] assms(1, 2) by simp
  have vars: "rev (the (full_match ''/api/encounter/{id}'' (rq_Path r))) = [(''id'', eid)]"
    using encounter_row(2) [OF assms(4, 5)] assms(2) by simp
  have path: "take (length ''/metrics'') (rq_Path r) \<noteq> ''/metrics''" using assms(2) by simp
  have metrics: "e_httpMetrics ?env = http_collectors" using assms(7) by simp
  let ?run = "inner_handler ?env E_GetEncounterByID True FakeWriter ?ctx r ?s"
  have app: "sv_app ?s = sv_app s" by simp
  have inner: "?run = ((get_outcome (cookie_user ?env r s) (ad_valid_json d)
      (visible_encounters (be_db (sv_app s))) eid, Return ()), snd ?run)"
    using inner_get_encounter [OF assms(8, 9, 4) app, of d other env FakeWriter "''/api/encounter/{id}''" r s]
    by (simp only: prod_eq_iff fst_conv snd_conv)
  from served_row [OF assms(3) path row assms(6) metrics, unfolded vars, OF inner] show ?thesis
    by (simp add: get_outcome_def)
qed

lemma api_get_encounter_witness:
  "fst (serve (api_env demo_deps no_handler
        (rt_env rt_user (no_handler E_Logout) :: (unit api_body, (postgres, redis, unit) backend) server_env))
      (rt_request ''GET'' ''/api/encounter/id1'' (Some ''sid'')) (rt_server ((demo_api [])\<lparr>be_db := demo_db []\<rparr>))) =
    ([WroteHeader 200, Wrote (OkBody (EncounterAnswer (BodyEncounter
        \<lparr>UserID = 1, Name = ''cave'', Data = ''{}'', UUID = ''id1''\<rparr>)))], Return ())"
proof -
  let ?env = "rt_env rt_user (no_handler E_Logout) :: (unit api_body, (postgres, redis, unit) backend) server_env"
  let ?r = "rt_request ''GET'' ''/api/encounter/id1'' (Some ''sid'')"
  let ?s = "rt_server ((demo_api [])\<lparr>be_db := demo_db []\<rparr>)"
  have user: "cookie_user (api_env demo_deps no_handler ?env) ?r ?s = Some (demo_user 1)"
  proof -
    have "fst (uc_CheckAuth uc sid (b\<lparr>be_db := x\<rparr>)) = fst (uc_CheckAuth uc sid b)"
      for uc :: "(postgres, redis, unit) auth_usecases" and sid b x
      by (simp add: uc_CheckAuth_def on_sessions_def split: prod.splits option.splits)
    then show ?thesis using demo_api_user [of "[]"] by (simp add: cookie_user_def rt_request_def rt_server_def)
  qed
  have clean: "cleanPath (rq_Path ?r) = rq_Path ?r"
    by (simp add: rt_request_def cleanPath_def Clean_def Let_def)
  have "visible_encounters (be_db (sv_app ?s)) = [\<lparr>UserID = 1, Name = ''cave'', Data = ''{}'', UUID = ''id1''\<rparr>]"
    by (simp add: rt_server_def visible_encounters_def row_encounter_def demo_db_def)
  moreover have "content_ok (sv_app ?s)" "healthy (be_db (sv_app ?s))"
    by (simp_all add: content_ok_def encounters_ok_def maps_ok_def rt_server_def demo_db_def healthy_def)
  ultimately show ?thesis
    using api_get_encounter [of ?r "''id1''" ?env ?s demo_deps no_handler] clean user
    by (simp add: rt_request_def header_get_def rt_env_def get_answer_def active_def demo_user_def answered_def
        SendOkResponse_def sendResponse_def StatusOk_def demo_deps_def)
qed

end
