(* ===== verification/WholeRun.thy ===== *)
theory WholeRun
  imports Whole ApiRun DocumentsRun
begin

text \<open>
  Isolation in the running program: requests of other users, the goroutines of their tables and of
  the generation, and the passing of time leave what belongs to a user alone.
\<close>

section \<open>Reading and adding documents\<close>

lemma keeps_go [keeping]:
  "(\<And>x. keeps f (m x)) \<Longrightarrow> keeps f n \<Longrightarrow> keeps f p \<Longrightarrow>
     keeps f (\<lambda>d. case y of Return x \<Rightarrow> m x d | Panic \<Rightarrow> n d | Block \<Rightarrow> p d)"
  by (cases y) auto

lemma keeps_mongo_error [keeping]:
  "keeps f m \<Longrightarrow> keeps f n \<Longrightarrow> keeps f (\<lambda>d. case y of ErrNoDocuments \<Rightarrow> m d | MongoError \<Rightarrow> n d)"
  by (cases y) auto

lemma keeps_speak [keeping]: "keeps f call \<Longrightarrow> keeps f (speak into call)"
  by (auto simp: keeps_def speak_def split: prod.splits) (metis snd_conv)

locale documents_frame =
  fixes brepo :: "'d bestiary_repository" and crepo :: "'d character_repository"
    and trepo :: "'d maptiles_repository" and f :: "'d \<Rightarrow> 't"
  assumes brepo [keeping]:
      "keeps f (brepo_List brepo siz start rs fp search)" "keeps f (brepo_ByEngName brepo nam mine)"
      "keeps f (brepo_UserList brepo siz start rs fp search uid)"
    and crepo [keeping]: "keeps f (crepo_List crepo siz start uid search)" "keeps f (crepo_ByMongoId crepo i)"
    and trepo [keeping]: "keeps f (trepo_GetCategories trepo uid)"
begin

lemma reads:
  "keeps f (h_GetCreaturesList brepo body)" "keeps f (h_GetCreatureByName brepo nam)"
  "keeps f (h_GetUserCreaturesList brepo body u)" "keeps f (h_GetUserCreatureByName brepo nam u)"
  "keeps f (h_GetCharactersList crepo body u)" "keeps f (h_GetCharacterByMongoId crepo var u)"
  "keeps f (h_GetCategories trepo u)"
  unfolding h_GetCreaturesList_def [abs_def] buc_GetCreaturesList_def h_GetCreatureByName_def [abs_def]
    buc_GetCreatureByEngName_def h_GetUserCreaturesList_def [abs_def] buc_GetUserCreaturesList_def [abs_def]
    h_GetUserCreatureByName_def [abs_def] buc_GetUserCreatureByEngName_def [abs_def] h_GetCharactersList_def [abs_def]
    cuc_GetCharactersList_def [abs_def] h_GetCharacterByMongoId_def [abs_def] cuc_GetCharacterByMongoId_def [abs_def]
    h_GetCategories_def [abs_def] tuc_GetCategories_def [abs_def]
  by (intro keeping)+

end

text \<open>A part of the documents that the supplies of outcomes and ids have no part in.\<close>

definition of_documents :: "(mongo \<Rightarrow> 't) \<Rightarrow> bool" where
  "of_documents f \<longleftrightarrow> (\<forall>m os is. f (m\<lparr>mongo_outcomes := os\<rparr>) = f m \<and> f (m\<lparr>new_oids := is\<rparr>) = f m)"

lemma mongo_call_keeps: "of_documents f \<Longrightarrow> f (snd (mongo_call m)) = f m"
  by (auto simp: of_documents_def mongo_call_def split: list.splits)

lemma NewObjectID_keeps: "of_documents f \<Longrightarrow> f (snd (NewObjectID m)) = f m"
  by (auto simp: of_documents_def NewObjectID_def split: list.splits)

lemma keeps_Find [keeping]: "of_documents f \<Longrightarrow> keeps f (mongo_Find srv coll g fo)"
  by (simp add: keeps_def mongo_Find_state mongo_call_keeps)

lemma keeps_FindOne [keeping]: "of_documents f \<Longrightarrow> keeps f (mongo_FindOne srv coll g)"
  using mongo_call_keeps [of f]
  by (auto simp: keeps_def mongo_FindOne_def split: prod.splits outcome.splits option.splits) (metis snd_conv)+

lemma storages_keep:
  assumes "of_documents f"
  shows "documents_frame (bestiaryStorage srv) (characterStorage srv parse) (mapTilesStorage srv) f"
  using assms
  by unfold_locales
    (simp_all only: bestiaryStorage_def characterStorage_def mapTilesStorage_def bestiary_repository.simps
       character_repository.simps maptiles_repository.simps,
     unfold bsto_GetCreaturesList_def [abs_def] bsto_GetUserCreaturesList_def [abs_def] Let_def
       bsto_getCreaturesList_def [abs_def] bsto_GetCreatureByEngName_def [abs_def] csto_GetCharactersList_def [abs_def]
       csto_getCharactersList_def [abs_def] csto_GetCharacterByMongoId_def [abs_def] tsto_GetCategories_def [abs_def],
     (intro keeping; assumption)+)

section \<open>What documents a user keeps\<close>

text \<open>The shared creatures and tiles, and the user's characters.\<close>

definition docs_view :: "int \<Rightarrow> mongo \<Rightarrow> document list \<times> document list \<times> document list" where
  "docs_view owner m = (creatures m, map_tiles m, filter (owned_by [itoa owner]) (characters m))"

lemma docs_view_of: "of_documents (docs_view owner)"
  by (simp add: of_documents_def docs_view_def)

interpretation df: documents_frame "bestiaryStorage srv" "characterStorage srv parse" "mapTilesStorage srv" "docs_view owner"
  for srv parse owner
  by (rule storages_keep [OF docs_view_of])

lemma mongo_InsertOne_state:
  "snd (mongo_InsertOne coll upd doc m) = snd (mongo_call (snd (ensure_id doc m))) \<or>
   snd (mongo_InsertOne coll upd doc m) =
     upd (\<lambda>ds. ds @ [fst (ensure_id doc m)]) (snd (mongo_call (snd (ensure_id doc m))))"
  by (auto simp: mongo_InsertOne_def Let_def split: prod.splits outcome.splits)

lemma mongo_InsertOne_view:
  assumes "docs_view owner (upd (\<lambda>ds. ds @ [fst (ensure_id doc m)]) (snd (mongo_call (snd (ensure_id doc m))))) =
      docs_view owner (snd (mongo_call (snd (ensure_id doc m))))"
  shows "docs_view owner (snd (mongo_InsertOne coll upd doc m)) = docs_view owner m"
proof -
  have "docs_view owner (snd (ensure_id doc m)) = docs_view owner m"
    using NewObjectID_keeps [OF docs_view_of, of owner m]
    by (auto simp: ensure_id_def Let_def split: option.splits prod.splits)
  with assms show ?thesis
    using mongo_InsertOne_state [of coll upd doc m] mongo_call_keeps [OF docs_view_of, of owner] by metis
qed

lemma csto_AddCharacter_others:
  assumes "uid \<noteq> owner"
  shows "keeps (docs_view owner) (csto_AddCharacter parse raw uid)"
proof -
  have "docs_view owner (snd (mongo_InsertOne characters characters_update
      (w_character \<lparr>ch_ID = i, ch_Fields = (''userID'', BStr (itoa uid)) # fs\<rparr>) m)) = docs_view owner m" for i fs m
    using assms by (intro mongo_InsertOne_view) (simp add: ensure_id_def w_character_def docs_view_def owned_by_def)
  then show ?thesis
    using NewObjectID_keeps [OF docs_view_of, of owner]
    by (auto simp: keeps_def csto_AddCharacter_def Let_def split: option.splits prod.splits sum.splits) (metis snd_conv)+
qed

lemma bsto_AddGeneratedCreature_keeps [keeping]: "keeps (docs_view owner) (bsto_AddGeneratedCreature c)"
proof -
  have "keeps (docs_view owner) (mongo_InsertOne generated_creatures generated_creatures_update doc)" for doc
    unfolding keeps_def by (intro allI mongo_InsertOne_view) (simp add: docs_view_def)
  then show ?thesis unfolding bsto_AddGeneratedCreature_def [abs_def] by (intro keeping)
qed

lemma h_AddCharacter_others:
  assumes "\<forall>v. u = Some v \<longrightarrow> userID v \<noteq> owner"
  shows "keeps (docs_view owner) (h_AddCharacter (characterStorage srv parse) parse' form u)"
proof (cases u)
  case None
  then show ?thesis
    by (auto simp: keeps_def h_AddCharacter_def with_user_def split: character_form.splits)
next
  case (Some v)
  then have "keeps (docs_view owner) (cuc_AddCharacter (characterStorage srv parse) parse' bytes (userID v))" for bytes
    unfolding cuc_AddCharacter_def [abs_def] characterStorage_def character_repository.simps
    using csto_AddCharacter_others assms by (intro keeping) blast
  then show ?thesis unfolding h_AddCharacter_def [abs_def] Some with_user_Some
    by (cases form) (auto intro!: keeping)
qed

lemma h_AddGeneratedCreature_docs:
  "keeps (\<lambda>st. docs_view owner (fst st)) (h_AddGeneratedCreature (bestiaryStorage srv) bucketName i body u)"
proof -
  have "keeps (\<lambda>st. docs_view owner (fst st)) (buc_AddGeneratedCreature (bestiaryStorage srv) bucketName i inp uid)"
    for inp uid
    using bsto_AddGeneratedCreature_keeps [THEN keepsD, of owner]
    by (auto simp: keeps_def buc_AddGeneratedCreature_def bestiaryStorage_def split: prod.splits sum.splits)
      (metis snd_conv)+
  then show ?thesis unfolding h_AddGeneratedCreature_def [abs_def] by (intro keeping)
qed

text \<open>Public endpoints have no user.\<close>

definition not_of :: "int \<Rightarrow> endpoint \<Rightarrow> user option \<Rightarrow> bool" where
  "not_of owner ep u \<longleftrightarrow> ep \<in> set public_endpoints \<or> (\<exists>v. u = Some v \<and> userID v \<noteq> owner)"

lemma docs_call_keeps:
  assumes "not_of owner ep u" "docs_call d ep u ctx r = Some call"
  shows "keeps (docs_view owner) call"
proof (cases "ep = E_AddCharacter")
  case True
  then have "\<forall>v. u = Some v \<longrightarrow> userID v \<noteq> owner" using assms(1) by (auto simp: not_of_def public_endpoints_def)
  from h_AddCharacter_others [OF this] True assms(2) show ?thesis by (auto intro!: keeps_speak)
next
  case False
  with assms(2) show ?thesis by (cases ep) (auto intro!: keeps_speak df.reads)
qed

section \<open>What the goroutines of the tables write\<close>

text \<open>The encounters a running timer may save: they come from the sessions.\<close>

definition watched :: "(string \<times> string \<times> bool) list \<Rightarrow> string set" where
  "watched ws = (fst \<circ> snd) ` set ws"

definition saved_ids :: "'d table_state \<Rightarrow> string set" where
  "saved_ids st = watched (watchers st) \<union> ti_encounter ` set (timer_threads st)"

definition writes_saved :: "'d encounter_repository \<Rightarrow> 'd table_state \<Rightarrow> 'd table_state \<Rightarrow> bool" where
  "writes_saved repo st st' \<longleftrightarrow> saved_ids st' \<subseteq> saved_ids st \<and>
     (store st' = store st \<or>
      (\<exists>dat eid. eid \<in> saved_ids st \<and> store st' = snd (repo_Update repo dat eid (store st))))"

lemma set_AList_update: "x \<in> set (AList.update k v al) \<Longrightarrow> x = (k, v) \<or> x \<in> set al"
  by (induction al) (auto split: if_splits)

lemma set_AList_delete: "x \<in> set (AList.delete k al) \<Longrightarrow> x \<in> set al"
  by (simp add: AList.delete_eq)

definition same_store :: "'d table_state \<Rightarrow> 'd table_state \<Rightarrow> bool" where
  "same_store st st' \<longleftrightarrow> store st' = store st \<and> timer_threads st' = timer_threads st \<and>
     watched (watchers st') \<subseteq> watched (watchers st)"

lemma same_store_writes: "same_store st st' \<Longrightarrow> writes_saved repo st st'"
  by (auto simp: same_store_def writes_saved_def saved_ids_def)

lemma same_store_same [simp]:
  "store st' = store st \<Longrightarrow> timer_threads st' = timer_threads st \<Longrightarrow> watchers st' = watchers st \<Longrightarrow> same_store st st'"
  by (simp add: same_store_def)

lemma watched_update:
  assumes "map_of (watchers st) sid = Some (eid, armed)"
  shows "watched (AList.update sid (eid, armed') (watchers st)) \<subseteq> watched (watchers st)"
  using map_of_SomeD [OF assms] by (force simp: watched_def dest!: set_AList_update)

lemma watched_insert: "watched (AList.update sid (eid, armed) ws) \<subseteq> insert eid (watched ws)"
  by (force simp: watched_def dest!: set_AList_update)

lemma refreshSession_store: "refreshSession sid st = Some st' \<Longrightarrow> same_store st st'"
  by (auto simp: refreshSession_def same_store_def split: option.splits prod.splits
      dest: watched_update [THEN subsetD])

lemma conn_step_store: "conn_step w th pc st = Some (pc', st') \<Longrightarrow> same_store st st'"
  by (cases pc)
    (auto simp: refuse_def upd_session_def put_session_def finish_def refreshSession_store
      split: option.splits if_splits prod.splits sum.splits bool.splits)

lemma timer_step_store:
  assumes "timer_step w repo ti pc st = Some (pc', st')" "ti_encounter ti \<in> saved_ids st"
  shows "writes_saved repo st st' \<and> timer_threads st' = timer_threads st"
proof -
  have del: "same_store st (st\<lparr>watchers := AList.delete sid (watchers st)\<rparr>)" for sid
    by (force simp: same_store_def watched_def dest!: set_AList_delete)
  show ?thesis
  proof (cases pc)
    case (TSave dat)
    have "saved_ids (st\<lparr>store := x\<rparr>) = saved_ids st" for x by (simp add: saved_ids_def)
    then show ?thesis using TSave assms by (cases dat) (simp, force simp: writes_saved_def)+
  next
    case (TStop dat)
    then show ?thesis using assms(1) del same_store_writes by (auto split: option.splits)
  qed (use assms(1) in \<open>auto simp: put_session_def intro!: same_store_writes
      split: option.splits if_splits prod.splits sum.splits bool.splits go.splits list.splits\<close>)
qed

lemma table_next_store:
  assumes "\<not> by_request ev" "table_next w repo ev st = Some st'"
  shows "writes_saved repo st st'"
proof (cases ev)
  case (ConnStep i)
  then obtain pc st1 where "conn_step w (conn_threads st ! i) (th_pc (conn_threads st ! i)) st = Some (pc, st1)"
      and st': "st' = st1\<lparr>conn_threads := (conn_threads st1)[i := (conn_threads st1 ! i)\<lparr>th_pc := pc\<rparr>]\<rparr>"
    using assms(2) by (auto split: if_splits option.splits)
  then have "same_store st st1" by (blast dest: conn_step_store)
  with st' show ?thesis by (intro same_store_writes) (simp add: same_store_def)
next
  case (TimerStep i)
  let ?ti = "timer_threads st ! i"
  obtain pc st1 where i: "i < length (timer_threads st)" and "timer_step w repo ?ti (ti_pc ?ti) st = Some (pc, st1)"
      and st': "st' = st1\<lparr>timer_threads := (timer_threads st1)[i := (timer_threads st1 ! i)\<lparr>ti_pc := pc\<rparr>]\<rparr>"
    using assms(2) TimerStep by (auto split: if_splits option.splits)
  moreover have mem: "?ti \<in> set (timer_threads st)" using i by simp
  ultimately have w: "writes_saved repo st st1" "timer_threads st1 = timer_threads st"
    using timer_step_store [of w repo ?ti _ st] by (auto simp: saved_ids_def)
  have "ti_encounter ` set (timer_threads st') \<subseteq> ti_encounter ` set (timer_threads st)"
    using st' w(2) mem by (auto dest!: set_update_subset_insert [THEN subsetD])
  with w st' show ?thesis by (auto simp: writes_saved_def saved_ids_def)
next
  case (Fires sid)
  then obtain eid where sid: "map_of (watchers st) sid = Some (eid, True)"
      and st': "st' = st\<lparr>watchers := AList.update sid (eid, False) (watchers st),
          timer_threads := timer_threads st @ [\<lparr>ti_session = sid, ti_encounter = eid, ti_pc = TGetData\<rparr>]\<rparr>"
    using assms(2) by (auto split: option.splits prod.splits bool.splits)
  have "eid \<in> watched (watchers st)" using map_of_SomeD [OF sid] by (force simp: watched_def)
  with watched_update [OF sid] st' show ?thesis by (auto simp: writes_saved_def saved_ids_def)
qed (use assms in \<open>auto simp: run_step_def put_session_def intro!: same_store_writes
    split: if_splits conn_pc.splits runner.splits\<close>)

section \<open>What a user keeps\<close>

definition whole_view ::
    "int \<Rightarrow> 'w app \<Rightarrow> (encounter list \<times> map_row list) \<times> (document list \<times> document list \<times> document list)" where
  "whole_view owner a = (view_of owner (app_backend a), docs_view owner (ap_docs a))"

text \<open>The tables of Postgres are in order, and no session plays an encounter of the user.\<close>

definition whole_ok :: "int \<Rightarrow> 'w app \<Rightarrow> bool" where
  "whole_ok owner a \<longleftrightarrow> content_ok (app_backend a) \<and>
     saved_ids (ap_tables a) \<inter> UUID ` set (fst (view_of owner (app_backend a))) = {}"

definition whole_kept :: "int \<Rightarrow> 'w app \<Rightarrow> 'w app \<Rightarrow> bool" where
  "whole_kept owner a a' \<longleftrightarrow> (whole_ok owner a \<longrightarrow> whole_ok owner a' \<and> whole_view owner a' = whole_view owner a)"

lemma whole_kept_refl: "whole_kept owner a a"
  by (simp add: whole_kept_def)

lemma whole_kept_trans: "whole_kept owner a b \<Longrightarrow> whole_kept owner b c \<Longrightarrow> whole_kept owner a c"
  by (simp add: whole_kept_def)

lemma untouched_kept:
  assumes "untouched owner (app_backend a) (app_backend a')"
    and "docs_view owner (ap_docs a') = docs_view owner (ap_docs a)"
    and "content_ok (app_backend a) \<Longrightarrow> saved_ids (ap_tables a) \<inter> UUID ` set (fst (view_of owner (app_backend a))) = {} \<Longrightarrow>
      saved_ids (ap_tables a') \<inter> UUID ` set (fst (view_of owner (app_backend a))) = {}"
  shows "whole_kept owner a a'"
  using assms by (auto simp: whole_kept_def whole_ok_def whole_view_def untouched_def)

lemma app_backend_put [simp]: "app_backend (put_backend b a) = b"
  by (cases b) (simp add: app_backend_def put_backend_def)

lemma put_backend_kept: "untouched owner (app_backend a) b \<Longrightarrow> whole_kept owner a (put_backend b a)"
  by (rule untouched_kept) (simp, simp_all add: put_backend_def saved_ids_def)

lemma content_app [simp]:
  "content (app_backend (put_docs m a)) = content (app_backend a)"
  "content (app_backend (put_stored mb a)) = content (app_backend a)"
  "content (app_backend (put_world x a)) = content (app_backend a)"
  "content (app_backend (put_forge f a)) = content (app_backend a)"
  "content (app_backend (pass x t a)) = content (app_backend a)"
  by (simp_all add: content_def app_backend_def put_docs_def put_stored_def put_world_def put_forge_def pass_def)

lemma parts_kept:
  "docs_view owner m = docs_view owner (ap_docs a) \<Longrightarrow> whole_kept owner a (put_docs m a)"
  "docs_view owner (fst mb) = docs_view owner (ap_docs a) \<Longrightarrow> whole_kept owner a (put_stored mb a)"
  "whole_kept owner a (put_world x a)" "whole_kept owner a (put_forge f a)" "whole_kept owner a (pass x t a)"
  by (auto simp: put_docs_def put_stored_def put_world_def put_forge_def pass_def
      intro!: untouched_kept [OF untouched_content] content_app [unfolded put_docs_def put_stored_def put_world_def
        put_forge_def pass_def])

text \<open>Saving an encounter of somebody else.\<close>

lemma update_others:
  assumes "encounters_ok db" "eid \<notin> UUID ` set (filter (\<lambda>e. UserID e = owner) (visible_encounters db))"
  shows "encounters_ok (snd (repo_Update (encounterStorage ts) dat eid db)) \<and>
    filter (\<lambda>e. UserID e = owner) (visible_encounters (snd (repo_Update (encounterStorage ts) dat eid db))) =
    filter (\<lambda>e. UserID e = owner) (visible_encounters db) \<and>
    maps (snd (repo_Update (encounterStorage ts) dat eid db)) = maps db"
proof -
  obtain r db' where run: "repo_Update (encounterStorage ts) dat eid db = (r, db')" by fastforce
  have "eid \<notin> UUID ` set (filter (\<lambda>e. UserID e = owner) xs) \<Longrightarrow>
      filter (\<lambda>e. UserID e = owner) (update_where (\<lambda>e. UUID e = eid) (\<lambda>e. e\<lparr>Data := dat\<rparr>) xs) =
      filter (\<lambda>e. UserID e = owner) xs" for xs :: "encounter list"
    by (induction xs) (auto simp: update_where_def split: if_splits)
  with es.update [OF assms(1) run] assms(2) run show ?thesis
    using keepsD [OF encounters_maps.encounter_calls(5), of ts dat eid db] by simp
qed

lemma view_tables:
  "fst (view_of owner (app_backend (put_tables t a))) =
     filter (\<lambda>e. UserID e = owner) (visible_encounters (store t))"
  "fst (view_of owner (app_backend a)) =
     filter (\<lambda>e. UserID e = owner) (visible_encounters (store (ap_tables a)))"
  by (simp_all add: view_of_def app_backend_def put_tables_def)

lemma put_tables_kept:
  assumes "whole_ok owner a \<Longrightarrow> saved_ids t \<inter> UUID ` set (fst (view_of owner (app_backend a))) = {} \<and>
      encounters_ok (store t) \<and> maps (store t) = maps (store (ap_tables a)) \<and>
      filter (\<lambda>e. UserID e = owner) (visible_encounters (store t)) =
      filter (\<lambda>e. UserID e = owner) (visible_encounters (store (ap_tables a)))"
  shows "whole_kept owner a (put_tables t a)"
  using assms
  by (auto simp: whole_kept_def whole_ok_def whole_view_def content_ok_def view_of_def maps_ok_def app_backend_def put_tables_def)

lemma writes_saved_kept:
  assumes "writes_saved (whole_repo d) (ap_tables a) t"
  shows "whole_kept owner a (put_tables t a)"
proof (rule put_tables_kept)
  assume ok: "whole_ok owner a"
  then have e: "encounters_ok (store (ap_tables a))" by (simp add: whole_ok_def content_ok_def app_backend_def)
  show "saved_ids t \<inter> UUID ` set (fst (view_of owner (app_backend a))) = {} \<and>
      encounters_ok (store t) \<and> maps (store t) = maps (store (ap_tables a)) \<and>
      filter (\<lambda>e. UserID e = owner) (visible_encounters (store t)) =
      filter (\<lambda>e. UserID e = owner) (visible_encounters (store (ap_tables a)))"
  proof (cases "store t = store (ap_tables a)")
    case True
    then show ?thesis using ok e assms by (auto simp: whole_ok_def writes_saved_def)
  next
    case False
    then obtain dat eid where "eid \<in> saved_ids (ap_tables a)" and t: "store t = snd (repo_Update (whole_repo d) dat eid (store (ap_tables a)))"
      using assms by (auto simp: writes_saved_def)
    then have "eid \<notin> UUID ` set (filter (\<lambda>e. UserID e = owner) (visible_encounters (store (ap_tables a))))"
      using ok by (auto simp: whole_ok_def view_tables)
    from update_others [OF e this] t ok assms show ?thesis
      by (auto simp: whole_repo_def whole_ok_def writes_saved_def)
  qed
qed

text \<open>A session that somebody else opens.\<close>

lemma put_tables_same: "same_store (ap_tables a) t \<Longrightarrow> whole_kept owner a (put_tables t a)"
  by (rule writes_saved_kept [OF same_store_writes])

lemma opened_away: "A \<subseteq> S \<or> P \<and> A \<subseteq> insert e S \<Longrightarrow> (P \<Longrightarrow> e \<notin> T) \<Longrightarrow> S \<inter> T = {} \<Longrightarrow> A \<inter> T = {}"
  by blast

lemma CreateSession_kept:
  assumes "userID u \<noteq> owner"
  shows "whole_kept owner a (put_tables (snd (uc_CreateSession (whole_repo d) u eid sid (ap_tables a))) a)"
proof (rule put_tables_kept)
  let ?db = "store (ap_tables a)" and ?t = "snd (uc_CreateSession (whole_repo d) u eid sid (ap_tables a))"
  assume ok: "whole_ok owner a"
  then have e: "encounters_ok ?db" by (simp add: whole_ok_def content_ok_def app_backend_def)
  obtain g db' where run: "repo_GetByID (whole_repo d) eid ?db = (g, db')" by fastforce
  note get = es.get [OF e run [unfolded whole_repo_def]]
  have m: "maps db' = maps ?db"
    using keepsD [OF encounters_maps.encounter_calls(3), of "ad_tsquery (wd_api d)" eid ?db] run by (simp add: whole_repo_def)
  have st: "store ?t = db'"
    using run by (auto simp: uc_CreateSession_def tm_CreateSession_def Let_def split: sum.splits)
  have "saved_ids ?t \<subseteq> saved_ids (ap_tables a) \<or>
      (\<exists>enc \<in> set (visible_encounters ?db). UUID enc = eid \<and> UserID enc = userID u) \<and>
      saved_ids ?t \<subseteq> insert eid (saved_ids (ap_tables a))"
  proof (cases "\<exists>enc. g = Inr enc \<and> UserID enc = userID u")
    case True
    then obtain enc where g: "g = Inr enc" "UserID enc = userID u" by blast
    then have "saved_ids ?t = watched (AList.update sid (eid, True) (watchers (ap_tables a))) \<union>
        ti_encounter ` set (timer_threads (ap_tables a))"
      using run by (simp add: uc_CreateSession_def tm_CreateSession_def Let_def saved_ids_def)
    then have "saved_ids ?t \<subseteq> insert eid (saved_ids (ap_tables a))"
      using watched_insert [of sid eid True "watchers (ap_tables a)"] by (auto simp: saved_ids_def)
    moreover have "enc \<in> set (visible_encounters ?db)" "UUID enc = eid" using get g(1) by auto
    ultimately show ?thesis using g(2) by blast
  next
    case False
    then have "saved_ids ?t = saved_ids (ap_tables a)"
      using run by (cases g) (auto simp: uc_CreateSession_def saved_ids_def)
    then show ?thesis by simp
  qed
  moreover have "eid \<notin> UUID ` set (filter (\<lambda>e. UserID e = owner) (visible_encounters ?db))"
    if mine: "\<exists>enc \<in> set (visible_encounters ?db). UUID enc = eid \<and> UserID enc = userID u"
  proof
    assume "eid \<in> UUID ` set (filter (\<lambda>e. UserID e = owner) (visible_encounters ?db))"
    then obtain x where x: "x \<in> set (visible_encounters ?db)" "UUID x = eid" "UserID x = owner" by auto
    obtain enc where "enc \<in> set (visible_encounters ?db)" "UUID enc = eid" "UserID enc = userID u" using mine by blast
    from es.owned_unique [OF e this x(1, 2)] x(3) assms show False by simp
  qed
  moreover have "saved_ids (ap_tables a) \<inter> UUID ` set (filter (\<lambda>e. UserID e = owner) (visible_encounters ?db)) = {}"
    using ok by (simp only: whole_ok_def view_tables)
  ultimately have "saved_ids ?t \<inter> UUID ` set (fst (view_of owner (app_backend a))) = {}"
    unfolding view_tables by (rule opened_away)
  then show "saved_ids ?t \<inter> UUID ` set (fst (view_of owner (app_backend a))) = {} \<and>
      encounters_ok (store ?t) \<and> maps (store ?t) = maps ?db \<and>
      filter (\<lambda>e. UserID e = owner) (visible_encounters (store ?t)) =
      filter (\<lambda>e. UserID e = owner) (visible_encounters ?db)"
    using get m st by simp
qed

lemma h_CreateSession_kept:
  assumes "\<forall>v. u = Some v \<longrightarrow> userID v \<noteq> owner"
  shows "whole_kept owner a (put_tables (snd (h_CreateSession (whole_repo d) w body sid u (ap_tables a))) a)"
proof -
  have run: "snd (h_CreateSession (whole_repo d) w (Some eid) sid (Some v) (ap_tables a)) =
      snd (uc_CreateSession (whole_repo d) v eid sid (ap_tables a))" for v eid
    by (simp add: h_CreateSession_def split: prod.splits sum.splits)
  show ?thesis
  proof (cases "\<exists>v eid. u = Some v \<and> body = Some eid")
    case True
    then show ?thesis using CreateSession_kept assms by (auto simp: run)
  next
    case False
    then have "snd (h_CreateSession (whole_repo d) w body sid u (ap_tables a)) = ap_tables a"
      by (cases u; cases body) (auto simp: h_CreateSession_def with_user_def)
    then show ?thesis by (simp add: put_tables_same)
  qed
qed

section \<open>The handlers\<close>

lemma on_part_state: "snd (on_part get put f a) = put (snd (f (get a))) a"
  and on_part_result: "fst (on_part get put f a) = fst (f (get a))"
  by (simp_all add: on_part_def split: prod.splits)

lemma zoom_state:
  "sv_app (snd (zoom get put h w ctx r s)) =
     put (sv_app (snd (h w ctx r \<lparr>sv_app = get (sv_app s), sv_sink = sv_sink s, sv_metrics = sv_metrics s,
       sv_requests = sv_requests s\<rparr>))) (sv_app s)"
  by (simp add: zoom_def split: prod.splits)

lemma speak_state: "snd (speak into call t) = snd (call t)"
  by (simp add: speak_def split: prod.splits)

lemma ServeWS_store: "same_store (sv_app s) (sv_app (snd (ServeWS key w ctx r s)))"
  by (cases "snd (Upgrade w r)"; cases "ctx_user key ctx")
    (auto simp: ServeWS_def h_ServeWS_def with_user_def Let_def split: prod.splits go.splits payload.splits option.splits if_splits)

lemma table_call_kept:
  assumes "not_of owner ep u" "table_call d ep u ctx r n = Some call"
  shows "whole_kept owner a (put_tables (snd (call (ap_tables a))) a)"
proof (cases "ep = E_CreateSession")
  case True
  then have "\<forall>v. u = Some v \<longrightarrow> userID v \<noteq> owner" using assms(1) by (auto simp: not_of_def public_endpoints_def)
  with True assms(2) h_CreateSession_kept show ?thesis by (auto simp: speak_state)
next
  case False
  with assms(2) show ?thesis by (cases ep) (auto simp: speak_state put_tables_same)
qed

lemma whole_handler_kept:
  assumes "\<forall>w ctx r s. sv_app (snd (prometheus w ctx r s)) = sv_app s" "not_of owner ep (ctx_user key ctx)"
  shows "whole_kept owner (sv_app s) (sv_app (snd (whole_handler d key prometheus ep w ctx r s)))"
proof -
  have docs: "whole_kept owner a (put_docs (snd (call (ap_docs a))) a)"
    if "docs_call d ep (ctx_user key ctx) ctx r = Some call" for a call
    by (rule parts_kept(1) [OF keepsD [OF docs_call_keeps [OF assms(2) that]]])
  have gen: "whole_kept owner a (put_stored (snd (h_AddGeneratedCreature (bestiaryStorage srv) bucketName i body u
      (ap_docs a, ap_bucket a))) a)" for a srv bucketName i body u
    using keepsD [OF h_AddGeneratedCreature_docs, of owner srv bucketName i body u "(ap_docs a, ap_bucket a)"]
    by (intro parts_kept(2)) simp
  have api: "whole_kept owner (sv_app s) (put_backend (sv_app (snd (api_handler (wd_api d) key (\<lambda>_ _ _ _ s. (([], Return ()), s))
      ep w ctx r s'))) (sv_app s))" if "sv_app s' = app_backend (sv_app s)" for s'
    using handler_step [of "\<lambda>_ _ _ _ s. (([], Return ()), s)" ep key ctx owner s' "wd_api d" w r] assms(2) that
    by (intro put_backend_kept) (simp add: bystander_def not_of_def)
  have ws: "whole_kept owner (sv_app s) (put_tables (sv_app (snd (ServeWS key w ctx r s'))) (sv_app s))"
    if "sv_app s' = ap_tables (sv_app s)" for s'
    using ServeWS_store [of s' key w ctx r] that by (intro put_tables_same) simp
  show ?thesis
    unfolding whole_handler_def Let_def
    by (auto simp: on_app_state on_part_state zoom_state speak_state assms(1) whole_kept_refl parts_kept
        intro!: docs gen api ws table_call_kept [OF assms(2)] split: option.splits)
qed

section \<open>Isolation\<close>

text \<open>No request comes with a cookie that opens a session of the owner by then.\<close>

fun others_only ::
    "int \<Rightarrow> 'w whole_deps \<Rightarrow> (whole_body api_body, 'w app) server_env \<Rightarrow> 'w happening list \<Rightarrow> 'w app server \<Rightarrow> bool"
  where
  "others_only owner d env [] s = True"
| "others_only owner d env (h # hs) s =
     ((case h of
         Request r \<Rightarrow> (case cookie_user env r s of None \<Rightarrow> True | Some u \<Rightarrow> userID u \<noteq> owner)
       | _ \<Rightarrow> True) \<and>
      (case happen d env h s of None \<Rightarrow> True | Some s1 \<Rightarrow> others_only owner d env hs s1))"

lemma request_kept:
  assumes "\<forall>w ctx r s. sv_app (snd (prometheus w ctx r s)) = sv_app s"
    and "case cookie_user (whole_env d prometheus env) r s of None \<Rightarrow> True | Some u \<Rightarrow> userID u \<noteq> owner"
  shows "whole_kept owner (sv_app s) (sv_app (snd (serve (whole_env d prometheus env) r s)))"
proof (rule serve_related [where R = "whole_kept owner" and good = "\<lambda>u. userID u \<noteq> owner"])
  show "whole_kept owner a (snd (e_CheckAuth (whole_env d prometheus env) sid a))" for sid a
    by (simp add: whole_env_def on_part_state put_backend_kept CheckAuth_content untouched_content)
  show "whole_kept owner (sv_app t) (sv_app (snd (e_handler (whole_env d prometheus env) ep w ctx r t)))"
    if "ep \<in> set public_endpoints \<or>
      (\<exists>u. ctx_user (e_CtxUserKey (whole_env d prometheus env)) ctx = Some u \<and> userID u \<noteq> owner)" for ep w ctx t
    using that whole_handler_kept [OF assms(1)] by (simp add: whole_env_def not_of_def)
qed (use assms(2) whole_kept_refl whole_kept_trans in auto)

lemma happen_kept:
  assumes "\<forall>w ctx r s. sv_app (snd (prometheus w ctx r s)) = sv_app s"
    and "happen d (whole_env d prometheus env) h s = Some s1"
    and "case h of Request r \<Rightarrow>
        (case cookie_user (whole_env d prometheus env) r s of None \<Rightarrow> True | Some u \<Rightarrow> userID u \<noteq> owner) | _ \<Rightarrow> True"
  shows "whole_kept owner (sv_app s) (sv_app s1)"
proof (cases h)
  case (Request r)
  with request_kept [OF assms(1), where owner = owner and d = d and env = env and r = r and s = s] assms(2, 3) show ?thesis by simp
next
  case (Goroutine ev)
  then obtain t where "\<not> by_request ev" "table_next (wd_wire d) (whole_repo d) ev (ap_tables (sv_app s)) = Some t"
      and "sv_app s1 = put_tables t (sv_app s)"
    using assms(2) by (auto simp: to_app_def happen_goroutine_def split: if_splits)
  then show ?thesis using writes_saved_kept [OF table_next_store] by simp
next
  case (Job i)
  then show ?thesis
    using assms(2) by (auto simp: to_app_def happen_job_def Let_def parts_kept split: if_splits prod.splits)
next
  case (Elsewhere x t)
  then show ?thesis using assms(2) parts_kept(5) by auto
qed

text \<open>
  C8.
  Isolation in the running program. Let anything happen: requests to any path with any body, the
  goroutines of the game tables and of the creature generation in any order, timers that save
  their session, failures of the databases and of the services outside, time that passes. If no
  request comes with a cookie that opens a session of the owner by then, and no session plays an
  encounter of the owner at the start, then the owner's encounters, maps and characters, the
  bestiary and the shared tiles stay what they are, and no session comes to play an encounter of
  the owner.
\<close>

theorem whole_isolation:
  assumes "\<forall>w ctx r s. sv_app (snd (prometheus w ctx r s)) = sv_app s"
    and "whole_ok owner (sv_app s)"
    and "others_only owner d (whole_env d prometheus env) hs s"
    and "happen_all d (whole_env d prometheus env) hs s = Some s'"
  shows "whole_ok owner (sv_app s') \<and> whole_view owner (sv_app s') = whole_view owner (sv_app s)"
  using assms(2-4)
proof (induction hs arbitrary: s)
  case (Cons h hs)
  from Cons.prems(3) obtain s1 where s1: "happen d (whole_env d prometheus env) h s = Some s1"
      and rest: "happen_all d (whole_env d prometheus env) hs s1 = Some s'"
    by (auto split: if_splits option.splits)
  have "whole_kept owner (sv_app s) (sv_app s1)"
    using happen_kept [OF assms(1) s1] Cons.prems(2) by simp
  then have "whole_ok owner (sv_app s1)" "whole_view owner (sv_app s1) = whole_view owner (sv_app s)"
    using Cons.prems(1) by (simp_all add: whole_kept_def)
  with Cons.IH [OF _ _ rest] Cons.prems(2) s1 show ?case by simp
qed simp

text \<open>User 1 asks for the removal of user 2's encounter after a while in which a connection breaks.\<close>

definition demo_whole :: "unit whole_deps" where
  "demo_whole =
     \<lparr>wd_api = demo_deps, wd_mongo = demo_server,
      wd_wire = \<lparr>wire_dec = (\<lambda>_. None), wire_enc = (\<lambda>_. []), valid_json = (\<lambda>_. True)\<rparr>,
      wd_json = (\<lambda>_. None), wd_sheet = (\<lambda>_. MalformedForm), wd_form = (\<lambda>_. BadForm),
      wd_model = \<lparr>gm_FromImage = (\<lambda>_ w. (Inl ApiErr, w)), gm_FromDescription = (\<lambda>_ w. (Inl ApiErr, w))\<rparr>,
      wd_actions = (\<lambda>_ w. (Inl ApiErr, w)), wd_describe = (\<lambda>_ _ w. (None, w)),
      wd_sid = (\<lambda>_. ''s''), wd_job_id = (\<lambda>_. ''j''), wd_oid = (\<lambda>_. ''o'')\<rparr>"

definition demo_app :: "unit app" where
  "demo_app =
     \<lparr>ap_tables = table_init (be_db (demo_api [Served, Refused])), ap_sessions = be_sessions (demo_api []),
      ap_docs = demo_mongo, ap_bucket = \<lparr>objects_of = [], put_outcomes = []\<rparr>, ap_forge = idle () 0\<rparr>"

definition demo_prometheus :: "(whole_body api_body, unit app) handler" where
  "demo_prometheus w ctx r s = (([], Return ()), s)"

definition demo_happenings :: "unit happening list" where
  "demo_happenings =
     [Elsewhere () 0, Goroutine (Breaks 0), Request (rt_request ''DELETE'' ''/api/encounter/id1'' (Some ''sid''))]"

lemma demo_backend:
  "app_backend (pass () 0 demo_app) = demo_api [Served, Refused]"
  "app_backend (put_tables ((ap_tables (pass () 0 demo_app))\<lparr>network := n\<rparr>) (pass () 0 demo_app)) = demo_api [Served, Refused]"
  by (simp_all add: app_backend_def pass_def put_tables_def demo_app_def table_init_def idle_def demo_api_def)

lemma whole_isolation_witness:
  "\<exists>s'. happen_all demo_whole (whole_env demo_whole demo_prometheus (rt_env rt_user demo_prometheus)) demo_happenings
        (rt_server demo_app) = Some s' \<and>
     fst (whole_view 2 (sv_app s')) = ([\<lparr>UserID = 2, Name = ''cave'', Data = ''{}'', UUID = ''id1''\<rparr>], [])"
proof -
  let ?env = "whole_env demo_whole demo_prometheus (rt_env rt_user demo_prometheus)" and ?s = "rt_server demo_app"
  have prom: "\<forall>w ctx r s. sv_app (snd (demo_prometheus w ctx r s)) = sv_app s"
    by (simp add: demo_prometheus_def)
  have crashed: "\<not> crashed (ap_tables demo_app)" by (simp add: demo_app_def table_init_def)
  obtain s' where run: "happen_all demo_whole ?env demo_happenings ?s = Some s'"
    using crashed
    by (auto simp: demo_happenings_def rt_server_def to_app_def happen_goroutine_def put_tables_def pass_def)
  have ok: "whole_ok 2 (sv_app ?s)"
    by (simp add: whole_ok_def content_ok_def rt_server_def app_backend_def demo_app_def table_init_def demo_api_def
        encounters_ok_def maps_ok_def demo_db_def saved_ids_def watched_def)
  have "others_only 2 demo_whole ?env demo_happenings ?s"
    by (simp add: demo_happenings_def rt_server_def to_app_def happen_goroutine_def cookie_user_def rt_request_def
        whole_env_def on_part_result demo_backend demo_api_user demo_whole_def EncounterStorage.demo_user_def)
  from whole_isolation [OF prom ok this run]
  have "whole_view 2 (sv_app s') = whole_view 2 (sv_app ?s)" by simp
  then have "fst (whole_view 2 (sv_app s')) = ([\<lparr>UserID = 2, Name = ''cave'', Data = ''{}'', UUID = ''id1''\<rparr>], [])"
    by (simp add: whole_view_def view_of_def rt_server_def app_backend_def demo_app_def table_init_def demo_api_def
        visible_encounters_def row_encounter_def demo_db_def)
  with run show ?thesis by blast
qed

end
