(* ===== verification/Config.thy ===== *)
theory Config
  imports OAuth
begin

text \<open>
  The configuration (\<open>internal/pkg/config\<close>): a YAML file read over the zero value, then the
  environment over it, as \<open>cleanenv.ReadEnv\<close> does (translated from its vendored source): a variable
  that is set, also to the empty string, replaces the field; a default is taken for a field that is
  still zero. Opening and decoding the file and the two conversions of \<open>strconv\<close> and \<open>time\<close> are
  parameters. Durations are in nanoseconds.
\<close>

section \<open>The records\<close>

record server_config =
  srv_Host :: string
  srv_Port :: string
  srv_Timeout :: int
  srv_Origins :: "string list"
  srv_Headers :: "string list"
  srv_Methods :: "string list"

record db_config =
  db_Username :: string
  db_Password :: string
  db_Host :: string
  db_Port :: string
  db_DBName :: string

record redis_config =
  rd_Password :: string
  rd_Host :: string
  rd_Port :: string
  rd_DB :: int

record minio_config =
  mi_Host :: string
  mi_EndpointUser :: string
  mi_EndpointPassword :: string
  mi_Port :: string
  mi_AccessKey :: string
  mi_SecretKey :: string

record service_config =
  svc_Host :: string
  svc_Port :: string

record socks5_config =
  sx_IP :: string
  sx_Port :: string

record vkapi_config =
  vkc_RedirectURI :: string
  vkc_ClientID :: string
  vkc_SecretKey :: string
  vkc_ServiceKey :: string
  vkc_Exchange :: vk_method
  vkc_PublicInfo :: vk_method

record google_config =
  goo_ClientID :: string
  goo_ClientSecret :: string
  goo_RedirectURI :: string

record yandex_config =
  yan_ClientID :: string
  yan_ClientSecret :: string

record gemini_config =
  gem_Host :: string
  gem_Port :: string
  gem_ExternalVM1 :: string

record services_config =
  sv_Description :: service_config
  sv_ActionProcessor :: service_config

record logger_config =
  lo_Key :: string
  lo_OutputPath :: string
  lo_ErrPath :: string

record config =
  cf_Server :: server_config
  cf_Session_Duration :: int
  cf_Mongo :: db_config
  cf_Postgres :: db_config
  cf_Redis :: redis_config
  cf_Minio :: minio_config
  cf_Services :: services_config
  cf_VKApi :: vkapi_config
  cf_GoogleOAuth :: google_config
  cf_YandexOAuth :: yandex_config
  cf_Gemini :: gemini_config
  cf_Socks5Proxie :: socks5_config
  cf_Logger :: logger_config
  cf_CtxUserKey :: string
  cf_IsProd :: bool

section \<open>The environment over a record\<close>

type_synonym environment = "string \<Rightarrow> string option"

definition from_env :: "environment \<Rightarrow> string \<Rightarrow> string \<Rightarrow> string" where
  "from_env env k old = (case env k of Some v \<Rightarrow> v | None \<Rightarrow> old)"

definition env_mongo :: "environment \<Rightarrow> db_config \<Rightarrow> db_config" where
  "env_mongo env c =
     \<lparr>db_Username = from_env env ''MONGO_INITDB_ROOT_USERNAME'' (db_Username c),
      db_Password = from_env env ''MONGO_INITDB_ROOT_PASSWORD'' (db_Password c),
      db_Host = from_env env ''MONGO_HOST'' (db_Host c),
      db_Port = from_env env ''MONGO_PORT'' (db_Port c),
      db_DBName = from_env env ''MONGO_DB'' (db_DBName c)\<rparr>"

definition env_postgres :: "environment \<Rightarrow> db_config \<Rightarrow> db_config" where
  "env_postgres env c =
     \<lparr>db_Username = from_env env ''POSTGRES_USERNAME'' (db_Username c),
      db_Password = from_env env ''POSTGRES_PASSWORD'' (db_Password c),
      db_Host = from_env env ''POSTGRES_HOST'' (db_Host c),
      db_Port = from_env env ''POSTGRES_PORT'' (db_Port c),
      db_DBName = from_env env ''POSTGRES_DB'' (db_DBName c)\<rparr>"

definition env_minio :: "environment \<Rightarrow> minio_config \<Rightarrow> minio_config" where
  "env_minio env c =
     \<lparr>mi_Host = from_env env ''MINIO_HOST'' (mi_Host c),
      mi_EndpointUser = from_env env ''MINIO_ROOT_USER'' (mi_EndpointUser c),
      mi_EndpointPassword = from_env env ''MINIO_ROOT_PASSWORD'' (mi_EndpointPassword c),
      mi_Port = from_env env ''MINIO_API_PORT'' (mi_Port c),
      mi_AccessKey = from_env env ''S3_ACCESS_KEY'' (mi_AccessKey c),
      mi_SecretKey = from_env env ''S3_SECRET_KEY'' (mi_SecretKey c)\<rparr>"

definition env_vkapi :: "environment \<Rightarrow> vkapi_config \<Rightarrow> vkapi_config" where
  "env_vkapi env c =
     c\<lparr>vkc_RedirectURI := from_env env ''REDIRECT_URI'' (vkc_RedirectURI c),
       vkc_ClientID := from_env env ''CLIENT_ID'' (vkc_ClientID c),
       vkc_SecretKey := from_env env ''SECRET_KEY'' (vkc_SecretKey c),
       vkc_ServiceKey := from_env env ''SERVICE_KEY'' (vkc_ServiceKey c)\<rparr>"

definition env_google :: "environment \<Rightarrow> google_config \<Rightarrow> google_config" where
  "env_google env c =
     \<lparr>goo_ClientID = from_env env ''GOOGLE_CLIENT_ID'' (goo_ClientID c),
      goo_ClientSecret = from_env env ''GOOGLE_CLIENT_SECRET'' (goo_ClientSecret c),
      goo_RedirectURI = from_env env ''GOOGLE_REDIRECT_URI'' (goo_RedirectURI c)\<rparr>"

definition env_yandex :: "environment \<Rightarrow> yandex_config \<Rightarrow> yandex_config" where
  "env_yandex env c =
     \<lparr>yan_ClientID = from_env env ''YANDEX_CLIENT_ID'' (yan_ClientID c),
      yan_ClientSecret = from_env env ''YANDEX_CLIENT_SECRET'' (yan_ClientSecret c)\<rparr>"

definition env_gemini :: "environment \<Rightarrow> gemini_config \<Rightarrow> gemini_config" where
  "env_gemini env c =
     \<lparr>gem_Host = from_env env ''GEMINI_HOST'' (gem_Host c),
      gem_Port = from_env env ''GEMINI_PORT'' (gem_Port c),
      gem_ExternalVM1 = from_env env ''EXTERNAL_VM_1_API_KEY'' (gem_ExternalVM1 c)\<rparr>"

definition env_socks5 :: "environment \<Rightarrow> socks5_config \<Rightarrow> socks5_config" where
  "env_socks5 env c =
     \<lparr>sx_IP = from_env env ''SOCKS5_PROXIE_IP'' (sx_IP c), sx_Port = from_env env ''SOCKS5_PROXIE_PORT'' (sx_Port c)\<rparr>"

text \<open>The two fields that are not strings; a value that does not parse ends the reading.\<close>

definition env_duration :: "(string \<Rightarrow> int option) \<Rightarrow> environment \<Rightarrow> int \<Rightarrow> int option" where
  "env_duration ParseDuration env d =
     (case env ''SESSION_DURATION'' of
        Some v \<Rightarrow> ParseDuration v
      | None \<Rightarrow> if d = 0 then ParseDuration ''720h'' else Some d)"

definition env_redis :: "(string \<Rightarrow> int option) \<Rightarrow> environment \<Rightarrow> redis_config \<Rightarrow> redis_config option" where
  "env_redis ParseInt env c =
     (let c1 = c\<lparr>rd_Password := from_env env ''REDIS_PASSWORD'' (rd_Password c),
                 rd_Host := from_env env ''REDIS_HOST'' (rd_Host c),
                 rd_Port := from_env env ''REDIS_PORT'' (rd_Port c)\<rparr>
      in case env ''REDIS_DB'' of
           None \<Rightarrow> Some c1
         | Some v \<Rightarrow> map_option (\<lambda>n. c1\<lparr>rd_DB := n\<rparr>) (ParseInt v))"

definition ReadEnv ::
    "(string \<Rightarrow> int option) \<Rightarrow> (string \<Rightarrow> int option) \<Rightarrow> environment \<Rightarrow> config \<Rightarrow> config option" where
  "ReadEnv ParseInt ParseDuration env cfg =
     (case env_duration ParseDuration env (cf_Session_Duration cfg) of
        None \<Rightarrow> None
      | Some d \<Rightarrow>
          (case env_redis ParseInt env (cf_Redis cfg) of
             None \<Rightarrow> None
           | Some r \<Rightarrow> Some (cfg
               \<lparr>cf_Session_Duration := d,
                cf_Mongo := env_mongo env (cf_Mongo cfg),
                cf_Postgres := env_postgres env (cf_Postgres cfg),
                cf_Redis := r,
                cf_Minio := env_minio env (cf_Minio cfg),
                cf_VKApi := env_vkapi env (cf_VKApi cfg),
                cf_GoogleOAuth := env_google env (cf_GoogleOAuth cfg),
                cf_YandexOAuth := env_yandex env (cf_YandexOAuth cfg),
                cf_Gemini := env_gemini env (cf_Gemini cfg),
                cf_Socks5Proxie := env_socks5 env (cf_Socks5Proxie cfg)\<rparr>)))"

text \<open>\<open>read_yaml\<close> opens and decodes the file; a nil result is \<open>None\<close>.\<close>

definition ReadConfig ::
    "(string \<Rightarrow> config option) \<Rightarrow> (string \<Rightarrow> int option) \<Rightarrow> (string \<Rightarrow> int option) \<Rightarrow> environment \<Rightarrow> string
     \<Rightarrow> config option" where
  "ReadConfig read_yaml ParseInt ParseDuration env cfgPath =
     (case read_yaml cfgPath of None \<Rightarrow> None | Some cfg \<Rightarrow> ReadEnv ParseInt ParseDuration env cfg)"

text \<open>Reading the environment twice changes nothing more.\<close>

lemma from_env_twice: "from_env env k (from_env env k x) = from_env env k x"
  by (simp add: from_env_def split: option.splits)

lemma ReadEnv_twice:
  assumes "ReadEnv ParseInt ParseDuration env cfg = Some cfg1"
  shows "ReadEnv ParseInt ParseDuration env cfg1 = Some cfg1"
proof -
  have d: "env_duration ParseDuration env d' = Some d'" if "env_duration ParseDuration env d = Some d'" for d d'
    using that by (auto simp: env_duration_def split: option.splits if_splits)
  have r: "env_redis ParseInt env c' = Some c'" if "env_redis ParseInt env c = Some c'" for c c'
    using that by (auto simp: env_redis_def from_env_def Let_def split: option.splits)
  show ?thesis
    using assms by (auto simp: ReadEnv_def d r env_mongo_def env_postgres_def env_minio_def env_vkapi_def env_google_def
        env_yandex_def env_gemini_def env_socks5_def from_env_twice split: option.splits)
qed

end
