(* ===== verification/Cors.thy ===== *)
theory Cors
  imports RouterRun
begin

text \<open>
  The outermost handler of the server: \<open>handlers.CORS\<close> of the vendored \<open>gorilla/handlers\<close>, with the
  options \<open>Run\<close> gives it from the configuration. It stands in front of the router.
\<close>

section \<open>Options\<close>

text \<open>Names of headers and methods are ASCII; \<open>TrimSpace\<close> and the change of case are modelled for it.\<close>

definition is_space :: "char \<Rightarrow> bool" where
  "is_space c \<longleftrightarrow> c \<in> {CHR 0x09, CHR 0x0A, CHR 0x0B, CHR 0x0C, CHR 0x0D, CHR 0x20}"

definition TrimSpace :: "string \<Rightarrow> string" where
  "TrimSpace s = rev (dropWhile is_space (rev (dropWhile is_space s)))"

definition upper_char :: "char \<Rightarrow> char" where
  "upper_char c = (if CHR ''a'' \<le> c \<and> c \<le> CHR ''z'' then char_of (of_char c - 32 :: nat) else c)"

definition lower_char :: "char \<Rightarrow> char" where
  "lower_char c = (if CHR ''A'' \<le> c \<and> c \<le> CHR ''Z'' then char_of (of_char c + 32 :: nat) else c)"

definition ToUpper :: "string \<Rightarrow> string" where
  "ToUpper s = map upper_char s"

text \<open>
  \<open>http.CanonicalHeaderKey\<close>: letters after the start and after a hyphen in upper case, the others
  in lower case; a name with a byte that is not allowed in one stays as it is.
\<close>

definition header_byte :: "char \<Rightarrow> bool" where
  "header_byte c \<longleftrightarrow>
     (CHR ''0'' \<le> c \<and> c \<le> CHR ''9'') \<or> (CHR ''A'' \<le> c \<and> c \<le> CHR ''Z'') \<or> (CHR ''a'' \<le> c \<and> c \<le> CHR ''z'') \<or>
     c \<in> set ''!#$%&*+-.^_|~'' \<or> c = CHR 0x27 \<or> c = CHR 0x60"

fun canonical :: "bool \<Rightarrow> string \<Rightarrow> string" where
  "canonical up [] = []"
| "canonical up (c # cs) = (if up then upper_char c else lower_char c) # canonical (c = CHR ''-'') cs"

definition CanonicalHeaderKey :: "string \<Rightarrow> string" where
  "CanonicalHeaderKey s = (if list_all header_byte s then canonical True s else s)"

record cors =
  allowedHeaders :: "string list"
  allowedMethods :: "string list"
  allowedOrigins :: "string list"
  exposedHeaders :: "string list"
  maxAge :: int
  ignoreOptions :: bool
  allowCredentials :: bool
  optionStatusCode :: int

type_synonym cors_option = "cors \<Rightarrow> cors"

definition defaultCorsMethods :: "string list" where
  "defaultCorsMethods = [''GET'', ''HEAD'', ''POST'']"

definition defaultCorsHeaders :: "string list" where
  "defaultCorsHeaders = [''Accept'', ''Accept-Language'', ''Content-Language'', ''Origin'']"

definition isMatch :: "string \<Rightarrow> string list \<Rightarrow> bool" where
  "isMatch needle haystack \<longleftrightarrow> needle \<in> set haystack"

text \<open>The loop of \<open>AllowedHeaders\<close> and \<open>AllowedMethods\<close>: names are added once, in order.\<close>

fun add_names :: "(string \<Rightarrow> string) \<Rightarrow> string list \<Rightarrow> string list \<Rightarrow> string list" where
  "add_names spell [] acc = acc"
| "add_names spell (v # vs) acc =
     (let n = spell (TrimSpace v)
      in add_names spell vs (if n = [] \<or> isMatch n acc then acc else acc @ [n]))"

definition AllowedHeaders :: "string list \<Rightarrow> cors_option" where
  "AllowedHeaders headers ch = ch\<lparr>allowedHeaders := add_names CanonicalHeaderKey headers (allowedHeaders ch)\<rparr>"

definition AllowedMethods :: "string list \<Rightarrow> cors_option" where
  "AllowedMethods methods ch = ch\<lparr>allowedMethods := add_names ToUpper methods []\<rparr>"

definition AllowedOrigins :: "string list \<Rightarrow> cors_option" where
  "AllowedOrigins origins ch = ch\<lparr>allowedOrigins := (if ''*'' \<in> set origins then [''*''] else origins)\<rparr>"

definition AllowCredentials :: cors_option where
  "AllowCredentials ch = ch\<lparr>allowCredentials := True\<rparr>"

definition parseCORSOptions :: "cors_option list \<Rightarrow> cors" where
  "parseCORSOptions opts = fold (\<lambda>option ch. option ch) opts
     \<lparr>allowedHeaders = defaultCorsHeaders, allowedMethods = defaultCorsMethods, allowedOrigins = [],
      exposedHeaders = [], maxAge = 0, ignoreOptions = False, allowCredentials = False, optionStatusCode = 200\<rparr>"

section \<open>The handler\<close>

definition isOriginAllowed :: "cors \<Rightarrow> string \<Rightarrow> bool" where
  "isOriginAllowed ch origin =
     (if origin = [] then False
      else if allowedOrigins ch = [] then True
      else list_ex (\<lambda>a. a = origin \<or> a = ''*'') (allowedOrigins ch))"

text \<open>\<open>strings.Split\<close> at commas; the headers a preflight asks for, \<open>None\<close> when one is not allowed.\<close>

fun split_comma :: "string \<Rightarrow> string \<Rightarrow> string list" where
  "split_comma buf [] = [rev buf]"
| "split_comma buf (c # cs) = (if c = CHR '','' then rev buf # split_comma [] cs else split_comma (c # buf) cs)"

fun requested_headers :: "cors \<Rightarrow> string list \<Rightarrow> string list option" where
  "requested_headers ch [] = Some []"
| "requested_headers ch (v # vs) =
     (let h = CanonicalHeaderKey (TrimSpace v) in
      if h = [] \<or> isMatch h defaultCorsHeaders then requested_headers ch vs
      else if \<not> isMatch h (allowedHeaders ch) then None
      else map_option (Cons h) (requested_headers ch vs))"

definition join_comma :: "string list \<Rightarrow> string" where
  "join_comma xs = concat (case xs of [] \<Rightarrow> [] | y # ys \<Rightarrow> y # map (\<lambda>z. CHR '','' # z) ys)"

text \<open>The headers of a preflight: a refusal with its code, or the headers it adds.\<close>

definition preflight :: "cors \<Rightarrow> server_request \<Rightarrow> int + 'b event list" where
  "preflight ch r =
     (if map_of (rq_Header r) ''Access-Control-Request-Method'' = None then Inl 400
      else let meth = header_get ''Access-Control-Request-Method'' r in
        if \<not> isMatch meth (allowedMethods ch) then Inl 405
        else case requested_headers ch (split_comma [] (header_get ''Access-Control-Request-Headers'' r)) of
          None \<Rightarrow> Inl 403
        | Some hs \<Rightarrow> Inr
            ((if hs \<noteq> [] then [SetHeader ''Access-Control-Allow-Headers'' (join_comma hs)] else []) @
             (if 0 < maxAge ch then [SetHeader ''Access-Control-Max-Age'' (itoa (maxAge ch))] else []) @
             (if \<not> isMatch meth defaultCorsMethods then [SetHeader ''Access-Control-Allow-Methods'' meth] else [])))"

definition exposed :: "cors \<Rightarrow> 'b event list" where
  "exposed ch =
     (if exposedHeaders ch \<noteq> [] then [SetHeader ''Access-Control-Expose-Headers'' (join_comma (exposedHeaders ch))] else [])"

definition origin_headers :: "cors \<Rightarrow> string \<Rightarrow> 'b event list" where
  "origin_headers ch origin =
     (if allowCredentials ch then [SetHeader ''Access-Control-Allow-Credentials'' ''true''] else []) @
     (if 1 < length (allowedOrigins ch) then [SetHeader ''Vary'' ''Origin''] else []) @
     [SetHeader ''Access-Control-Allow-Origin''
        (if allowedOrigins ch = [] \<or> ''*'' \<in> set (allowedOrigins ch) then ''*'' else origin)]"

text \<open>\<open>h\<close> is what the handler behind does with the request.\<close>

definition cors_ServeHTTP ::
    "cors \<Rightarrow> (server_request \<Rightarrow> 's server \<Rightarrow> ('b event list \<times> unit go) \<times> 's server)
     \<Rightarrow> server_request \<Rightarrow> 's server \<Rightarrow> ('b event list \<times> unit go) \<times> 's server" where
  "cors_ServeHTTP ch h r s =
     (let origin = header_get ''Origin'' r in
      if \<not> isOriginAllowed ch origin
      then (if rq_Method r \<noteq> ''OPTIONS'' \<or> ignoreOptions ch then h r s else (([], Return ()), s))
      else if rq_Method r = ''OPTIONS'' then
        (if ignoreOptions ch then h r s
         else case preflight ch r of
           Inl code \<Rightarrow> (([WroteHeader code], Return ()), s)
         | Inr es \<Rightarrow> ((es @ origin_headers ch origin @ [WroteHeader (optionStatusCode ch)], Return ()), s))
      else
        (case h r s of ((es, g), s1) \<Rightarrow> ((exposed ch @ origin_headers ch origin @ es, g), s1)))"

text \<open>\<open>handlers.CORS(credentials, originsOk, headersOk, methodsOk)(router)\<close> of \<open>Run\<close>.\<close>

definition muxWithCORS ::
    "string list \<Rightarrow> string list \<Rightarrow> string list \<Rightarrow> ('b, 's) server_env
     \<Rightarrow> server_request \<Rightarrow> 's server \<Rightarrow> ('b event list \<times> unit go) \<times> 's server" where
  "muxWithCORS origins headers methods env =
     cors_ServeHTTP
       (parseCORSOptions [AllowCredentials, AllowedOrigins origins, AllowedHeaders headers, AllowedMethods methods])
       (serve env)"

section \<open>What it guards and what it does not\<close>

definition only_headers :: "'b event list \<Rightarrow> bool" where
  "only_headers es \<longleftrightarrow> (\<forall>e \<in> set es. \<exists>n v. e = SetHeader n v)"

lemma program_cors:
  "parseCORSOptions [AllowCredentials, AllowedOrigins origins, AllowedHeaders headers, AllowedMethods methods] =
     \<lparr>allowedHeaders = add_names CanonicalHeaderKey headers defaultCorsHeaders,
      allowedMethods = add_names ToUpper methods [],
      allowedOrigins = (if ''*'' \<in> set origins then [''*''] else origins),
      exposedHeaders = [], maxAge = 0, ignoreOptions = False, allowCredentials = True, optionStatusCode = 200\<rparr>"
  by (simp add: parseCORSOptions_def AllowCredentials_def AllowedOrigins_def AllowedHeaders_def AllowedMethods_def)

lemma only_headers_simps [simp]:
  "only_headers []" "only_headers (SetHeader n v # es) = only_headers es"
  "only_headers (es @ es') \<longleftrightarrow> only_headers es \<and> only_headers es'"
  by (auto simp: only_headers_def)

lemma origin_headers_only: "only_headers (origin_headers ch origin)" "only_headers (exposed ch)"
  by (auto simp: origin_headers_def exposed_def)

lemma preflight_only: "preflight ch r = Inr es \<Longrightarrow> only_headers es"
  by (auto simp: preflight_def Let_def split: if_splits option.splits)

lemma allow_origin_in:
  "SetHeader ''Access-Control-Allow-Origin'' v \<in> set (origin_headers ch origin) \<Longrightarrow>
     v = (if allowedOrigins ch = [] \<or> ''*'' \<in> set (allowedOrigins ch) then ''*'' else origin)"
  by (auto simp: origin_headers_def split: if_splits)

lemma preflight_no_origin:
  "preflight ch r = Inr es \<Longrightarrow> SetHeader ''Access-Control-Allow-Origin'' v \<notin> set es"
  by (auto simp: preflight_def Let_def split: if_splits option.splits)

abbreviation program_options :: "string list \<Rightarrow> string list \<Rightarrow> string list \<Rightarrow> cors" where
  "program_options origins headers methods \<equiv>
     parseCORSOptions [AllowCredentials, AllowedOrigins origins, AllowedHeaders headers, AllowedMethods methods]"

lemma program_flags:
  "\<not> ignoreOptions (program_options origins headers methods)" "optionStatusCode (program_options origins headers methods) = 200"
  by (simp_all add: program_cors)

lemma program_origin:
  "isOriginAllowed (program_options origins headers methods) origin \<Longrightarrow>
     origin \<in> set origins \<or> ''*'' \<in> set origins \<or> origins = []"
  by (auto simp: isOriginAllowed_def program_cors list_ex_iff split: if_splits)

lemma headers_then_status: "only_headers es \<Longrightarrow> client_status (es @ [WroteHeader c]) = c"
  by (induction es) (auto simp: only_headers_def)

lemma preflight_codes: "preflight ch r = Inl code \<Longrightarrow> code \<in> {400, 403, 405}"
  by (auto simp: preflight_def Let_def split: if_splits option.splits)

lemma cors_options:
  assumes "rq_Method r = ''OPTIONS''"
  shows "\<exists>es. muxWithCORS origins headers methods env r s = ((es, Return ()), s) \<and>
    client_status es \<in> {200, 400, 403, 405} \<and>
    (\<forall>v. SetHeader ''Access-Control-Allow-Origin'' v \<in> set es \<longrightarrow>
       header_get ''Origin'' r \<in> set origins \<or> ''*'' \<in> set origins \<or> origins = [])"
proof -
  let ?ch = "program_options origins headers methods" and ?origin = "header_get ''Origin'' r"
  note run = muxWithCORS_def cors_ServeHTTP_def Let_def
  consider "\<not> isOriginAllowed ?ch ?origin"
    | code where "isOriginAllowed ?ch ?origin" "preflight ?ch r = (Inl code :: int + 'a event list)"
    | es where "isOriginAllowed ?ch ?origin" "preflight ?ch r = (Inr es :: int + 'a event list)"
    by (metis sum.exhaust)
  then show ?thesis
  proof cases
    case 1
    then show ?thesis using assms program_flags by (simp add: run)
  next
    case (2 code)
    then show ?thesis using assms program_flags preflight_codes [OF 2(2)] by (auto simp: run)
  next
    case (3 es)
    have "client_status ((es @ origin_headers ?ch ?origin) @ [WroteHeader 200]) = 200"
      by (rule headers_then_status) (simp add: preflight_only [OF 3(2)] origin_headers_only)
    then show ?thesis using assms program_flags 3 program_origin [OF 3(1)] by (simp add: run)
  qed
qed

text \<open>
  C39.
  What the CORS handler does for the API. A request that is no \<open>OPTIONS\<close> reaches the router
  whatever its origin is, and the answer is the router's with headers in front, so that a foreign
  origin is kept from reading an answer, never from having its request carried out. An \<open>OPTIONS\<close>
  request never reaches the router and changes nothing; it is answered 200, 400, 403 or 405. And the
  answer names an origin to the browser only if the origin of the request is configured, the
  configuration has a star, or it has no origins at all.
\<close>

theorem cors_guards_answers_only:
  "(rq_Method r \<noteq> ''OPTIONS'' \<longrightarrow>
      (\<exists>hs. only_headers hs \<and> muxWithCORS origins headers methods env r s =
         ((hs @ fst (fst (serve env r s)), snd (fst (serve env r s))), snd (serve env r s)) \<and>
       (hs \<noteq> [] \<longrightarrow> header_get ''Origin'' r \<in> set origins \<or> ''*'' \<in> set origins \<or> origins = [])))
   \<and> (rq_Method r = ''OPTIONS'' \<longrightarrow>
      (\<exists>es. muxWithCORS origins headers methods env r s = ((es, Return ()), s) \<and>
         client_status es \<in> {200, 400, 403, 405} \<and>
         (\<forall>v. SetHeader ''Access-Control-Allow-Origin'' v \<in> set es \<longrightarrow>
            header_get ''Origin'' r \<in> set origins \<or> ''*'' \<in> set origins \<or> origins = [])))"
proof (intro conjI impI)
  let ?ch = "program_options origins headers methods" and ?origin = "header_get ''Origin'' r"
  let ?hs = "if isOriginAllowed ?ch ?origin then exposed ?ch @ origin_headers ?ch ?origin else []"
  assume "rq_Method r \<noteq> ''OPTIONS''"
  then have run: "muxWithCORS origins headers methods env r s =
      ((?hs @ fst (fst (serve env r s)), snd (fst (serve env r s))), snd (serve env r s))"
    by (simp add: muxWithCORS_def cors_ServeHTTP_def Let_def split: prod.splits)
  show "\<exists>hs. only_headers hs \<and> muxWithCORS origins headers methods env r s =
       ((hs @ fst (fst (serve env r s)), snd (fst (serve env r s))), snd (serve env r s)) \<and>
     (hs \<noteq> [] \<longrightarrow> ?origin \<in> set origins \<or> ''*'' \<in> set origins \<or> origins = [])"
    unfolding run using program_origin by (intro exI [of _ ?hs]) (auto simp: origin_headers_only)
qed (rule cors_options)

definition foreign :: "string \<Rightarrow> server_request" where
  "foreign meth = (rt_request meth ''/api/maps/7'' (Some ''sid''))\<lparr>rq_Header := [(''Origin'', [''https://other.org''])]\<rparr>"

lemma cors_guards_answers_only_witness:
  "let env = (rt_env rt_user (\<lambda>w ctx r s. (([Wrote NullBody], Return ()), s\<lparr>sv_app := True\<rparr>)) :: (unit, bool) server_env)
   in muxWithCORS [''https://app.org''] [] [''DELETE''] env (foreign ''DELETE'') (rt_server False) =
        serve env (foreign ''DELETE'') (rt_server False) \<and>
      snd (muxWithCORS [''https://app.org''] [] [''DELETE''] env (foreign ''OPTIONS'') (rt_server False)) = rt_server False"
proof -
  let ?env = "rt_env rt_user (\<lambda>w ctx r s. (([Wrote NullBody], Return ()), s\<lparr>sv_app := True\<rparr>)) :: (unit, bool) server_env"
  note guards = cors_guards_answers_only [where env = ?env and s = "rt_server False" and headers = "[]"
      and origins = "[''https://app.org'']" and methods = "[''DELETE'']"]
  from guards [THEN conjunct1, of "foreign ''DELETE''"] guards [THEN conjunct2, of "foreign ''OPTIONS''"]
  show ?thesis by (auto simp: foreign_def rt_request_def header_get_def Let_def)
qed

end
