(* ===== verification/Startup.thy ===== *)
theory Startup
  imports Config Logging Metrics Cors
begin

text \<open>
  How the program starts (\<open>cmd/app/main.go\<close>, \<open>db\<close>, \<open>Server.Run\<close> of \<open>server/app.go\<close>) with the
  connections it makes (\<open>server/repository/dbinit\<close>, \<open>grpcconnection\<close>, \<open>socks5proxy\<close>): a sequence of
  calls to services outside, each of which may fail and then ends the process.

  The state is what such a run leaves behind: the calls made, the environment of the process, the
  registered metrics and the log. What a call answers is a parameter and may depend on the calls
  before it; so are the files. Constructors that only build values (repositories, usecases,
  handlers) are left out here, they are the models of the other theories.
\<close>

section \<open>Addresses\<close>

definition host_port :: "string \<Rightarrow> string \<Rightarrow> string" where
  "host_port host port = host @ '':'' @ port"

definition NewMongoConnectionURI :: "string \<Rightarrow> string \<Rightarrow> string \<Rightarrow> string \<Rightarrow> bool \<Rightarrow> string" where
  "NewMongoConnectionURI user password host port isSecure =
     (if isSecure then ''mongodb://'' @ user @ '':'' @ password @ ''@'' @ host @ '':'' @ port @ ''/?tls=true''
      else ''mongodb://'' @ user @ '':'' @ password @ ''@'' @ host @ '':'' @ port)"

definition NewConnectionString :: "string \<Rightarrow> string \<Rightarrow> string \<Rightarrow> string \<Rightarrow> string \<Rightarrow> string" where
  "NewConnectionString user password host port dbname =
     ''postgres://'' @ user @ '':'' @ password @ ''@'' @ host @ '':'' @ port @ ''/'' @ dbname"

fun NewMinioEndpoint :: "string \<Rightarrow> string list \<Rightarrow> string" where
  "NewMinioEndpoint host (port # ports) = host @ '':'' @ port"
| "NewMinioEndpoint host [] = host"

record pool_config =
  MaxConns :: int
  MinConns :: int
  MaxConnLifetime :: int
  MaxConnIdleTime :: int
  HealthCheckPeriod :: int
  ConnectTimeout :: int

definition postgresPoolConfig :: pool_config where
  "postgresPoolConfig =
     \<lparr>MaxConns = 90, MinConns = 0, MaxConnLifetime = 60 * 60 * second, MaxConnIdleTime = 60 * second * 30,
      HealthCheckPeriod = 60 * second, ConnectTimeout = second * 5\<rparr>"

record http_server =
  hs_Addr :: string
  hs_ReadTimeout :: int
  hs_WriteTimeout :: int

text \<open>The product of two \<open>time.Duration\<close> wraps around.\<close>

definition wrap64 :: "int \<Rightarrow> int" where
  "wrap64 i = sint (word_of_int i :: 64 word)"

definition createServerConfig :: "string \<Rightarrow> int \<Rightarrow> string \<times> int" where
  "createServerConfig addr timeout = (addr, wrap64 (second * timeout))"

definition createServer :: "string \<times> int \<Rightarrow> http_server" where
  "createServer c = \<lparr>hs_Addr = fst c, hs_ReadTimeout = snd c, hs_WriteTimeout = snd c\<rparr>"

section \<open>The world and a run\<close>

datatype call =
    Iofs string | SqlOpen string | PostgresDriver | NewMigrate string string | MigrateUp | MigrateTo nat
  | GrpcNewClient string bool | GrpcDial string bool | Socks5 string
  | MongoConnect string | MongoPing
  | MinioNew string string string bool | MinioListBuckets
  | PgParseConfig string | PgNewPool string pool_config | PgPing
  | RedisPing string string int
  | ListenAndServe http_server

record world =
  w_envfile :: "string \<Rightarrow> environment option"
  w_yaml :: "string \<Rightarrow> config option"
  w_ParseInt :: "string \<Rightarrow> int option"
  w_ParseDuration :: "string \<Rightarrow> int option"
  w_log_builds :: "string \<Rightarrow> string \<Rightarrow> bool"
  w_answer :: "call list \<Rightarrow> call \<Rightarrow> string option"

record boot =
  bt_calls :: "call list"
  bt_env :: environment
  bt_metrics :: registry
  bt_sink :: sink

text \<open>A part of a run ends the process with a message (\<open>log.Fatal\<close>, \<open>DBFatal\<close>) or goes on with a value.\<close>

type_synonym 'a boots = "boot \<Rightarrow> (string + 'a) \<times> boot"

definition go_on :: "'a \<Rightarrow> 'a boots" where
  "go_on x b = (Inr x, b)"

definition fatal :: "string \<Rightarrow> 'a boots" where
  "fatal msg b = (Inl msg, b)"

definition boot_bind :: "'a boots \<Rightarrow> ('a \<Rightarrow> 'b boots) \<Rightarrow> 'b boots" where
  "boot_bind m k b = (case m b of (Inl msg, b1) \<Rightarrow> (Inl msg, b1) | (Inr x, b1) \<Rightarrow> k x b1)"

definition made :: "call \<Rightarrow> boot \<Rightarrow> boot" where
  "made c b = b\<lparr>bt_calls := bt_calls b @ [c]\<rparr>"

text \<open>A call, with what follows when it fails.\<close>

definition call_or :: "world \<Rightarrow> call \<Rightarrow> (string \<Rightarrow> unit boots) \<Rightarrow> unit boots" where
  "call_or w c on_error b =
     (case w_answer w (bt_calls b) c of
        None \<Rightarrow> (Inr (), made c b)
      | Some problem \<Rightarrow> on_error problem (made c b))"

definition must :: "world \<Rightarrow> call \<Rightarrow> string \<Rightarrow> unit boots" where
  "must w c msg = call_or w c (\<lambda>problem. fatal (msg @ problem))"

definition getenv :: "string \<Rightarrow> string boots" where
  "getenv k b = (Inr (case bt_env b k of None \<Rightarrow> [] | Some v \<Rightarrow> v), b)"

definition setenv :: "string \<Rightarrow> string \<Rightarrow> unit boots" where
  "setenv k v b = (Inr (), b\<lparr>bt_env := (bt_env b)(k \<mapsto> v)\<rparr>)"

definition with_metrics :: "(registry \<Rightarrow> (string + 'm) \<times> registry) \<Rightarrow> string \<Rightarrow> 'm boots" where
  "with_metrics create msg b =
     (case create (bt_metrics b) of
        (Inl problem, g) \<Rightarrow> (Inl (msg @ problem), b\<lparr>bt_metrics := g\<rparr>)
      | (Inr m, g) \<Rightarrow> (Inr m, b\<lparr>bt_metrics := g\<rparr>))"

text \<open>A line of the log; a logger whose call panics ends the process as well.\<close>

definition with_log :: "(sink \<Rightarrow> 'a go \<times> sink) \<Rightarrow> 'a boots" where
  "with_log f b =
     (case f (bt_sink b) of
        (Return x, k) \<Rightarrow> (Inr x, b\<lparr>bt_sink := k\<rparr>)
      | (_, k) \<Rightarrow> (Inl ''panic'', b\<lparr>bt_sink := k\<rparr>))"

definition db_fatal ::
    "logger \<Rightarrow> string \<Rightarrow> string \<Rightarrow> string \<Rightarrow> go_any \<Rightarrow> bool \<Rightarrow> string \<Rightarrow> string \<Rightarrow> unit boots" where
  "db_fatal lg host port db dbName isSecure msg problem =
     boot_bind (with_log (DBFatal lg host port db dbName isSecure msg (Some problem)))
       (\<lambda>exited. if exited then fatal msg else go_on ())"

section \<open>Migrations\<close>

definition ErrNoChange :: string where "ErrNoChange = ''no change''"

text \<open>\<open>strconv.ParseUint\<close> in base 10 with 64 bits.\<close>

definition ParseUint :: "string \<Rightarrow> nat option" where
  "ParseUint s = (case Strconv.unsigned s of Some n \<Rightarrow> if n < 2 ^ 64 then Some n else None | None \<Rightarrow> None)"

definition migrate_call :: "world \<Rightarrow> call \<Rightarrow> unit boots" where
  "migrate_call w c = call_or w c (\<lambda>problem. if problem = ErrNoChange then go_on () else fatal (''Failed to apply migrations: '' @ problem))"

definition applyMigrations :: "world \<Rightarrow> string \<Rightarrow> unit boots" where
  "applyMigrations w versionStr =
     boot_bind (must w PostgresDriver ''Failed to apply migrations: '') (\<lambda>_.
     boot_bind (must w (NewMigrate ''migration_embedded_sql_files'' ''psql_db'') ''Failed to apply migrations: '') (\<lambda>_.
     if versionStr = ''latest'' then migrate_call w MigrateUp
     else case ParseUint versionStr of
       None \<Rightarrow> fatal (''Failed to apply migrations: invalid migration version: '' @ versionStr)
     | Some version \<Rightarrow> migrate_call w (MigrateTo version)))"

definition ApplyMigrations :: "world \<Rightarrow> string \<Rightarrow> unit boots" where
  "ApplyMigrations w versionStr =
     boot_bind (must w (Iofs ''migrations'') ''Failed to initialize migrator: '') (\<lambda>_.
     boot_bind (getenv ''POSTGRES_USERNAME'') (\<lambda>user.
     boot_bind (getenv ''POSTGRES_PASSWORD'') (\<lambda>password.
     boot_bind (getenv ''POSTGRES_HOST'') (\<lambda>host.
     boot_bind (getenv ''POSTGRES_PORT'') (\<lambda>port.
     boot_bind (getenv ''POSTGRES_DB'') (\<lambda>db.
     boot_bind (must w (SqlOpen (NewConnectionString user password host port db @ ''?sslmode=disable''))
       ''Unable to connect to database for migrations: '') (\<lambda>_.
     applyMigrations w versionStr)))))))"

section \<open>The server\<close>

definition ConnectToMongoDatabase :: "world \<Rightarrow> string \<Rightarrow> unit boots" where
  "ConnectToMongoDatabase w uri =
     boot_bind (must w (MongoConnect uri) ''Cannot connect to MongoDB client '') (\<lambda>_.
     must w MongoPing ''Cannot ping MongoDB '')"

definition NewPostgresPool :: "world \<Rightarrow> string \<Rightarrow> (string \<Rightarrow> unit boots) \<Rightarrow> unit boots" where
  "NewPostgresPool w dbURL on_error =
     boot_bind (must w (PgParseConfig dbURL) ''Failed to create postgres config '') (\<lambda>_.
     call_or w (PgNewPool dbURL postgresPoolConfig) on_error)"

definition CreateGRPCConn :: "world \<Rightarrow> string \<Rightarrow> string \<Rightarrow> string \<Rightarrow> unit boots" where
  "CreateGRPCConn w host port msg =
     must w (GrpcDial (host_port host port) (\<not> (host = [] \<or> host = ''localhost'' \<or> host = ''127.0.0.1''))) msg"

text \<open>The first half of \<open>Run\<close>: the services that are not databases.\<close>

definition connect_services :: "world \<Rightarrow> config \<Rightarrow> unit boots" where
  "connect_services w cfg =
     boot_bind (must w (GrpcNewClient (host_port (svc_Host (sv_Description (cf_Services cfg)))
         (svc_Port (sv_Description (cf_Services cfg)))) False)
       ''Error occurred while starting grpc connection on description service, '') (\<lambda>_.
     boot_bind (CreateGRPCConn w (svc_Host (sv_ActionProcessor (cf_Services cfg)))
         (svc_Port (sv_ActionProcessor (cf_Services cfg))) ''Failed to connect to ActionProcessorService: '') (\<lambda>_.
     must w (Socks5 (host_port (sx_IP (cf_Socks5Proxie cfg)) (sx_Port (cf_Socks5Proxie cfg))))
       ''failed to create proxy client: ''))"

definition connect_mongo :: "world \<Rightarrow> logger \<Rightarrow> config \<Rightarrow> bool \<Rightarrow> dbMetrics boots" where
  "connect_mongo w lg cfg isProduction =
     (let c = cf_Mongo cfg in
      boot_bind (ConnectToMongoDatabase w
        (NewMongoConnectionURI (db_Username c) (db_Password c) (db_Host c) (db_Port c) (\<not> isProduction))) (\<lambda>_.
      boot_bind (with_log (DBInfo lg (db_Host c) (db_Port c) ''mongodb'' (GString (db_DBName c)) (\<not> isProduction))) (\<lambda>_.
      with_metrics (NewDBMetrics ''mongo'') ''Something went wrong initializing prometheus mongo metrics, '')))"

definition connect_minio :: "world \<Rightarrow> logger \<Rightarrow> config \<Rightarrow> unit boots" where
  "connect_minio w lg cfg =
     (let c = cf_Minio cfg; minioURI = NewMinioEndpoint (mi_Host c) [];
          failed = db_fatal lg (mi_Host c) (mi_Port c) ''minio'' (GString []) True in
      boot_bind (call_or w (MinioNew minioURI (mi_AccessKey c) (mi_SecretKey c) True)
        (failed ''Failed to initialize MinIO client'')) (\<lambda>_.
      boot_bind (call_or w MinioListBuckets (failed ''Failed to connect to MinIO server'')) (\<lambda>_.
      with_log (DBInfo lg (mi_Host c) (mi_Port c) ''minio'' (GString []) True))))"

definition connect_postgres :: "world \<Rightarrow> logger \<Rightarrow> config \<Rightarrow> dbMetrics boots" where
  "connect_postgres w lg cfg =
     (let c = cf_Postgres cfg;
          failed = db_fatal lg (db_Host c) (db_Port c) ''postgres'' (GString (db_DBName c)) False in
      boot_bind (NewPostgresPool w
        (NewConnectionString (db_Username c) (db_Password c) (db_Host c) (db_Port c) (db_DBName c))
        (failed ''Something went wrong while creating postgres pool'')) (\<lambda>_.
      boot_bind (call_or w PgPing (failed ''Cannot ping postgres database'')) (\<lambda>_.
      boot_bind (with_log (DBInfo lg (db_Host c) (db_Port c) ''postgres'' (GString (db_DBName c)) False)) (\<lambda>_.
      with_metrics (NewDBMetrics ''postgres'') ''Something went wrong initializing prometheus postgres metrics, ''))))"

definition connect_redis :: "world \<Rightarrow> logger \<Rightarrow> config \<Rightarrow> dbMetrics boots" where
  "connect_redis w lg cfg =
     (let c = cf_Redis cfg in
      boot_bind (call_or w (RedisPing (host_port (rd_Host c) (rd_Port c)) (rd_Password c) (rd_DB c))
        (db_fatal lg (rd_Host c) (rd_Port c) ''redis'' (GInt (rd_DB c)) False ''Cannot ping Redis'')) (\<lambda>_.
      boot_bind (with_log (DBInfo lg (rd_Host c) (rd_Port c) ''redis'' (GInt (rd_DB c)) False)) (\<lambda>_.
      with_metrics (NewDBMetrics ''redis'') ''Something went wrong initializing prometheus redis metrics, '')))"

text \<open>
  \<open>ListenAndServe\<close> comes back only with an error: that it answers nothing means that the server
  listens.
\<close>

definition listen :: "world \<Rightarrow> logger \<Rightarrow> config \<Rightarrow> bool \<Rightarrow> unit boots" where
  "listen w lg cfg isProduction =
     (let c = cf_Server cfg;
          server = createServer (createServerConfig (host_port (srv_Host c) (srv_Port c)) (srv_Timeout c)) in
      boot_bind (with_log (ServerInfo lg (srv_Host c) (srv_Port c) isProduction)) (\<lambda>_.
      must w (ListenAndServe server) ''Error occurred while starting server ''))"

text \<open>\<open>Run\<close> behind the configuration and the log.\<close>

definition run_with :: "world \<Rightarrow> config \<Rightarrow> logger \<Rightarrow> bool \<Rightarrow> unit boots" where
  "run_with w cfg lg isProduction =
     boot_bind (with_metrics NewHTTPMetrics ''Something went wrong initializing prometheus app metrics, '') (\<lambda>m.
     boot_bind (connect_services w cfg) (\<lambda>_.
     boot_bind (connect_mongo w lg cfg isProduction) (\<lambda>mongoMetrics.
     boot_bind (connect_minio w lg cfg) (\<lambda>_.
     boot_bind (connect_postgres w lg cfg) (\<lambda>postgresMetrics.
     boot_bind (connect_redis w lg cfg) (\<lambda>redisMetrics.
     boot_bind (with_metrics NewWSMetrics ''Something went wrong initializing websocket metrics, '') (\<lambda>ws.
     boot_bind (with_metrics NewWSSessionMetrics ''Something went wrong initializing websocket session metrics, '') (\<lambda>wss.
     listen w lg cfg isProduction))))))))"

definition Run :: "world \<Rightarrow> unit boots" where
  "Run w =
     boot_bind (getenv ''CONFIG_PATH'') (\<lambda>cfgPath.
     boot_bind (getenv ''SERVER_MODE'') (\<lambda>mode.
     let isProduction = (mode = ''production'') in
     boot_bind (\<lambda>b. (case ReadConfig (w_yaml w) (w_ParseInt w) (w_ParseDuration w) (bt_env b) cfgPath of
         None \<Rightarrow> fatal ''The config wasn`t opened'' b
       | Some cfg \<Rightarrow> go_on (cfg\<lparr>cf_IsProd := isProduction\<rparr>) b)) (\<lambda>cfg.
     boot_bind (case New (w_log_builds w (lo_OutputPath (cf_Logger cfg)) (lo_ErrPath (cf_Logger cfg))) of
         None \<Rightarrow> fatal ''Failed to initialize log: ''
       | Some lg \<Rightarrow> go_on lg) (\<lambda>lg.
     run_with w cfg lg isProduction))))"

section \<open>The main program\<close>

text \<open>\<open>godotenv.Load\<close>: variables that are set already stay.\<close>

definition load_env :: "world \<Rightarrow> string \<Rightarrow> bool boots" where
  "load_env w file b =
     (case w_envfile w file of
        None \<Rightarrow> (Inr False, b)
      | Some e \<Rightarrow> (Inr True, b\<lparr>bt_env := (\<lambda>k. case bt_env b k of Some v \<Rightarrow> Some v | None \<Rightarrow> e k)\<rparr>))"

definition main :: "world \<Rightarrow> bool \<Rightarrow> string \<Rightarrow> unit boots" where
  "main w production migrations =
     boot_bind (load_env w (if production then ''prod.env'' else ''.env'')) (\<lambda>loaded.
     boot_bind (setenv ''SERVER_MODE'' (if production then ''production'' else ''development'')) (\<lambda>_.
     boot_bind (if migrations \<noteq> [] then ApplyMigrations w migrations else go_on ()) (\<lambda>_.
     if \<not> loaded then fatal ''Error loading env file '' else Run w)))"

end
