(* ===== verification/StartupRun.thy ===== *)
theory StartupRun
  imports Startup
begin

text \<open>
  The start of the program against a plan: the calls it means to make, in order. The program makes
  them up to the first that fails, and listens exactly when none does.
\<close>

section \<open>The plan\<close>

fun is_migration :: "call \<Rightarrow> bool" where
  "is_migration MigrateUp = True"
| "is_migration (MigrateTo n) = True"
| "is_migration c = False"

definition call_fails :: "world \<Rightarrow> call list \<Rightarrow> call \<Rightarrow> bool" where
  "call_fails w before c =
     (case w_answer w before c of None \<Rightarrow> False | Some e \<Rightarrow> \<not> (is_migration c \<and> e = ErrNoChange))"

fun until_failure :: "world \<Rightarrow> call list \<Rightarrow> call list \<Rightarrow> call list \<times> bool" where
  "until_failure w before [] = (before, True)"
| "until_failure w before (c # cs) =
     (if call_fails w before c then (before @ [c], False) else until_failure w (before @ [c]) cs)"

text \<open>A plan is its calls, and whether the process goes on after them.\<close>

fun carried_out :: "world \<Rightarrow> call list \<Rightarrow> call list \<times> bool \<Rightarrow> call list \<times> bool" where
  "carried_out w before (cs, ok) = (case until_failure w before cs of (calls, good) \<Rightarrow> (calls, good \<and> ok))"

definition env_text :: "environment \<Rightarrow> string \<Rightarrow> string" where
  "env_text env k = (case env k of None \<Rightarrow> [] | Some v \<Rightarrow> v)"

definition migration_plan :: "environment \<Rightarrow> string \<Rightarrow> call list \<times> bool" where
  "migration_plan env versionStr =
     (if versionStr = [] then ([], True)
      else
        let url = NewConnectionString (env_text env ''POSTGRES_USERNAME'') (env_text env ''POSTGRES_PASSWORD'')
              (env_text env ''POSTGRES_HOST'') (env_text env ''POSTGRES_PORT'') (env_text env ''POSTGRES_DB'');
            first = [Iofs ''migrations'', SqlOpen (url @ ''?sslmode=disable''), PostgresDriver,
              NewMigrate ''migration_embedded_sql_files'' ''psql_db'']
        in if versionStr = ''latest'' then (first @ [MigrateUp], True)
           else case ParseUint versionStr of
             None \<Rightarrow> (first, False)
           | Some version \<Rightarrow> (first @ [MigrateTo version], True))"

definition server_plan :: "config \<Rightarrow> bool \<Rightarrow> call list" where
  "server_plan cfg isProduction =
     (let de = sv_Description (cf_Services cfg); ap = sv_ActionProcessor (cf_Services cfg); px = cf_Socks5Proxie cfg;
          mo = cf_Mongo cfg; mi = cf_Minio cfg; po = cf_Postgres cfg; re = cf_Redis cfg; sr = cf_Server cfg;
          url = NewConnectionString (db_Username po) (db_Password po) (db_Host po) (db_Port po) (db_DBName po);
          timeout = wrap64 (second * srv_Timeout sr) in
      [GrpcNewClient (host_port (svc_Host de) (svc_Port de)) False,
       GrpcDial (host_port (svc_Host ap) (svc_Port ap)) (\<not> (svc_Host ap = [] \<or> svc_Host ap = ''localhost'' \<or> svc_Host ap = ''127.0.0.1'')),
       Socks5 (host_port (sx_IP px) (sx_Port px)),
       MongoConnect (NewMongoConnectionURI (db_Username mo) (db_Password mo) (db_Host mo) (db_Port mo) (\<not> isProduction)),
       MongoPing,
       MinioNew (mi_Host mi) (mi_AccessKey mi) (mi_SecretKey mi) True,
       MinioListBuckets,
       PgParseConfig url, PgNewPool url postgresPoolConfig, PgPing,
       RedisPing (host_port (rd_Host re) (rd_Port re)) (rd_Password re) (rd_DB re),
       ListenAndServe \<lparr>hs_Addr = host_port (srv_Host sr) (srv_Port sr), hs_ReadTimeout = timeout, hs_WriteTimeout = timeout\<rparr>])"

definition run_plan :: "world \<Rightarrow> bool \<Rightarrow> environment \<Rightarrow> call list \<times> bool" where
  "run_plan w production env =
     (case ReadConfig (w_yaml w) (w_ParseInt w) (w_ParseDuration w) env (env_text env ''CONFIG_PATH'') of
        None \<Rightarrow> ([], False)
      | Some cfg \<Rightarrow>
          (if w_log_builds w (lo_OutputPath (cf_Logger cfg)) (lo_ErrPath (cf_Logger cfg))
           then (server_plan cfg production, True) else ([], False)))"

text \<open>The environment after the file has been read and the mode set.\<close>

definition process_env :: "world \<Rightarrow> bool \<Rightarrow> environment \<Rightarrow> environment" where
  "process_env w production env =
     (case w_envfile w (if production then ''prod.env'' else ''.env'') of
        None \<Rightarrow> env
      | Some e \<Rightarrow> (\<lambda>k. case env k of Some v \<Rightarrow> Some v | None \<Rightarrow> e k))
     (''SERVER_MODE'' \<mapsto> if production then ''production'' else ''development'')"

definition then_plan :: "call list \<times> bool \<Rightarrow> call list \<times> bool \<Rightarrow> call list \<times> bool" where
  "then_plan p q = (if snd p then (fst p @ fst q, snd q) else p)"

definition main_plan :: "world \<Rightarrow> bool \<Rightarrow> string \<Rightarrow> environment \<Rightarrow> call list \<times> bool" where
  "main_plan w production migrations env =
     then_plan (migration_plan (process_env w production env) migrations)
       (if w_envfile w (if production then ''prod.env'' else ''.env'') = None then ([], False)
        else run_plan w production (process_env w production env))"

section \<open>Following a plan\<close>

text \<open>
  \<open>follows w env names plan m\<close>: run in the environment \<open>env\<close>, with \<open>names\<close> not yet registered, \<open>m\<close>
  carries out the plan. The rules take the first step off a program.
\<close>

definition follows :: "world \<Rightarrow> environment \<Rightarrow> string list \<Rightarrow> call list \<times> bool \<Rightarrow> 'a boots \<Rightarrow> bool" where
  "follows w env names p m \<longleftrightarrow>
     (\<forall>b. bt_env b = env \<and> distinct names \<and> set names \<inter> set (registered (bt_metrics b)) = {} \<longrightarrow>
        (bt_calls (snd (m b)), \<not> isl (fst (m b))) = carried_out w (bt_calls b) p)"

definition ends :: "(string \<Rightarrow> unit boots) \<Rightarrow> bool" where
  "ends f \<longleftrightarrow> (\<forall>e b. isl (fst (f e b)) \<and> bt_calls (snd (f e b)) = bt_calls b)"

named_theorems following "rules for follows"

lemma boot_assoc: "boot_bind (boot_bind m k) k' = boot_bind m (\<lambda>x. boot_bind (k x) k')"
  by (rule ext) (auto simp: boot_bind_def split: prod.splits sum.splits)

lemma boot_go_on: "boot_bind (go_on x) k = k x"
  by (rule ext) (simp add: boot_bind_def go_on_def)

lemma boot_last: "m = boot_bind m go_on"
  by (rule ext) (auto simp: boot_bind_def go_on_def split: prod.splits sum.splits)

lemma boot_fatal: "boot_bind (fatal msg) k = fatal msg"
  by (rule ext) (simp add: boot_bind_def fatal_def)

lemma follows_go_on [following]: "follows w env names ([], True) (go_on x)"
  by (simp add: follows_def go_on_def)

lemma follows_fatal [following]: "follows w env names ([], False) (fatal msg)"
  by (simp add: follows_def fatal_def)

lemma follows_getenv [following]:
  "follows w env names p (k (env_text env key)) \<Longrightarrow> follows w env names p (boot_bind (getenv key) k)"
  by (simp add: follows_def boot_bind_def getenv_def env_text_def)

lemma ends_fatal: "ends (\<lambda>e. fatal (msg @ e))"
  by (simp add: ends_def fatal_def)

lemma ends_db_fatal: "ends (db_fatal (Zap l) host port db name secure msg)"
  by (simp add: ends_def db_fatal_def boot_bind_def with_log_def fatal_def)

lemma made_simps [simp]:
  "bt_calls (made c b) = bt_calls b @ [c]" "bt_env (made c b) = bt_env b" "bt_metrics (made c b) = bt_metrics b"
  by (simp_all add: made_def)

lemma follows_call:
  assumes "ends f" "\<not> is_migration c" "follows w env names (cs, ok) (k ())"
  shows "follows w env names (c # cs, ok) (boot_bind (call_or w c f) k)"
  unfolding follows_def
proof (intro allI impI)
  fix b :: boot
  assume a: "bt_env b = env \<and> distinct names \<and> set names \<inter> set (registered (bt_metrics b)) = {}"
  show "(bt_calls (snd (boot_bind (call_or w c f) k b)), \<not> isl (fst (boot_bind (call_or w c f) k b))) =
      carried_out w (bt_calls b) (c # cs, ok)"
  proof (cases "w_answer w (bt_calls b) c")
    case None
    have "(bt_calls (snd (k () (made c b))), \<not> isl (fst (k () (made c b)))) = carried_out w (bt_calls (made c b)) (cs, ok)"
      using assms(3) a unfolding follows_def by simp
    then show ?thesis using None by (simp add: boot_bind_def call_or_def call_fails_def)
  next
    case (Some e)
    obtain r b1 where f: "f e (made c b) = (r, b1)" by fastforce
    have "isl (fst (f e (made c b))) \<and> bt_calls (snd (f e (made c b))) = bt_calls (made c b)"
      using assms(1) unfolding ends_def by blast
    with f have "isl r" "bt_calls b1 = bt_calls b @ [c]" by simp_all
    then show ?thesis using Some f assms(2)
      by (cases r) (auto simp: boot_bind_def call_or_def call_fails_def)
  qed
qed


lemma follows_must [following]:
  "\<not> is_migration c \<Longrightarrow> follows w env names (cs, ok) (k ()) \<Longrightarrow>
     follows w env names (c # cs, ok) (boot_bind (must w c msg) k)"
  unfolding must_def by (rule follows_call [OF ends_fatal])

text \<open>A migration that has nothing to change is no failure; it is the last step of its program.\<close>

lemma follows_migrate [following]:
  assumes "is_migration c" "follows w env names (cs, ok) (k ())"
  shows "follows w env names (c # cs, ok) (boot_bind (migrate_call w c) k)"
  using assms
  by (auto simp: follows_def boot_bind_def migrate_call_def call_or_def call_fails_def go_on_def fatal_def
      split: option.splits)

text \<open>Lines of the log and new metrics change nothing that the plan looks at.\<close>

lemma follows_log:
  assumes "\<And>s. \<exists>x s'. f s = (Return x, s')" "\<And>x. follows w env names p (k x)"
  shows "follows w env names p (boot_bind (with_log f) k)"
  unfolding follows_def
proof (intro allI impI)
  fix b :: boot
  assume a: "bt_env b = env \<and> distinct names \<and> set names \<inter> set (registered (bt_metrics b)) = {}"
  obtain x s' where f: "f (bt_sink b) = (Return x, s')" using assms(1) by blast
  have "(bt_calls (snd (k x (b\<lparr>bt_sink := s'\<rparr>))), \<not> isl (fst (k x (b\<lparr>bt_sink := s'\<rparr>)))) =
      carried_out w (bt_calls (b\<lparr>bt_sink := s'\<rparr>)) p"
    using assms(2) [of x] a unfolding follows_def by simp
  then show "(bt_calls (snd (boot_bind (with_log f) k b)), \<not> isl (fst (boot_bind (with_log f) k b))) =
      carried_out w (bt_calls b) p"
    using f by (simp add: boot_bind_def with_log_def)
qed

lemma follows_DBInfo [following]:
  "(\<And>x. follows w env names p (k x)) \<Longrightarrow> follows w env names p (boot_bind (with_log (DBInfo lg h q db n sec)) k)"
  by (rule follows_log) (cases lg, auto)

lemma follows_ServerInfo [following]:
  "(\<And>x. follows w env names p (k x)) \<Longrightarrow> follows w env names p (boot_bind (with_log (ServerInfo lg h q isProd)) k)"
  by (rule follows_log) (cases lg, auto simp: Let_def)

lemma follows_registering:
  assumes "\<And>x. follows w env names p (k x)"
  shows "follows w env (map co_Name cs @ names) p (boot_bind (with_metrics (registering cs m) msg) k)"
  unfolding follows_def
proof (intro allI impI)
  fix b :: boot
  assume a: "bt_env b = env \<and> distinct (map co_Name cs @ names) \<and>
      set (map co_Name cs @ names) \<inter> set (registered (bt_metrics b)) = {}"
  let ?g = "(bt_metrics b)\<lparr>registered := rev (map co_Name cs) @ registered (bt_metrics b)\<rparr>"
  have g: "Register_all cs (bt_metrics b) = (Inr (), ?g)" using a by (intro Register_all_free) auto
  have "distinct names \<and> set names \<inter> set (registered (bt_metrics (b\<lparr>bt_metrics := ?g\<rparr>))) = {}" using a by auto
  then have "(bt_calls (snd (k m (b\<lparr>bt_metrics := ?g\<rparr>))), \<not> isl (fst (k m (b\<lparr>bt_metrics := ?g\<rparr>)))) =
      carried_out w (bt_calls b) p"
    using assms [of m] a unfolding follows_def
    by (elim allE [of _ "b\<lparr>bt_metrics := ?g\<rparr>"]) simp
  then show "(bt_calls (snd (boot_bind (with_metrics (registering cs m) msg) k b)),
      \<not> isl (fst (boot_bind (with_metrics (registering cs m) msg) k b))) = carried_out w (bt_calls b) p"
    using g by (simp add: boot_bind_def with_metrics_def registering_def)
qed


definition name_parts :: "string list list" where
  "name_parts =
     [map co_Name [hm_totalHits http_collectors, hm_duration http_collectors],
      map co_Name [dm_totalHits (db_collectors ''mongo''), dm_totalErrs (db_collectors ''mongo''), dm_duration (db_collectors ''mongo'')],
      map co_Name [dm_totalHits (db_collectors ''postgres''), dm_totalErrs (db_collectors ''postgres''),
        dm_duration (db_collectors ''postgres'')],
      map co_Name [dm_totalHits (db_collectors ''redis''), dm_totalErrs (db_collectors ''redis''), dm_duration (db_collectors ''redis'')],
      map co_Name [wm_sessions ws_collectors, wm_conns ws_collectors, wm_duration ws_collectors],
      map co_Name [sm_receivedMsgs ws_session_collectors, sm_sentMsgs ws_session_collectors]]"

lemma name_parts: "concat name_parts = map co_Name all_collectors"
  by (simp add: name_parts_def all_collectors_def)

lemmas metrics_constructors =
  NewHTTPMetrics_def [abs_def] NewDBMetrics_def [abs_def] NewWSMetrics_def [abs_def] NewWSSessionMetrics_def [abs_def]

section \<open>The program follows its plan\<close>

lemma follows_run_with:
  "follows w env (concat name_parts) (server_plan cfg isProduction, True) (run_with w cfg (Zap l) isProduction)"
proof -
  have last: "listen w (Zap l) cfg isProduction = boot_bind (listen w (Zap l) cfg isProduction) go_on"
    by (rule boot_last)
  show ?thesis
    unfolding run_with_def connect_services_def connect_mongo_def connect_minio_def connect_postgres_def connect_redis_def
      ConnectToMongoDatabase_def NewPostgresPool_def CreateGRPCConn_def Let_def boot_assoc server_plan_def name_parts_def
      metrics_constructors concat.simps
    apply (subst last)
    unfolding listen_def Let_def boot_assoc createServer_def createServerConfig_def fst_conv snd_conv NewMinioEndpoint.simps
    by (intro following follows_registering follows_call ends_db_fatal) simp_all
qed


lemma follows_config:
  assumes "follows w env names p (case ReadConfig yaml pint pdur env path of None \<Rightarrow> fatal msg | Some cfg \<Rightarrow> k (f cfg))"
  shows "follows w env names p (boot_bind (\<lambda>b. case ReadConfig yaml pint pdur (bt_env b) path of
      None \<Rightarrow> fatal msg b | Some cfg \<Rightarrow> go_on (f cfg) b) k)"
  using assms by (auto simp: follows_def boot_bind_def go_on_def fatal_def split: option.splits)

lemma server_plan_IsProd: "server_plan (cfg\<lparr>cf_IsProd := p\<rparr>) q = server_plan cfg q"
  by (simp add: server_plan_def)

lemma follows_Run:
  assumes "env_text env ''SERVER_MODE'' = (if production then ''production'' else ''development'')"
  shows "follows w env (concat name_parts) (run_plan w production env) (Run w)"
proof -
  let ?cfg = "ReadConfig (w_yaml w) (w_ParseInt w) (w_ParseDuration w) env (env_text env ''CONFIG_PATH'')"
  let ?with = "\<lambda>cfg. boot_bind (case New (w_log_builds w (lo_OutputPath (cf_Logger cfg)) (lo_ErrPath (cf_Logger cfg))) of
         None \<Rightarrow> fatal ''Failed to initialize log: '' | Some lg \<Rightarrow> go_on lg)
       (\<lambda>lg. run_with w cfg lg production)"
  have "follows w env (concat name_parts) (run_plan w production env)
      (case ?cfg of None \<Rightarrow> fatal ''The config wasn`t opened'' | Some cfg \<Rightarrow> ?with (cfg\<lparr>cf_IsProd := production\<rparr>))"
  proof (cases ?cfg)
    case None
    then show ?thesis by (simp add: run_plan_def follows_fatal)
  next
    case (Some cfg)
    show ?thesis
      using Some follows_run_with [of w env "cfg\<lparr>cf_IsProd := production\<rparr>" production "[]"]
      by (simp add: run_plan_def New_def boot_go_on boot_fatal follows_fatal server_plan_IsProd)
  qed
  then have "follows w env (concat name_parts) (run_plan w production env)
      (boot_bind (\<lambda>b. case ReadConfig (w_yaml w) (w_ParseInt w) (w_ParseDuration w) (bt_env b) (env_text env ''CONFIG_PATH'') of
         None \<Rightarrow> fatal ''The config wasn`t opened'' b
       | Some cfg \<Rightarrow> go_on (cfg\<lparr>cf_IsProd := production\<rparr>) b) ?with)"
    by (rule follows_config)
  moreover have mode: "(env_text env ''SERVER_MODE'' = ''production'') = production" using assms by simp
  ultimately show ?thesis unfolding Run_def Let_def by (intro follows_getenv, unfold mode)
qed

lemma follows_migrations:
  assumes "versionStr \<noteq> []" "follows w env names (cs, ok) (k ())"
  shows "follows w env names (then_plan (migration_plan env versionStr) (cs, ok)) (boot_bind (ApplyMigrations w versionStr) k)"
proof -
  have run: "follows w env names (Iofs ''migrations'' # SqlOpen (NewConnectionString (env_text env ''POSTGRES_USERNAME'')
        (env_text env ''POSTGRES_PASSWORD'') (env_text env ''POSTGRES_HOST'') (env_text env ''POSTGRES_PORT'')
        (env_text env ''POSTGRES_DB'') @ ''?sslmode=disable'') # PostgresDriver #
        NewMigrate ''migration_embedded_sql_files'' ''psql_db'' # cs', ok')
      (boot_bind (ApplyMigrations w versionStr) k)"
    if "follows w env names (cs', ok') (boot_bind (if versionStr = ''latest'' then migrate_call w MigrateUp
       else case ParseUint versionStr of
         None \<Rightarrow> fatal (''Failed to apply migrations: invalid migration version: '' @ versionStr)
       | Some version \<Rightarrow> migrate_call w (MigrateTo version)) k)" for cs' ok'
    unfolding ApplyMigrations_def applyMigrations_def boot_assoc
    by (intro follows_getenv follows_must that) simp_all
  consider (latest) "versionStr = ''latest''" | (bad) "versionStr \<noteq> ''latest''" "ParseUint versionStr = None"
    | (version) n where "versionStr \<noteq> ''latest''" "ParseUint versionStr = Some n" by blast
  then show ?thesis
  proof cases
    case latest
    then show ?thesis using run [of "MigrateUp # cs" ok] follows_migrate [of MigrateUp w env names cs ok k] assms(2)
      by (simp add: migration_plan_def then_plan_def Let_def)
  next
    case bad
    then show ?thesis using run [of "[]" False] assms(1)
      by (simp add: migration_plan_def then_plan_def Let_def boot_fatal follows_fatal)
  next
    case version
    then show ?thesis using run [of "MigrateTo n # cs" ok] follows_migrate [of "MigrateTo n" w env names cs ok k] assms
      by (simp add: migration_plan_def then_plan_def Let_def)
  qed
qed

text \<open>
  C32.
  The start of the program follows its plan, whatever the world answers: the calls it makes are
  those of the plan up to and including the first that fails, after which the process ends, and it
  gets to listening exactly when the environment file and the configuration can be read, the log
  opens, the version of the migrations is a number, and no call fails. Registering its metrics never
  fails. The migrations come before the check of the environment file: they are carried out, with
  the variables the process has, also when that file cannot be read and nothing is served.
\<close>

theorem startup_follows_plan:
  assumes "set (map co_Name all_collectors) \<inter> set (registered (bt_metrics b)) = {}"
  shows "(bt_calls (snd (main w production migrations b)), \<not> isl (fst (main w production migrations b))) =
    carried_out w (bt_calls b) (main_plan w production migrations (bt_env b))"
proof -
  let ?file = "if production then ''prod.env'' else ''.env''"
  let ?env = "process_env w production (bt_env b)"
  let ?loaded = "w_envfile w ?file \<noteq> None"
  let ?rest = "if \<not> ?loaded then fatal ''Error loading env file '' else Run w"
  let ?plan = "if w_envfile w ?file = None then ([], False) else run_plan w production ?env"
  have mode: "env_text ?env ''SERVER_MODE'' = (if production then ''production'' else ''development'')"
    by (simp add: env_text_def process_env_def)
  have rest: "follows w ?env (concat name_parts) ?plan ?rest"
  proof (cases "w_envfile w ?file")
    case None
    then show ?thesis by (simp only: simp_thms if_True follows_fatal)
  next
    case (Some e)
    then have "?loaded" "w_envfile w ?file \<noteq> None" by simp_all
    then show ?thesis using follows_Run [OF mode] by (simp only: simp_thms if_False)
  qed
  obtain cs ok where plan: "?plan = (cs, ok)" by fastforce
  let ?m = "boot_bind (if migrations \<noteq> [] then ApplyMigrations w migrations else go_on ()) (\<lambda>_. ?rest)"
  have "follows w ?env (concat name_parts) (main_plan w production migrations (bt_env b)) ?m"
  proof (cases "migrations = []")
    case True
    then show ?thesis using rest by (simp add: main_plan_def migration_plan_def then_plan_def boot_go_on)
  next
    case False
    then show ?thesis using follows_migrations [OF False, of w ?env "concat name_parts" cs ok "\<lambda>_. ?rest"] rest plan
      unfolding main_plan_def by simp
  qed
  moreover have "main w production migrations b = ?m (b\<lparr>bt_env := ?env\<rparr>)"
    by (cases "w_envfile w ?file")
       (simp_all add: main_def boot_bind_def load_env_def setenv_def process_env_def)
  ultimately show ?thesis
    using assms all_collectors_distinct unfolding follows_def name_parts by simp
qed

definition demo_boot :: boot where
  "demo_boot = \<lparr>bt_calls = [], bt_env = [''POSTGRES_DB'' \<mapsto> ''game''],
     bt_metrics = \<lparr>registered = [], counted = (\<lambda>_. 0), observed = (\<lambda>_. [])\<rparr>,
     bt_sink = \<lparr>clock = 0, counters = (\<lambda>_. (0, 0)), lines = []\<rparr>\<rparr>"

text \<open>No environment file, and a database that is already at the last version.\<close>

definition demo_world :: world where
  "demo_world = \<lparr>w_envfile = (\<lambda>_. None), w_yaml = (\<lambda>_. None), w_ParseInt = (\<lambda>_. None),
     w_ParseDuration = (\<lambda>_. None), w_log_builds = (\<lambda>_ _. True),
     w_answer = (\<lambda>_ c. if c = MigrateUp then Some ErrNoChange else None)\<rparr>"

lemma startup_follows_plan_witness:
  "bt_calls (snd (main demo_world False ''latest'' demo_boot)) =
     [Iofs ''migrations'', SqlOpen ''postgres://:@:/game?sslmode=disable'', PostgresDriver,
      NewMigrate ''migration_embedded_sql_files'' ''psql_db'', MigrateUp]
   \<and> isl (fst (main demo_world False ''latest'' demo_boot))"
proof -
  have "set (map co_Name all_collectors) \<inter> set (registered (bt_metrics demo_boot)) = {}"
    by (simp add: demo_boot_def)
  from startup_follows_plan [OF this, of demo_world False "''latest''"] show ?thesis
    by (simp add: main_plan_def migration_plan_def then_plan_def process_env_def env_text_def Let_def
        NewConnectionString_def call_fails_def demo_boot_def demo_world_def)
qed

end
