(* ===== verification/Attack.thy ===== *)
theory Attack
  imports Prelude
begin

text \<open>
  The enumerations of \<open>models/attack.go\<close> with their names in Russian and English. The values are
  Go integers, so there are others than the constants; strings are bytes, the Russian names are in
  UTF-8.
\<close>

section \<open>Attack types\<close>

definition MeleeWeaponAttack :: int where "MeleeWeaponAttack = 0"
definition RangedWeaponAttack :: int where "RangedWeaponAttack = 1"
definition MeleeSpellAttack :: int where "MeleeSpellAttack = 2"
definition RangedSpellAttack :: int where "RangedSpellAttack = 3"
definition MeleeOrRangedWeaponAttack :: int where "MeleeOrRangedWeaponAttack = 4"
definition MeleeOrRangedSpellAttack :: int where "MeleeOrRangedSpellAttack = 5"

definition AttackType_String :: "int \<Rightarrow> string \<Rightarrow> string" where
  "AttackType_String at lang =
     (if at = MeleeWeaponAttack then
       (if lang = ''ru'' then
         [CHR 0xD0, CHR 0xA0, CHR 0xD1, CHR 0x83, CHR 0xD0, CHR 0xBA, CHR 0xD0, CHR 0xBE, CHR 0xD0, CHR 0xBF,
          CHR 0xD0, CHR 0xB0, CHR 0xD1, CHR 0x88, CHR 0xD0, CHR 0xBD, CHR 0xD0, CHR 0xB0, CHR 0xD1, CHR 0x8F,
          CHR 0x20, CHR 0xD0, CHR 0xB0, CHR 0xD1, CHR 0x82, CHR 0xD0, CHR 0xB0, CHR 0xD0, CHR 0xBA, CHR 0xD0,
          CHR 0xB0, CHR 0x20, CHR 0xD0, CHR 0xBE, CHR 0xD1, CHR 0x80, CHR 0xD1, CHR 0x83, CHR 0xD0, CHR 0xB6,
          CHR 0xD0, CHR 0xB8, CHR 0xD0, CHR 0xB5, CHR 0xD0, CHR 0xBC]
        else ''Melee weapon attack'')
      else if at = RangedWeaponAttack then
       (if lang = ''ru'' then
         [CHR 0xD0, CHR 0x94, CHR 0xD0, CHR 0xB0, CHR 0xD0, CHR 0xBB, CHR 0xD1, CHR 0x8C, CHR 0xD0, CHR 0xBD,
          CHR 0xD0, CHR 0xBE, CHR 0xD0, CHR 0xB1, CHR 0xD0, CHR 0xBE, CHR 0xD0, CHR 0xB9, CHR 0xD0, CHR 0xBD,
          CHR 0xD0, CHR 0xB0, CHR 0xD1, CHR 0x8F, CHR 0x20, CHR 0xD0, CHR 0xB0, CHR 0xD1, CHR 0x82, CHR 0xD0,
          CHR 0xB0, CHR 0xD0, CHR 0xBA, CHR 0xD0, CHR 0xB0, CHR 0x20, CHR 0xD0, CHR 0xBE, CHR 0xD1, CHR 0x80,
          CHR 0xD1, CHR 0x83, CHR 0xD0, CHR 0xB6, CHR 0xD0, CHR 0xB8, CHR 0xD0, CHR 0xB5, CHR 0xD0, CHR 0xBC]
        else ''Ranged weapon attack'')
      else if at = MeleeSpellAttack then
       (if lang = ''ru'' then
         [CHR 0xD0, CHR 0xA0, CHR 0xD1, CHR 0x83, CHR 0xD0, CHR 0xBA, CHR 0xD0, CHR 0xBE, CHR 0xD0, CHR 0xBF,
          CHR 0xD0, CHR 0xB0, CHR 0xD1, CHR 0x88, CHR 0xD0, CHR 0xBD, CHR 0xD0, CHR 0xB0, CHR 0xD1, CHR 0x8F,
          CHR 0x20, CHR 0xD0, CHR 0xB0, CHR 0xD1, CHR 0x82, CHR 0xD0, CHR 0xB0, CHR 0xD0, CHR 0xBA, CHR 0xD0,
          CHR 0xB0, CHR 0x20, CHR 0xD0, CHR 0xB7, CHR 0xD0, CHR 0xB0, CHR 0xD0, CHR 0xBA, CHR 0xD0, CHR 0xBB,
          CHR 0xD0, CHR 0xB8, CHR 0xD0, CHR 0xBD, CHR 0xD0, CHR 0xB0, CHR 0xD0, CHR 0xBD, CHR 0xD0, CHR 0xB8,
          CHR 0xD0, CHR 0xB5, CHR 0xD0, CHR 0xBC]
        else ''Melee spell attack'')
      else if at = RangedSpellAttack then
       (if lang = ''ru'' then
         [CHR 0xD0, CHR 0x94, CHR 0xD0, CHR 0xB0, CHR 0xD0, CHR 0xBB, CHR 0xD1, CHR 0x8C, CHR 0xD0, CHR 0xBD,
          CHR 0xD0, CHR 0xBE, CHR 0xD0, CHR 0xB1, CHR 0xD0, CHR 0xBE, CHR 0xD0, CHR 0xB9, CHR 0xD0, CHR 0xBD,
          CHR 0xD0, CHR 0xB0, CHR 0xD1, CHR 0x8F, CHR 0x20, CHR 0xD0, CHR 0xB0, CHR 0xD1, CHR 0x82, CHR 0xD0,
          CHR 0xB0, CHR 0xD0, CHR 0xBA, CHR 0xD0, CHR 0xB0, CHR 0x20, CHR 0xD0, CHR 0xB7, CHR 0xD0, CHR 0xB0,
          CHR 0xD0, CHR 0xBA, CHR 0xD0, CHR 0xBB, CHR 0xD0, CHR 0xB8, CHR 0xD0, CHR 0xBD, CHR 0xD0, CHR 0xB0,
          CHR 0xD0, CHR 0xBD, CHR 0xD0, CHR 0xB8, CHR 0xD0, CHR 0xB5, CHR 0xD0, CHR 0xBC]
        else ''Ranged spell attack'')
      else if at = MeleeOrRangedWeaponAttack then
       (if lang = ''ru'' then
         [CHR 0xD0, CHR 0xA0, CHR 0xD1, CHR 0x83, CHR 0xD0, CHR 0xBA, CHR 0xD0, CHR 0xBE, CHR 0xD0, CHR 0xBF,
          CHR 0xD0, CHR 0xB0, CHR 0xD1, CHR 0x88, CHR 0xD0, CHR 0xBD, CHR 0xD0, CHR 0xB0, CHR 0xD1, CHR 0x8F,
          CHR 0x20, CHR 0xD0, CHR 0xB8, CHR 0xD0, CHR 0xBB, CHR 0xD0, CHR 0xB8, CHR 0x20, CHR 0xD0, CHR 0xB4,
          CHR 0xD0, CHR 0xB0, CHR 0xD0, CHR 0xBB, CHR 0xD1, CHR 0x8C, CHR 0xD0, CHR 0xBD, CHR 0xD0, CHR 0xBE,
          CHR 0xD0, CHR 0xB1, CHR 0xD0, CHR 0xBE, CHR 0xD0, CHR 0xB9, CHR 0xD0, CHR 0xBD, CHR 0xD0, CHR 0xB0,
          CHR 0xD1, CHR 0x8F, CHR 0x20, CHR 0xD0, CHR 0xB0, CHR 0xD1, CHR 0x82, CHR 0xD0, CHR 0xB0, CHR 0xD0,
          CHR 0xBA, CHR 0xD0, CHR 0xB0, CHR 0x20, CHR 0xD0, CHR 0xBE, CHR 0xD1, CHR 0x80, CHR 0xD1, CHR 0x83,
          CHR 0xD0, CHR 0xB6, CHR 0xD0, CHR 0xB8, CHR 0xD0, CHR 0xB5, CHR 0xD0, CHR 0xBC]
        else ''Melee or ranged weapon attack'')
      else if at = MeleeOrRangedSpellAttack then
       (if lang = ''ru'' then
         [CHR 0xD0, CHR 0xA0, CHR 0xD1, CHR 0x83, CHR 0xD0, CHR 0xBA, CHR 0xD0, CHR 0xBE, CHR 0xD0, CHR 0xBF,
          CHR 0xD0, CHR 0xB0, CHR 0xD1, CHR 0x88, CHR 0xD0, CHR 0xBD, CHR 0xD0, CHR 0xB0, CHR 0xD1, CHR 0x8F,
          CHR 0x20, CHR 0xD0, CHR 0xB8, CHR 0xD0, CHR 0xBB, CHR 0xD0, CHR 0xB8, CHR 0x20, CHR 0xD0, CHR 0xB4,
          CHR 0xD0, CHR 0xB0, CHR 0xD0, CHR 0xBB, CHR 0xD1, CHR 0x8C, CHR 0xD0, CHR 0xBD, CHR 0xD0, CHR 0xBE,
          CHR 0xD0, CHR 0xB1, CHR 0xD0, CHR 0xBE, CHR 0xD0, CHR 0xB9, CHR 0xD0, CHR 0xBD, CHR 0xD0, CHR 0xB0,
          CHR 0xD1, CHR 0x8F, CHR 0x20, CHR 0xD0, CHR 0xB0, CHR 0xD1, CHR 0x82, CHR 0xD0, CHR 0xB0, CHR 0xD0,
          CHR 0xBA, CHR 0xD0, CHR 0xB0, CHR 0x20, CHR 0xD0, CHR 0xB7, CHR 0xD0, CHR 0xB0, CHR 0xD0, CHR 0xBA,
          CHR 0xD0, CHR 0xBB, CHR 0xD0, CHR 0xB8, CHR 0xD0, CHR 0xBD, CHR 0xD0, CHR 0xB0, CHR 0xD0, CHR 0xBD,
          CHR 0xD0, CHR 0xB8, CHR 0xD0, CHR 0xB5, CHR 0xD0, CHR 0xBC]
        else ''Melee or ranged spell attack'')
      else
       (if lang = ''ru'' then
         [CHR 0xD0, CHR 0x9D, CHR 0xD0, CHR 0xB5, CHR 0xD0, CHR 0xB8, CHR 0xD0, CHR 0xB7, CHR 0xD0, CHR 0xB2,
          CHR 0xD0, CHR 0xB5, CHR 0xD1, CHR 0x81, CHR 0xD1, CHR 0x82, CHR 0xD0, CHR 0xBD, CHR 0xD1, CHR 0x8B,
          CHR 0xD0, CHR 0xB9, CHR 0x20, CHR 0xD1, CHR 0x82, CHR 0xD0, CHR 0xB8, CHR 0xD0, CHR 0xBF, CHR 0x20,
          CHR 0xD0, CHR 0xB0, CHR 0xD1, CHR 0x82, CHR 0xD0, CHR 0xB0, CHR 0xD0, CHR 0xBA, CHR 0xD0, CHR 0xB8]
        else ''Unknown attack type''))"

section \<open>Targets\<close>

definition SingleTarget :: int where "SingleTarget = 0"
definition Cone :: int where "Cone = 1"
definition Cube :: int where "Cube = 2"
definition Sphere :: int where "Sphere = 3"
definition Cylinder :: int where "Cylinder = 4"
definition Line :: int where "Line = 5"
definition Self :: int where "Self = 6"
definition Touch :: int where "Touch = 7"
definition MultipleTargets :: int where "MultipleTargets = 8"
definition Object :: int where "Object = 9"
definition Point :: int where "Point = 10"
definition AllCreaturesInRange :: int where "AllCreaturesInRange = 11"
definition AllEnemiesInRange :: int where "AllEnemiesInRange = 12"
definition AllAlliesInRange :: int where "AllAlliesInRange = 13"

definition TargetType_String :: "int \<Rightarrow> string \<Rightarrow> string" where
  "TargetType_String tt lang =
     (if tt = SingleTarget then
       (if lang = ''ru'' then
         [CHR 0xD0, CHR 0xBE, CHR 0xD0, CHR 0xB4, CHR 0xD0, CHR 0xBD, CHR 0xD0, CHR 0xB0, CHR 0x20, CHR 0xD1,
          CHR 0x86, CHR 0xD0, CHR 0xB5, CHR 0xD0, CHR 0xBB, CHR 0xD1, CHR 0x8C]
        else ''single target'')
      else if tt = Cone then
       (if lang = ''ru'' then
         [CHR 0xD0, CHR 0xBA, CHR 0xD0, CHR 0xBE, CHR 0xD0, CHR 0xBD, CHR 0xD1, CHR 0x83, CHR 0xD1, CHR 0x81]
        else ''cone'')
      else if tt = Cube then
       (if lang = ''ru'' then
         [CHR 0xD0, CHR 0xBA, CHR 0xD1, CHR 0x83, CHR 0xD0, CHR 0xB1]
        else ''cube'')
      else if tt = Sphere then
       (if lang = ''ru'' then
         [CHR 0xD1, CHR 0x81, CHR 0xD1, CHR 0x84, CHR 0xD0, CHR 0xB5, CHR 0xD1, CHR 0x80, CHR 0xD0, CHR 0xB0]
        else ''sphere'')
      else if tt = Cylinder then
       (if lang = ''ru'' then
         [CHR 0xD1, CHR 0x86, CHR 0xD0, CHR 0xB8, CHR 0xD0, CHR 0xBB, CHR 0xD0, CHR 0xB8, CHR 0xD0, CHR 0xBD,
          CHR 0xD0, CHR 0xB4, CHR 0xD1, CHR 0x80]
        else ''cylinder'')
      else if tt = Line then
       (if lang = ''ru'' then
         [CHR 0xD0, CHR 0xBB, CHR 0xD0, CHR 0xB8, CHR 0xD0, CHR 0xBD, CHR 0xD0, CHR 0xB8, CHR 0xD1, CHR 0x8F]
        else ''line'')
      else if tt = Self then
       (if lang = ''ru'' then
         [CHR 0xD1, CHR 0x81, CHR 0xD0, CHR 0xB0, CHR 0xD0, CHR 0xBC, CHR 0x20, CHR 0xD0, CHR 0xBD, CHR 0xD0,
          CHR 0xB0, CHR 0x20, CHR 0xD1, CHR 0x81, CHR 0xD0, CHR 0xB5, CHR 0xD0, CHR 0xB1, CHR 0xD1, CHR 0x8F]
        else ''self'')
      else if tt = Touch then
       (if lang = ''ru'' then
         [CHR 0xD0, CHR 0xBA, CHR 0xD0, CHR 0xB0, CHR 0xD1, CHR 0x81, CHR 0xD0, CHR 0xB0, CHR 0xD0, CHR 0xBD,
          CHR 0xD0, CHR 0xB8, CHR 0xD0, CHR 0xB5]
        else ''touch'')
      else if tt = MultipleTargets then
       (if lang = ''ru'' then
         [CHR 0xD0, CHR 0xBD, CHR 0xD0, CHR 0xB5, CHR 0xD1, CHR 0x81, CHR 0xD0, CHR 0xBA, CHR 0xD0, CHR 0xBE,
          CHR 0xD0, CHR 0xBB, CHR 0xD1, CHR 0x8C, CHR 0xD0, CHR 0xBA, CHR 0xD0, CHR 0xBE, CHR 0x20, CHR 0xD1,
          CHR 0x86, CHR 0xD0, CHR 0xB5, CHR 0xD0, CHR 0xBB, CHR 0xD0, CHR 0xB5, CHR 0xD0, CHR 0xB9]
        else ''multiple targets'')
      else if tt = Object then
       (if lang = ''ru'' then
         [CHR 0xD0, CHR 0xBE, CHR 0xD0, CHR 0xB1, CHR 0xD1, CHR 0x8A, CHR 0xD0, CHR 0xB5, CHR 0xD0, CHR 0xBA,
          CHR 0xD1, CHR 0x82]
        else ''object'')
      else if tt = Point then
       (if lang = ''ru'' then
         [CHR 0xD1, CHR 0x82, CHR 0xD0, CHR 0xBE, CHR 0xD1, CHR 0x87, CHR 0xD0, CHR 0xBA, CHR 0xD0, CHR 0xB0,
          CHR 0x20, CHR 0xD0, CHR 0xB2, CHR 0x20, CHR 0xD0, CHR 0xBF, CHR 0xD1, CHR 0x80, CHR 0xD0, CHR 0xBE,
          CHR 0xD1, CHR 0x81, CHR 0xD1, CHR 0x82, CHR 0xD1, CHR 0x80, CHR 0xD0, CHR 0xB0, CHR 0xD0, CHR 0xBD,
          CHR 0xD1, CHR 0x81, CHR 0xD1, CHR 0x82, CHR 0xD0, CHR 0xB2, CHR 0xD0, CHR 0xB5]
        else ''point'')
      else if tt = AllCreaturesInRange then
       (if lang = ''ru'' then
         [CHR 0xD0, CHR 0xB2, CHR 0xD1, CHR 0x81, CHR 0xD0, CHR 0xB5, CHR 0x20, CHR 0xD1, CHR 0x81, CHR 0xD1,
          CHR 0x83, CHR 0xD1, CHR 0x89, CHR 0xD0, CHR 0xB5, CHR 0xD1, CHR 0x81, CHR 0xD1, CHR 0x82, CHR 0xD0,
          CHR 0xB2, CHR 0xD0, CHR 0xB0, CHR 0x20, CHR 0xD0, CHR 0xB2, CHR 0x20, CHR 0xD1, CHR 0x80, CHR 0xD0,
          CHR 0xB0, CHR 0xD0, CHR 0xB4, CHR 0xD0, CHR 0xB8, CHR 0xD1, CHR 0x83, CHR 0xD1, CHR 0x81, CHR 0xD0,
          CHR 0xB5]
        else ''all creatures in range'')
      else if tt = AllEnemiesInRange then
       (if lang = ''ru'' then
         [CHR 0xD0, CHR 0xB2, CHR 0xD1, CHR 0x81, CHR 0xD0, CHR 0xB5, CHR 0x20, CHR 0xD0, CHR 0xB2, CHR 0xD1,
          CHR 0x80, CHR 0xD0, CHR 0xB0, CHR 0xD0, CHR 0xB3, CHR 0xD0, CHR 0xB8, CHR 0x20, CHR 0xD0, CHR 0xB2,
          CHR 0x20, CHR 0xD1, CHR 0x80, CHR 0xD0, CHR 0xB0, CHR 0xD0, CHR 0xB4, CHR 0xD0, CHR 0xB8, CHR 0xD1,
          CHR 0x83, CHR 0xD1, CHR 0x81, CHR 0xD0, CHR 0xB5]
        else ''all enemies in range'')
      else if tt = AllAlliesInRange then
       (if lang = ''ru'' then
         [CHR 0xD0, CHR 0xB2, CHR 0xD1, CHR 0x81, CHR 0xD0, CHR 0xB5, CHR 0x20, CHR 0xD1, CHR 0x81, CHR 0xD0,
          CHR 0xBE, CHR 0xD1, CHR 0x8E, CHR 0xD0, CHR 0xB7, CHR 0xD0, CHR 0xBD, CHR 0xD0, CHR 0xB8, CHR 0xD0,
          CHR 0xBA, CHR 0xD0, CHR 0xB8, CHR 0x20, CHR 0xD0, CHR 0xB2, CHR 0x20, CHR 0xD1, CHR 0x80, CHR 0xD0,
          CHR 0xB0, CHR 0xD0, CHR 0xB4, CHR 0xD0, CHR 0xB8, CHR 0xD1, CHR 0x83, CHR 0xD1, CHR 0x81, CHR 0xD0,
          CHR 0xB5]
        else ''all allies in range'')
      else
       (if lang = ''ru'' then
         [CHR 0xD0, CHR 0xBD, CHR 0xD0, CHR 0xB5, CHR 0xD0, CHR 0xB8, CHR 0xD0, CHR 0xB7, CHR 0xD0, CHR 0xB2,
          CHR 0xD0, CHR 0xB5, CHR 0xD1, CHR 0x81, CHR 0xD1, CHR 0x82, CHR 0xD0, CHR 0xBD, CHR 0xD0, CHR 0xB0,
          CHR 0xD1, CHR 0x8F, CHR 0x20, CHR 0xD1, CHR 0x86, CHR 0xD0, CHR 0xB5, CHR 0xD0, CHR 0xBB, CHR 0xD1,
          CHR 0x8C]
        else ''unknown target''))"

section \<open>Damage types\<close>

definition Acid :: int where "Acid = 0"
definition Bludgeoning :: int where "Bludgeoning = 1"
definition Cold :: int where "Cold = 2"
definition Fire :: int where "Fire = 3"
definition Force :: int where "Force = 4"
definition Lightning :: int where "Lightning = 5"
definition Necrotic :: int where "Necrotic = 6"
definition Piercing :: int where "Piercing = 7"
definition Poison :: int where "Poison = 8"
definition Psychic :: int where "Psychic = 9"
definition Radiant :: int where "Radiant = 10"
definition Slashing :: int where "Slashing = 11"
definition Thunder :: int where "Thunder = 12"

definition DamageType_String :: "int \<Rightarrow> string \<Rightarrow> string" where
  "DamageType_String dt lang =
     (if dt = Acid then
       (if lang = ''ru'' then
         [CHR 0xD0, CHR 0xBA, CHR 0xD0, CHR 0xB8, CHR 0xD1, CHR 0x81, CHR 0xD0, CHR 0xBB, CHR 0xD0, CHR 0xBE,
          CHR 0xD1, CHR 0x82, CHR 0xD0, CHR 0xBD, CHR 0xD1, CHR 0x8B, CHR 0xD0, CHR 0xB9]
        else ''acid'')
      else if dt = Bludgeoning then
       (if lang = ''ru'' then
         [CHR 0xD0, CHR 0xB4, CHR 0xD1, CHR 0x80, CHR 0xD0, CHR 0xBE, CHR 0xD0, CHR 0xB1, CHR 0xD1, CHR 0x8F,
          CHR 0xD1, CHR 0x89, CHR 0xD0, CHR 0xB8, CHR 0xD0, CHR 0xB9]
        else ''bludgeoning'')
      else if dt = Cold then
       (if lang = ''ru'' then
         [CHR 0xD1, CHR 0x85, CHR 0xD0, CHR 0xBE, CHR 0xD0, CHR 0xBB, CHR 0xD0, CHR 0xBE, CHR 0xD0, CHR 0xB4]
        else ''cold'')
      else if dt = Fire then
       (if lang = ''ru'' then
         [CHR 0xD0, CHR 0xBE, CHR 0xD0, CHR 0xB3, CHR 0xD0, CHR 0xBD, CHR 0xD0, CHR 0xB5, CHR 0xD0, CHR 0xBD,
          CHR 0xD0, CHR 0xBD, CHR 0xD1, CHR 0x8B, CHR 0xD0, CHR 0xB9]
        else ''fire'')
      else if dt = Force then
       (if lang = ''ru'' then
         [CHR 0xD1, CHR 0x81, CHR 0xD0, CHR 0xB8, CHR 0xD0, CHR 0xBB, CHR 0xD0, CHR 0xBE, CHR 0xD0, CHR 0xB2,
          CHR 0xD0, CHR 0xBE, CHR 0xD0, CHR 0xB9]
        else ''force'')
      else if dt = Lightning then
       (if lang = ''ru'' then
         [CHR 0xD0, CHR 0xBC, CHR 0xD0, CHR 0xBE, CHR 0xD0, CHR 0xBB, CHR 0xD0, CHR 0xBD, CHR 0xD0, CHR 0xB8,
          CHR 0xD1, CHR 0x8F]
        else ''lightning'')
      else if dt = Necrotic then
       (if lang = ''ru'' then
         [CHR 0xD0, CHR 0xBD, CHR 0xD0, CHR 0xB5, CHR 0xD0, CHR 0xBA, CHR 0xD1, CHR 0x80, CHR 0xD0, CHR 0xBE,
          CHR 0xD1, CHR 0x82, CHR 0xD0, CHR 0xB8, CHR 0xD1, CHR 0x87, CHR 0xD0, CHR 0xB5, CHR 0xD1, CHR 0x81,
          CHR 0xD0, CHR 0xBA, CHR 0xD0, CHR 0xB8, CHR 0xD0, CHR 0xB9]
        else ''necrotic'')
      else if dt = Piercing then
       (if lang = ''ru'' then
         [CHR 0xD0, CHR 0xBA, CHR 0xD0, CHR 0xBE, CHR 0xD0, CHR 0xBB, CHR 0xD1, CHR 0x8E, CHR 0xD1, CHR 0x89,
          CHR 0xD0, CHR 0xB8, CHR 0xD0, CHR 0xB9]
        else ''piercing'')
      else if dt = Poison then
       (if lang = ''ru'' then
         [CHR 0xD1, CHR 0x8F, CHR 0xD0, CHR 0xB4, CHR 0xD0, CHR 0xBE, CHR 0xD0, CHR 0xB2, CHR 0xD0, CHR 0xB8,
          CHR 0xD1, CHR 0x82, CHR 0xD1, CHR 0x8B, CHR 0xD0, CHR 0xB9]
        else ''poison'')
      else if dt = Psychic then
       (if lang = ''ru'' then
         [CHR 0xD0, CHR 0xBF, CHR 0xD1, CHR 0x81, CHR 0xD0, CHR 0xB8, CHR 0xD1, CHR 0x85, CHR 0xD0, CHR 0xB8,
          CHR 0xD1, CHR 0x87, CHR 0xD0, CHR 0xB5, CHR 0xD1, CHR 0x81, CHR 0xD0, CHR 0xBA, CHR 0xD0, CHR 0xB8,
          CHR 0xD0, CHR 0xB9]
        else ''psychic'')
      else if dt = Radiant then
       (if lang = ''ru'' then
         [CHR 0xD1, CHR 0x81, CHR 0xD0, CHR 0xB2, CHR 0xD0, CHR 0xB5, CHR 0xD1, CHR 0x82, CHR 0xD1, CHR 0x8F,
          CHR 0xD1, CHR 0x89, CHR 0xD0, CHR 0xB8, CHR 0xD0, CHR 0xB9, CHR 0xD1, CHR 0x81, CHR 0xD1, CHR 0x8F]
        else ''radiant'')
      else if dt = Slashing then
       (if lang = ''ru'' then
         [CHR 0xD1, CHR 0x80, CHR 0xD1, CHR 0x83, CHR 0xD0, CHR 0xB1, CHR 0xD1, CHR 0x8F, CHR 0xD1, CHR 0x89,
          CHR 0xD0, CHR 0xB8, CHR 0xD0, CHR 0xB9]
        else ''slashing'')
      else if dt = Thunder then
       (if lang = ''ru'' then
         [CHR 0xD0, CHR 0xB3, CHR 0xD1, CHR 0x80, CHR 0xD0, CHR 0xBE, CHR 0xD0, CHR 0xBC, CHR 0xD0, CHR 0xBE,
          CHR 0xD0, CHR 0xB2, CHR 0xD0, CHR 0xBE, CHR 0xD0, CHR 0xB9]
        else ''thunder'')
      else
       (if lang = ''ru'' then
         [CHR 0xD0, CHR 0xBD, CHR 0xD0, CHR 0xB5, CHR 0xD0, CHR 0xB8, CHR 0xD0, CHR 0xB7, CHR 0xD0, CHR 0xB2,
          CHR 0xD0, CHR 0xB5, CHR 0xD1, CHR 0x81, CHR 0xD1, CHR 0x82, CHR 0xD0, CHR 0xBD, CHR 0xD1, CHR 0x8B,
          CHR 0xD0, CHR 0xB9, CHR 0x20, CHR 0xD1, CHR 0x82, CHR 0xD0, CHR 0xB8, CHR 0xD0, CHR 0xBF, CHR 0x20,
          CHR 0xD1, CHR 0x83, CHR 0xD1, CHR 0x80, CHR 0xD0, CHR 0xBE, CHR 0xD0, CHR 0xBD, CHR 0xD0, CHR 0xB0]
        else ''unknown damage type''))"

section \<open>Dice and damage\<close>

type_synonym DiceType = string

definition D4 :: DiceType where "D4 = ''d4''"
definition D6 :: DiceType where "D6 = ''d6''"
definition D8 :: DiceType where "D8 = ''d8''"
definition D10 :: DiceType where "D10 = ''d10''"
definition D12 :: DiceType where "D12 = ''d12''"
definition D20 :: DiceType where "D20 = ''d20''"
definition D100 :: DiceType where "D100 = ''d100''"

record damage =
  dmg_Dice :: DiceType
  dmg_Count :: int
  dmg_DamageType :: int

record determined_attack =
  det_Type :: int
  det_Description :: string

section \<open>The names tell the values apart\<close>

lemmas AttackType_values =
  MeleeWeaponAttack_def RangedWeaponAttack_def MeleeSpellAttack_def RangedSpellAttack_def MeleeOrRangedWeaponAttack_def MeleeOrRangedSpellAttack_def

lemma AttackType_names: "distinct (map (\<lambda>i. AttackType_String i lang) [0..6])"
  by (cases "lang = ''ru''") (simp_all add: upto.simps AttackType_String_def AttackType_values)

lemma AttackType_String_inj:
  assumes "AttackType_String i lang = AttackType_String j lang" "0 \<le> i" "i < 6" "0 \<le> j" "j < 6"
  shows "i = j"
  using assms AttackType_names [of lang] unfolding distinct_map by (auto dest: inj_onD)

lemma AttackType_String_other: "i < 0 \<or> 6 \<le> i \<Longrightarrow> AttackType_String i lang = AttackType_String 6 lang"
  by (auto simp: AttackType_String_def AttackType_values)

lemmas TargetType_values =
  SingleTarget_def Cone_def Cube_def Sphere_def Cylinder_def Line_def Self_def Touch_def MultipleTargets_def Object_def Point_def AllCreaturesInRange_def AllEnemiesInRange_def AllAlliesInRange_def

lemma TargetType_names: "distinct (map (\<lambda>i. TargetType_String i lang) [0..14])"
  by (cases "lang = ''ru''") (simp_all add: upto.simps TargetType_String_def TargetType_values)

lemma TargetType_String_inj:
  assumes "TargetType_String i lang = TargetType_String j lang" "0 \<le> i" "i < 14" "0 \<le> j" "j < 14"
  shows "i = j"
  using assms TargetType_names [of lang] unfolding distinct_map by (auto dest: inj_onD)

lemma TargetType_String_other: "i < 0 \<or> 14 \<le> i \<Longrightarrow> TargetType_String i lang = TargetType_String 14 lang"
  by (auto simp: TargetType_String_def TargetType_values)

lemmas DamageType_values =
  Acid_def Bludgeoning_def Cold_def Fire_def Force_def Lightning_def Necrotic_def Piercing_def Poison_def Psychic_def Radiant_def Slashing_def Thunder_def

lemma DamageType_names: "distinct (map (\<lambda>i. DamageType_String i lang) [0..13])"
  by (cases "lang = ''ru''") (simp_all add: upto.simps DamageType_String_def DamageType_values)

lemma DamageType_String_inj:
  assumes "DamageType_String i lang = DamageType_String j lang" "0 \<le> i" "i < 13" "0 \<le> j" "j < 13"
  shows "i = j"
  using assms DamageType_names [of lang] unfolding distinct_map by (auto dest: inj_onD)

lemma DamageType_String_other: "i < 0 \<or> 13 \<le> i \<Longrightarrow> DamageType_String i lang = DamageType_String 13 lang"
  by (auto simp: DamageType_String_def DamageType_values)

end
