(* ===== verification/RandomString.thy ===== *)
theory RandomString
  imports Prelude
begin

text \<open>
  Random strings (\<open>utils/random.go\<close>) and the ids of table sessions (\<open>table/usecases/infra.go\<close>).
  \<open>draw i\<close> is what \<open>rand.Int\<close> answers to the i-th call: an index, or nothing when the reader fails,
  and then the code, which drops the error, reads the value of a nil number and panics.
\<close>

definition letters :: string where
  "letters = ''abcdefghijklmnopqrstuvwxyzABCDEFGHIJKLMNOPQRSTUVWXYZ-_1234567890''"

fun rand_loop :: "(nat \<Rightarrow> nat option) \<Rightarrow> nat \<Rightarrow> nat \<Rightarrow> string \<Rightarrow> string go" where
  "rand_loop draw i 0 s = Return s"
| "rand_loop draw i (Suc n) s =
     (case draw i of
        None \<Rightarrow> Panic
      | Some k \<Rightarrow> if k < length letters then rand_loop draw (Suc i) n (s @ [letters ! k]) else Panic)"

definition RandString :: "(nat \<Rightarrow> nat option) \<Rightarrow> int \<Rightarrow> string go" where
  "RandString draw len = rand_loop draw 0 (nat len) []"

definition sessionStringLen :: int where
  "sessionStringLen = 32"

definition NewSessionID :: "(nat \<Rightarrow> nat option) \<Rightarrow> string go" where
  "NewSessionID draw = RandString draw sessionStringLen"

section \<open>Every draw counts\<close>

text \<open>What \<open>rand.Int\<close> documents: an answer below the bound it was given.\<close>

definition drawn :: "(nat \<Rightarrow> nat option) \<Rightarrow> (nat \<Rightarrow> nat) \<Rightarrow> bool" where
  "drawn draw k \<longleftrightarrow> (\<forall>i. draw i = Some (k i) \<and> k i < length letters)"

lemma letters_distinct: "distinct letters" and letters_length: "length letters = 64"
  by (simp_all add: letters_def)

lemma rand_loop:
  "drawn draw k \<Longrightarrow> rand_loop draw i n s = Return (s @ map (\<lambda>j. letters ! k j) [i..<i + n])"
proof (induction n arbitrary: i s)
  case (Suc n)
  have "[i..<i + Suc n] = i # [Suc i..<Suc i + n]" by (simp add: upt_rec)
  then show ?case using Suc.IH [OF Suc.prems, of "Suc i"] Suc.prems by (simp add: drawn_def)
qed simp

lemma RandString: "drawn draw k \<Longrightarrow> RandString draw len = Return (map (\<lambda>j. letters ! k j) [0..<nat len])"
  by (simp add: RandString_def rand_loop)

text \<open>A session id has 32 of the letters, and two of them are the same only if all their draws are.\<close>

lemma NewSessionID_letters:
  assumes "drawn draw k"
  shows "\<exists>s. NewSessionID draw = Return s \<and> length s = 32 \<and> set s \<subseteq> set letters"
proof -
  have "letters ! k i \<in> set letters" for i using assms by (simp add: drawn_def)
  then show ?thesis by (auto simp: NewSessionID_def sessionStringLen_def RandString [OF assms])
qed

lemma NewSessionID_collides:
  assumes "drawn draw k" "drawn draw' k'"
  shows "NewSessionID draw = NewSessionID draw' \<longleftrightarrow> (\<forall>i < 32. k i = k' i)"
proof -
  have "letters ! k i = letters ! k' i \<longleftrightarrow> k i = k' i" for i
    using assms letters_distinct by (simp add: drawn_def nth_eq_iff_index_eq)
  then show ?thesis using assms by (simp add: NewSessionID_def sessionStringLen_def RandString Ball_def)
qed

end
