(* ===== verification/Spec2Isabelle.thy ===== *)
theory Spec2Isabelle
  imports Merger TableRun MapsRun AuthRun LlmRun BestiaryRun CharacterRun Websocket WholeRun StartupRun
    Attack RandomString
begin

text \<open>
  The backend of a tool for D&D game masters (Go, under \<open>src/\<close>; paths below are relative to
  \<open>src/internal/pkg\<close> unless they start with \<open>src/\<close>), as a shallow embedding with the theorems that
  make it correct, or say where it is not.

  \<^bold>\<open>The program.\<close> A single server. \<open>src/cmd/app/main.go\<close> reads an environment file, applies
  migrations if asked to and runs \<open>server/app.go\<close>, which reads the configuration, connects to
  Postgres, Redis, MongoDB, an object store and two gRPC services, and listens. A request goes
  through the CORS handler, the router with its middlewares (log, request data, recovery, metrics,
  and login for most routes) to a handler; a handler decodes it, calls a usecase, and answers; a
  usecase checks and calls repositories through interfaces. Encounters, maps, users and identities
  are in Postgres, login sessions in Redis, creatures, characters and map tiles in MongoDB. Two
  things go on outside of requests: the goroutines of the game tables, where the users of a table
  edit an encounter together over websockets, and those that generate creatures with a language
  model.

  \<^bold>\<open>How code is modelled.\<close> A Go struct is a record, a sentinel error a constructor of
  \<open>app_error\<close>, a pair of value and error a sum. State is passed explicitly. A function that may
  panic or block returns a \<open>go\<close> outcome. A Go interface is a record of functions over an abstract
  state, and the usecases and handlers are written over any such record. What they rely on is a
  locale, which is interpreted on the program's own repositories. Goroutines are program counters, their
  atomic steps events in any order. Failures of a database are a schedule in the state, one
  outcome per call to come: served, refused, or broken while rows are read; the theorems hold for every
  schedule unless they say \<open>healthy\<close>, which is the empty one. Library code that decides what the
  program does is translated from its vendored source: \<open>gorilla/mux\<close>, \<open>gorilla/handlers\<close>, the
  handshake of \<open>gorilla/websocket\<close>, zap's sampler, \<open>cleanenv\<close>, \<open>godotenv\<close>, and what the MongoDB
  driver makes of a document in an \<open>interface{}\<close>.

  \<^bold>\<open>Foundations.\<close>
  \<^item> \<open>Prelude\<close>: outcomes, decimal numbers, UTF-8 length, rows of tables. \<open>Strconv\<close>: \<open>strconv.Atoi\<close> and
    its round trip. \<open>Apperrors\<close>: \<open>apperrors\<close>. \<open>Responses\<close>: \<open>server/delivery/responses\<close>.
  \<^item> \<open>Json\<close>: values of \<open>encoding/json\<close>. \<open>Gojson\<close>: decoding into a struct, with case folding,
    duplicates and null. \<open>Shape\<close>: the same for structs given by their shape, for the large ones.
  \<^item> \<open>Postgres\<close>: tables of \<open>src/db/migrations\<close>, round trips and their failures,
    \<open>server/repository/dbcall\<close>. \<open>Mongo\<close>: documents, filters, cursors.

  \<^bold>\<open>Components.\<close>
  \<^item> \<open>Merger\<close> (\<open>utils/merger\<close>): the merge of a JSON patch. What it keeps, what it overrides and what
    it drops, in objects and arrays, when it fails, that it is idempotent and does not depend on the order in which Go visits a map.
  \<^item> \<open>Encounter\<close>, \<open>EncounterStorage\<close> (\<open>encounter\<close>): isolation of users, access control, the refinement
    of an abstract notebook, unchecked updates, hidden errors.
  \<^item> \<open>Session\<close>, \<open>Table\<close>, \<open>TableRun\<close> (\<open>table\<close>): the invariant of the tables under every interleaving,
    delivery of messages, what a timer does (at most 21 steps: six and three for each of
    five participants), that it only ever waits for a lock, and the three ways to bring a table or the server to
    a halt. \<open>RandomString\<close> (\<open>utils/random.go\<close>, \<open>table/usecases/infra.go\<close>): session ids have 32 letters
    and two agree only if all draws do. \<open>Websocket\<close>: the handshake behind the metrics middleware.
  \<^item> \<open>Maps\<close>, \<open>MapsStorage\<close>, \<open>MapsRun\<close> (\<open>maps\<close>): the validator against a specification, isolation, the
    round trip of a map, the bounds of a listing.
  \<^item> \<open>OAuth\<close>, \<open>Auth\<close>, \<open>AuthStorage\<close>, \<open>AuthRun\<close> (\<open>auth\<close>): the clients of the three providers; logins
    never move an identity, sessions last as long as they were made for, a logout ends them;
    linking and unlinking.
  \<^item> \<open>Creature\<close>, \<open>Bestiary\<close>, \<open>BestiaryUse\<close>, \<open>ActionValue\<close>, \<open>BestiaryRun\<close> (\<open>models/creature.go\<close>,
    \<open>models/attack.go\<close>, \<open>bestiary\<close>): creatures with their encodings, filters, storage, images, and
    the texts of actions. \<open>Attack\<close>: the enumerations of \<open>attack.go\<close>, whose names tell the values apart.
    \<open>Llm\<close>, \<open>LlmRun\<close>: the jobs; every job is finished after at most ten
    steps of its goroutine, the number of steps of the longest path through it.
  \<^item> \<open>Character\<close>, \<open>MapTiles\<close>, \<open>CharacterRun\<close>, \<open>DocumentsRun\<close> (\<open>character\<close>, \<open>maptiles\<close>, \<open>description\<close>):
    the documents in MongoDB, who sees them, and what of a sheet comes back.

  \<^bold>\<open>The server around them.\<close>
  \<^item> \<open>Logging\<close> (\<open>logger\<close>, \<open>utils/requestctx.go\<close>, \<open>utils/function.go\<close>): the request context, both
    loggers, and which lines the sampler keeps: in each window of a second the hundred first and every hundredth
    after, the numbers of \<open>zap.NewProductionConfig\<close>. \<open>Metrics\<close> (\<open>metrics\<close>): collectors and their registration.
  \<^item> \<open>Mux\<close>, \<open>Middlewares\<close>, \<open>Routers\<close>, \<open>RouterRun\<close> (\<open>middleware\<close>, \<open>server/delivery/routers\<close>): the router
    as it is built, against the flat table of the API; which handlers are behind the login; what is
    counted of a request.
  \<^item> \<open>Frames\<close>, \<open>Api\<close>, \<open>ApiRun\<close>: encounters, maps and authentication behind the router on one state:
    requests of other users, whatever they are, leave a user's encounters and maps alone; and the way of a
    request for an encounter from the wire to the table and back.
  \<^item> \<open>Whole\<close>, \<open>WholeRun\<close>: all handlers behind the routes on one state, with the goroutines of the tables
    and of the generation beside them. Requests of others, goroutines, timers, faults and the passing of
    time leave the encounters, maps and characters of a user alone. Creatures that others plant are outside
    of this (\<open>BestiaryRun\<close>). A request is one step there; the goroutines of a table interleave
    in \<open>TableRun\<close>.
  \<^item> \<open>Cors\<close>: the outermost handler with the options of \<open>server/app.go\<close>.
  \<^item> \<open>Config\<close> (\<open>config\<close>), \<open>Startup\<close>, \<open>StartupRun\<close> (\<open>src/cmd/app/main.go\<close>, \<open>src/db\<close>, \<open>server/app.go\<close>,
    \<open>server/repository/dbinit\<close>): the start as a sequence of calls to the outside that follows a plan.

  \<^bold>\<open>Parameters.\<close> What the program gets from code that is not in the repository is an argument: the
  byte level of JSON and YAML, full-text search, regular expressions and sorting of the
  databases, the OAuth providers, the language model, both gRPC services, the page of prometheus, \<open>crypto/rand\<close>, uuids and clocks,
  \<open>strconv.ParseInt\<close> and \<open>time.ParseDuration\<close> for the configuration. The rows of a
  listing of encounters, which no query sorts, come in an order that is an argument too (\<open>scan_order\<close>) and
  differs from query to query; queries that sort leave ties in the order of insertion. A document written
  of a Go map has the entries in the order of the association list that stands for the map.

  \<^bold>\<open>Not modelled.\<close> A statement that was executed but whose acknowledgement was lost; the canonical
  text of uuids and ObjectIDs given as twelve raw bytes; the encoding of log lines, their caller
  and stack; the attributes of cookies besides their value; the connection behind a websocket after it has
  been taken over, except as a channel of messages in \<open>Table\<close>; the messages \<open>main\<close> and the migrator
  print; \<open>NormalizeText\<close>, which nothing calls; the generated gRPC code; the statblock generator, which
  has no operations; mocks and test helpers.
\<close>

end
